(* ===== verification/Prelude.thy ===== *)
theory Prelude
  imports Main "HOL-Library.Word" "HOL-Library.Char_ord" "HOL-Library.List_Lexorder"
begin

text \<open>
  What every component shares: the machine integers, the errors of \<open>star9-core\<close> as values, the
  result type with its faults, the state-passing operations and their combinators, the predicates
  \<open>keeps\<close> and \<open>gives\<close> on operations, and the named collections that carry the component proofs.
\<close>

unbundle bit_operations_syntax

section \<open>Collections\<close>

named_theorems path_simps \<open>rewriting of path strings\<close>
named_theorems wire_intros \<open>a decoder reads back what an encoder wrote\<close>
named_theorems wire_parses \<open>what a successful decoder step says of the bytes it consumed\<close>
named_theorems op_simps \<open>running state-passing operations\<close>
named_theorems keeps_intros \<open>operations that keep a state predicate\<close>

section \<open>Machine integers\<close>

type_synonym u8 = "8 word"
type_synonym u16 = "16 word"
type_synonym u32 = "32 word"
type_synonym u64 = "64 word"
type_synonym bytes = "8 word list"

text \<open>
  \<open>usize\<close> is \<open>u64\<close> on the 64-bit targets the model is for; lengths and indices are \<open>nat\<close> and the
  places where the source checks them against the width say so.
\<close>

definition usize_max :: nat where
  "usize_max = 18446744073709551615"

definition isize_max :: nat where
  "isize_max = 9223372036854775807"

section \<open>Errors, results and operations\<close>

datatype error_kind =
    NotFound | AlreadyExists | Invalid | PermissionDenied | NotSupported | NotEmpty
  | Closed | NotDir | IsDir | UnexpectedEof | Other

datatype error =
    Path string string error_kind
  | Kind error_kind
  | Message string

text \<open>
  A call can return an error value, panic (unwinding, never caught by the modelled code) or recur
  without end. Only the first is an error the callers can match on.
\<close>

datatype fault = Fail error | Panic | Diverge

type_synonym 'a res = "fault + 'a"

abbreviation Ok :: "'a \<Rightarrow> 'a res" where
  "Ok x \<equiv> Inr x"

abbreviation Err :: "error \<Rightarrow> 'a res" where
  "Err e \<equiv> Inl (Fail e)"

definition rbind :: "'a res \<Rightarrow> ('a \<Rightarrow> 'b res) \<Rightarrow> 'b res" where
  "rbind r f = (case r of Inl e \<Rightarrow> Inl e | Inr x \<Rightarrow> f x)"

lemma rbind_simps [simp]: "rbind (Inl e) f = Inl e" "rbind (Inr x) f = f x"
  by (simp_all add: rbind_def)

lemma rbind_eq_Inr: "rbind r f = Inr y \<longleftrightarrow> (\<exists>x. r = Inr x \<and> f x = Inr y)"
  by (cases r) auto

type_synonym ('t, 'a) op = "'t \<Rightarrow> 'a res \<times> 't"

text \<open>
  An operation on a state keeps the changes made before an error, as the code's mutations do.
\<close>

definition ret :: "'a \<Rightarrow> ('t, 'a) op" where
  "ret x = (\<lambda>t. (Ok x, t))"

definition throw :: "fault \<Rightarrow> ('t, 'a) op" where
  "throw e = (\<lambda>t. (Inl e, t))"

definition lift_res :: "'a res \<Rightarrow> ('t, 'a) op" where
  "lift_res r = (\<lambda>t. (r, t))"

definition obind :: "('t, 'a) op \<Rightarrow> ('a \<Rightarrow> ('t, 'b) op) \<Rightarrow> ('t, 'b) op" where
  "obind m f = (\<lambda>t. case m t of (Inl e, t') \<Rightarrow> (Inl e, t') | (Inr x, t') \<Rightarrow> f x t')"

text \<open>\<open>attempt m\<close> hands an error value to the continuation, as \<^verbatim>\<open>match m { Ok .. Err .. }\<close> does.\<close>

definition attempt :: "('t, 'a) op \<Rightarrow> ('t, error + 'a) op" where
  "attempt m = (\<lambda>t. case m t of
       (Inr x, t') \<Rightarrow> (Ok (Inr x), t')
     | (Inl (Fail e), t') \<Rightarrow> (Ok (Inl e), t')
     | (Inl Panic, t') \<Rightarrow> (Inl Panic, t')
     | (Inl Diverge, t') \<Rightarrow> (Inl Diverge, t'))"

definition gets :: "('t \<Rightarrow> 'a) \<Rightarrow> ('t, 'a) op" where
  "gets f = (\<lambda>t. (Ok (f t), t))"

definition modify :: "('t \<Rightarrow> 't) \<Rightarrow> ('t, unit) op" where
  "modify f = (\<lambda>t. (Ok (), f t))"

lemmas op_defs = ret_def throw_def lift_res_def obind_def attempt_def gets_def modify_def

lemma ret_run [simp, op_simps]: "ret x t = (Ok x, t)"
  by (simp add: ret_def)

lemma throw_run [simp, op_simps]: "throw e t = (Inl e, t)"
  by (simp add: throw_def)

lemma lift_res_run [simp, op_simps]: "lift_res r t = (r, t)"
  by (simp add: lift_res_def)

lemma gets_run [simp, op_simps]: "gets f t = (Ok (f t), t)"
  by (simp add: gets_def)

lemma modify_run [simp, op_simps]: "modify f t = (Ok (), f t)"
  by (simp add: modify_def)

lemma obind_run [op_simps]:
  "obind m f t = (case fst (m t) of Inl e \<Rightarrow> (Inl e, snd (m t)) | Inr x \<Rightarrow> f x (snd (m t)))"
  by (cases "m t") (auto simp: obind_def split: sum.splits)

lemma obind_Ok [simp]: "m t = (Inr x, t') \<Longrightarrow> obind m f t = f x t'"
  by (simp add: obind_def)

lemma obind_Inl [simp]: "m t = (Inl e, t') \<Longrightarrow> obind m f t = (Inl e, t')"
  by (simp add: obind_def)

lemma obind_eq_Inr:
  "obind m f t = (Inr y, t'') \<longleftrightarrow> (\<exists>x t'. m t = (Inr x, t') \<and> f x t' = (Inr y, t''))"
  by (cases "m t") (auto simp: obind_def split: sum.splits)

lemma obind_okE:
  assumes "obind m f t = (Inr y, t'')"
  obtains x t' where "m t = (Inr x, t')" "f x t' = (Inr y, t'')"
  using assms by (auto simp: obind_eq_Inr)

lemma obind_snd:
  "snd (obind m f t) = (case fst (m t) of Inl e \<Rightarrow> snd (m t) | Inr x \<Rightarrow> snd (f x (snd (m t))))"
  by (cases "m t") (auto simp: obind_def split: sum.splits)

section \<open>State predicates an operation keeps\<close>

definition keeps :: "('t \<Rightarrow> bool) \<Rightarrow> ('t, 'a) op \<Rightarrow> bool" where
  "keeps P m \<longleftrightarrow> (\<forall>t. P t \<longrightarrow> P (snd (m t)))"

lemma keepsD: "keeps P m \<Longrightarrow> P t \<Longrightarrow> m t = (r, t') \<Longrightarrow> P t'"
  unfolding keeps_def by (metis snd_conv)

lemma keeps_apply: "keeps P m \<Longrightarrow> P t \<Longrightarrow> P (snd (m t))"
  by (simp add: keeps_def)

lemma keeps_ret [keeps_intros]: "keeps P (ret x)"
  and keeps_throw [keeps_intros]: "keeps P (throw e)"
  and keeps_lift_res [keeps_intros]: "keeps P (lift_res r)"
  and keeps_gets [keeps_intros]: "keeps P (gets f)"
  by (simp_all add: keeps_def)

lemma keeps_modify [keeps_intros]: "(\<And>t. P t \<Longrightarrow> P (f t)) \<Longrightarrow> keeps P (modify f)"
  by (simp add: keeps_def)

lemma keeps_obind [keeps_intros]: "keeps P m \<Longrightarrow> (\<And>x. keeps P (f x)) \<Longrightarrow> keeps P (obind m f)"
  by (auto simp: keeps_def obind_snd split: sum.splits)

lemma keeps_attempt [keeps_intros]: "keeps P m \<Longrightarrow> keeps P (attempt m)"
  unfolding keeps_def attempt_def by (auto split: prod.splits sum.splits fault.splits)

lemma keeps_if [keeps_intros]: "(b \<Longrightarrow> keeps P m) \<Longrightarrow> (\<not> b \<Longrightarrow> keeps P n) \<Longrightarrow> keeps P (if b then m else n)"
  by simp

lemma keeps_case_option [keeps_intros]:
  "(v = None \<Longrightarrow> keeps P m) \<Longrightarrow> (\<And>x. v = Some x \<Longrightarrow> keeps P (f x)) \<Longrightarrow>
     keeps P (case v of None \<Rightarrow> m | Some x \<Rightarrow> f x)"
  by (simp split: option.splits)

lemma keeps_case_sum [keeps_intros]:
  "(\<And>x. v = Inl x \<Longrightarrow> keeps P (f x)) \<Longrightarrow> (\<And>x. v = Inr x \<Longrightarrow> keeps P (g x)) \<Longrightarrow>
     keeps P (case v of Inl x \<Rightarrow> f x | Inr x \<Rightarrow> g x)"
  by (simp split: sum.splits)

lemma keeps_case_prod [keeps_intros]:
  "(\<And>x y. v = (x, y) \<Longrightarrow> keeps P (f x y)) \<Longrightarrow> keeps P (case v of (x, y) \<Rightarrow> f x y)"
  by (simp split: prod.splits)

text \<open>The same with a fact about the result, for the rest of a sequence to use.\<close>

definition gives :: "('t \<Rightarrow> bool) \<Rightarrow> ('t, 'a) op \<Rightarrow> ('a \<Rightarrow> bool) \<Rightarrow> bool" where
  "gives P m Q \<longleftrightarrow> (\<forall>t. P t \<longrightarrow> P (snd (m t)) \<and> (\<forall>x. fst (m t) = Inr x \<longrightarrow> Q x))"

lemma gives_keeps: "gives P m Q \<Longrightarrow> keeps P m"
  by (simp add: gives_def keeps_def)

lemma keeps_bind_gives: "gives P m Q \<Longrightarrow> (\<And>x. Q x \<Longrightarrow> keeps P (f x)) \<Longrightarrow> keeps P (obind m f)"
  by (auto simp: gives_def keeps_def obind_snd split: sum.splits)

lemma gives_bind_gives:
  "gives P m Q \<Longrightarrow> (\<And>x. Q x \<Longrightarrow> gives P (f x) R) \<Longrightarrow> gives P (obind m f) R"
  unfolding gives_def by (auto simp: obind_run split: sum.splits)

lemma gives_ret: "Q x \<Longrightarrow> gives P (ret x) Q"
  by (simp add: gives_def)

lemma gives_throw: "gives P (throw e) Q"
  by (simp add: gives_def)

lemma gives_lift_res: "(\<And>x. r = Inr x \<Longrightarrow> Q x) \<Longrightarrow> gives P (lift_res r) Q"
  by (simp add: gives_def)

lemma gives_True: "keeps P m \<Longrightarrow> gives P m (\<lambda>_. True)"
  by (simp add: gives_def keeps_def)

lemma keeps_bind_lift: "(\<And>x. r = Inr x \<Longrightarrow> keeps P (f x)) \<Longrightarrow> keeps P (obind (lift_res r) f)"
  by (rule keeps_bind_gives [OF gives_lift_res [of r "\<lambda>x. r = Inr x"]])

definition is_fault :: "'a res \<Rightarrow> bool" where
  "is_fault r = (case r of Inl Panic \<Rightarrow> True | Inl Diverge \<Rightarrow> True | _ \<Rightarrow> False)"

end
