(* ===== verification/Rust_Std.thy ===== *)
theory Rust_Std
  imports Prelude
begin

text \<open>
  The parts of the Rust standard library the sources use: \<open>str::split\<close>, \<open>split_once\<close>,
  \<open>rsplit_once\<close>, \<open>strip_prefix\<close>, \<open>trim_start_matches\<close>, \<open>join\<close>; little-endian conversion of
  integers; UTF-8 validation and lossy decoding; \<open>BTreeMap\<close> with \<open>String\<close> keys; \<open>SystemTime\<close>.
  A \<open>String\<close> is the list of its bytes, one \<open>char\<close> each, ordered lexicographically as Rust orders
  it.
\<close>

section \<open>Strings\<close>

fun split_on :: "'a \<Rightarrow> 'a list \<Rightarrow> 'a list list" where
  "split_on c [] = [[]]"
| "split_on c (x # xs) =
     (if x = c then [] # split_on c xs
      else case split_on c xs of [] \<Rightarrow> [[x]] | p # ps \<Rightarrow> (x # p) # ps)"

fun join_on :: "'a \<Rightarrow> 'a list list \<Rightarrow> 'a list" where
  "join_on c [] = []"
| "join_on c [p] = p"
| "join_on c (p # q # ps) = p @ c # join_on c (q # ps)"

fun split_once :: "'a \<Rightarrow> 'a list \<Rightarrow> ('a list \<times> 'a list) option" where
  "split_once c [] = None"
| "split_once c (x # xs) =
     (if x = c then Some ([], xs)
      else map_option (\<lambda>(a, b). (x # a, b)) (split_once c xs))"

definition rsplit_once :: "'a \<Rightarrow> 'a list \<Rightarrow> ('a list \<times> 'a list) option" where
  "rsplit_once c s = map_option (\<lambda>(a, b). (rev b, rev a)) (split_once c (rev s))"

fun strip_prefix :: "'a list \<Rightarrow> 'a list \<Rightarrow> 'a list option" where
  "strip_prefix [] s = Some s"
| "strip_prefix (p # ps) [] = None"
| "strip_prefix (p # ps) (x # xs) = (if p = x then strip_prefix ps xs else None)"

definition starts_with :: "'a list \<Rightarrow> 'a list \<Rightarrow> bool" where
  "starts_with s p \<longleftrightarrow> strip_prefix p s \<noteq> None"

definition ends_with :: "'a list \<Rightarrow> 'a list \<Rightarrow> bool" where
  "ends_with s p \<longleftrightarrow> starts_with (rev s) (rev p)"

definition trim_start_char :: "'a \<Rightarrow> 'a list \<Rightarrow> 'a list" where
  "trim_start_char c s = dropWhile (\<lambda>x. x = c) s"

lemma split_on_nonempty [simp]: "split_on c s \<noteq> []"
  by (induction s) (auto split: list.splits)

lemma split_on_no_sep: "p \<in> set (split_on c s) \<Longrightarrow> c \<notin> set p"
  by (induction s arbitrary: p) (auto split: list.splits if_splits)

lemma split_on_notin: "c \<notin> set s \<Longrightarrow> split_on c s = [s]"
  by (induction s) auto

lemma split_on_append_sep:
  "c \<notin> set p \<Longrightarrow> split_on c (p @ c # s) = p # split_on c s"
  by (induction p) auto

lemma join_on_Cons: "ps \<noteq> [] \<Longrightarrow> join_on c (p # ps) = p @ c # join_on c ps"
  by (cases ps) auto

lemma join_split_on [simp]: "join_on c (split_on c s) = s"
proof (induction s)
  case Nil
  then show ?case by simp
next
  case (Cons x s)
  obtain p ps where ps: "split_on c s = p # ps"
    by (cases "split_on c s") auto
  with Cons have "join_on c (p # ps) = s" by simp
  with ps show ?case by (cases ps) (auto simp: join_on_Cons)
qed

lemma split_join_on:
  "ps \<noteq> [] \<Longrightarrow> (\<forall>p \<in> set ps. c \<notin> set p) \<Longrightarrow> split_on c (join_on c ps) = ps"
proof (induction c ps rule: join_on.induct)
  case (3 c p q ps)
  then show ?case by (simp add: split_on_append_sep)
qed (auto simp: split_on_notin)

lemma join_on_snoc: "ps \<noteq> [] \<Longrightarrow> join_on c (ps @ [q]) = join_on c ps @ c # q"
proof (induction ps)
  case (Cons p ps)
  then show ?case by (cases ps) auto
qed simp

lemma split_once_None: "split_once c s = None \<longleftrightarrow> c \<notin> set s"
  by (induction s) auto

lemma split_once_Some:
  "split_once c s = Some (a, b) \<Longrightarrow> s = a @ c # b \<and> c \<notin> set a"
  by (induction s arbitrary: a) (auto split: if_splits)

lemma split_once_append: "c \<notin> set a \<Longrightarrow> split_once c (a @ c # b) = Some (a, b)"
  by (induction a) auto

lemma rsplit_once_None: "rsplit_once c s = None \<longleftrightarrow> c \<notin> set s"
  by (simp add: rsplit_once_def split_once_None)

lemma rsplit_once_append: "c \<notin> set b \<Longrightarrow> rsplit_once c (a @ c # b) = Some (a, b)"
  by (simp add: rsplit_once_def split_once_append)

lemma rsplit_once_Some:
  assumes "rsplit_once c s = Some (a, b)"
  shows "s = a @ c # b \<and> c \<notin> set b"
proof -
  from assms have "split_once c (rev s) = Some (rev b, rev a)"
    by (auto simp: rsplit_once_def)
  then have "rev s = rev b @ c # rev a \<and> c \<notin> set (rev b)"
    by (rule split_once_Some)
  then have "rev (rev s) = a @ c # b \<and> c \<notin> set b" by simp
  then show ?thesis by simp
qed

lemma strip_prefix_Some [simp]: "strip_prefix p s = Some r \<longleftrightarrow> s = p @ r"
  by (induction p s rule: strip_prefix.induct) auto

lemma strip_prefix_append [simp]: "strip_prefix p (p @ r) = Some r"
  by simp

lemma strip_prefix_None: "strip_prefix p s = None \<longleftrightarrow> (\<forall>r. s \<noteq> p @ r)"
  by (metis not_None_eq strip_prefix_Some)

lemma starts_with_iff: "starts_with s p \<longleftrightarrow> (\<exists>r. s = p @ r)"
  by (auto simp: starts_with_def)

lemma ends_with_iff: "ends_with s p \<longleftrightarrow> (\<exists>r. s = r @ p)"
proof -
  have "ends_with s p \<longleftrightarrow> (\<exists>r. rev s = rev p @ r)"
    by (simp add: ends_with_def starts_with_iff)
  also have "\<dots> \<longleftrightarrow> (\<exists>r. s = rev r @ p)"
    by (metis rev_append rev_rev_ident)
  also have "\<dots> \<longleftrightarrow> (\<exists>r. s = r @ p)" by (metis rev_rev_ident)
  finally show ?thesis .
qed

text \<open>Decimal and octal rendering of numbers, as \<^verbatim>\<open>format!\<close> does with \<^verbatim>\<open>{}\<close> and \<^verbatim>\<open>{:03o}\<close>.\<close>

definition digit_char :: "nat \<Rightarrow> char" where
  "digit_char d = char_of (48 + d)"

fun show_base :: "nat \<Rightarrow> nat \<Rightarrow> string" where
  "show_base b n =
     (if n < b \<or> b < 2 then [digit_char n] else show_base b (n div b) @ [digit_char (n mod b)])"

declare show_base.simps [simp del]

definition show_nat :: "nat \<Rightarrow> string" where
  "show_nat n = show_base 10 n"

definition pad_left :: "nat \<Rightarrow> char \<Rightarrow> string \<Rightarrow> string" where
  "pad_left w c s = replicate (w - length s) c @ s"

section \<open>Bytes\<close>

text \<open>\<open>to_le_bytes\<close> and \<open>from_le_bytes\<close>, over the unsigned value.\<close>

fun le_bytes :: "nat \<Rightarrow> nat \<Rightarrow> bytes" where
  "le_bytes 0 x = []"
| "le_bytes (Suc n) x = of_nat (x mod 256) # le_bytes n (x div 256)"

fun le_nat :: "bytes \<Rightarrow> nat" where
  "le_nat [] = 0"
| "le_nat (b # bs) = unat b + 256 * le_nat bs"

lemma length_le_bytes [simp]: "length (le_bytes n x) = n"
  by (induction n arbitrary: x) auto

lemma unat_u8_less [simp]: "unat (b :: u8) < 256"
  using unsigned_less [of b] by simp

lemma le_nat_less: "le_nat bs < 256 ^ length bs"
proof (induction bs)
  case (Cons b bs)
  have "unat b + 256 * le_nat bs < 256 + 256 * le_nat bs" by simp
  also have "\<dots> = 256 * Suc (le_nat bs)" by simp
  also have "\<dots> \<le> 256 * 256 ^ length bs"
    using Cons by (intro mult_le_mono2) simp
  finally show ?case by simp
qed simp

lemma le_nat_le_bytes: "x < 256 ^ n \<Longrightarrow> le_nat (le_bytes n x) = x"
proof (induction n arbitrary: x)
  case (Suc n)
  then have "x div 256 < 256 ^ n" by (simp add: less_mult_imp_div_less mult.commute)
  then have "le_nat (le_bytes n (x div 256)) = x div 256" by (rule Suc.IH)
  then show ?case by (simp add: unat_of_nat)
qed simp

lemma le_bytes_le_nat: "length bs = n \<Longrightarrow> le_bytes n (le_nat bs) = bs"
proof (induction bs arbitrary: n)
  case (Cons b bs)
  have "(unat b + 256 * le_nat bs) div 256 = le_nat bs" by simp
  moreover have "(unat b + 256 * le_nat bs) mod 256 = unat b" by simp
  ultimately show ?case using Cons by auto
qed simp

definition to_le :: "nat \<Rightarrow> 'a::len word \<Rightarrow> bytes" where
  "to_le n w = le_bytes n (unat w)"

definition of_le :: "bytes \<Rightarrow> 'a::len word" where
  "of_le bs = of_nat (le_nat bs)"

lemma length_to_le [simp]: "length (to_le n w) = n"
  by (simp add: to_le_def)

lemma of_le_to_le:
  assumes "LENGTH('a::len) = 8 * n"
  shows "of_le (to_le n (w :: 'a word)) = w"
proof -
  have "(2::nat) ^ (8 * n) = 256 ^ n" by (simp add: power_mult)
  moreover have "unat w < 2 ^ LENGTH('a)" by (rule unsigned_less)
  ultimately have "unat w < 256 ^ n" using assms by simp
  then show ?thesis by (simp add: of_le_def to_le_def le_nat_le_bytes)
qed

lemma to_le_of_le:
  assumes "LENGTH('a::len) = 8 * n" "length bs = n"
  shows "to_le n (of_le bs :: 'a word) = bs"
proof -
  have "(2::nat) ^ (8 * n) = 256 ^ n" by (simp add: power_mult)
  then have "le_nat bs < 2 ^ LENGTH('a)" using le_nat_less [of bs] assms by simp
  then have "unat (of_nat (le_nat bs) :: 'a word) = le_nat bs"
    by (simp add: unat_of_nat)
  then show ?thesis using assms by (simp add: to_le_def of_le_def le_bytes_le_nat)
qed

lemma unat_of_le:
  assumes "LENGTH('a::len) = 8 * length bs"
  shows "unat (of_le bs :: 'a word) = le_nat bs"
proof -
  have "(2::nat) ^ (8 * length bs) = 256 ^ length bs" by (simp add: power_mult)
  then have "le_nat bs < 2 ^ LENGTH('a)" using le_nat_less [of bs] assms by simp
  then show ?thesis by (simp add: of_le_def unat_of_nat)
qed

text \<open>The bytes of a string, and back.\<close>

definition as_bytes :: "string \<Rightarrow> bytes" where
  "as_bytes s = map of_char s"

definition of_bytes :: "bytes \<Rightarrow> string" where
  "of_bytes bs = map (\<lambda>b. char_of (unat b)) bs"

lemma length_as_bytes [simp]: "length (as_bytes s) = length s"
  by (simp add: as_bytes_def)

lemma length_of_bytes [simp]: "length (of_bytes bs) = length bs"
  by (simp add: of_bytes_def)

lemma unat_of_char [simp]: "unat (of_char c :: u8) = of_char c"
proof -
  have "(of_char c :: u8) = of_nat (of_char c)" by (simp add: of_nat_of_char)
  moreover have "of_char c mod (256 :: nat) = of_char c" by (rule of_char_mod_256)
  ultimately show ?thesis by (simp add: unat_of_nat)
qed

lemma of_bytes_as_bytes [simp]: "of_bytes (as_bytes s) = s"
  by (simp add: of_bytes_def as_bytes_def comp_def)

lemma as_bytes_of_bytes [simp]: "as_bytes (of_bytes bs) = bs"
proof -
  have "of_char (char_of (unat b)) = b" for b :: u8
  proof -
    have "of_char (char_of (unat b)) = (of_nat (of_char (char_of (unat b))) :: u8)"
      by (simp only: of_nat_of_char)
    also have "\<dots> = of_nat (unat b mod 256)" by (simp only: of_char_of)
    also have "\<dots> = b" by simp
    finally show ?thesis .
  qed
  then show ?thesis by (simp add: of_bytes_def as_bytes_def comp_def)
qed

lemma as_bytes_append [simp]: "as_bytes (s @ t) = as_bytes s @ as_bytes t"
  by (simp add: as_bytes_def)

text \<open>
  One step of the UTF-8 validator of the Rust core library: whether the bytes start with a
  well-formed sequence, and how many bytes the sequence (or the ill-formed prefix that
  \<open>from_utf8_lossy\<close> replaces by one U+FFFD) has. A byte past the end is read as 0.
\<close>

definition byte_at :: "bytes \<Rightarrow> nat \<Rightarrow> nat" where
  "byte_at bs i = (if i < length bs then unat (bs ! i) else 0)"

definition is_cont :: "nat \<Rightarrow> bool" where
  "is_cont b \<longleftrightarrow> 128 \<le> b \<and> b \<le> 191"

definition utf8_step :: "bytes \<Rightarrow> bool \<times> nat" where
  "utf8_step bs =
     (let b0 = byte_at bs 0; b1 = byte_at bs 1; b2 = byte_at bs 2; b3 = byte_at bs 3 in
      if b0 < 128 then (True, 1)
      else if 194 \<le> b0 \<and> b0 \<le> 223 then (if is_cont b1 then (True, 2) else (False, 1))
      else if 224 \<le> b0 \<and> b0 \<le> 239 then
        (if \<not> (if b0 = 224 then 160 \<le> b1 \<and> b1 \<le> 191
                else if b0 = 237 then 128 \<le> b1 \<and> b1 \<le> 159 else is_cont b1) then (False, 1)
         else if \<not> is_cont b2 then (False, 2) else (True, 3))
      else if 240 \<le> b0 \<and> b0 \<le> 244 then
        (if \<not> (if b0 = 240 then 144 \<le> b1 \<and> b1 \<le> 191
                else if b0 = 244 then 128 \<le> b1 \<and> b1 \<le> 143 else is_cont b1) then (False, 1)
         else if \<not> is_cont b2 then (False, 2)
         else if \<not> is_cont b3 then (False, 3) else (True, 4))
      else (False, 1))"

lemma utf8_step_pos [simp]: "0 < snd (utf8_step bs)"
  by (simp add: utf8_step_def Let_def)

lemma length_drop_less: "xs \<noteq> [] \<Longrightarrow> 0 < n \<Longrightarrow> length xs - n < length xs"
  by (cases xs) auto

function utf8_valid :: "bytes \<Rightarrow> bool" where
  "utf8_valid bs =
     (if bs = [] then True
      else if fst (utf8_step bs) then utf8_valid (drop (snd (utf8_step bs)) bs) else False)"
  by pat_completeness auto
termination
  by (relation "measure length") (auto simp: utf8_step_pos length_drop_less)

function utf8_lossy :: "bytes \<Rightarrow> bytes" where
  "utf8_lossy bs =
     (if bs = [] then []
      else (if fst (utf8_step bs) then take (snd (utf8_step bs)) bs else [0xEF, 0xBF, 0xBD])
        @ utf8_lossy (drop (snd (utf8_step bs)) bs))"
  by pat_completeness auto
termination
  by (relation "measure length") (auto simp: utf8_step_pos length_drop_less)

declare utf8_valid.simps [simp del] utf8_lossy.simps [simp del]

definition valid_str :: "string \<Rightarrow> bool" where
  "valid_str s \<longleftrightarrow> utf8_valid (as_bytes s)"

definition from_utf8 :: "bytes \<Rightarrow> string option" where
  "from_utf8 bs = (if utf8_valid bs then Some (of_bytes bs) else None)"

definition from_utf8_lossy :: "bytes \<Rightarrow> string" where
  "from_utf8_lossy bs = of_bytes (utf8_lossy bs)"

lemma from_utf8_as_bytes: "valid_str s \<Longrightarrow> from_utf8 (as_bytes s) = Some s"
  by (simp add: from_utf8_def valid_str_def)

lemma from_utf8_Some: "from_utf8 bs = Some s \<Longrightarrow> as_bytes s = bs \<and> valid_str s"
  by (auto simp: from_utf8_def valid_str_def split: if_splits)

lemma utf8_lossy_valid: "utf8_valid bs \<Longrightarrow> utf8_lossy bs = bs"
proof (induction bs rule: utf8_lossy.induct)
  case (1 bs)
  show ?case
  proof (cases "bs = []")
    case False
    with "1.prems" have "fst (utf8_step bs)" "utf8_valid (drop (snd (utf8_step bs)) bs)"
      by (auto simp: utf8_valid.simps [of bs] split: if_splits)
    with False "1.IH" show ?thesis by (simp add: utf8_lossy.simps [of bs])
  qed (simp add: utf8_lossy.simps)
qed

lemma from_utf8_lossy_as_bytes: "valid_str s \<Longrightarrow> from_utf8_lossy (as_bytes s) = s"
  by (simp add: from_utf8_lossy_def valid_str_def utf8_lossy_valid)

text \<open>Strings of ASCII characters are well formed.\<close>

lemma valid_str_ascii: "\<forall>c \<in> set s. of_char c < (128 :: nat) \<Longrightarrow> valid_str s"
proof (induction s)
  case Nil
  then show ?case unfolding valid_str_def by (subst utf8_valid.simps) (simp add: as_bytes_def)
next
  case (Cons c s)
  from Cons.prems have "utf8_step (as_bytes (c # s)) = (True, 1)"
    by (simp add: utf8_step_def byte_at_def as_bytes_def Let_def)
  moreover have "as_bytes (c # s) \<noteq> []" "drop 1 (as_bytes (c # s)) = as_bytes s"
    by (simp_all add: as_bytes_def)
  moreover have "utf8_valid (as_bytes s)"
    using Cons by (simp add: valid_str_def)
  ultimately show ?case
    unfolding valid_str_def by (subst utf8_valid.simps) simp
qed

section \<open>Splitting well-formed strings at an ASCII character\<close>

lemma byte_at_append [simp]: "i < length a \<Longrightarrow> byte_at (a @ b) i = byte_at a i"
  by (simp add: byte_at_def nth_append)

lemma byte_at_ge: "128 \<le> byte_at bs i \<Longrightarrow> i < length bs"
  by (simp add: byte_at_def split: if_splits)

text \<open>What a well-formed step says of the bytes it takes, which none of the later ones matter for.\<close>

definition seq_ok :: "nat \<Rightarrow> (nat \<Rightarrow> nat) \<Rightarrow> bool" where
  "seq_ok n b \<longleftrightarrow>
     n = 1 \<and> b 0 < 128 \<or>
     n = 2 \<and> 194 \<le> b 0 \<and> b 0 \<le> 223 \<and> is_cont (b 1) \<or>
     n = 3 \<and> 224 \<le> b 0 \<and> b 0 \<le> 239 \<and>
       (if b 0 = 224 then 160 \<le> b 1 \<and> b 1 \<le> 191 else if b 0 = 237 then 128 \<le> b 1 \<and> b 1 \<le> 159 else is_cont (b 1)) \<and>
       is_cont (b 2) \<or>
     n = 4 \<and> 240 \<le> b 0 \<and> b 0 \<le> 244 \<and>
       (if b 0 = 240 then 144 \<le> b 1 \<and> b 1 \<le> 191 else if b 0 = 244 then 128 \<le> b 1 \<and> b 1 \<le> 143 else is_cont (b 1)) \<and>
       is_cont (b 2) \<and> is_cont (b 3)"

lemma seq_ok_step:
  assumes "utf8_step bs = (True, n)"
  shows "seq_ok n (byte_at bs)"
  using assms unfolding utf8_step_def seq_ok_def Let_def by (simp split: if_split_asm)

lemma step_seq_ok:
  assumes "seq_ok n (byte_at bs)"
  shows "utf8_step bs = (True, n)"
  using assms unfolding utf8_step_def seq_ok_def Let_def
  by (elim disjE conjE) (simp_all split: if_split_asm)

lemma seq_ok_cong: "seq_ok n b \<Longrightarrow> (\<And>i. i < n \<Longrightarrow> b' i = b i) \<Longrightarrow> seq_ok n b'"
  unfolding seq_ok_def by (elim disjE conjE) (simp_all split: if_split_asm)

lemma seq_ok_cont: "seq_ok n b \<Longrightarrow> i < n \<Longrightarrow> 0 < i \<Longrightarrow> 128 \<le> b i"
proof -
  assume s: "seq_ok n b" and i: "i < n" "0 < i"
  then have "n \<le> 4" by (auto simp: seq_ok_def)
  then have "i = 1 \<or> i = 2 \<or> i = 3" using i by linarith
  then show ?thesis using s i unfolding seq_ok_def is_cont_def by (elim disjE conjE) (simp_all split: if_splits)
qed

lemma utf8_step_prefix:
  assumes "utf8_step (a @ b # c) = (True, n)" "unat b < 128" "a \<noteq> []"
  shows "n \<le> length a" "utf8_step a = (True, n)"
proof -
  have ok: "seq_ok n (byte_at (a @ b # c))" using assms(1) by (rule seq_ok_step)
  show n: "n \<le> length a"
  proof (rule ccontr)
    assume "\<not> n \<le> length a"
    then have "128 \<le> byte_at (a @ b # c) (length a)"
      using seq_ok_cont [OF ok, of "length a"] assms(3) by simp
    then show False using assms(2) by (simp add: byte_at_def)
  qed
  have "seq_ok n (byte_at a)" by (rule seq_ok_cong [OF ok]) (use n in simp)
  then show "utf8_step a = (True, n)" by (rule step_seq_ok)
qed

lemma utf8_valid_split:
  "utf8_valid (a @ b # c) \<Longrightarrow> unat b < 128 \<Longrightarrow> utf8_valid a \<and> utf8_valid c"
proof (induction "length a" arbitrary: a rule: less_induct)
  case less
  show ?case
  proof (cases "a = []")
    case True
    moreover have "utf8_step (b # c) = (True, 1)" using less by (simp add: utf8_step_def byte_at_def)
    moreover have "utf8_valid []" by (simp add: utf8_valid.simps)
    ultimately show ?thesis using less by (simp add: utf8_valid.simps [of "b # c"])
  next
    case False
    obtain n where s: "utf8_step (a @ b # c) = (True, n)" "utf8_valid (drop n (a @ b # c))"
      using less.prems by (cases "utf8_step (a @ b # c)") (auto simp: utf8_valid.simps [of "a @ b # c"] split: if_splits)
    note p = utf8_step_prefix [OF s(1) less.prems(2) False]
    have "utf8_valid (drop n a @ b # c)" using s(2) p(1) by simp
    moreover have "length (drop n a) < length a"
      using False utf8_step_pos [of a] p(2) by (simp add: length_drop_less)
    ultimately have "utf8_valid (drop n a) \<and> utf8_valid c" using less by blast
    then show ?thesis using p(2) False by (simp add: utf8_valid.simps [of a])
  qed
qed

lemma valid_str_split_on:
  assumes "valid_str s" "of_char c < (128 :: nat)" "x \<in> set (split_on c s)"
  shows "valid_str x"
  using assms(1,3)
proof (induction "length s" arbitrary: s rule: less_induct)
  case less
  show ?case
  proof (cases "c \<in> set s")
    case False
    then show ?thesis using less.prems by (simp add: split_on_notin)
  next
    case True
    then obtain a b where s: "s = a @ c # b" "c \<notin> set a" by (metis split_list_first)
    have "utf8_valid (as_bytes a @ of_char c # as_bytes b)"
      using less.prems(1) s(1) by (simp add: valid_str_def as_bytes_def)
    moreover have "unat (of_char c :: u8) < 128" using assms(2) by simp
    ultimately have "utf8_valid (as_bytes a) \<and> utf8_valid (as_bytes b)" by (rule utf8_valid_split)
    then have v: "valid_str a" "valid_str b" by (simp_all add: valid_str_def)
    have "x = a \<or> x \<in> set (split_on c b)"
      using less.prems(2) s by (simp add: split_on_append_sep)
    then show ?thesis
    proof
      assume "x \<in> set (split_on c b)"
      moreover have "length b < length s" using s(1) by simp
      ultimately show ?thesis using less.hyps v(2) by blast
    qed (simp add: v(1))
  qed
qed

end
