(* ===== verification/Btree_Map.thy ===== *)
theory Btree_Map
  imports Rust_Std
begin

text \<open>
  \<open>BTreeMap\<close> of the Rust standard library as an association list in strictly ascending key
  order, which is the order its iterators have. The interface a client relies on is the locale
  \<open>ordered_map\<close>, interpreted here on the association lists.
\<close>

type_synonym ('k, 'v) btmap = "('k \<times> 'v) list"

abbreviation bt_get :: "('k, 'v) btmap \<Rightarrow> 'k \<Rightarrow> 'v option" where
  "bt_get m k \<equiv> map_of m k"

fun bt_insert :: "'k::linorder \<Rightarrow> 'v \<Rightarrow> ('k, 'v) btmap \<Rightarrow> ('k, 'v) btmap" where
  "bt_insert k v [] = [(k, v)]"
| "bt_insert k v ((a, b) # m) =
     (if k < a then (k, v) # (a, b) # m
      else if k = a then (k, v) # m
      else (a, b) # bt_insert k v m)"

definition bt_remove :: "'k \<Rightarrow> ('k, 'v) btmap \<Rightarrow> ('k, 'v) btmap" where
  "bt_remove k m = filter (\<lambda>(a, b). a \<noteq> k) m"

definition bt_keys :: "('k, 'v) btmap \<Rightarrow> 'k list" where
  "bt_keys m = map fst m"

definition bt_values :: "('k, 'v) btmap \<Rightarrow> 'v list" where
  "bt_values m = map snd m"

definition bt_ok :: "('k::linorder, 'v) btmap \<Rightarrow> bool" where
  "bt_ok m \<longleftrightarrow> sorted_wrt (<) (bt_keys m)"

text \<open>\<open>BTreeSet\<close> as the keys alone.\<close>

type_synonym 'k btset = "('k, unit) btmap"

abbreviation bs_insert :: "'k::linorder \<Rightarrow> 'k btset \<Rightarrow> 'k btset" where
  "bs_insert k s \<equiv> bt_insert k () s"

section \<open>The interface\<close>

locale ordered_map =
  fixes emp :: "'m"
    and get :: "'m \<Rightarrow> 'k::linorder \<Rightarrow> 'v option"
    and ins :: "'k \<Rightarrow> 'v \<Rightarrow> 'm \<Rightarrow> 'm"
    and del :: "'k \<Rightarrow> 'm \<Rightarrow> 'm"
    and keys :: "'m \<Rightarrow> 'k list"
    and ok :: "'m \<Rightarrow> bool"
  assumes get_emp: "get emp k = None"
    and get_ins: "get (ins k v m) k' = (if k' = k then Some v else get m k')"
    and get_del: "get (del k m) k' = (if k' = k then None else get m k')"
    and keys_get: "k \<in> set (keys m) \<longleftrightarrow> get m k \<noteq> None"
    and ok_emp: "ok emp"
    and ok_ins: "ok m \<Longrightarrow> ok (ins k v m)"
    and ok_del: "ok m \<Longrightarrow> ok (del k m)"
    and ok_keys: "ok m \<Longrightarrow> sorted_wrt (<) (keys m)"
begin

text \<open>The key order fixes the iteration order: maps with the same keys iterate alike.\<close>

lemma keys_determined:
  assumes "ok m" "ok m'" "\<And>k. (get m k = None) = (get m' k = None)"
  shows "keys m = keys m'"
proof -
  have "set (keys m) = set (keys m')" using assms(3) by (auto simp: keys_get)
  then show ?thesis using strict_sorted_equal ok_keys [OF assms(1)] ok_keys [OF assms(2)] by metis
qed

lemma keys_distinct: "ok m \<Longrightarrow> distinct (keys m)"
  using ok_keys strict_sorted_iff by blast

lemma set_keys_ins: "set (keys (ins k v m)) = insert k (set (keys m))"
  by (auto simp: keys_get get_ins split: if_splits)

lemma set_keys_del: "set (keys (del k m)) = set (keys m) - {k}"
  by (auto simp: keys_get get_del split: if_splits)

end

section \<open>The association lists provide it\<close>

lemma bt_get_insert [simp]: "bt_get (bt_insert k v m) k' = (if k' = k then Some v else bt_get m k')"
  by (induction k v m rule: bt_insert.induct) auto

lemma bt_get_remove [simp]: "bt_get (bt_remove k m) k' = (if k' = k then None else bt_get m k')"
  by (induction m) (auto simp: bt_remove_def)

lemma set_bt_keys: "k \<in> set (bt_keys m) \<longleftrightarrow> bt_get m k \<noteq> None"
  by (auto simp: bt_keys_def map_of_eq_None_iff)

lemma bt_keys_insert: "set (bt_keys (bt_insert k v m)) = insert k (set (bt_keys m))"
  by (auto simp: set_bt_keys split: if_splits)

lemma bt_ok_insert [simp]: "bt_ok m \<Longrightarrow> bt_ok (bt_insert k v m)"
proof (induction k v m rule: bt_insert.induct)
  case (2 k v a b m)
  have ks: "set (map fst (bt_insert k v m)) = insert k (set (map fst m))"
    using bt_keys_insert [of k v m] by (simp only: bt_keys_def)
  from 2 ks show ?case
    by (auto simp: bt_ok_def bt_keys_def)
qed (simp add: bt_ok_def bt_keys_def)

lemma bt_ok_filter [simp]: "bt_ok m \<Longrightarrow> bt_ok (filter P m)"
  by (induction m) (auto simp: bt_ok_def bt_keys_def)

lemma bt_ok_remove [simp]: "bt_ok m \<Longrightarrow> bt_ok (bt_remove k m)"
  by (simp add: bt_remove_def)

lemma bt_ok_Nil [simp]: "bt_ok []"
  by (simp add: bt_ok_def bt_keys_def)

interpretation bt: ordered_map "[]" bt_get bt_insert bt_remove bt_keys bt_ok
proof unfold_locales
  fix m :: "('a, 'b) btmap"
  show "bt_ok m \<Longrightarrow> sorted_wrt (<) (bt_keys m)" by (simp add: bt_ok_def)
qed (auto simp: set_bt_keys)

lemma bt_get_in: "bt_ok m \<Longrightarrow> (k, v) \<in> set m \<longleftrightarrow> bt_get m k = Some v"
proof -
  assume "bt_ok m"
  then have "distinct (map fst m)" using bt.keys_distinct [of m] by (simp add: bt_keys_def)
  then show ?thesis by (auto dest: map_of_SomeD)
qed

section \<open>System time\<close>

text \<open>
  A \<open>SystemTime\<close> is its signed distance from the Unix epoch in nanoseconds. On Unix hosts its
  seconds are an \<open>i64\<close>, so adding a duration past that range panics, and so does
  \<open>Duration::new\<close> when the seconds carried out of the nanoseconds overflow a \<open>u64\<close>.
\<close>

type_synonym system_time = int

definition unix_epoch :: system_time where
  "unix_epoch = 0"

definition nanos_per_sec :: nat where
  "nanos_per_sec = 1000000000"

definition epoch_plus :: "u64 \<Rightarrow> u32 \<Rightarrow> system_time res" where
  "epoch_plus secs nanos =
     (let s = unat secs + unat nanos div nanos_per_sec; n = unat nanos mod nanos_per_sec in
      if s > usize_max then Inl Panic
      else if s > isize_max then Inl Panic
      else Ok (int s * int nanos_per_sec + int n))"

end
