(* ===== verification/Core.thy ===== *)
theory Core
  imports Btree_Map
begin

text \<open>
  The value types of \<open>crates/star9-core/src/lib.rs\<close>: error kinds, file modes and open flags as
  32-bit words, metadata, operation contexts, and the path functions. The lemmas show that
  \<open>clean_path\<close> produces exactly the canonical paths \<open>valid_path\<close> accepts.
\<close>

section \<open>Errors\<close>

fun kind_of :: "error \<Rightarrow> error_kind" where
  "kind_of (Path _ _ k) = k"
| "kind_of (Kind k) = k"
| "kind_of (Message _) = Other"

datatype io_kind =
    IoNotFound | IoAlreadyExists | IoPermissionDenied | IoInvalidInput | IoInvalidData
  | IoUnexpectedEof | IoOther string

fun error_of_io :: "io_kind \<Rightarrow> error" where
  "error_of_io IoNotFound = Kind NotFound"
| "error_of_io IoAlreadyExists = Kind AlreadyExists"
| "error_of_io IoPermissionDenied = Kind PermissionDenied"
| "error_of_io IoInvalidInput = Kind Invalid"
| "error_of_io IoInvalidData = Kind Invalid"
| "error_of_io IoUnexpectedEof = Kind UnexpectedEof"
| "error_of_io (IoOther msg) = Message msg"

section \<open>File modes\<close>

type_synonym file_mode = u32

definition MODE_DIR :: file_mode where "MODE_DIR = 0x80000000"
definition MODE_SYMLINK :: file_mode where "MODE_SYMLINK = 0x40000000"
definition MODE_DEVICE :: file_mode where "MODE_DEVICE = 0x20000000"
definition MODE_NAMED_PIPE :: file_mode where "MODE_NAMED_PIPE = 0x10000000"
definition MODE_SOCKET :: file_mode where "MODE_SOCKET = 0x08000000"
definition MODE_EXECUTABLE :: file_mode where "MODE_EXECUTABLE = 0x04000000"
definition PERM_MASK :: file_mode where "PERM_MASK = 0x1FF"

lemmas mode_consts = MODE_DIR_def MODE_SYMLINK_def MODE_DEVICE_def MODE_NAMED_PIPE_def
  MODE_SOCKET_def MODE_EXECUTABLE_def PERM_MASK_def

definition from_perm :: "u32 \<Rightarrow> file_mode" where
  "from_perm p = p AND PERM_MASK"

definition perm :: "file_mode \<Rightarrow> u32" where
  "perm m = m AND PERM_MASK"

definition type_bits :: "file_mode \<Rightarrow> file_mode" where
  "type_bits m = m AND NOT PERM_MASK"

definition mode_contains :: "file_mode \<Rightarrow> file_mode \<Rightarrow> bool" where
  "mode_contains m other \<longleftrightarrow> m AND other = other"

definition is_dir :: "file_mode \<Rightarrow> bool" where
  "is_dir m = mode_contains m MODE_DIR"

definition is_symlink :: "file_mode \<Rightarrow> bool" where
  "is_symlink m = mode_contains m MODE_SYMLINK"

definition with_perm :: "file_mode \<Rightarrow> u32 \<Rightarrow> file_mode" where
  "with_perm m p = (m AND NOT PERM_MASK) OR (p AND PERM_MASK)"

definition unix_type_and_perm :: "file_mode \<Rightarrow> u32" where
  "unix_type_and_perm m =
     (let typ = (if is_dir m then 0x4000
                 else if is_symlink m then 0xA000
                 else if mode_contains m MODE_NAMED_PIPE then 0x1000
                 else if mode_contains m MODE_SOCKET then 0xC000
                 else 0x8000)
      in typ OR perm m)"

definition show_mode :: "file_mode \<Rightarrow> string" where
  "show_mode m =
     (if is_dir m then CHR ''d'' else if is_symlink m then CHR ''l'' else CHR ''-'')
     # pad_left 3 (CHR ''0'') (show_base 8 (unat (perm m)))"

section \<open>Metadata and directory entries\<close>

record metadata =
  md_name :: string
  md_mode :: file_mode
  md_size :: u64
  md_modified :: system_time
  md_uid :: u32
  md_gid :: u32

definition metadata_new :: "string \<Rightarrow> file_mode \<Rightarrow> metadata" where
  "metadata_new name mode =
     (let mode = with_perm mode (perm mode);
          size = (if is_dir mode then 2 else 0)
      in \<lparr>md_name = name, md_mode = mode, md_size = size, md_modified = unix_epoch,
          md_uid = 0, md_gid = 0\<rparr>)"

definition metadata_dir :: "string \<Rightarrow> u32 \<Rightarrow> metadata" where
  "metadata_dir name p = metadata_new name (MODE_DIR OR from_perm p)"

definition metadata_file :: "string \<Rightarrow> u32 \<Rightarrow> u64 \<Rightarrow> metadata" where
  "metadata_file name p sz = (metadata_new name (from_perm p))\<lparr>md_size := sz\<rparr>"

definition metadata_symlink :: "string \<Rightarrow> u64 \<Rightarrow> metadata" where
  "metadata_symlink name sz =
     (metadata_new name (MODE_SYMLINK OR from_perm 0x1FF))\<lparr>md_size := sz\<rparr>"

definition md_is_dir :: "metadata \<Rightarrow> bool" where
  "md_is_dir md = is_dir (md_mode md)"

record dir_entry =
  de_name :: string
  de_meta :: metadata

definition dir_entry_new :: "string \<Rightarrow> metadata \<Rightarrow> dir_entry" where
  "dir_entry_new name md = \<lparr>de_name = name, de_meta = md\<rparr>"

section \<open>Operation contexts\<close>

record fs_context =
  follow_symlinks :: bool
  read_only :: bool
  origin_path :: "string option"
  filepath :: "string option"
  ctx_op :: "string option"

definition context_new :: fs_context where
  "context_new = \<lparr>follow_symlinks = True, read_only = False, origin_path = None,
                  filepath = None, ctx_op = None\<rparr>"

definition no_follow :: "fs_context \<Rightarrow> fs_context" where
  "no_follow c = c\<lparr>follow_symlinks := False\<rparr>"

definition with_read_only :: "fs_context \<Rightarrow> fs_context" where
  "with_read_only c = c\<lparr>read_only := True\<rparr>"

definition with_origin :: "string \<Rightarrow> string \<Rightarrow> fs_context \<Rightarrow> fs_context" where
  "with_origin p operation c =
     (if origin_path c = None then
        (let c = c\<lparr>origin_path := Some p, filepath := Some p, ctx_op := Some operation\<rparr> in
         if operation \<in> {''open'', ''stat'', ''readdir'', ''readlink''}
         then c\<lparr>read_only := True\<rparr> else c)
      else c)"

definition with_filepath :: "string \<Rightarrow> fs_context \<Rightarrow> fs_context" where
  "with_filepath p c = (if filepath c = None then c\<lparr>filepath := Some p\<rparr> else c)"

definition with_op :: "string \<Rightarrow> fs_context \<Rightarrow> fs_context" where
  "with_op operation c = (if ctx_op c = None then c\<lparr>ctx_op := Some operation\<rparr> else c)"

section \<open>Open flags\<close>

type_synonym open_flags = u32

definition O_RDONLY :: open_flags where "O_RDONLY = 0"
definition O_WRONLY :: open_flags where "O_WRONLY = 1"
definition O_RDWR :: open_flags where "O_RDWR = 2"
definition O_CREATE :: open_flags where "O_CREATE = 0x40"
definition O_EXCL :: open_flags where "O_EXCL = 0x80"
definition O_TRUNC :: open_flags where "O_TRUNC = 0x200"
definition O_APPEND :: open_flags where "O_APPEND = 0x400"

lemmas flag_consts = O_RDONLY_def O_WRONLY_def O_RDWR_def O_CREATE_def O_EXCL_def O_TRUNC_def
  O_APPEND_def

definition flags_contains :: "open_flags \<Rightarrow> open_flags \<Rightarrow> bool" where
  "flags_contains fl other \<longleftrightarrow> fl AND other = other"

definition is_write :: "open_flags \<Rightarrow> bool" where
  "is_write fl \<longleftrightarrow> fl AND (O_WRONLY OR O_RDWR) \<noteq> 0"

section \<open>Paths\<close>

abbreviation slash :: char where "slash \<equiv> CHR ''/''"

fun clean_parts :: "string list \<Rightarrow> string list \<Rightarrow> string list" where
  "clean_parts parts [] = parts"
| "clean_parts parts (p # ps) =
     (if p = '''' \<or> p = ''.'' then clean_parts parts ps
      else if p = ''..'' then clean_parts (butlast parts) ps
      else clean_parts (parts @ [p]) ps)"

definition clean_path :: "string \<Rightarrow> string" where
  "clean_path path =
     (if path = '''' \<or> path = ''.'' then ''.''
      else
        (let absolute = starts_with path ''/'';
             cleaned = join_on slash (clean_parts [] (split_on slash path))
         in if cleaned = '''' then ''.''
            else if absolute then trim_start_char slash cleaned
            else cleaned))"

definition valid_path :: "string \<Rightarrow> bool" where
  "valid_path path \<longleftrightarrow>
     (if path = ''.'' then True
      else if path = '''' \<or> starts_with path ''/'' \<or> ends_with path ''/'' then False
      else list_all (\<lambda>p. p \<noteq> '''' \<and> p \<noteq> ''.'' \<and> p \<noteq> ''..'') (split_on slash path))"

definition base_name :: "string \<Rightarrow> string" where
  "base_name path = last (split_on slash path)"

definition parent_path :: "string \<Rightarrow> string" where
  "parent_path path =
     (let cleaned = clean_path path in
      if cleaned = ''.'' then ''.''
      else case rsplit_once slash cleaned of
             Some (parent, _) \<Rightarrow> parent
           | None \<Rightarrow> ''.'')"

definition relative_under :: "string \<Rightarrow> string \<Rightarrow> string option" where
  "relative_under root name =
     (if root = name then Some ''.''
      else if root = ''.'' then Some (clean_path name)
      else map_option clean_path
             (Option.bind (strip_prefix root name) (strip_prefix ''/'')))"

section \<open>Lemmas: canonical paths\<close>

definition good_part :: "string \<Rightarrow> bool" where
  "good_part p \<longleftrightarrow> p \<noteq> '''' \<and> p \<noteq> ''.'' \<and> p \<noteq> ''..'' \<and> slash \<notin> set p"

definition good_parts :: "string list \<Rightarrow> bool" where
  "good_parts ps \<longleftrightarrow> ps \<noteq> [] \<and> (\<forall>p \<in> set ps. good_part p)"

lemma good_part_noslash: "good_part p \<Longrightarrow> slash \<notin> set p"
  by (simp add: good_part_def)

lemma good_parts_split: "good_parts ps \<Longrightarrow> split_on slash (join_on slash ps) = ps"
  by (rule split_join_on) (auto simp: good_parts_def good_part_def)

lemma clean_parts_good:
  assumes "\<forall>p \<in> set acc. good_part p" and "\<forall>p \<in> set ps. slash \<notin> set p"
  shows "\<forall>p \<in> set (clean_parts acc ps). good_part p"
  using assms
proof (induction acc ps rule: clean_parts.induct)
  case (2 parts p ps)
  have bl: "\<forall>q \<in> set (butlast parts). good_part q"
    using "2.prems"(1) by (auto dest: in_set_butlastD)
  consider (skip) "p = '''' \<or> p = ''.''" | (up) "p = ''..''" | (keep) "good_part p"
    using "2.prems"(2) by (auto simp: good_part_def)
  then show ?case
  proof cases
    case skip
    with "2.IH"(1) "2.prems" show ?thesis by auto
  next
    case up
    with "2.IH"(2) "2.prems" bl show ?thesis by simp
  next
    case keep
    then have "\<not> (p = '''' \<or> p = ''.'')" "p \<noteq> ''..''" by (simp_all add: good_part_def)
    with "2.IH"(3) "2.prems" keep show ?thesis by simp
  qed
qed simp

lemma clean_parts_id: "\<forall>p \<in> set ps. good_part p \<Longrightarrow> clean_parts acc ps = acc @ ps"
  by (induction ps arbitrary: acc) (auto simp: good_part_def)

lemma join_good_hd:
  assumes "good_parts ps"
  shows "\<exists>c s. join_on slash ps = c # s \<and> c \<noteq> slash"
proof -
  obtain p qs where ps: "ps = p # qs" using assms by (cases ps) (auto simp: good_parts_def)
  obtain c r where "p = c # r" "c \<noteq> slash"
    using assms ps by (cases p) (auto simp: good_parts_def good_part_def)
  then show ?thesis using ps by (cases qs) auto
qed

lemma join_good_last:
  assumes "good_parts ps"
  shows "\<exists>c s. join_on slash ps = s @ [c] \<and> c \<noteq> slash"
proof -
  obtain p qs where ps: "ps = qs @ [p]"
    using assms by (cases ps rule: rev_cases) (auto simp: good_parts_def)
  obtain c r where cr: "p = r @ [c]" "c \<noteq> slash"
    using assms ps by (cases p rule: rev_cases) (auto simp: good_parts_def good_part_def)
  then show ?thesis using ps by (cases "qs = []") (auto simp: join_on_snoc)
qed

lemma join_good_neq_dot: "good_parts ps \<Longrightarrow> join_on slash ps \<noteq> ''.''"
proof
  assume g: "good_parts ps" and j: "join_on slash ps = ''.''"
  have "ps = split_on slash (join_on slash ps)" using g by (simp add: good_parts_split)
  then have "ps = [''.'']" by (simp add: j)
  then show False using g by (simp add: good_parts_def good_part_def)
qed

lemma clean_path_form:
  "clean_path p = ''.'' \<or> (\<exists>ps. good_parts ps \<and> clean_path p = join_on slash ps)"
proof -
  let ?ps = "clean_parts [] (split_on slash p)"
  have good: "\<forall>q \<in> set ?ps. good_part q"
    by (rule clean_parts_good) (auto dest: split_on_no_sep)
  show ?thesis
  proof (cases "?ps = []")
    case False
    with good have g: "good_parts ?ps" by (simp add: good_parts_def)
    then obtain c s where "join_on slash ?ps = c # s" "c \<noteq> slash"
      by (metis join_good_hd)
    then show ?thesis using g by (auto simp: clean_path_def Let_def trim_start_char_def)
  qed (simp add: clean_path_def)
qed

lemma valid_path_form:
  "valid_path p \<longleftrightarrow> p = ''.'' \<or> (\<exists>ps. good_parts ps \<and> p = join_on slash ps)"
proof
  assume v: "valid_path p"
  show "p = ''.'' \<or> (\<exists>ps. good_parts ps \<and> p = join_on slash ps)"
  proof (cases "p = ''.''")
    case False
    with v have "list_all (\<lambda>p. p \<noteq> '''' \<and> p \<noteq> ''.'' \<and> p \<noteq> ''..'') (split_on slash p)"
      by (auto simp: valid_path_def split: if_splits)
    then have "good_parts (split_on slash p)"
      by (auto simp: good_parts_def good_part_def list_all_iff dest: split_on_no_sep)
    then show ?thesis by (metis join_split_on)
  qed simp
next
  assume "p = ''.'' \<or> (\<exists>ps. good_parts ps \<and> p = join_on slash ps)"
  then show "valid_path p"
  proof
    assume "\<exists>ps. good_parts ps \<and> p = join_on slash ps"
    then obtain ps where g: "good_parts ps" and p: "p = join_on slash ps" by blast
    obtain c r where h: "p = c # r" "c \<noteq> slash" using join_good_hd [OF g] p by blast
    obtain d q where l: "p = q @ [d]" "d \<noteq> slash" using join_good_last [OF g] p by blast
    have "p \<noteq> ''''" "\<not> starts_with p ''/''" using h by (auto simp: starts_with_iff)
    moreover have "\<not> ends_with p ''/''" using l by (auto simp: ends_with_iff)
    moreover have "list_all (\<lambda>p. p \<noteq> '''' \<and> p \<noteq> ''.'' \<and> p \<noteq> ''..'') (split_on slash p)"
      using g p by (auto simp: good_parts_split list_all_iff good_parts_def good_part_def)
    ultimately show ?thesis by (simp add: valid_path_def)
  qed (simp add: valid_path_def)
qed

lemma valid_clean [simp, path_simps]: "valid_path (clean_path p)"
  using clean_path_form by (auto simp: valid_path_form)

lemma clean_join: "good_parts ps \<Longrightarrow> clean_path (join_on slash ps) = join_on slash ps"
proof -
  assume g: "good_parts ps"
  have "clean_parts [] ps = ps" using g clean_parts_id [of ps "[]"] by (simp add: good_parts_def)
  moreover obtain c s where "join_on slash ps = c # s" "c \<noteq> slash"
    using join_good_hd [OF g] by blast
  ultimately show ?thesis
    using good_parts_split [OF g] by (simp add: clean_path_def Let_def trim_start_char_def)
qed

lemma clean_valid [path_simps]: "valid_path p \<Longrightarrow> clean_path p = p"
  by (auto simp: valid_path_form clean_join) (simp add: clean_path_def)

lemma clean_clean [simp, path_simps]: "clean_path (clean_path p) = clean_path p"
  by (simp add: clean_valid)

lemma valid_dot [simp]: "valid_path ''.''"
  by (simp add: valid_path_def)

lemma clean_dot [simp]: "clean_path ''.'' = ''.''"
  by (simp add: clean_path_def)

lemma good_part_valid: "good_part p \<Longrightarrow> valid_path p"
  by (auto simp: valid_path_form good_parts_def intro!: exI [of _ "[p]"])

lemma parent_join:
  assumes "good_parts (ps @ [q])"
  shows "parent_path (join_on slash (ps @ [q])) = (if ps = [] then ''.'' else join_on slash ps)"
proof -
  have q: "slash \<notin> set q" using assms by (auto simp: good_parts_def good_part_def)
  have "join_on slash (ps @ [q]) \<noteq> ''.''" using assms by (rule join_good_neq_dot)
  then have "parent_path (join_on slash (ps @ [q])) =
      (case rsplit_once slash (join_on slash (ps @ [q])) of Some (a, _) \<Rightarrow> a | None \<Rightarrow> ''.'')"
    by (simp add: parent_path_def clean_join [OF assms] Let_def)
  also have "\<dots> = (if ps = [] then ''.'' else join_on slash ps)"
  proof (cases "ps = []")
    case True
    then show ?thesis using q rsplit_once_None [of slash q] by simp
  next
    case False
    then show ?thesis using q by (simp add: join_on_snoc rsplit_once_append)
  qed
  finally show ?thesis .
qed

lemma parent_clean [simp, path_simps]: "parent_path (clean_path p) = parent_path p"
  by (simp add: parent_path_def)

lemma good_parts_butlast: "good_parts (ps @ [q]) \<Longrightarrow> ps \<noteq> [] \<Longrightarrow> good_parts ps"
  by (simp add: good_parts_def)

lemma valid_parent [simp, path_simps]: "valid_path (parent_path p)"
proof (cases "clean_path p = ''.''")
  case False
  then obtain ps where g: "good_parts ps" and c: "clean_path p = join_on slash ps"
    using clean_path_form by blast
  then obtain qs q where ps: "ps = qs @ [q]"
    by (cases ps rule: rev_cases) (auto simp: good_parts_def)
  have "parent_path p = parent_path (clean_path p)" by simp
  also have "\<dots> = (if qs = [] then ''.'' else join_on slash qs)"
    using parent_join g c ps by simp
  finally show ?thesis
    using g ps good_parts_butlast by (auto simp: valid_path_form)
qed (simp add: parent_path_def)

lemma base_join: "good_parts (ps @ [q]) \<Longrightarrow> base_name (join_on slash (ps @ [q])) = q"
  by (simp add: base_name_def good_parts_split)

lemma parent_base:
  assumes "valid_path p" "p \<noteq> ''.''"
  shows "good_part (base_name p) \<and>
    p = (if parent_path p = ''.'' then base_name p else parent_path p @ ''/'' @ base_name p)"
proof -
  obtain ps where g: "good_parts ps" and p: "p = join_on slash ps"
    using assms valid_path_form by blast
  then obtain qs q where ps: "ps = qs @ [q]"
    by (cases ps rule: rev_cases) (auto simp: good_parts_def)
  have base: "base_name p = q" using base_join g p ps by simp
  have par: "parent_path p = (if qs = [] then ''.'' else join_on slash qs)"
    using parent_join g p ps by simp
  have "good_part q" using g ps by (simp add: good_parts_def)
  moreover have "qs \<noteq> [] \<Longrightarrow> join_on slash qs \<noteq> ''.''"
    using g ps good_parts_butlast join_good_neq_dot by blast
  ultimately show ?thesis using base par p ps by (auto simp: join_on_snoc)
qed

lemma append_part:
  assumes "valid_path b" "good_part n" "b \<noteq> ''.''"
  shows "\<exists>ps. good_parts (ps @ [n]) \<and> ps \<noteq> [] \<and> b = join_on slash ps
      \<and> b @ ''/'' @ n = join_on slash (ps @ [n])"
proof -
  obtain ps where "good_parts ps" "b = join_on slash ps"
    using assms valid_path_form by blast
  then show ?thesis using assms(2)
    by (intro exI [of _ ps]) (auto simp: good_parts_def join_on_snoc)
qed

lemma valid_append_part: "valid_path b \<Longrightarrow> good_part n \<Longrightarrow> b \<noteq> ''.'' \<Longrightarrow> valid_path (b @ ''/'' @ n)"
  using append_part [of b n] valid_path_form by metis

lemma parent_append_part:
  "valid_path b \<Longrightarrow> good_part n \<Longrightarrow> b \<noteq> ''.'' \<Longrightarrow> parent_path (b @ ''/'' @ n) = b"
  using append_part [of b n] parent_join by metis

lemma base_append_part:
  "valid_path b \<Longrightarrow> good_part n \<Longrightarrow> b \<noteq> ''.'' \<Longrightarrow> base_name (b @ ''/'' @ n) = n"
  using append_part [of b n] base_join by metis

lemma parent_part: "good_part n \<Longrightarrow> parent_path n = ''.''"
  using parent_join [of "[]" n] by (simp add: good_parts_def)

lemma base_part: "good_part n \<Longrightarrow> base_name n = n"
  by (simp add: base_name_def good_part_def split_on_notin)

section \<open>Lemmas: modes\<close>

lemma perm_with_perm [simp]: "perm (with_perm m p) = p AND PERM_MASK"
  by (rule bit_word_eqI) (auto simp: perm_def with_perm_def bit_simps)

lemma type_bits_with_perm [simp]: "type_bits (with_perm m p) = type_bits m"
  by (rule bit_word_eqI) (auto simp: type_bits_def with_perm_def bit_simps)

lemma with_perm_perm [simp]: "with_perm m (perm m) = m"
  by (rule bit_word_eqI) (auto simp: perm_def with_perm_def bit_simps)

lemma type_or_perm: "type_bits m OR from_perm p = with_perm m p"
  by (simp add: type_bits_def from_perm_def with_perm_def)

lemma is_dir_dir_or [simp]: "is_dir (MODE_DIR OR m)"
  by (auto simp: is_dir_def mode_contains_def intro!: bit_word_eqI simp: bit_simps)

lemma metadata_dir_is_dir [simp]: "md_is_dir (metadata_dir name p)"
  by (simp add: metadata_dir_def metadata_new_def md_is_dir_def Let_def)

lemma metadata_dir_name [simp]: "md_name (metadata_dir name p) = name"
  by (simp add: metadata_dir_def metadata_new_def Let_def)

end
