(* ===== verification/Wire.thy ===== *)
theory Wire
  imports Core
begin

text \<open>
  The byte-level layer of \<open>crates/star9-protocol/src/p9.rs\<close>: the \<open>put_*\<close> writers, the \<open>Decoder\<close>
  cursor and the frame header. The locale \<open>wire_codec\<close> is the contract between a writer and the
  reader of the same field: what one writes the other reads back, and what the reader accepts
  the writer produces. It is interpreted on every field the protocol has; the lemmas for
  counted sequences are proved once inside it.
\<close>

section \<open>Writers\<close>

definition put_u8 :: "bytes \<Rightarrow> u8 \<Rightarrow> bytes" where
  "put_u8 out v = out @ [v]"

definition put_u16 :: "bytes \<Rightarrow> u16 \<Rightarrow> bytes" where
  "put_u16 out v = out @ to_le 2 v"

definition put_u32 :: "bytes \<Rightarrow> u32 \<Rightarrow> bytes" where
  "put_u32 out v = out @ to_le 4 v"

definition put_u64 :: "bytes \<Rightarrow> u64 \<Rightarrow> bytes" where
  "put_u64 out v = out @ to_le 8 v"

definition try_u16 :: "nat \<Rightarrow> u16 res" where
  "try_u16 n = (if n < 65536 then Ok (of_nat n) else Err (Kind Invalid))"

definition try_u32 :: "nat \<Rightarrow> u32 res" where
  "try_u32 n = (if n < 4294967296 then Ok (of_nat n) else Err (Kind Invalid))"

text \<open>The same comparison over binary integers, for evaluation.\<close>

lemma try_code [code]:
  "try_u16 n = (if int n < 65536 then Ok (of_nat n) else Err (Kind Invalid))"
  "try_u32 n = (if int n < 4294967296 then Ok (of_nat n) else Err (Kind Invalid))"
  by (simp_all add: try_u16_def try_u32_def)

definition put_string :: "bytes \<Rightarrow> string \<Rightarrow> bytes res" where
  "put_string out value =
     rbind (try_u16 (length value)) (\<lambda>len. Ok (put_u16 out len @ as_bytes value))"

definition put_counted_data :: "bytes \<Rightarrow> bytes \<Rightarrow> bytes res" where
  "put_counted_data out payload =
     rbind (try_u32 (length payload)) (\<lambda>len. Ok (put_u32 out len @ payload))"

text \<open>A \<^verbatim>\<open>for\<close> loop that writes each element, leaving at the first error.\<close>

fun put_each :: "(bytes \<Rightarrow> 'a \<Rightarrow> bytes res) \<Rightarrow> bytes \<Rightarrow> 'a list \<Rightarrow> bytes res" where
  "put_each put out [] = Ok out"
| "put_each put out (x # xs) = rbind (put out x) (\<lambda>out. put_each put out xs)"

section \<open>The decoder\<close>

record decoder =
  dec_data :: bytes
  dec_offset :: nat

type_synonym 'a dec = "decoder \<Rightarrow> ('a \<times> decoder) res"

definition dret :: "'a \<Rightarrow> 'a dec" where
  "dret x = (\<lambda>d. Ok (x, d))"

definition dbind :: "'a dec \<Rightarrow> ('a \<Rightarrow> 'b dec) \<Rightarrow> 'b dec" where
  "dbind m f = (\<lambda>d. rbind (m d) (\<lambda>(x, d'). f x d'))"

definition dec_new :: "bytes \<Rightarrow> decoder" where
  "dec_new bs = \<lparr>dec_data = bs, dec_offset = 0\<rparr>"

definition dec_is_empty :: "decoder \<Rightarrow> bool" where
  "dec_is_empty d \<longleftrightarrow> dec_offset d = length (dec_data d)"

definition dec_finish :: "decoder \<Rightarrow> unit res" where
  "dec_finish d = (if dec_is_empty d then Ok () else Err (Kind Invalid))"

definition dec_bytes :: "nat \<Rightarrow> bytes dec" where
  "dec_bytes len d =
     (let end = dec_offset d + len in
      if end > usize_max then Err (Kind Invalid)
      else if end > length (dec_data d) then Err (Kind UnexpectedEof)
      else Ok (take len (drop (dec_offset d) (dec_data d)), d\<lparr>dec_offset := end\<rparr>))"

lemma dec_bytes_code [code]:
  "dec_bytes len d =
     (let end = dec_offset d + len in
      if int end > 18446744073709551615 then Err (Kind Invalid)
      else if end > length (dec_data d) then Err (Kind UnexpectedEof)
      else Ok (take len (drop (dec_offset d) (dec_data d)), d\<lparr>dec_offset := end\<rparr>))"
proof -
  have "end > usize_max \<longleftrightarrow> int end > 18446744073709551615" for "end" unfolding usize_max_def by linarith
  then show ?thesis by (simp only: dec_bytes_def)
qed

definition dec_u8 :: "u8 dec" where
  "dec_u8 = dbind (dec_bytes 1) (\<lambda>bs. dret (bs ! 0))"

definition dec_u16 :: "u16 dec" where
  "dec_u16 = dbind (dec_bytes 2) (\<lambda>bs. dret (of_le bs))"

definition dec_u32 :: "u32 dec" where
  "dec_u32 = dbind (dec_bytes 4) (\<lambda>bs. dret (of_le bs))"

definition dec_u64 :: "u64 dec" where
  "dec_u64 = dbind (dec_bytes 8) (\<lambda>bs. dret (of_le bs))"

definition dec_string :: "string dec" where
  "dec_string =
     dbind dec_u16 (\<lambda>len.
     dbind (dec_bytes (unat len)) (\<lambda>bs d.
       case from_utf8 bs of Some s \<Rightarrow> Ok (s, d) | None \<Rightarrow> Err (Kind Invalid)))"

definition dec_counted_data :: "bytes dec" where
  "dec_counted_data = dbind dec_u32 (\<lambda>len. dec_bytes (unat len))"

fun dec_times :: "nat \<Rightarrow> 'a dec \<Rightarrow> 'a list dec" where
  "dec_times 0 m = dret []"
| "dec_times (Suc n) m = dbind m (\<lambda>x. dbind (dec_times n m) (\<lambda>xs. dret (x # xs)))"

section \<open>Frames\<close>

definition encode_frame :: "u8 \<Rightarrow> u16 \<Rightarrow> bytes \<Rightarrow> bytes res" where
  "encode_frame typ tag body =
     rbind (try_u32 (7 + length body)) (\<lambda>size.
       Ok (put_u16 (put_u8 (put_u32 [] size) typ) tag @ body))"

definition decode_frame :: "bytes \<Rightarrow> (u8 \<times> u16 \<times> decoder) res" where
  "decode_frame frame =
     (if length frame < 7 then Err (Kind Invalid)
      else
        (let size = unat (of_le (take 4 frame) :: u32) in
         if size \<noteq> length frame \<or> size < 7 then Err (Kind Invalid)
         else Ok (frame ! 4, of_le (take 2 (drop 5 frame)), dec_new (drop 7 frame))))"

section \<open>Reading and writing as relations\<close>

definition remaining :: "decoder \<Rightarrow> bytes" where
  "remaining d = drop (dec_offset d) (dec_data d)"

definition dec_ok :: "decoder \<Rightarrow> bool" where
  "dec_ok d \<longleftrightarrow> dec_offset d \<le> length (dec_data d) \<and> length (dec_data d) \<le> isize_max"

definition reads :: "'a dec \<Rightarrow> decoder \<Rightarrow> 'a \<Rightarrow> bytes \<Rightarrow> bool" where
  "reads m d x r \<longleftrightarrow> (\<exists>d'. m d = Ok (x, d') \<and> dec_ok d' \<and> remaining d' = r)"

definition writes :: "(bytes \<Rightarrow> 'a \<Rightarrow> bytes res) \<Rightarrow> 'a \<Rightarrow> bytes \<Rightarrow> bool" where
  "writes put x bs \<longleftrightarrow> (\<forall>out. put out x = Ok (out @ bs))"

text \<open>\<open>consumed d bs d'\<close>: from \<open>d\<close> to \<open>d'\<close> the cursor moved over \<open>bs\<close>.\<close>

definition consumed :: "decoder \<Rightarrow> bytes \<Rightarrow> decoder \<Rightarrow> bool" where
  "consumed d bs d' \<longleftrightarrow> dec_ok d' \<and> remaining d = bs @ remaining d'"

lemma dec_new_ok [simp]: "length bs \<le> isize_max \<Longrightarrow> dec_ok (dec_new bs)"
  by (simp add: dec_ok_def dec_new_def)

lemma remaining_new [simp]: "remaining (dec_new bs) = bs"
  by (simp add: remaining_def dec_new_def)

lemma dec_is_empty_iff: "dec_ok d \<Longrightarrow> dec_is_empty d \<longleftrightarrow> remaining d = []"
  by (auto simp: dec_is_empty_def dec_ok_def remaining_def)

lemma dec_finish_Ok: "dec_ok d \<Longrightarrow> dec_finish d = Ok () \<longleftrightarrow> remaining d = []"
  by (simp add: dec_finish_def dec_is_empty_iff)

lemma length_remaining: "dec_ok d \<Longrightarrow> length (remaining d) = length (dec_data d) - dec_offset d"
  by (simp add: remaining_def)

lemma reads_dret [wire_intros]:
  "dec_ok d \<Longrightarrow> remaining d = r \<Longrightarrow> y = x \<Longrightarrow> reads (dret y) d x r"
  by (simp add: reads_def dret_def)

lemma reads_dbind:
  assumes "reads m d x r" and "\<And>d'. dec_ok d' \<Longrightarrow> remaining d' = r \<Longrightarrow> reads (f x) d' y r'"
  shows "reads (dbind m f) d y r'"
  using assms by (fastforce simp: reads_def dbind_def)

lemma dbind_Ok:
  "dbind m f d = Ok (y, d'') \<longleftrightarrow> (\<exists>x d'. m d = Ok (x, d') \<and> f x d' = Ok (y, d''))"
  by (auto simp: dbind_def rbind_eq_Inr)

lemma dret_Ok [simp]: "dret x d = Ok (y, d') \<longleftrightarrow> y = x \<and> d' = d"
  by (auto simp: dret_def)

lemma consumed_trans:
  "consumed d bs d' \<Longrightarrow> consumed d' cs d'' \<Longrightarrow> consumed d (bs @ cs) d''"
  by (simp add: consumed_def)

lemma consumed_refl: "dec_ok d \<Longrightarrow> consumed d [] d"
  by (simp add: consumed_def)

lemma consumed_ok: "consumed d bs d' \<Longrightarrow> dec_ok d'"
  by (simp add: consumed_def)

lemma reads_bytes:
  assumes "dec_ok d" "remaining d = bs @ r" "length bs = n"
  shows "reads (dec_bytes n) d bs r"
proof -
  let ?d' = "d\<lparr>dec_offset := dec_offset d + n\<rparr>"
  have len: "dec_offset d + n \<le> length (dec_data d)"
    using length_remaining [OF assms(1)] assms by (auto simp: dec_ok_def)
  have "take n (drop (dec_offset d) (dec_data d)) = bs"
    using assms(2,3) by (simp add: remaining_def)
  then have "dec_bytes n d = Ok (bs, ?d')"
    using len assms(1) by (simp add: dec_bytes_def Let_def dec_ok_def isize_max_def usize_max_def)
  moreover have "dec_ok ?d'" using len assms(1) by (simp add: dec_ok_def)
  moreover have "remaining ?d' = r"
  proof -
    have "remaining ?d' = drop n (remaining d)" by (simp add: remaining_def add.commute)
    then show ?thesis using assms by simp
  qed
  ultimately show ?thesis unfolding reads_def by blast
qed

lemma dec_bytes_consumed:
  assumes "dec_ok d" "dec_bytes n d = Ok (bs, d')"
  shows "consumed d bs d' \<and> length bs = n"
proof -
  from assms(2) have le: "dec_offset d + n \<le> length (dec_data d)"
    and bs: "bs = take n (drop (dec_offset d) (dec_data d))"
    and d': "d' = d\<lparr>dec_offset := dec_offset d + n\<rparr>"
    by (auto simp: dec_bytes_def Let_def split: if_splits)
  have "remaining d' = drop n (remaining d)" by (simp add: remaining_def d' add.commute)
  moreover have "bs = take n (remaining d)" by (simp add: bs remaining_def)
  ultimately have "remaining d = bs @ remaining d'" by simp
  moreover have "dec_ok d'" using le d' assms(1) by (simp add: dec_ok_def)
  moreover have "length bs = n" using le bs by simp
  ultimately show ?thesis by (simp add: consumed_def)
qed

section \<open>The contract of a field\<close>

locale wire_codec =
  fixes put :: "bytes \<Rightarrow> 'a \<Rightarrow> bytes res"
    and get :: "'a dec"
    and good :: "'a \<Rightarrow> bool"
  assumes put_appends: "put out x = Ok out' \<Longrightarrow> \<exists>bs. out' = out @ bs \<and> writes put x bs"
    and get_back: "writes put x bs \<Longrightarrow> good x \<Longrightarrow> dec_ok d \<Longrightarrow> remaining d = bs @ r \<Longrightarrow>
        reads get d x r"
    and get_canonical: "dec_ok d \<Longrightarrow> get d = Ok (x, d') \<Longrightarrow>
        good x \<and> (\<exists>bs. writes put x bs \<and> consumed d bs d')"
begin

lemma put_each_appends:
  "put_each put out xs = Ok out' \<Longrightarrow> \<exists>bs. out' = out @ bs \<and> writes (put_each put) xs bs"
proof (induction xs arbitrary: out)
  case Nil
  then show ?case by (simp add: writes_def)
next
  case (Cons x xs)
  then obtain out1 where p: "put out x = Ok out1" and q: "put_each put out1 xs = Ok out'"
    by (auto simp: rbind_eq_Inr)
  obtain bs where bs: "out1 = out @ bs" "writes put x bs" using put_appends [OF p] by blast
  obtain cs where cs: "out' = out1 @ cs" "writes (put_each put) xs cs" using Cons.IH [OF q] by blast
  show ?case
    using bs cs by (intro exI [of _ "bs @ cs"]) (simp add: writes_def)
qed

lemma writes_Cons:
  assumes "writes (put_each put) (x # xs) bs"
  shows "\<exists>b c. writes put x b \<and> writes (put_each put) xs c \<and> bs = b @ c"
proof -
  have "put_each put [] (x # xs) = Ok bs" using assms by (simp add: writes_def)
  then obtain out1 where p: "put [] x = Ok out1" and q: "put_each put out1 xs = Ok bs"
    by (auto simp: rbind_eq_Inr)
  obtain b where b: "out1 = [] @ b" "writes put x b" using put_appends [OF p] by blast
  obtain c where c: "bs = out1 @ c" "writes (put_each put) xs c"
    using put_each_appends [OF q] by blast
  show ?thesis using b c by auto
qed

lemma times_back:
  "writes (put_each put) xs bs \<Longrightarrow> (\<forall>x \<in> set xs. good x) \<Longrightarrow> dec_ok d \<Longrightarrow>
     remaining d = bs @ r \<Longrightarrow> n = length xs \<Longrightarrow> reads (dec_times n get) d xs r"
proof (induction xs arbitrary: bs d n)
  case Nil
  then have "bs = []" by (auto simp: writes_def)
  with Nil show ?case by (auto intro: reads_dret)
next
  case (Cons x xs)
  obtain b c where w: "writes put x b" "writes (put_each put) xs c" and bs: "bs = b @ c"
    using writes_Cons [OF Cons.prems(1)] by blast
  have "reads get d x (c @ r)"
    using w(1) Cons.prems bs by (intro get_back) auto
  moreover have "reads (dbind (dec_times (length xs) get) (\<lambda>xs. dret (x # xs))) d' (x # xs) r"
    if "dec_ok d'" "remaining d' = c @ r" for d'
  proof (rule reads_dbind)
    show "reads (dec_times (length xs) get) d' xs r"
      using that w(2) Cons.prems(2) by (intro Cons.IH) auto
  qed (simp add: reads_dret)
  ultimately show ?case using Cons.prems(5) by (auto intro: reads_dbind)
qed

lemma times_canonical:
  "dec_ok d \<Longrightarrow> dec_times n get d = Ok (xs, d') \<Longrightarrow>
     (\<forall>x \<in> set xs. good x) \<and> length xs = n \<and>
     (\<exists>bs. writes (put_each put) xs bs \<and> consumed d bs d')"
proof (induction n arbitrary: d xs)
  case 0
  then show ?case by (auto simp: writes_def consumed_def)
next
  case (Suc n)
  then obtain x ys d1 where g: "get d = Ok (x, d1)"
    and t: "dec_times n get d1 = Ok (ys, d')" and xs: "xs = x # ys"
    by (auto simp: dbind_Ok)
  obtain b where b: "good x" "writes put x b" "consumed d b d1"
    using get_canonical [OF Suc.prems(1) g] by blast
  obtain c where c: "\<forall>x \<in> set ys. good x" "length ys = n" "writes (put_each put) ys c"
    "consumed d1 c d'"
    using Suc.IH [OF consumed_ok [OF b(3)] t] by blast
  show ?case
    using b c xs consumed_trans [OF b(3) c(4)]
    by (auto intro!: exI [of _ "b @ c"] simp: writes_def)
qed

end

section \<open>The primitive fields\<close>

lemma reads_u8 [wire_intros]:
  assumes "dec_ok d" "remaining d = x # r"
  shows "reads dec_u8 d x r"
  unfolding dec_u8_def
proof (rule reads_dbind)
  show "reads (dec_bytes 1) d [x] r" using assms by (intro reads_bytes) auto
next
  fix d' assume "dec_ok d'" "remaining d' = r"
  then show "reads (dret ([x] ! 0)) d' x r" by (simp add: reads_dret)
qed

lemma reads_word:
  assumes "LENGTH('a::len) = 8 * n" and "dec_ok d" "remaining d = to_le n (x :: 'a word) @ r"
  shows "reads (dbind (dec_bytes n) (\<lambda>bs. dret (of_le bs))) d x r"
proof (rule reads_dbind)
  show "reads (dec_bytes n) d (to_le n x) r" using assms by (intro reads_bytes) auto
next
  fix d' assume "dec_ok d'" "remaining d' = r"
  then show "reads (dret (of_le (to_le n x))) d' x r"
    using assms(1) by (simp add: of_le_to_le reads_dret)
qed

lemma reads_u16 [wire_intros]: "dec_ok d \<Longrightarrow> remaining d = to_le 2 x @ r \<Longrightarrow> reads dec_u16 d x r"
  unfolding dec_u16_def by (rule reads_word) simp_all

lemma reads_u32 [wire_intros]: "dec_ok d \<Longrightarrow> remaining d = to_le 4 x @ r \<Longrightarrow> reads dec_u32 d x r"
  unfolding dec_u32_def by (rule reads_word) simp_all

lemma reads_u64 [wire_intros]: "dec_ok d \<Longrightarrow> remaining d = to_le 8 x @ r \<Longrightarrow> reads dec_u64 d x r"
  unfolding dec_u64_def by (rule reads_word) simp_all

definition string_bytes :: "string \<Rightarrow> bytes" where
  "string_bytes s = to_le 2 (of_nat (length s) :: u16) @ as_bytes s"

definition data_bytes :: "bytes \<Rightarrow> bytes" where
  "data_bytes bs = to_le 4 (of_nat (length bs) :: u32) @ bs"

lemma put_string_Ok [simp]: "length s < 65536 \<Longrightarrow> put_string out s = Ok (out @ string_bytes s)"
  by (simp add: put_string_def try_u16_def put_u16_def string_bytes_def)

lemma put_string_iff:
  "put_string out s = Ok out' \<longleftrightarrow> length s < 65536 \<and> out' = out @ string_bytes s"
  by (auto simp: put_string_def try_u16_def put_u16_def string_bytes_def)

lemma put_data_iff:
  "put_counted_data out bs = Ok out' \<longleftrightarrow> length bs < 4294967296 \<and> out' = out @ data_bytes bs"
  by (auto simp: put_counted_data_def try_u32_def put_u32_def data_bytes_def)

lemma reads_string [wire_intros]:
  assumes "dec_ok d" "remaining d = string_bytes s @ r" "valid_str s" "length s < 65536"
  shows "reads dec_string d s r"
  unfolding dec_string_def
proof (rule reads_dbind)
  show "reads dec_u16 d (of_nat (length s)) (as_bytes s @ r)"
    using assms by (intro reads_u16) (auto simp: string_bytes_def)
next
  fix d' assume d': "dec_ok d'" "remaining d' = as_bytes s @ r"
  have n: "unat (of_nat (length s) :: u16) = length s"
    using assms(4) by (simp add: unat_of_nat)
  show "reads (dbind (dec_bytes (unat (of_nat (length s) :: u16)))
      (\<lambda>bs d. case from_utf8 bs of Some s \<Rightarrow> Ok (s, d) | None \<Rightarrow> Err (Kind Invalid))) d' s r"
  proof (rule reads_dbind)
    show "reads (dec_bytes (unat (of_nat (length s) :: u16))) d' (as_bytes s) r"
      using d' n by (intro reads_bytes) auto
  qed (simp add: reads_def from_utf8_as_bytes [OF assms(3)])
qed

lemma reads_data [wire_intros]:
  assumes "dec_ok d" "remaining d = data_bytes bs @ r" "length bs < 4294967296"
  shows "reads dec_counted_data d bs r"
  unfolding dec_counted_data_def
proof (rule reads_dbind)
  show "reads dec_u32 d (of_nat (length bs)) (bs @ r)"
    using assms by (intro reads_u32) (auto simp: data_bytes_def)
next
  fix d' assume d': "dec_ok d'" "remaining d' = bs @ r"
  have n: "unat (of_nat (length bs) :: u32) = length bs"
    using assms(3) by (simp add: unat_of_nat)
  show "reads (dec_bytes (unat (of_nat (length bs) :: u32))) d' bs r"
    using d' n by (intro reads_bytes) auto
qed

lemma dec_u8_dest:
  assumes "dec_u8 d = Ok (x, d')" "dec_ok d"
  shows "consumed d [x] d'"
proof -
  obtain bs where b: "dec_bytes 1 d = Ok (bs, d')" and x: "x = bs ! 0"
    using assms(1) by (auto simp: dec_u8_def dbind_Ok)
  have "consumed d bs d'" "length bs = 1"
    using dec_bytes_consumed [OF assms(2) b] by auto
  then show ?thesis using x by (cases bs) auto
qed

lemma dec_word_dest:
  assumes "LENGTH('a::len) = 8 * n"
    and "dbind (dec_bytes n) (\<lambda>bs. dret (of_le bs :: 'a word)) d = Ok (x, d')" "dec_ok d"
  shows "consumed d (to_le n x) d'"
proof -
  obtain bs where b: "dec_bytes n d = Ok (bs, d')" and x: "x = of_le bs"
    using assms(2) by (auto simp: dbind_Ok)
  have "consumed d bs d'" "length bs = n"
    using dec_bytes_consumed [OF assms(3) b] by auto
  then show ?thesis using x assms(1) by (simp add: to_le_of_le)
qed

lemma dec_u16_dest: "dec_u16 d = Ok (x, d') \<Longrightarrow> dec_ok d \<Longrightarrow> consumed d (to_le 2 x) d'"
  unfolding dec_u16_def by (rule dec_word_dest) simp_all

lemma dec_u32_dest: "dec_u32 d = Ok (x, d') \<Longrightarrow> dec_ok d \<Longrightarrow> consumed d (to_le 4 x) d'"
  unfolding dec_u32_def by (rule dec_word_dest) simp_all

lemma dec_u64_dest: "dec_u64 d = Ok (x, d') \<Longrightarrow> dec_ok d \<Longrightarrow> consumed d (to_le 8 x) d'"
  unfolding dec_u64_def by (rule dec_word_dest) simp_all

lemma dec_string_dest:
  assumes "dec_string d = Ok (s, d')" "dec_ok d"
  shows "consumed d (string_bytes s) d' \<and> valid_str s \<and> length s < 65536"
proof -
  obtain len d1 bs where u: "dec_u16 d = Ok (len, d1)"
    and b: "dec_bytes (unat len) d1 = Ok (bs, d')" and s: "from_utf8 bs = Some s"
    using assms(1) by (auto simp: dec_string_def dbind_Ok split: option.splits)
  have c1: "consumed d (to_le 2 len) d1" using u assms(2) by (rule dec_u16_dest)
  have c2: "consumed d1 bs d'" "length bs = unat len"
    using dec_bytes_consumed [OF consumed_ok [OF c1] b] by auto
  have bs: "as_bytes s = bs" "valid_str s" using from_utf8_Some [OF s] by auto
  have len: "length s = unat len" using bs(1) c2(2) by (metis length_as_bytes)
  have "unat len < 2 ^ LENGTH(16)" by (rule unsigned_less)
  then have "length s < 65536" using len by simp
  moreover have "string_bytes s = to_le 2 len @ bs"
    using len bs by (simp add: string_bytes_def)
  ultimately show ?thesis using consumed_trans [OF c1 c2(1)] bs by simp
qed

lemma dec_data_dest:
  assumes "dec_counted_data d = Ok (bs, d')" "dec_ok d"
  shows "consumed d (data_bytes bs) d' \<and> length bs < 4294967296"
proof -
  obtain len d1 where u: "dec_u32 d = Ok (len, d1)"
    and b: "dec_bytes (unat len) d1 = Ok (bs, d')"
    using assms(1) by (auto simp: dec_counted_data_def dbind_Ok)
  have c1: "consumed d (to_le 4 len) d1" using u assms(2) by (rule dec_u32_dest)
  have c2: "consumed d1 bs d'" "length bs = unat len"
    using dec_bytes_consumed [OF consumed_ok [OF c1] b] by auto
  have "unat len < 2 ^ LENGTH(32)" by (rule unsigned_less)
  then have "length bs < 4294967296" using c2(2) by simp
  moreover have "data_bytes bs = to_le 4 len @ bs"
    using c2(2) by (simp add: data_bytes_def)
  ultimately show ?thesis using consumed_trans [OF c1 c2(1)] by simp
qed

interpretation string_field: wire_codec put_string dec_string valid_str
proof unfold_locales
  fix out s out' assume "put_string out s = Ok out'"
  then show "\<exists>bs. out' = out @ bs \<and> writes put_string s bs"
    by (auto simp: put_string_iff writes_def)
next
  fix s bs d r
  assume "writes put_string s bs" and v: "valid_str s" "dec_ok d" and r: "remaining d = bs @ r"
  then have "length s < 65536" "bs = string_bytes s"
    by (auto simp: writes_def put_string_iff)
  then show "reads dec_string d s r" using v r by (intro reads_string) auto
next
  fix d s d' assume "dec_ok d" "dec_string d = Ok (s, d')"
  then have "consumed d (string_bytes s) d' \<and> valid_str s \<and> length s < 65536"
    by (intro dec_string_dest)
  then show "valid_str s \<and> (\<exists>bs. writes put_string s bs \<and> consumed d bs d')"
    by (auto simp: writes_def put_string_iff)
qed

interpretation data_field: wire_codec put_counted_data dec_counted_data "\<lambda>_. True"
proof unfold_locales
  fix out s out' assume "put_counted_data out s = Ok out'"
  then show "\<exists>bs. out' = out @ bs \<and> writes put_counted_data s bs"
    by (auto simp: put_data_iff writes_def)
next
  fix s bs d r
  assume "writes put_counted_data s bs" and v: "dec_ok d" and r: "remaining d = bs @ r"
  then have "length s < 4294967296" "bs = data_bytes s"
    by (auto simp: writes_def put_data_iff)
  then show "reads dec_counted_data d s r" using v r by (intro reads_data) auto
next
  fix d s d' assume "dec_ok d" "dec_counted_data d = Ok (s, d')"
  then have "consumed d (data_bytes s) d' \<and> length s < 4294967296"
    by (intro dec_data_dest)
  then show "True \<and> (\<exists>bs. writes put_counted_data s bs \<and> consumed d bs d')"
    by (auto simp: writes_def put_data_iff)
qed

section \<open>Frames\<close>

lemma encode_frame_iff:
  "encode_frame typ tag body = Ok frame \<longleftrightarrow>
     7 + length body < 4294967296 \<and>
     frame = to_le 4 (of_nat (7 + length body) :: u32) @ [typ] @ to_le 2 tag @ body"
  by (auto simp: encode_frame_def try_u32_def put_u16_def put_u8_def put_u32_def)

lemma decode_encode_frame:
  assumes "encode_frame typ tag body = Ok frame"
  shows "decode_frame frame = Ok (typ, tag, dec_new body)"
proof -
  let ?n = "of_nat (7 + length body) :: u32"
  have len: "7 + length body < 4294967296"
    and f: "frame = to_le 4 ?n @ [typ] @ to_le 2 tag @ body"
    using assms by (auto simp: encode_frame_iff)
  have "length frame = 7 + length body" using f by simp
  moreover have "take 4 frame = to_le 4 ?n" using f by simp
  moreover have "unat ?n = 7 + length body"
    using len unat_of_nat [of "7 + length body", where 'a = 32] by simp
  moreover have "(of_le (to_le 4 ?n) :: u32) = ?n" by (rule of_le_to_le) simp
  moreover have "frame ! 4 = typ" using f by (simp add: nth_append)
  moreover have "take 2 (drop 5 frame) = to_le 2 tag" using f by simp
  moreover have "(of_le (to_le 2 tag) :: u16) = tag" by (rule of_le_to_le) simp
  moreover have "drop 7 frame = body" using f by simp
  ultimately show ?thesis by (simp add: decode_frame_def)
qed

lemma decode_frame_canonical:
  assumes "decode_frame frame = Ok (typ, tag, d)"
  shows "\<exists>body. d = dec_new body \<and> encode_frame typ tag body = Ok frame \<and> length body < 4294967289"
proof -
  have l: "7 \<le> length frame" and sz: "unat (of_le (take 4 frame) :: u32) = length frame"
    and parts: "typ = frame ! 4" "tag = of_le (take 2 (drop 5 frame))" "d = dec_new (drop 7 frame)"
    using assms by (auto simp: decode_frame_def Let_def split: if_splits)
  have "unat (of_le (take 4 frame) :: u32) < 2 ^ LENGTH(32)" by (rule unsigned_less)
  then have lt: "length frame < 4294967296" using sz by simp
  have "(of_nat (length frame) :: u32) = of_le (take 4 frame)" by (simp flip: sz)
  then have a: "to_le 4 (of_nat (length frame) :: u32) = take 4 frame"
    using l by (simp add: to_le_of_le)
  have b: "to_le 2 tag = take 2 (drop 5 frame)"
    using l parts by (simp add: to_le_of_le)
  have "frame = take 4 frame @ drop 4 frame" by simp
  also have "drop 4 frame = frame ! 4 # drop 5 frame"
    using l Cons_nth_drop_Suc [of 4 frame] by simp
  also have "drop 5 frame = take 2 (drop 5 frame) @ drop 7 frame"
    using append_take_drop_id [of 2 "drop 5 frame"] by simp
  finally have "frame = take 4 frame @ [frame ! 4] @ take 2 (drop 5 frame) @ drop 7 frame"
    by simp
  then have "encode_frame typ tag (drop 7 frame) = Ok frame"
    using l lt a b parts(1) by (simp add: encode_frame_iff)
  then show ?thesis using l lt parts(3) by (intro exI [of _ "drop 7 frame"]) auto
qed

section \<open>What a successful decoder says of its input\<close>

definition parses :: "'a dec \<Rightarrow> decoder \<Rightarrow> ('a \<Rightarrow> bytes \<Rightarrow> bool) \<Rightarrow> bool" where
  "parses m d Q \<longleftrightarrow> (\<forall>x d'. m d = Ok (x, d') \<longrightarrow> (\<exists>bs. consumed d bs d' \<and> Q x bs))"

lemma parses_dret [wire_parses]: "dec_ok d \<Longrightarrow> Q x [] \<Longrightarrow> parses (dret x) d Q"
  by (auto simp: parses_def intro: consumed_refl)

lemma parses_dbind:
  assumes "parses m d P"
    and "\<And>x bs d'. P x bs \<Longrightarrow> dec_ok d' \<Longrightarrow> parses (f x) d' (\<lambda>y cs. Q y (bs @ cs))"
  shows "parses (dbind m f) d Q"
  unfolding parses_def
proof (intro allI impI)
  fix y d''
  assume "dbind m f d = Ok (y, d'')"
  then obtain x d' where m: "m d = Ok (x, d')" and f: "f x d' = Ok (y, d'')"
    by (auto simp: dbind_Ok)
  obtain bs where bs: "consumed d bs d'" "P x bs" using assms(1) m unfolding parses_def by blast
  obtain cs where cs: "consumed d' cs d''" "Q y (bs @ cs)"
    using assms(2) [OF bs(2) consumed_ok [OF bs(1)]] f unfolding parses_def by blast
  show "\<exists>bs. consumed d bs d'' \<and> Q y bs"
    using consumed_trans [OF bs(1) cs(1)] cs(2) by blast
qed

lemma parses_u8 [wire_parses]: "dec_ok d \<Longrightarrow> parses dec_u8 d (\<lambda>x bs. bs = [x])"
  by (auto simp: parses_def dest: dec_u8_dest)

lemma parses_u16 [wire_parses]: "dec_ok d \<Longrightarrow> parses dec_u16 d (\<lambda>x bs. bs = to_le 2 x)"
  by (auto simp: parses_def dest: dec_u16_dest)

lemma parses_u32 [wire_parses]: "dec_ok d \<Longrightarrow> parses dec_u32 d (\<lambda>x bs. bs = to_le 4 x)"
  by (auto simp: parses_def dest: dec_u32_dest)

lemma parses_u64 [wire_parses]: "dec_ok d \<Longrightarrow> parses dec_u64 d (\<lambda>x bs. bs = to_le 8 x)"
  by (auto simp: parses_def dest: dec_u64_dest)

lemma parses_string [wire_parses]:
  "dec_ok d \<Longrightarrow>
     parses dec_string d (\<lambda>s bs. bs = string_bytes s \<and> valid_str s \<and> length s < 65536)"
  by (auto simp: parses_def dest: dec_string_dest)

lemma parses_data [wire_parses]:
  "dec_ok d \<Longrightarrow>
     parses dec_counted_data d (\<lambda>x bs. bs = data_bytes x \<and> length x < 4294967296)"
  by (auto simp: parses_def dest: dec_data_dest)

lemma parses_fail [wire_parses]: "parses (\<lambda>d. Inl e) d Q"
  by (simp add: parses_def)

end
