(* ===== verification/Messages.thy ===== *)
theory Messages
  imports Wire
begin

text \<open>
  The messages of \<open>crates/star9-protocol/src/p9.rs\<close>: their constants, types, encoders and
  decoders, request and response alike. Two theorems per direction: decoding inverts encoding,
  and a frame that decodes is the encoding of what it decodes to, so the wire format of a
  message is unique.
\<close>

section \<open>Constants\<close>

definition VERSION :: string where "VERSION = ''9P2000.L''"
definition DEFAULT_MSIZE :: u32 where "DEFAULT_MSIZE = 65536"
definition NOFID :: u32 where "NOFID = 0xFFFFFFFF"
definition NOTAG :: u16 where "NOTAG = 0xFFFF"
definition AT_REMOVEDIR :: u32 where "AT_REMOVEDIR = 0x200"
definition MAX_STREAM_FRAME_SIZE :: nat where "MAX_STREAM_FRAME_SIZE = 65536"

abbreviation RLERROR :: u8 where "RLERROR \<equiv> 7"
abbreviation TLOPEN :: u8 where "TLOPEN \<equiv> 12"
abbreviation RLOPEN :: u8 where "RLOPEN \<equiv> 13"
abbreviation TLCREATE :: u8 where "TLCREATE \<equiv> 14"
abbreviation RLCREATE :: u8 where "RLCREATE \<equiv> 15"
abbreviation TSYMLINK :: u8 where "TSYMLINK \<equiv> 16"
abbreviation RSYMLINK :: u8 where "RSYMLINK \<equiv> 17"
abbreviation TREADLINK :: u8 where "TREADLINK \<equiv> 22"
abbreviation RREADLINK :: u8 where "RREADLINK \<equiv> 23"
abbreviation TGETATTR :: u8 where "TGETATTR \<equiv> 24"
abbreviation RGETATTR :: u8 where "RGETATTR \<equiv> 25"
abbreviation TSETATTR :: u8 where "TSETATTR \<equiv> 26"
abbreviation RSETATTR :: u8 where "RSETATTR \<equiv> 27"
abbreviation TXATTRWALK :: u8 where "TXATTRWALK \<equiv> 30"
abbreviation RXATTRWALK :: u8 where "RXATTRWALK \<equiv> 31"
abbreviation TXATTRCREATE :: u8 where "TXATTRCREATE \<equiv> 32"
abbreviation RXATTRCREATE :: u8 where "RXATTRCREATE \<equiv> 33"
abbreviation TREADDIR :: u8 where "TREADDIR \<equiv> 40"
abbreviation RREADDIR :: u8 where "RREADDIR \<equiv> 41"
abbreviation TFSYNC :: u8 where "TFSYNC \<equiv> 50"
abbreviation RFSYNC :: u8 where "RFSYNC \<equiv> 51"
abbreviation TLINK :: u8 where "TLINK \<equiv> 70"
abbreviation RLINK :: u8 where "RLINK \<equiv> 71"
abbreviation TMKDIR :: u8 where "TMKDIR \<equiv> 72"
abbreviation RMKDIR :: u8 where "RMKDIR \<equiv> 73"
abbreviation TRENAMEAT :: u8 where "TRENAMEAT \<equiv> 74"
abbreviation RRENAMEAT :: u8 where "RRENAMEAT \<equiv> 75"
abbreviation TUNLINKAT :: u8 where "TUNLINKAT \<equiv> 76"
abbreviation RUNLINKAT :: u8 where "RUNLINKAT \<equiv> 77"
abbreviation TVERSION :: u8 where "TVERSION \<equiv> 100"
abbreviation RVERSION :: u8 where "RVERSION \<equiv> 101"
abbreviation TATTACH :: u8 where "TATTACH \<equiv> 104"
abbreviation RATTACH :: u8 where "RATTACH \<equiv> 105"
abbreviation TFLUSH :: u8 where "TFLUSH \<equiv> 108"
abbreviation RFLUSH :: u8 where "RFLUSH \<equiv> 109"
abbreviation TWALK :: u8 where "TWALK \<equiv> 110"
abbreviation RWALK :: u8 where "RWALK \<equiv> 111"
abbreviation TREAD :: u8 where "TREAD \<equiv> 116"
abbreviation RREAD :: u8 where "RREAD \<equiv> 117"
abbreviation TWRITE :: u8 where "TWRITE \<equiv> 118"
abbreviation RWRITE :: u8 where "RWRITE \<equiv> 119"
abbreviation TCLUNK :: u8 where "TCLUNK \<equiv> 120"
abbreviation RCLUNK :: u8 where "RCLUNK \<equiv> 121"
abbreviation TREMOVE :: u8 where "TREMOVE \<equiv> 122"
abbreviation RREMOVE :: u8 where "RREMOVE \<equiv> 123"

section \<open>Types\<close>

record qid =
  q_typ :: u8
  q_version :: u32
  q_path :: u64

record nine_p_attr =
  at_valid :: u64
  at_qid :: qid
  at_mode :: u32
  at_uid :: u32
  at_gid :: u32
  at_nlink :: u64
  at_rdev :: u64
  at_size :: u64
  at_blksize :: u64
  at_blocks :: u64
  at_atime_seconds :: u64
  at_atime_nanoseconds :: u64
  at_mtime_seconds :: u64
  at_mtime_nanoseconds :: u64
  at_ctime_seconds :: u64
  at_ctime_nanoseconds :: u64
  at_btime_seconds :: u64
  at_btime_nanoseconds :: u64
  at_gen :: u64
  at_data_version :: u64

record set_attr =
  sa_valid :: u32
  sa_mode :: u32
  sa_uid :: u32
  sa_gid :: u32
  sa_size :: u64
  sa_atime_seconds :: u64
  sa_atime_nanoseconds :: u64
  sa_mtime_seconds :: u64
  sa_mtime_nanoseconds :: u64

record nine_p_dirent =
  dt_qid :: qid
  dt_offset :: u64
  dt_typ :: u8
  dt_name :: string

definition set_attr_default :: set_attr where
  "set_attr_default = \<lparr>sa_valid = 0, sa_mode = 0, sa_uid = 0, sa_gid = 0, sa_size = 0,
     sa_atime_seconds = 0, sa_atime_nanoseconds = 0, sa_mtime_seconds = 0, sa_mtime_nanoseconds = 0\<rparr>"

datatype nine_p_request =
    TVersion u32 string
  | TAttach u32 u32 string string u32
  | TWalk u32 u32 "string list"
  | TLopen u32 u32
  | TLcreate u32 string u32 u32 u32
  | TGetAttr u32 u64
  | TSetAttr u32 set_attr
  | TXattrWalk u32 u32 string
  | TXattrCreate u32 string u64 u32
  | TRead u32 u64 u32
  | TWrite u32 u64 bytes
  | TClunk u32
  | TRemove u32
  | TMkdir u32 string u32 u32
  | TLink u32 u32 string
  | TReaddir u32 u64 u32
  | TRenameAt u32 string u32 string
  | TUnlinkAt u32 string u32
  | TSymlink u32 string string u32
  | TReadlink u32
  | TFsync u32
  | TFlush u16

datatype nine_p_response =
    RLerror u32
  | RVersion u32 string
  | RAttach qid
  | RWalk "qid list"
  | RLopen qid u32
  | RLcreate qid u32
  | RGetAttr nine_p_attr
  | RSetAttr
  | RXattrWalk u64
  | RXattrCreate
  | RRead bytes
  | RWrite u32
  | RClunk
  | RRemove
  | RMkdir qid
  | RLink
  | RReaddir bytes
  | RRenameAt
  | RUnlinkAt
  | RSymlink qid
  | RReadlink string
  | RFsync
  | RFlush

section \<open>Structures\<close>

definition encode_qid :: "bytes \<Rightarrow> qid \<Rightarrow> bytes" where
  "encode_qid out x =
     (let
        out = put_u8 out (q_typ x);
        out = put_u32 out (q_version x);
        out = put_u64 out (q_path x)
      in out)"

definition encode_attr :: "bytes \<Rightarrow> nine_p_attr \<Rightarrow> bytes" where
  "encode_attr out x =
     (let
        out = put_u64 out (at_valid x);
        out = encode_qid out (at_qid x);
        out = put_u32 out (at_mode x);
        out = put_u32 out (at_uid x);
        out = put_u32 out (at_gid x);
        out = put_u64 out (at_nlink x);
        out = put_u64 out (at_rdev x);
        out = put_u64 out (at_size x);
        out = put_u64 out (at_blksize x);
        out = put_u64 out (at_blocks x);
        out = put_u64 out (at_atime_seconds x);
        out = put_u64 out (at_atime_nanoseconds x);
        out = put_u64 out (at_mtime_seconds x);
        out = put_u64 out (at_mtime_nanoseconds x);
        out = put_u64 out (at_ctime_seconds x);
        out = put_u64 out (at_ctime_nanoseconds x);
        out = put_u64 out (at_btime_seconds x);
        out = put_u64 out (at_btime_nanoseconds x);
        out = put_u64 out (at_gen x);
        out = put_u64 out (at_data_version x)
      in out)"

definition encode_setattr :: "bytes \<Rightarrow> set_attr \<Rightarrow> bytes" where
  "encode_setattr out x =
     (let
        out = put_u32 out (sa_valid x);
        out = put_u32 out (sa_mode x);
        out = put_u32 out (sa_uid x);
        out = put_u32 out (sa_gid x);
        out = put_u64 out (sa_size x);
        out = put_u64 out (sa_atime_seconds x);
        out = put_u64 out (sa_atime_nanoseconds x);
        out = put_u64 out (sa_mtime_seconds x);
        out = put_u64 out (sa_mtime_nanoseconds x)
      in out)"

definition dec_qid :: "qid dec" where
  "dec_qid =
     dbind dec_u8 (\<lambda>typ.
     dbind dec_u32 (\<lambda>version.
     dbind dec_u64 (\<lambda>path.
     dret \<lparr>q_typ = typ, q_version = version, q_path = path\<rparr>)))"

definition dec_attr :: "nine_p_attr dec" where
  "dec_attr =
     dbind dec_u64 (\<lambda>valid.
     dbind dec_qid (\<lambda>qid.
     dbind dec_u32 (\<lambda>mode.
     dbind dec_u32 (\<lambda>uid.
     dbind dec_u32 (\<lambda>gid.
     dbind dec_u64 (\<lambda>nlink.
     dbind dec_u64 (\<lambda>rdev.
     dbind dec_u64 (\<lambda>sz.
     dbind dec_u64 (\<lambda>blksize.
     dbind dec_u64 (\<lambda>blocks.
     dbind dec_u64 (\<lambda>atime_seconds.
     dbind dec_u64 (\<lambda>atime_nanoseconds.
     dbind dec_u64 (\<lambda>mtime_seconds.
     dbind dec_u64 (\<lambda>mtime_nanoseconds.
     dbind dec_u64 (\<lambda>ctime_seconds.
     dbind dec_u64 (\<lambda>ctime_nanoseconds.
     dbind dec_u64 (\<lambda>btime_seconds.
     dbind dec_u64 (\<lambda>btime_nanoseconds.
     dbind dec_u64 (\<lambda>gen.
     dbind dec_u64 (\<lambda>data_version.
     dret \<lparr>at_valid = valid, at_qid = qid, at_mode = mode, at_uid = uid, at_gid = gid,
       at_nlink = nlink, at_rdev = rdev, at_size = sz, at_blksize = blksize, at_blocks = blocks,
       at_atime_seconds = atime_seconds, at_atime_nanoseconds = atime_nanoseconds,
       at_mtime_seconds = mtime_seconds, at_mtime_nanoseconds = mtime_nanoseconds,
       at_ctime_seconds = ctime_seconds, at_ctime_nanoseconds = ctime_nanoseconds,
       at_btime_seconds = btime_seconds, at_btime_nanoseconds = btime_nanoseconds, at_gen = gen,
       at_data_version = data_version\<rparr>))))))))))))))))))))"

definition dec_setattr :: "set_attr dec" where
  "dec_setattr =
     dbind dec_u32 (\<lambda>valid.
     dbind dec_u32 (\<lambda>mode.
     dbind dec_u32 (\<lambda>uid.
     dbind dec_u32 (\<lambda>gid.
     dbind dec_u64 (\<lambda>sz.
     dbind dec_u64 (\<lambda>atime_seconds.
     dbind dec_u64 (\<lambda>atime_nanoseconds.
     dbind dec_u64 (\<lambda>mtime_seconds.
     dbind dec_u64 (\<lambda>mtime_nanoseconds.
     dret \<lparr>sa_valid = valid, sa_mode = mode, sa_uid = uid, sa_gid = gid, sa_size = sz,
       sa_atime_seconds = atime_seconds, sa_atime_nanoseconds = atime_nanoseconds,
       sa_mtime_seconds = mtime_seconds, sa_mtime_nanoseconds = mtime_nanoseconds\<rparr>)))))))))"

section \<open>Encoding\<close>

fun request_body :: "nine_p_request \<Rightarrow> (u8 \<times> bytes) res" where
  "request_body (TVersion msize version) =
     rbind (put_string (put_u32 [] msize) version) (\<lambda>body.
     Ok (TVERSION, body))"
| "request_body (TAttach fid afid uname aname n_uname) =
     rbind (put_string (put_u32 (put_u32 [] fid) afid) uname) (\<lambda>body.
     rbind (put_string body aname) (\<lambda>body.
     Ok (TATTACH, put_u32 body n_uname)))"
| "request_body (TWalk fid newfid names) =
     rbind (try_u16 (length names)) (\<lambda>n.
     rbind (put_each put_string (put_u16 (put_u32 (put_u32 [] fid) newfid) n) names) (\<lambda>body.
     Ok (TWALK, body)))"
| "request_body (TLopen fid flags) =
     Ok (TLOPEN, put_u32 (put_u32 [] fid) flags)"
| "request_body (TLcreate fid name flags mode gid) =
     rbind (put_string (put_u32 [] fid) name) (\<lambda>body.
     Ok (TLCREATE, put_u32 (put_u32 (put_u32 body flags) mode) gid))"
| "request_body (TGetAttr fid request_mask) =
     Ok (TGETATTR, put_u64 (put_u32 [] fid) request_mask)"
| "request_body (TSetAttr fid attr) =
     Ok (TSETATTR, encode_setattr (put_u32 [] fid) attr)"
| "request_body (TXattrWalk fid newfid name) =
     rbind (put_string (put_u32 (put_u32 [] fid) newfid) name) (\<lambda>body.
     Ok (TXATTRWALK, body))"
| "request_body (TXattrCreate fid name sz flags) =
     rbind (put_string (put_u32 [] fid) name) (\<lambda>body.
     Ok (TXATTRCREATE, put_u32 (put_u64 body sz) flags))"
| "request_body (TRead fid offset count) =
     Ok (TREAD, put_u32 (put_u64 (put_u32 [] fid) offset) count)"
| "request_body (TWrite fid offset payload) =
     rbind (put_counted_data (put_u64 (put_u32 [] fid) offset) payload) (\<lambda>body.
     Ok (TWRITE, body))"
| "request_body (TClunk fid) =
     Ok (TCLUNK, put_u32 [] fid)"
| "request_body (TRemove fid) =
     Ok (TREMOVE, put_u32 [] fid)"
| "request_body (TMkdir fid name mode gid) =
     rbind (put_string (put_u32 [] fid) name) (\<lambda>body.
     Ok (TMKDIR, put_u32 (put_u32 body mode) gid))"
| "request_body (TLink fid newdirfid name) =
     rbind (put_string (put_u32 (put_u32 [] fid) newdirfid) name) (\<lambda>body.
     Ok (TLINK, body))"
| "request_body (TReaddir fid offset count) =
     Ok (TREADDIR, put_u32 (put_u64 (put_u32 [] fid) offset) count)"
| "request_body (TRenameAt olddirfid oldname newdirfid newname) =
     rbind (put_string (put_u32 [] olddirfid) oldname) (\<lambda>body.
     rbind (put_string (put_u32 body newdirfid) newname) (\<lambda>body.
     Ok (TRENAMEAT, body)))"
| "request_body (TUnlinkAt dirfid name flags) =
     rbind (put_string (put_u32 [] dirfid) name) (\<lambda>body.
     Ok (TUNLINKAT, put_u32 body flags))"
| "request_body (TSymlink fid name target gid) =
     rbind (put_string (put_u32 [] fid) name) (\<lambda>body.
     rbind (put_string body target) (\<lambda>body.
     Ok (TSYMLINK, put_u32 body gid)))"
| "request_body (TReadlink fid) =
     Ok (TREADLINK, put_u32 [] fid)"
| "request_body (TFsync fid) =
     Ok (TFSYNC, put_u32 [] fid)"
| "request_body (TFlush oldtag) =
     Ok (TFLUSH, put_u16 [] oldtag)"

definition encode_request :: "u16 \<Rightarrow> nine_p_request \<Rightarrow> bytes res" where
  "encode_request tag request =
     rbind (request_body request) (\<lambda>(typ, body). encode_frame typ tag body)"

fun response_body :: "nine_p_response \<Rightarrow> (u8 \<times> bytes) res" where
  "response_body (RLerror ecode) =
     Ok (RLERROR, put_u32 [] ecode)"
| "response_body (RVersion msize version) =
     rbind (put_string (put_u32 [] msize) version) (\<lambda>body.
     Ok (RVERSION, body))"
| "response_body (RAttach qid) =
     Ok (RATTACH, encode_qid [] qid)"
| "response_body (RWalk qids) =
     rbind (try_u16 (length qids)) (\<lambda>n.
     rbind (put_each (\<lambda>out q. Ok (encode_qid out q)) (put_u16 [] n) qids) (\<lambda>body.
     Ok (RWALK, body)))"
| "response_body (RLopen qid iounit) =
     Ok (RLOPEN, put_u32 (encode_qid [] qid) iounit)"
| "response_body (RLcreate qid iounit) =
     Ok (RLCREATE, put_u32 (encode_qid [] qid) iounit)"
| "response_body (RGetAttr attr) =
     Ok (RGETATTR, encode_attr [] attr)"
| "response_body RSetAttr =
     Ok (RSETATTR, [])"
| "response_body (RXattrWalk sz) =
     Ok (RXATTRWALK, put_u64 [] sz)"
| "response_body RXattrCreate =
     Ok (RXATTRCREATE, [])"
| "response_body (RRead payload) =
     rbind (put_counted_data [] payload) (\<lambda>body.
     Ok (RREAD, body))"
| "response_body (RWrite count) =
     Ok (RWRITE, put_u32 [] count)"
| "response_body RClunk =
     Ok (RCLUNK, [])"
| "response_body RRemove =
     Ok (RREMOVE, [])"
| "response_body (RMkdir qid) =
     Ok (RMKDIR, encode_qid [] qid)"
| "response_body RLink =
     Ok (RLINK, [])"
| "response_body (RReaddir payload) =
     rbind (put_counted_data [] payload) (\<lambda>body.
     Ok (RREADDIR, body))"
| "response_body RRenameAt =
     Ok (RRENAMEAT, [])"
| "response_body RUnlinkAt =
     Ok (RUNLINKAT, [])"
| "response_body (RSymlink qid) =
     Ok (RSYMLINK, encode_qid [] qid)"
| "response_body (RReadlink target) =
     rbind (put_string [] target) (\<lambda>body.
     Ok (RREADLINK, body))"
| "response_body RFsync =
     Ok (RFSYNC, [])"
| "response_body RFlush =
     Ok (RFLUSH, [])"

definition encode_response :: "u16 \<Rightarrow> nine_p_response \<Rightarrow> bytes res" where
  "encode_response tag response =
     rbind (response_body response) (\<lambda>(typ, body). encode_frame typ tag body)"

section \<open>Decoding\<close>

definition decode_request_body :: "u8 \<Rightarrow> nine_p_request dec" where
  "decode_request_body typ =
     (if typ = TVERSION then
        dbind dec_u32 (\<lambda>msize. dbind dec_string (\<lambda>version. dret (TVersion msize version)))
      else if typ = TATTACH then
        dbind dec_u32 (\<lambda>fid. dbind dec_u32 (\<lambda>afid. dbind dec_string (\<lambda>uname.
        dbind dec_string (\<lambda>aname. dbind dec_u32 (\<lambda>n_uname.
        dret (TAttach fid afid uname aname n_uname))))))
      else if typ = TWALK then
        dbind dec_u32 (\<lambda>fid. dbind dec_u32 (\<lambda>newfid. dbind dec_u16 (\<lambda>n.
        dbind (dec_times (unat n) dec_string) (\<lambda>names. dret (TWalk fid newfid names)))))
      else if typ = TLOPEN then
        dbind dec_u32 (\<lambda>fid. dbind dec_u32 (\<lambda>flags. dret (TLopen fid flags)))
      else if typ = TLCREATE then
        dbind dec_u32 (\<lambda>fid. dbind dec_string (\<lambda>name. dbind dec_u32 (\<lambda>flags.
        dbind dec_u32 (\<lambda>mode. dbind dec_u32 (\<lambda>gid. dret (TLcreate fid name flags mode gid))))))
      else if typ = TGETATTR then
        dbind dec_u32 (\<lambda>fid. dbind dec_u64 (\<lambda>request_mask. dret (TGetAttr fid request_mask)))
      else if typ = TSETATTR then
        dbind dec_u32 (\<lambda>fid. dbind dec_setattr (\<lambda>attr. dret (TSetAttr fid attr)))
      else if typ = TXATTRWALK then
        dbind dec_u32 (\<lambda>fid. dbind dec_u32 (\<lambda>newfid. dbind dec_string (\<lambda>name.
        dret (TXattrWalk fid newfid name))))
      else if typ = TXATTRCREATE then
        dbind dec_u32 (\<lambda>fid. dbind dec_string (\<lambda>name. dbind dec_u64 (\<lambda>sz.
        dbind dec_u32 (\<lambda>flags. dret (TXattrCreate fid name sz flags)))))
      else if typ = TREAD then
        dbind dec_u32 (\<lambda>fid. dbind dec_u64 (\<lambda>offset. dbind dec_u32 (\<lambda>count.
        dret (TRead fid offset count))))
      else if typ = TWRITE then
        dbind dec_u32 (\<lambda>fid. dbind dec_u64 (\<lambda>offset. dbind dec_counted_data (\<lambda>payload.
        dret (TWrite fid offset payload))))
      else if typ = TCLUNK then
        dbind dec_u32 (\<lambda>fid. dret (TClunk fid))
      else if typ = TREMOVE then
        dbind dec_u32 (\<lambda>fid. dret (TRemove fid))
      else if typ = TMKDIR then
        dbind dec_u32 (\<lambda>fid. dbind dec_string (\<lambda>name. dbind dec_u32 (\<lambda>mode.
        dbind dec_u32 (\<lambda>gid. dret (TMkdir fid name mode gid)))))
      else if typ = TLINK then
        dbind dec_u32 (\<lambda>fid. dbind dec_u32 (\<lambda>newdirfid. dbind dec_string (\<lambda>name.
        dret (TLink fid newdirfid name))))
      else if typ = TREADDIR then
        dbind dec_u32 (\<lambda>fid. dbind dec_u64 (\<lambda>offset. dbind dec_u32 (\<lambda>count.
        dret (TReaddir fid offset count))))
      else if typ = TRENAMEAT then
        dbind dec_u32 (\<lambda>olddirfid. dbind dec_string (\<lambda>oldname. dbind dec_u32 (\<lambda>newdirfid.
        dbind dec_string (\<lambda>newname. dret (TRenameAt olddirfid oldname newdirfid newname)))))
      else if typ = TUNLINKAT then
        dbind dec_u32 (\<lambda>dirfid. dbind dec_string (\<lambda>name. dbind dec_u32 (\<lambda>flags.
        dret (TUnlinkAt dirfid name flags))))
      else if typ = TSYMLINK then
        dbind dec_u32 (\<lambda>fid. dbind dec_string (\<lambda>name. dbind dec_string (\<lambda>target.
        dbind dec_u32 (\<lambda>gid. dret (TSymlink fid name target gid)))))
      else if typ = TREADLINK then
        dbind dec_u32 (\<lambda>fid. dret (TReadlink fid))
      else if typ = TFSYNC then
        dbind dec_u32 (\<lambda>fid. dret (TFsync fid))
      else if typ = TFLUSH then
        dbind dec_u16 (\<lambda>oldtag. dret (TFlush oldtag))
      else (\<lambda>d. Err (Message (''unsupported 9P request type '' @ show_nat (unat typ)))))"

definition decode_request :: "bytes \<Rightarrow> (u16 \<times> nine_p_request) res" where
  "decode_request frame =
     rbind (decode_frame frame) (\<lambda>(typ, tag, d).
     rbind (decode_request_body typ d) (\<lambda>(request, d).
     rbind (dec_finish d) (\<lambda>_. Ok (tag, request))))"

definition decode_response_body :: "u8 \<Rightarrow> nine_p_response dec" where
  "decode_response_body typ =
     (if typ = RLERROR then
        dbind dec_u32 (\<lambda>ecode. dret (RLerror ecode))
      else if typ = RVERSION then
        dbind dec_u32 (\<lambda>msize. dbind dec_string (\<lambda>version. dret (RVersion msize version)))
      else if typ = RATTACH then
        dbind dec_qid (\<lambda>qid. dret (RAttach qid))
      else if typ = RWALK then
        dbind dec_u16 (\<lambda>n. dbind (dec_times (unat n) dec_qid) (\<lambda>qids. dret (RWalk qids)))
      else if typ = RLOPEN then
        dbind dec_qid (\<lambda>qid. dbind dec_u32 (\<lambda>iounit. dret (RLopen qid iounit)))
      else if typ = RLCREATE then
        dbind dec_qid (\<lambda>qid. dbind dec_u32 (\<lambda>iounit. dret (RLcreate qid iounit)))
      else if typ = RGETATTR then
        dbind dec_attr (\<lambda>attr. dret (RGetAttr attr))
      else if typ = RSETATTR then
        dret RSetAttr
      else if typ = RXATTRWALK then
        dbind dec_u64 (\<lambda>sz. dret (RXattrWalk sz))
      else if typ = RXATTRCREATE then
        dret RXattrCreate
      else if typ = RREAD then
        dbind dec_counted_data (\<lambda>payload. dret (RRead payload))
      else if typ = RWRITE then
        dbind dec_u32 (\<lambda>count. dret (RWrite count))
      else if typ = RCLUNK then
        dret RClunk
      else if typ = RREMOVE then
        dret RRemove
      else if typ = RMKDIR then
        dbind dec_qid (\<lambda>qid. dret (RMkdir qid))
      else if typ = RLINK then
        dret RLink
      else if typ = RREADDIR then
        dbind dec_counted_data (\<lambda>payload. dret (RReaddir payload))
      else if typ = RRENAMEAT then
        dret RRenameAt
      else if typ = RUNLINKAT then
        dret RUnlinkAt
      else if typ = RSYMLINK then
        dbind dec_qid (\<lambda>qid. dret (RSymlink qid))
      else if typ = RREADLINK then
        dbind dec_string (\<lambda>target. dret (RReadlink target))
      else if typ = RFSYNC then
        dret RFsync
      else if typ = RFLUSH then
        dret RFlush
      else (\<lambda>d. Err (Message (''unsupported 9P response type '' @ show_nat (unat typ)))))"

definition decode_response :: "bytes \<Rightarrow> (u16 \<times> nine_p_response) res" where
  "decode_response frame =
     rbind (decode_frame frame) (\<lambda>(typ, tag, d).
     rbind (decode_response_body typ d) (\<lambda>(response, d).
     rbind (dec_finish d) (\<lambda>_. Ok (tag, response))))"

section \<open>Directory entries\<close>

definition put_dirent :: "bytes \<Rightarrow> nine_p_dirent \<Rightarrow> bytes res" where
  "put_dirent out dirent =
     put_string (put_u8 (put_u64 (encode_qid out (dt_qid dirent)) (dt_offset dirent)) (dt_typ dirent))
       (dt_name dirent)"

definition encode_dirents :: "nine_p_dirent list \<Rightarrow> bytes res" where
  "encode_dirents dirents = put_each put_dirent [] dirents"

definition dec_dirent :: "nine_p_dirent dec" where
  "dec_dirent =
     dbind dec_qid (\<lambda>q. dbind dec_u64 (\<lambda>offset. dbind dec_u8 (\<lambda>typ. dbind dec_string (\<lambda>name.
       dret \<lparr>dt_qid = q, dt_offset = offset, dt_typ = typ, dt_name = name\<rparr>))))"

text \<open>
  The loop of \<open>decode_dirents\<close> ends because a decoded entry moves the cursor forward inside the
  data.
\<close>

definition advances :: "'a dec \<Rightarrow> bool" where
  "advances m \<longleftrightarrow> (\<forall>d x d'. m d = Ok (x, d') \<longrightarrow>
     dec_data d' = dec_data d \<and> dec_offset d \<le> dec_offset d' \<and>
     (dec_offset d' = dec_offset d \<or> dec_offset d' \<le> length (dec_data d)))"

lemma advances_dret: "advances (dret x)"
  by (simp add: advances_def)

lemma advances_dbind:
  assumes "advances m" "\<And>x. advances (f x)"
  shows "advances (dbind m f)"
  unfolding advances_def
proof (intro allI impI)
  fix d y d''
  assume "dbind m f d = Ok (y, d'')"
  then obtain x d' where m: "m d = Ok (x, d')" and f: "f x d' = Ok (y, d'')"
    by (auto simp: dbind_Ok)
  have "dec_data d' = dec_data d \<and> dec_offset d \<le> dec_offset d' \<and>
      (dec_offset d' = dec_offset d \<or> dec_offset d' \<le> length (dec_data d))"
    using assms(1) m unfolding advances_def by blast
  moreover have "dec_data d'' = dec_data d' \<and> dec_offset d' \<le> dec_offset d'' \<and>
      (dec_offset d'' = dec_offset d' \<or> dec_offset d'' \<le> length (dec_data d'))"
    using assms(2) [of x] f unfolding advances_def by blast
  ultimately show "dec_data d'' = dec_data d \<and> dec_offset d \<le> dec_offset d'' \<and>
      (dec_offset d'' = dec_offset d \<or> dec_offset d'' \<le> length (dec_data d))"
    by auto
qed

lemma advances_bytes: "advances (dec_bytes n)"
  by (auto simp: advances_def dec_bytes_def Let_def split: if_splits)

lemma advances_words: "advances dec_u8" "advances dec_u16" "advances dec_u32" "advances dec_u64"
  unfolding dec_u8_def dec_u16_def dec_u32_def dec_u64_def
  by (intro advances_dbind advances_bytes advances_dret)+

lemma advances_string: "advances dec_string"
proof -
  have "advances (\<lambda>d. case from_utf8 bs of Some s \<Rightarrow> Ok (s, d) | None \<Rightarrow> Err (Kind Invalid))" for bs
    by (auto simp: advances_def split: option.splits)
  then show ?thesis
    unfolding dec_string_def by (intro advances_dbind advances_words advances_bytes)
qed

lemma advances_dirent_tail:
  "advances (dbind dec_u32 (\<lambda>version. dbind dec_u64 (\<lambda>path.
     dret \<lparr>q_typ = t, q_version = version, q_path = path\<rparr>)))"
  "advances (dbind dec_u64 (\<lambda>offset. dbind dec_u8 (\<lambda>typ. dbind dec_string (\<lambda>name.
     dret \<lparr>dt_qid = q, dt_offset = offset, dt_typ = typ, dt_name = name\<rparr>))))"
  by (intro advances_dbind advances_words advances_string advances_dret)+

lemma dec_dirent_progress:
  assumes "dec_dirent d = Ok (x, d')"
  shows "dec_data d' = dec_data d \<and> dec_offset d < dec_offset d' \<and>
    dec_offset d' \<le> length (dec_data d)"
proof -
  obtain b d1 q d2 where b: "dec_bytes 1 d = Ok (b, d1)"
    and q: "dbind dec_u32 (\<lambda>version. dbind dec_u64 (\<lambda>path.
        dret \<lparr>q_typ = b ! 0, q_version = version, q_path = path\<rparr>)) d1 = Ok (q, d2)"
    and r: "dbind dec_u64 (\<lambda>offset. dbind dec_u8 (\<lambda>typ. dbind dec_string (\<lambda>name.
        dret \<lparr>dt_qid = q, dt_offset = offset, dt_typ = typ, dt_name = name\<rparr>))) d2 = Ok (x, d')"
    using assms unfolding dec_dirent_def dec_qid_def dec_u8_def by (auto simp: dbind_Ok)
  have "dec_data d1 = dec_data d" "dec_offset d1 = Suc (dec_offset d)"
    "dec_offset d1 \<le> length (dec_data d)"
    using b by (auto simp: dec_bytes_def Let_def split: if_splits)
  moreover have "dec_data d2 = dec_data d1 \<and> dec_offset d1 \<le> dec_offset d2 \<and>
      (dec_offset d2 = dec_offset d1 \<or> dec_offset d2 \<le> length (dec_data d1))"
    using advances_dirent_tail(1) q unfolding advances_def by blast
  moreover have "dec_data d' = dec_data d2 \<and> dec_offset d2 \<le> dec_offset d' \<and>
      (dec_offset d' = dec_offset d2 \<or> dec_offset d' \<le> length (dec_data d2))"
    using advances_dirent_tail(2) r unfolding advances_def by blast
  ultimately show ?thesis by auto
qed

function decode_dirents_loop :: "decoder \<Rightarrow> nine_p_dirent list res" where
  "decode_dirents_loop d =
     (if dec_is_empty d then Ok []
      else case dec_dirent d of
             Inl e \<Rightarrow> Inl e
           | Inr (x, d') \<Rightarrow> rbind (decode_dirents_loop d') (\<lambda>xs. Ok (x # xs)))"
  by pat_completeness auto
termination
  by (relation "measure (\<lambda>d. length (dec_data d) - dec_offset d)")
    (auto dest: dec_dirent_progress)

declare decode_dirents_loop.simps [simp del]

definition decode_dirents :: "bytes \<Rightarrow> nine_p_dirent list res" where
  "decode_dirents bs = decode_dirents_loop (dec_new bs)"

end
