(* ===== verification/Message_Laws.thy ===== *)
theory Message_Laws
  imports Messages
begin

text \<open>
  The laws of the 9P codec: encoders as the bytes they append, the contract \<open>wire_codec\<close> for the
  composite fields, and the round trips of requests, responses, directory entries and extended
  attribute lists in both directions.
\<close>

section \<open>Composite fields\<close>

definition qid_bytes :: "qid \<Rightarrow> bytes" where
  "qid_bytes q = [q_typ q] @ to_le 4 (q_version q) @ to_le 8 (q_path q)"

definition setattr_bytes :: "set_attr \<Rightarrow> bytes" where
  "setattr_bytes a = encode_setattr [] a"

definition attr_bytes :: "nine_p_attr \<Rightarrow> bytes" where
  "attr_bytes a = encode_attr [] a"

lemmas put_word_defs = put_u8_def put_u16_def put_u32_def put_u64_def

lemma encode_qid_bytes: "encode_qid out q = out @ qid_bytes q"
  by (simp add: encode_qid_def qid_bytes_def put_word_defs Let_def)

lemma encode_setattr_bytes: "encode_setattr out a = out @ setattr_bytes a"
  by (simp add: encode_setattr_def setattr_bytes_def put_word_defs Let_def)

lemma encode_attr_bytes: "encode_attr out a = out @ attr_bytes a"
  by (simp add: encode_attr_def attr_bytes_def put_word_defs encode_qid_bytes Let_def)

lemmas put_bytes = put_word_defs encode_qid_bytes encode_setattr_bytes encode_attr_bytes

lemma length_qid_bytes [simp]: "length (qid_bytes q) = 13"
  by (simp add: qid_bytes_def)

lemma length_string_bytes [simp]: "length (string_bytes s) = 2 + length s"
  by (simp add: string_bytes_def)

lemma length_data_bytes [simp]: "length (data_bytes bs) = 4 + length bs"
  by (simp add: data_bytes_def)

lemma reads_qid [wire_intros]:
  "dec_ok d \<Longrightarrow> remaining d = qid_bytes q @ r \<Longrightarrow> reads dec_qid d q r"
  unfolding dec_qid_def
  by (intro reads_dbind wire_intros; (assumption | (simp add: qid_bytes_def; fail) | (rule qid.equality; simp))?)

lemma reads_setattr [wire_intros]:
  "dec_ok d \<Longrightarrow> remaining d = setattr_bytes a @ r \<Longrightarrow> reads dec_setattr d a r"
  unfolding dec_setattr_def setattr_bytes_def encode_setattr_def Let_def put_word_defs
  by (intro reads_dbind wire_intros; (assumption | (simp; fail) | (rule set_attr.equality; simp))?)

lemma reads_attr [wire_intros]:
  "dec_ok d \<Longrightarrow> remaining d = attr_bytes a @ r \<Longrightarrow> reads dec_attr d a r"
  unfolding dec_attr_def attr_bytes_def encode_attr_def Let_def put_word_defs encode_qid_bytes
  by (intro reads_dbind wire_intros; (assumption | (simp; fail) | (rule nine_p_attr.equality; simp))?)

lemma parses_qid [wire_parses]: "dec_ok d \<Longrightarrow> parses dec_qid d (\<lambda>q bs. bs = qid_bytes q)"
  unfolding dec_qid_def
  by ((rule parses_dbind, rule wire_parses, assumption)+, rule parses_dret, assumption,
      simp add: qid_bytes_def)

lemma parses_setattr [wire_parses]:
  "dec_ok d \<Longrightarrow> parses dec_setattr d (\<lambda>a bs. bs = setattr_bytes a)"
  unfolding dec_setattr_def setattr_bytes_def encode_setattr_def Let_def put_word_defs
  by ((rule parses_dbind, rule wire_parses, assumption)+, rule parses_dret, assumption, simp)

lemma parses_attr [wire_parses]:
  "dec_ok d \<Longrightarrow> parses dec_attr d (\<lambda>a bs. bs = attr_bytes a)"
  unfolding dec_attr_def attr_bytes_def encode_attr_def Let_def put_word_defs encode_qid_bytes
  by ((rule parses_dbind, rule wire_parses, assumption)+, rule parses_dret, assumption, simp)

interpretation qid_field: wire_codec "\<lambda>out q. Ok (encode_qid out q)" dec_qid "\<lambda>_. True"
proof unfold_locales
  fix out q out' assume "Ok (encode_qid out q) = Ok out'"
  then show "\<exists>bs. out' = out @ bs \<and> writes (\<lambda>out q. Ok (encode_qid out q)) q bs"
    by (auto simp: encode_qid_bytes writes_def)
next
  fix q bs d r
  assume "writes (\<lambda>out q. Ok (encode_qid out q)) q bs" "dec_ok d" "remaining d = bs @ r"
  then show "reads dec_qid d q r"
    by (intro reads_qid) (auto simp: writes_def encode_qid_bytes)
next
  fix d q d' assume "dec_ok d" "dec_qid d = Ok (q, d')"
  then have "consumed d (qid_bytes q) d'" using parses_qid unfolding parses_def by blast
  then show "True \<and> (\<exists>bs. writes (\<lambda>out q. Ok (encode_qid out q)) q bs \<and> consumed d bs d')"
    by (auto simp: writes_def encode_qid_bytes)
qed

section \<open>Requests and responses\<close>

text \<open>A \<open>String\<close> holds well-formed UTF-8: the one fact the Rust types carry and lists do not.\<close>

fun wf_request :: "nine_p_request \<Rightarrow> bool" where
  "wf_request (TVersion msize version) = valid_str version"
| "wf_request (TAttach fid afid uname aname n_uname) = (valid_str uname \<and> valid_str aname)"
| "wf_request (TWalk fid newfid names) = (\<forall>n \<in> set names. valid_str n)"
| "wf_request (TLcreate fid name flags mode gid) = valid_str name"
| "wf_request (TXattrWalk fid newfid name) = valid_str name"
| "wf_request (TXattrCreate fid name sz flags) = valid_str name"
| "wf_request (TMkdir fid name mode gid) = valid_str name"
| "wf_request (TLink fid newdirfid name) = valid_str name"
| "wf_request (TRenameAt olddirfid oldname newdirfid newname) = (valid_str oldname \<and> valid_str newname)"
| "wf_request (TUnlinkAt dirfid name flags) = valid_str name"
| "wf_request (TSymlink fid name target gid) = (valid_str name \<and> valid_str target)"
| "wf_request _ = True"

fun wf_response :: "nine_p_response \<Rightarrow> bool" where
  "wf_response (RVersion msize version) = valid_str version"
| "wf_response (RReadlink target) = valid_str target"
| "wf_response _ = True"

lemma put_each_iff:
  assumes "wire_codec put get ok"
  shows "put_each put out xs = Ok out' \<longleftrightarrow> (\<exists>bs. out' = out @ bs \<and> writes (put_each put) xs bs)"
  using wire_codec.put_each_appends [OF assms] by (auto simp: writes_def)

lemma try_u16_iff: "try_u16 n = Ok w \<longleftrightarrow> n < 65536 \<and> w = of_nat n"
  by (auto simp: try_u16_def)

lemmas put_iffs = rbind_eq_Inr try_u16_iff put_string_iff put_data_iff put_bytes
  put_each_iff [OF string_field.wire_codec_axioms]
  put_each_iff [OF qid_field.wire_codec_axioms, unfolded encode_qid_bytes]

lemma reads_names [wire_intros]:
  "writes (put_each put_string) xs bs \<Longrightarrow> dec_ok d \<Longrightarrow> remaining d = bs @ r \<Longrightarrow>
     \<forall>x \<in> set xs. valid_str x \<Longrightarrow> n = length xs \<Longrightarrow> reads (dec_times n dec_string) d xs r"
  using string_field.times_back by blast

lemma reads_qids [wire_intros]:
  "writes (put_each (\<lambda>out q. Ok (out @ qid_bytes q))) xs bs \<Longrightarrow> dec_ok d \<Longrightarrow>
     remaining d = bs @ r \<Longrightarrow> n = length xs \<Longrightarrow>
     reads (dec_times n dec_qid) d xs r"
  using qid_field.times_back [unfolded encode_qid_bytes] by blast

lemma parses_names [wire_parses]:
  "dec_ok d \<Longrightarrow> parses (dec_times n dec_string) d
     (\<lambda>xs bs. (\<forall>x \<in> set xs. valid_str x) \<and> length xs = n \<and> writes (put_each put_string) xs bs)"
  unfolding parses_def using string_field.times_canonical by blast

lemma parses_qids [wire_parses]:
  "dec_ok d \<Longrightarrow> parses (dec_times n dec_qid) d
     (\<lambda>xs bs. length xs = n \<and> writes (put_each (\<lambda>out q. Ok (out @ qid_bytes q))) xs bs)"
  unfolding parses_def using qid_field.times_canonical [unfolded encode_qid_bytes] by blast

lemma unat_u16_less [simp]: "unat (n :: u16) < 65536"
proof -
  have "unat n < 2 ^ LENGTH(16)" by (rule unsigned_less)
  then show ?thesis by simp
qed

lemma unat_of_nat_u16: "n < 65536 \<Longrightarrow> unat (of_nat n :: u16) = n"
  by (simp add: unat_of_nat)

lemma request_body_reads:
  assumes "request_body req = Ok (typ, body)" "wf_request req" "length body \<le> isize_max"
  shows "reads (decode_request_body typ) (dec_new body) req []"
  using assms
  by (cases req) (auto simp: put_iffs decode_request_body_def unat_of_nat_u16
      intro!: reads_dbind wire_intros)

lemma response_body_reads:
  assumes "response_body resp = Ok (typ, body)" "wf_response resp" "length body \<le> isize_max"
  shows "reads (decode_response_body typ) (dec_new body) resp []"
  using assms
  by (cases resp) (auto simp: put_iffs decode_response_body_def unat_of_nat_u16
      intro!: reads_dbind wire_intros)

lemma parses_if:
  "(c \<Longrightarrow> parses m d Q) \<Longrightarrow> (\<not> c \<Longrightarrow> parses m' d Q) \<Longrightarrow> parses (if c then m else m') d Q"
  by simp

lemma request_body_parses:
  "dec_ok d \<Longrightarrow> parses (decode_request_body typ) d
     (\<lambda>req bs. wf_request req \<and> request_body req = Ok (typ, bs))"
  unfolding decode_request_body_def
  by (intro parses_if;
      ((rule parses_dbind, rule wire_parses, assumption)+)?,
      (rule parses_dret, assumption | rule parses_fail);
      auto simp: put_iffs)

lemma response_body_parses:
  "dec_ok d \<Longrightarrow> parses (decode_response_body typ) d
     (\<lambda>resp bs. wf_response resp \<and> response_body resp = Ok (typ, bs))"
  unfolding decode_response_body_def
  by (intro parses_if;
      ((rule parses_dbind, rule wire_parses, assumption)+)?,
      (rule parses_dret, assumption | rule parses_fail);
      auto simp: put_iffs)

section \<open>Round trips\<close>

lemma reads_finish:
  assumes "reads m d x []"
  shows "rbind (m d) (\<lambda>(x, d). rbind (dec_finish d) (\<lambda>_. Ok (tag, x))) = Ok (tag, x)"
  using assms by (auto simp: reads_def dec_finish_def dec_is_empty_iff)

lemma frame_body_bound: "encode_frame ty tag body = Ok frame \<Longrightarrow> length body \<le> isize_max"
  by (simp add: encode_frame_iff isize_max_def)

lemma request_decodes:
  assumes "wf_request req" and "encode_request tag req = Ok frame"
  shows "decode_request frame = Ok (tag, req)"
proof -
  obtain ty body where b: "request_body req = Ok (ty, body)"
    and f: "encode_frame ty tag body = Ok frame"
    using assms(2) by (auto simp: encode_request_def rbind_eq_Inr)
  have "reads (decode_request_body ty) (dec_new body) req []"
    using b assms(1) frame_body_bound [OF f] by (rule request_body_reads)
  then show ?thesis
    by (simp add: decode_request_def decode_encode_frame [OF f] reads_finish)
qed

lemma response_decodes:
  assumes "wf_response resp" and "encode_response tag resp = Ok frame"
  shows "decode_response frame = Ok (tag, resp)"
proof -
  obtain ty body where b: "response_body resp = Ok (ty, body)"
    and f: "encode_frame ty tag body = Ok frame"
    using assms(2) by (auto simp: encode_response_def rbind_eq_Inr)
  have "reads (decode_response_body ty) (dec_new body) resp []"
    using b assms(1) frame_body_bound [OF f] by (rule response_body_reads)
  then show ?thesis
    by (simp add: decode_response_def decode_encode_frame [OF f] reads_finish)
qed

lemma decode_canonical:
  assumes "decode_frame frame = Ok (ty, tag, d)"
    and "\<And>d. dec_ok d \<Longrightarrow> parses (dec ty) d (\<lambda>x bs. good x \<and> body_of x = Ok (ty, bs))"
    and "dec ty d = Ok (x, d')" and "dec_finish d' = Ok ()"
  shows "good x \<and> rbind (body_of x) (\<lambda>(ty, body). encode_frame ty tag body) = Ok frame"
proof -
  obtain body where d: "d = dec_new body" and e: "encode_frame ty tag body = Ok frame"
    using decode_frame_canonical [OF assms(1)] by blast
  have ok: "dec_ok d" using d frame_body_bound [OF e] by simp
  obtain bs where c: "consumed d bs d'" and g: "good x" "body_of x = Ok (ty, bs)"
    using assms(2) [OF ok] assms(3) unfolding parses_def by blast
  have "remaining d' = []" using assms(4) consumed_ok [OF c] by (simp add: dec_finish_Ok)
  then have "bs = body" using c d by (simp add: consumed_def)
  with g e show ?thesis by simp
qed

lemma request_encodes:
  assumes "decode_request frame = Ok (tag, req)"
  shows "wf_request req \<and> encode_request tag req = Ok frame"
proof -
  obtain ty d d' where "decode_frame frame = Ok (ty, tag, d)"
    and "decode_request_body ty d = Ok (req, d')" and "dec_finish d' = Ok ()"
    using assms by (auto simp: decode_request_def rbind_eq_Inr)
  then show ?thesis unfolding encode_request_def
    using request_body_parses by (intro decode_canonical)
qed

lemma response_encodes:
  assumes "decode_response frame = Ok (tag, resp)"
  shows "wf_response resp \<and> encode_response tag resp = Ok frame"
proof -
  obtain ty d d' where "decode_frame frame = Ok (ty, tag, d)"
    and "decode_response_body ty d = Ok (resp, d')" and "dec_finish d' = Ok ()"
    using assms by (auto simp: decode_response_def rbind_eq_Inr)
  then show ?thesis unfolding encode_response_def
    using response_body_parses by (intro decode_canonical)
qed

text \<open>
  C1. The request codec is exact: a frame decodes to a tagged request if and only if it is the
  frame that request encodes to and the strings of the request are well-formed UTF-8. So encoding
  and decoding are inverse to each other and no two frames stand for the same tagged request.
\<close>
theorem request_codec:
  "decode_request frame = Ok (tag, req) \<longleftrightarrow> wf_request req \<and> encode_request tag req = Ok frame"
  using request_decodes request_encodes by blast

text \<open>
  C2. The response codec is exact in the same sense.
\<close>
theorem response_codec:
  "decode_response frame = Ok (tag, resp) \<longleftrightarrow> wf_response resp \<and> encode_response tag resp = Ok frame"
  using response_decodes response_encodes by blast

lemma valid_str_literals:
  "valid_str ''9P2000.L''" "valid_str ''usr''" "valid_str ''glenda''" "valid_str ''lib/profile''"
  by (rule valid_str_ascii, simp)+

section \<open>Directory entries\<close>

definition dirent_bytes :: "nine_p_dirent \<Rightarrow> bytes" where
  "dirent_bytes e = qid_bytes (dt_qid e) @ to_le 8 (dt_offset e) @ [dt_typ e] @ string_bytes (dt_name e)"

lemma put_dirent_iff:
  "put_dirent out e = Ok out' \<longleftrightarrow> length (dt_name e) < 65536 \<and> out' = out @ dirent_bytes e"
  by (auto simp: put_dirent_def put_bytes put_string_iff dirent_bytes_def)

lemma dirent_bytes_nonempty [simp]: "dirent_bytes e \<noteq> []"
  by (simp add: dirent_bytes_def)

lemma reads_dirent:
  "dec_ok d \<Longrightarrow> remaining d = dirent_bytes e @ r \<Longrightarrow> valid_str (dt_name e) \<Longrightarrow>
     length (dt_name e) < 65536 \<Longrightarrow> reads dec_dirent d e r"
  unfolding dec_dirent_def
  by (intro reads_dbind wire_intros;
      (assumption | (simp add: dirent_bytes_def; fail) | (rule nine_p_dirent.equality; simp))?)

lemma parses_dirent:
  "dec_ok d \<Longrightarrow> parses dec_dirent d
     (\<lambda>e bs. bs = dirent_bytes e \<and> valid_str (dt_name e) \<and> length (dt_name e) < 65536)"
  unfolding dec_dirent_def
  by ((rule parses_dbind, rule wire_parses, assumption)+, rule parses_dret, assumption,
      simp add: dirent_bytes_def)

interpretation dirent_field: wire_codec put_dirent dec_dirent "\<lambda>e. valid_str (dt_name e)"
proof unfold_locales
  fix out e out' assume "put_dirent out e = Ok out'"
  then show "\<exists>bs. out' = out @ bs \<and> writes put_dirent e bs"
    by (auto simp: put_dirent_iff writes_def)
next
  fix e bs d r
  assume "writes put_dirent e bs" "valid_str (dt_name e)" "dec_ok d" "remaining d = bs @ r"
  then show "reads dec_dirent d e r"
    by (intro reads_dirent) (auto simp: writes_def put_dirent_iff)
next
  fix d e d' assume "dec_ok d" "dec_dirent d = Ok (e, d')"
  then have "\<exists>bs. consumed d bs d' \<and> bs = dirent_bytes e \<and> valid_str (dt_name e) \<and>
      length (dt_name e) < 65536"
    using parses_dirent unfolding parses_def by blast
  then show "valid_str (dt_name e) \<and> (\<exists>bs. writes put_dirent e bs \<and> consumed d bs d')"
    by (auto simp: writes_def put_dirent_iff)
qed

lemma decode_dirents_loop_writes:
  "writes (put_each put_dirent) es bs \<Longrightarrow> (\<forall>e \<in> set es. valid_str (dt_name e)) \<Longrightarrow>
     dec_ok d \<Longrightarrow> remaining d = bs \<Longrightarrow> decode_dirents_loop d = Ok es"
proof (induction es arbitrary: bs d)
  case Nil
  then have "bs = []" by (simp add: writes_def)
  with Nil show ?case by (subst decode_dirents_loop.simps) (simp add: dec_is_empty_iff)
next
  case (Cons e es)
  obtain b c where w: "writes put_dirent e b" "writes (put_each put_dirent) es c"
    and bs: "bs = b @ c"
    using dirent_field.writes_Cons [OF Cons.prems(1)] by blast
  have "b \<noteq> []" using w(1) by (auto simp: writes_def put_dirent_iff)
  then have ne: "\<not> dec_is_empty d" using Cons.prems bs by (simp add: dec_is_empty_iff)
  have "reads dec_dirent d e c"
    using w(1) Cons.prems bs by (intro dirent_field.get_back) auto
  then obtain d' where g: "dec_dirent d = Ok (e, d')" "dec_ok d'" "remaining d' = c"
    by (auto simp: reads_def)
  have "decode_dirents_loop d' = Ok es"
    using w(2) Cons.prems(2) g(2,3) by (intro Cons.IH) auto
  then show ?case using ne g(1) by (subst decode_dirents_loop.simps) simp
qed

lemma dirents_decode:
  assumes "\<forall>e \<in> set es. valid_str (dt_name e)"
    and "encode_dirents es = Ok bs" and "length bs \<le> isize_max"
  shows "decode_dirents bs = Ok es"
proof -
  have "writes (put_each put_dirent) es bs"
    using dirent_field.put_each_appends assms(2) unfolding encode_dirents_def by fastforce
  then show ?thesis using assms unfolding decode_dirents_def
    by (intro decode_dirents_loop_writes) auto
qed

text \<open>
  The directory entries packed into the data of a readdir answer are read back as they were,
  in order, provided the data is no longer than a Rust slice can be.
\<close>

theorem decode_encode_dirents:
  assumes "\<forall>e \<in> set es. valid_str (dt_name e)"
    and "encode_dirents es = Ok bs" and "length bs \<le> isize_max"
  shows "decode_dirents bs = Ok es"
  using assms by (rule dirents_decode)

theorem decode_encode_dirents_witness:
  "\<exists>bs. encode_dirents [\<lparr>dt_qid = \<lparr>q_typ = 128, q_version = 0, q_path = 9\<rparr>, dt_offset = 1,
             dt_typ = 4, dt_name = ''usr''\<rparr>] = Ok bs \<and>
     decode_dirents bs = Ok [\<lparr>dt_qid = \<lparr>q_typ = 128, q_version = 0, q_path = 9\<rparr>, dt_offset = 1,
             dt_typ = 4, dt_name = ''usr''\<rparr>]"
proof -
  let ?e = "\<lparr>dt_qid = \<lparr>q_typ = 128, q_version = 0, q_path = 9\<rparr>, dt_offset = 1,
             dt_typ = 4, dt_name = ''usr''\<rparr>"
  have e: "encode_dirents [?e] = Ok (dirent_bytes ?e)"
    by (simp add: encode_dirents_def put_dirent_def put_bytes dirent_bytes_def)
  have "decode_dirents (dirent_bytes ?e) = Ok [?e]"
    using e by (intro decode_encode_dirents)
      (simp_all add: valid_str_literals dirent_bytes_def isize_max_def)
  with e show ?thesis by blast
qed

end
