(* ===== verification/Xattr_Write.thy ===== *)
theory Xattr_Write
  imports Core
begin

text \<open>
  \<open>XattrWriteState\<close> of \<open>crates/star9-protocol/src/p9.rs\<close>: a buffer of the announced size that
  collects positional writes and the list of byte ranges written so far. The lemmas show that
  the range list stays sorted, disjoint and maximally merged, that it denotes exactly the bytes
  written, and that the state refines a partial map from positions to bytes.
\<close>

type_synonym range64 = "u64 \<times> u64"

record xattr_write =
  xw_name :: string
  xw_flags :: u32
  xw_expected :: u64
  xw_data :: bytes
  xw_written :: "range64 list"
  xw_committed :: bool

text \<open>\<^verbatim>\<open>vec![0; n]\<close> panics with a capacity overflow when \<open>n\<close> exceeds \<open>isize::MAX\<close>.\<close>

definition xattr_write_new :: "string \<Rightarrow> u32 \<Rightarrow> u64 \<Rightarrow> xattr_write res" where
  "xattr_write_new name flags expected_size =
     (if unat expected_size > isize_max then Inl Panic
      else Ok \<lparr>xw_name = name, xw_flags = flags, xw_expected = expected_size,
               xw_data = replicate (unat expected_size) 0, xw_written = [],
               xw_committed = False\<rparr>)"

fun record_loop :: "range64 list \<Rightarrow> u64 \<Rightarrow> u64 \<Rightarrow> range64 list \<Rightarrow> bool \<Rightarrow> range64 list" where
  "record_loop [] start end merged inserted =
     (if \<not> inserted then merged @ [(start, end)] else merged)"
| "record_loop ((es, ee) # rest) start end merged inserted =
     (if ee < start then record_loop rest start end (merged @ [(es, ee)]) inserted
      else if end < es then
        (if \<not> inserted
         then record_loop rest start end (merged @ [(start, end)] @ [(es, ee)]) True
         else record_loop rest start end (merged @ [(es, ee)]) inserted)
      else record_loop rest (min start es) (max end ee) merged inserted)"

definition record_write :: "range64 \<Rightarrow> xattr_write \<Rightarrow> xattr_write" where
  "record_write r st =
     (if \<not> fst r < snd r then st
      else st\<lparr>xw_written := record_loop (xw_written st) (fst r) (snd r) [] False\<rparr>)"

definition xattr_write_at :: "u64 \<Rightarrow> bytes \<Rightarrow> (xattr_write, nat) op" where
  "xattr_write_at offset chunk st =
     (let end = unat offset + length chunk in
      if end > usize_max then (Err (Kind Invalid), st)
      else if end > unat (xw_expected st) then (Err (Kind Invalid), st)
      else if end > length (xw_data st) then (Inl Panic, st)
      else
        (let data = take (unat offset) (xw_data st) @ chunk @ drop end (xw_data st) in
         (Ok (length chunk), record_write (offset, of_nat end) (st\<lparr>xw_data := data\<rparr>))))"

text \<open>The same comparisons over binary integers, for evaluation.\<close>

lemma xattr_write_new_code [code]:
  "xattr_write_new name flags expected_size =
     (if uint expected_size > 9223372036854775807 then Inl Panic
      else Ok \<lparr>xw_name = name, xw_flags = flags, xw_expected = expected_size,
               xw_data = replicate (unat expected_size) 0, xw_written = [], xw_committed = False\<rparr>)"
proof -
  have "unat expected_size > isize_max \<longleftrightarrow> uint expected_size > 9223372036854775807"
  proof -
    have "int (unat expected_size) = uint expected_size" by simp
    then show ?thesis unfolding isize_max_def by linarith
  qed
  then show ?thesis unfolding xattr_write_new_def by (simp only: not_less)
qed

lemma xattr_write_at_code [code]:
  "xattr_write_at offset chunk st =
     (let end = uint offset + int (length chunk) in
      if end > 18446744073709551615 then (Err (Kind Invalid), st)
      else if end > uint (xw_expected st) then (Err (Kind Invalid), st)
      else if end > int (length (xw_data st)) then (Inl Panic, st)
      else
        (let data = take (unat offset) (xw_data st) @ chunk @ drop (nat end) (xw_data st) in
         (Ok (length chunk), record_write (offset, of_int end) (st\<lparr>xw_data := data\<rparr>))))"
proof -
  have u: "int (unat w) = uint w" for w :: u64 by simp
  have e: "int (unat offset + length chunk) = uint offset + int (length chunk)" by simp
  have n: "nat (uint offset + int (length chunk)) = unat offset + length chunk"
    unfolding e [symmetric] by (simp only: nat_int)
  have c: "unat offset + length chunk > usize_max \<longleftrightarrow> uint offset + int (length chunk) > 18446744073709551615"
    "unat offset + length chunk > unat (xw_expected st) \<longleftrightarrow> uint offset + int (length chunk) > uint (xw_expected st)"
    "unat offset + length chunk > length (xw_data st) \<longleftrightarrow> uint offset + int (length chunk) > int (length (xw_data st))"
    unfolding u [symmetric] usize_max_def by linarith+
  have o: "(of_nat (unat offset + length chunk) :: u64) = of_int (uint offset + int (length chunk))"
    unfolding e [symmetric] by (simp only: of_int_of_nat_eq)
  show ?thesis unfolding xattr_write_at_def Let_def c n o ..
qed

definition xattr_is_complete :: "xattr_write \<Rightarrow> bool" where
  "xattr_is_complete st \<longleftrightarrow>
     xw_expected st = 0 \<or>
     (case xw_written st of [r] \<Rightarrow> fst r = 0 \<and> snd r = xw_expected st | _ \<Rightarrow> False)"

section \<open>Range lists\<close>

definition ranges_ok :: "range64 list \<Rightarrow> bool" where
  "ranges_ok ws \<longleftrightarrow> sorted_wrt (\<lambda>a b. snd a < fst b) ws \<and> (\<forall>r \<in> set ws. fst r < snd r)"

definition range_set :: "range64 \<Rightarrow> u64 set" where
  "range_set r = {fst r ..< snd r}"

definition ranges_set :: "range64 list \<Rightarrow> u64 set" where
  "ranges_set ws = (\<Union>r \<in> set ws. range_set r)"

lemma ranges_set_simps [simp]:
  "ranges_set [] = {}" "ranges_set (r # ws) = range_set r \<union> ranges_set ws"
  "ranges_set (ws @ vs) = ranges_set ws \<union> ranges_set vs"
  by (simp_all add: ranges_set_def)

lemma ranges_ok_Nil [simp]: "ranges_ok []"
  by (simp add: ranges_ok_def)

lemma ranges_ok_append:
  "ranges_ok (ws @ vs) \<longleftrightarrow>
     ranges_ok ws \<and> ranges_ok vs \<and> (\<forall>w \<in> set ws. \<forall>v \<in> set vs. snd w < fst v)"
  by (auto simp: ranges_ok_def sorted_wrt_append)

lemma ranges_ok_Cons:
  "ranges_ok (r # ws) \<longleftrightarrow>
     fst r < snd r \<and> ranges_ok ws \<and> (\<forall>w \<in> set ws. snd r < fst w)"
  by (auto simp: ranges_ok_def)

lemma record_loop_inserted:
  "\<forall>r \<in> set rest. en < fst r \<and> fst r < snd r \<Longrightarrow> st < en \<Longrightarrow>
     record_loop rest st en merged True = merged @ rest"
proof (induction rest arbitrary: merged)
  case (Cons r rest)
  obtain es ee where r: "r = (es, ee)" by (cases r)
  with Cons.prems have "en < es" "es < ee" by auto
  with Cons.prems have "\<not> ee < st" by auto
  with Cons r \<open>en < es\<close> show ?case by simp
qed simp

lemma record_loop_correct:
  assumes "ranges_ok (merged @ rest)" "st < en" "\<forall>m \<in> set merged. snd m < st"
  shows "ranges_ok (record_loop rest st en merged False) \<and>
    ranges_set (record_loop rest st en merged False) =
      ranges_set merged \<union> ranges_set rest \<union> {st..<en}"
  using assms
proof (induction rest arbitrary: st en merged)
  case Nil
  then show ?case by (auto simp: ranges_ok_append ranges_ok_Cons range_set_def)
next
  case (Cons r rest)
  obtain es ee where r: "r = (es, ee)" by (cases r)
  have e: "es < ee" and rest: "\<forall>v \<in> set rest. ee < fst v \<and> fst v < snd v"
    and m: "\<forall>w \<in> set merged. snd w < es"
    using Cons.prems(1) r by (auto simp: ranges_ok_def sorted_wrt_append)
  consider (before) "ee < st" | (after) "\<not> ee < st" "en < es" | (touch) "\<not> ee < st" "\<not> en < es"
    by blast
  then show ?case
  proof cases
    case before
    have "ranges_ok ((merged @ [(es, ee)]) @ rest)" using Cons.prems(1) r by simp
    then have "ranges_ok (record_loop rest st en (merged @ [(es, ee)]) False) \<and>
        ranges_set (record_loop rest st en (merged @ [(es, ee)]) False) =
          ranges_set (merged @ [(es, ee)]) \<union> ranges_set rest \<union> {st..<en}"
      using Cons.prems before by (intro Cons.IH) auto
    with before r show ?thesis by (auto simp: range_set_def)
  next
    case after
    have ins: "record_loop rest st en (merged @ [(st, en)] @ [(es, ee)]) True =
        (merged @ [(st, en)] @ [(es, ee)]) @ rest"
      using rest e after Cons.prems(2) by (intro record_loop_inserted) auto
    have "ranges_ok ((merged @ [(st, en)] @ [(es, ee)]) @ rest)"
      using Cons.prems r after rest e by (fastforce simp: ranges_ok_append ranges_ok_Cons)
    then show ?thesis using after r ins by (auto simp: range_set_def)
  next
    case touch
    have "ranges_ok (merged @ rest)" using Cons.prems(1) r by (auto simp: ranges_ok_append ranges_ok_Cons)
    moreover have "min st es < max en ee" using Cons.prems(2) by (auto simp: min_def max_def)
    moreover have "\<forall>w \<in> set merged. snd w < min st es" using Cons.prems(3) m by auto
    ultimately have ih: "ranges_ok (record_loop rest (min st es) (max en ee) merged False) \<and>
        ranges_set (record_loop rest (min st es) (max en ee) merged False) =
          ranges_set merged \<union> ranges_set rest \<union> {min st es..<max en ee}"
      by (rule Cons.IH)
    have "{min st es..<max en ee} = {es..<ee} \<union> {st..<en}"
      using touch e Cons.prems(2) by (auto simp: min_def max_def)
    with ih touch r show ?thesis by (auto simp: range_set_def)
  qed
qed

section \<open>The invariant\<close>

definition xattr_inv :: "xattr_write \<Rightarrow> bool" where
  "xattr_inv st \<longleftrightarrow>
     ranges_ok (xw_written st) \<and> length (xw_data st) = unat (xw_expected st) \<and>
     unat (xw_expected st) \<le> isize_max \<and> ranges_set (xw_written st) \<subseteq> {..<xw_expected st}"

lemma xattr_new_inv: "xattr_write_new name flags n = Ok st \<Longrightarrow> xattr_inv st"
  by (auto simp: xattr_write_new_def xattr_inv_def ranges_ok_def split: if_splits)

definition written_bytes :: "xattr_write \<Rightarrow> u64 \<Rightarrow> u8 option" where
  "written_bytes st i =
     (if i \<in> ranges_set (xw_written st) then Some (xw_data st ! unat i) else None)"

lemma record_write_ranges:
  assumes "ranges_ok (xw_written st)"
  shows "ranges_ok (xw_written (record_write r st)) \<and>
    ranges_set (xw_written (record_write r st)) = ranges_set (xw_written st) \<union> range_set r"
  using assms record_loop_correct [of "[]" "xw_written st" "fst r" "snd r"]
  by (auto simp: record_write_def range_set_def)

lemma record_write_frame [simp]:
  "xw_data (record_write r st) = xw_data st" "xw_expected (record_write r st) = xw_expected st"
  "xw_name (record_write r st) = xw_name st" "xw_committed (record_write r st) = xw_committed st"
  by (simp_all add: record_write_def)

lemma xattr_write_at_Ok:
  assumes "xattr_inv st"
    and "unat offset + length chunk \<le> unat (xw_expected st)"
  shows "xattr_write_at offset chunk st =
    (Ok (length chunk), record_write (offset, of_nat (unat offset + length chunk))
       (st\<lparr>xw_data := take (unat offset) (xw_data st) @ chunk
           @ drop (unat offset + length chunk) (xw_data st)\<rparr>))"
  using assms
  by (simp add: xattr_write_at_def Let_def xattr_inv_def isize_max_def usize_max_def)

lemma in_write_range:
  fixes offset i x :: u64
  assumes "unat offset + n \<le> unat x"
  shows "i \<in> {offset ..< of_nat (unat offset + n)} \<longleftrightarrow>
    unat offset \<le> unat i \<and> unat i < unat offset + n"
proof -
  have "unat x < 2 ^ LENGTH(64)" by (rule unsigned_less)
  then have "unat (of_nat (unat offset + n) :: u64) = unat offset + n"
    using assms unat_of_nat [of "unat offset + n", where 'a = 64] by simp
  then show ?thesis by (simp only: atLeastLessThan_iff word_le_nat_alt word_less_nat_alt)
qed

section \<open>Refinement\<close>

text \<open>The contract: a partial map from positions to bytes, which an accepted write overrides.\<close>

definition spec_write :: "nat \<Rightarrow> u64 \<times> bytes \<Rightarrow> (u64 \<Rightarrow> u8 option) \<Rightarrow> u64 \<Rightarrow> u8 option" where
  "spec_write n w m i =
     (let off = unat (fst w); chunk = snd w in
      if off + length chunk \<le> n \<and> off \<le> unat i \<and> unat i < off + length chunk
      then Some (chunk ! (unat i - off)) else m i)"

lemma nth_patch:
  assumes "off + length chunk \<le> length xs" "i < length xs"
  shows "(take off xs @ chunk @ drop (off + length chunk) xs) ! i =
    (if off \<le> i \<and> i < off + length chunk then chunk ! (i - off) else xs ! i)"
  using assms by (auto simp: nth_append min_def)

lemma xattr_write_at_step:
  assumes "xattr_inv st"
  shows "xattr_inv (snd (xattr_write_at off chunk st)) \<and>
    xw_expected (snd (xattr_write_at off chunk st)) = xw_expected st \<and>
    written_bytes (snd (xattr_write_at off chunk st)) =
      spec_write (unat (xw_expected st)) (off, chunk) (written_bytes st)"
proof (cases "unat off + length chunk \<le> unat (xw_expected st)")
  case False
  then have "snd (xattr_write_at off chunk st) = st"
    by (simp add: xattr_write_at_def Let_def)
  with False assms show ?thesis by (simp add: spec_write_def fun_eq_iff Let_def)
next
  case True
  let ?r = "(off, of_nat (unat off + length chunk)) :: range64"
  let ?data = "take (unat off) (xw_data st) @ chunk @ drop (unat off + length chunk) (xw_data st)"
  let ?st = "st\<lparr>xw_data := ?data\<rparr>"
  have step: "snd (xattr_write_at off chunk st) = record_write ?r ?st"
    using xattr_write_at_Ok [OF assms True] by simp
  have len: "length (xw_data st) = unat (xw_expected st)" and ok: "ranges_ok (xw_written ?st)"
    using assms by (auto simp: xattr_inv_def)
  have rs: "ranges_ok (xw_written (record_write ?r ?st))"
    "ranges_set (xw_written (record_write ?r ?st)) = ranges_set (xw_written st) \<union> range_set ?r"
    using record_write_ranges [OF ok, of ?r] by auto
  have inr: "i \<in> range_set ?r \<longleftrightarrow> unat off \<le> unat i \<and> unat i < unat off + length chunk" for i
    unfolding range_set_def fst_conv snd_conv using True by (rule in_write_range)
  then have sub: "range_set ?r \<subseteq> {..<xw_expected st}"
    using True by (auto simp: word_less_nat_alt)
  have "xattr_inv (record_write ?r ?st)"
    using assms rs sub True len by (simp add: xattr_inv_def)
  moreover have "written_bytes (record_write ?r ?st) i =
      spec_write (unat (xw_expected st)) (off, chunk) (written_bytes st) i" for i
  proof (cases "i < xw_expected st")
    case in_range: True
    then have "unat i < length (xw_data st)" using len by (simp add: word_less_nat_alt)
    then have "?data ! unat i =
        (if i \<in> range_set ?r then chunk ! (unat i - unat off) else xw_data st ! unat i)"
      using nth_patch [of "unat off" chunk "xw_data st" "unat i"] True len
      by (simp only: inr)
    then show ?thesis using rs(2) inr True
      by (auto simp: written_bytes_def spec_write_def Let_def)
  next
    case False
    then have "i \<notin> range_set ?r" "i \<notin> ranges_set (xw_written st)"
      using sub assms by (auto simp: xattr_inv_def)
    then show ?thesis using rs(2) inr by (auto simp: written_bytes_def spec_write_def Let_def)
  qed
  ultimately show ?thesis using step by (simp add: fun_eq_iff)
qed

lemma xattr_complete_iff:
  assumes "xattr_inv st"
  shows "xattr_is_complete st \<longleftrightarrow> {..<xw_expected st} \<subseteq> ranges_set (xw_written st)"
proof
  assume c: "xattr_is_complete st"
  show "{..<xw_expected st} \<subseteq> ranges_set (xw_written st)"
  proof (cases "xw_expected st = 0")
    case False
    with c have "xw_written st = [(0, xw_expected st)]"
      by (auto simp: xattr_is_complete_def split: list.splits)
    then show ?thesis by (auto simp: range_set_def)
  qed (auto simp: word_less_nat_alt)
next
  assume sub: "{..<xw_expected st} \<subseteq> ranges_set (xw_written st)"
  have eq: "ranges_set (xw_written st) = {..<xw_expected st}" and ok: "ranges_ok (xw_written st)"
    using assms sub by (auto simp: xattr_inv_def)
  show "xattr_is_complete st"
  proof (cases "xw_expected st = 0")
    case False
    then have "0 < xw_expected st" by (simp add: word_neq_0_conv)
    then have "0 \<in> ranges_set (xw_written st)" using eq by simp
    then obtain r ws where w: "xw_written st = r # ws"
      by (cases "xw_written st") auto
    have r: "fst r < snd r" and tl: "\<forall>v \<in> set ws. snd r < fst v \<and> fst v < snd v"
      using ok w by (auto simp: ranges_ok_def)
    obtain v where v: "v \<in> set (r # ws)" "0 \<in> range_set v"
      using \<open>0 \<in> ranges_set (xw_written st)\<close> unfolding w ranges_set_def by blast
    then have "fst v = 0" by (auto simp: range_set_def)
    then have "v = r" using v tl by auto
    then have f: "fst r = 0" using \<open>fst v = 0\<close> by simp
    have "\<not> xw_expected st < snd r"
    proof
      assume "xw_expected st < snd r"
      then have "xw_expected st \<in> ranges_set (xw_written st)"
        using w f by (simp add: range_set_def)
      then show False using eq by simp
    qed
    moreover have "\<not> snd r < xw_expected st"
    proof
      assume "snd r < xw_expected st"
      then have "snd r \<in> ranges_set (xw_written st)" using eq by simp
      then have "snd r \<in> ranges_set ws" unfolding w by (simp add: range_set_def)
      then show False using tl by (auto simp: ranges_set_def range_set_def)
    qed
    ultimately have s: "snd r = xw_expected st" by simp
    have "ws = []"
    proof (rule ccontr)
      assume "ws \<noteq> []"
      then obtain u where u: "u \<in> set ws" by (cases ws) auto
      then have "fst u \<in> ranges_set (xw_written st)"
        unfolding w using tl by (auto simp: ranges_set_def range_set_def)
      then have "fst u < xw_expected st" using eq by simp
      moreover have "snd r < fst u" using tl u by simp
      ultimately show False using s by simp
    qed
    with w f s show ?thesis by (simp add: xattr_is_complete_def)
  qed (simp add: xattr_is_complete_def)
qed

text \<open>A sequence of write requests on one extended-attribute fid, refused ones included.\<close>

fun xattr_run :: "(u64 \<times> bytes) list \<Rightarrow> xattr_write \<Rightarrow> xattr_write" where
  "xattr_run [] st = st"
| "xattr_run (w # ws) st = xattr_run ws (snd (xattr_write_at (fst w) (snd w) st))"

lemma xattr_run_inv:
  "xattr_inv st \<Longrightarrow> xattr_inv (xattr_run ws st) \<and> xw_expected (xattr_run ws st) = xw_expected st \<and>
     written_bytes (xattr_run ws st) = fold (spec_write (unat (xw_expected st))) ws (written_bytes st)"
proof (induction ws arbitrary: st)
  case (Cons w ws)
  have "xattr_inv (snd (xattr_write_at (fst w) (snd w) st))"
    and "xw_expected (snd (xattr_write_at (fst w) (snd w) st)) = xw_expected st"
    and "written_bytes (snd (xattr_write_at (fst w) (snd w) st)) =
      spec_write (unat (xw_expected st)) w (written_bytes st)"
    using xattr_write_at_step [OF Cons.prems, of "fst w" "snd w"] by simp_all
  with Cons.IH show ?case by simp
qed simp

lemma written_bytes_new: "xattr_write_new name flags n = Ok st \<Longrightarrow> written_bytes st = Map.empty"
  by (auto simp: xattr_write_new_def written_bytes_def fun_eq_iff split: if_splits)

lemma xattr_new_fields: "xattr_write_new name flags n = Ok st \<Longrightarrow> xw_expected st = n"
  by (auto simp: xattr_write_new_def split: if_splits)

text \<open>
  C3. However the writes to an extended attribute overlap, repeat or arrive out of order, the
  buffered state is the map that the accepted writes make, and the state counts as complete
  exactly when every byte of the announced size has been written; the buffer then holds the last
  byte written at each position.
\<close>

theorem xattr_write_refinement:
  assumes "xattr_write_new name flags n = Ok st0" and "st = xattr_run ws st0"
    and "m = fold (spec_write (unat n)) ws Map.empty"
  shows "written_bytes st = m \<and>
    (xattr_is_complete st \<longleftrightarrow> (\<forall>i < n. m i \<noteq> None)) \<and>
    (xattr_is_complete st \<longrightarrow> map Some (xw_data st) = map (\<lambda>i. m (of_nat i)) [0..<unat n])"
proof -
  have inv: "xattr_inv st" and ex: "xw_expected st = n" and wb: "written_bytes st = m"
    using xattr_run_inv [OF xattr_new_inv [OF assms(1)], of ws] assms
      written_bytes_new [OF assms(1)] xattr_new_fields [OF assms(1)] by auto
  have dom: "m i \<noteq> None \<longleftrightarrow> i \<in> ranges_set (xw_written st)" for i
    unfolding wb [symmetric] by (simp add: written_bytes_def)
  have complete: "xattr_is_complete st \<longleftrightarrow> (\<forall>i < n. m i \<noteq> None)"
    using xattr_complete_iff [OF inv] ex unfolding dom by blast
  have len: "length (xw_data st) = unat n" using inv ex by (simp add: xattr_inv_def)
  have "map Some (xw_data st) = map (\<lambda>i. m (of_nat i)) [0..<unat n]" if c: "xattr_is_complete st"
  proof (rule nth_equalityI)
    fix i assume i: "i < length (map Some (xw_data st))"
    then have lt: "i < unat n" using len by simp
    have "unat n < 2 ^ LENGTH(64)" by (rule unsigned_less)
    then have u: "unat (of_nat i :: u64) = i" using lt by (simp add: unat_of_nat)
    then have "m (of_nat i) \<noteq> None" using c complete lt by (simp add: word_less_nat_alt)
    then have "m (of_nat i) = Some (xw_data st ! i)"
      using wb u by (auto simp: written_bytes_def split: if_splits)
    then show "map Some (xw_data st) ! i = map (\<lambda>i. m (of_nat i)) [0..<unat n] ! i"
      using i lt by simp
  qed (simp add: len)
  with wb complete show ?thesis by blast
qed

theorem xattr_write_refinement_witness:
  "xattr_is_complete (xattr_run [(2, [30, 40]), (9, [1]), (0, [10, 20, 25])]
      \<lparr>xw_name = ''user.k'', xw_flags = 0, xw_expected = 4, xw_data = [0, 0, 0, 0],
       xw_written = [], xw_committed = False\<rparr>) \<and>
   written_bytes (xattr_run [(2, [30, 40]), (9, [1]), (0, [10, 20, 25])]
      \<lparr>xw_name = ''user.k'', xw_flags = 0, xw_expected = 4, xw_data = [0, 0, 0, 0],
       xw_written = [], xw_committed = False\<rparr>) 2 = Some 25"
proof -
  let ?st0 = "\<lparr>xw_name = ''user.k'', xw_flags = 0, xw_expected = 4, xw_data = [0, 0, 0, 0],
       xw_written = [], xw_committed = False\<rparr>"
  let ?ws = "[(2, [30, 40]), (9, [1]), (0, [10, 20, 25])] :: (u64 \<times> bytes) list"
  have new: "xattr_write_new ''user.k'' 0 4 = Ok ?st0"
  proof -
    have "replicate 4 (0 :: u8) = [0, 0, 0, 0]" by (simp add: eval_nat_numeral)
    then show ?thesis by (simp add: xattr_write_new_def isize_max_def)
  qed
  have m: "fold (spec_write (unat (4 :: u64))) ?ws Map.empty i =
      (if i < 4 then Some ([10, 20, 25, 40] ! unat i) else None)" for i :: u64
  proof -
    have lt: "i < 4 \<longleftrightarrow> unat i < 4" by (simp add: word_less_nat_alt)
    have "unat i = 0 \<or> unat i = 1 \<or> unat i = 2 \<or> unat i = 3 \<or> 4 \<le> unat i" by arith
    then show ?thesis unfolding lt by (elim disjE) (simp_all add: spec_write_def)
  qed
  note r = xattr_write_refinement [OF new refl refl, of ?ws]
  have "xattr_is_complete (xattr_run ?ws ?st0)"
    using r unfolding m by simp
  moreover have "written_bytes (xattr_run ?ws ?st0) 2 = Some 25"
  proof -
    have "written_bytes (xattr_run ?ws ?st0) 2 = fold (spec_write (unat (4 :: u64))) ?ws Map.empty 2"
      using r by metis
    then show ?thesis unfolding m by simp
  qed
  ultimately show ?thesis by blast
qed

end
