(* ===== verification/Filesystem.thy ===== *)
theory Filesystem
  imports Core
begin

text \<open>
  The \<open>FileHandle\<close> and \<open>FileSystem\<close> traits of \<open>crates/star9-fs/src/lib.rs\<close> as records of
  operations over a world of type \<open>'s\<close> and handles of type \<open>'h\<close>, the default methods of the traits
  as definitions over the methods they call, the free functions of the crate that work on any
  file system, and the directory handles every file system returns. A handle operation works on
  the handle and the world together, because an open file can share state with its file system.
\<close>

section \<open>Handles\<close>

datatype seek_from = SeekStart u64 | SeekEnd int | SeekCurrent int

record ('s, 'h) file_handle =
  fh_read :: "nat \<Rightarrow> ('h \<times> 's, bytes) op"
  fh_write :: "bytes \<Rightarrow> ('h \<times> 's, nat) op"
  fh_read_at :: "nat \<Rightarrow> u64 \<Rightarrow> ('h \<times> 's, bytes) op"
  fh_write_at :: "bytes \<Rightarrow> u64 \<Rightarrow> ('h \<times> 's, nat) op"
  fh_seek :: "seek_from \<Rightarrow> ('h \<times> 's, u64) op"
  fh_stat :: "('h \<times> 's, metadata) op"
  fh_read_dir :: "int \<Rightarrow> ('h \<times> 's, dir_entry list) op"
  fh_sync :: "('h \<times> 's, unit) op"
  fh_close :: "('h \<times> 's, unit) op"

text \<open>
  \<open>run_on f m\<close> runs a handle operation on the local variable \<open>f\<close> and keeps the updated handle;
  \<open>scoped f m\<close> drops the handle afterwards; \<open>discard m\<close> is \<^verbatim>\<open>let _ = m;\<close>.
\<close>

definition run_on :: "'h \<Rightarrow> ('h \<times> 's, 'a) op \<Rightarrow> ('s, 'a \<times> 'h) op" where
  "run_on f m = (\<lambda>s. case m (f, s) of
       (Inl e, (f', s')) \<Rightarrow> (Inl e, s')
     | (Inr x, (f', s')) \<Rightarrow> (Ok (x, f'), s'))"

definition scoped :: "'h \<Rightarrow> ('h \<times> 's, 'a) op \<Rightarrow> ('s, 'a) op" where
  "scoped f m = (\<lambda>s. case m (f, s) of (r, (f', s')) \<Rightarrow> (r, s'))"

definition discard :: "('t, 'a) op \<Rightarrow> ('t, unit) op" where
  "discard m = obind (attempt m) (\<lambda>_. ret ())"

definition of_attempt :: "error + 'a \<Rightarrow> ('t, 'a) op" where
  "of_attempt r = (case r of Inl e \<Rightarrow> throw (Fail e) | Inr x \<Rightarrow> ret x)"

fun op_each :: "('a \<Rightarrow> ('t, unit) op) \<Rightarrow> 'a list \<Rightarrow> ('t, unit) op" where
  "op_each f [] = ret ()"
| "op_each f (x # xs) = obind (f x) (\<lambda>_. op_each f xs)"

text \<open>The default methods of \<open>FileHandle\<close>.\<close>

definition default_read :: "nat \<Rightarrow> ('h \<times> 's, bytes) op" where
  "default_read n = throw (Fail (Kind PermissionDenied))"

definition default_write :: "bytes \<Rightarrow> ('h \<times> 's, nat) op" where
  "default_write d = throw (Fail (Kind PermissionDenied))"

definition default_seek :: "seek_from \<Rightarrow> ('h \<times> 's, u64) op" where
  "default_seek pos = throw (Fail (Kind NotSupported))"

definition default_read_at ::
    "(seek_from \<Rightarrow> ('h \<times> 's, u64) op) \<Rightarrow> (nat \<Rightarrow> ('h \<times> 's, bytes) op) \<Rightarrow> nat \<Rightarrow> u64 \<Rightarrow> ('h \<times> 's, bytes) op" where
  "default_read_at seek rd n offset = obind (seek (SeekStart offset)) (\<lambda>_. rd n)"

definition default_write_at ::
    "(seek_from \<Rightarrow> ('h \<times> 's, u64) op) \<Rightarrow> (bytes \<Rightarrow> ('h \<times> 's, nat) op) \<Rightarrow> bytes \<Rightarrow> u64 \<Rightarrow> ('h \<times> 's, nat) op" where
  "default_write_at seek wr d offset = obind (seek (SeekStart offset)) (\<lambda>_. wr d)"

definition default_handle_read_dir :: "('h \<times> 's, metadata) op \<Rightarrow> int \<Rightarrow> ('h \<times> 's, dir_entry list) op" where
  "default_handle_read_dir st n =
     obind st (\<lambda>md. throw (Fail (Path ''readdir'' (md_name md) NotSupported)))"

definition default_sync :: "('h \<times> 's, unit) op" where
  "default_sync = throw (Fail (Kind NotSupported))"

definition default_close :: "('h \<times> 's, unit) op" where
  "default_close = ret ()"

section \<open>File systems\<close>

record ('s, 'h) filesystem =
  fs_file :: "('s, 'h) file_handle"
  fs_open :: "fs_context \<Rightarrow> string \<Rightarrow> ('s, 'h) op"
  fs_stat :: "fs_context \<Rightarrow> string \<Rightarrow> ('s, metadata) op"
  fs_lstat :: "fs_context \<Rightarrow> string \<Rightarrow> ('s, metadata) op"
  fs_read_dir :: "fs_context \<Rightarrow> string \<Rightarrow> ('s, dir_entry list) op"
  fs_create :: "string \<Rightarrow> ('s, 'h) op"
  fs_open_file :: "string \<Rightarrow> open_flags \<Rightarrow> file_mode \<Rightarrow> ('s, 'h) op"
  fs_mkdir :: "string \<Rightarrow> file_mode \<Rightarrow> ('s, unit) op"
  fs_remove :: "string \<Rightarrow> ('s, unit) op"
  fs_rename :: "string \<Rightarrow> string \<Rightarrow> ('s, unit) op"
  fs_link :: "string \<Rightarrow> string \<Rightarrow> ('s, unit) op"
  fs_chmod :: "string \<Rightarrow> file_mode \<Rightarrow> ('s, unit) op"
  fs_chown :: "string \<Rightarrow> u32 \<Rightarrow> u32 \<Rightarrow> ('s, unit) op"
  fs_chtimes :: "string \<Rightarrow> system_time \<Rightarrow> ('s, unit) op"
  fs_truncate :: "string \<Rightarrow> u64 \<Rightarrow> ('s, unit) op"
  fs_symlink :: "string \<Rightarrow> string \<Rightarrow> ('s, unit) op"
  fs_readlink :: "string \<Rightarrow> ('s, string) op"
  fs_set_xattr :: "string \<Rightarrow> string \<Rightarrow> bytes \<Rightarrow> ('s, unit) op"
  fs_get_xattr :: "string \<Rightarrow> string \<Rightarrow> ('s, bytes) op"
  fs_list_xattrs :: "string \<Rightarrow> ('s, string list) op"
  fs_remove_xattr :: "string \<Rightarrow> string \<Rightarrow> ('s, unit) op"
  fs_sync_fs :: "('s, unit) op"

text \<open>
  The default methods of \<open>FileSystem\<close>. Each takes the methods it calls on \<^verbatim>\<open>self\<close>, which an
  implementation may have overridden.
\<close>

definition not_supported :: "('s, 'a) op" where
  "not_supported = throw (Fail (Kind NotSupported))"

definition default_stat ::
    "('s, 'h) file_handle \<Rightarrow> (fs_context \<Rightarrow> string \<Rightarrow> ('s, 'h) op) \<Rightarrow> fs_context \<Rightarrow> string \<Rightarrow> ('s, metadata) op" where
  "default_stat fh opn ctx name =
     obind (opn (with_origin name ''stat'' ctx) name) (\<lambda>f. scoped f (
     obind (attempt (fh_stat fh)) (\<lambda>st.
     obind (discard (fh_close fh)) (\<lambda>_.
     of_attempt st))))"

definition default_lstat ::
    "(fs_context \<Rightarrow> string \<Rightarrow> ('s, metadata) op) \<Rightarrow> fs_context \<Rightarrow> string \<Rightarrow> ('s, metadata) op" where
  "default_lstat st ctx name = st (no_follow ctx) name"

definition default_read_dir ::
    "('s, 'h) file_handle \<Rightarrow> (fs_context \<Rightarrow> string \<Rightarrow> ('s, 'h) op) \<Rightarrow> fs_context \<Rightarrow> string \<Rightarrow> ('s, dir_entry list) op" where
  "default_read_dir fh opn ctx name =
     obind (opn (with_origin name ''readdir'' (with_read_only ctx)) name) (\<lambda>f.
     obind (scoped f (fh_read_dir fh (-1))) (\<lambda>entries.
     ret (sort_key de_name entries)))"

definition default_open_file ::
    "('s, 'h) file_handle \<Rightarrow> (fs_context \<Rightarrow> string \<Rightarrow> ('s, 'h) op) \<Rightarrow> (string \<Rightarrow> ('s, 'h) op)
      \<Rightarrow> (string \<Rightarrow> file_mode \<Rightarrow> ('s, unit) op) \<Rightarrow> string \<Rightarrow> open_flags \<Rightarrow> file_mode \<Rightarrow> ('s, 'h) op" where
  "default_open_file fh opn create chmod name flags p =
     (if is_write flags then
        obind (attempt (opn context_new name)) (\<lambda>r.
        obind (case r of
                 Inr f \<Rightarrow> ret (f, False)
               | Inl e \<Rightarrow>
                   if flags_contains flags O_CREATE \<and> kind_of e = NotFound
                   then obind (create name) (\<lambda>f. ret (f, True))
                   else throw (Fail e)) (\<lambda>(f, created).
        obind (if flags_contains flags O_TRUNC \<and> \<not> created
               then obind (scoped f (discard (fh_close fh))) (\<lambda>_. create name)
               else ret f) (\<lambda>f.
        obind (if p \<noteq> 0
               then obind (scoped f (discard (fh_close fh))) (\<lambda>_.
                    obind (attempt (chmod name p)) (\<lambda>r.
                    obind (case r of
                             Inr _ \<Rightarrow> ret ()
                           | Inl e \<Rightarrow> if e = Kind NotSupported then ret () else throw (Fail e)) (\<lambda>_.
                    opn context_new name)))
               else ret f) (\<lambda>f.
        if flags_contains flags O_APPEND
        then obind (run_on f (fh_seek fh (SeekEnd 0))) (\<lambda>(_, f). ret f)
        else ret f))))
      else opn context_new name)"

section \<open>Operations on any file system\<close>

definition open_path :: "('s, 'h) filesystem \<Rightarrow> string \<Rightarrow> ('s, 'h) op" where
  "open_path fs name = fs_open fs (with_origin name ''open'' context_new) name"

definition stat_path :: "('s, 'h) filesystem \<Rightarrow> string \<Rightarrow> ('s, metadata) op" where
  "stat_path fs name = fs_stat fs (with_origin name ''stat'' context_new) name"

definition lstat_path :: "('s, 'h) filesystem \<Rightarrow> string \<Rightarrow> ('s, metadata) op" where
  "lstat_path fs name = fs_lstat fs (with_origin name ''stat'' context_new) name"

definition read_dir_path :: "('s, 'h) filesystem \<Rightarrow> string \<Rightarrow> ('s, dir_entry list) op" where
  "read_dir_path fs name = fs_read_dir fs (with_origin name ''readdir'' context_new) name"

text \<open>
  The loop of \<open>read_file\<close> ends when the handle reports the end of the file, which a handle need
  never do: the fuel bounds the number of reads, and running out of it is \<open>Diverge\<close>.
\<close>

fun read_file_loop :: "nat \<Rightarrow> ('s, 'h) file_handle \<Rightarrow> bytes \<Rightarrow> ('h \<times> 's, bytes) op" where
  "read_file_loop 0 fh out = throw Diverge"
| "read_file_loop (Suc fuel) fh out =
     obind (attempt (fh_read fh 8192)) (\<lambda>r.
     case r of
       Inr data \<Rightarrow> if data = [] then ret out else read_file_loop fuel fh (out @ data)
     | Inl e \<Rightarrow> if kind_of e = UnexpectedEof then ret out else throw (Fail e))"

definition read_file :: "nat \<Rightarrow> ('s, 'h) filesystem \<Rightarrow> string \<Rightarrow> ('s, bytes) op" where
  "read_file fuel fs name =
     obind (open_path fs name) (\<lambda>f. scoped f (
     obind (read_file_loop fuel (fs_file fs) []) (\<lambda>out.
     obind (discard (fh_close (fs_file fs))) (\<lambda>_.
     ret out))))"

definition write_then_close :: "('s, 'h) file_handle \<Rightarrow> 'h \<Rightarrow> bytes \<Rightarrow> ('s, unit) op" where
  "write_then_close fh f data = scoped f (obind (fh_write fh data) (\<lambda>_. fh_close fh))"

definition write_file :: "('s, 'h) filesystem \<Rightarrow> string \<Rightarrow> bytes \<Rightarrow> file_mode \<Rightarrow> ('s, unit) op" where
  "write_file fs name data p =
     obind (fs_open_file fs name (O_WRONLY OR O_CREATE OR O_TRUNC) p) (\<lambda>f.
     write_then_close (fs_file fs) f data)"

definition append_file :: "('s, 'h) filesystem \<Rightarrow> string \<Rightarrow> bytes \<Rightarrow> ('s, unit) op" where
  "append_file fs name data =
     obind (fs_open_file fs name (O_WRONLY OR O_CREATE OR O_APPEND) (from_perm 0x1A4)) (\<lambda>f.
     write_then_close (fs_file fs) f data)"

definition exists_with :: "(string \<Rightarrow> ('s, metadata) op) \<Rightarrow> string \<Rightarrow> ('s, bool) op" where
  "exists_with st name =
     obind (attempt (st name)) (\<lambda>r. case r of
       Inr _ \<Rightarrow> ret True
     | Inl e \<Rightarrow> if kind_of e = NotFound then ret False else throw (Fail e))"

definition exists_path :: "('s, 'h) filesystem \<Rightarrow> string \<Rightarrow> ('s, bool) op" where
  "exists_path fs name = exists_with (stat_path fs) name"

definition is_dir_path :: "('s, 'h) filesystem \<Rightarrow> string \<Rightarrow> ('s, bool) op" where
  "is_dir_path fs name = obind (stat_path fs name) (\<lambda>md. ret (md_is_dir md))"

definition is_empty_path :: "('s, 'h) filesystem \<Rightarrow> string \<Rightarrow> ('s, bool) op" where
  "is_empty_path fs name = obind (read_dir_path fs name) (\<lambda>es. ret (es = []))"

fun mkdir_parts :: "('s, 'h) filesystem \<Rightarrow> file_mode \<Rightarrow> string \<Rightarrow> string list \<Rightarrow> ('s, unit) op" where
  "mkdir_parts fs p cur [] = ret ()"
| "mkdir_parts fs p cur (part # parts) =
     (let cur = (if cur = '''' then part else cur @ ''/'' @ part) in
      obind (attempt (fs_mkdir fs cur p)) (\<lambda>r.
      case r of
        Inr _ \<Rightarrow> mkdir_parts fs p cur parts
      | Inl e \<Rightarrow> if kind_of e = AlreadyExists then mkdir_parts fs p cur parts else throw (Fail e)))"

definition mkdir_all :: "('s, 'h) filesystem \<Rightarrow> string \<Rightarrow> file_mode \<Rightarrow> ('s, unit) op" where
  "mkdir_all fs name p =
     (if name = ''.'' then ret ()
      else mkdir_parts fs p '''' (split_on slash (clean_path name)))"

definition child_path :: "string \<Rightarrow> string \<Rightarrow> string" where
  "child_path name entry = (if name = ''.'' then entry else name @ ''/'' @ entry)"

text \<open>
  \<open>remove_all\<close> and \<open>copy_fs\<close> recur on the directory tree the file system reports, which need not be
  finite; the fuel bounds its depth.
\<close>

fun remove_all :: "nat \<Rightarrow> ('s, 'h) filesystem \<Rightarrow> string \<Rightarrow> ('s, unit) op" where
  "remove_all 0 fs name = throw Diverge"
| "remove_all (Suc fuel) fs name =
     obind (stat_path fs name) (\<lambda>md.
     obind (if md_is_dir md
            then obind (read_dir_path fs name) (\<lambda>entries.
                 op_each (\<lambda>e. remove_all fuel fs (child_path name (de_name e))) entries)
            else ret ()) (\<lambda>_.
     fs_remove fs name))"

text \<open>\<open>copy_fs\<close> copies between two file systems of one world.\<close>

fun copy_fs :: "nat \<Rightarrow> nat \<Rightarrow> ('s, 'h) filesystem \<Rightarrow> string \<Rightarrow> ('s, 'k) filesystem \<Rightarrow> string \<Rightarrow> ('s, unit) op" where
  "copy_fs 0 reads src_fs src dst_fs dst = throw Diverge"
| "copy_fs (Suc fuel) reads src_fs src dst_fs dst =
     obind (lstat_path src_fs src) (\<lambda>md.
     if is_symlink (md_mode md)
     then obind (fs_readlink src_fs src) (\<lambda>target. fs_symlink dst_fs target dst)
     else if md_is_dir md
     then obind (fs_mkdir dst_fs dst (md_mode md)) (\<lambda>_.
          obind (read_dir_path src_fs src) (\<lambda>entries.
          op_each (\<lambda>e. copy_fs fuel reads src_fs (child_path src (de_name e))
                         dst_fs (child_path dst (de_name e))) entries))
     else obind (read_file reads src_fs src) (\<lambda>data. write_file dst_fs dst data (md_mode md)))"

definition copy_all :: "nat \<Rightarrow> nat \<Rightarrow> ('s, 'h) filesystem \<Rightarrow> string \<Rightarrow> string \<Rightarrow> ('s, unit) op" where
  "copy_all fuel reads fs src dst = copy_fs fuel reads fs src fs dst"

section \<open>Directory handles\<close>

definition dedupe_sort_hide :: "dir_entry list \<Rightarrow> dir_entry list" where
  "dedupe_sort_hide entries =
     bt_values (fold (\<lambda>e m. if starts_with (de_name e) ''#'' then m else bt_insert (de_name e) e m)
       entries [])"

record dir_file =
  df_meta :: metadata
  df_entries :: "dir_entry list"
  df_offset :: nat

definition dir_file_new :: "metadata \<Rightarrow> dir_entry list \<Rightarrow> dir_file" where
  "dir_file_new md entries =
     (let md = md\<lparr>md_mode := md_mode md OR MODE_DIR\<rparr>;
          md = (if md_size md = 0 then md\<lparr>md_size := 2 + of_nat (length entries)\<rparr> else md)
      in \<lparr>df_meta = md, df_entries = dedupe_sort_hide entries, df_offset = 0\<rparr>)"

definition dir_file_read :: "nat \<Rightarrow> (dir_file \<times> 's, bytes) op" where
  "dir_file_read n = (\<lambda>(f, s). (Err (Path ''read'' (md_name (df_meta f)) Invalid), (f, s)))"

definition dir_file_stat :: "(dir_file \<times> 's, metadata) op" where
  "dir_file_stat = (\<lambda>(f, s). (Ok (df_meta f), (f, s)))"

definition dir_file_read_dir :: "int \<Rightarrow> (dir_file \<times> 's, dir_entry list) op" where
  "dir_file_read_dir count = (\<lambda>(f, s).
     if count < 0 then (Ok (df_entries f), (f\<lparr>df_offset := length (df_entries f)\<rparr>, s))
     else if df_offset f \<ge> length (df_entries f) then (Ok [], (f, s))
     else
       (let end = (if count = 0 then length (df_entries f)
                   else min (df_offset f + nat count) (length (df_entries f)))
        in (Ok (drop (df_offset f) (take end (df_entries f))), (f\<lparr>df_offset := end\<rparr>, s))))"

definition dir_file_handle :: "('s, dir_file) file_handle" where
  "dir_file_handle =
     \<lparr>fh_read = dir_file_read, fh_write = default_write,
      fh_read_at = default_read_at default_seek dir_file_read,
      fh_write_at = default_write_at default_seek default_write,
      fh_seek = default_seek, fh_stat = dir_file_stat, fh_read_dir = dir_file_read_dir,
      fh_sync = default_sync, fh_close = default_close\<rparr>"

section \<open>Keeping an invariant of the world\<close>

abbreviation hkeeps :: "('s \<Rightarrow> bool) \<Rightarrow> ('h \<times> 's, 'a) op \<Rightarrow> bool" where
  "hkeeps P m \<equiv> keeps (\<lambda>x. P (snd x)) m"

lemma keeps_scoped [keeps_intros]: "hkeeps P m \<Longrightarrow> keeps P (scoped f m)"
  unfolding keeps_def scoped_def by (auto split: prod.splits) (metis snd_conv)

lemma keeps_run_on [keeps_intros]: "hkeeps P m \<Longrightarrow> keeps P (run_on f m)"
  unfolding keeps_def run_on_def by (auto split: prod.splits sum.splits) (metis snd_conv)+

lemma keeps_discard [keeps_intros]: "keeps P m \<Longrightarrow> keeps P (discard m)"
  unfolding discard_def by (intro keeps_intros)

lemma keeps_of_attempt [keeps_intros]: "keeps P (of_attempt r)"
  unfolding of_attempt_def by (intro keeps_intros)

lemma keeps_op_each [keeps_intros]: "(\<And>x. keeps P (f x)) \<Longrightarrow> keeps P (op_each f xs)"
  by (induction xs) (auto intro!: keeps_intros)

lemma keeps_not_supported [keeps_intros]: "keeps P not_supported"
  unfolding not_supported_def by (intro keeps_intros)

text \<open>
  The interface: a file system whose methods all keep an invariant of its world. Renaming onto
  the root is left out, because the in-memory file system does not keep its invariant there.
\<close>

locale fs_contract =
  fixes fs :: "('s, 'h) filesystem"
    and inv :: "'s \<Rightarrow> bool"
  assumes h_read: "hkeeps inv (fh_read (fs_file fs) n)"
    and h_write: "hkeeps inv (fh_write (fs_file fs) d)"
    and h_read_at: "hkeeps inv (fh_read_at (fs_file fs) n off)"
    and h_write_at: "hkeeps inv (fh_write_at (fs_file fs) d off)"
    and h_seek: "hkeeps inv (fh_seek (fs_file fs) pos)"
    and h_stat: "hkeeps inv (fh_stat (fs_file fs))"
    and h_read_dir: "hkeeps inv (fh_read_dir (fs_file fs) c)"
    and h_sync: "hkeeps inv (fh_sync (fs_file fs))"
    and h_close: "hkeeps inv (fh_close (fs_file fs))"
    and f_open: "keeps inv (fs_open fs ctx name)"
    and f_stat: "keeps inv (fs_stat fs ctx name)"
    and f_lstat: "keeps inv (fs_lstat fs ctx name)"
    and f_read_dir: "keeps inv (fs_read_dir fs ctx name)"
    and f_create: "keeps inv (fs_create fs name)"
    and f_open_file: "keeps inv (fs_open_file fs name fl p)"
    and f_mkdir: "keeps inv (fs_mkdir fs name p)"
    and f_remove: "keeps inv (fs_remove fs name)"
    and f_rename: "clean_path new \<noteq> ''.'' \<Longrightarrow> keeps inv (fs_rename fs old new)"
    and f_link: "keeps inv (fs_link fs old new)"
    and f_chmod: "keeps inv (fs_chmod fs name p)"
    and f_chown: "keeps inv (fs_chown fs name u g)"
    and f_chtimes: "keeps inv (fs_chtimes fs name t)"
    and f_truncate: "keeps inv (fs_truncate fs name sz)"
    and f_symlink: "keeps inv (fs_symlink fs old new)"
    and f_readlink: "keeps inv (fs_readlink fs name)"
    and f_set_xattr: "keeps inv (fs_set_xattr fs name a d)"
    and f_get_xattr: "keeps inv (fs_get_xattr fs name a)"
    and f_list_xattrs: "keeps inv (fs_list_xattrs fs name)"
    and f_remove_xattr: "keeps inv (fs_remove_xattr fs name a)"
begin

lemmas methods = h_read h_write h_read_at h_write_at h_seek h_stat h_read_dir h_sync h_close
  f_open f_stat f_lstat f_read_dir f_create f_open_file f_mkdir f_remove f_link f_chmod
  f_chown f_chtimes f_truncate f_symlink f_readlink f_set_xattr f_get_xattr f_list_xattrs
  f_remove_xattr

lemma paths_keep:
  "keeps inv (open_path fs name)" "keeps inv (stat_path fs name)"
  "keeps inv (lstat_path fs name)" "keeps inv (read_dir_path fs name)"
  by (auto simp: open_path_def stat_path_def lstat_path_def read_dir_path_def intro: methods)

lemma read_file_loop_keeps: "hkeeps inv (read_file_loop n (fs_file fs) out)"
  by (induction n arbitrary: out) (auto intro!: keeps_intros methods)

lemma read_file_keeps: "keeps inv (read_file n fs name)"
  unfolding read_file_def by (auto intro!: keeps_intros paths_keep read_file_loop_keeps methods)

lemma write_file_keeps: "keeps inv (write_file fs name d p)"
  unfolding write_file_def write_then_close_def by (auto intro!: keeps_intros methods)

lemma append_file_keeps: "keeps inv (append_file fs name d)"
  unfolding append_file_def write_then_close_def by (auto intro!: keeps_intros methods)

lemma mkdir_all_keeps: "keeps inv (mkdir_all fs name p)"
proof -
  have "keeps inv (mkdir_parts fs p cur parts)" for cur parts
    by (induction parts arbitrary: cur) (auto simp: Let_def intro!: keeps_intros methods)
  then show ?thesis by (auto simp: mkdir_all_def intro!: keeps_intros)
qed

lemma remove_all_keeps: "keeps inv (remove_all n fs name)"
  by (induction n arbitrary: name) (auto intro!: keeps_intros paths_keep methods)

lemma copy_all_keeps: "keeps inv (copy_all n k fs src dst)"
proof -
  have "keeps inv (copy_fs n k fs src fs dst)" for src dst
    by (induction n arbitrary: src dst)
       (auto intro!: keeps_intros paths_keep read_file_keeps write_file_keeps methods)
  then show ?thesis by (simp add: copy_all_def)
qed

end

end
