(* ===== verification/Node.thy ===== *)
theory Node
  imports Filesystem
begin

text \<open>
  \<open>Node\<close>, \<open>NodeInner\<close> and \<open>NodeFile\<close> of \<open>crates/star9-fs/src/lib.rs\<close>. A \<open>Node\<close> is a shared,
  locked cell (\<open>Arc<Mutex<NodeInner>>\<close>), and cloning one shares it, which is how hard links work:
  nodes are addresses into a heap of cells, and a file handle keeps the address it was opened on
  together with its private copy of the data. The clock \<open>current_time\<close> reads is a field of the heap.
\<close>

section \<open>The heap of nodes\<close>

record node_inner =
  ni_meta :: metadata
  ni_data :: bytes
  ni_xattrs :: "(string, bytes) btmap"

record node_heap =
  nh_cell :: "nat \<Rightarrow> node_inner"
  nh_next :: nat
  nh_now :: system_time

text \<open>\<open>Arc::new(Mutex::new(inner))\<close>: a fresh address.\<close>

definition alloc_node :: "node_inner \<Rightarrow> ('a node_heap_scheme, nat) op" where
  "alloc_node inner = (\<lambda>h.
     (Ok (nh_next h),
      h\<lparr>nh_cell := (nh_cell h)(nh_next h := inner), nh_next := Suc (nh_next h)\<rparr>))"

definition upd_node :: "nat \<Rightarrow> (node_inner \<Rightarrow> node_inner) \<Rightarrow> 'a node_heap_scheme \<Rightarrow> 'a node_heap_scheme" where
  "upd_node i f h = h\<lparr>nh_cell := (nh_cell h)(i := f (nh_cell h i))\<rparr>"

definition node_file :: "string \<Rightarrow> bytes \<Rightarrow> file_mode \<Rightarrow> node_inner" where
  "node_file name data mode =
     \<lparr>ni_meta = (metadata_file name (perm mode) (of_nat (length data)))\<lparr>md_mode := mode\<rparr>,
      ni_data = data, ni_xattrs = []\<rparr>"

definition node_dir :: "string \<Rightarrow> file_mode \<Rightarrow> node_inner" where
  "node_dir name mode =
     \<lparr>ni_meta = (metadata_dir name (perm mode))\<lparr>md_mode := mode OR MODE_DIR\<rparr>,
      ni_data = [], ni_xattrs = []\<rparr>"

definition node_symlink :: "string \<Rightarrow> string \<Rightarrow> node_inner" where
  "node_symlink name target =
     (let data = as_bytes target in
      \<lparr>ni_meta = metadata_symlink name (of_nat (length data)), ni_data = data, ni_xattrs = []\<rparr>)"

definition node_metadata :: "nat \<Rightarrow> 'a node_heap_scheme \<Rightarrow> metadata" where
  "node_metadata i h = ni_meta (nh_cell h i)"

definition node_data :: "nat \<Rightarrow> 'a node_heap_scheme \<Rightarrow> bytes" where
  "node_data i h = ni_data (nh_cell h i)"

definition node_set_name :: "nat \<Rightarrow> string \<Rightarrow> 'a node_heap_scheme \<Rightarrow> 'a node_heap_scheme" where
  "node_set_name i name = upd_node i (\<lambda>n. n\<lparr>ni_meta := (ni_meta n)\<lparr>md_name := name\<rparr>\<rparr>)"

definition node_set_data :: "nat \<Rightarrow> bytes \<Rightarrow> 'a node_heap_scheme \<Rightarrow> 'a node_heap_scheme" where
  "node_set_data i data h =
     upd_node i (\<lambda>n. n\<lparr>ni_meta := (ni_meta n)\<lparr>md_size := of_nat (length data),
                                            md_modified := nh_now h\<rparr>,
                      ni_data := data\<rparr>) h"

definition node_set_mode :: "nat \<Rightarrow> file_mode \<Rightarrow> 'a node_heap_scheme \<Rightarrow> 'a node_heap_scheme" where
  "node_set_mode i mode = upd_node i (\<lambda>n. n\<lparr>ni_meta := (ni_meta n)\<lparr>md_mode := mode\<rparr>\<rparr>)"

definition node_set_size :: "nat \<Rightarrow> u64 \<Rightarrow> 'a node_heap_scheme \<Rightarrow> 'a node_heap_scheme" where
  "node_set_size i sz = upd_node i (\<lambda>n. n\<lparr>ni_meta := (ni_meta n)\<lparr>md_size := sz\<rparr>\<rparr>)"

definition node_set_modified :: "nat \<Rightarrow> system_time \<Rightarrow> 'a node_heap_scheme \<Rightarrow> 'a node_heap_scheme" where
  "node_set_modified i t = upd_node i (\<lambda>n. n\<lparr>ni_meta := (ni_meta n)\<lparr>md_modified := t\<rparr>\<rparr>)"

definition node_set_owner :: "nat \<Rightarrow> u32 \<Rightarrow> u32 \<Rightarrow> 'a node_heap_scheme \<Rightarrow> 'a node_heap_scheme" where
  "node_set_owner i u g = upd_node i (\<lambda>n. n\<lparr>ni_meta := (ni_meta n)\<lparr>md_uid := u, md_gid := g\<rparr>\<rparr>)"

definition node_set_xattr :: "nat \<Rightarrow> string \<Rightarrow> bytes \<Rightarrow> 'a node_heap_scheme \<Rightarrow> 'a node_heap_scheme" where
  "node_set_xattr i attr data = upd_node i (\<lambda>n. n\<lparr>ni_xattrs := bt_insert attr data (ni_xattrs n)\<rparr>)"

definition node_get_xattr :: "nat \<Rightarrow> string \<Rightarrow> 'a node_heap_scheme \<Rightarrow> bytes option" where
  "node_get_xattr i attr h = bt_get (ni_xattrs (nh_cell h i)) attr"

definition node_list_xattrs :: "nat \<Rightarrow> 'a node_heap_scheme \<Rightarrow> string list" where
  "node_list_xattrs i h = bt_keys (ni_xattrs (nh_cell h i))"

definition node_remove_xattr :: "nat \<Rightarrow> string \<Rightarrow> ('a node_heap_scheme, bool) op" where
  "node_remove_xattr i attr = (\<lambda>h.
     (Ok (bt_get (ni_xattrs (nh_cell h i)) attr \<noteq> None),
      upd_node i (\<lambda>n. n\<lparr>ni_xattrs := bt_remove attr (ni_xattrs n)\<rparr>) h))"

section \<open>Open files\<close>

record node_handle =
  nf_node :: nat
  nf_meta :: metadata
  nf_data :: bytes
  nf_offset :: u64
  nf_dirty :: bool
  nf_closed :: bool

text \<open>\<open>Vec::resize\<close> panics when the new length passes \<open>isize::MAX\<close> bytes.\<close>

definition vec_resize :: "nat \<Rightarrow> bytes \<Rightarrow> bytes res" where
  "vec_resize n data =
     (if n > isize_max then Inl Panic
      else Ok (if n \<le> length data then take n data else data @ replicate (n - length data) 0))"

text \<open>The same comparison over binary integers, for evaluation.\<close>

lemma vec_resize_code [code]:
  "vec_resize n data =
     (if int n > 9223372036854775807 then Inl Panic
      else Ok (if n \<le> length data then take n data else data @ replicate (n - length data) 0))"
proof -
  have "int isize_max = 9223372036854775807" by (simp add: isize_max_def)
  then have "n > isize_max \<longleftrightarrow> int n > 9223372036854775807" by linarith
  then show ?thesis by (simp add: vec_resize_def)
qed

text \<open>\<open>usize::saturating_add\<close>.\<close>

definition saturating_add :: "nat \<Rightarrow> nat \<Rightarrow> nat" where
  "saturating_add a b = min (a + b) usize_max"

lemma saturating_add_code [code]:
  "saturating_add a b = (if int a + int b > 18446744073709551615 then usize_max else a + b)"
  by (auto simp: saturating_add_def usize_max_def min_def)

definition write_range :: "bytes \<Rightarrow> nat \<Rightarrow> bytes \<Rightarrow> bytes" where
  "write_range data start chunk = take start data @ chunk @ drop (start + length chunk) data"

definition node_open :: "nat \<Rightarrow> fs_context \<Rightarrow> string \<Rightarrow> ('a node_heap_scheme, node_handle) op" where
  "node_open i ctx name = (\<lambda>h.
     if name \<noteq> ''.'' then (Err (Path ''open'' name NotFound), h)
     else (Ok \<lparr>nf_node = i, nf_meta = node_metadata i h, nf_data = node_data i h,
               nf_offset = 0, nf_dirty = False, nf_closed = False\<rparr>, h))"

definition node_file_read :: "nat \<Rightarrow> (node_handle \<times> 'a node_heap_scheme, bytes) op" where
  "node_file_read len = (\<lambda>(f, h).
     if nf_closed f then (Err (Kind Closed), (f, h))
     else if is_dir (md_mode (nf_meta f)) then (Err (Path ''read'' (md_name (nf_meta f)) Invalid), (f, h))
     else
       (let start = unat (nf_offset f) in
        if start \<ge> length (nf_data f) then (Ok [], (f, h))
        else
          (let n = min len (length (nf_data f) - start) in
           (Ok (take n (drop start (nf_data f))),
            (f\<lparr>nf_offset := nf_offset f + of_nat n\<rparr>, h)))))"

definition node_file_write :: "bytes \<Rightarrow> (node_handle \<times> 'a node_heap_scheme, nat) op" where
  "node_file_write data = (\<lambda>(f, h).
     if nf_closed f then (Err (Kind Closed), (f, h))
     else if is_dir (md_mode (nf_meta f)) then (Err (Path ''write'' (md_name (nf_meta f)) IsDir), (f, h))
     else
       (let start = unat (nf_offset f);
            end = saturating_add start (length data) in
        case rbind (if start > length (nf_data f) then vec_resize start (nf_data f) else Ok (nf_data f))
               (\<lambda>d. if end > length d then vec_resize end d else Ok d) of
          Inl e \<Rightarrow> (Inl e, (f, h))
        | Inr d \<Rightarrow>
            (let d = write_range d start data in
             (Ok (length data),
              (f\<lparr>nf_data := d, nf_offset := of_nat end,
                 nf_meta := (nf_meta f)\<lparr>md_size := of_nat (length d), md_modified := nh_now h\<rparr>,
                 nf_dirty := True\<rparr>, h)))))"

definition node_file_read_at :: "nat \<Rightarrow> u64 \<Rightarrow> (node_handle \<times> 'a node_heap_scheme, bytes) op" where
  "node_file_read_at len offset = (\<lambda>(f, h).
     if unat offset > length (nf_data f)
     then (Err (Path ''read'' (md_name (nf_meta f)) Invalid), (f, h))
     else
       (let start = unat offset; n = min len (length (nf_data f) - start) in
        (Ok (take n (drop start (nf_data f))), (f, h))))"

definition node_file_write_at :: "bytes \<Rightarrow> u64 \<Rightarrow> (node_handle \<times> 'a node_heap_scheme, nat) op" where
  "node_file_write_at data offset = (\<lambda>(f, h). node_file_write data (f\<lparr>nf_offset := offset\<rparr>, h))"

definition node_file_seek :: "seek_from \<Rightarrow> (node_handle \<times> 'a node_heap_scheme, u64) op" where
  "node_file_seek pos = (\<lambda>(f, h).
     (let next = (case pos of
                    SeekStart p \<Rightarrow> int (unat p)
                  | SeekEnd off \<Rightarrow> int (length (nf_data f)) + off
                  | SeekCurrent off \<Rightarrow> int (unat (nf_offset f)) + off) in
      if next < 0 \<or> next > int (length (nf_data f))
      then (Err (Path ''seek'' (md_name (nf_meta f)) Invalid), (f, h))
      else (Ok (of_int next), (f\<lparr>nf_offset := of_int next\<rparr>, h))))"

definition node_file_stat :: "(node_handle \<times> 'a node_heap_scheme, metadata) op" where
  "node_file_stat = (\<lambda>(f, h). (Ok (nf_meta f), (f, h)))"

definition node_file_sync :: "(node_handle \<times> 'a node_heap_scheme, unit) op" where
  "node_file_sync = (\<lambda>(f, h).
     if nf_dirty f then (Ok (), (f\<lparr>nf_dirty := False\<rparr>, node_set_data (nf_node f) (nf_data f) h))
     else (Ok (), (f, h)))"

definition node_file_close :: "(node_handle \<times> 'a node_heap_scheme, unit) op" where
  "node_file_close = (\<lambda>(f, h).
     if nf_closed f then (Err (Kind Closed), (f, h))
     else obind node_file_sync (\<lambda>_. modify (\<lambda>(f, h). (f\<lparr>nf_closed := True\<rparr>, h))) (f, h))"

definition node_file_handle :: "('a node_heap_scheme, node_handle) file_handle" where
  "node_file_handle =
     \<lparr>fh_read = node_file_read, fh_write = node_file_write,
      fh_read_at = node_file_read_at, fh_write_at = node_file_write_at,
      fh_seek = node_file_seek, fh_stat = node_file_stat,
      fh_read_dir = default_handle_read_dir node_file_stat,
      fh_sync = node_file_sync, fh_close = node_file_close\<rparr>"

section \<open>A node as a file system\<close>

text \<open>The methods of \<open>impl FileSystem for Node\<close>, whose only path is \<^verbatim>\<open>"."\<close>.\<close>

definition self_only :: "string \<Rightarrow> string \<Rightarrow> ('t, 'b) op \<Rightarrow> ('t, 'b) op" where
  "self_only what name m =
     (if name \<noteq> ''.'' then throw (Fail (Path what name NotFound)) else m)"

definition node_fs_stat :: "nat \<Rightarrow> fs_context \<Rightarrow> string \<Rightarrow> ('a node_heap_scheme, metadata) op" where
  "node_fs_stat i ctx name = self_only ''stat'' name (gets (node_metadata i))"

definition node_resize :: "nat \<Rightarrow> u64 \<Rightarrow> ('a node_heap_scheme, unit) op" where
  "node_resize i sz =
     obind (gets (node_data i)) (\<lambda>data.
     obind (lift_res (vec_resize (unat sz) data)) (\<lambda>data.
     modify (node_set_data i data)))"

definition node_fs_truncate :: "nat \<Rightarrow> string \<Rightarrow> u64 \<Rightarrow> ('a node_heap_scheme, unit) op" where
  "node_fs_truncate i name sz = self_only ''truncate'' name (node_resize i sz)"

definition node_fs_set_xattr :: "nat \<Rightarrow> string \<Rightarrow> string \<Rightarrow> bytes \<Rightarrow> ('a node_heap_scheme, unit) op" where
  "node_fs_set_xattr i name attr data =
     self_only ''setxattr'' name (modify (node_set_xattr i attr data))"

definition get_xattr_or :: "nat \<Rightarrow> string \<Rightarrow> ('a node_heap_scheme, bytes) op" where
  "get_xattr_or i attr =
     obind (gets (node_get_xattr i attr)) (\<lambda>v. case v of
       Some data \<Rightarrow> ret data
     | None \<Rightarrow> throw (Fail (Path ''getxattr'' attr NotFound)))"

definition node_fs_get_xattr :: "nat \<Rightarrow> string \<Rightarrow> string \<Rightarrow> ('a node_heap_scheme, bytes) op" where
  "node_fs_get_xattr i name attr = self_only ''getxattr'' name (get_xattr_or i attr)"

definition node_fs_list_xattrs :: "nat \<Rightarrow> string \<Rightarrow> ('a node_heap_scheme, string list) op" where
  "node_fs_list_xattrs i name = self_only ''listxattrs'' name (gets (node_list_xattrs i))"

definition remove_xattr_or :: "nat \<Rightarrow> string \<Rightarrow> ('a node_heap_scheme, unit) op" where
  "remove_xattr_or i attr =
     obind (node_remove_xattr i attr) (\<lambda>found.
     if found then ret () else throw (Fail (Path ''removexattr'' attr NotFound)))"

definition node_fs_remove_xattr :: "nat \<Rightarrow> string \<Rightarrow> string \<Rightarrow> ('a node_heap_scheme, unit) op" where
  "node_fs_remove_xattr i name attr = self_only ''removexattr'' name (remove_xattr_or i attr)"

definition node_fs :: "nat \<Rightarrow> ('a node_heap_scheme, node_handle) filesystem" where
  "node_fs i =
     \<lparr>fs_file = node_file_handle, fs_open = node_open i, fs_stat = node_fs_stat i,
      fs_lstat = default_lstat (node_fs_stat i),
      fs_read_dir = default_read_dir node_file_handle (node_open i),
      fs_create = (\<lambda>_. not_supported),
      fs_open_file = default_open_file node_file_handle (node_open i) (\<lambda>_. not_supported)
        (\<lambda>_ _. not_supported),
      fs_mkdir = (\<lambda>_ _. not_supported), fs_remove = (\<lambda>_. not_supported),
      fs_rename = (\<lambda>_ _. not_supported), fs_link = (\<lambda>_ _. not_supported),
      fs_chmod = (\<lambda>_ _. not_supported), fs_chown = (\<lambda>_ _ _. not_supported),
      fs_chtimes = (\<lambda>_ _. not_supported), fs_truncate = node_fs_truncate i,
      fs_symlink = (\<lambda>_ _. not_supported), fs_readlink = (\<lambda>_. not_supported),
      fs_set_xattr = node_fs_set_xattr i, fs_get_xattr = node_fs_get_xattr i,
      fs_list_xattrs = node_fs_list_xattrs i, fs_remove_xattr = node_fs_remove_xattr i,
      fs_sync_fs = ret ()\<rparr>"

end
