(* ===== verification/Memfs.thy ===== *)
theory Memfs
  imports Node
begin

text \<open>
  \<open>MemFs\<close> of \<open>crates/star9-fs/src/lib.rs\<close>: the in-memory file system, a \<open>BTreeMap\<close> from canonical
  paths to shared nodes. Its handles are either open files or directory listings. Symbolic links
  are followed by recursion in \<open>open\<close> and \<open>stat\<close>, which need not end: the model counts the links
  followed, and \<open>memfs_fuel\<close>, one more than the number of nodes, is shown to be enough to tell a
  chain that ends from one that does not.
\<close>

section \<open>State and handles\<close>

record memfs = node_heap +
  mf_nodes :: "(string, nat) btmap"

datatype mem_file = NodeFile node_handle | DirFile dir_file

definition on_node_file :: "(node_handle \<times> 's, 'a) op \<Rightarrow> node_handle \<Rightarrow> 's \<Rightarrow> 'a res \<times> mem_file \<times> 's" where
  "on_node_file m f s = (case m (f, s) of (r, (f', s')) \<Rightarrow> (r, (NodeFile f', s')))"

definition on_dir_file :: "(dir_file \<times> 's, 'a) op \<Rightarrow> dir_file \<Rightarrow> 's \<Rightarrow> 'a res \<times> mem_file \<times> 's" where
  "on_dir_file m f s = (case m (f, s) of (r, (f', s')) \<Rightarrow> (r, (DirFile f', s')))"

text \<open>Dispatch on the concrete type behind \<open>BoxFile\<close>.\<close>

definition mem_dispatch ::
    "(node_handle \<times> 's, 'a) op \<Rightarrow> (dir_file \<times> 's, 'a) op \<Rightarrow> (mem_file \<times> 's, 'a) op" where
  "mem_dispatch m n = (\<lambda>(f, s). case f of
       NodeFile g \<Rightarrow> on_node_file m g s
     | DirFile d \<Rightarrow> on_dir_file n d s)"

definition mem_file_handle :: "(memfs, mem_file) file_handle" where
  "mem_file_handle =
     \<lparr>fh_read = (\<lambda>n. mem_dispatch (fh_read node_file_handle n) (fh_read dir_file_handle n)),
      fh_write = (\<lambda>d. mem_dispatch (fh_write node_file_handle d) (fh_write dir_file_handle d)),
      fh_read_at = (\<lambda>n p. mem_dispatch (fh_read_at node_file_handle n p) (fh_read_at dir_file_handle n p)),
      fh_write_at = (\<lambda>d p. mem_dispatch (fh_write_at node_file_handle d p) (fh_write_at dir_file_handle d p)),
      fh_seek = (\<lambda>p. mem_dispatch (fh_seek node_file_handle p) (fh_seek dir_file_handle p)),
      fh_stat = mem_dispatch (fh_stat node_file_handle) (fh_stat dir_file_handle),
      fh_read_dir = (\<lambda>n. mem_dispatch (fh_read_dir node_file_handle n) (fh_read_dir dir_file_handle n)),
      fh_sync = mem_dispatch (fh_sync node_file_handle) (fh_sync dir_file_handle),
      fh_close = mem_dispatch (fh_close node_file_handle) (fh_close dir_file_handle)\<rparr>"

definition mf_node :: "string \<Rightarrow> memfs \<Rightarrow> nat option" where
  "mf_node name m = bt_get (mf_nodes m) name"

definition mf_insert :: "string \<Rightarrow> nat \<Rightarrow> memfs \<Rightarrow> memfs" where
  "mf_insert name i m = m\<lparr>mf_nodes := bt_insert name i (mf_nodes m)\<rparr>"

definition mf_delete :: "string \<Rightarrow> memfs \<Rightarrow> memfs" where
  "mf_delete name m = m\<lparr>mf_nodes := bt_remove name (mf_nodes m)\<rparr>"

section \<open>Listing and directory sizes\<close>

text \<open>
  The path of a node below the directory \<open>name\<close>, if it is below it: the loop of \<open>children_for\<close>
  skips the others.
\<close>

definition rest_under :: "string \<Rightarrow> string \<Rightarrow> string option" where
  "rest_under name fname =
     (if name = ''.'' then (if fname = ''.'' then None else Some fname)
      else strip_prefix (name @ ''/'') fname)"

fun children_loop ::
    "'a node_heap_scheme \<Rightarrow> string \<Rightarrow> (string \<times> nat) list \<Rightarrow> dir_entry list \<times> string btset \<Rightarrow> dir_entry list \<times> string btset" where
  "children_loop h name [] acc = acc"
| "children_loop h name ((fname, i) # rest) (entries, need) =
     children_loop h name rest
       (case rest_under name fname of
          None \<Rightarrow> (entries, need)
        | Some r \<Rightarrow>
            (case split_once slash r of
               Some (head, _) \<Rightarrow> (entries, bs_insert head need)
             | None \<Rightarrow> (entries @ [dir_entry_new r ((node_metadata i h)\<lparr>md_name := r\<rparr>)], need)))"

definition children_for :: "string \<Rightarrow> memfs \<Rightarrow> dir_entry list \<times> string btset" where
  "children_for name m =
     (case children_loop m name (mf_nodes m) ([], []) of
        (entries, need) \<Rightarrow> (entries, fold (\<lambda>e s. bt_remove (de_name e) s) entries need))"

definition recompute_one :: "string \<Rightarrow> memfs \<Rightarrow> memfs" where
  "recompute_one dir m =
     (case children_for dir m of (entries, need) \<Rightarrow>
        (case mf_node dir m of
           Some i \<Rightarrow> node_set_size i (2 + of_nat (length entries) + of_nat (length need)) m
         | None \<Rightarrow> m))"

definition recompute_dir_sizes :: "memfs \<Rightarrow> memfs" where
  "recompute_dir_sizes m =
     fold recompute_one
       (map fst (filter (\<lambda>(name, i). md_is_dir (node_metadata i m)) (mf_nodes m))) m"

section \<open>Building\<close>

definition memfs_new :: "system_time \<Rightarrow> memfs" where
  "memfs_new now =
     \<lparr>nh_cell = (\<lambda>_. node_dir '''' 0)(0 := node_dir ''.'' (MODE_DIR OR from_perm 0x1ED)),
      nh_next = 1, nh_now = now, mf_nodes = [(''.'', 0)]\<rparr>"

definition insert_new :: "string \<Rightarrow> node_inner \<Rightarrow> (memfs, nat) op" where
  "insert_new name inner =
     obind (alloc_node inner) (\<lambda>i.
     obind (modify (mf_insert name i)) (\<lambda>_.
     ret i))"

text \<open>\<open>ensure_parent_dirs\<close> walks up by \<open>parent_path\<close> until it reaches the root.\<close>

definition path_depth :: "string \<Rightarrow> nat" where
  "path_depth p =
     (if p = ''.'' then 0
      else if clean_path p = ''.'' then 1 else Suc (length (split_on slash (clean_path p))))"

lemma path_depth_parent: "p \<noteq> ''.'' \<Longrightarrow> path_depth (parent_path p) < path_depth p"
proof (cases "clean_path p = ''.''")
  case False
  assume "p \<noteq> ''.''"
  obtain ps where g: "good_parts ps" and c: "clean_path p = join_on slash ps"
    using False clean_path_form by blast
  then obtain qs q where ps: "ps = qs @ [q]"
    by (cases ps rule: rev_cases) (auto simp: good_parts_def)
  have par: "parent_path p = (if qs = [] then ''.'' else join_on slash qs)"
    using parent_join [of qs q] g c ps parent_clean [of p] by simp
  show ?thesis
  proof (cases "qs = []")
    case True
    then show ?thesis using par \<open>p \<noteq> ''.''\<close> by (simp add: path_depth_def)
  next
    case False
    then have gq: "good_parts qs" using g ps good_parts_butlast by blast
    then have "path_depth (join_on slash qs) = Suc (length qs)"
      by (simp add: path_depth_def join_good_neq_dot clean_join good_parts_split)
    moreover have "path_depth p = Suc (length ps)"
      using g c \<open>clean_path p \<noteq> ''.''\<close> \<open>p \<noteq> ''.''\<close> by (simp add: path_depth_def good_parts_split)
    ultimately show ?thesis using par False ps by simp
  qed
qed (simp add: path_depth_def parent_path_def)

function parent_chain :: "string \<Rightarrow> string list" where
  "parent_chain cur = (if cur = ''.'' then [] else cur # parent_chain (parent_path cur))"
  by auto
termination by (relation "measure path_depth") (auto simp: path_depth_parent)

declare parent_chain.simps [simp del]

definition or_insert_dir :: "string \<Rightarrow> (memfs, unit) op" where
  "or_insert_dir dir =
     obind (gets (mf_node dir)) (\<lambda>n. case n of
       Some _ \<Rightarrow> ret ()
     | None \<Rightarrow> obind (insert_new dir (node_dir (base_name dir) (MODE_DIR OR from_perm 0x1ED))) (\<lambda>_. ret ()))"

definition ensure_parent_dirs :: "string \<Rightarrow> (memfs, unit) op" where
  "ensure_parent_dirs name = op_each or_insert_dir (rev (parent_chain (parent_path name)))"

definition from_entries :: "system_time \<Rightarrow> (string \<times> bytes) list \<Rightarrow> memfs" where
  "from_entries now entries =
     recompute_dir_sizes (snd (op_each (\<lambda>(name, data).
       (let name = clean_path name in
        obind (ensure_parent_dirs name) (\<lambda>_.
        obind (insert_new name (node_file (base_name name) data (from_perm 0x1A4))) (\<lambda>_.
        ret ())))) entries (memfs_new now)))"

definition set_node :: "string \<Rightarrow> nat \<Rightarrow> memfs \<Rightarrow> memfs" where
  "set_node name i m = recompute_dir_sizes (mf_insert (clean_path name) i m)"

section \<open>Opening and symbolic links\<close>

definition resolve_symlink :: "fs_context \<Rightarrow> string \<Rightarrow> string \<Rightarrow> string" where
  "resolve_symlink ctx name target =
     (if starts_with target ''/'' then clean_path (trim_start_char slash target)
      else if filepath ctx = Some name \<or> filepath ctx = None
      then clean_path (parent_path name @ ''/'' @ target)
      else clean_path target)"

definition link_target :: "nat \<Rightarrow> memfs \<Rightarrow> string" where
  "link_target i m = from_utf8_lossy (node_data i m)"

definition open_listing :: "string \<Rightarrow> (memfs, mem_file) op" where
  "open_listing name = (\<lambda>m.
     case children_for name m of (entries, need) \<Rightarrow>
       if mf_node name m = None \<and> entries = [] \<and> need = [] \<and> name \<noteq> ''.''
       then (Err (Path ''open'' name NotFound), m)
       else
         (let entries = entries @ map (\<lambda>d. dir_entry_new d (metadata_dir d 0x1ED)) (bt_keys need);
              md = (case mf_node name m of
                      Some i \<Rightarrow> node_metadata i m
                    | None \<Rightarrow> metadata_dir (base_name name) 0x1ED)
          in (Ok (DirFile (dir_file_new md entries)), m)))"

fun memfs_open_n :: "nat \<Rightarrow> fs_context \<Rightarrow> string \<Rightarrow> (memfs, mem_file) op" where
  "memfs_open_n 0 ctx name = throw Diverge"
| "memfs_open_n (Suc fuel) ctx name =
     (if \<not> valid_path name then throw (Fail (Path ''open'' name NotFound))
      else
        (let name = clean_path name in (\<lambda>m.
         case mf_node name m of
           Some i \<Rightarrow>
             (let md = node_metadata i m in
              if follow_symlinks ctx \<and> is_symlink (md_mode md)
              then memfs_open_n fuel ctx (resolve_symlink ctx name (link_target i m)) m
              else if \<not> md_is_dir md
              then obind (modify (node_set_name i (base_name name))) (\<lambda>_.
                   obind (node_open i ctx ''.'') (\<lambda>f. ret (NodeFile f))) m
              else open_listing name m)
         | None \<Rightarrow> open_listing name m)))"

fun memfs_stat_n :: "nat \<Rightarrow> fs_context \<Rightarrow> string \<Rightarrow> (memfs, metadata) op" where
  "memfs_stat_n 0 ctx name = throw Diverge"
| "memfs_stat_n (Suc fuel) ctx name =
     (if \<not> valid_path name then throw (Fail (Path ''stat'' name NotFound))
      else
        (let name = clean_path name in (\<lambda>m.
         case mf_node name m of
           None \<Rightarrow> (Err (Path ''stat'' name NotFound), m)
         | Some i \<Rightarrow>
             (let md = node_metadata i m in
              if follow_symlinks ctx \<and> is_symlink (md_mode md)
              then memfs_stat_n fuel ctx (resolve_symlink ctx name (link_target i m)) m
              else (Ok md, m)))))"

definition memfs_fuel :: "memfs \<Rightarrow> nat" where
  "memfs_fuel m = Suc (length (mf_nodes m))"

definition memfs_open :: "fs_context \<Rightarrow> string \<Rightarrow> (memfs, mem_file) op" where
  "memfs_open ctx name = (\<lambda>m. memfs_open_n (memfs_fuel m) ctx name m)"

definition memfs_stat :: "fs_context \<Rightarrow> string \<Rightarrow> (memfs, metadata) op" where
  "memfs_stat ctx name = (\<lambda>m. memfs_stat_n (memfs_fuel m) ctx name m)"

section \<open>The other methods\<close>

definition memfs_stat_path :: "string \<Rightarrow> (memfs, metadata) op" where
  "memfs_stat_path name = memfs_stat (with_origin name ''stat'' context_new) name"

definition memfs_exists :: "string \<Rightarrow> (memfs, bool) op" where
  "memfs_exists name = exists_with memfs_stat_path name"

definition memfs_is_dir :: "string \<Rightarrow> (memfs, bool) op" where
  "memfs_is_dir name = obind (memfs_stat_path name) (\<lambda>md. ret (md_is_dir md))"

definition memfs_read_dir :: "fs_context \<Rightarrow> string \<Rightarrow> (memfs, dir_entry list) op" where
  "memfs_read_dir = default_read_dir mem_file_handle memfs_open"

definition memfs_is_empty :: "string \<Rightarrow> (memfs, bool) op" where
  "memfs_is_empty name =
     obind (memfs_read_dir (with_origin name ''readdir'' context_new) name) (\<lambda>es. ret (es = []))"

definition unwrap_or_false :: "('t, bool) op \<Rightarrow> ('t, bool) op" where
  "unwrap_or_false m = obind (attempt m) (\<lambda>r. ret (case r of Inr b \<Rightarrow> b | Inl _ \<Rightarrow> False))"

definition guard_op :: "bool \<Rightarrow> error \<Rightarrow> ('t, unit) op" where
  "guard_op b e = (if b then ret () else throw (Fail e))"

text \<open>\<^verbatim>\<open>parent != "." && !exists(self, &parent)?\<close> refuses a node without a parent.\<close>

definition require_parent :: "string \<Rightarrow> string \<Rightarrow> (memfs, unit) op" where
  "require_parent what name =
     (let parent = parent_path name in
      if parent = ''.'' then ret ()
      else obind (memfs_exists parent) (\<lambda>b. guard_op b (Path what name NotFound)))"

definition require_parent_dir :: "string \<Rightarrow> string \<Rightarrow> (memfs, unit) op" where
  "require_parent_dir what name =
     (let parent = parent_path name in
      if parent = ''.'' then ret ()
      else obind (unwrap_or_false (memfs_is_dir parent)) (\<lambda>b. guard_op b (Path what name NotFound)))"

definition node_or :: "string \<Rightarrow> string \<Rightarrow> (memfs, nat) op" where
  "node_or what name =
     obind (gets (mf_node name)) (\<lambda>n. case n of
       Some i \<Rightarrow> ret i
     | None \<Rightarrow> throw (Fail (Path what name NotFound)))"

definition memfs_create :: "string \<Rightarrow> (memfs, mem_file) op" where
  "memfs_create name =
     (let name = clean_path name in
      obind (guard_op (valid_path name) (Path ''create'' name NotFound)) (\<lambda>_.
      obind (require_parent ''create'' name) (\<lambda>_.
      obind (insert_new name (node_file (base_name name) [] (from_perm 0x1A4))) (\<lambda>i.
      obind (modify recompute_dir_sizes) (\<lambda>_.
      obind (node_open i context_new ''.'') (\<lambda>f.
      ret (NodeFile f)))))))"

definition memfs_mkdir :: "string \<Rightarrow> file_mode \<Rightarrow> (memfs, unit) op" where
  "memfs_mkdir name p =
     (let name = clean_path name in
      obind (guard_op (valid_path name) (Path ''mkdir'' name NotFound)) (\<lambda>_.
      obind (gets (mf_node name)) (\<lambda>n.
      obind (guard_op (n = None) (Path ''mkdir'' name AlreadyExists)) (\<lambda>_.
      obind (require_parent ''mkdir'' name) (\<lambda>_.
      obind (insert_new name (node_dir (base_name name) (MODE_DIR OR p))) (\<lambda>_.
      modify recompute_dir_sizes))))))"

definition memfs_remove :: "string \<Rightarrow> (memfs, unit) op" where
  "memfs_remove name =
     (let name = clean_path name in
      obind (guard_op (name \<noteq> ''.'') (Path ''remove'' name Invalid)) (\<lambda>_.
      obind (node_or ''remove'' name) (\<lambda>_.
      obind (memfs_is_dir name) (\<lambda>d.
      obind (if d then memfs_is_empty name else ret True) (\<lambda>removable.
      obind (guard_op removable (Path ''remove'' name NotEmpty)) (\<lambda>_.
      modify (\<lambda>m. recompute_dir_sizes (mf_delete name m))))))))"

definition to_move :: "string \<Rightarrow> string \<Rightarrow> (string, nat) btmap \<Rightarrow> (string \<times> string \<times> nat) list" where
  "to_move old new nodes =
     map (\<lambda>(path, i). (path, new @ (case strip_prefix old path of Some s \<Rightarrow> s | None \<Rightarrow> ''''), i))
       (filter (\<lambda>(path, i). path = old \<or> starts_with path (old @ ''/'')) nodes)"

definition move_nodes :: "string \<Rightarrow> string \<Rightarrow> (string, nat) btmap \<Rightarrow> (string, nat) btmap" where
  "move_nodes old new nodes =
     (let mv = to_move old new nodes;
          nodes = fold (\<lambda>(o_path, _, _) ns. bt_remove o_path ns) mv nodes
      in fold (\<lambda>(_, n_path, i) ns. bt_insert n_path i ns) mv nodes)"

definition memfs_rename :: "string \<Rightarrow> string \<Rightarrow> (memfs, unit) op" where
  "memfs_rename old new =
     (let old = clean_path old; new = clean_path new in
      obind (guard_op (valid_path old \<and> valid_path new) (Path ''rename'' old NotFound)) (\<lambda>_.
      if old = new then ret ()
      else
        obind (require_parent_dir ''rename'' new) (\<lambda>_.
        obind (node_or ''rename'' old) (\<lambda>i.
        obind (gets (\<lambda>m. case mf_node new m of
                   Some e \<Rightarrow> md_is_dir (node_metadata e m)
                     \<and> list_ex (\<lambda>p. starts_with p (new @ ''/'')) (bt_keys (mf_nodes m))
                 | None \<Rightarrow> False)) (\<lambda>occupied.
        obind (guard_op (\<not> occupied) (Path ''rename'' new AlreadyExists)) (\<lambda>_.
        modify (\<lambda>m. recompute_dir_sizes
          (if md_is_dir (node_metadata i m)
           then m\<lparr>mf_nodes := move_nodes old new (mf_nodes m)\<rparr>
           else mf_insert new i (mf_delete old (mf_delete new m))))))))))"

definition memfs_link :: "string \<Rightarrow> string \<Rightarrow> (memfs, unit) op" where
  "memfs_link old new =
     (let old = clean_path old; new = clean_path new in
      obind (guard_op (valid_path old \<and> valid_path new) (Path ''link'' old NotFound)) (\<lambda>_.
      obind (gets (mf_node new)) (\<lambda>n.
      obind (guard_op (n = None) (Path ''link'' new AlreadyExists)) (\<lambda>_.
      obind (require_parent_dir ''link'' new) (\<lambda>_.
      obind (node_or ''link'' old) (\<lambda>i.
      obind (gets (node_metadata i)) (\<lambda>md.
      obind (guard_op (\<not> md_is_dir md) (Path ''link'' old PermissionDenied)) (\<lambda>_.
      modify (\<lambda>m. recompute_dir_sizes (mf_insert new i m))))))))))"

definition memfs_chmod :: "string \<Rightarrow> file_mode \<Rightarrow> (memfs, unit) op" where
  "memfs_chmod name mode =
     obind (node_or ''chmod'' (clean_path name)) (\<lambda>i.
     obind (gets (node_metadata i)) (\<lambda>md.
     modify (node_set_mode i (type_bits (md_mode md) OR from_perm (perm mode)))))"

definition memfs_chown :: "string \<Rightarrow> u32 \<Rightarrow> u32 \<Rightarrow> (memfs, unit) op" where
  "memfs_chown name u g =
     obind (node_or ''chown'' (clean_path name)) (\<lambda>i. modify (node_set_owner i u g))"

definition memfs_chtimes :: "string \<Rightarrow> system_time \<Rightarrow> (memfs, unit) op" where
  "memfs_chtimes name t =
     obind (node_or ''chtimes'' (clean_path name)) (\<lambda>i. modify (node_set_modified i t))"

definition memfs_truncate :: "string \<Rightarrow> u64 \<Rightarrow> (memfs, unit) op" where
  "memfs_truncate name sz =
     obind (node_or ''truncate'' (clean_path name)) (\<lambda>i. node_resize i sz)"

definition memfs_symlink :: "string \<Rightarrow> string \<Rightarrow> (memfs, unit) op" where
  "memfs_symlink old new =
     (let new = clean_path new in
      obind (guard_op (valid_path new) (Path ''symlink'' new Invalid)) (\<lambda>_.
      obind (require_parent ''symlink'' new) (\<lambda>_.
      obind (insert_new new (node_symlink (base_name new) old)) (\<lambda>_.
      modify recompute_dir_sizes))))"

definition memfs_readlink :: "string \<Rightarrow> (memfs, string) op" where
  "memfs_readlink name =
     (let name = clean_path name in
      obind (node_or ''readlink'' name) (\<lambda>i.
      obind (gets (node_metadata i)) (\<lambda>md.
      obind (guard_op (is_symlink (md_mode md)) (Path ''readlink'' name Invalid)) (\<lambda>_.
      gets (link_target i)))))"

definition memfs_set_xattr :: "string \<Rightarrow> string \<Rightarrow> bytes \<Rightarrow> (memfs, unit) op" where
  "memfs_set_xattr name attr data =
     obind (node_or ''setxattr'' (clean_path name)) (\<lambda>i. modify (node_set_xattr i attr data))"

definition memfs_get_xattr :: "string \<Rightarrow> string \<Rightarrow> (memfs, bytes) op" where
  "memfs_get_xattr name attr =
     obind (node_or ''getxattr'' (clean_path name)) (\<lambda>i. get_xattr_or i attr)"

definition memfs_list_xattrs :: "string \<Rightarrow> (memfs, string list) op" where
  "memfs_list_xattrs name =
     obind (node_or ''listxattrs'' (clean_path name)) (\<lambda>i. gets (node_list_xattrs i))"

definition memfs_remove_xattr :: "string \<Rightarrow> string \<Rightarrow> (memfs, unit) op" where
  "memfs_remove_xattr name attr =
     obind (node_or ''removexattr'' (clean_path name)) (\<lambda>i. remove_xattr_or i attr)"

definition memfs_open_file :: "string \<Rightarrow> open_flags \<Rightarrow> file_mode \<Rightarrow> (memfs, mem_file) op" where
  "memfs_open_file = default_open_file mem_file_handle memfs_open memfs_create memfs_chmod"

definition memfs_ops :: "(memfs, mem_file) filesystem" where
  "memfs_ops =
     \<lparr>fs_file = mem_file_handle, fs_open = memfs_open, fs_stat = memfs_stat,
      fs_lstat = default_lstat memfs_stat, fs_read_dir = memfs_read_dir,
      fs_create = memfs_create, fs_open_file = memfs_open_file, fs_mkdir = memfs_mkdir,
      fs_remove = memfs_remove, fs_rename = memfs_rename, fs_link = memfs_link,
      fs_chmod = memfs_chmod, fs_chown = memfs_chown, fs_chtimes = memfs_chtimes,
      fs_truncate = memfs_truncate, fs_symlink = memfs_symlink, fs_readlink = memfs_readlink,
      fs_set_xattr = memfs_set_xattr, fs_get_xattr = memfs_get_xattr,
      fs_list_xattrs = memfs_list_xattrs, fs_remove_xattr = memfs_remove_xattr,
      fs_sync_fs = ret ()\<rparr>"

end
