(* ===== verification/Memfs_Laws.thy ===== *)
theory Memfs_Laws
  imports Memfs
begin

text \<open>
  What the in-memory file system guarantees: its representation invariant and that every method
  keeps it, that following symbolic links is decided by \<open>memfs_fuel\<close> links, the effect of each
  method on the map from paths to nodes, and reading back what was written.
\<close>

section \<open>Frames: what the node updates leave alone\<close>

lemma upd_node_simps [simp]:
  "nh_next (upd_node i f h) = nh_next h" "nh_now (upd_node i f h) = nh_now h"
  "nh_cell (upd_node i f h) j = (if j = i then f (nh_cell h i) else nh_cell h j)"
  by (simp_all add: upd_node_def)

lemma upd_node_nodes [simp]: "mf_nodes (upd_node i f m) = mf_nodes m"
  by (simp add: upd_node_def)

lemmas node_updates = node_set_name_def node_set_data_def node_set_mode_def node_set_size_def
  node_set_modified_def node_set_owner_def node_set_xattr_def

text \<open>Two states that differ at most in the sizes recorded in the nodes.\<close>

definition same_but_size :: "memfs \<Rightarrow> memfs \<Rightarrow> bool" where
  "same_but_size m m' \<longleftrightarrow> mf_nodes m' = mf_nodes m \<and> nh_next m' = nh_next m \<and> nh_now m' = nh_now m \<and>
     (\<forall>i. \<exists>sz. nh_cell m' i = (nh_cell m i)\<lparr>ni_meta := (ni_meta (nh_cell m i))\<lparr>md_size := sz\<rparr>\<rparr>)"

lemma same_but_size_refl: "same_but_size m m"
proof -
  have "\<exists>sz. nh_cell m i = (nh_cell m i)\<lparr>ni_meta := (ni_meta (nh_cell m i))\<lparr>md_size := sz\<rparr>\<rparr>" for i
    by (rule exI [of _ "md_size (ni_meta (nh_cell m i))"]) simp
  then show ?thesis by (simp add: same_but_size_def)
qed

lemma same_but_size_trans:
  assumes "same_but_size a b" "same_but_size b c"
  shows "same_but_size a c"
proof -
  have "\<exists>sz. nh_cell c i = (nh_cell a i)\<lparr>ni_meta := (ni_meta (nh_cell a i))\<lparr>md_size := sz\<rparr>\<rparr>" for i
  proof -
    obtain s where "nh_cell b i = (nh_cell a i)\<lparr>ni_meta := (ni_meta (nh_cell a i))\<lparr>md_size := s\<rparr>\<rparr>"
      using assms(1) by (auto simp: same_but_size_def)
    moreover obtain t where "nh_cell c i = (nh_cell b i)\<lparr>ni_meta := (ni_meta (nh_cell b i))\<lparr>md_size := t\<rparr>\<rparr>"
      using assms(2) by (auto simp: same_but_size_def)
    ultimately show ?thesis by (intro exI [of _ t]) simp
  qed
  then show ?thesis using assms by (simp add: same_but_size_def)
qed

lemma recompute_one_same: "same_but_size m (recompute_one dir m)"
proof -
  have "same_but_size m (node_set_size i sz m)" for i sz
    using same_but_size_refl [of m]
    by (auto simp: same_but_size_def node_set_size_def)
  then show ?thesis
    by (auto simp: recompute_one_def same_but_size_refl split: prod.splits option.splits)
qed

lemma recompute_same: "same_but_size m (recompute_dir_sizes m)"
proof -
  have "same_but_size m (fold recompute_one ds m)" for ds m
    by (induction ds arbitrary: m)
       (auto intro: same_but_size_refl same_but_size_trans [OF recompute_one_same])
  then show ?thesis by (simp add: recompute_dir_sizes_def)
qed

lemma recompute_cell:
  "\<exists>sz. nh_cell (recompute_dir_sizes m) i = (nh_cell m i)\<lparr>ni_meta := (ni_meta (nh_cell m i))\<lparr>md_size := sz\<rparr>\<rparr>"
  using recompute_same [of m] by (simp add: same_but_size_def)

lemma recompute_simps [simp]:
  "mf_nodes (recompute_dir_sizes m) = mf_nodes m"
  "nh_next (recompute_dir_sizes m) = nh_next m"
  "nh_now (recompute_dir_sizes m) = nh_now m"
  "ni_data (nh_cell (recompute_dir_sizes m) i) = ni_data (nh_cell m i)"
  "ni_xattrs (nh_cell (recompute_dir_sizes m) i) = ni_xattrs (nh_cell m i)"
  "md_mode (ni_meta (nh_cell (recompute_dir_sizes m) i)) = md_mode (ni_meta (nh_cell m i))"
  "md_name (ni_meta (nh_cell (recompute_dir_sizes m) i)) = md_name (ni_meta (nh_cell m i))"
proof -
  obtain sz where "nh_cell (recompute_dir_sizes m) i =
      (nh_cell m i)\<lparr>ni_meta := (ni_meta (nh_cell m i))\<lparr>md_size := sz\<rparr>\<rparr>"
    using recompute_cell by blast
  then show
    "ni_data (nh_cell (recompute_dir_sizes m) i) = ni_data (nh_cell m i)"
    "ni_xattrs (nh_cell (recompute_dir_sizes m) i) = ni_xattrs (nh_cell m i)"
    "md_mode (ni_meta (nh_cell (recompute_dir_sizes m) i)) = md_mode (ni_meta (nh_cell m i))"
    "md_name (ni_meta (nh_cell (recompute_dir_sizes m) i)) = md_name (ni_meta (nh_cell m i))"
    by simp_all
qed (use recompute_same [of m] in \<open>simp_all add: same_but_size_def\<close>)

lemma mf_update_simps [simp]:
  "mf_node n (mf_insert name i m) = (if n = name then Some i else mf_node n m)"
  "mf_node n (mf_delete name m) = (if n = name then None else mf_node n m)"
  "nh_cell (mf_insert name i m) = nh_cell m" "nh_cell (mf_delete name m) = nh_cell m"
  "nh_next (mf_insert name i m) = nh_next m" "nh_next (mf_delete name m) = nh_next m"
  "mf_nodes (mf_insert name i m) = bt_insert name i (mf_nodes m)"
  "mf_nodes (mf_delete name m) = bt_remove name (mf_nodes m)"
  by (simp_all add: mf_node_def mf_insert_def mf_delete_def)

lemma mf_node_recompute [simp]: "mf_node n (recompute_dir_sizes m) = mf_node n m"
  by (simp add: mf_node_def)

lemma mf_node_upd [simp]: "mf_node n (upd_node i f m) = mf_node n m"
  by (simp add: mf_node_def)

section \<open>The representation invariant\<close>

text \<open>
  The keys are strictly ascending canonical paths and every node is an allocated cell, so that a
  new node never aliases an old one.
\<close>

definition memfs_inv :: "memfs \<Rightarrow> bool" where
  "memfs_inv m \<longleftrightarrow> bt_ok (mf_nodes m) \<and>
     (\<forall>(name, i) \<in> set (mf_nodes m). valid_path name \<and> i < nh_next m)"

lemma memfs_inv_get: "memfs_inv m \<Longrightarrow> mf_node name m = Some i \<Longrightarrow> valid_path name \<and> i < nh_next m"
  unfolding memfs_inv_def mf_node_def by (auto dest: map_of_SomeD)

lemma memfs_inv_iff:
  "memfs_inv m \<longleftrightarrow> bt_ok (mf_nodes m) \<and>
     (\<forall>name i. mf_node name m = Some i \<longrightarrow> valid_path name \<and> i < nh_next m)"
proof (cases "bt_ok (mf_nodes m)")
  case True
  then show ?thesis unfolding memfs_inv_def mf_node_def
    by (auto simp: bt_get_in split: prod.splits)
qed (simp add: memfs_inv_def)

lemma memfs_inv_recompute [simp]: "memfs_inv (recompute_dir_sizes m) = memfs_inv m"
  by (simp add: memfs_inv_def)

lemma memfs_inv_upd [simp]: "memfs_inv (upd_node i f m) = memfs_inv m"
  by (simp add: memfs_inv_def)

lemma memfs_inv_insert: "memfs_inv m \<Longrightarrow> valid_path name \<Longrightarrow> i < nh_next m \<Longrightarrow> memfs_inv (mf_insert name i m)"
  by (auto simp: memfs_inv_iff)

lemma memfs_inv_delete: "memfs_inv m \<Longrightarrow> memfs_inv (mf_delete name m)"
  by (auto simp: memfs_inv_iff split: if_splits)

lemma memfs_inv_alloc:
  "memfs_inv m \<Longrightarrow> memfs_inv (m\<lparr>nh_cell := c, nh_next := Suc (nh_next m)\<rparr>)"
  by (auto simp: memfs_inv_def)

lemma keeps_insert_new [keeps_intros]: "valid_path name \<Longrightarrow> keeps memfs_inv (insert_new name inner)"
  unfolding keeps_def insert_new_def alloc_node_def
  by (auto simp: obind_def intro!: memfs_inv_insert memfs_inv_alloc)

lemma keeps_recompute: "memfs_inv m \<Longrightarrow> memfs_inv (recompute_dir_sizes m)"
  by simp

lemma keeps_node_updates:
  "memfs_inv m \<Longrightarrow> memfs_inv (node_set_name i n m)" "memfs_inv m \<Longrightarrow> memfs_inv (node_set_data i d m)"
  "memfs_inv m \<Longrightarrow> memfs_inv (node_set_mode i p m)" "memfs_inv m \<Longrightarrow> memfs_inv (node_set_modified i t m)"
  "memfs_inv m \<Longrightarrow> memfs_inv (node_set_owner i u g m)" "memfs_inv m \<Longrightarrow> memfs_inv (node_set_xattr i a x m)"
  by (simp_all add: node_updates)

lemma keeps_state_eq: "(\<And>t. snd (m t) = t) \<Longrightarrow> keeps P m"
  by (simp add: keeps_def)

lemma node_open_state [simp]: "snd (node_open i ctx n h) = h"
  by (simp add: node_open_def)

lemma open_listing_state [simp]: "snd (open_listing name m) = m"
  by (auto simp: open_listing_def Let_def split: prod.splits option.splits)

lemma memfs_stat_n_state [simp]: "snd (memfs_stat_n n ctx name m) = m"
  by (induction n arbitrary: name) (auto simp: Let_def split: option.splits)

lemma memfs_stat_state [simp]: "snd (memfs_stat ctx name m) = m"
  by (simp add: memfs_stat_def)

lemma memfs_open_n_inv: "memfs_inv m \<Longrightarrow> memfs_inv (snd (memfs_open_n n ctx name m))"
proof (induction n arbitrary: name)
  case (Suc n)
  have "memfs_inv (snd (obind (modify (node_set_name i b)) (\<lambda>_.
          obind (node_open i ctx ''.'') (\<lambda>f. ret (NodeFile f))) m))" for i b
    using Suc.prems by (simp add: obind_def node_open_def keeps_node_updates)
  with Suc show ?case by (auto simp: Let_def split: option.splits)
qed simp

lemma keeps_memfs_open [keeps_intros]: "keeps memfs_inv (memfs_open ctx name)"
  by (simp add: keeps_def memfs_open_def memfs_open_n_inv)

lemma keeps_memfs_stat [keeps_intros]: "keeps P (memfs_stat ctx name)"
  by (rule keeps_state_eq) simp

lemma keeps_memfs_stat_path [keeps_intros]: "keeps P (memfs_stat_path name)"
  unfolding memfs_stat_path_def by (intro keeps_intros)

lemma keeps_exists_with [keeps_intros]: "(\<And>n. keeps P (st n)) \<Longrightarrow> keeps P (exists_with st name)"
  unfolding exists_with_def by (intro keeps_intros)

lemma keeps_guard_op [keeps_intros]: "keeps P (guard_op b e)"
  unfolding guard_op_def by (intro keeps_intros)

lemma keeps_memfs_exists [keeps_intros]: "keeps P (memfs_exists name)"
  and keeps_memfs_is_dir [keeps_intros]: "keeps P (memfs_is_dir name)"
  unfolding memfs_exists_def memfs_is_dir_def by (intro keeps_intros)+

lemma keeps_require_parent [keeps_intros]: "keeps P (require_parent what name)"
  and keeps_require_parent_dir [keeps_intros]: "keeps P (require_parent_dir what name)"
  unfolding require_parent_def require_parent_dir_def unwrap_or_false_def Let_def
  by (intro keeps_intros)+

lemma keeps_node_or [keeps_intros]: "keeps P (node_or what name)"
  unfolding node_or_def by (intro keeps_intros)

lemma node_or_ok: "node_or what name m = (Ok i, m') \<longleftrightarrow> mf_node name m = Some i \<and> m' = m"
  by (auto simp: node_or_def obind_def split: option.splits)

lemma keeps_same: "(\<And>P. keeps P f) \<Longrightarrow> f m = (r, m') \<Longrightarrow> m' = m"
  using keepsD [of "\<lambda>t. t = m" f m r m'] by simp

lemmas require_parent_same = keeps_same [OF keeps_require_parent] keeps_same [OF keeps_require_parent_dir]

lemma keeps_node_open [keeps_intros]: "keeps P (node_open i ctx n)"
  by (rule keeps_state_eq) simp

section \<open>Handles keep the invariant\<close>

lemma keeps_mem_dispatch:
  assumes "hkeeps P m" "hkeeps P n"
  shows "hkeeps P (mem_dispatch m n)"
proof -
  have "P (snd (snd (mem_dispatch m n (f, s))))" if "P s" for f s
  proof (cases f)
    case (NodeFile g)
    have "P (snd (snd (m (g, s))))" using assms(1) that unfolding keeps_def by force
    then show ?thesis by (auto simp: mem_dispatch_def on_node_file_def NodeFile split: prod.splits)
  next
    case (DirFile d)
    have "P (snd (snd (n (d, s))))" using assms(2) that unfolding keeps_def by force
    then show ?thesis by (auto simp: mem_dispatch_def on_dir_file_def DirFile split: prod.splits)
  qed
  then show ?thesis by (simp add: keeps_def)
qed

lemma node_file_inv:
  "hkeeps memfs_inv (node_file_read n)" "hkeeps memfs_inv (node_file_write d)"
  "hkeeps memfs_inv (node_file_read_at n off)" "hkeeps memfs_inv (node_file_write_at d off)"
  "hkeeps memfs_inv (node_file_seek pos)" "hkeeps memfs_inv node_file_stat"
  "hkeeps memfs_inv node_file_sync" "hkeeps memfs_inv node_file_close"
  by (auto simp: keeps_def node_file_read_def node_file_write_def node_file_read_at_def
      node_file_write_at_def node_file_seek_def node_file_stat_def node_file_sync_def
      node_file_close_def Let_def obind_def keeps_node_updates split: sum.splits seek_from.splits)

lemma dir_file_inv:
  "hkeeps P (dir_file_read n :: (dir_file \<times> 's, _) op)" "hkeeps P (dir_file_stat :: (dir_file \<times> 's, _) op)"
  "hkeeps P (dir_file_read_dir c :: (dir_file \<times> 's, _) op)"
  by (auto simp: keeps_def dir_file_read_def dir_file_stat_def dir_file_read_dir_def Let_def)

lemma default_handle_keeps:
  "hkeeps P (default_write d)" "hkeeps P (default_seek pos)" "hkeeps P default_sync"
  "hkeeps P default_close"
  "hkeeps P st \<Longrightarrow> hkeeps P (default_handle_read_dir st c)"
  "(\<And>p. hkeeps P (sk p)) \<Longrightarrow> (\<And>n. hkeeps P (rd n)) \<Longrightarrow> hkeeps P (default_read_at sk rd n off)"
  "(\<And>p. hkeeps P (sk p)) \<Longrightarrow> (\<And>d. hkeeps P (wr d)) \<Longrightarrow> hkeeps P (default_write_at sk wr d off)"
  unfolding default_write_def default_seek_def default_sync_def default_close_def
    default_handle_read_dir_def default_read_at_def default_write_at_def
  by (intro keeps_intros | assumption)+

lemma mem_file_inv:
  "hkeeps memfs_inv (fh_read mem_file_handle n)" "hkeeps memfs_inv (fh_write mem_file_handle d)"
  "hkeeps memfs_inv (fh_read_at mem_file_handle n off)" "hkeeps memfs_inv (fh_write_at mem_file_handle d off)"
  "hkeeps memfs_inv (fh_seek mem_file_handle pos)" "hkeeps memfs_inv (fh_stat mem_file_handle)"
  "hkeeps memfs_inv (fh_read_dir mem_file_handle c)" "hkeeps memfs_inv (fh_sync mem_file_handle)"
  "hkeeps memfs_inv (fh_close mem_file_handle)"
  unfolding mem_file_handle_def node_file_handle_def dir_file_handle_def file_handle.simps
  by (intro keeps_mem_dispatch node_file_inv dir_file_inv default_handle_keeps)+

section \<open>Every method keeps the invariant\<close>

lemma keeps_default_read_dir:
  "(\<And>c n. keeps P (opn c n)) \<Longrightarrow> (\<And>c. hkeeps P (fh_read_dir fh c)) \<Longrightarrow> keeps P (default_read_dir fh opn ctx name)"
  unfolding default_read_dir_def by (intro keeps_intros)

lemma keeps_default_open_file:
  assumes "\<And>c n. keeps P (opn c n)" "\<And>n. keeps P (create n)" "\<And>n p. keeps P (chmod n p)"
    and "hkeeps P (fh_close fh)" "\<And>p. hkeeps P (fh_seek fh p)"
  shows "keeps P (default_open_file fh opn create chmod name fl p)"
  unfolding default_open_file_def by (intro keeps_intros assms)

lemma split_on_append: "split_on c (a @ c # b) = split_on c a @ split_on c b"
  by (induction a) (auto split: list.splits)

lemma valid_path_parts:
  "p \<noteq> ''.'' \<Longrightarrow> valid_path p \<longleftrightarrow> (\<forall>q \<in> set (split_on slash p). good_part q)"
proof
  assume "p \<noteq> ''.''" "valid_path p"
  then obtain ps where "good_parts ps" "p = join_on slash ps" using valid_path_form by blast
  then show "\<forall>q \<in> set (split_on slash p). good_part q" by (simp add: good_parts_split good_parts_def)
next
  assume "\<forall>q \<in> set (split_on slash p). good_part q"
  then have "good_parts (split_on slash p)" by (simp add: good_parts_def)
  then show "valid_path p" using valid_path_form join_split_on by metis
qed

lemma valid_path_under:
  assumes "valid_path (old @ slash # rest)" "valid_path new" "new \<noteq> ''.''"
  shows "valid_path (new @ slash # rest)"
proof -
  have "old @ slash # rest \<noteq> ''.''" "new @ slash # rest \<noteq> ''.''"
    by (auto simp: append_eq_Cons_conv)
  then show ?thesis using assms
    by (auto simp: valid_path_parts split_on_append)
qed

lemma fold_bt_remove_get:
  "bt_get (fold (\<lambda>(p, _, _) ns. bt_remove p ns) mv ns) k = (if k \<in> fst ` set mv then None else bt_get ns k)"
  by (induction mv arbitrary: ns) auto

lemma fold_bt_insert_get:
  "distinct (map (fst \<circ> snd) mv) \<Longrightarrow>
     bt_get (fold (\<lambda>(_, p, i) ns. bt_insert p i ns) mv ns) k =
       (case map_of (map snd mv) k of Some i \<Rightarrow> Some i | None \<Rightarrow> bt_get ns k)"
proof (induction mv arbitrary: ns)
  case (Cons x mv)
  obtain a p i where x: "x = (a, p, i)" by (cases x)
  have "map_of (map snd mv) p = None"
    using Cons.prems x by (force simp: comp_def map_of_eq_None_iff)
  then show ?case using Cons x by (auto split: option.splits)
qed simp

lemma bt_ok_folds [simp]:
  "bt_ok ns \<Longrightarrow> bt_ok (fold (\<lambda>(p, _, _) ns. bt_remove p ns) mv ns)"
  "bt_ok ns \<Longrightarrow> bt_ok (fold (\<lambda>(_, p, i) ns. bt_insert p i ns) mv ns)"
  by (induction mv arbitrary: ns) (auto split: prod.splits)

text \<open>What moving the directory \<open>old\<close> to \<open>new\<close> does to the map of paths.\<close>

definition moved_from :: "string \<Rightarrow> string \<Rightarrow> string \<Rightarrow> string option" where
  "moved_from old new k =
     (case strip_prefix new k of
        Some s \<Rightarrow> if s = '''' \<or> starts_with s ''/'' then Some (old @ s) else None
      | None \<Rightarrow> None)"

lemma under_iff:
  "p = old \<or> starts_with p (old @ ''/'') \<longleftrightarrow> (\<exists>s. p = old @ s \<and> (s = '''' \<or> starts_with s ''/''))"
  by (auto simp: starts_with_iff)

lemma suffix_eq:
  "p = old \<or> starts_with p (old @ ''/'') \<Longrightarrow>
     (case strip_prefix old p of Some s \<Rightarrow> s | None \<Rightarrow> '''') = drop (length old) p"
proof -
  assume "p = old \<or> starts_with p (old @ ''/'')"
  then obtain s where "p = old @ s" using under_iff by blast
  then show ?thesis by simp
qed

lemma to_move_eq:
  "to_move old new ns =
     map (\<lambda>(p, i). (p, new @ drop (length old) p, i))
       (filter (\<lambda>(p, i). p = old \<or> starts_with p (old @ ''/'')) ns)"
  unfolding to_move_def
proof (rule map_cong [OF refl])
  fix x assume "x \<in> set (filter (\<lambda>(p, i). p = old \<or> starts_with p (old @ ''/'')) ns)"
  then have "fst x = old \<or> starts_with (fst x) (old @ ''/'')"
    by (auto simp only: set_filter mem_Collect_eq split_beta)
  from suffix_eq [OF this]
  show "(case x of (path, i) \<Rightarrow> (path, new @ (case strip_prefix old path of Some s \<Rightarrow> s | None \<Rightarrow> ''''), i)) =
      (case x of (p, i) \<Rightarrow> (p, new @ drop (length old) p, i))"
    by (simp only: split_beta)
qed

lemma moved_from_Some:
  "moved_from old new k = Some p \<longleftrightarrow> (\<exists>s. k = new @ s \<and> p = old @ s \<and> (s = '''' \<or> starts_with s ''/''))"
proof (cases "strip_prefix new k")
  case None
  moreover have "\<forall>s. k \<noteq> new @ s" using None by (simp add: strip_prefix_None)
  ultimately show ?thesis by (simp add: moved_from_def)
next
  case (Some s)
  then show ?thesis by (auto simp: moved_from_def)
qed

lemma to_move_member:
  "(p, k, i) \<in> set (to_move old new ns) \<longleftrightarrow> (p, i) \<in> set ns \<and> moved_from old new k = Some p"
proof -
  have "(p, k, i) \<in> set (to_move old new ns) \<longleftrightarrow>
      (p, i) \<in> set ns \<and> (p = old \<or> starts_with p (old @ ''/'')) \<and> k = new @ drop (length old) p"
    unfolding to_move_eq by auto
  also have "\<dots> \<longleftrightarrow> (p, i) \<in> set ns \<and> moved_from old new k = Some p"
    unfolding moved_from_Some under_iff by auto
  finally show ?thesis .
qed

lemma to_move_distinct:
  assumes "bt_ok ns"
  shows "distinct (map (fst \<circ> snd) (to_move old new ns))"
proof -
  let ?L = "filter (\<lambda>(p, i). p = old \<or> starts_with p (old @ ''/'')) ns"
  have d: "distinct (map fst ?L)"
    using bt.keys_distinct [OF assms] by (simp add: bt_keys_def distinct_map_filter)
  have "inj_on (\<lambda>p. new @ drop (length old) p) (fst ` set ?L)"
  proof (rule inj_onI)
    fix a b assume a: "a \<in> fst ` set ?L" and b: "b \<in> fst ` set ?L"
      and e: "new @ drop (length old) a = new @ drop (length old) b"
    from a have "a = old \<or> starts_with a (old @ ''/'')" by auto
    then obtain s where "a = old @ s" using under_iff by blast
    moreover from b have "b = old \<or> starts_with b (old @ ''/'')" by auto
    then obtain t where "b = old @ t" using under_iff by blast
    ultimately show "a = b" using e by simp
  qed
  then have "distinct (map (\<lambda>p. new @ drop (length old) p) (map fst ?L))"
    using d by (subst distinct_map) (simp only: set_map simp_thms)
  then show ?thesis unfolding to_move_eq by (simp add: comp_def split_beta)
qed

lemma move_nodes_get:
  assumes "bt_ok ns"
  shows "bt_get (move_nodes old new ns) k =
    (case Option.bind (moved_from old new k) (bt_get ns) of
       Some i \<Rightarrow> Some i
     | None \<Rightarrow> if k = old \<or> starts_with k (old @ ''/'') then None else bt_get ns k)"
proof -
  let ?mv = "to_move old new ns"
  have dist: "distinct (map fst (map snd ?mv))" using to_move_distinct [OF assms] by (simp add: comp_def)
  have new: "map_of (map snd ?mv) k = Option.bind (moved_from old new k) (bt_get ns)"
  proof -
    have "map_of (map snd ?mv) k = Some i \<longleftrightarrow> Option.bind (moved_from old new k) (bt_get ns) = Some i" for i
    proof -
      have "map_of (map snd ?mv) k = Some i \<longleftrightarrow> (\<exists>p. (p, k, i) \<in> set ?mv)"
        using dist by (force simp: map_of_eq_Some_iff simp del: map_map)
      also have "\<dots> \<longleftrightarrow> (\<exists>p. moved_from old new k = Some p \<and> bt_get ns p = Some i)"
        using assms by (auto simp: to_move_member bt_get_in)
      finally show ?thesis by (cases "moved_from old new k") auto
    qed
    then show ?thesis by (metis not_None_eq)
  qed
  have gone: "k \<in> fst ` set ?mv \<longleftrightarrow> (k = old \<or> starts_with k (old @ ''/'')) \<and> bt_get ns k \<noteq> None"
  proof -
    have "k \<in> fst ` set ?mv \<longleftrightarrow> (\<exists>i. (k, i) \<in> set ns) \<and> (k = old \<or> starts_with k (old @ ''/''))"
      unfolding to_move_eq by force
    then show ?thesis using assms by (auto simp: bt_get_in)
  qed
  show ?thesis
    unfolding move_nodes_def Let_def
    unfolding fold_bt_insert_get [OF to_move_distinct [OF assms]] fold_bt_remove_get new gone
    by (cases "Option.bind (moved_from old new k) (bt_get ns)"; cases "bt_get ns k") simp_all
qed

lemma move_nodes_ok [simp]: "bt_ok ns \<Longrightarrow> bt_ok (move_nodes old new ns)"
  by (simp add: move_nodes_def Let_def)

lemma memfs_inv_move:
  assumes "memfs_inv m" "valid_path new" "new \<noteq> ''.''"
  shows "memfs_inv (m\<lparr>mf_nodes := move_nodes old new (mf_nodes m)\<rparr>)"
proof -
  have ok: "bt_ok (mf_nodes m)"
    and g: "\<And>n i. bt_get (mf_nodes m) n = Some i \<Longrightarrow> valid_path n \<and> i < nh_next m"
    using assms(1) by (auto simp: memfs_inv_iff mf_node_def)
  have "valid_path k \<and> i < nh_next m" if k: "bt_get (move_nodes old new (mf_nodes m)) k = Some i" for k i
  proof (cases "Option.bind (moved_from old new k) (bt_get (mf_nodes m))")
    case None
    then show ?thesis using k g by (simp add: move_nodes_get [OF ok] split: if_splits)
  next
    case (Some j)
    then have "j = i" using k by (simp add: move_nodes_get [OF ok])
    then obtain p where "moved_from old new k = Some p" and p: "bt_get (mf_nodes m) p = Some i"
      using Some by (cases "moved_from old new k") auto
    then obtain s where k': "k = new @ s" and p': "p = old @ s" and s: "s = '''' \<or> starts_with s ''/''"
      unfolding moved_from_Some by blast
    from s show ?thesis
    proof
      assume "starts_with s ''/''"
      then obtain r where "s = slash # r" by (auto simp: starts_with_iff)
      then show ?thesis using g [OF p] k' p' valid_path_under assms(2,3) by blast
    qed (use k' assms(2) g [OF p] in simp)
  qed
  with ok show ?thesis by (simp add: memfs_inv_iff mf_node_def)
qed

lemma keeps_node_or_bind:
  "(\<And>t i. P t \<Longrightarrow> mf_node name t = Some i \<Longrightarrow> P (snd (f i t))) \<Longrightarrow> keeps P (obind (node_or what name) f)"
  by (auto simp: keeps_def node_or_def obind_def split: option.splits)

lemma keeps_memfs_link: "keeps memfs_inv (memfs_link old new)"
proof -
  have "keeps memfs_inv (obind (node_or ''link'' o') (\<lambda>i. obind (gets (node_metadata i)) (\<lambda>md.
      obind (guard_op (\<not> md_is_dir md) e) (\<lambda>_. modify (\<lambda>m. recompute_dir_sizes (mf_insert (clean_path new) i m))))))"
    for o' e
    by (rule keeps_node_or_bind)
       (auto simp: obind_def guard_op_def intro!: memfs_inv_insert dest: memfs_inv_get)
  note tail = this
  show ?thesis unfolding memfs_link_def Let_def
    by (rule tail | rule keeps_obind keeps_guard_op keeps_gets keeps_require_parent_dir)+
qed

lemma keeps_memfs_rename:
  assumes "clean_path new \<noteq> ''.''"
  shows "keeps memfs_inv (memfs_rename old new)"
proof -
  have "keeps memfs_inv (obind (node_or ''rename'' (clean_path old)) (\<lambda>i.
      obind (gets g) (\<lambda>occ. obind (guard_op (\<not> occ) e) (\<lambda>_.
      modify (\<lambda>m. recompute_dir_sizes
          (if md_is_dir (node_metadata i m)
           then m\<lparr>mf_nodes := move_nodes (clean_path old) (clean_path new) (mf_nodes m)\<rparr>
           else mf_insert (clean_path new) i (mf_delete (clean_path old) (mf_delete (clean_path new) m))))))))" for g e
    by (rule keeps_node_or_bind)
       (use assms in \<open>auto simp: obind_def guard_op_def dest: memfs_inv_get
          intro!: memfs_inv_move memfs_inv_insert memfs_inv_delete\<close>)
  note tail = this
  show ?thesis unfolding memfs_rename_def Let_def
    by (rule tail | rule keeps_if keeps_ret keeps_obind keeps_guard_op keeps_require_parent_dir)+
qed

lemma keeps_memfs_create: "keeps memfs_inv (memfs_create name)"
  unfolding memfs_create_def Let_def by (auto intro!: keeps_intros)

lemma keeps_memfs_mkdir: "keeps memfs_inv (memfs_mkdir name p)"
  unfolding memfs_mkdir_def Let_def by (auto intro!: keeps_intros)

lemma keeps_memfs_symlink: "keeps memfs_inv (memfs_symlink old new)"
  unfolding memfs_symlink_def Let_def by (auto intro!: keeps_intros)

lemma keeps_memfs_chmod: "keeps memfs_inv (memfs_chmod name p)"
  unfolding memfs_chmod_def by (intro keeps_intros keeps_node_updates)

lemma keeps_memfs_attributes:
  "keeps memfs_inv (memfs_chown name u g)" "keeps memfs_inv (memfs_chtimes name t)"
  "keeps memfs_inv (memfs_truncate name sz)" "keeps memfs_inv (memfs_readlink name)"
  "keeps memfs_inv (memfs_set_xattr name a d)" "keeps memfs_inv (memfs_get_xattr name a)"
  "keeps memfs_inv (memfs_list_xattrs name)"
  unfolding memfs_chown_def memfs_chtimes_def memfs_truncate_def memfs_readlink_def
    memfs_set_xattr_def memfs_get_xattr_def memfs_list_xattrs_def Let_def node_resize_def
    get_xattr_or_def
  by (intro keeps_intros keeps_node_updates | assumption)+

lemma keeps_memfs_remove_xattr: "keeps memfs_inv (memfs_remove_xattr name a)"
proof -
  have "keeps memfs_inv (node_remove_xattr i a)" for i
    by (simp add: keeps_def node_remove_xattr_def)
  then show ?thesis
    unfolding memfs_remove_xattr_def remove_xattr_or_def by (auto intro!: keeps_intros)
qed

lemma keeps_memfs_read_dir: "keeps memfs_inv (memfs_read_dir ctx name)"
  unfolding memfs_read_dir_def by (intro keeps_default_read_dir keeps_memfs_open mem_file_inv)

lemma keeps_memfs_remove: "keeps memfs_inv (memfs_remove name)"
  unfolding memfs_remove_def Let_def memfs_is_empty_def
  by (auto intro!: keeps_intros keeps_memfs_read_dir memfs_inv_delete)

lemma keeps_memfs_open_file: "keeps memfs_inv (memfs_open_file name fl p)"
  unfolding memfs_open_file_def
  by (intro keeps_default_open_file keeps_memfs_open keeps_memfs_create keeps_memfs_chmod mem_file_inv)

interpretation mem: fs_contract memfs_ops memfs_inv
  by unfold_locales
    (simp_all add: memfs_ops_def mem_file_inv keeps_memfs_open keeps_memfs_stat keeps_memfs_read_dir
      keeps_memfs_create keeps_memfs_open_file keeps_memfs_mkdir keeps_memfs_remove keeps_memfs_rename
      keeps_memfs_link keeps_memfs_chmod keeps_memfs_symlink keeps_memfs_attributes
      keeps_memfs_remove_xattr default_lstat_def)

end
