(* ===== verification/Listing.thy ===== *)
theory Listing
  imports Memfs_Laws
begin

text \<open>
  Directory listings: what \<open>dedupe_sort_hide\<close> keeps, that paging through a directory handle yields
  the listing once and in order, and that a listing of the in-memory file system holds exactly
  the visible children of the directory.
\<close>

section \<open>Sorted, without duplicates and hidden names\<close>

abbreviation hidden :: "string \<Rightarrow> bool" where
  "hidden name \<equiv> starts_with name ''#''"

abbreviation dedupe_fold :: "dir_entry list \<Rightarrow> (string, dir_entry) btmap \<Rightarrow> (string, dir_entry) btmap" where
  "dedupe_fold es m \<equiv> fold (\<lambda>e m. if hidden (de_name e) then m else bt_insert (de_name e) e m) es m"

text \<open>The last entry with a name.\<close>

definition last_named :: "string \<Rightarrow> dir_entry list \<Rightarrow> dir_entry option" where
  "last_named n es = map_of (rev (map (\<lambda>e. (de_name e, e)) es)) n"

lemma last_named_name: "last_named n es = Some e \<Longrightarrow> de_name e = n \<and> e \<in> set es"
  by (auto simp: last_named_def dest: map_of_SomeD)

lemma last_named_None: "last_named n es = None \<longleftrightarrow> n \<notin> de_name ` set es"
  by (auto simp: last_named_def map_of_eq_None_iff image_image)

lemma dedupe_fold_ok: "bt_ok m \<Longrightarrow> bt_ok (dedupe_fold es m)"
  by (induction es arbitrary: m) auto

lemma dedupe_fold_get:
  "bt_get (dedupe_fold es m) n =
     (if hidden n then bt_get m n
      else case last_named n es of Some e \<Rightarrow> Some e | None \<Rightarrow> bt_get m n)"
proof (induction es arbitrary: m)
  case (Cons e es)
  have "last_named n (e # es) =
      (case last_named n es of Some x \<Rightarrow> Some x | None \<Rightarrow> if de_name e = n then Some e else None)"
    by (auto simp: last_named_def map_add_def split: option.splits)
  then show ?case using Cons.IH by (auto split: option.splits)
qed (simp add: last_named_def)

lemma dedupe_names:
  "map de_name (dedupe_sort_hide es) = bt_keys (dedupe_fold es [])"
proof -
  have ok: "bt_ok (dedupe_fold es [])" by (simp add: dedupe_fold_ok)
  have "de_name v = k" if "(k, v) \<in> set (dedupe_fold es [])" for k v
  proof -
    have "bt_get (dedupe_fold es []) k = Some v" using that bt_get_in [OF ok] by blast
    then show ?thesis using last_named_name by (auto simp: dedupe_fold_get split: if_splits option.splits)
  qed
  then show ?thesis
    by (auto simp: dedupe_sort_hide_def bt_values_def bt_keys_def intro!: map_cong)
qed

lemma dedupe_sorted: "sorted_wrt (<) (map de_name (dedupe_sort_hide es))"
  unfolding dedupe_names by (rule bt.ok_keys) (simp add: dedupe_fold_ok)

lemma dedupe_member:
  "e \<in> set (dedupe_sort_hide es) \<longleftrightarrow> \<not> hidden (de_name e) \<and> last_named (de_name e) es = Some e"
proof -
  have ok: "bt_ok (dedupe_fold es [])" by (simp add: dedupe_fold_ok)
  have "e \<in> set (dedupe_sort_hide es) \<longleftrightarrow> (\<exists>k. bt_get (dedupe_fold es []) k = Some e)"
    by (force simp: dedupe_sort_hide_def bt_values_def bt_get_in [OF ok, symmetric])
  also have "\<dots> \<longleftrightarrow> \<not> hidden (de_name e) \<and> last_named (de_name e) es = Some e"
  proof
    assume "\<exists>k. bt_get (dedupe_fold es []) k = Some e"
    then obtain k where "\<not> hidden k" "last_named k es = Some e"
      by (auto simp: dedupe_fold_get split: if_splits option.splits)
    then show "\<not> hidden (de_name e) \<and> last_named (de_name e) es = Some e"
      using last_named_name [of k es e] by simp
  next
    assume "\<not> hidden (de_name e) \<and> last_named (de_name e) es = Some e"
    then show "\<exists>k. bt_get (dedupe_fold es []) k = Some e"
      by (intro exI [of _ "de_name e"]) (simp add: dedupe_fold_get)
  qed
  finally show ?thesis .
qed

lemma dedupe_names_set:
  "de_name ` set (dedupe_sort_hide es) = {n \<in> de_name ` set es. \<not> hidden n}"
proof -
  have "n \<in> de_name ` set (dedupe_sort_hide es) \<longleftrightarrow> \<not> hidden n \<and> last_named n es \<noteq> None" for n
  proof
    assume "n \<in> de_name ` set (dedupe_sort_hide es)"
    then show "\<not> hidden n \<and> last_named n es \<noteq> None" by (auto simp: dedupe_member)
  next
    assume "\<not> hidden n \<and> last_named n es \<noteq> None"
    then obtain e where "\<not> hidden n" "last_named n es = Some e" by auto
    then show "n \<in> de_name ` set (dedupe_sort_hide es)"
      using last_named_name [of n es e] by (intro image_eqI [of _ _ e]) (auto simp: dedupe_member)
  qed
  then show ?thesis by (auto simp: last_named_None)
qed

text \<open>
  A directory listing has its names in strictly ascending order, shows exactly the names not
  starting with \<open>#\<close>, and when several entries carry one name it shows the last of them.
\<close>

theorem dedupe_sort_hide_spec:
  "sorted_wrt (<) (map de_name (dedupe_sort_hide es)) \<and>
   set (dedupe_sort_hide es) = {e. \<not> hidden (de_name e) \<and> last_named (de_name e) es = Some e} \<and>
   de_name ` set (dedupe_sort_hide es) = {n \<in> de_name ` set es. \<not> hidden n}"
  using dedupe_sorted dedupe_names_set by (auto simp: dedupe_member)

section \<open>Paging through a directory handle\<close>

text \<open>Reading a directory page by page until a page is empty, as clients of \<open>read_dir\<close> do.\<close>

fun page_through :: "nat \<Rightarrow> int \<Rightarrow> dir_file \<times> 's \<Rightarrow> dir_entry list res" where
  "page_through 0 n fs = Inl Diverge"
| "page_through (Suc k) n fs =
     (case dir_file_read_dir n fs of
        (Inl e, _) \<Rightarrow> Inl e
      | (Inr es, fs') \<Rightarrow> if es = [] then Ok [] else rbind (page_through k n fs') (\<lambda>r. Ok (es @ r)))"

lemma page_through_rest:
  assumes "0 < n" "length (df_entries f) - df_offset f < k"
  shows "page_through k n (f, s) = Ok (drop (df_offset f) (df_entries f))"
  using assms(2)
proof (induction k arbitrary: f)
  case (Suc k)
  show ?case
  proof (cases "df_offset f \<ge> length (df_entries f)")
    case True
    then show ?thesis using assms(1) by (simp add: dir_file_read_dir_def)
  next
    case False
    let ?e = "min (df_offset f + nat n) (length (df_entries f))"
    have run: "dir_file_read_dir n (f, s) =
        (Ok (drop (df_offset f) (take ?e (df_entries f))), (f\<lparr>df_offset := ?e\<rparr>, s))"
      using False assms(1) by (simp add: dir_file_read_dir_def Let_def)
    have "page_through k n (f\<lparr>df_offset := ?e\<rparr>, s) = Ok (drop ?e (df_entries f))"
      using Suc.IH [of "f\<lparr>df_offset := ?e\<rparr>"] Suc.prems False assms(1) by auto
    moreover have "drop (df_offset f) (take ?e (df_entries f)) @ drop ?e (df_entries f) =
        drop (df_offset f) (df_entries f)"
    proof -
      have "df_offset f \<le> ?e" using False by simp
      then have "drop (df_offset f) (take ?e (df_entries f) @ drop ?e (df_entries f)) =
          drop (df_offset f) (take ?e (df_entries f)) @ drop ?e (df_entries f)"
        using False by (subst drop_append) simp
      then show ?thesis by simp
    qed
    moreover have "drop (df_offset f) (take ?e (df_entries f)) \<noteq> []" using False assms(1) by auto
    ultimately show ?thesis using run by simp
  qed
qed simp

text \<open>
  C8. Paging: reading a fresh directory handle in pages of any positive size, until a page comes
  back empty, ends and yields the whole listing, each entry once and in order.
\<close>

theorem dir_file_paging:
  assumes "0 < n" and "length (dedupe_sort_hide es) < k"
  shows "page_through k n (dir_file_new md es, s) = Ok (dedupe_sort_hide es)"
  using page_through_rest [OF assms(1), of "dir_file_new md es" k s] assms(2)
  by (simp add: dir_file_new_def Let_def)

theorem dir_file_paging_witness:
  "page_through 3 1 (dir_file_new (metadata_dir ''d'' 0x1ED)
      [dir_entry_new ''b'' (metadata_file ''b'' 0 0), dir_entry_new ''#x'' (metadata_file ''#x'' 0 0),
       dir_entry_new ''a'' (metadata_file ''a'' 0 0)], ()) =
   Ok [dir_entry_new ''a'' (metadata_file ''a'' 0 0), dir_entry_new ''b'' (metadata_file ''b'' 0 0)]"
proof -
  let ?es = "[dir_entry_new ''b'' (metadata_file ''b'' 0 0), dir_entry_new ''#x'' (metadata_file ''#x'' 0 0),
       dir_entry_new ''a'' (metadata_file ''a'' 0 0)]"
  have d: "dedupe_sort_hide ?es =
      [dir_entry_new ''a'' (metadata_file ''a'' 0 0), dir_entry_new ''b'' (metadata_file ''b'' 0 0)]"
    by code_simp
  have "page_through 3 1 (dir_file_new (metadata_dir ''d'' 0x1ED) ?es, ()) = Ok (dedupe_sort_hide ?es)"
    by (rule dir_file_paging) (simp_all add: d)
  then show ?thesis by (simp only: d)
qed

section \<open>Listings of the in-memory file system\<close>

lemma hd_split_on: "hd (split_on c r) = (case split_once c r of Some (h, _) \<Rightarrow> h | None \<Rightarrow> r)"
proof (cases "split_once c r")
  case None
  then have "c \<notin> set r" by (simp add: split_once_None)
  then show ?thesis using None by (simp add: split_on_notin)
next
  case (Some p)
  then obtain a b where p: "split_once c r = Some (a, b)" by (cases p) auto
  then have "r = a @ c # b" "c \<notin> set a" using split_once_Some [of c r a b] by auto
  then show ?thesis using p by (simp add: split_on_append_sep)
qed

definition child_names :: "string \<Rightarrow> memfs \<Rightarrow> string set" where
  "child_names name m =
     {hd (split_on slash r) | fname i r. (fname, i) \<in> set (mf_nodes m) \<and> rest_under name fname = Some r}"

lemma child_names_eq:
  "child_names name m =
     set (List.map_filter (\<lambda>(f, _). map_option (\<lambda>r. hd (split_on slash r)) (rest_under name f)) (mf_nodes m))"
  by (force simp: child_names_def List.map_filter_def)

lemma children_loop_names:
  "children_loop h name ns (es, need) = (es', need') \<Longrightarrow>
     de_name ` set es' \<union> set (bt_keys need') = de_name ` set es \<union> set (bt_keys need) \<union>
       {hd (split_on slash r) | fname i r. (fname, i) \<in> set ns \<and> rest_under name fname = Some r}"
proof (induction ns arbitrary: es need)
  case (Cons x ns)
  obtain f i where x: "x = (f, i)" by (cases x)
  let ?S = "{hd (split_on slash r) | fname i r. (fname, i) \<in> set ns \<and> rest_under name fname = Some r}"
  have S: "{hd (split_on slash r) | fname i r. (fname, i) \<in> set (x # ns) \<and> rest_under name fname = Some r} =
      ?S \<union> (case rest_under name f of Some r \<Rightarrow> {hd (split_on slash r)} | None \<Rightarrow> {})"
    using x by (auto split: option.splits)
  show ?case
  proof (cases "rest_under name f")
    case None
    then show ?thesis using Cons x S by simp
  next
    case (Some r)
    show ?thesis
    proof (cases "split_once slash r")
      case None
      then show ?thesis
        using Cons.IH [of "es @ [dir_entry_new r ((node_metadata i h)\<lparr>md_name := r\<rparr>)]" need] Cons.prems x Some S
        by (simp add: hd_split_on dir_entry_new_def Un_ac insert_commute)
    next
      case (Some p)
      then obtain a b where p: "split_once slash r = Some (a, b)" by (cases p) auto
      then show ?thesis
        using Cons.IH [of es "bs_insert a need"] Cons.prems x \<open>rest_under name f = Some r\<close> S
        by (simp add: hd_split_on bt_keys_insert Un_ac)
    qed
  qed
qed simp

lemma fold_remove_keys:
  "set (bt_keys (fold (\<lambda>e s. bt_remove (de_name e) s) es need)) = set (bt_keys need) - de_name ` set es"
  by (induction es arbitrary: need) (auto simp: bt.set_keys_del)

lemma children_for_names:
  "children_for name m = (es, need) \<Longrightarrow> de_name ` set es \<union> set (bt_keys need) = child_names name m"
proof -
  assume ch: "children_for name m = (es, need)"
  obtain need' where lp: "children_loop m name (mf_nodes m) ([], []) = (es, need')"
    and need: "need = fold (\<lambda>e s. bt_remove (de_name e) s) es need'"
    using ch by (auto simp: children_for_def split: prod.splits)
  have "de_name ` set es \<union> set (bt_keys need) = de_name ` set es \<union> set (bt_keys need')"
    unfolding need fold_remove_keys by blast
  also have "\<dots> = child_names name m"
    using children_loop_names [OF lp] by (simp add: child_names_def bt_keys_def)
  finally show ?thesis .
qed

lemma memfs_read_dir_run:
  assumes "valid_path name" "mf_node name m = Some i"
    and "md_is_dir (node_metadata i m)" "\<not> is_symlink (md_mode (node_metadata i m))"
    and "children_for name m = (es, need)"
  shows "memfs_read_dir ctx name m =
    (Ok (sort_key de_name (dedupe_sort_hide
       (es @ map (\<lambda>d. dir_entry_new d (metadata_dir d 0x1ED)) (bt_keys need)))), m)"
proof -
  let ?es = "es @ map (\<lambda>d. dir_entry_new d (metadata_dir d 0x1ED)) (bt_keys need)"
  have op: "memfs_open c name m = (Ok (DirFile (dir_file_new (node_metadata i m) ?es)), m)" for c
    using assms by (simp add: memfs_open_def memfs_fuel_def clean_valid open_listing_def)
  show ?thesis
    by (simp add: memfs_read_dir_def default_read_dir_def obind_def op scoped_def mem_file_handle_def
        mem_dispatch_def on_dir_file_def dir_file_handle_def dir_file_read_dir_def dir_file_new_def Let_def)
qed

text \<open>
  Listing a directory of the in-memory file system returns, in order and once each, the
  first components of all paths below the directory that are not hidden, and changes nothing.
\<close>

lemma memfs_read_dir_lists:
  assumes "valid_path name" "mf_node name m = Some i"
    and "md_is_dir (node_metadata i m)" "\<not> is_symlink (md_mode (node_metadata i m))"
  shows "\<exists>es. memfs_read_dir ctx name m = (Ok es, m) \<and>
    map de_name es = sorted_list_of_set {n \<in> child_names name m. \<not> hidden n}"
proof -
  obtain es need where ch: "children_for name m = (es, need)" by (cases "children_for name m")
  let ?es = "es @ map (\<lambda>d. dir_entry_new d (metadata_dir d 0x1ED)) (bt_keys need)"
  let ?l = "dedupe_sort_hide ?es"
  note run = memfs_read_dir_run [OF assms ch, of ctx]
  have "sorted (map de_name ?l)"
    using dedupe_sorted [of ?es] strict_sorted_iff by blast
  then have sk: "sort_key de_name ?l = ?l" by (rule sort_key_id_if_sorted)
  have "de_name ` set ?es = child_names name m"
    using children_for_names [OF ch] by (auto simp: dir_entry_new_def image_Un image_image)
  then have "set (map de_name ?l) = {n \<in> child_names name m. \<not> hidden n}"
    using dedupe_names_set [of ?es] by simp
  moreover have "sorted (map de_name ?l)" "distinct (map de_name ?l)"
    using dedupe_sorted [of ?es] strict_sorted_iff by blast+
  then have "sorted_list_of_set (set (map de_name ?l)) = map de_name ?l"
    by (rule sorted_list_of_set.idem_if_sorted_distinct)
  ultimately have "map de_name ?l = sorted_list_of_set {n \<in> child_names name m. \<not> hidden n}"
    by simp
  with run sk show ?thesis by auto
qed

theorem memfs_read_dir_lists_witness:
  "map de_name (case fst (memfs_read_dir context_new ''.''
      (snd (memfs_create ''a/#h'' (snd (memfs_mkdir ''a'' 0x1ED (snd (memfs_create ''b'' (memfs_new 0)))))))) of Inr es \<Rightarrow> es)
   = [''a'', ''b'']"
proof -
  define m where "m = snd (memfs_create ''a/#h'' (snd (memfs_mkdir ''a'' 0x1ED (snd (memfs_create ''b'' (memfs_new 0))))))"
  have n: "mf_node ''.'' m = Some 0" unfolding m_def by code_simp
  have d: "md_is_dir (node_metadata 0 m)" unfolding m_def by code_simp
  have s: "\<not> is_symlink (md_mode (node_metadata 0 m))" unfolding m_def by code_simp
  have nodes: "mf_nodes m = [(''.'', 0), (''a'', 2), (''a/#h'', 3), (''b'', 1)]" unfolding m_def by code_simp
  have "List.map_filter (\<lambda>(f, _ :: nat). map_option (\<lambda>r. hd (split_on slash r)) (rest_under ''.'' f))
      [(''.'', 0), (''a'', 2), (''a/#h'', 3), (''b'', 1)] = [''a'', ''a'', ''b'']"
    by code_simp
  then have "child_names ''.'' m = {''a'', ''b''}"
    unfolding child_names_eq nodes by simp
  then have "{n \<in> child_names ''.'' m. \<not> hidden n} = {''a'', ''b''}"
    by (auto simp: starts_with_def)
  then have l: "sorted_list_of_set {n \<in> child_names ''.'' m. \<not> hidden n} = [''a'', ''b'']" by simp
  from memfs_read_dir_lists [OF valid_dot n d s, of context_new]
  obtain es where "memfs_read_dir context_new ''.'' m = (Ok es, m)" "map de_name es = [''a'', ''b'']"
    unfolding l by (elim exE conjE)
  then have "map de_name (case fst (memfs_read_dir context_new ''.'' m) of Inr es \<Rightarrow> es) = [''a'', ''b'']"
    by simp
  then show ?thesis unfolding m_def .
qed

end
