(* ===== verification/Memfs_Props.thy ===== *)
theory Memfs_Props
  imports Memfs_Laws
begin

text \<open>
  The properties of the in-memory file system: that its invariant holds in every reachable state,
  that the bound on symbolic links is the true one, the effect of renaming and linking, directory
  listings, and reading back what was written.
\<close>

section \<open>Following links\<close>

text \<open>One link followed: the step both \<open>open\<close> and \<open>stat\<close> recur on.\<close>

definition link_step :: "fs_context \<Rightarrow> memfs \<Rightarrow> string \<Rightarrow> string option" where
  "link_step ctx m name =
     (if \<not> valid_path name then None
      else case mf_node name m of
             None \<Rightarrow> None
           | Some i \<Rightarrow>
               if follow_symlinks ctx \<and> is_symlink (md_mode (node_metadata i m))
               then Some (resolve_symlink ctx name (link_target i m)) else None)"

fun iterate :: "('a \<Rightarrow> 'a option) \<Rightarrow> nat \<Rightarrow> 'a \<Rightarrow> 'a option" where
  "iterate f 0 x = Some x"
| "iterate f (Suc n) x = Option.bind (f x) (iterate f n)"

lemma iterate_add: "iterate f (a + b) x = Option.bind (iterate f a x) (iterate f b)"
  by (induction a arbitrary: x) (auto simp: bind_eq_None_conv split: Option.bind_splits)

lemma iterate_le: "iterate f n x \<noteq> None \<Longrightarrow> k \<le> n \<Longrightarrow> iterate f k x \<noteq> None"
  by (metis iterate_add le_add_diff_inverse bind.bind_lzero)

lemma iterate_dom:
  "iterate f (Suc k) x \<noteq> None \<Longrightarrow> the (iterate f k x) \<in> dom f"
  using iterate_add [of f k 1 x] by (cases "iterate f k x"; cases "f (the (iterate f k x))") auto

text \<open>An iteration that takes more steps than its domain has elements never ends.\<close>

lemma iterate_forever:
  assumes fin: "finite (dom f)" and long: "iterate f (Suc (card (dom f))) x \<noteq> None"
  shows "iterate f k x \<noteq> None"
proof -
  let ?N = "card (dom f)" and ?g = "\<lambda>j. the (iterate f j x)"
  have some: "iterate f j x = Some (?g j)" if "j \<le> Suc ?N" for j
    using iterate_le [OF long that] by simp
  have "?g j \<in> dom f" if "j \<le> ?N" for j
    using that by (intro iterate_dom iterate_le [OF long]) simp
  then have "?g ` {..?N} \<subseteq> dom f" by blast
  then have "card (?g ` {..?N}) \<le> ?N" using fin by (rule card_mono [rotated])
  then have "\<not> inj_on ?g {..?N}" by (auto dest: card_image)
  then obtain i j where ij: "i < j" "j \<le> ?N" "?g i = ?g j"
    unfolding inj_on_def by (metis atMost_iff linorder_neqE_nat)
  show ?thesis
  proof (induction k rule: less_induct)
    case (less k)
    show ?case
    proof (cases "k \<le> Suc ?N")
      case True
      then show ?thesis using some [OF True] by (metis option.distinct(1))
    next
      case False
      obtain y where y: "iterate f j x = Some y" "iterate f i x = Some y"
        using some [of i] some [of j] ij by auto
      have "iterate f k x = iterate f (k - j) y"
        using iterate_add [of f j "k - j" x] y ij False by simp
      also have "\<dots> = iterate f (i + (k - j)) x"
        using iterate_add [of f i "k - j" x] y by simp
      finally show ?thesis using less [of "i + (k - j)"] ij False by simp
    qed
  qed
qed

lemma link_step_dom: "finite (dom (link_step ctx m))" "card (dom (link_step ctx m)) \<le> length (mf_nodes m)"
proof -
  have sub: "dom (link_step ctx m) \<subseteq> fst ` set (mf_nodes m)"
    by (auto simp: link_step_def mf_node_def image_iff dest!: map_of_SomeD
        split: if_splits option.splits) (metis fst_conv)
  then show "finite (dom (link_step ctx m))" using finite_subset by blast
  have "card (fst ` set (mf_nodes m)) \<le> length (mf_nodes m)"
    by (metis card_length length_map set_map)
  then show "card (dom (link_step ctx m)) \<le> length (mf_nodes m)"
    using card_mono [OF _ sub] by simp
qed

lemma link_forever:
  assumes "iterate (link_step ctx m) (memfs_fuel m) name \<noteq> None"
  shows "iterate (link_step ctx m) k name \<noteq> None"
proof (rule iterate_forever)
  show "iterate (link_step ctx m) (Suc (card (dom (link_step ctx m)))) name \<noteq> None"
    by (rule iterate_le [OF assms]) (simp add: memfs_fuel_def link_step_dom(2))
qed (rule link_step_dom(1))

lemma stat_n_step:
  "memfs_stat_n (Suc n) ctx name m =
     (case link_step ctx m name of
        Some r \<Rightarrow> memfs_stat_n n ctx r m
      | None \<Rightarrow> memfs_stat_n 1 ctx name m)"
  by (auto simp: link_step_def clean_valid Let_def split: option.splits)

lemma open_n_step:
  "memfs_open_n (Suc n) ctx name m =
     (case link_step ctx m name of
        Some r \<Rightarrow> memfs_open_n n ctx r m
      | None \<Rightarrow> memfs_open_n 1 ctx name m)"
  by (auto simp: link_step_def clean_valid Let_def split: option.splits)

lemma stat_n_iterate:
  "memfs_stat_n (n + k) ctx name m =
     (case iterate (link_step ctx m) n name of
        Some r \<Rightarrow> memfs_stat_n k ctx r m
      | None \<Rightarrow> memfs_stat_n n ctx name m)"
proof (induction n arbitrary: name)
  case (Suc n)
  show ?case
    using Suc.IH stat_n_step [of "n + k" ctx name m] stat_n_step [of n ctx name m]
    by (cases "link_step ctx m name") (simp_all del: memfs_stat_n.simps split: option.split)
qed simp

lemma open_n_iterate:
  "memfs_open_n (n + k) ctx name m =
     (case iterate (link_step ctx m) n name of
        Some r \<Rightarrow> memfs_open_n k ctx r m
      | None \<Rightarrow> memfs_open_n n ctx name m)"
proof (induction n arbitrary: name)
  case (Suc n)
  show ?case
    using Suc.IH open_n_step [of "n + k" ctx name m] open_n_step [of n ctx name m]
    by (cases "link_step ctx m name") (simp_all del: memfs_open_n.simps split: option.split)
qed simp

text \<open>
  C4. Symbolic links: one more link than the file system has nodes is enough. Allowing any
  number of further links changes neither what \<open>stat\<close> nor what \<open>open\<close> returns, so a call the
  model reports as diverging recurs without end in the code.
\<close>

theorem memfs_symlink_fuel:
  "memfs_stat_n (memfs_fuel m + k) ctx name m = memfs_stat ctx name m \<and>
   memfs_open_n (memfs_fuel m + k) ctx name m = memfs_open ctx name m"
proof (cases "iterate (link_step ctx m) (memfs_fuel m) name")
  case None
  then show ?thesis
    unfolding memfs_stat_def memfs_open_def stat_n_iterate open_n_iterate by simp
next
  case (Some r)
  have div: "memfs_stat_n n ctx name m = (Inl Diverge, m)"
    "memfs_open_n n ctx name m = (Inl Diverge, m)" for n
    using stat_n_iterate [of n 0 ctx name m] open_n_iterate [of n 0 ctx name m]
      link_forever [of ctx m name n] Some by (auto split: option.splits)
  then show ?thesis by (simp add: memfs_stat_def memfs_open_def)
qed

section \<open>Reachable states\<close>

text \<open>
  The calls a client can make on the file system and on the files it has open, and the clock.
\<close>

datatype mem_call =
    COpen fs_context string | CStat fs_context string | CReadDir fs_context string
  | CCreate string | COpenFile string open_flags file_mode | CMkdir string file_mode
  | CRemove string | CRename string string | CLink string string | CChmod string file_mode
  | CChown string u32 u32 | CChtimes string system_time | CTruncate string u64
  | CSymlink string string | CSetXattr string string bytes | CRemoveXattr string string
  | CFileWrite mem_file bytes | CFileWriteAt mem_file bytes u64 | CFileSync mem_file
  | CFileClose mem_file | CClock system_time

fun mem_run :: "mem_call \<Rightarrow> memfs \<Rightarrow> memfs" where
  "mem_run (COpen ctx n) m = snd (memfs_open ctx n m)"
| "mem_run (CStat ctx n) m = snd (memfs_stat ctx n m)"
| "mem_run (CReadDir ctx n) m = snd (memfs_read_dir ctx n m)"
| "mem_run (CCreate n) m = snd (memfs_create n m)"
| "mem_run (COpenFile n fl p) m = snd (memfs_open_file n fl p m)"
| "mem_run (CMkdir n p) m = snd (memfs_mkdir n p m)"
| "mem_run (CRemove n) m = snd (memfs_remove n m)"
| "mem_run (CRename a b) m = snd (memfs_rename a b m)"
| "mem_run (CLink a b) m = snd (memfs_link a b m)"
| "mem_run (CChmod n p) m = snd (memfs_chmod n p m)"
| "mem_run (CChown n u g) m = snd (memfs_chown n u g m)"
| "mem_run (CChtimes n t) m = snd (memfs_chtimes n t m)"
| "mem_run (CTruncate n sz) m = snd (memfs_truncate n sz m)"
| "mem_run (CSymlink a b) m = snd (memfs_symlink a b m)"
| "mem_run (CSetXattr n a d) m = snd (memfs_set_xattr n a d m)"
| "mem_run (CRemoveXattr n a) m = snd (memfs_remove_xattr n a m)"
| "mem_run (CFileWrite f d) m = snd (scoped f (fh_write mem_file_handle d) m)"
| "mem_run (CFileWriteAt f d off) m = snd (scoped f (fh_write_at mem_file_handle d off) m)"
| "mem_run (CFileSync f) m = snd (scoped f (fh_sync mem_file_handle) m)"
| "mem_run (CFileClose f) m = snd (scoped f (fh_close mem_file_handle) m)"
| "mem_run (CClock t) m = m\<lparr>nh_now := t\<rparr>"

fun mem_call_ok :: "mem_call \<Rightarrow> bool" where
  "mem_call_ok (CRename a b) \<longleftrightarrow> clean_path b \<noteq> ''.''"
| "mem_call_ok _ \<longleftrightarrow> True"

lemma memfs_inv_clock: "memfs_inv (m\<lparr>nh_now := t\<rparr>) = memfs_inv m"
  by (simp add: memfs_inv_def)

lemma mem_run_inv:
  assumes "mem_call_ok c" "memfs_inv m"
  shows "memfs_inv (mem_run c m)"
  using assms
  by (cases c) (auto intro!: keeps_apply [where P = memfs_inv] keeps_scoped keeps_memfs_open keeps_memfs_stat
      keeps_memfs_read_dir keeps_memfs_create keeps_memfs_open_file keeps_memfs_mkdir
      keeps_memfs_remove keeps_memfs_rename keeps_memfs_link keeps_memfs_chmod keeps_memfs_symlink
      keeps_memfs_attributes keeps_memfs_remove_xattr mem_file_inv simp: memfs_inv_clock
      simp del: memfs_stat_state)

lemma memfs_new_inv: "memfs_inv (memfs_new now)"
  by (simp add: memfs_inv_def memfs_new_def bt_ok_def bt_keys_def)



section \<open>Reading back what was written\<close>

definition regular :: "metadata \<Rightarrow> bool" where
  "regular md \<longleftrightarrow> \<not> is_dir (md_mode md) \<and> \<not> is_symlink (md_mode md)"

text \<open>The path leads to the regular file \<open>i\<close>.\<close>

definition file_at :: "string \<Rightarrow> nat \<Rightarrow> memfs \<Rightarrow> bool" where
  "file_at name i m \<longleftrightarrow> mf_node name m = Some i \<and> regular (node_metadata i m)"

definition fresh_handle :: "nat \<Rightarrow> bytes \<Rightarrow> mem_file \<Rightarrow> bool" where
  "fresh_handle i data f \<longleftrightarrow> (\<exists>g. f = NodeFile g \<and> nf_node g = i \<and> nf_data g = data \<and>
     nf_offset g = 0 \<and> \<not> nf_dirty g \<and> \<not> nf_closed g \<and> regular (nf_meta g))"

lemma perm_regular: "m AND NOT PERM_MASK = 0 \<Longrightarrow> \<not> is_dir m \<and> \<not> is_symlink m"
proof -
  assume z: "m AND NOT PERM_MASK = 0"
  have "\<not> bit (m AND NOT PERM_MASK) 31" "\<not> bit (m AND NOT PERM_MASK) 30" by (simp_all add: z)
  then have "\<not> bit m 31" "\<not> bit m 30" by (simp_all add: bit_simps PERM_MASK_def)
  moreover have "bit (m AND MODE_DIR) 31 = bit m 31" "bit (m AND MODE_SYMLINK) 30 = bit m 30"
    "bit MODE_DIR 31" "bit MODE_SYMLINK 30"
    by (simp_all add: bit_simps MODE_DIR_def MODE_SYMLINK_def)
  ultimately show ?thesis unfolding is_dir_def is_symlink_def mode_contains_def by metis
qed

lemma from_perm_regular: "\<not> is_dir (from_perm p)" "\<not> is_symlink (from_perm p)"
proof -
  have "from_perm p AND NOT PERM_MASK = 0"
    by (rule bit_word_eqI) (auto simp: from_perm_def bit_simps)
  then show "\<not> is_dir (from_perm p)" "\<not> is_symlink (from_perm p)" using perm_regular by blast+
qed

lemma type_kept:
  "is_dir (type_bits m OR from_perm p) = is_dir m" "is_symlink (type_bits m OR from_perm p) = is_symlink m"
proof -
  have disj: "\<not> (bit PERM_MASK n \<and> bit MODE_DIR n)" "\<not> (bit PERM_MASK n \<and> bit MODE_SYMLINK n)" for n
  proof -
    have "PERM_MASK AND MODE_DIR = 0" "PERM_MASK AND MODE_SYMLINK = 0" by (simp_all add: mode_consts)
    then show "\<not> (bit PERM_MASK n \<and> bit MODE_DIR n)" "\<not> (bit PERM_MASK n \<and> bit MODE_SYMLINK n)"
      by (metis bit_and_iff bit_0_eq bot_apply bot_bool_def)+
  qed
  have d: "(with_perm m p AND MODE_DIR) = (m AND MODE_DIR)"
    and s: "(with_perm m p AND MODE_SYMLINK) = (m AND MODE_SYMLINK)"
    using disj by (auto intro!: bit_word_eqI simp: with_perm_def bit_simps)
  show "is_dir (type_bits m OR from_perm p) = is_dir m"
    "is_symlink (type_bits m OR from_perm p) = is_symlink m"
    by (simp_all add: type_or_perm is_dir_def is_symlink_def mode_contains_def d s)
qed

lemma file_at_frames:
  "file_at n i (node_set_name j b m) = file_at n i m"
  "file_at n i (node_set_data j d m) = file_at n i m"
  "file_at n i (recompute_dir_sizes m) = file_at n i m"
  by (auto simp: file_at_def regular_def node_metadata_def node_updates)

lemma node_data_set [simp]:
  "node_data i (node_set_name j b m) = node_data i m"
  "node_data i (node_set_data j d m) = (if i = j then d else node_data i m)"
  by (simp_all add: node_data_def node_updates)

lemma memfs_create_ok:
  assumes "memfs_create name m = (Ok f, m')"
  shows "\<exists>i. file_at (clean_path name) i m' \<and> fresh_handle i [] f \<and> node_data i m' = []"
proof -
  obtain u m1 i m2 where "require_parent ''create'' (clean_path name) m = (Ok u, m1)"
    and ins: "insert_new (clean_path name) (node_file (base_name (clean_path name)) [] (from_perm 0x1A4)) m1 = (Ok i, m2)"
    and f: "node_open i context_new ''.'' (recompute_dir_sizes m2) = (Ok (case f of NodeFile g \<Rightarrow> g), recompute_dir_sizes m2)"
    and m': "m' = recompute_dir_sizes m2" and nf: "\<exists>g. f = NodeFile g"
    using assms
    by (auto simp: memfs_create_def Let_def obind_eq_Inr guard_op_def node_open_def split: if_splits)
  have at: "mf_node (clean_path name) m2 = Some i"
    and cell: "nh_cell m2 i = node_file (base_name (clean_path name)) [] (from_perm 0x1A4)"
    using ins by (auto simp: insert_new_def alloc_node_def obind_def)
  have "regular (node_metadata i m')"
    by (simp add: m' regular_def node_metadata_def cell node_file_def from_perm_regular)
  moreover have "node_data i m' = []" by (simp add: m' node_data_def cell node_file_def)
  ultimately show ?thesis using at f m' nf
    by (intro exI [of _ i]) (auto simp: file_at_def fresh_handle_def node_open_def)
qed

lemma memfs_open_file_at:
  assumes "valid_path name" "file_at name i m"
  shows "memfs_open ctx name m =
    (Ok (NodeFile \<lparr>nf_node = i, nf_meta = node_metadata i (node_set_name i (base_name name) m),
           nf_data = node_data i m, nf_offset = 0, nf_dirty = False, nf_closed = False\<rparr>),
     node_set_name i (base_name name) m)"
  using assms
  by (auto simp: memfs_open_def memfs_fuel_def file_at_def regular_def clean_valid Let_def
      obind_def node_open_def md_is_dir_def node_data_def node_set_name_def upd_node_def)

lemma fresh_open:
  assumes "valid_path name" "file_at name i m" "memfs_open ctx name m = (Ok f, m')"
  shows "file_at name i m' \<and> fresh_handle i (node_data i m) f \<and> node_data i m' = node_data i m"
proof -
  have "regular (node_metadata i (node_set_name i (base_name name) m))"
    using assms(2) by (simp add: file_at_def regular_def node_metadata_def node_set_name_def)
  then show ?thesis
    using memfs_open_file_at [OF assms(1,2), of ctx] assms(2,3)
    by (auto simp: fresh_handle_def file_at_frames)
qed

lemma fresh_close:
  "fresh_handle i d f \<Longrightarrow> scoped f (discard (fh_close mem_file_handle)) m = (Ok (), m)"
  by (auto simp: fresh_handle_def scoped_def discard_def attempt_def obind_def mem_file_handle_def
      mem_dispatch_def on_node_file_def node_file_handle_def node_file_close_def node_file_sync_def)

lemma memfs_chmod_at:
  assumes "memfs_chmod name p m = (Ok u, m')" "file_at (clean_path name) i m"
  shows "file_at (clean_path name) i m' \<and> node_data i m' = node_data i m"
  using assms
  by (auto simp: memfs_chmod_def obind_eq_Inr node_or_def file_at_def regular_def node_metadata_def
      node_data_def node_set_mode_def type_kept split: option.splits)

abbreviation "truncating \<equiv> O_WRONLY OR O_CREATE OR O_TRUNC"

lemma memfs_open_truncating:
  assumes "memfs_open_file name truncating p m = (Ok f, m')"
  shows "\<exists>i. file_at (clean_path name) i m' \<and> fresh_handle i [] f"
proof -
  have fl: "is_write truncating" "flags_contains truncating O_TRUNC" "\<not> flags_contains truncating O_APPEND"
    by (simp_all add: is_write_def flags_contains_def flag_consts)
  define K :: "mem_file \<Rightarrow> (memfs, mem_file) op" where
    "K g = (if p \<noteq> 0
               then obind (scoped g (discard (fh_close mem_file_handle))) (\<lambda>_.
                    obind (attempt (memfs_chmod name p)) (\<lambda>r.
                    obind (case r of
                             Inr _ \<Rightarrow> ret ()
                           | Inl e \<Rightarrow> if e = Kind NotSupported then ret () else throw (Fail e)) (\<lambda>_.
                    memfs_open context_new name)))
               else ret g)" for g
  have "memfs_open_file name truncating p =
      obind (attempt (memfs_open context_new name)) (\<lambda>r.
      obind (case r of
               Inr f \<Rightarrow> ret (f, False)
             | Inl e \<Rightarrow>
                 if flags_contains truncating O_CREATE \<and> kind_of e = NotFound
                 then obind (memfs_create name) (\<lambda>f. ret (f, True))
                 else throw (Fail e)) (\<lambda>(f, created).
      obind (if \<not> created then obind (scoped f (discard (fh_close mem_file_handle))) (\<lambda>_. memfs_create name)
             else ret f) (\<lambda>f. obind (K f) ret)))"
    by (simp add: memfs_open_file_def default_open_file_def fl K_def)
  with assms obtain r t where second: "obind (case r of
               Inr f \<Rightarrow> ret (f, False)
             | Inl e \<Rightarrow>
                 if flags_contains truncating O_CREATE \<and> kind_of e = NotFound
                 then obind (memfs_create name) (\<lambda>f. ret (f, True))
                 else throw (Fail e)) (\<lambda>(f, created).
      obind (if \<not> created then obind (scoped f (discard (fh_close mem_file_handle))) (\<lambda>_. memfs_create name)
             else ret f) (\<lambda>f. obind (K f) ret)) t = (Ok f, m')"
    by (auto elim: obind_okE)
  obtain m0 g m1 where new: "memfs_create name m0 = (Ok g, m1)" and rest: "K g m1 = (Ok f, m')"
    using second by (cases r) (auto elim!: obind_okE split: if_split_asm)
  from memfs_create_ok [OF new] obtain i where at: "file_at (clean_path name) i m1"
    and fh: "fresh_handle i [] g" and empty: "node_data i m1 = []" by blast
  show ?thesis
  proof (cases "p = 0")
    case True
    then show ?thesis using rest at fh by (auto simp: K_def)
  next
    case False
    have chm: "\<exists>u. memfs_chmod name p m1 = (Ok u, snd (memfs_chmod name p m1))"
      using at by (auto simp: memfs_chmod_def node_or_def file_at_def obind_def)
    then obtain m2 where m2: "memfs_chmod name p m1 = (Ok (), m2)" by auto
    have op: "memfs_open context_new name m2 = (Ok f, m')"
      using rest False fresh_close [OF fh, of m1] m2
      by (simp add: K_def obind_def attempt_def)
    then have v: "valid_path name"
      by (auto simp: memfs_open_def memfs_fuel_def split: if_splits)
    have at2: "file_at name i m2" and em: "node_data i m2 = []"
      using memfs_chmod_at [OF m2 at] empty v by (simp_all add: clean_valid)
    show ?thesis
      using fresh_open [OF v at2 op] unfolding em clean_valid [OF v] by blast
  qed
qed

lemma fresh_write_close:
  assumes "fresh_handle i [] f" "write_then_close mem_file_handle f data m = (Ok u, m')"
  shows "m' = node_set_data i data m \<and> length data \<le> isize_max"
  using assms
  by (auto simp: fresh_handle_def write_then_close_def scoped_def obind_def mem_file_handle_def
      mem_dispatch_def on_node_file_def node_file_handle_def node_file_write_def node_file_close_def
      node_file_sync_def regular_def Let_def vec_resize_def write_range_def saturating_add_def usize_max_def isize_max_def
      split: sum.splits prod.splits if_splits)

lemma read_loop_rest:
  assumes "f = NodeFile g" "\<not> nf_closed g" "regular (nf_meta g)" "nf_data g = data"
    and "length data \<le> isize_max" "unat (nf_offset g) = k" "k \<le> length data" "length data - k \<le> 8192 * n"
  shows "\<exists>f'. read_file_loop (Suc n) mem_file_handle out (f, m) = (Ok (out @ drop k data), (f', m))"
  using assms
proof (induction n arbitrary: f g k out)
  case 0
  then show ?case
    by (auto simp: obind_def attempt_def mem_file_handle_def mem_dispatch_def on_node_file_def
        node_file_handle_def node_file_read_def regular_def)
next
  case (Suc n)
  show ?case
  proof (cases "k = length data")
    case True
    then show ?thesis using Suc.prems
      by (auto simp: obind_def attempt_def mem_file_handle_def mem_dispatch_def on_node_file_def
        node_file_handle_def node_file_read_def regular_def)
  next
    case False
    let ?c = "min 8192 (length data - k)" and ?g = "g\<lparr>nf_offset := nf_offset g + of_nat (min 8192 (length data - k))\<rparr>"
    have rd: "fh_read mem_file_handle 8192 (f, m) = (Ok (take ?c (drop k data)), (NodeFile ?g, m))"
      using Suc.prems False
      by (auto simp: mem_file_handle_def mem_dispatch_def on_node_file_def
        node_file_handle_def node_file_read_def regular_def Let_def)
    have ne: "take ?c (drop k data) \<noteq> []" using False Suc.prems by auto
    have off: "unat (nf_offset ?g) = k + ?c"
    proof -
      have "k + ?c < 2 ^ 64" using Suc.prems by (simp add: isize_max_def)
      then show ?thesis using Suc.prems by (simp add: unat_word_ariths unat_of_nat)
    qed
    have "\<exists>f'. read_file_loop (Suc n) mem_file_handle (out @ take ?c (drop k data)) (NodeFile ?g, m) =
        (Ok ((out @ take ?c (drop k data)) @ drop (k + ?c) data), (f', m))"
      by (rule Suc.IH [OF refl]) (use Suc.prems off in auto)
    moreover have "take ?c (drop k data) @ drop (k + ?c) data = drop k data"
      by (metis add.commute append_take_drop_id drop_drop)
    ultimately show ?thesis
      using rd ne by (simp add: obind_def attempt_def)
  qed
qed

lemma read_file_at:
  assumes "file_at (clean_path name) i m" "node_data i m = data" "length data \<le> isize_max"
    and "length data \<le> 8192 * n"
  shows "fst (read_file (Suc n) memfs_ops (clean_path name) m) = Ok data"
proof -
  obtain f2 m2 where open2: "memfs_open (with_origin (clean_path name) ''open'' context_new) (clean_path name) m = (Ok f2, m2)"
    using memfs_open_file_at [OF valid_clean assms(1)] by auto
  have "fresh_handle i data f2"
    using fresh_open [OF valid_clean assms(1) open2] assms(2) by simp
  then obtain g where "f2 = NodeFile g" "\<not> nf_closed g" "regular (nf_meta g)" "nf_data g = data" "unat (nf_offset g) = 0"
    by (auto simp: fresh_handle_def)
  from read_loop_rest [OF this(1-4) assms(3) this(5), of n "[]" m2] assms(4)
  obtain f' where "read_file_loop (Suc n) mem_file_handle [] (f2, m2) = (Ok data, (f', m2))"
    by (auto simp del: read_file_loop.simps)
  moreover have "fst (discard (fh_close mem_file_handle) (f', m2)) = Ok ()" for f' :: mem_file and m2
    by (cases f') (auto simp: discard_def attempt_def obind_def mem_file_handle_def mem_dispatch_def
        on_node_file_def on_dir_file_def node_file_handle_def dir_file_handle_def node_file_close_def
        node_file_sync_def default_close_def split: sum.splits)
  ultimately show ?thesis
    using open2 by (auto simp: read_file_def open_path_def memfs_ops_def obind_def scoped_def
        split: prod.splits sum.splits simp del: read_file_loop.simps) (metis fst_conv sum.distinct(1))
qed

text \<open>
  C6. Reading back: whatever was at the path before (nothing, a file, a directory or a symbolic
  link), if \<open>write_file\<close> succeeds then \<open>read_file\<close> on the canonical path returns exactly the
  bytes written, after as many 8 KiB reads as they need.
\<close>

theorem write_then_read_file:
  assumes "write_file memfs_ops name data p m = (Ok u, m')" and "length data \<le> 8192 * n"
  shows "fst (read_file (Suc n) memfs_ops (clean_path name) m') = Ok data"
proof -
  obtain f m1 where op: "memfs_open_file name truncating p m = (Ok f, m1)"
    and wr: "write_then_close mem_file_handle f data m1 = (Ok u, m')"
    using assms(1) by (auto simp: write_file_def memfs_ops_def elim!: obind_okE)
  obtain i where at: "file_at (clean_path name) i m1" and fh: "fresh_handle i [] f"
    using memfs_open_truncating [OF op] by blast
  have m': "m' = node_set_data i data m1" and len: "length data \<le> isize_max"
    using fresh_write_close [OF fh wr] by auto
  show ?thesis
    using at assms(2) len by (intro read_file_at [of name i]) (simp_all add: m' file_at_frames)
qed

theorem write_then_read_file_witness:
  "fst (read_file 2 memfs_ops (clean_path ''a'')
     (snd (write_file memfs_ops ''a'' [1, 2] 0x1A4 (memfs_new 0)))) = Ok [1, 2]"
proof -
  have "fst (write_file memfs_ops ''a'' [1, 2] 0x1A4 (memfs_new 0)) = Ok ()" by code_simp
  then have w: "write_file memfs_ops ''a'' [1, 2] 0x1A4 (memfs_new 0) =
      (Ok (), snd (write_file memfs_ops ''a'' [1, 2] 0x1A4 (memfs_new 0)))"
    by (simp add: prod_eq_iff)
  have "fst (read_file (Suc 1) memfs_ops (clean_path ''a'')
      (snd (write_file memfs_ops ''a'' [1, 2] 0x1A4 (memfs_new 0)))) = Ok [1, 2]"
    by (rule write_then_read_file [OF w]) simp
  then show ?thesis by (simp only: numeral_2_eq_2 One_nat_def)
qed

section \<open>Renaming and hard links\<close>

text \<open>
  C7. Renaming: a successful rename of a directory moves every path below it and replaces what
  was at the new place; a rename of anything else moves that one path. No other path changes,
  and no node's contents change.
\<close>

theorem memfs_rename_effect:
  assumes "memfs_inv m" and "memfs_rename old new m = (Ok u, m')"
    and "mf_node (clean_path old) m = Some i" and "clean_path old \<noteq> clean_path new"
  shows "(\<forall>k. mf_node k m' =
      (if md_is_dir (node_metadata i m) then
         (case Option.bind (moved_from (clean_path old) (clean_path new) k) (\<lambda>p. mf_node p m) of
            Some j \<Rightarrow> Some j
          | None \<Rightarrow> if k = clean_path old \<or> starts_with k (clean_path old @ ''/'') then None else mf_node k m)
       else if k = clean_path new then Some i
       else if k = clean_path old then None else mf_node k m)) \<and>
    (\<forall>j. node_data j m' = node_data j m)"
proof -
  have m': "m' = recompute_dir_sizes
      (if md_is_dir (node_metadata i m)
       then m\<lparr>mf_nodes := move_nodes (clean_path old) (clean_path new) (mf_nodes m)\<rparr>
       else mf_insert (clean_path new) i (mf_delete (clean_path old) (mf_delete (clean_path new) m)))"
    using assms(2-4) unfolding memfs_rename_def Let_def guard_op_def
    by (auto elim!: obind_okE dest!: require_parent_same simp: node_or_ok split: if_split_asm)
  have ok: "bt_ok (mf_nodes m)" using assms(1) by (simp add: memfs_inv_def)
  show ?thesis
    unfolding m' by (auto simp: move_nodes_get [OF ok] mf_node_def node_data_def split: option.split)
qed

theorem memfs_rename_effect_witness:
  "mf_node ''b/f'' (snd (memfs_rename ''a'' ''b'' (snd (memfs_create ''a/f'' (snd (memfs_mkdir ''a'' 0x1ED (memfs_new 0)))))))
   = mf_node ''a/f'' (snd (memfs_create ''a/f'' (snd (memfs_mkdir ''a'' 0x1ED (memfs_new 0)))))"
proof -
  let ?m = "snd (memfs_create ''a/f'' (snd (memfs_mkdir ''a'' 0x1ED (memfs_new 0))))"
  have inv: "memfs_inv ?m"
    by (intro keeps_apply [where P = memfs_inv] keeps_memfs_create keeps_memfs_mkdir memfs_new_inv)
  have "fst (memfs_rename ''a'' ''b'' ?m) = Ok ()" by code_simp
  then have r: "memfs_rename ''a'' ''b'' ?m = (Ok (), snd (memfs_rename ''a'' ''b'' ?m))"
    by (simp add: prod_eq_iff)
  have n: "mf_node (clean_path ''a'') ?m = Some 1" by code_simp
  have d: "clean_path ''a'' \<noteq> clean_path ''b''" by code_simp
  have isd: "md_is_dir (node_metadata 1 ?m)" by code_simp
  have mv: "moved_from (clean_path ''a'') (clean_path ''b'') ''b/f'' = Some ''a/f''" by code_simp
  have f: "mf_node ''a/f'' ?m = Some 2" by code_simp
  show ?thesis
    using memfs_rename_effect [OF inv r n d] isd unfolding mv f by (simp add: mv f)
qed

lemma open_write_close:
  assumes "valid_path name" "file_at name i m" "memfs_open ctx name m = (Ok f, m1)"
    and "write_then_close mem_file_handle f data m1 = (Ok u, m2)"
    and "length (data @ drop (length data) (node_data i m)) \<le> isize_max"
  shows "m2 = node_set_data i (data @ drop (length data) (node_data i m)) m1"
proof -
  have fh: "fresh_handle i (node_data i m) f" using fresh_open [OF assms(1-3)] by simp
  have "length data \<le> isize_max" using assms(5) by simp
  then have "saturating_add 0 (length data) = length data"
    by (simp add: saturating_add_def usize_max_def isize_max_def)
  with fh assms(4) show ?thesis
    by (auto simp: fresh_handle_def write_then_close_def scoped_def obind_def mem_file_handle_def
      mem_dispatch_def on_node_file_def node_file_handle_def node_file_write_def node_file_close_def
      node_file_sync_def regular_def Let_def vec_resize_def write_range_def
      split: sum.splits prod.splits if_splits)
qed

text \<open>
  Hard links: after a link of a regular file, writing through a file opened at the old path
  and closing it changes what is read at the new path: the bytes written, then whatever the file
  held beyond them.
\<close>

lemma memfs_hard_link_shares:
  assumes "memfs_link old new m = (Ok u, m')"
    and "file_at (clean_path old) i m"
    and "memfs_open ctx (clean_path old) m' = (Ok f, m1)"
    and "write_then_close mem_file_handle f data m1 = (Ok v, m2)"
    and "file = data @ drop (length data) (node_data i m)" and "length file \<le> isize_max"
    and "length file \<le> 8192 * n"
  shows "fst (read_file (Suc n) memfs_ops (clean_path new) m2) = Ok file"
proof -
  have m': "m' = recompute_dir_sizes (mf_insert (clean_path new) i m)" and ne: "clean_path new \<noteq> clean_path old"
    using assms(1,2) unfolding memfs_link_def Let_def guard_op_def
    by (auto elim!: obind_okE dest!: require_parent_same simp: node_or_ok file_at_def split: if_split_asm)
  have old': "file_at (clean_path old) i m'" and new': "file_at (clean_path new) i m'"
    using assms(2) ne by (auto simp: m' file_at_def regular_def node_metadata_def)
  have nd: "node_data i m' = node_data i m" by (simp add: m' node_data_def)
  have m1: "file_at (clean_path new) i m1"
    using memfs_open_file_at [OF valid_clean old', of ctx] new' assms(3) by (auto simp: file_at_frames)
  have m2: "m2 = node_set_data i file m1"
    using open_write_close [OF valid_clean old' assms(3,4)] assms(5,6) nd by simp
  have "file_at (clean_path new) i m2" "node_data i m2 = file"
    using m1 m2 by (simp_all add: file_at_frames)
  then show ?thesis by (rule read_file_at) (use assms in simp_all)
qed

theorem memfs_hard_link_shares_witness:
  "fst (read_file 2 memfs_ops (clean_path ''b'')
     (snd (write_then_close mem_file_handle
        (case fst (memfs_open context_new (clean_path ''a'')
                 (snd (memfs_link ''a'' ''b'' (snd (write_file memfs_ops ''a'' [1, 2, 3] 0 (memfs_new 0)))))) of Inr f \<Rightarrow> f)
        [9]
        (snd (memfs_open context_new (clean_path ''a'')
           (snd (memfs_link ''a'' ''b'' (snd (write_file memfs_ops ''a'' [1, 2, 3] 0 (memfs_new 0)))))))))) = Ok [9, 2, 3]"
proof -
  let ?m = "snd (write_file memfs_ops ''a'' [1, 2, 3] 0 (memfs_new 0))"
  let ?m' = "snd (memfs_link ''a'' ''b'' ?m)"
  let ?o = "memfs_open context_new (clean_path ''a'') ?m'"
  let ?f = "case fst ?o of Inr f \<Rightarrow> f"
  let ?w = "write_then_close mem_file_handle ?f [9] (snd ?o)"
  have l: "memfs_link ''a'' ''b'' ?m = (Ok (), ?m')"
  proof -
    have "fst (memfs_link ''a'' ''b'' ?m) = Ok ()" by code_simp
    then show ?thesis by (simp add: prod_eq_iff)
  qed
  have at: "file_at (clean_path ''a'') 1 ?m" by code_simp
  have o: "?o = (Ok ?f, snd ?o)"
  proof -
    have "isl (fst ?o) = False" by code_simp
    then show ?thesis by (cases "fst ?o") (auto simp: prod_eq_iff)
  qed
  have w: "?w = (Ok (), snd ?w)"
  proof -
    have "fst ?w = Ok ()" by code_simp
    then show ?thesis by (simp add: prod_eq_iff)
  qed
  have d: "[9, 2, 3] = [9] @ drop (length [9 :: u8]) (node_data 1 ?m)" by code_simp
  have "fst (read_file (Suc 1) memfs_ops (clean_path ''b'') (snd ?w)) = Ok [9, 2, 3]"
    by (rule memfs_hard_link_shares [OF l at o w d]) (simp_all add: isize_max_def)
  then show ?thesis by (simp only: numeral_2_eq_2 One_nat_def)
qed

end
