(* ===== verification/Memfs_Corners.thy ===== *)
theory Memfs_Corners
  imports Memfs_Props
begin

text \<open>
  Concrete runs of the in-memory file system on which its methods do something a caller would not
  expect. Each is evaluated on the model.
\<close>

text \<open>A symbolic link to itself makes \<open>stat\<close> and \<open>open\<close> recur without end.\<close>

lemma self_link_diverges:
  "fst (memfs_stat context_new ''a'' (snd (memfs_symlink ''a'' ''a'' (memfs_new 0)))) = Inl Diverge \<and>
   fst (memfs_open context_new ''a'' (snd (memfs_symlink ''a'' ''a'' (memfs_new 0)))) = Inl Diverge"
  by code_simp

text \<open>A dangling symbolic link cannot be removed: \<open>remove\<close> follows it to ask for a directory.\<close>

lemma dangling_link_not_removable:
  "fst (memfs_remove ''l'' (snd (memfs_symlink ''x'' ''l'' (memfs_new 0)))) =
     Err (Path ''stat'' ''x'' NotFound)"
  by code_simp

text \<open>A directory renamed below itself is detached: its old path is gone, its new path has no parent.\<close>

lemma rename_below_itself_detaches:
  "fst (memfs_rename ''a'' ''a/b'' (snd (memfs_mkdir ''a'' 0x1ED (memfs_new 0)))) = Ok () \<and>
   map fst (mf_nodes (snd (memfs_rename ''a'' ''a/b'' (snd (memfs_mkdir ''a'' 0x1ED (memfs_new 0)))))) = [''.'', ''a/b''] \<and>
   fst (memfs_stat context_new ''a'' (snd (memfs_rename ''a'' ''a/b'' (snd (memfs_mkdir ''a'' 0x1ED (memfs_new 0))))))
     = Err (Path ''stat'' ''a'' NotFound)"
  by code_simp

text \<open>Renaming onto the root stores paths no lookup accepts; renaming the root away removes it.\<close>

lemma rename_onto_root_breaks_inv:
  "fst (memfs_rename ''a'' ''.'' (snd (memfs_create ''a/f'' (snd (memfs_mkdir ''a'' 0x1ED (memfs_new 0)))))) = Ok () \<and>
   map fst (mf_nodes (snd (memfs_rename ''a'' ''.'' (snd (memfs_create ''a/f'' (snd (memfs_mkdir ''a'' 0x1ED (memfs_new 0)))))))) = [''.'', ''./f''] \<and>
   \<not> valid_path ''./f''"
  by code_simp

lemma rename_root_away:
  "fst (memfs_rename ''.'' ''b'' (memfs_new 0)) = Ok () \<and>
   fst (memfs_stat context_new ''.'' (snd (memfs_rename ''.'' ''b'' (memfs_new 0)))) =
     Err (Path ''stat'' ''.'' NotFound)"
  by code_simp

text \<open>A directory that holds only hidden names counts as empty and is removed, its contents stay.\<close>

lemma remove_leaves_hidden_children:
  "fst (memfs_remove ''a'' (snd (memfs_create ''a/#x'' (snd (memfs_mkdir ''a'' 0x1ED (memfs_new 0)))))) = Ok () \<and>
   map fst (mf_nodes (snd (memfs_remove ''a'' (snd (memfs_create ''a/#x'' (snd (memfs_mkdir ''a'' 0x1ED (memfs_new 0)))))))) = [''.'', ''a/#x'']"
  by code_simp

text \<open>Writing a file over a directory replaces the directory and leaves its contents below a file.\<close>

lemma write_replaces_directory:
  "fst (write_file memfs_ops ''a'' [1] 0 (snd (memfs_create ''a/f'' (snd (memfs_mkdir ''a'' 0x1ED (memfs_new 0)))))) = Ok () \<and>
   map fst (mf_nodes (snd (write_file memfs_ops ''a'' [1] 0 (snd (memfs_create ''a/f'' (snd (memfs_mkdir ''a'' 0x1ED (memfs_new 0)))))))) = [''.'', ''a'', ''a/f'']"
  by code_simp

end
