(* ===== verification/Ninep_Util.thy ===== *)
theory Ninep_Util
  imports Messages Filesystem
begin

text \<open>
  The helper functions of \<open>crates/star9-protocol/src/p9.rs\<close>: qids, file modes and attributes on
  the wire, extended-attribute name lists, open flags, path joining and the error numbers.
\<close>

section \<open>Constants\<close>

definition QTDIR :: u8 where "QTDIR = 0x80"
definition QTSYMLINK :: u8 where "QTSYMLINK = 0x02"
definition DT_DIR :: u8 where "DT_DIR = 4"
definition DT_REG :: u8 where "DT_REG = 8"
definition DT_LNK :: u8 where "DT_LNK = 10"

text \<open>
  The union of the ten attribute bits \<open>MODE\<close>, \<open>NLINK\<close>, \<open>UID\<close>, \<open>GID\<close>, \<open>RDEV\<close>, \<open>ATIME\<close>, \<open>MTIME\<close>,
  \<open>CTIME\<close> (bits 0 to 7), \<open>SIZE\<close> (bit 9) and \<open>BLOCKS\<close> (bit 10).
\<close>

definition ATTR_BASIC :: u64 where
  "ATTR_BASIC = 1 OR 2 OR 4 OR 8 OR 16 OR 32 OR 64 OR 128 OR 512 OR 1024"

definition SETATTR_MODE :: u32 where "SETATTR_MODE = 1"
definition SETATTR_UID :: u32 where "SETATTR_UID = 2"
definition SETATTR_GID :: u32 where "SETATTR_GID = 4"
definition SETATTR_SIZE :: u32 where "SETATTR_SIZE = 8"
definition SETATTR_ATIME :: u32 where "SETATTR_ATIME = 16"
definition SETATTR_MTIME :: u32 where "SETATTR_MTIME = 32"
definition SETATTR_ATIME_SET :: u32 where "SETATTR_ATIME_SET = 128"
definition SETATTR_MTIME_SET :: u32 where "SETATTR_MTIME_SET = 256"

definition EPERM :: u32 where "EPERM = 1"
definition ENOENT :: u32 where "ENOENT = 2"
definition EIO :: u32 where "EIO = 5"
definition EBADF :: u32 where "EBADF = 9"
definition EACCES :: u32 where "EACCES = 13"
definition EEXIST :: u32 where "EEXIST = 17"
definition ENOTDIR :: u32 where "ENOTDIR = 20"
definition EISDIR :: u32 where "EISDIR = 21"
definition EINVAL :: u32 where "EINVAL = 22"
definition ENOSYS :: u32 where "ENOSYS = 38"
definition ENOTEMPTY :: u32 where "ENOTEMPTY = 39"

lemmas errno_consts = EPERM_def ENOENT_def EIO_def EBADF_def EACCES_def EEXIST_def ENOTDIR_def
  EISDIR_def EINVAL_def ENOSYS_def ENOTEMPTY_def

section \<open>Qids, modes and attributes\<close>

definition fnv1a64 :: "bytes \<Rightarrow> u64" where
  "fnv1a64 bs = fold (\<lambda>b h. (h XOR ucast b) * 0x100000001b3) bs 0xcbf29ce484222325"

definition qid_from_meta :: "string \<Rightarrow> metadata \<Rightarrow> qid" where
  "qid_from_meta path md =
     \<lparr>q_typ = (if is_dir (md_mode md) then QTDIR else if is_symlink (md_mode md) then QTSYMLINK else 0),
      q_version = 0, q_path = fnv1a64 (as_bytes path)\<rparr>"

definition qid_for :: "('s, 'h) filesystem \<Rightarrow> string \<Rightarrow> ('s, qid) op" where
  "qid_for fs path =
     obind (fs_lstat fs (no_follow context_new) path) (\<lambda>md. ret (qid_from_meta path md))"

text \<open>\<open>duration_since(UNIX_EPOCH).unwrap_or_default()\<close>: a time before the epoch counts as the epoch.\<close>

definition system_time_parts :: "system_time \<Rightarrow> u64 \<times> u32" where
  "system_time_parts t =
     (if t < unix_epoch then (0, 0)
      else (of_int (t div int nanos_per_sec), of_int (t mod int nanos_per_sec)))"

definition attr_for :: "('s, 'h) filesystem \<Rightarrow> string \<Rightarrow> metadata \<Rightarrow> u64 \<Rightarrow> ('s, nine_p_attr) op" where
  "attr_for fs path md request_mask =
     (case system_time_parts (md_modified md) of (secs, nanos) \<Rightarrow>
      obind (if md_is_dir md
             then obind (attempt (fs_read_dir fs context_new path)) (\<lambda>r.
                  ret (2 + (case r of Inr entries \<Rightarrow> of_nat (length entries) | Inl _ \<Rightarrow> 0)))
             else ret 1) (\<lambda>nlink.
      ret \<lparr>at_valid = request_mask AND ATTR_BASIC, at_qid = qid_from_meta path md,
           at_mode = unix_type_and_perm (md_mode md), at_uid = md_uid md, at_gid = md_gid md,
           at_nlink = nlink, at_rdev = 0, at_size = md_size md, at_blksize = 65536,
           at_blocks = of_nat ((unat (md_size md) + 65535) div 65536),
           at_atime_seconds = secs, at_atime_nanoseconds = ucast nanos,
           at_mtime_seconds = secs, at_mtime_nanoseconds = ucast nanos,
           at_ctime_seconds = secs, at_ctime_nanoseconds = ucast nanos,
           at_btime_seconds = 0, at_btime_nanoseconds = 0, at_gen = 0, at_data_version = 0\<rparr>))"

definition mode_from_unix :: "u32 \<Rightarrow> file_mode" where
  "mode_from_unix mode =
     (let typ = mode AND 0xF000;
          kind = (if typ = 0x4000 then MODE_DIR
                  else if typ = 0xA000 then MODE_SYMLINK
                  else if typ = 0x1000 then MODE_NAMED_PIPE
                  else if typ = 0xC000 then MODE_SOCKET
                  else 0)
      in kind OR from_perm (mode AND 0x1FF))"

definition metadata_from_attr :: "string \<Rightarrow> nine_p_attr \<Rightarrow> metadata res" where
  "metadata_from_attr path attr =
     rbind (epoch_plus (at_mtime_seconds attr) (ucast (at_mtime_nanoseconds attr))) (\<lambda>t.
     Ok \<lparr>md_name = base_name path, md_mode = mode_from_unix (at_mode attr), md_size = at_size attr,
         md_modified = t, md_uid = at_uid attr, md_gid = at_gid attr\<rparr>)"

definition mode_from_dirent_type :: "u8 \<Rightarrow> file_mode" where
  "mode_from_dirent_type t =
     (if t = DT_DIR then MODE_DIR OR from_perm 0x1ED
      else if t = DT_LNK then MODE_SYMLINK OR from_perm 0x1FF
      else from_perm 0x1A4)"

definition dirent_type :: "file_mode \<Rightarrow> u8" where
  "dirent_type mode = (if is_dir mode then DT_DIR else if is_symlink mode then DT_LNK else DT_REG)"

section \<open>Extended-attribute names\<close>

definition encode_xattr_names :: "string list \<Rightarrow> bytes" where
  "encode_xattr_names names = concat (map (\<lambda>n. as_bytes n @ [0]) (sort names))"

fun collect_utf8 :: "bytes list \<Rightarrow> string list res" where
  "collect_utf8 [] = Ok []"
| "collect_utf8 (b # bs) =
     (case from_utf8 b of
        None \<Rightarrow> Err (Kind Invalid)
      | Some s \<Rightarrow> rbind (collect_utf8 bs) (\<lambda>r. Ok (s # r)))"

definition decode_xattr_names :: "bytes \<Rightarrow> string list res" where
  "decode_xattr_names data =
     (if data = [] then Ok []
      else if last data \<noteq> 0 then Err (Kind Invalid)
      else collect_utf8 (split_on 0 (butlast data)))"

section \<open>Open flags, paths and error numbers\<close>

definition open_flags_from_9p :: "u32 \<Rightarrow> open_flags" where
  "open_flags_from_9p flags =
     fold (\<lambda>flag out. if flags AND flag \<noteq> 0 then out OR flag else out)
       [O_CREATE, O_EXCL, O_TRUNC, O_APPEND]
       (if flags AND 3 = 1 then O_WRONLY else if flags AND 3 = 2 then O_RDWR else O_RDONLY)"

definition join_path :: "string \<Rightarrow> string \<Rightarrow> string" where
  "join_path base name =
     (if base = ''.'' then clean_path name else clean_path (base @ ''/'' @ name))"

definition walk_join :: "string \<Rightarrow> string \<Rightarrow> string" where
  "walk_join base name =
     (if name = ''.'' then base
      else if name = ''..'' then parent_path base
      else join_path base name)"

definition checked_join :: "string \<Rightarrow> string \<Rightarrow> string res" where
  "checked_join base name =
     (if name = '''' \<or> slash \<in> set name \<or> name = ''.'' \<or> name = ''..'' then Err (Kind Invalid)
      else Ok (join_path base name))"

fun errno_of_kind :: "error_kind \<Rightarrow> u32" where
  "errno_of_kind NotFound = ENOENT"
| "errno_of_kind AlreadyExists = EEXIST"
| "errno_of_kind Invalid = EINVAL"
| "errno_of_kind PermissionDenied = EACCES"
| "errno_of_kind NotSupported = ENOSYS"
| "errno_of_kind NotEmpty = ENOTEMPTY"
| "errno_of_kind Closed = EBADF"
| "errno_of_kind NotDir = ENOTDIR"
| "errno_of_kind IsDir = EISDIR"
| "errno_of_kind UnexpectedEof = EIO"
| "errno_of_kind Other = EIO"

definition errno_for_error :: "error \<Rightarrow> u32" where
  "errno_for_error e = errno_of_kind (kind_of e)"

definition errno_to_error :: "u32 \<Rightarrow> error" where
  "errno_to_error errno =
     Kind (if errno = EPERM then PermissionDenied
           else if errno = ENOENT then NotFound
           else if errno = EBADF then Invalid
           else if errno = EACCES then PermissionDenied
           else if errno = EEXIST then AlreadyExists
           else if errno = ENOTDIR then NotDir
           else if errno = EISDIR then IsDir
           else if errno = EINVAL then Invalid
           else if errno = ENOSYS then NotSupported
           else if errno = ENOTEMPTY then NotEmpty
           else Other)"

section \<open>Lemmas: paths\<close>

lemma checked_join_Ok:
  assumes "valid_path base" "checked_join base name = Ok p"
  shows "good_part name \<and> p = (if base = ''.'' then name else base @ ''/'' @ name) \<and> p \<noteq> ''.'' \<and> valid_path p"
proof -
  have g: "good_part name" using assms(2) by (auto simp: checked_join_def good_part_def split: if_splits)
  have p: "p = (if base = ''.'' then name else base @ ''/'' @ name)"
    using assms g good_part_valid valid_append_part [OF assms(1) g]
    by (auto simp: checked_join_def join_path_def clean_valid split: if_splits)
  moreover have "p \<noteq> ''.''"
    using p g by (auto simp: good_part_def append_eq_Cons_conv)
  moreover have "valid_path p"
    using p g good_part_valid valid_append_part [OF assms(1) g] by auto
  ultimately show ?thesis using g by simp
qed

lemma join_path_valid [simp]: "valid_path (join_path base name)"
  by (simp add: join_path_def)

lemma walk_join_valid: "valid_path base \<Longrightarrow> valid_path (walk_join base name)"
  by (simp add: walk_join_def)

text \<open>
  C9. Confinement: a name the server joins to a directory path is one plain component. The
  result is a canonical path directly below that directory, so no request name can leave it.
\<close>

theorem checked_join_confined:
  assumes "valid_path base" and "checked_join base name = Ok p"
  shows "valid_path p \<and> parent_path p = base \<and> base_name p = name \<and> p \<noteq> ''.''"
  using checked_join_Ok [OF assms] assms(1) parent_append_part base_append_part parent_part base_part
  by (auto split: if_splits)

theorem checked_join_confined_witness:
  "parent_path ''a/b'' = ''a'' \<and> base_name ''a/b'' = ''b'' \<and> checked_join ''a'' ''..'' = Err (Kind Invalid)"
proof -
  have "valid_path ''a''" "checked_join ''a'' ''b'' = Ok ''a/b''" by code_simp+
  from checked_join_confined [OF this] show ?thesis by (simp add: checked_join_def)
qed

section \<open>Lemmas: round trips\<close>

lemma mode_unix:
  assumes "kind \<in> {0, MODE_DIR, MODE_SYMLINK, MODE_NAMED_PIPE, MODE_SOCKET}"
  shows "mode_from_unix (unix_type_and_perm (kind OR from_perm p)) = kind OR from_perm p \<and>
    is_dir (mode_from_dirent_type (dirent_type (kind OR from_perm p))) = (kind = MODE_DIR) \<and>
    is_symlink (mode_from_dirent_type (dirent_type (kind OR from_perm p))) = (kind = MODE_SYMLINK)"
proof -
  define q where "q = from_perm p"
  have q: "q = q AND 0x1FF" by (simp add: q_def from_perm_def PERM_MASK_def and.assoc)
  have andq: "(k OR q) AND m = k AND m" if "m AND 0x1FF = 0" for k m :: u32
  proof -
    have "q AND m = q AND (m AND 0x1FF)" using q by (metis and.assoc and.commute)
    then show ?thesis using that by (simp add: bit.conj_disj_distrib2)
  qed
  have per: "(k OR q) AND 0x1FF = q" if "k AND 0x1FF = 0" for k :: u32
    using q that by (simp add: bit.conj_disj_distrib2)
  have fp: "from_perm q = q" "perm q = q" using q by (simp_all add: from_perm_def perm_def PERM_MASK_def)
  have orq: "(k OR q) AND 0xF000 = k AND 0xF000" for k :: u32 by (rule andq) simp
  have flags: "(k OR q) AND MODE_DIR = k AND MODE_DIR" "(k OR q) AND MODE_SYMLINK = k AND MODE_SYMLINK"
    "(k OR q) AND MODE_NAMED_PIPE = k AND MODE_NAMED_PIPE" "(k OR q) AND MODE_SOCKET = k AND MODE_SOCKET"
    for k :: u32
    by (rule andq; simp add: mode_consts)+
  have pm: "perm (kind OR q) = q"
    unfolding perm_def PERM_MASK_def by (rule per) (use assms in \<open>auto simp: mode_consts\<close>)
  have u: "unix_type_and_perm (kind OR q) =
      (if kind = MODE_DIR then 0x4000 else if kind = MODE_SYMLINK then 0xA000
       else if kind = MODE_NAMED_PIPE then 0x1000 else if kind = MODE_SOCKET then 0xC000 else 0x8000) OR q"
    unfolding unix_type_and_perm_def is_dir_def is_symlink_def mode_contains_def flags pm Let_def
    using assms by (elim insertE emptyE) (simp_all add: mode_consts)
  have m: "mode_from_unix (t OR q) = (if t = 0x4000 then MODE_DIR else if t = 0xA000 then MODE_SYMLINK
       else if t = 0x1000 then MODE_NAMED_PIPE else if t = 0xC000 then MODE_SOCKET else 0) OR q"
    if "t \<in> {0x4000, 0xA000, 0x1000, 0xC000, 0x8000}" for t
  proof -
    have "(t OR q) AND 0x1FF = q" by (rule per) (use that in auto)
    then show ?thesis unfolding mode_from_unix_def orq fp Let_def using that fp(1) by auto
  qed
  have "mode_from_unix (unix_type_and_perm (kind OR q)) = kind OR q"
    unfolding u using assms by (subst m) (auto simp: mode_consts)
  moreover have "is_dir (mode_from_dirent_type (dirent_type (kind OR q))) = (kind = MODE_DIR)"
    "is_symlink (mode_from_dirent_type (dirent_type (kind OR q))) = (kind = MODE_SYMLINK)"
    unfolding dirent_type_def is_dir_def is_symlink_def mode_contains_def flags
    using assms by (auto simp: mode_from_dirent_type_def DT_DIR_def DT_LNK_def DT_REG_def from_perm_def mode_consts)
  ultimately show ?thesis unfolding q_def by blast
qed

text \<open>
  Modes: the Unix mode sent for a directory, symbolic link, pipe, socket or plain file is
  read back as the same mode, and the directory-entry type as the same kind of file.
\<close>

theorem mode_unix_roundtrip:
  assumes "kind \<in> {0, MODE_DIR, MODE_SYMLINK, MODE_NAMED_PIPE, MODE_SOCKET}"
  shows "mode_from_unix (unix_type_and_perm (kind OR from_perm p)) = kind OR from_perm p \<and>
    is_dir (mode_from_dirent_type (dirent_type (kind OR from_perm p))) = (kind = MODE_DIR) \<and>
    is_symlink (mode_from_dirent_type (dirent_type (kind OR from_perm p))) = (kind = MODE_SYMLINK)"
  using mode_unix [OF assms] .

theorem mode_unix_roundtrip_witness:
  "mode_from_unix (unix_type_and_perm (MODE_SYMLINK OR from_perm 0x1FF)) = MODE_SYMLINK OR from_perm 0x1FF"
  using mode_unix_roundtrip [of MODE_SYMLINK "0x1FF"] by simp

text \<open>
  C10. Error numbers: the kind of an error survives the trip over the wire, except that a closed
  handle is reported as invalid and an unexpected end of file as another error.
\<close>

theorem errno_roundtrip:
  "errno_to_error (errno_for_error e) =
     Kind (case kind_of e of Closed \<Rightarrow> Invalid | UnexpectedEof \<Rightarrow> Other | k \<Rightarrow> k)"
  by (cases "kind_of e") (simp_all add: errno_for_error_def errno_to_error_def errno_consts)

lemma concat_terminated:
  "ns \<noteq> [] \<Longrightarrow> concat (map (\<lambda>n. f n @ [z]) ns) = join_on z (map f ns) @ [z]"
proof (induction ns)
  case (Cons n ns)
  then show ?case by (cases ns) (simp_all add: join_on_Cons)
qed simp

lemma collect_utf8_valid:
  "\<forall>n \<in> set ns. valid_str n \<Longrightarrow> collect_utf8 (map as_bytes ns) = Ok ns"
  by (induction ns) (simp_all add: from_utf8_as_bytes)

text \<open>
  Extended-attribute names: the list the server sends is read back by the client as the same
  names in order, provided no name contains a zero byte.
\<close>

theorem xattr_names_roundtrip:
  assumes "\<forall>n \<in> set names. valid_str n \<and> 0 \<notin> set (as_bytes n)"
  shows "decode_xattr_names (encode_xattr_names names) = Ok (sort names)"
proof (cases "names = []")
  case False
  have ne: "sort names \<noteq> []" using False by (metis set_empty set_sort)
  have e: "encode_xattr_names names = join_on 0 (map as_bytes (sort names)) @ [0]"
    unfolding encode_xattr_names_def using ne by (rule concat_terminated)
  have "split_on 0 (join_on 0 (map as_bytes (sort names))) = map as_bytes (sort names)"
    by (rule split_join_on) (use assms ne in auto)
  then show ?thesis
    unfolding decode_xattr_names_def e using assms collect_utf8_valid [of "sort names"] by simp
qed (simp add: encode_xattr_names_def decode_xattr_names_def)

theorem xattr_names_roundtrip_witness:
  "decode_xattr_names (encode_xattr_names [''user.b'', ''user.a'']) = Ok [''user.a'', ''user.b'']"
proof -
  have s: "sort [''user.b'', ''user.a''] = [''user.a'', ''user.b'']" by code_simp
  have v: "\<forall>n \<in> set [''user.b'', ''user.a'']. valid_str n \<and> 0 \<notin> set (as_bytes n)" by code_simp
  from xattr_names_roundtrip [OF v] show ?thesis unfolding s .
qed

lemma attr_metadata:
  assumes "attr_for fs path md req s = (Ok a, s')"
    and "md_mode md = kind OR from_perm p" "kind \<in> {0, MODE_DIR, MODE_SYMLINK, MODE_NAMED_PIPE, MODE_SOCKET}"
    and "0 \<le> md_modified md" "md_modified md < 2 ^ 63 * 1000000000"
  shows "metadata_from_attr path a = Ok (md\<lparr>md_name := base_name path\<rparr>)"
proof -
  let ?t = "md_modified md" and ?n = "1000000000 :: int"
  have a: "at_mode a = unix_type_and_perm (md_mode md)" "at_size a = md_size md" "at_uid a = md_uid md"
    "at_gid a = md_gid md" "at_mtime_seconds a = of_int (?t div ?n)"
    "at_mtime_nanoseconds a = ucast (of_int (?t mod ?n) :: u32)"
    using assms(1,4)
    by (auto simp: attr_for_def system_time_parts_def unix_epoch_def nanos_per_sec_def obind_eq_Inr
        split: if_splits sum.splits)
  have b: "0 \<le> ?t div ?n" "?t div ?n < 2 ^ 63" "0 \<le> ?t mod ?n" "?t mod ?n < ?n"
    using assms(4,5) by auto
  have secs: "unat (of_int (?t div ?n) :: u64) = nat (?t div ?n)"
    using b by (simp add: unat_eq_nat_uint uint_word_of_int_eq take_bit_int_eq_self)
  have nan: "unat (ucast (ucast (of_int (?t mod ?n) :: u32) :: u64) :: u32) = nat (?t mod ?n)"
  proof -
    have "ucast (ucast w :: u64) = w" for w :: u32
      by (rule bit_word_eqI) (simp add: bit_simps)
    then show ?thesis using b by (simp add: unat_eq_nat_uint uint_word_of_int_eq take_bit_int_eq_self)
  qed
  have "epoch_plus (at_mtime_seconds a) (ucast (at_mtime_nanoseconds a)) = Ok ?t"
  proof -
    have n: "nat (?t mod ?n) div 1000000000 = 0" "nat (?t mod ?n) mod 1000000000 = nat (?t mod ?n)"
      using b by (simp_all add: nat_less_iff)
    have s: "nat (?t div ?n) \<le> 9223372036854775807" using b by simp
    show ?thesis
      using s b unfolding epoch_plus_def a secs nan nanos_per_sec_def n usize_max_def isize_max_def Let_def
      by simp
  qed
  then show ?thesis
    using mode_unix [OF assms(3), of p] assms(2)
    by (simp add: metadata_from_attr_def a)
qed

text \<open>A file system of constant answers, on which the attribute calls can be run.\<close>

definition null_handle :: "('s, 'h) file_handle" where
  "null_handle =
     \<lparr>fh_read = default_read, fh_write = default_write,
      fh_read_at = default_read_at default_seek default_read,
      fh_write_at = default_write_at default_seek default_write,
      fh_seek = default_seek, fh_stat = not_supported,
      fh_read_dir = default_handle_read_dir not_supported, fh_sync = default_sync, fh_close = default_close\<rparr>"

definition null_fs :: "('s, 'h) filesystem" where
  "null_fs =
     \<lparr>fs_file = null_handle, fs_open = (\<lambda>_ _. not_supported), fs_stat = (\<lambda>_ _. not_supported),
      fs_lstat = (\<lambda>_ _. not_supported), fs_read_dir = (\<lambda>_ _. not_supported),
      fs_create = (\<lambda>_. not_supported), fs_open_file = (\<lambda>_ _ _. not_supported),
      fs_mkdir = (\<lambda>_ _. not_supported), fs_remove = (\<lambda>_. not_supported),
      fs_rename = (\<lambda>_ _. not_supported), fs_link = (\<lambda>_ _. not_supported),
      fs_chmod = (\<lambda>_ _. not_supported), fs_chown = (\<lambda>_ _ _. not_supported),
      fs_chtimes = (\<lambda>_ _. not_supported), fs_truncate = (\<lambda>_ _. not_supported),
      fs_symlink = (\<lambda>_ _. not_supported), fs_readlink = (\<lambda>_. not_supported),
      fs_set_xattr = (\<lambda>_ _ _. not_supported), fs_get_xattr = (\<lambda>_ _. not_supported),
      fs_list_xattrs = (\<lambda>_. not_supported), fs_remove_xattr = (\<lambda>_ _. not_supported),
      fs_sync_fs = ret ()\<rparr>"

text \<open>
  Attributes: what the client makes of the attributes the server sends is the server's
  metadata, under the base name of the path, for a file whose time is from 1970 on and within
  the range of the clock.
\<close>
lemma attr_metadata_roundtrip:
  assumes "attr_for fs path md req s = (Ok a, s')"
    and "md_mode md = kind OR from_perm p" "kind \<in> {0, MODE_DIR, MODE_SYMLINK, MODE_NAMED_PIPE, MODE_SOCKET}"
    and "0 \<le> md_modified md" "md_modified md < 2 ^ 63 * 1000000000"
  shows "metadata_from_attr path a = Ok (md\<lparr>md_name := base_name path\<rparr>)"
  by (rule attr_metadata [OF assms])

theorem attr_metadata_roundtrip_witness:
  "\<exists>a. fst (attr_for (null_fs :: (unit, unit) filesystem) ''d/f''
      \<lparr>md_name = ''f'', md_mode = 0x1A4, md_size = 7, md_modified = 1500000000000000001, md_uid = 1, md_gid = 2\<rparr> 0 ()) = Ok a \<and>
    metadata_from_attr ''d/f'' a =
      Ok \<lparr>md_name = ''f'', md_mode = 0x1A4, md_size = 7, md_modified = 1500000000000000001, md_uid = 1, md_gid = 2\<rparr>"
proof -
  let ?md = "\<lparr>md_name = ''f'', md_mode = 0x1A4, md_size = 7, md_modified = 1500000000000000001, md_uid = 1, md_gid = 2\<rparr>"
  have "\<not> isl (fst (attr_for (null_fs :: (unit, unit) filesystem) ''d/f'' ?md 0 ()))"
    by (simp add: attr_for_def obind_def md_is_dir_def is_dir_def mode_contains_def mode_consts split: prod.splits)
  then obtain a where a: "attr_for (null_fs :: (unit, unit) filesystem) ''d/f'' ?md 0 () = (Ok a, ())"
    by (cases "attr_for (null_fs :: (unit, unit) filesystem) ''d/f'' ?md 0 ()") (metis sum.collapse(2) unit.exhaust fst_conv)
  have "metadata_from_attr ''d/f'' a = Ok (?md\<lparr>md_name := base_name ''d/f''\<rparr>)"
    by (rule attr_metadata_roundtrip [OF a, of 0 "0x1A4"])
       (simp_all add: from_perm_def mode_consts)
  moreover have "base_name ''d/f'' = ''f''" by code_simp
  ultimately show ?thesis using a by simp
qed

end
