(* ===== verification/Ninep_Server.thy ===== *)
theory Ninep_Server
  imports Ninep_Util Xattr_Write
begin

text \<open>
  \<open>NinePServer\<close> of \<open>crates/star9-protocol/src/p9.rs\<close>: the table of fids and one definition per
  request handler, over any file system given as a record of operations. The state is the
  negotiated message size, the fids, the clock that \<open>current_time\<close> reads and the world of the
  exported file system. A handler runs to its end before the next one starts.
\<close>

section \<open>State\<close>

datatype 'h fid_handle =
    FidNone
  | FidFile 'h
  | FidXattrRead bytes
  | FidXattrWrite xattr_write

record 'h fid_state =
  fid_path_of :: string
  fid_handle_of :: "'h fid_handle"
  fid_flags :: u32

definition fid_unopened :: "string \<Rightarrow> 'h fid_state" where
  "fid_unopened path = \<lparr>fid_path_of = path, fid_handle_of = FidNone, fid_flags = 0\<rparr>"

record ('s, 'h) server =
  sv_msize :: u32
  sv_fids :: "u32 \<Rightarrow> 'h fid_state option"
  sv_now :: system_time
  sv_world :: 's

type_synonym ('s, 'h, 'a) sop = "(('s, 'h) server, 'a) op"

definition server_new :: "system_time \<Rightarrow> 's \<Rightarrow> ('s, 'h) server" where
  "server_new now w = \<lparr>sv_msize = DEFAULT_MSIZE, sv_fids = Map.empty, sv_now = now, sv_world = w\<rparr>"

definition on_fs :: "('s, 'a) op \<Rightarrow> ('s, 'h, 'a) sop" where
  "on_fs m = (\<lambda>sv. case m (sv_world sv) of (r, w) \<Rightarrow> (r, sv\<lparr>sv_world := w\<rparr>))"

definition fid_or :: "u32 \<Rightarrow> ('s, 'h, 'h fid_state) sop" where
  "fid_or fid = obind (gets (\<lambda>sv. sv_fids sv fid)) (\<lambda>st. case st of
       Some st \<Rightarrow> ret st
     | None \<Rightarrow> throw (Fail (Kind Invalid)))"

definition put_fid :: "u32 \<Rightarrow> 'h fid_state \<Rightarrow> ('s, 'h, unit) sop" where
  "put_fid fid st = modify (\<lambda>sv. sv\<lparr>sv_fids := (sv_fids sv)(fid \<mapsto> st)\<rparr>)"

definition drop_fid :: "u32 \<Rightarrow> ('s, 'h, unit) sop" where
  "drop_fid fid = modify (\<lambda>sv. sv\<lparr>sv_fids := (sv_fids sv)(fid := None)\<rparr>)"

definition guard :: "bool \<Rightarrow> error_kind \<Rightarrow> ('t, unit) op" where
  "guard b k = (if b then ret () else throw (Fail (Kind k)))"

text \<open>An operation on the file a fid has open: the handle is updated in place, even on an error.\<close>

definition on_fid_file :: "u32 \<Rightarrow> 'h fid_state \<Rightarrow> 'h \<Rightarrow> ('h \<times> 's, 'a) op \<Rightarrow> ('s, 'h, 'a) sop" where
  "on_fid_file fid st f m = (\<lambda>sv. case m (f, sv_world sv) of (r, (f', w)) \<Rightarrow>
     (r, sv\<lparr>sv_world := w, sv_fids := (sv_fids sv)(fid \<mapsto> st\<lparr>fid_handle_of := FidFile f'\<rparr>)\<rparr>))"

definition fid_path :: "u32 \<Rightarrow> ('s, 'h, string) sop" where
  "fid_path fid = obind (fid_or fid) (\<lambda>st. ret (fid_path_of st))"

section \<open>Handlers\<close>

definition srv_version :: "u32 \<Rightarrow> string \<Rightarrow> ('s, 'h, nine_p_response) sop" where
  "srv_version msize version =
     (let negotiated = min msize DEFAULT_MSIZE in
      obind (modify (\<lambda>sv. sv\<lparr>sv_msize := negotiated\<rparr>)) (\<lambda>_.
      ret (RVersion negotiated
             (if starts_with version ''9P2000'' then VERSION else ''unknown''))))"

definition srv_attach :: "('s, 'h) filesystem \<Rightarrow> u32 \<Rightarrow> ('s, 'h, nine_p_response) sop" where
  "srv_attach fs fid =
     obind (on_fs (qid_for fs ''.'')) (\<lambda>q.
     obind (put_fid fid (fid_unopened ''.'')) (\<lambda>_.
     ret (RAttach q)))"

fun walk_names :: "('s, 'h) filesystem \<Rightarrow> string \<Rightarrow> qid list \<Rightarrow> string list \<Rightarrow> ('s, 'h, string \<times> qid list) sop" where
  "walk_names fs path qids [] = ret (path, qids)"
| "walk_names fs path qids (name # names) =
     (if slash \<in> set name \<or> name = '''' then throw (Fail (Kind Invalid))
      else
        (let next_path = walk_join path name in
         obind (attempt (on_fs (qid_for fs next_path))) (\<lambda>r.
         case r of
           Inr q \<Rightarrow> walk_names fs next_path (qids @ [q]) names
         | Inl e \<Rightarrow> if qids = [] then throw (Fail e) else ret (path, qids))))"

definition srv_walk :: "('s, 'h) filesystem \<Rightarrow> u32 \<Rightarrow> u32 \<Rightarrow> string list \<Rightarrow> ('s, 'h, nine_p_response) sop" where
  "srv_walk fs fid newfid names =
     obind (gets (\<lambda>sv. sv_fids sv newfid)) (\<lambda>nst.
     obind (guard (\<not> (newfid \<noteq> fid \<and> nst \<noteq> None)) Invalid) (\<lambda>_.
     obind (fid_path fid) (\<lambda>base.
     obind (walk_names fs base [] names) (\<lambda>(path, qids).
     obind (put_fid newfid (fid_unopened path)) (\<lambda>_.
     ret (RWalk qids))))))"

definition srv_lopen :: "('s, 'h) filesystem \<Rightarrow> u32 \<Rightarrow> u32 \<Rightarrow> ('s, 'h, nine_p_response) sop" where
  "srv_lopen fs fid flags =
     obind (fid_path fid) (\<lambda>path.
     obind (on_fs (fs_open_file fs path (open_flags_from_9p flags) (from_perm 0x1B6))) (\<lambda>file.
     obind (on_fs (qid_for fs path)) (\<lambda>q.
     obind (fid_or fid) (\<lambda>st.
     obind (put_fid fid (st\<lparr>fid_handle_of := FidFile file, fid_flags := flags\<rparr>)) (\<lambda>_.
     ret (RLopen q 0))))))"

definition srv_lcreate :: "('s, 'h) filesystem \<Rightarrow> u32 \<Rightarrow> string \<Rightarrow> u32 \<Rightarrow> u32 \<Rightarrow> ('s, 'h, nine_p_response) sop" where
  "srv_lcreate fs fid name flags mode =
     obind (fid_path fid) (\<lambda>parent.
     obind (lift_res (checked_join parent name)) (\<lambda>path.
     obind (on_fs (fs_open_file fs path (open_flags_from_9p flags OR O_CREATE)
              (from_perm (mode AND 0x1FF)))) (\<lambda>file.
     obind (on_fs (qid_for fs path)) (\<lambda>q.
     obind (fid_or fid) (\<lambda>st.
     obind (put_fid fid (st\<lparr>fid_path_of := path, fid_handle_of := FidFile file, fid_flags := flags\<rparr>)) (\<lambda>_.
     ret (RLcreate q 0)))))))"

definition srv_getattr :: "('s, 'h) filesystem \<Rightarrow> u32 \<Rightarrow> u64 \<Rightarrow> ('s, 'h, nine_p_response) sop" where
  "srv_getattr fs fid request_mask =
     obind (fid_or fid) (\<lambda>st.
     obind (case fid_handle_of st of
              FidFile f \<Rightarrow> on_fid_file fid st f (fh_stat (fs_file fs))
            | FidNone \<Rightarrow> on_fs (fs_lstat fs (no_follow context_new) (fid_path_of st))
            | FidXattrRead data \<Rightarrow> ret (metadata_file ''xattr'' 0x124 (of_nat (length data)))
            | FidXattrWrite w \<Rightarrow> ret (metadata_file ''xattr'' 0x80 (xw_expected w))) (\<lambda>md.
     obind (on_fs (attr_for fs (fid_path_of st) md request_mask)) (\<lambda>a.
     ret (RGetAttr a))))"

definition srv_setattr :: "('s, 'h) filesystem \<Rightarrow> u32 \<Rightarrow> set_attr \<Rightarrow> ('s, 'h, nine_p_response) sop" where
  "srv_setattr fs fid a =
     obind (fid_path fid) (\<lambda>path.
     obind (if sa_valid a AND SETATTR_SIZE \<noteq> 0
            then on_fs (fs_truncate fs path (sa_size a)) else ret ()) (\<lambda>_.
     obind (if sa_valid a AND SETATTR_MODE \<noteq> 0
            then on_fs (fs_chmod fs path (from_perm (sa_mode a AND 0x1FF))) else ret ()) (\<lambda>_.
     obind (if sa_valid a AND (SETATTR_UID OR SETATTR_GID) \<noteq> 0
            then obind (on_fs (fs_lstat fs (no_follow context_new) path)) (\<lambda>md.
                 on_fs (fs_chown fs path
                   (if sa_valid a AND SETATTR_UID \<noteq> 0 then sa_uid a else md_uid md)
                   (if sa_valid a AND SETATTR_GID \<noteq> 0 then sa_gid a else md_gid md)))
            else ret ()) (\<lambda>_.
     obind (if sa_valid a AND SETATTR_MTIME \<noteq> 0
            then obind (if sa_valid a AND SETATTR_MTIME_SET \<noteq> 0
                        then lift_res (epoch_plus (sa_mtime_seconds a) (ucast (sa_mtime_nanoseconds a)))
                        else gets sv_now) (\<lambda>t.
                 on_fs (fs_chtimes fs path t))
            else ret ()) (\<lambda>_.
     ret RSetAttr)))))"

definition srv_xattrwalk :: "('s, 'h) filesystem \<Rightarrow> u32 \<Rightarrow> u32 \<Rightarrow> string \<Rightarrow> ('s, 'h, nine_p_response) sop" where
  "srv_xattrwalk fs fid newfid name =
     obind (gets (\<lambda>sv. sv_fids sv newfid)) (\<lambda>nst.
     obind (guard (\<not> (newfid \<noteq> fid \<and> nst \<noteq> None)) Invalid) (\<lambda>_.
     obind (fid_path fid) (\<lambda>path.
     obind (if name = ''''
            then obind (on_fs (fs_list_xattrs fs path)) (\<lambda>names. ret (encode_xattr_names names))
            else on_fs (fs_get_xattr fs path name)) (\<lambda>data.
     obind (put_fid newfid \<lparr>fid_path_of = path, fid_handle_of = FidXattrRead data, fid_flags = O_RDONLY\<rparr>) (\<lambda>_.
     ret (RXattrWalk (of_nat (length data))))))))"

definition srv_xattrcreate :: "u32 \<Rightarrow> string \<Rightarrow> u64 \<Rightarrow> u32 \<Rightarrow> ('s, 'h, nine_p_response) sop" where
  "srv_xattrcreate fid name sz flags =
     obind (guard (name \<noteq> '''') Invalid) (\<lambda>_.
     obind (fid_or fid) (\<lambda>st.
     obind (lift_res (xattr_write_new name flags sz)) (\<lambda>w.
     obind (put_fid fid (st\<lparr>fid_handle_of := FidXattrWrite w, fid_flags := O_WRONLY\<rparr>)) (\<lambda>_.
     ret RXattrCreate))))"

definition xattr_read :: "bytes \<Rightarrow> u64 \<Rightarrow> u32 \<Rightarrow> bytes" where
  "xattr_read data offset count =
     (if unat offset \<ge> length data then []
      else take (min (unat count) (length data - unat offset)) (drop (unat offset) data))"

definition srv_read :: "('s, 'h) filesystem \<Rightarrow> u32 \<Rightarrow> u64 \<Rightarrow> u32 \<Rightarrow> ('s, 'h, nine_p_response) sop" where
  "srv_read fs fid offset count =
     obind (fid_or fid) (\<lambda>st.
     obind (case fid_handle_of st of
              FidFile f \<Rightarrow> on_fid_file fid st f (fh_read_at (fs_file fs) (unat count) offset)
            | FidXattrRead data \<Rightarrow> ret (xattr_read data offset count)
            | FidXattrWrite _ \<Rightarrow> throw (Fail (Kind PermissionDenied))
            | FidNone \<Rightarrow> throw (Fail (Kind Invalid))) (\<lambda>data.
     ret (RRead data)))"

definition srv_write :: "('s, 'h) filesystem \<Rightarrow> u32 \<Rightarrow> u64 \<Rightarrow> bytes \<Rightarrow> ('s, 'h, nine_p_response) sop" where
  "srv_write fs fid offset data =
     obind (fid_or fid) (\<lambda>st.
     obind (case fid_handle_of st of
              FidFile f \<Rightarrow> on_fid_file fid st f (fh_write_at (fs_file fs) data offset)
            | FidXattrWrite w \<Rightarrow>
                (case xattr_write_at offset data w of (r, w') \<Rightarrow>
                   obind (put_fid fid (st\<lparr>fid_handle_of := FidXattrWrite w'\<rparr>)) (\<lambda>_. lift_res r))
            | FidXattrRead _ \<Rightarrow> throw (Fail (Kind PermissionDenied))
            | FidNone \<Rightarrow> throw (Fail (Kind Invalid))) (\<lambda>count.
     obind (lift_res (try_u32 count)) (\<lambda>c.
     ret (RWrite c))))"

definition commit_xattr_if_ready :: "('s, 'h) filesystem \<Rightarrow> 'h fid_state \<Rightarrow> ('s, 'h, 'h fid_state) sop" where
  "commit_xattr_if_ready fs st =
     (case fid_handle_of st of
        FidXattrWrite w \<Rightarrow>
          if xw_committed w then ret st
          else if \<not> xattr_is_complete w then throw (Fail (Kind Invalid))
          else obind (on_fs (fs_set_xattr fs (fid_path_of st) (xw_name w) (xw_data w))) (\<lambda>_.
               ret (st\<lparr>fid_handle_of := FidXattrWrite (w\<lparr>xw_committed := True\<rparr>)\<rparr>))
      | _ \<Rightarrow> ret st)"

definition srv_clunk :: "('s, 'h) filesystem \<Rightarrow> u32 \<Rightarrow> ('s, 'h, unit) sop" where
  "srv_clunk fs fid =
     obind (fid_or fid) (\<lambda>st.
     obind (drop_fid fid) (\<lambda>_.
     obind (commit_xattr_if_ready fs st) (\<lambda>st.
     case fid_handle_of st of
       FidFile f \<Rightarrow> on_fs (scoped f (fh_close (fs_file fs)))
     | _ \<Rightarrow> ret ())))"

definition srv_remove :: "('s, 'h) filesystem \<Rightarrow> u32 \<Rightarrow> ('s, 'h, nine_p_response) sop" where
  "srv_remove fs fid =
     obind (fid_or fid) (\<lambda>st.
     obind (drop_fid fid) (\<lambda>_.
     obind (guard (fid_path_of st \<noteq> ''.'') Invalid) (\<lambda>_.
     obind (case fid_handle_of st of
              FidFile f \<Rightarrow> on_fs (scoped f (discard (fh_close (fs_file fs))))
            | _ \<Rightarrow> ret ()) (\<lambda>_.
     obind (on_fs (fs_remove fs (fid_path_of st))) (\<lambda>_.
     ret RRemove)))))"

definition srv_mkdir :: "('s, 'h) filesystem \<Rightarrow> u32 \<Rightarrow> string \<Rightarrow> u32 \<Rightarrow> ('s, 'h, nine_p_response) sop" where
  "srv_mkdir fs fid name mode =
     obind (fid_path fid) (\<lambda>parent.
     obind (lift_res (checked_join parent name)) (\<lambda>path.
     obind (on_fs (fs_mkdir fs path (MODE_DIR OR from_perm (mode AND 0x1FF)))) (\<lambda>_.
     obind (on_fs (qid_for fs path)) (\<lambda>q.
     ret (RMkdir q)))))"

definition srv_link :: "('s, 'h) filesystem \<Rightarrow> u32 \<Rightarrow> u32 \<Rightarrow> string \<Rightarrow> ('s, 'h, nine_p_response) sop" where
  "srv_link fs fid newdirfid name =
     obind (fid_path fid) (\<lambda>old.
     obind (fid_path newdirfid) (\<lambda>dir.
     obind (lift_res (checked_join dir name)) (\<lambda>new.
     obind (on_fs (fs_link fs old new)) (\<lambda>_.
     ret RLink))))"

text \<open>The loop of \<open>readdir\<close>: \<open>index\<close> counts the entries seen, \<open>data\<close> is what is packed so far.\<close>

fun readdir_loop ::
    "('s, 'h) filesystem \<Rightarrow> string \<Rightarrow> u64 \<Rightarrow> u32 \<Rightarrow> nat \<Rightarrow> bytes \<Rightarrow> dir_entry list \<Rightarrow> ('s, bytes) op" where
  "readdir_loop fs path offset count index data [] = ret data"
| "readdir_loop fs path offset count index data (entry # entries) =
     (let cursor = of_nat index + 1 in
      if cursor \<le> offset then readdir_loop fs path offset count (Suc index) data entries
      else
        obind (qid_for fs (join_path path (de_name entry))) (\<lambda>q.
        obind (lift_res (encode_dirents
                 [\<lparr>dt_qid = q, dt_offset = cursor, dt_typ = dirent_type (md_mode (de_meta entry)),
                   dt_name = de_name entry\<rparr>])) (\<lambda>encoded.
        if length data + length encoded > unat count then ret data
        else readdir_loop fs path offset count (Suc index) (data @ encoded) entries)))"

definition srv_readdir :: "('s, 'h) filesystem \<Rightarrow> u32 \<Rightarrow> u64 \<Rightarrow> u32 \<Rightarrow> ('s, 'h, nine_p_response) sop" where
  "srv_readdir fs fid offset count =
     obind (fid_path fid) (\<lambda>path.
     obind (on_fs (fs_read_dir fs context_new path)) (\<lambda>entries.
     obind (on_fs (readdir_loop fs path offset count 0 [] entries)) (\<lambda>data.
     ret (RReaddir data))))"

definition srv_rename_at ::
    "('s, 'h) filesystem \<Rightarrow> u32 \<Rightarrow> string \<Rightarrow> u32 \<Rightarrow> string \<Rightarrow> ('s, 'h, nine_p_response) sop" where
  "srv_rename_at fs olddirfid oldname newdirfid newname =
     obind (fid_path olddirfid) (\<lambda>olddir.
     obind (lift_res (checked_join olddir oldname)) (\<lambda>old.
     obind (fid_path newdirfid) (\<lambda>newdir.
     obind (lift_res (checked_join newdir newname)) (\<lambda>new.
     obind (on_fs (fs_rename fs old new)) (\<lambda>_.
     ret RRenameAt)))))"

definition srv_unlink_at :: "('s, 'h) filesystem \<Rightarrow> u32 \<Rightarrow> string \<Rightarrow> u32 \<Rightarrow> ('s, 'h, nine_p_response) sop" where
  "srv_unlink_at fs dirfid name flags =
     obind (fid_path dirfid) (\<lambda>dir.
     obind (lift_res (checked_join dir name)) (\<lambda>path.
     obind (on_fs (fs_lstat fs (no_follow context_new) path)) (\<lambda>md.
     obind (guard (\<not> (md_is_dir md \<and> flags AND AT_REMOVEDIR = 0)) IsDir) (\<lambda>_.
     obind (guard (\<not> (\<not> md_is_dir md \<and> flags AND AT_REMOVEDIR \<noteq> 0)) NotDir) (\<lambda>_.
     obind (if md_is_dir md
            then obind (on_fs (fs_read_dir fs context_new path)) (\<lambda>es. guard (es = []) NotEmpty)
            else ret ()) (\<lambda>_.
     obind (on_fs (fs_remove fs path)) (\<lambda>_.
     ret RUnlinkAt)))))))"

definition srv_symlink :: "('s, 'h) filesystem \<Rightarrow> u32 \<Rightarrow> string \<Rightarrow> string \<Rightarrow> ('s, 'h, nine_p_response) sop" where
  "srv_symlink fs fid name target =
     obind (fid_path fid) (\<lambda>dir.
     obind (lift_res (checked_join dir name)) (\<lambda>path.
     obind (on_fs (fs_symlink fs target path)) (\<lambda>_.
     obind (on_fs (qid_for fs path)) (\<lambda>q.
     ret (RSymlink q)))))"

definition srv_readlink :: "('s, 'h) filesystem \<Rightarrow> u32 \<Rightarrow> ('s, 'h, nine_p_response) sop" where
  "srv_readlink fs fid =
     obind (fid_path fid) (\<lambda>path.
     obind (on_fs (fs_readlink fs path)) (\<lambda>target.
     ret (RReadlink target)))"

definition srv_fsync :: "('s, 'h) filesystem \<Rightarrow> u32 \<Rightarrow> ('s, 'h, nine_p_response) sop" where
  "srv_fsync fs fid =
     obind (fid_or fid) (\<lambda>st.
     obind (case fid_handle_of st of
              FidFile f \<Rightarrow>
                obind (attempt (on_fid_file fid st f (fh_sync (fs_file fs)))) (\<lambda>r. case r of
                  Inr _ \<Rightarrow> ret ()
                | Inl e \<Rightarrow> if e = Kind NotSupported then ret () else throw (Fail e))
            | FidXattrWrite _ \<Rightarrow>
                obind (commit_xattr_if_ready fs st) (\<lambda>st. put_fid fid st)
            | _ \<Rightarrow> ret ()) (\<lambda>_.
     ret RFsync))"

definition srv_flush :: "u16 \<Rightarrow> ('s, 'h, nine_p_response) sop" where
  "srv_flush oldtag = ret RFlush"

section \<open>Dispatch\<close>

fun handle :: "('s, 'h) filesystem \<Rightarrow> nine_p_request \<Rightarrow> ('s, 'h, nine_p_response) sop" where
  "handle fs (TVersion msize version) = srv_version msize version"
| "handle fs (TAttach fid afid uname aname n_uname) = srv_attach fs fid"
| "handle fs (TWalk fid newfid names) = srv_walk fs fid newfid names"
| "handle fs (TLopen fid flags) = srv_lopen fs fid flags"
| "handle fs (TLcreate fid name flags mode gid) = srv_lcreate fs fid name flags mode"
| "handle fs (TGetAttr fid request_mask) = srv_getattr fs fid request_mask"
| "handle fs (TSetAttr fid a) = srv_setattr fs fid a"
| "handle fs (TXattrWalk fid newfid name) = srv_xattrwalk fs fid newfid name"
| "handle fs (TXattrCreate fid name sz flags) = srv_xattrcreate fid name sz flags"
| "handle fs (TRead fid offset count) = srv_read fs fid offset count"
| "handle fs (TWrite fid offset data) = srv_write fs fid offset data"
| "handle fs (TClunk fid) = obind (srv_clunk fs fid) (\<lambda>_. ret RClunk)"
| "handle fs (TRemove fid) = srv_remove fs fid"
| "handle fs (TMkdir fid name mode gid) = srv_mkdir fs fid name mode"
| "handle fs (TLink fid newdirfid name) = srv_link fs fid newdirfid name"
| "handle fs (TReaddir fid offset count) = srv_readdir fs fid offset count"
| "handle fs (TRenameAt olddirfid oldname newdirfid newname) = srv_rename_at fs olddirfid oldname newdirfid newname"
| "handle fs (TUnlinkAt dirfid name flags) = srv_unlink_at fs dirfid name flags"
| "handle fs (TSymlink fid name target gid) = srv_symlink fs fid name target"
| "handle fs (TReadlink fid) = srv_readlink fs fid"
| "handle fs (TFsync fid) = srv_fsync fs fid"
| "handle fs (TFlush oldtag) = srv_flush oldtag"

definition handle_frame :: "('s, 'h) filesystem \<Rightarrow> bytes \<Rightarrow> ('s, 'h, bytes) sop" where
  "handle_frame fs frame =
     obind (lift_res (decode_request frame)) (\<lambda>(tag, request).
     obind (attempt (handle fs request)) (\<lambda>r.
     lift_res (encode_response tag (case r of
         Inr response \<Rightarrow> response
       | Inl e \<Rightarrow> RLerror (errno_for_error e)))))"

end
