(* ===== verification/Server_Laws.thy ===== *)
theory Server_Laws
  imports Ninep_Server Message_Laws
begin

text \<open>
  What holds of the 9P server over any file system: the invariant of the fid table, that a request
  touches only the fids it names, what walking binds, and that answers carry the tag asked with.
\<close>

section \<open>The invariant of the fid table\<close>

text \<open>
  Every fid stands for a canonical path, and a fid collecting an extended attribute holds a
  consistent buffer.
\<close>

definition fid_ok :: "'h fid_state \<Rightarrow> bool" where
  "fid_ok st \<longleftrightarrow> valid_path (fid_path_of st) \<and>
     (case fid_handle_of st of FidXattrWrite w \<Rightarrow> xattr_inv w | _ \<Rightarrow> True)"

definition server_inv :: "('s \<Rightarrow> bool) \<Rightarrow> ('s, 'h) server \<Rightarrow> bool" where
  "server_inv I sv \<longleftrightarrow> I (sv_world sv) \<and> (\<forall>fid st. sv_fids sv fid = Some st \<longrightarrow> fid_ok st)"

lemma keeps_on_fs: "keeps I m \<Longrightarrow> keeps (server_inv I) (on_fs m)"
  by (auto simp: keeps_def on_fs_def server_inv_def split: prod.splits)

lemma gives_fid_or: "gives (server_inv I) (fid_or fid) fid_ok"
  by (auto simp: gives_def fid_or_def obind_def server_inv_def split: option.splits)

lemma gives_fid_path: "gives (server_inv I) (fid_path fid) valid_path"
  unfolding fid_path_def
  by (rule gives_bind_gives [OF gives_fid_or]) (simp add: gives_ret fid_ok_def)

lemma keeps_put_fid: "fid_ok st \<Longrightarrow> keeps (server_inv I) (put_fid fid st)"
  by (auto simp: keeps_def put_fid_def server_inv_def)

lemma keeps_drop_fid: "keeps (server_inv I) (drop_fid fid)"
  by (auto simp: keeps_def drop_fid_def server_inv_def)

lemma keeps_guard: "keeps P (guard b k)"
  unfolding guard_def by (intro keeps_intros)

lemma keeps_on_fid_file:
  assumes "hkeeps I m" "valid_path (fid_path_of st)"
  shows "keeps (server_inv I) (on_fid_file fid st f m)"
  using assms unfolding keeps_def on_fid_file_def server_inv_def
  by (auto simp: fid_ok_def split: prod.splits) (metis snd_conv)+

lemma fid_ok_simps [simp]:
  "fid_ok (fid_unopened p) = valid_path p"
  "fid_ok \<lparr>fid_path_of = p, fid_handle_of = FidXattrRead d, fid_flags = fl\<rparr> = valid_path p"
  "fid_ok (st\<lparr>fid_handle_of := FidFile f, fid_flags := fl\<rparr>) = valid_path (fid_path_of st)"
  "fid_ok (st\<lparr>fid_path_of := p, fid_handle_of := FidFile f, fid_flags := fl\<rparr>) = valid_path p"
  "fid_ok (st\<lparr>fid_handle_of := FidXattrWrite w\<rparr>) \<longleftrightarrow> valid_path (fid_path_of st) \<and> xattr_inv w"
  "fid_ok (st\<lparr>fid_handle_of := FidXattrWrite w, fid_flags := fl\<rparr>) \<longleftrightarrow> valid_path (fid_path_of st) \<and> xattr_inv w"
  by (auto simp: fid_ok_def fid_unopened_def)

lemma fid_ok_path: "fid_ok st \<Longrightarrow> valid_path (fid_path_of st)"
  by (simp add: fid_ok_def)

lemma xattr_write_at_inv: "xattr_inv w \<Longrightarrow> xattr_write_at off d w = (r, w') \<Longrightarrow> xattr_inv w'"
  using xattr_write_at_step [of w off d] by simp

lemma xattr_committed_inv: "xattr_inv (w\<lparr>xw_committed := b\<rparr>) = xattr_inv w"
  by (simp add: xattr_inv_def)

lemma keeps_case_fid_handle:
  "(h = FidNone \<Longrightarrow> keeps P a) \<Longrightarrow> (\<And>f. h = FidFile f \<Longrightarrow> keeps P (b f)) \<Longrightarrow>
   (\<And>d. h = FidXattrRead d \<Longrightarrow> keeps P (c d)) \<Longrightarrow> (\<And>w. h = FidXattrWrite w \<Longrightarrow> keeps P (e w)) \<Longrightarrow>
     keeps P (case h of FidNone \<Rightarrow> a | FidFile f \<Rightarrow> b f | FidXattrRead d \<Rightarrow> c d | FidXattrWrite w \<Rightarrow> e w)"
  by (simp split: fid_handle.split)

lemmas srv_binds = keeps_bind_gives [OF gives_fid_or] keeps_bind_gives [OF gives_fid_path]
  keeps_bind_lift

lemmas srv_intros = keeps_on_fs keeps_guard keeps_drop_fid

context fs_contract
begin

lemma qid_for_keeps: "keeps inv (qid_for fs p)"
  unfolding qid_for_def by (intro keeps_intros methods)

lemma attr_for_keeps: "keeps inv (attr_for fs p md m)"
  unfolding attr_for_def by (auto intro!: keeps_intros methods split: prod.split)

lemma gives_walk_names:
  "valid_path path \<Longrightarrow> gives (server_inv inv) (walk_names fs path qids names) (\<lambda>(p, _). valid_path p)"
proof (induction names arbitrary: path qids)
  case (Cons n ns)
  have att: "gives (server_inv inv) (attempt (on_fs (qid_for fs (walk_join path n)))) (\<lambda>_. True)"
    by (intro gives_True keeps_attempt keeps_on_fs qid_for_keeps)
  have "gives (server_inv inv) (case r of
           Inr q \<Rightarrow> walk_names fs (walk_join path n) (qids @ [q]) ns
         | Inl e \<Rightarrow> if qids = [] then throw (Fail e) else ret (path, qids)) (\<lambda>(p, _). valid_path p)" for r
    using Cons by (cases r) (auto intro: gives_throw gives_ret simp: walk_join_valid)
  then show ?case
    by (auto simp: Let_def intro: gives_throw gives_bind_gives [OF att])
qed (simp add: gives_ret)

lemma commit_keeps:
  "fid_ok st \<Longrightarrow> gives (server_inv inv) (commit_xattr_if_ready fs st) fid_ok"
  unfolding commit_xattr_if_ready_def
  by (cases "fid_handle_of st")
     (auto intro!: gives_ret gives_throw gives_bind_gives [OF gives_True] keeps_on_fs methods
       simp: fid_ok_def xattr_committed_inv)

lemma readdir_loop_keeps: "keeps inv (readdir_loop fs path off cnt i data es)"
  by (induction es arbitrary: i data) (auto simp: Let_def intro!: keeps_intros qid_for_keeps)

lemma rename_joined_keeps:
  "valid_path d \<Longrightarrow> checked_join d n = Ok new \<Longrightarrow> keeps inv (fs_rename fs old new)"
proof -
  assume "valid_path d" "checked_join d n = Ok new"
  then have "new \<noteq> ''.''" "valid_path new" using checked_join_Ok by blast+
  then have "clean_path new \<noteq> ''.''" by (simp add: clean_valid)
  then show ?thesis by (rule f_rename)
qed

lemma srv_fid_keeps:
  "keeps (server_inv inv) (srv_version msize v)"
  "keeps (server_inv inv) (srv_attach fs fid)"
  "keeps (server_inv inv) (srv_walk fs fid newfid names)"
  "keeps (server_inv inv) (srv_lopen fs fid fl)"
  "keeps (server_inv inv) (srv_xattrwalk fs fid newfid n)"
  "keeps (server_inv inv) (srv_xattrcreate fid n sz fl)"
proof -
  show "keeps (server_inv inv) (srv_version msize v)"
    by (auto simp: srv_version_def Let_def server_inv_def intro!: keeps_intros)
  show "keeps (server_inv inv) (srv_attach fs fid)"
    unfolding srv_attach_def by (auto intro!: keeps_intros keeps_on_fs qid_for_keeps keeps_put_fid)
  show "keeps (server_inv inv) (srv_walk fs fid newfid names)"
    unfolding srv_walk_def
    by (auto intro!: keeps_obind keeps_gets keeps_ret keeps_guard srv_binds(2)
        keeps_bind_gives [OF gives_walk_names] keeps_put_fid)
  show "keeps (server_inv inv) (srv_lopen fs fid fl)"
    unfolding srv_lopen_def
    by (intro srv_binds(1,2) keeps_obind keeps_ret keeps_on_fs methods qid_for_keeps keeps_put_fid)
       (simp add: fid_ok_path)
  show "keeps (server_inv inv) (srv_xattrwalk fs fid newfid n)"
    unfolding srv_xattrwalk_def
    by (intro srv_binds(2) keeps_obind keeps_gets keeps_guard keeps_if keeps_ret keeps_on_fs methods keeps_put_fid)
       simp
  show "keeps (server_inv inv) (srv_xattrcreate fid n sz fl)"
    unfolding srv_xattrcreate_def
    by (intro srv_binds(1,3) keeps_obind keeps_guard keeps_ret keeps_put_fid)
       (auto simp: fid_ok_path xattr_new_inv)
qed

lemma srv_file_keeps:
  "keeps (server_inv inv) (srv_lcreate fs fid n fl md)"
  "keeps (server_inv inv) (srv_getattr fs fid m)"
  "keeps (server_inv inv) (srv_read fs fid off cnt)"
  "keeps (server_inv inv) (srv_write fs fid off d)"
  "keeps (server_inv inv) (srv_clunk fs fid)"
  "keeps (server_inv inv) (srv_remove fs fid)"
  "keeps (server_inv inv) (srv_fsync fs fid)"
proof -
  show "keeps (server_inv inv) (srv_lcreate fs fid n fl md)"
    unfolding srv_lcreate_def
    by (intro srv_binds keeps_obind keeps_ret keeps_on_fs methods qid_for_keeps keeps_put_fid)
       (auto dest: checked_join_Ok)
  show "keeps (server_inv inv) (srv_getattr fs fid m)"
    unfolding srv_getattr_def
    by (intro srv_binds(1) keeps_obind keeps_ret keeps_on_fs attr_for_keeps)
       (auto intro!: keeps_on_fid_file keeps_on_fs keeps_ret methods simp: fid_ok_path split: fid_handle.split)
  show "keeps (server_inv inv) (srv_read fs fid off cnt)"
    unfolding srv_read_def
    by (intro srv_binds(1) keeps_obind keeps_ret)
       (auto intro!: keeps_on_fid_file keeps_ret keeps_throw methods simp: fid_ok_path split: fid_handle.split)
  show "keeps (server_inv inv) (srv_write fs fid off d)"
    unfolding srv_write_def
  proof (intro srv_binds(1) keeps_obind keeps_ret keeps_lift_res keeps_case_fid_handle keeps_on_fid_file
      keeps_throw keeps_case_prod keeps_put_fid methods)
    fix st :: "'h fid_state" and w r w'
    assume "fid_ok st" "fid_handle_of st = FidXattrWrite w" "xattr_write_at off d w = (r, w')"
    then show "fid_ok (st\<lparr>fid_handle_of := FidXattrWrite w'\<rparr>)"
      using xattr_write_at_inv [of w off d r w'] by (simp add: fid_ok_def)
  qed (simp add: fid_ok_path)
  show "keeps (server_inv inv) (srv_clunk fs fid)"
    unfolding srv_clunk_def
    by (intro srv_binds(1) keeps_obind keeps_drop_fid keeps_bind_gives [OF commit_keeps])
       (auto intro!: keeps_on_fs keeps_scoped keeps_ret methods split: fid_handle.split)
  show "keeps (server_inv inv) (srv_remove fs fid)"
    unfolding srv_remove_def
    by (intro srv_binds(1) keeps_obind keeps_drop_fid keeps_guard keeps_ret keeps_on_fs methods)
       (auto intro!: keeps_on_fs keeps_scoped keeps_ret keeps_discard methods split: fid_handle.split)
  show "keeps (server_inv inv) (srv_fsync fs fid)"
    unfolding srv_fsync_def
    by (intro srv_binds(1) keeps_obind keeps_ret)
       (auto intro!: keeps_intros keeps_on_fid_file keeps_bind_gives [OF commit_keeps] keeps_put_fid methods
          simp: fid_ok_path split: fid_handle.split)
qed

lemma srv_path_keeps:
  "keeps (server_inv inv) (srv_setattr fs fid a)"
  "keeps (server_inv inv) (srv_mkdir fs fid n md)"
  "keeps (server_inv inv) (srv_link fs fid nd n)"
  "keeps (server_inv inv) (srv_readdir fs fid off cnt)"
  "keeps (server_inv inv) (srv_rename_at fs od on nd nn)"
  "keeps (server_inv inv) (srv_unlink_at fs fid n fl)"
  "keeps (server_inv inv) (srv_symlink fs fid n tg)"
  "keeps (server_inv inv) (srv_readlink fs fid)"
  "keeps (server_inv inv) (srv_flush t)"
  unfolding srv_setattr_def srv_mkdir_def srv_link_def srv_readdir_def srv_rename_at_def
    srv_unlink_at_def srv_symlink_def srv_readlink_def srv_flush_def
  by (intro srv_binds(2,3) keeps_obind keeps_ret keeps_if keeps_guard keeps_gets keeps_on_fs methods
      qid_for_keeps readdir_loop_keeps rename_joined_keeps keeps_lift_res | assumption)+

lemma handle_keeps: "keeps (server_inv inv) (handle fs req)"
  by (cases req) (auto intro!: srv_fid_keeps srv_file_keeps srv_path_keeps keeps_obind keeps_ret)

lemma handle_frame_keeps: "keeps (server_inv inv) (handle_frame fs frame)"
  unfolding handle_frame_def by (auto intro!: keeps_intros handle_keeps)

text \<open>Any sequence of frames, well-formed or not, starting from a server without fids.\<close>

lemma frames_keep:
  "inv w \<Longrightarrow> server_inv inv (fold (\<lambda>frame sv. snd (handle_frame fs frame sv)) frames (server_new now w))"
proof -
  assume "inv w"
  then have "server_inv inv (server_new now w)" by (simp add: server_inv_def server_new_def)
  moreover have "server_inv inv sv \<Longrightarrow>
      server_inv inv (fold (\<lambda>frame sv. snd (handle_frame fs frame sv)) frames sv)" for sv
    by (induction frames arbitrary: sv) (auto intro: keeps_apply [OF handle_frame_keeps])
  ultimately show ?thesis by blast
qed

end

section \<open>A request changes only the fids it names\<close>

fun bound_fids :: "nine_p_request \<Rightarrow> u32 set" where
  "bound_fids (TAttach fid _ _ _ _) = {fid}"
| "bound_fids (TWalk fid newfid _) = {newfid}"
| "bound_fids (TLopen fid _) = {fid}"
| "bound_fids (TLcreate fid _ _ _ _) = {fid}"
| "bound_fids (TGetAttr fid _) = {fid}"
| "bound_fids (TXattrWalk fid newfid _) = {newfid}"
| "bound_fids (TXattrCreate fid _ _ _) = {fid}"
| "bound_fids (TRead fid _ _) = {fid}"
| "bound_fids (TWrite fid _ _) = {fid}"
| "bound_fids (TClunk fid) = {fid}"
| "bound_fids (TRemove fid) = {fid}"
| "bound_fids (TFsync fid) = {fid}"
| "bound_fids _ = {}"

abbreviation fid_is :: "u32 \<Rightarrow> 'h fid_state option \<Rightarrow> ('s, 'h) server \<Rightarrow> bool" where
  "fid_is k x \<equiv> \<lambda>sv. sv_fids sv k = x"

lemma frame_on_fs: "keeps (fid_is k x) (on_fs m)"
  by (auto simp: keeps_def on_fs_def split: prod.splits)

lemma frame_fid_or: "keeps (fid_is k x) (fid_or fid)"
  unfolding fid_or_def by (intro keeps_intros)

lemma frame_fid_path: "keeps (fid_is k x) (fid_path fid)"
  unfolding fid_path_def by (intro keeps_intros frame_fid_or)

lemma frame_put_fid: "fid \<noteq> k \<Longrightarrow> keeps (fid_is k x) (put_fid fid st)"
  and frame_drop_fid: "fid \<noteq> k \<Longrightarrow> keeps (fid_is k x) (drop_fid fid)"
  and frame_on_fid_file: "fid \<noteq> k \<Longrightarrow> keeps (fid_is k x) (on_fid_file fid st f m)"
  by (auto simp: keeps_def put_fid_def drop_fid_def on_fid_file_def split: prod.splits)

lemma frame_walk_names: "keeps (fid_is k x) (walk_names fs path qids names)"
  by (induction names arbitrary: path qids) (auto simp: Let_def intro!: keeps_intros frame_on_fs)

lemma frame_commit: "keeps (fid_is k x) (commit_xattr_if_ready fs st)"
  unfolding commit_xattr_if_ready_def
  by (intro keeps_case_fid_handle keeps_intros frame_on_fs)

lemmas frame_intros = frame_on_fs frame_fid_or frame_fid_path frame_put_fid frame_drop_fid
  frame_on_fid_file frame_walk_names frame_commit keeps_guard keeps_case_fid_handle keeps_intros

lemmas srv_defs = srv_version_def srv_attach_def srv_walk_def srv_lopen_def srv_lcreate_def
  srv_getattr_def srv_setattr_def srv_xattrwalk_def srv_xattrcreate_def srv_read_def srv_write_def
  srv_clunk_def srv_remove_def srv_mkdir_def srv_link_def srv_readdir_def srv_rename_at_def
  srv_unlink_at_def srv_symlink_def srv_readlink_def srv_fsync_def srv_flush_def

lemma handle_frame_fid:
  assumes "k \<notin> bound_fids req"
  shows "keeps (fid_is k x) (handle fs req)"
  using assms
  by (cases req; simp only: handle.simps bound_fids.simps srv_defs Let_def; intro frame_intros; auto)

text \<open>
  C11. Isolation: whatever the file system does and whether the request succeeds or fails, a
  request leaves every fid other than the one it binds or operates on exactly as it was.
\<close>

theorem handle_isolates_fids:
  assumes "k \<notin> bound_fids req"
  shows "sv_fids (snd (handle fs req sv)) k = sv_fids sv k"
  using keeps_apply [OF handle_frame_fid [OF assms, of "sv_fids sv k" fs], of sv] by simp

theorem handle_isolates_fids_witness:
  "sv_fids (snd (handle (null_fs :: (unit, unit) filesystem) (TClunk 1)
     ((server_new 0 ())\<lparr>sv_fids := [1 \<mapsto> fid_unopened ''a'', 2 \<mapsto> fid_unopened ''b'']\<rparr>))) 2 =
   Some (fid_unopened ''b'')"
proof -
  have "(2 :: u32) \<notin> bound_fids (TClunk 1)" by simp
  show ?thesis unfolding handle_isolates_fids [OF \<open>2 \<notin> bound_fids (TClunk 1)\<close>] by simp
qed

section \<open>Walking\<close>

lemma walk_names_result:
  "walk_names fs path qids names sv = (Ok (p, qs), sv') \<Longrightarrow>
     \<exists>n \<le> length names. p = foldl walk_join path (take n names) \<and> length qs = length qids + n \<and>
       (qids = [] \<longrightarrow> names \<noteq> [] \<longrightarrow> 0 < n) \<and> (\<forall>x \<in> set (take n names). x \<noteq> '''' \<and> slash \<notin> set x)"
proof (induction names arbitrary: path qids sv)
  case (Cons x xs)
  from Cons.prems have okx: "slash \<notin> set x" "x \<noteq> ''''" by (auto split: if_splits)
  with Cons.prems obtain r t where
    r: "(case r of
           Inr q \<Rightarrow> walk_names fs (walk_join path x) (qids @ [q]) xs
         | Inl e \<Rightarrow> if qids = [] then throw (Fail e) else ret (path, qids)) t = (Ok (p, qs), sv')"
    by (auto simp: Let_def elim: obind_okE)
  show ?case
  proof (cases r)
    case (Inl e)
    with r have "qids \<noteq> []" "p = path" "qs = qids" by (auto split: if_splits)
    then show ?thesis by (intro exI [of _ 0]) simp
  next
    case (Inr q)
    with r have "walk_names fs (walk_join path x) (qids @ [q]) xs t = (Ok (p, qs), sv')" by simp
    from Cons.IH [OF this] obtain n where "n \<le> length xs"
      "p = foldl walk_join (walk_join path x) (take n xs)" "length qs = length qids + 1 + n"
      "\<forall>x \<in> set (take n xs). x \<noteq> '''' \<and> slash \<notin> set x" by auto
    with okx show ?thesis by (intro exI [of _ "Suc n"]) simp
  qed
qed simp

text \<open>
  Walking: a successful walk reports one qid per name walked, at least one if any name was
  given, and binds the new fid, unopened, to the path the walked names lead to from the old fid's
  path; each of those names is a single non-empty component.
\<close>

theorem walk_binds_prefix:
  assumes "sv_fids sv fid = Some st"
    and "handle fs (TWalk fid newfid names) sv = (Ok resp, sv')"
  shows "\<exists>qids n. resp = RWalk qids \<and> length qids = n \<and> n \<le> length names \<and>
    (names \<noteq> [] \<longrightarrow> 0 < n) \<and>
    sv_fids sv' newfid = Some (fid_unopened (foldl walk_join (fid_path_of st) (take n names))) \<and>
    (\<forall>x \<in> set (take n names). x \<noteq> '''' \<and> slash \<notin> set x)"
proof -
  have "srv_walk fs fid newfid names sv = (Ok resp, sv')" using assms(2) by simp
  then obtain p qs t where w: "walk_names fs (fid_path_of st) [] names sv = (Ok (p, qs), t)"
    and r: "resp = RWalk qs" "sv' = snd (put_fid newfid (fid_unopened p) t)"
    using assms(1) unfolding srv_walk_def guard_def fid_path_def fid_or_def
    by (auto elim!: obind_okE simp: put_fid_def split: if_split_asm)
  then show ?thesis
    using walk_names_result [OF w] by (auto simp: put_fid_def)
qed

section \<open>Clunking\<close>

lemma fid_dropped:
  assumes "\<And>st. keeps (fid_is fid None) (m st)"
  shows "sv_fids (snd (obind (fid_or fid) (\<lambda>st. obind (drop_fid fid) (\<lambda>_. m st)) sv)) fid = None"
proof (cases "sv_fids sv fid")
  case (Some st)
  then have "obind (fid_or fid) (\<lambda>st. obind (drop_fid fid) (\<lambda>_. m st)) sv =
      m st (sv\<lparr>sv_fids := (sv_fids sv)(fid := None)\<rparr>)"
    by (simp add: fid_or_def drop_fid_def obind_def)
  then show ?thesis using keeps_apply [OF assms, of "sv\<lparr>sv_fids := (sv_fids sv)(fid := None)\<rparr>" st] by simp
qed (simp add: fid_or_def obind_def)

text \<open>
  C12. A fid that a clunk or a remove request names is gone afterwards, whether the request
  succeeded or failed, and every later request for it is refused until it is bound again.
\<close>

theorem clunk_forgets_fid:
  "sv_fids (snd (handle fs (TClunk fid) sv)) fid = None \<and>
   sv_fids (snd (handle fs (TRemove fid) sv)) fid = None \<and>
   fst (handle fs (TRead fid off cnt) (snd (handle fs (TClunk fid) sv))) = Err (Kind Invalid)"
proof -
  have "sv_fids (snd (srv_clunk fs fid sv)) fid = None"
    unfolding srv_clunk_def by (rule fid_dropped) (intro frame_intros)
  then have "sv_fids (snd (handle fs (TClunk fid) sv)) fid = None"
    by (simp add: obind_snd split: sum.split)
  moreover have "sv_fids (snd (handle fs (TRemove fid) sv)) fid = None"
    unfolding handle.simps srv_remove_def by (rule fid_dropped) (intro frame_intros)
  moreover have "fst (handle fs (TRead fid off cnt) sv') = Err (Kind Invalid)" if "sv_fids sv' fid = None" for sv'
    using that by (simp add: srv_read_def fid_or_def obind_def)
  ultimately show ?thesis by blast
qed

theorem walk_binds_prefix_witness:
  "\<exists>qids n. RWalk [] = RWalk qids \<and> length qids = n \<and>
     sv_fids (snd (handle (null_fs :: (unit, unit) filesystem) (TWalk 1 2 [])
       ((server_new 0 ())\<lparr>sv_fids := [1 \<mapsto> fid_unopened ''a'']\<rparr>))) 2 = Some (fid_unopened ''a'')"
proof -
  let ?sv = "((server_new 0 ())\<lparr>sv_fids := [1 \<mapsto> fid_unopened ''a'']\<rparr>) :: (unit, unit) server"
  have 1: "sv_fids ?sv 1 = Some (fid_unopened ''a'')" by simp
  have 2: "handle (null_fs :: (unit, unit) filesystem) (TWalk 1 2 []) ?sv =
      (Ok (RWalk []), snd (handle (null_fs :: (unit, unit) filesystem) (TWalk 1 2 []) ?sv))"
    by (simp add: srv_walk_def guard_def fid_path_def fid_or_def put_fid_def obind_def)
  show ?thesis
    using walk_binds_prefix [OF 1 2] by (auto simp: fid_unopened_def simp del: handle.simps)
qed

section \<open>Answers\<close>

text \<open>The kind of answer each request has, and the two version strings a server sends.\<close>

definition answers :: "nine_p_request \<Rightarrow> nine_p_response \<Rightarrow> bool" where
  "answers req resp = (case req of
       TVersion _ _ \<Rightarrow> (case resp of RVersion _ v \<Rightarrow> (v = VERSION \<or> v = ''unknown'') | _ \<Rightarrow> False)
     | TAttach _ _ _ _ _ \<Rightarrow> (case resp of RAttach _ \<Rightarrow> True | _ \<Rightarrow> False)
     | TWalk _ _ _ \<Rightarrow> (case resp of RWalk _ \<Rightarrow> True | _ \<Rightarrow> False)
     | TLopen _ _ \<Rightarrow> (case resp of RLopen _ _ \<Rightarrow> True | _ \<Rightarrow> False)
     | TLcreate _ _ _ _ _ \<Rightarrow> (case resp of RLcreate _ _ \<Rightarrow> True | _ \<Rightarrow> False)
     | TGetAttr _ _ \<Rightarrow> (case resp of RGetAttr _ \<Rightarrow> True | _ \<Rightarrow> False)
     | TSetAttr _ _ \<Rightarrow> (case resp of RSetAttr \<Rightarrow> True | _ \<Rightarrow> False)
     | TXattrWalk _ _ _ \<Rightarrow> (case resp of RXattrWalk _ \<Rightarrow> True | _ \<Rightarrow> False)
     | TXattrCreate _ _ _ _ \<Rightarrow> (case resp of RXattrCreate \<Rightarrow> True | _ \<Rightarrow> False)
     | TRead _ _ _ \<Rightarrow> (case resp of RRead _ \<Rightarrow> True | _ \<Rightarrow> False)
     | TWrite _ _ _ \<Rightarrow> (case resp of RWrite _ \<Rightarrow> True | _ \<Rightarrow> False)
     | TClunk _ \<Rightarrow> (case resp of RClunk \<Rightarrow> True | _ \<Rightarrow> False)
     | TRemove _ \<Rightarrow> (case resp of RRemove \<Rightarrow> True | _ \<Rightarrow> False)
     | TMkdir _ _ _ _ \<Rightarrow> (case resp of RMkdir _ \<Rightarrow> True | _ \<Rightarrow> False)
     | TLink _ _ _ \<Rightarrow> (case resp of RLink \<Rightarrow> True | _ \<Rightarrow> False)
     | TReaddir _ _ _ \<Rightarrow> (case resp of RReaddir _ \<Rightarrow> True | _ \<Rightarrow> False)
     | TRenameAt _ _ _ _ \<Rightarrow> (case resp of RRenameAt \<Rightarrow> True | _ \<Rightarrow> False)
     | TUnlinkAt _ _ _ \<Rightarrow> (case resp of RUnlinkAt \<Rightarrow> True | _ \<Rightarrow> False)
     | TSymlink _ _ _ _ \<Rightarrow> (case resp of RSymlink _ \<Rightarrow> True | _ \<Rightarrow> False)
     | TReadlink _ \<Rightarrow> (case resp of RReadlink _ \<Rightarrow> True | _ \<Rightarrow> False)
     | TFsync _ \<Rightarrow> (case resp of RFsync \<Rightarrow> True | _ \<Rightarrow> False)
     | TFlush _ \<Rightarrow> (case resp of RFlush \<Rightarrow> True | _ \<Rightarrow> False))"

lemma gives_any_bind: "(\<And>x. gives (\<lambda>_. True) (f x) Q) \<Longrightarrow> gives (\<lambda>_. True) (obind m f) Q"
  by (rule gives_bind_gives [of _ m "\<lambda>_. True"]) (auto simp: gives_def)

lemma gives_any_pair:
  "(\<And>a b. gives P (f a b) Q) \<Longrightarrow> gives P (case x of (a, b) \<Rightarrow> f a b) Q"
  by (simp split: prod.split)

lemma handle_answers: "fst (handle fs req sv) = Ok resp \<Longrightarrow> answers req resp"
proof -
  have "gives (\<lambda>_. True) (handle fs req) (answers req)"
    by (cases req; simp only: handle.simps srv_defs Let_def;
        intro gives_any_bind gives_any_pair gives_ret; simp add: answers_def)
  moreover assume "fst (handle fs req sv) = Ok resp"
  ultimately show ?thesis by (auto simp: gives_def)
qed

lemma answers_wf: "answers req resp \<Longrightarrow> (\<And>t. resp = RReadlink t \<Longrightarrow> valid_str t) \<Longrightarrow> wf_response resp"
proof -
  have "valid_str VERSION" "valid_str ''unknown''" by (code_simp)+
  then show "answers req resp \<Longrightarrow> (\<And>t. resp = RReadlink t \<Longrightarrow> valid_str t) \<Longrightarrow> wf_response resp"
    by (cases resp) (auto simp: answers_def split: nine_p_request.splits)
qed

text \<open>
  C13. Every answer carries the tag of its request and is of the request's kind: if a frame is
  answered at all, the answer decodes, under the request's tag, to the handler's response or,
  when the handler failed, to an error response with the error's number. The target of a symbolic
  link must be a string of well-formed UTF-8, as every \<open>String\<close> is.
\<close>

theorem handle_frame_answers:
  assumes "decode_request frame = Ok (tag, req)"
    and "handle_frame fs frame sv = (Ok out, sv')"
    and "\<forall>t. fst (handle fs req sv) = Ok (RReadlink t) \<longrightarrow> valid_str t"
  shows "\<exists>resp. decode_response out = Ok (tag, resp) \<and>
    (fst (handle fs req sv) = Ok resp \<and> answers req resp \<or>
     (\<exists>e. fst (handle fs req sv) = Err e \<and> resp = RLerror (errno_for_error e)))"
proof -
  obtain r s1 where h: "attempt (handle fs req) sv = (Ok r, s1)"
    and e: "encode_response tag (case r of Inr resp \<Rightarrow> resp | Inl e \<Rightarrow> RLerror (errno_for_error e)) = Ok out"
    using assms(1,2) unfolding handle_frame_def by (auto elim!: obind_okE)
  show ?thesis
  proof (cases r)
    case (Inl err)
    then have "fst (handle fs req sv) = Err err"
      using h by (auto simp: attempt_def split: prod.splits sum.splits fault.splits)
    moreover have "decode_response out = Ok (tag, RLerror (errno_for_error err))"
      using e Inl by (intro response_decodes) simp_all
    ultimately show ?thesis by blast
  next
    case (Inr resp)
    then have r: "fst (handle fs req sv) = Ok resp"
      using h by (auto simp: attempt_def split: prod.splits sum.splits fault.splits)
    then have a: "answers req resp" by (rule handle_answers)
    then have "wf_response resp" using r assms(3) by (intro answers_wf) auto
    then have "decode_response out = Ok (tag, resp)"
      using e Inr by (intro response_decodes) simp_all
    with r a show ?thesis by blast
  qed
qed

theorem handle_frame_answers_witness:
  "\<exists>out. fst (handle_frame null_fs [9,0,0,0,108,5,0,1,0] (server_new 0 () :: (unit, unit) server)) = Ok out \<and>
     decode_response out = Ok (5, RFlush)"
proof -
  let ?sv = "server_new 0 () :: (unit, unit) server" and ?f = "[9,0,0,0,108,5,0,1,0] :: bytes"
  have d: "decode_request ?f = Ok (5, TFlush 1)" by code_simp
  have "fst (handle_frame null_fs ?f ?sv) = Ok [7,0,0,0,109,5,0]" by code_simp
  then have r: "handle_frame null_fs ?f ?sv = (Ok [7,0,0,0,109,5,0], snd (handle_frame null_fs ?f ?sv))"
    by (simp add: prod_eq_iff)
  have h: "fst (handle null_fs (TFlush 1) ?sv) = Ok RFlush" by (simp add: srv_flush_def)
  have "decode_response [7,0,0,0,109,5,0] = Ok (5, RFlush)"
    using handle_frame_answers [OF d r] unfolding h by auto
  then show ?thesis using r by (intro exI) (auto simp: prod_eq_iff)
qed

end
