(* ===== verification/Ninep_Stream.thy ===== *)
theory Ninep_Stream
  imports Server_Laws
begin

text \<open>
  Frames on a byte stream: \<open>read_frame\<close>, \<open>write_frame\<close> and \<open>serve_frame_stream\<close> of
  \<open>crates/star9-protocol/src/p9.rs\<close>. A reader is the list of what its successive \<open>read\<close> calls
  find: bytes that have arrived, which a call takes as far as its buffer reaches, or an error. The
  end of the list is the end of the stream. A writer collects the bytes written and may fail once
  its room is used up or when it is flushed.
\<close>

section \<open>Readers and writers\<close>

datatype read_err = Interrupted string | IoErr io_kind

datatype read_event = Arrive bytes | ReadFail read_err

definition error_of_read :: "read_err \<Rightarrow> error" where
  "error_of_read e = error_of_io (case e of Interrupted msg \<Rightarrow> IoOther msg | IoErr k \<Rightarrow> k)"

fun stream_read :: "nat \<Rightarrow> read_event list \<Rightarrow> (read_err + bytes) \<times> read_event list" where
  "stream_read n [] = (Inr [], [])"
| "stream_read n (Arrive bs # evs) =
     (Inr (take n bs), if length bs \<le> n then evs else Arrive (drop n bs) # evs)"
| "stream_read n (ReadFail e # evs) = (Inl e, evs)"

fun weight :: "read_event list \<Rightarrow> nat" where
  "weight [] = 0"
| "weight (Arrive bs # evs) = Suc (length bs + weight evs)"
| "weight (ReadFail e # evs) = Suc (weight evs)"

lemma stream_read_weight:
  "stream_read n evs = (r, evs') \<Longrightarrow> weight evs' \<le> weight evs"
  "stream_read n evs = (r, evs') \<Longrightarrow> 0 < n \<Longrightarrow> r \<noteq> Inr [] \<Longrightarrow> weight evs' < weight evs"
  by (cases evs rule: weight.cases; auto split: if_splits)+

text \<open>\<open>Read::read_exact\<close> retries interrupted reads and turns an early end into \<open>UnexpectedEof\<close>.\<close>

function read_exact :: "nat \<Rightarrow> (read_event list, bytes) op" where
  "read_exact n evs =
     (if n = 0 then (Ok [], evs)
      else (case stream_read n evs of
              (Inr bs, evs') \<Rightarrow>
                if bs = [] then (Err (Kind UnexpectedEof), evs')
                else (case read_exact (n - length bs) evs' of
                        (Inr rest, evs'') \<Rightarrow> (Ok (bs @ rest), evs'')
                      | (Inl e, evs'') \<Rightarrow> (Inl e, evs''))
            | (Inl (Interrupted msg), evs') \<Rightarrow> read_exact n evs'
            | (Inl (IoErr k), evs') \<Rightarrow> (Err (error_of_read (IoErr k)), evs')))"
  by auto
termination
  by (relation "measure (\<lambda>(n, evs). weight evs)") (auto dest!: sym [of "(_, _)"] stream_read_weight(2))

declare read_exact.simps [simp del]

lemma read_exact_weight: "weight (snd (read_exact n evs)) \<le> weight evs"
proof (induction n evs rule: read_exact.induct)
  case (1 n evs)
  show ?case
    using 1 stream_read_weight(1) [of n evs]
    by (subst read_exact.simps)
       (auto split: prod.splits sum.splits read_err.splits simp: prod_eq_iff; fastforce)
qed

record writer =
  wr_bytes :: bytes
  wr_room :: "nat option"
  wr_write_err :: io_kind
  wr_flush_err :: "io_kind option"

definition writer_new :: writer where
  "writer_new = \<lparr>wr_bytes = [], wr_room = None, wr_write_err = IoOther [], wr_flush_err = None\<rparr>"

definition write_all :: "bytes \<Rightarrow> (writer, unit) op" where
  "write_all bs = (\<lambda>w. case wr_room w of
       None \<Rightarrow> (Ok (), w\<lparr>wr_bytes := wr_bytes w @ bs\<rparr>)
     | Some room \<Rightarrow>
         if length bs \<le> room
         then (Ok (), w\<lparr>wr_bytes := wr_bytes w @ bs, wr_room := Some (room - length bs)\<rparr>)
         else (Err (error_of_io (wr_write_err w)),
               w\<lparr>wr_bytes := wr_bytes w @ take room bs, wr_room := Some 0\<rparr>))"

definition flush_writer :: "(writer, unit) op" where
  "flush_writer = (\<lambda>w. case wr_flush_err w of
       None \<Rightarrow> (Ok (), w)
     | Some k \<Rightarrow> (Err (error_of_io k), w))"

section \<open>Frames\<close>

definition encoded_frame_size :: "bytes \<Rightarrow> nat res" where
  "encoded_frame_size frame =
     (if length frame < 4 then Err (Kind Invalid)
      else Ok (unat (of_le (take 4 frame) :: u32)))"

definition validate_frame_size :: "nat \<Rightarrow> unit res" where
  "validate_frame_size sz =
     (if \<not> (7 \<le> sz \<and> sz \<le> MAX_STREAM_FRAME_SIZE) then Err (Kind Invalid) else Ok ())"

lemma max_frame_code [code_unfold]: "n \<le> MAX_STREAM_FRAME_SIZE \<longleftrightarrow> int n \<le> 65536"
  by (simp add: MAX_STREAM_FRAME_SIZE_def)

definition read_frame :: "(read_event list, bytes option) op" where
  "read_frame = (\<lambda>evs. case stream_read 1 evs of
       (Inl e, evs') \<Rightarrow> (Err (error_of_read e), evs')
     | (Inr bs, evs') \<Rightarrow>
         if bs = [] then (Ok None, evs')
         else obind (read_exact 3) (\<lambda>rest.
              let header = bs @ rest; sz = unat (of_le header :: u32) in
              obind (lift_res (validate_frame_size sz)) (\<lambda>_.
              obind (read_exact (sz - 4)) (\<lambda>body.
              ret (Some (header @ body))))) evs')"

definition write_frame :: "bytes \<Rightarrow> (writer, unit) op" where
  "write_frame frame =
     obind (lift_res (encoded_frame_size frame)) (\<lambda>sz.
     obind (lift_res (validate_frame_size sz)) (\<lambda>_.
     if sz \<noteq> length frame then throw (Fail (Kind Invalid))
     else obind (write_all frame) (\<lambda>_. flush_writer)))"

lemma keeps_read_exact: "keeps (\<lambda>evs. weight evs \<le> k) (read_exact n)"
  by (auto simp: keeps_def intro: order_trans [OF read_exact_weight])

lemma read_frame_weight:
  assumes "read_frame evs = (Ok (Some frame), evs')"
  shows "weight evs' < weight evs"
proof -
  obtain bs e1 where r: "stream_read 1 evs = (Inr bs, e1)" "bs \<noteq> []"
    using assms by (auto simp: read_frame_def split: prod.splits sum.splits if_splits)
  then have "weight e1 < weight evs" by (auto dest: stream_read_weight(2))
  moreover have "weight (snd (read_frame evs)) \<le> weight e1"
    using r unfolding read_frame_def Let_def
    by (auto intro!: keeps_apply [where P = "\<lambda>evs. weight evs \<le> weight e1"] keeps_intros keeps_read_exact)
  ultimately show ?thesis using assms by simp
qed

text \<open>
  \<open>serve_frame_stream\<close>: every frame read takes bytes off the stream, so serving a stream ends.
\<close>

function serve_loop ::
    "('s, 'h) filesystem \<Rightarrow> nat \<Rightarrow> (('s, 'h) server \<times> read_event list \<times> writer, nat) op" where
  "serve_loop fs served (sv, rd, wr) =
     (case read_frame rd of
        (Inl e, rd') \<Rightarrow> (Inl e, (sv, rd', wr))
      | (Inr None, rd') \<Rightarrow> (Ok served, (sv, rd', wr))
      | (Inr (Some frame), rd') \<Rightarrow>
          (case handle_frame fs frame sv of
             (Inl e, sv') \<Rightarrow> (Inl e, (sv', rd', wr))
           | (Inr response, sv') \<Rightarrow>
               (case write_frame response wr of
                  (Inl e, wr') \<Rightarrow> (Inl e, (sv', rd', wr'))
                | (Inr _, wr') \<Rightarrow> serve_loop fs (Suc served) (sv', rd', wr'))))"
  by pat_completeness auto
termination
  by (relation "measure (\<lambda>(fs, served, sv, rd, wr). weight rd)")
     (auto dest!: sym [of "(_, _)"] read_frame_weight)

declare serve_loop.simps [simp del]

definition serve_frame_stream ::
    "('s, 'h) filesystem \<Rightarrow> (('s, 'h) server \<times> read_event list \<times> writer, nat) op" where
  "serve_frame_stream fs = serve_loop fs 0"

section \<open>Lemmas: what a stream delivers\<close>

text \<open>The bytes of a stream without errors, however they are split into arriving pieces.\<close>

fun delivers :: "read_event list \<Rightarrow> bytes \<Rightarrow> bool" where
  "delivers [] bs \<longleftrightarrow> bs = []"
| "delivers (Arrive b # evs) bs \<longleftrightarrow>
     b \<noteq> [] \<and> take (length b) bs = b \<and> delivers evs (drop (length b) bs)"
| "delivers (ReadFail e # evs) bs \<longleftrightarrow> False"

lemma stream_read_delivers:
  assumes "delivers evs bs" "0 < n"
  obtains k evs' where "stream_read n evs = (Inr (take k bs), evs')" "delivers evs' (drop k bs)"
    "k \<le> n" "k \<le> length bs" "bs = [] \<longleftrightarrow> k = 0"
proof (cases evs rule: weight.cases)
  case 1
  then show ?thesis using assms that [of 0 "[]"] by auto
next
  case (2 b evs')
  then have b: "b \<noteq> []" "take (length b) bs = b" "delivers evs' (drop (length b) bs)"
    using assms by auto
  then have len: "length b \<le> length bs" by (metis length_take min.cobounded1)
  have nb: "bs \<noteq> []" using b(1) len by auto
  show ?thesis
  proof (cases "length b \<le> n")
    case True
    then show ?thesis using 2 b nb len that [of "length b" evs'] by auto
  next
    case False
    have "take n b = take n bs" using b(2) False by (metis min.absorb1 nat_le_linear take_take)
    moreover have "delivers (Arrive (drop n b) # evs') (drop n bs)"
      using b False by (auto simp: take_drop drop_drop)
    ultimately show ?thesis
      using 2 False len b nb assms(2) that [of n "Arrive (drop n b) # evs'"] by auto
  qed
next
  case (3 e evs')
  then show ?thesis using assms by simp
qed

lemma read_exact_delivers:
  "delivers evs bs \<Longrightarrow> n \<le> length bs \<Longrightarrow>
     \<exists>evs'. read_exact n evs = (Ok (take n bs), evs') \<and> delivers evs' (drop n bs)"
proof (induction n evs arbitrary: bs rule: read_exact.induct)
  case (1 n evs)
  show ?case
  proof (cases "n = 0")
    case True
    then show ?thesis using 1 by (simp add: read_exact.simps)
  next
    case False
    then have nb: "bs \<noteq> []" using 1 by auto
    obtain k evs' where k: "stream_read n evs = (Inr (take k bs), evs')" "delivers evs' (drop k bs)"
      "k \<le> n" "k \<le> length bs" "bs = [] \<longleftrightarrow> k = 0"
      using stream_read_delivers [of evs bs n] 1 False by auto
    then have tk: "take k bs \<noteq> []" using nb by auto
    have "\<exists>e2. read_exact (n - k) evs' = (Ok (take (n - k) (drop k bs)), e2) \<and>
        delivers e2 (drop (n - k) (drop k bs))"
      using 1(2) [OF False k(1) [symmetric], of "take k bs" "drop k bs"] 1(3,4) k tk
      by (simp add: min_absorb2)
    moreover have "take k bs @ take (n - k) (drop k bs) = take n bs"
      using take_add [of k "n - k" bs] k(3) by simp
    ultimately show ?thesis
      using False k tk by (subst read_exact.simps) (auto simp: min_absorb2)
  qed
qed

lemma read_exact_short:
  "delivers evs bs \<Longrightarrow> length bs < n \<Longrightarrow> fst (read_exact n evs) = Err (Kind UnexpectedEof)"
proof (induction n evs arbitrary: bs rule: read_exact.induct)
  case (1 n evs)
  then have n: "n \<noteq> 0" by simp
  obtain k evs' where k: "stream_read n evs = (Inr (take k bs), evs')" "delivers evs' (drop k bs)"
    "k \<le> n" "k \<le> length bs" "bs = [] \<longleftrightarrow> k = 0"
    using stream_read_delivers [of evs bs n] 1 by auto
  show ?case
  proof (cases "bs = []")
    case True
    then show ?thesis using n k by (subst read_exact.simps) auto
  next
    case False
    then have "fst (read_exact (n - k) evs') = Err (Kind UnexpectedEof)"
      using 1(2) [OF n k(1) [symmetric], of "take k bs"] 1 k by (auto simp: min_absorb2)
    then show ?thesis
      using n k False by (subst read_exact.simps) (auto simp: min_absorb2 split: prod.splits)
  qed
qed

section \<open>Framing does not depend on how the bytes arrive\<close>

definition header_size :: "bytes \<Rightarrow> nat" where
  "header_size bs = unat (of_le (take 4 bs) :: u32)"

text \<open>What the first bytes of a stream are as a frame, read off the bytes alone.\<close>

definition first_frame :: "bytes \<Rightarrow> bytes option res" where
  "first_frame bs =
     (if bs = [] then Ok None
      else if length bs < 4 then Err (Kind UnexpectedEof)
      else if \<not> (7 \<le> header_size bs \<and> header_size bs \<le> MAX_STREAM_FRAME_SIZE) then Err (Kind Invalid)
      else if length bs < header_size bs then Err (Kind UnexpectedEof)
      else Ok (Some (take (header_size bs) bs)))"

lemma read_frame_empty: "delivers evs [] \<Longrightarrow> read_frame evs = (Ok None, [])"
  by (cases evs rule: weight.cases) (auto simp: read_frame_def)

text \<open>The part of \<open>read_frame\<close> after the four bytes of the length field.\<close>

definition frame_tail :: "bytes \<Rightarrow> (read_event list, bytes option) op" where
  "frame_tail header =
     (let sz = unat (of_le header :: u32) in
      obind (lift_res (validate_frame_size sz)) (\<lambda>_.
      obind (read_exact (sz - 4)) (\<lambda>body. ret (Some (header @ body)))))"

lemma frame_tail_delivers:
  assumes "delivers evs (drop 4 bs)" "4 \<le> length bs"
  shows "fst (frame_tail (take 4 bs) evs) = first_frame bs \<and>
    (\<forall>f. first_frame bs = Ok (Some f) \<longrightarrow>
       delivers (snd (frame_tail (take 4 bs) evs)) (drop (length f) bs))"
proof -
  let ?n = "header_size bs"
  have nb: "bs \<noteq> []" "\<not> length bs < 4" using assms(2) by auto
  have t: "frame_tail (take 4 bs) = obind (lift_res (validate_frame_size ?n)) (\<lambda>_.
      obind (read_exact (?n - 4)) (\<lambda>body. ret (Some (take 4 bs @ body))))"
    by (simp add: frame_tail_def header_size_def Let_def)
  consider "\<not> (7 \<le> ?n \<and> ?n \<le> MAX_STREAM_FRAME_SIZE)"
    | (short) "7 \<le> ?n" "?n \<le> MAX_STREAM_FRAME_SIZE" "length bs < ?n"
    | (ok) "7 \<le> ?n" "?n \<le> MAX_STREAM_FRAME_SIZE" "?n \<le> length bs" by linarith
  then show ?thesis
  proof cases
    case 1
    then show ?thesis using nb by (auto simp: t first_frame_def validate_frame_size_def obind_run)
  next
    case short
    then have "fst (read_exact (?n - 4) evs) = Err (Kind UnexpectedEof)"
      using assms by (intro read_exact_short [of _ "drop 4 bs"]) auto
    then show ?thesis
      using short nb by (simp add: t first_frame_def validate_frame_size_def obind_run)
  next
    case ok
    then obtain e3 where "read_exact (?n - 4) evs = (Ok (take (?n - 4) (drop 4 bs)), e3)"
      "delivers e3 (drop (?n - 4) (drop 4 bs))"
      using read_exact_delivers [OF assms(1), of "?n - 4"] by fastforce
    moreover have "take 4 bs @ take (?n - 4) (drop 4 bs) = take ?n bs"
      using ok take_add [of 4 "?n - 4" bs] by simp
    ultimately show ?thesis
      using ok nb by (simp add: t first_frame_def validate_frame_size_def obind_run min_absorb2)
  qed
qed

lemma read_frame_delivers:
  assumes "delivers evs bs"
  shows "fst (read_frame evs) = first_frame bs \<and>
    (\<forall>f. first_frame bs = Ok (Some f) \<longrightarrow> delivers (snd (read_frame evs)) (drop (length f) bs))"
proof (cases "bs = []")
  case True
  then show ?thesis using assms by (simp add: read_frame_empty first_frame_def)
next
  case False
  obtain k e1 where k: "stream_read 1 evs = (Inr (take k bs), e1)" "delivers e1 (drop k bs)"
    "k \<le> 1" "k \<le> length bs" "bs = [] \<longleftrightarrow> k = 0"
    using stream_read_delivers [OF assms, of 1] by auto
  then have k1: "k = 1" using False by linarith
  have rf: "read_frame evs = obind (read_exact 3) (\<lambda>rest. frame_tail (take 1 bs @ rest)) e1"
    using k k1 False by (auto simp: read_frame_def frame_tail_def)
  show ?thesis
  proof (cases "length bs < 4")
    case True
    then have "fst (read_exact 3 e1) = Err (Kind UnexpectedEof)"
      using k k1 by (intro read_exact_short [of _ "drop 1 bs"]) auto
    then show ?thesis
      using True False by (simp add: rf first_frame_def obind_run)
  next
    case long: False
    obtain e2 where e2: "read_exact 3 e1 = (Ok (take 3 (drop 1 bs)), e2)" "delivers e2 (drop 4 bs)"
      using read_exact_delivers [of e1 "drop 1 bs" 3] k(2) k1 long by fastforce
    have "take 1 bs @ take 3 (drop 1 bs) = take 4 bs" using take_add [of 1 3 bs] by simp
    then have "read_frame evs = frame_tail (take 4 bs) e2" using e2(1) by (simp add: rf)
    then show ?thesis using frame_tail_delivers [OF e2(2)] long by simp
  qed
qed

text \<open>
  C15. Framing: on a stream without read errors, what \<open>read_frame\<close> returns depends only on the
  bytes, not on how they are split into arriving pieces. It is the end of the stream, the frame
  the length field announces, \<open>UnexpectedEof\<close> when the stream ends inside a frame, or \<open>Invalid\<close> when the
  announced length is below 7 or above 64 KiB; after a frame exactly its bytes have been taken.
\<close>
theorem read_frame_reference:
  assumes "delivers evs bs"
  shows "fst (read_frame evs) = first_frame bs \<and>
    (\<forall>f. first_frame bs = Ok (Some f) \<longrightarrow> delivers (snd (read_frame evs)) (drop (length f) bs))"
  by (rule read_frame_delivers [OF assms])

theorem read_frame_reference_witness:
  "fst (read_frame [Arrive [7, 0], Arrive [0, 0, 101], Arrive [1, 0, 9, 9]]) =
     Ok (Some [7, 0, 0, 0, 101, 1, 0]) \<and>
   fst (read_frame [Arrive [7, 0], Arrive [0, 0, 101]]) = Err (Kind UnexpectedEof)"
proof -
  have d: "delivers [Arrive [7, 0], Arrive [0, 0, 101], Arrive [1, 0, 9, 9]] [7, 0, 0, 0, 101, 1, 0, 9, 9]"
    "delivers [Arrive [7, 0], Arrive [0, 0, 101]] [7, 0, 0, 0, 101]" by simp_all
  have "first_frame [7, 0, 0, 0, 101, 1, 0, 9, 9] = Ok (Some [7, 0, 0, 0, 101, 1, 0])"
    "first_frame [7, 0, 0, 0, 101] = Err (Kind UnexpectedEof)" by code_simp+
  with read_frame_reference [OF d(1)] read_frame_reference [OF d(2)] show ?thesis by simp
qed

section \<open>Writing and reading back\<close>

definition frame_ok :: "bytes \<Rightarrow> bool" where
  "frame_ok f \<longleftrightarrow> 7 \<le> length f \<and> length f \<le> MAX_STREAM_FRAME_SIZE \<and> header_size f = length f"

lemma first_frame_append: "frame_ok f \<Longrightarrow> first_frame (f @ rest) = Ok (Some f)"
  by (auto simp: frame_ok_def first_frame_def header_size_def)

lemma frame_ok_not_Nil: "frame_ok f \<Longrightarrow> f \<noteq> []"
  by (auto simp: frame_ok_def)

lemma write_frame_new:
  "frame_ok f \<Longrightarrow> write_frame f (writer_new\<lparr>wr_bytes := bs\<rparr>) = (Ok (), writer_new\<lparr>wr_bytes := bs @ f\<rparr>)"
  by (simp add: write_frame_def frame_ok_def encoded_frame_size_def validate_frame_size_def
      header_size_def obind_run write_all_def flush_writer_def writer_new_def)

lemma write_frame_ok:
  assumes "write_frame f w = (Ok u, w')"
  shows "frame_ok f" "wr_bytes w' = wr_bytes w @ f"
proof -
  have "frame_ok f \<and> wr_bytes w' = wr_bytes w @ f"
    using assms unfolding write_frame_def write_all_def flush_writer_def
    by (auto elim!: obind_okE simp: encoded_frame_size_def validate_frame_size_def header_size_def
        frame_ok_def split: if_splits option.splits)
  then show "frame_ok f" "wr_bytes w' = wr_bytes w @ f" by simp_all
qed

lemma write_frames_ok:
  "op_each write_frame fs w = (Ok u, w') \<Longrightarrow> list_all frame_ok fs \<and> wr_bytes w' = wr_bytes w @ concat fs"
  by (induction fs arbitrary: w) (auto elim!: obind_okE dest: write_frame_ok)

function read_frames :: "(read_event list, bytes list) op" where
  "read_frames evs =
     (case read_frame evs of
        (Inl e, evs') \<Rightarrow> (Inl e, evs')
      | (Inr None, evs') \<Rightarrow> (Ok [], evs')
      | (Inr (Some f), evs') \<Rightarrow>
          (case read_frames evs' of
             (Inl e, evs'') \<Rightarrow> (Inl e, evs'')
           | (Inr fs, evs'') \<Rightarrow> (Ok (f # fs), evs'')))"
  by auto
termination
  by (relation "measure weight") (auto dest!: sym [of "(_, _)"] read_frame_weight)

declare read_frames.simps [simp del]

lemma read_frames_concat:
  "list_all frame_ok fs \<Longrightarrow> delivers evs (concat fs) \<Longrightarrow> read_frames evs = (Ok fs, [])"
proof (induction fs arbitrary: evs)
  case Nil
  then show ?case by (simp add: read_frames.simps [of evs] read_frame_empty)
next
  case (Cons f fs)
  have "fst (read_frame evs) = Ok (Some f)" "delivers (snd (read_frame evs)) (concat fs)"
    using Cons.prems read_frame_delivers [of evs "f @ concat fs"] by (auto simp: first_frame_append)
  then obtain e1 where "read_frame evs = (Ok (Some f), e1)" "delivers e1 (concat fs)"
    by (cases "read_frame evs") auto
  then show ?case using Cons by (subst read_frames.simps) simp
qed

text \<open>
  C16. Frames survive the stream: the frames \<open>write_frame\<close> accepted, in any number and in whatever
  pieces their bytes then arrive, are read back by \<open>read_frame\<close> one by one, unchanged and in
  order, and then the end of the stream.
\<close>
theorem frames_roundtrip:
  assumes "op_each write_frame frames w = (Ok u, w')" and "wr_bytes w = []"
    and "delivers evs (wr_bytes w')"
  shows "read_frames evs = (Ok frames, [])"
  using write_frames_ok [OF assms(1)] assms(2,3) by (auto intro: read_frames_concat)

theorem frames_roundtrip_witness:
  "read_frames [Arrive [7, 0, 0, 0, 101, 1, 0, 7], Arrive [0, 0, 0], Arrive [109, 2, 0]] =
     (Ok [[7, 0, 0, 0, 101, 1, 0], [7, 0, 0, 0, 109, 2, 0]], [])"
proof -
  let ?w = "writer_new\<lparr>wr_bytes := [7, 0, 0, 0, 101, 1, 0, 7, 0, 0, 0, 109, 2, 0]\<rparr>"
  have "op_each write_frame [[7, 0, 0, 0, 101, 1, 0], [7, 0, 0, 0, 109, 2, 0]] writer_new = (Ok (), ?w)"
    by code_simp
  then show ?thesis by (rule frames_roundtrip) (simp_all add: writer_new_def)
qed

section \<open>Serving a stream\<close>

text \<open>The answers of a server to a list of frames, one after the other.\<close>

fun answer_all :: "('s, 'h) filesystem \<Rightarrow> bytes list \<Rightarrow> ('s, 'h, bytes list) sop" where
  "answer_all fs [] = ret []"
| "answer_all fs (f # frames) =
     obind (handle_frame fs f) (\<lambda>out.
     obind (answer_all fs frames) (\<lambda>outs.
     ret (out # outs)))"

lemma serve_loop_answers:
  "list_all frame_ok frames \<Longrightarrow> delivers evs (concat frames) \<Longrightarrow>
   answer_all fs frames sv = (Ok outs, sv') \<Longrightarrow> list_all frame_ok outs \<Longrightarrow>
   serve_loop fs k (sv, evs, writer_new\<lparr>wr_bytes := bs\<rparr>) =
     (Ok (k + length frames), (sv', [], writer_new\<lparr>wr_bytes := bs @ concat outs\<rparr>))"
proof (induction frames arbitrary: evs sv outs k bs)
  case Nil
  then show ?case by (simp add: serve_loop.simps [of fs k] read_frame_empty)
next
  case (Cons f frames)
  obtain out outs1 s1 where h: "handle_frame fs f sv = (Ok out, s1)"
    and a: "answer_all fs frames s1 = (Ok outs1, sv')" "outs = out # outs1"
    using Cons.prems(3) by (auto elim!: obind_okE)
  have "fst (read_frame evs) = Ok (Some f)" "delivers (snd (read_frame evs)) (concat frames)"
    using Cons.prems read_frame_delivers [of evs "f @ concat frames"] by (auto simp: first_frame_append)
  then obtain e1 where r: "read_frame evs = (Ok (Some f), e1)" "delivers e1 (concat frames)"
    by (cases "read_frame evs") auto
  show ?case
    using Cons.prems a Cons.IH [of e1 s1 outs1 "Suc k" "bs @ out"]
    by (subst serve_loop.simps) (simp add: r h write_frame_new)
qed



end
