(* ===== verification/Async_Server.thy ===== *)
theory Async_Server
  imports Ninep_Stream
begin

text \<open>
  \<open>AsyncNinePServer\<close> of \<open>crates/star9-protocol/src/p9.rs\<close>. Every request but a flush is handed to a
  thread of its own, which answers it with the synchronous server, decides under the lock of the
  table of pending tags whether the answer may still be sent, and then queues it. The threads are
  a list of workers, each in one of three stages between those critical sections; the identity of
  the shared cancellation flag is a number, so that \<open>Arc::ptr_eq\<close> is equality. The steps of the
  threads and of the callers interleave freely. A run stops where a handler panics or never returns.
\<close>

section \<open>State\<close>

datatype stage = Running bytes | Answered bytes | Sending bytes

record worker =
  wk_tag :: u16
  wk_token :: nat
  wk_stage :: stage

record ('s, 'h) async_server =
  as_server :: "('s, 'h) server"
  as_pending :: "u16 \<Rightarrow> nat option"
  as_responses :: "bytes list"
  as_cancelled :: "nat \<Rightarrow> bool"
  as_next :: nat
  as_workers :: "worker list"

type_synonym ('s, 'h, 'a) aop = "(('s, 'h) async_server, 'a) op"

definition from_server :: "('s, 'h) server \<Rightarrow> ('s, 'h) async_server" where
  "from_server sv =
     \<lparr>as_server = sv, as_pending = Map.empty, as_responses = [], as_cancelled = (\<lambda>_. False),
      as_next = 0, as_workers = []\<rparr>"

definition async_new :: "system_time \<Rightarrow> 's \<Rightarrow> ('s, 'h) async_server" where
  "async_new now w = from_server (server_new now w)"

section \<open>Calls\<close>

text \<open>Taking a tag out of the table and raising its cancellation flag.\<close>

definition cancel_token :: "u16 \<Rightarrow> nat \<Rightarrow> ('s, 'h) async_server \<Rightarrow> ('s, 'h) async_server" where
  "cancel_token tag k s =
     s\<lparr>as_pending := (as_pending s)(tag := None), as_cancelled := (as_cancelled s)(k := True)\<rparr>"

definition async_cancel :: "u16 \<Rightarrow> ('s, 'h, bool) aop" where
  "async_cancel tag = (\<lambda>s. case as_pending s tag of
       Some k \<Rightarrow> (Ok True, cancel_token tag k s)
     | None \<Rightarrow> (Ok False, s))"

definition spawn_worker :: "u16 \<Rightarrow> bytes \<Rightarrow> ('s, 'h) async_server \<Rightarrow> ('s, 'h) async_server" where
  "spawn_worker tag frame s =
     s\<lparr>as_pending := (as_pending s)(tag \<mapsto> as_next s),
       as_next := Suc (as_next s),
       as_workers := as_workers s @ [\<lparr>wk_tag = tag, wk_token = as_next s, wk_stage = Running frame\<rparr>]\<rparr>"

definition async_handle_frame :: "bytes \<Rightarrow> ('s, 'h, bytes option) aop" where
  "async_handle_frame frame =
     obind (lift_res (decode_request frame)) (\<lambda>(tag, request).
     case request of
       TFlush oldtag \<Rightarrow>
         obind (async_cancel oldtag) (\<lambda>_.
         obind (lift_res (encode_response tag RFlush)) (\<lambda>out.
         ret (Some out)))
     | _ \<Rightarrow>
         obind (gets (\<lambda>s. as_pending s tag)) (\<lambda>existing.
         case existing of
           Some k \<Rightarrow>
             obind (modify (cancel_token tag k)) (\<lambda>_.
             obind (lift_res (encode_response tag (RLerror (errno_for_error (Kind Invalid))))) (\<lambda>out.
             ret (Some out)))
         | None \<Rightarrow>
             obind (modify (spawn_worker tag frame)) (\<lambda>_.
             ret None)))"

definition next_response :: "('s, 'h, bytes option) aop" where
  "next_response = (\<lambda>s. case as_responses s of
       [] \<Rightarrow> (Ok None, s)
     | r # rs \<Rightarrow> (Ok (Some r), s\<lparr>as_responses := rs\<rparr>))"

text \<open>\<open>elapse\<close> is what the other threads do while the caller waits without the lock.\<close>

definition recv_response_timeout ::
    "(('s, 'h) async_server \<Rightarrow> ('s, 'h) async_server) \<Rightarrow> ('s, 'h, bytes option) aop" where
  "recv_response_timeout elapse = (\<lambda>s.
     if as_responses s = [] then next_response (elapse s) else next_response s)"

definition pending_tags :: "('s, 'h) async_server \<Rightarrow> u16 list" where
  "pending_tags s = filter (\<lambda>t. as_pending s t \<noteq> None) (map of_nat [0..<65536])"

section \<open>Workers\<close>

definition worker_at :: "nat \<Rightarrow> ('s, 'h) async_server \<Rightarrow> worker option" where
  "worker_at k s = find (\<lambda>w. wk_token w = k) (as_workers s)"

definition set_stage :: "nat \<Rightarrow> stage \<Rightarrow> ('s, 'h) async_server \<Rightarrow> ('s, 'h) async_server" where
  "set_stage k st s =
     s\<lparr>as_workers := map (\<lambda>w. if wk_token w = k then w\<lparr>wk_stage := st\<rparr> else w) (as_workers s)\<rparr>"

definition end_worker :: "nat \<Rightarrow> ('s, 'h) async_server \<Rightarrow> ('s, 'h) async_server" where
  "end_worker k s = s\<lparr>as_workers := filter (\<lambda>w. wk_token w \<noteq> k) (as_workers s)\<rparr>"

text \<open>A frame the server returns no answer to is answered with \<open>EIO\<close>.\<close>

definition worker_response :: "('s, 'h) filesystem \<Rightarrow> u16 \<Rightarrow> bytes \<Rightarrow> ('s, 'h, bytes) sop" where
  "worker_response fs tag frame =
     obind (attempt (handle_frame fs frame)) (\<lambda>r. case r of
       Inr out \<Rightarrow> ret out
     | Inl _ \<Rightarrow>
         (case encode_response tag (RLerror EIO) of
            Inr out \<Rightarrow> ret out
          | Inl _ \<Rightarrow> throw Panic))"

definition should_send :: "worker \<Rightarrow> ('s, 'h) async_server \<Rightarrow> bool" where
  "should_send w s \<longleftrightarrow>
     (case as_pending s (wk_tag w) of
        Some k \<Rightarrow> k = wk_token w \<and> \<not> as_cancelled s k
      | None \<Rightarrow> False)"

section \<open>Steps\<close>

datatype async_event =
    Accept nat u16 bytes
  | Reply bytes "bytes option res"
  | CancelCall u16
  | Answer nat bytes
  | Decide nat bool
  | Push nat bytes
  | Pop bytes

inductive async_step ::
    "('s, 'h) filesystem \<Rightarrow> ('s, 'h) async_server \<Rightarrow> async_event \<Rightarrow> ('s, 'h) async_server \<Rightarrow> bool"
  for fs where
  accept: "async_handle_frame frame s = (Ok None, s') \<Longrightarrow> decode_request frame = Ok (tag, req) \<Longrightarrow>
     async_step fs s (Accept (as_next s) tag frame) s'"
| reply: "async_handle_frame frame s = (r, s') \<Longrightarrow> r \<noteq> Ok None \<Longrightarrow> async_step fs s (Reply frame r) s'"
| cancel_call: "async_step fs s (CancelCall tag) (snd (async_cancel tag s))"
| answer: "worker_at k s = Some w \<Longrightarrow> wk_stage w = Running frame \<Longrightarrow>
     worker_response fs (wk_tag w) frame (as_server s) = (Ok out, sv) \<Longrightarrow>
     async_step fs s (Answer k frame) (set_stage k (Answered out) (s\<lparr>as_server := sv\<rparr>))"
| decide_send: "worker_at k s = Some w \<Longrightarrow> wk_stage w = Answered out \<Longrightarrow> should_send w s \<Longrightarrow>
     async_step fs s (Decide k True)
       (set_stage k (Sending out) (s\<lparr>as_pending := (as_pending s)(wk_tag w := None)\<rparr>))"
| decide_drop: "worker_at k s = Some w \<Longrightarrow> wk_stage w = Answered out \<Longrightarrow> \<not> should_send w s \<Longrightarrow>
     async_step fs s (Decide k False) (end_worker k s)"
| push: "worker_at k s = Some w \<Longrightarrow> wk_stage w = Sending out \<Longrightarrow>
     async_step fs s (Push k out) (end_worker k (s\<lparr>as_responses := as_responses s @ [out]\<rparr>))"
| pop: "next_response s = (Ok (Some r), s') \<Longrightarrow> async_step fs s (Pop r) s'"

inductive_cases async_stepE: "async_step fs s e s'"

inductive async_run ::
    "('s, 'h) filesystem \<Rightarrow> ('s, 'h) async_server \<Rightarrow> async_event list \<Rightarrow> ('s, 'h) async_server \<Rightarrow> bool"
  for fs s0 where
  start: "async_run fs s0 [] s0"
| more: "async_run fs s0 es s \<Longrightarrow> async_step fs s e s' \<Longrightarrow> async_run fs s0 (es @ [e]) s'"

end
