(* ===== verification/Async_Laws.thy ===== *)
theory Async_Laws
  imports Async_Server
begin

text \<open>
  What holds of every interleaving of the asynchronous server: the invariant that ties the table
  of pending tags to the workers, that no request is answered twice or after it was cancelled,
  that an answer carries the tag of its request, and that a request nobody cancels can be
  answered. The last section shows the run in which an answer overtakes a flush.
\<close>

section \<open>The invariant of the pending table\<close>

definition frame_tag :: "bytes \<Rightarrow> u16" where
  "frame_tag f = of_le (take 2 (drop 5 f))"

definition is_sending :: "worker \<Rightarrow> bool" where
  "is_sending w \<longleftrightarrow> (case wk_stage w of Sending _ \<Rightarrow> True | _ \<Rightarrow> False)"

definition stage_ok :: "worker \<Rightarrow> bool" where
  "stage_ok w \<longleftrightarrow>
     (case wk_stage w of
        Running f \<Rightarrow> (\<exists>req. decode_request f = Ok (wk_tag w, req))
      | Answered out \<Rightarrow> frame_tag out = wk_tag w
      | Sending out \<Rightarrow> frame_tag out = wk_tag w)"

definition worker_ok :: "('s, 'h) async_server \<Rightarrow> worker \<Rightarrow> bool" where
  "worker_ok s w \<longleftrightarrow> wk_token w < as_next s \<and> stage_ok w \<and>
     (if is_sending w then \<not> as_cancelled s (wk_token w)
      else as_cancelled s (wk_token w) \<or> as_pending s (wk_tag w) = Some (wk_token w))"

definition pending_ok :: "('s, 'h) async_server \<Rightarrow> u16 \<Rightarrow> nat \<Rightarrow> bool" where
  "pending_ok s t k \<longleftrightarrow> \<not> as_cancelled s k \<and>
     (\<exists>w \<in> set (as_workers s). wk_token w = k \<and> wk_tag w = t \<and> \<not> is_sending w)"

definition async_inv :: "('s, 'h) async_server \<Rightarrow> bool" where
  "async_inv s \<longleftrightarrow> distinct (map wk_token (as_workers s)) \<and>
     (\<forall>w \<in> set (as_workers s). worker_ok s w) \<and>
     (\<forall>k. as_cancelled s k \<longrightarrow> k < as_next s) \<and>
     (\<forall>t k. as_pending s t = Some k \<longrightarrow> pending_ok s t k)"

lemma async_inv_new: "async_inv (from_server sv)"
  by (simp add: async_inv_def from_server_def)

lemma async_inv_frame [simp]:
  "async_inv (s\<lparr>as_server := sv\<rparr>) = async_inv s" "async_inv (s\<lparr>as_responses := rs\<rparr>) = async_inv s"
  by (simp_all add: async_inv_def worker_ok_def pending_ok_def)

lemma async_invD:
  assumes "async_inv s"
  shows "w \<in> set (as_workers s) \<Longrightarrow> worker_ok s w" "as_cancelled s k \<Longrightarrow> k < as_next s"
    "as_pending s t = Some k \<Longrightarrow> pending_ok s t k"
  using assms by (auto simp: async_inv_def)

lemma token_less: "async_inv s \<Longrightarrow> w \<in> set (as_workers s) \<Longrightarrow> wk_token w < as_next s"
  by (auto dest: async_invD simp: worker_ok_def)

lemma worker_at_Some: "worker_at k s = Some w \<Longrightarrow> w \<in> set (as_workers s) \<and> wk_token w = k"
  unfolding worker_at_def by (auto simp: find_Some_iff)

lemma token_inj:
  "async_inv s \<Longrightarrow> w \<in> set (as_workers s) \<Longrightarrow> v \<in> set (as_workers s) \<Longrightarrow>
     wk_token w = wk_token v \<Longrightarrow> w = v"
  unfolding async_inv_def by (auto simp: distinct_map inj_on_def)

lemma set_stage_fields [simp]:
  "as_server (set_stage k st s) = as_server s" "as_pending (set_stage k st s) = as_pending s"
  "as_responses (set_stage k st s) = as_responses s" "as_cancelled (set_stage k st s) = as_cancelled s"
  "as_next (set_stage k st s) = as_next s"
  "as_server (end_worker k s) = as_server s" "as_pending (end_worker k s) = as_pending s"
  "as_responses (end_worker k s) = as_responses s" "as_cancelled (end_worker k s) = as_cancelled s"
  "as_next (end_worker k s) = as_next s"
  "as_workers (end_worker k s) = filter (\<lambda>w. wk_token w \<noteq> k) (as_workers s)"
  by (simp_all add: set_stage_def end_worker_def)

lemma set_stage_tokens [simp]: "map wk_token (as_workers (set_stage k st s)) = map wk_token (as_workers s)"
  by (simp add: set_stage_def comp_def cong: if_cong)

lemma set_stage_workers:
  assumes "async_inv s" "worker_at k s = Some w"
  shows "set (as_workers (set_stage k st s)) =
    insert (w\<lparr>wk_stage := st\<rparr>) {v \<in> set (as_workers s). wk_token v \<noteq> k}"
proof -
  have "v = w" if "v \<in> set (as_workers s)" "wk_token v = k" for v
    using that assms token_inj worker_at_Some by blast
  then show ?thesis using worker_at_Some [OF assms(2)] by (auto simp: set_stage_def image_iff)
qed

text \<open>What a call does to the state: accept the request, cancel one token, or nothing.\<close>

lemma async_handle_frame_cases:
  assumes "async_handle_frame frame s = (r, s')"
  obtains (spawn) tag req where "decode_request frame = Ok (tag, req)" "r = Ok None"
      "as_pending s tag = None" "s' = spawn_worker tag frame s"
  | (cancel) tag k where "r \<noteq> Ok None" "as_pending s tag = Some k" "s' = cancel_token tag k s"
  | (same) "r \<noteq> Ok None" "s' = s"
proof (cases "decode_request frame")
  case (Inl e)
  then show ?thesis using assms that(3) by (auto simp: async_handle_frame_def obind_def)
next
  case (Inr p)
  obtain tag req where p: "p = (tag, req)" by (cases p)
  show ?thesis
  proof (cases "\<exists>oldtag. req = TFlush oldtag")
    case True
    then obtain oldtag where req: "req = TFlush oldtag" by blast
    then have run: "s' = snd (async_cancel oldtag s)" "r \<noteq> Ok None"
      using assms Inr p
      by (auto simp: async_handle_frame_def obind_run async_cancel_def split: option.splits sum.splits)
    show ?thesis
    proof (cases "as_pending s oldtag")
      case None
      then show ?thesis using that(3) [OF run(2)] run(1) by (simp add: async_cancel_def)
    next
      case (Some k)
      then show ?thesis using that(2) [OF run(2) Some] run(1) by (simp add: async_cancel_def)
    qed
  next
    case False
    show ?thesis
    proof (cases "as_pending s tag")
      case None
      then show ?thesis
        using assms Inr p False that(1) [of tag req]
        by (cases req) (auto simp: async_handle_frame_def obind_run)
    next
      case (Some k)
      then have "s' = cancel_token tag k s" "r \<noteq> Ok None"
        using assms Inr p False
        by (cases req; auto simp: async_handle_frame_def obind_run split: sum.splits)+
      then show ?thesis using that(2) Some by blast
    qed
  qed
qed

lemma spawn_inv:
  assumes "async_inv s" "as_pending s tag = None" "decode_request frame = Ok (tag, req)"
  shows "async_inv (spawn_worker tag frame s)"
proof -
  let ?n = "\<lparr>wk_tag = tag, wk_token = as_next s, wk_stage = Running frame\<rparr>"
  have ws: "as_workers (spawn_worker tag frame s) = as_workers s @ [?n]" by (simp add: spawn_worker_def)
  have new: "as_next s \<notin> wk_token ` set (as_workers s)" "\<not> as_cancelled s (as_next s)"
    using token_less [OF assms(1)] async_invD(2) [OF assms(1)] by fastforce+
  have "worker_ok (spawn_worker tag frame s) w" if "w \<in> set (as_workers s)" for w
    using async_invD(1) [OF assms(1) that] assms(2)
    by (auto simp: worker_ok_def spawn_worker_def split: if_splits)
  moreover have "worker_ok (spawn_worker tag frame s) ?n"
    using assms(3) by (simp add: worker_ok_def spawn_worker_def stage_ok_def is_sending_def)
  moreover have "pending_ok (spawn_worker tag frame s) t k"
    if "as_pending (spawn_worker tag frame s) t = Some k" for t k
  proof (cases "t = tag")
    case True
    then have "k = as_next s" using that by (simp add: spawn_worker_def)
    then show ?thesis using True new by (simp add: pending_ok_def spawn_worker_def is_sending_def)
  next
    case False
    then show ?thesis
      using that async_invD(3) [OF assms(1), of t k] by (auto simp: pending_ok_def spawn_worker_def)
  qed
  moreover have "as_cancelled s k \<Longrightarrow> k < Suc (as_next s)" for k
    using async_invD(2) [OF assms(1), of k] by simp
  ultimately show ?thesis
    using assms(1) new by (auto simp: async_inv_def ws) (simp_all add: spawn_worker_def)
qed

lemma cancel_inv:
  assumes "async_inv s" "as_pending s tag = Some k"
  shows "async_inv (cancel_token tag k s)"
proof -
  obtain w where w: "w \<in> set (as_workers s)" "wk_token w = k" "wk_tag w = tag" "\<not> is_sending w"
    using async_invD(3) [OF assms] by (auto simp: pending_ok_def)
  then have kn: "k < as_next s" using token_less [OF assms(1)] by blast
  have only: "wk_tag v = tag \<and> \<not> is_sending v" if "v \<in> set (as_workers s)" "wk_token v = k" for v
    using token_inj [OF assms(1) that(1) w(1)] that(2) w by simp
  have "worker_ok (cancel_token tag k s) v" if v: "v \<in> set (as_workers s)" for v
  proof (cases "wk_token v = k")
    case True
    then show ?thesis
      using async_invD(1) [OF assms(1) v] only [OF v] by (simp add: worker_ok_def cancel_token_def)
  next
    case False
    then show ?thesis
      using async_invD(1) [OF assms(1) v] assms(2)
      by (auto simp: worker_ok_def cancel_token_def split: if_splits)
  qed
  moreover have "pending_ok (cancel_token tag k s) t j" if "as_pending (cancel_token tag k s) t = Some j" for t j
  proof -
    have j: "as_pending s t = Some j" "t \<noteq> tag" using that by (auto simp: cancel_token_def split: if_splits)
    then obtain v where v: "v \<in> set (as_workers s)" "wk_token v = j" "wk_tag v = t" "\<not> is_sending v" "\<not> as_cancelled s j"
      using async_invD(3) [OF assms(1)] by (auto simp: pending_ok_def)
    then have "j \<noteq> k" using only [OF v(1)] j(2) by auto
    then show ?thesis using v by (auto simp: pending_ok_def cancel_token_def)
  qed
  moreover have "as_workers (cancel_token tag k s) = as_workers s" by (simp add: cancel_token_def)
  moreover have "j < as_next (cancel_token tag k s)" if "as_cancelled (cancel_token tag k s) j" for j
    using that kn async_invD(2) [OF assms(1), of j] by (auto simp: cancel_token_def split: if_splits)
  ultimately show ?thesis using assms(1) by (simp add: async_inv_def)
qed

lemma set_stage_inv:
  assumes "async_inv s" "worker_at k s = Some w" "stage_ok (w\<lparr>wk_stage := st\<rparr>)"
    and "\<not> is_sending w" "\<not> is_sending (w\<lparr>wk_stage := st\<rparr>)"
  shows "async_inv (set_stage k st s)"
proof -
  note ws = set_stage_workers [OF assms(1,2), of st]
  have w: "w \<in> set (as_workers s)" "wk_token w = k" using worker_at_Some [OF assms(2)] by auto
  have "worker_ok (set_stage k st s) v" if "v \<in> set (as_workers (set_stage k st s))" for v
    using that assms(3-5) async_invD(1) [OF assms(1)] async_invD(1) [OF assms(1) w(1)] w
    unfolding ws by (fastforce simp: worker_ok_def)
  moreover have "pending_ok (set_stage k st s) t j" if p: "as_pending s t = Some j" for t j
  proof -
    obtain v where v: "v \<in> set (as_workers s)" "wk_token v = j" "wk_tag v = t" "\<not> is_sending v" "\<not> as_cancelled s j"
      using async_invD(3) [OF assms(1) p] by (auto simp: pending_ok_def)
    show ?thesis
    proof (cases "j = k")
      case True
      then have "v = w" using v w token_inj [OF assms(1)] by blast
      then show ?thesis using v True assms(5) w by (auto simp: pending_ok_def ws)
    next
      case False
      then show ?thesis using v by (auto simp: pending_ok_def ws)
    qed
  qed
  ultimately show ?thesis using assms(1) by (simp add: async_inv_def)
qed

text \<open>Sending or dropping an answer: the worker's tag is not, or no longer, in the table.\<close>

lemma send_inv:
  assumes "async_inv s" "worker_at k s = Some w" "wk_stage w = Answered out" "should_send w s"
  shows "async_inv (set_stage k (Sending out) (s\<lparr>as_pending := (as_pending s)(wk_tag w := None)\<rparr>))"
    (is "async_inv ?s'")
proof -
  have w: "w \<in> set (as_workers s)" "wk_token w = k" using worker_at_Some [OF assms(2)] by auto
  have p: "as_pending s (wk_tag w) = Some k" "\<not> as_cancelled s k"
    using assms(4) w by (auto simp: should_send_def split: option.splits)
  have ws: "set (as_workers ?s') = insert (w\<lparr>wk_stage := Sending out\<rparr>) {v \<in> set (as_workers s). wk_token v \<noteq> k}"
    using set_stage_workers [OF assms(1,2), of "Sending out"] by (simp add: set_stage_def)
  have "worker_ok ?s' v" if "v \<in> set (as_workers ?s')" for v
    using that async_invD(1) [OF assms(1)] w p assms(3) unfolding ws
    by (fastforce simp: worker_ok_def stage_ok_def is_sending_def split: if_splits)
  moreover have "pending_ok ?s' t j" if "as_pending ?s' t = Some j" for t j
  proof -
    have t: "as_pending s t = Some j" "t \<noteq> wk_tag w" using that by (auto split: if_splits)
    then obtain v where "v \<in> set (as_workers s)" "wk_token v = j" "wk_tag v = t" "\<not> is_sending v" "\<not> as_cancelled s j"
      using async_invD(3) [OF assms(1)] by (auto simp: pending_ok_def)
    then show ?thesis using t(2) w token_inj [OF assms(1)] by (auto simp: pending_ok_def ws)
  qed
  ultimately show ?thesis using assms(1) by (simp add: async_inv_def)
qed

lemma end_inv:
  assumes "async_inv s" "worker_at k s = Some w" "\<And>t. as_pending s t \<noteq> Some k"
  shows "async_inv (end_worker k s)"
proof -
  have "pending_ok (end_worker k s) t j" if "as_pending s t = Some j" for t j
    using that assms async_invD(3) [OF assms(1) that] by (auto simp: pending_ok_def)
  moreover have "worker_ok (end_worker k s) v" if "worker_ok s v" for v
    using that by (simp add: worker_ok_def)
  ultimately show ?thesis
    using assms(1) by (auto simp: async_inv_def distinct_map_filter)
qed

lemma not_pending:
  assumes "async_inv s" "worker_at k s = Some w" "is_sending w \<or> \<not> should_send w s"
  shows "as_pending s t \<noteq> Some k"
proof
  assume p: "as_pending s t = Some k"
  then obtain v where "v \<in> set (as_workers s)" "wk_token v = k" "wk_tag v = t" "\<not> is_sending v" "\<not> as_cancelled s k"
    using async_invD(3) [OF assms(1)] by (auto simp: pending_ok_def)
  moreover have "v = w" using calculation worker_at_Some [OF assms(2)] token_inj [OF assms(1)] by blast
  ultimately show False using p assms(3) by (auto simp: should_send_def)
qed

lemma frame_tag_encoded:
  assumes "encode_response tag resp = Ok out"
  shows "frame_tag out = tag"
proof -
  obtain ty body where "encode_frame ty tag body = Ok out"
    using assms by (auto simp: encode_response_def rbind_eq_Inr)
  then show ?thesis by (auto simp: frame_tag_def encode_frame_iff of_le_to_le)
qed

lemma worker_response_tag:
  assumes "decode_request frame = Ok (tag, req)" "worker_response fs tag frame sv = (Ok out, sv')"
  shows "frame_tag out = tag"
proof -
  obtain r t where a: "attempt (handle_frame fs frame) sv = (Ok r, t)"
    and c: "(case r of Inr out \<Rightarrow> ret out
      | Inl _ \<Rightarrow> (case encode_response tag (RLerror EIO) of Inr out \<Rightarrow> ret out | Inl _ \<Rightarrow> throw Panic)) t = (Ok out, sv')"
    using assms(2) unfolding worker_response_def by (elim obind_okE)
  show ?thesis
  proof (cases r)
    case (Inl e)
    then show ?thesis using c by (auto intro: frame_tag_encoded split: sum.splits)
  next
    case (Inr o1)
    then have "handle_frame fs frame sv = (Ok out, sv')"
      using a c by (auto simp: attempt_def split: prod.splits sum.splits fault.splits)
    then show ?thesis
      using assms(1) unfolding handle_frame_def by (auto elim!: obind_okE intro: frame_tag_encoded)
  qed
qed

lemma async_step_inv: "async_step fs s e s' \<Longrightarrow> async_inv s \<Longrightarrow> async_inv s'"
proof (induction rule: async_step.induct)
  case (accept frame s s' tag req)
  from accept(1) show ?case
    by (rule async_handle_frame_cases) (use accept spawn_inv cancel_inv in auto)
next
  case (reply frame s r s')
  from reply(1) show ?case
    by (rule async_handle_frame_cases) (use reply spawn_inv cancel_inv in auto)
next
  case (cancel_call s tag)
  then show ?case by (auto simp: async_cancel_def cancel_inv split: option.splits)
next
  case (answer k s w frame out sv)
  let ?s = "s\<lparr>as_server := sv\<rparr>"
  have inv: "async_inv ?s" and w: "worker_at k ?s = Some w"
    using answer by (auto simp: worker_at_def)
  have "stage_ok w" using answer worker_at_Some async_invD(1) by (fastforce simp: worker_ok_def)
  then have "stage_ok (w\<lparr>wk_stage := Answered out\<rparr>)"
    using answer worker_response_tag by (auto simp: stage_ok_def)
  then show ?case
    using answer by (intro set_stage_inv [OF inv w]) (auto simp: is_sending_def)
next
  case (decide_send k s w out)
  then show ?case by (intro send_inv)
next
  case (decide_drop k s w out)
  then show ?case by (intro end_inv not_pending) auto
next
  case (push k s w out)
  let ?s = "s\<lparr>as_responses := as_responses s @ [out]\<rparr>"
  have inv: "async_inv ?s" and w: "worker_at k ?s = Some w"
    using push by (auto simp: worker_at_def)
  have "is_sending w" using push by (simp add: is_sending_def)
  then show ?case using not_pending [OF inv w] by (intro end_inv [OF inv w]) auto
next
  case (pop s r s')
  then show ?case by (auto simp: next_response_def split: list.splits)
qed

section \<open>At most one answer, and none after a cancellation\<close>

definition pushed :: "async_event list \<Rightarrow> nat list" where
  "pushed es = List.map_filter (\<lambda>e. case e of Push k _ \<Rightarrow> Some k | _ \<Rightarrow> None) es"

lemma pushed_simps [simp]:
  "pushed [] = []" "pushed (es @ [Push k out]) = pushed es @ [k]"
  "(\<And>k out. e \<noteq> Push k out) \<Longrightarrow> pushed (es @ [e]) = pushed es"
  by (auto simp: pushed_def List.map_filter_def split: async_event.splits)

definition trace_ok :: "async_event list \<Rightarrow> ('s, 'h) async_server \<Rightarrow> bool" where
  "trace_ok es s \<longleftrightarrow> async_inv s \<and> distinct (pushed es) \<and>
     (\<forall>k \<in> set (pushed es). k < as_next s \<and> \<not> as_cancelled s k \<and> k \<notin> wk_token ` set (as_workers s)) \<and>
     (\<forall>w \<in> set (as_workers s). \<exists>f. Accept (wk_token w) (wk_tag w) f \<in> set es) \<and>
     (\<forall>k out. Push k out \<in> set es \<longrightarrow> (\<exists>f. Accept k (frame_tag out) f \<in> set es))"

lemma trace_quiet:
  assumes "trace_ok es s" "async_inv s'" "\<And>k out. e \<noteq> Push k out"
    and "as_next s \<le> as_next s'"
    and "\<And>k. as_cancelled s' k \<Longrightarrow> as_cancelled s k \<or> k \<in> wk_token ` set (as_workers s)"
    and "\<And>w. w \<in> set (as_workers s') \<Longrightarrow>
      (\<exists>v \<in> set (as_workers s). wk_token v = wk_token w \<and> wk_tag v = wk_tag w) \<or>
      wk_token w = as_next s \<and> (\<exists>f. e = Accept (wk_token w) (wk_tag w) f)"
  shows "trace_ok (es @ [e]) s'"
proof -
  have "\<exists>f. Accept (wk_token w) (wk_tag w) f \<in> set (es @ [e])" if "w \<in> set (as_workers s')" for w
    using assms(1) assms(6) [OF that] unfolding trace_ok_def by (metis Un_iff insert_iff list.set(2) set_append)
  moreover have "k < as_next s' \<and> \<not> as_cancelled s' k \<and> k \<notin> wk_token ` set (as_workers s')"
    if k: "k \<in> set (pushed es)" for k
  proof -
    have old: "k < as_next s" "\<not> as_cancelled s k" "k \<notin> wk_token ` set (as_workers s)"
      using assms(1) k by (auto simp: trace_ok_def)
    have "wk_token w \<noteq> k" if "w \<in> set (as_workers s')" for w
      using assms(6) [OF that] old(1,3) by (auto simp: image_iff)
    then show ?thesis using old assms(4) assms(5) [of k] by auto
  qed
  moreover have "\<exists>f. Accept k (frame_tag out) f \<in> set (es @ [e])" if "Push k out \<in> set (es @ [e])" for k out
    using that assms(1) assms(3) [of k out] unfolding trace_ok_def by (auto; blast)
  moreover have "distinct (pushed es)" using assms(1) by (simp add: trace_ok_def)
  ultimately show ?thesis
    using assms(2) unfolding trace_ok_def pushed_simps(3) [OF assms(3)] by blast
qed

lemma cancel_token_trace:
  assumes "async_inv s" "as_pending s tag = Some k" "as_cancelled (cancel_token tag k s) j"
  shows "as_cancelled s j \<or> j \<in> wk_token ` set (as_workers s)"
  using assms async_invD(3) [OF assms(1,2)]
  by (auto simp: cancel_token_def pending_ok_def split: if_splits)

lemma cancel_token_fields [simp]:
  "as_next (cancel_token tag k s) = as_next s" "as_workers (cancel_token tag k s) = as_workers s"
  by (simp_all add: cancel_token_def)

lemma async_step_trace: "async_step fs s e s' \<Longrightarrow> trace_ok es s \<Longrightarrow> trace_ok (es @ [e]) s'"
proof -
  assume st: "async_step fs s e s'" and ok: "trace_ok es s"
  then have inv: "async_inv s" and inv': "async_inv s'"
    using async_step_inv by (auto simp: trace_ok_def)
  from st show ?thesis
  proof cases
    case (accept frame tag req)
    from accept(2) show ?thesis
    proof (cases rule: async_handle_frame_cases)
      case (spawn tag' req')
      then show ?thesis
        using accept by (intro trace_quiet [OF ok inv']) (auto simp: spawn_worker_def)
    qed simp_all
  next
    case (reply frame r)
    from reply(2) show ?thesis
    proof (cases rule: async_handle_frame_cases)
      case (cancel tag k)
      then show ?thesis
        using reply cancel_token_trace [OF inv cancel(2)] by (intro trace_quiet [OF ok inv']) auto
    next
      case same
      then show ?thesis using reply by (intro trace_quiet [OF ok inv']) auto
    qed (use reply in simp)
  next
    case (cancel_call tag)
    then show ?thesis
      using cancel_token_trace [OF inv, of tag]
      by (intro trace_quiet [OF ok inv']) (auto simp: async_cancel_def split: option.splits)
  next
    case (answer k w frame out sv)
    then show ?thesis
      by (intro trace_quiet [OF ok inv']) (auto simp: set_stage_def split: if_splits)
  next
    case (decide_send k w out)
    then show ?thesis
      by (intro trace_quiet [OF ok inv']) (auto simp: set_stage_def split: if_splits)
  next
    case (decide_drop k w out)
    then show ?thesis by (intro trace_quiet [OF ok inv']) auto
  next
    case (push k w out)
    then have w: "w \<in> set (as_workers s)" "wk_token w = k" by (auto dest: worker_at_Some)
    have "stage_ok w" "\<not> as_cancelled s k" "k < as_next s"
      using async_invD(1) [OF inv w(1)] w(2) push by (auto simp: worker_ok_def is_sending_def)
    then show ?thesis
      using push ok inv' w unfolding trace_ok_def by (fastforce simp: stage_ok_def)
  next
    case (pop r)
    then show ?thesis
      by (intro trace_quiet [OF ok inv']) (auto simp: next_response_def split: list.splits)
  qed
qed

lemma async_run_trace: "async_run fs s0 es s \<Longrightarrow> s0 = from_server sv \<Longrightarrow> trace_ok es s"
proof (induction rule: async_run.induct)
  case start
  then show ?case by (simp add: trace_ok_def async_inv_new) (simp add: from_server_def)
qed (blast intro: async_step_trace)

text \<open>
  C18. At most one answer: in every interleaving of calls, cancellations and worker threads, no
  request is answered twice, every answer queued belongs to a request that was accepted and
  carries its tag, and a request that has been cancelled, by a flush or by the reuse of its tag,
  has no answer, then or later.
\<close>
theorem async_at_most_once:
  assumes "async_run fs (from_server sv) es s"
  shows "distinct (pushed es) \<and>
    (\<forall>k out. Push k out \<in> set es \<longrightarrow> (\<exists>f. Accept k (frame_tag out) f \<in> set es)) \<and>
    (\<forall>k. as_cancelled s k \<longrightarrow> k \<notin> set (pushed es))"
  using async_run_trace [OF assms refl] by (auto simp: trace_ok_def)

text \<open>
  The table of pending tags: in every reachable state a tag is pending exactly when a worker
  that is neither cancelled nor already sending works under it, and no two workers share a tag
  unless all but one of them have been cancelled or are already sending.
\<close>
lemma async_pending_exact:
  assumes "async_run fs (from_server sv) es s"
  shows "as_pending s t = Some k \<longleftrightarrow>
    (\<exists>w \<in> set (as_workers s). wk_token w = k \<and> wk_tag w = t \<and> \<not> is_sending w \<and> \<not> as_cancelled s k)"
proof -
  have inv: "async_inv s" using async_run_trace [OF assms refl] by (simp add: trace_ok_def)
  show ?thesis
    using async_invD(1,3) [OF inv] by (fastforce simp: pending_ok_def worker_ok_def)
qed

section \<open>Progress\<close>

lemma worker_at_stage:
  assumes "worker_at k s = Some w"
  shows "worker_at k (set_stage k st s) = Some (w\<lparr>wk_stage := st\<rparr>)"
proof -
  have "find (\<lambda>w. wk_token w = k) ws = Some w \<Longrightarrow>
      find (\<lambda>w. wk_token w = k) (map (\<lambda>w. if wk_token w = k then w\<lparr>wk_stage := st\<rparr> else w) ws) =
      Some (w\<lparr>wk_stage := st\<rparr>)" for ws
    by (induction ws) auto
  then show ?thesis using assms by (simp add: worker_at_def set_stage_def)
qed

text \<open>
  C19. Progress: in every reachable state, a request that is being worked on and has not been
  cancelled can be answered without any other thread taking a step, provided its handler
  returns: its worker answers, finds that it may send, and queues the handler's answer.
\<close>
theorem async_progress:
  assumes "async_run fs (from_server sv) es s"
    and "worker_at k s = Some w" and "wk_stage w = Running frame" and "\<not> as_cancelled s k"
    and "worker_response fs (wk_tag w) frame (as_server s) = (Ok out, sv')"
  shows "\<exists>s'. async_run fs (from_server sv) (es @ [Answer k frame, Decide k True, Push k out]) s' \<and>
    as_responses s' = as_responses s @ [out] \<and> as_server s' = sv'"
proof -
  have inv: "async_inv s" using async_run_trace [OF assms(1) refl] by (simp add: trace_ok_def)
  have w: "w \<in> set (as_workers s)" "wk_token w = k" using worker_at_Some [OF assms(2)] by auto
  have p: "as_pending s (wk_tag w) = Some k"
    using async_invD(1) [OF inv w(1)] w(2) assms(3,4) by (simp add: worker_ok_def is_sending_def)
  let ?w1 = "w\<lparr>wk_stage := Answered out\<rparr>" and ?w2 = "w\<lparr>wk_stage := Answered out, wk_stage := Sending out\<rparr>"
  define s1 where "s1 = set_stage k (Answered out) (s\<lparr>as_server := sv'\<rparr>)"
  define s2 where "s2 = set_stage k (Sending out) (s1\<lparr>as_pending := (as_pending s1)(wk_tag ?w1 := None)\<rparr>)"
  have a1: "async_step fs s (Answer k frame) s1"
    unfolding s1_def by (rule async_step.answer [OF assms(2,3,5)])
  have w1: "worker_at k s1 = Some ?w1"
    unfolding s1_def by (rule worker_at_stage) (use assms(2) in \<open>simp add: worker_at_def\<close>)
  have a2: "async_step fs s1 (Decide k True) s2"
    unfolding s2_def
    by (rule async_step.decide_send [OF w1]) (use p assms(4) w(2) in \<open>simp_all add: should_send_def s1_def\<close>)
  have w2: "worker_at k s2 = Some ?w2"
    unfolding s2_def by (rule worker_at_stage) (use w1 in \<open>simp add: worker_at_def\<close>)
  have a3: "async_step fs s2 (Push k out) (end_worker k (s2\<lparr>as_responses := as_responses s2 @ [out]\<rparr>))"
    by (rule async_step.push [OF w2]) simp
  have "async_run fs (from_server sv) (((es @ [Answer k frame]) @ [Decide k True]) @ [Push k out])
      (end_worker k (s2\<lparr>as_responses := as_responses s2 @ [out]\<rparr>))"
    by (intro async_run.more [OF _ a3] async_run.more [OF _ a2] async_run.more [OF assms(1) a1])
  then show ?thesis
    by (intro exI [of _ "end_worker k (s2\<lparr>as_responses := as_responses s2 @ [out]\<rparr>)"])
       (simp add: s2_def s1_def)
qed

section \<open>A run\<close>

text \<open>
  A version request under tag 5 and a flush of it, over the file system without files. The worker
  has decided to send before the flush is answered, and queues its answer after: the client sees
  the answer to a request it was told is flushed.
\<close>

definition demo_request :: bytes where
  "demo_request = [21, 0, 0, 0, 100, 5, 0, 0, 32, 0, 0, 8, 0, 57, 80, 50, 48, 48, 48, 46, 76]"

definition demo_flush :: bytes where
  "demo_flush = [9, 0, 0, 0, 108, 6, 0, 5, 0]"

definition demo_answer :: bytes where
  "demo_answer = [21, 0, 0, 0, 101, 5, 0, 0, 32, 0, 0, 8, 0, 57, 80, 50, 48, 48, 48, 46, 76]"

abbreviation demo_server :: "(unit, unit) server" where
  "demo_server \<equiv> server_new 0 ()"

lemma demo_decodes:
  "decode_request demo_request = Ok (5, TVersion 8192 ''9P2000.L'')" "decode_request demo_flush = Ok (6, TFlush 5)"
  "encode_response 6 RFlush = Ok [7, 0, 0, 0, 109, 6, 0]"
  by code_simp+

lemma demo_answers:
  "worker_response null_fs 5 demo_request demo_server =
     (Ok demo_answer, demo_server\<lparr>sv_msize := 8192\<rparr>)"
proof -
  have e: "encode_response 5 (RVersion 8192 VERSION) = Ok demo_answer" by code_simp
  have v: "starts_with ''9P2000.L'' ''9P2000''" by code_simp
  have "handle_frame null_fs demo_request demo_server = (Ok demo_answer, demo_server\<lparr>sv_msize := 8192\<rparr>)"
    using e v by (simp add: handle_frame_def demo_decodes srv_version_def obind_def attempt_def DEFAULT_MSIZE_def)
  then show ?thesis by (simp add: worker_response_def obind_def attempt_def)
qed

definition demo_accepted :: "(unit, unit) async_server" where
  "demo_accepted = spawn_worker 5 demo_request (from_server demo_server)"

lemma demo_run: "async_run null_fs (from_server demo_server) [Accept 0 5 demo_request] demo_accepted"
proof -
  have "async_step null_fs (from_server demo_server) (Accept (as_next (from_server demo_server)) 5 demo_request) demo_accepted"
    by (rule async_step.accept [OF _ demo_decodes(1)])
       (simp add: async_handle_frame_def demo_decodes obind_def from_server_def demo_accepted_def)
  then show ?thesis
    using async_run.more [OF async_run.start] by (fastforce simp: from_server_def)
qed

lemma demo_worker:
  "worker_at 0 demo_accepted = Some \<lparr>wk_tag = 5, wk_token = 0, wk_stage = Running demo_request\<rparr>"
  "as_server demo_accepted = demo_server" "\<not> as_cancelled demo_accepted 0"
  "as_responses demo_accepted = []" "as_pending demo_accepted = [5 \<mapsto> 0]"
  by (simp_all add: worker_at_def demo_accepted_def spawn_worker_def from_server_def)

theorem async_pending_exact_witness:
  "\<exists>w \<in> set (as_workers demo_accepted). wk_token w = 0 \<and> wk_tag w = 5 \<and> \<not> is_sending w"
  using async_pending_exact [OF demo_run, of 5 0] demo_worker(5) by auto

theorem async_progress_witness:
  "\<exists>s. async_run null_fs (from_server demo_server)
      [Accept 0 5 demo_request, Answer 0 demo_request, Decide 0 True, Push 0 demo_answer] s \<and>
    as_responses s = [demo_answer]"
  using async_progress [OF demo_run demo_worker(1), of demo_request demo_answer] demo_worker demo_answers by auto

text \<open>
  The race between a flush and a worker: the flush is answered between the worker's decision to
  send and its queueing of the answer, and the answer to the flushed request is queued after.
\<close>
lemma flush_overtaken:
  "\<exists>s. async_run null_fs (from_server demo_server)
      [Accept 0 5 demo_request, Answer 0 demo_request, Decide 0 True,
       Reply demo_flush (Ok (Some [7, 0, 0, 0, 109, 6, 0])), Push 0 demo_answer] s"
proof -
  let ?w = "\<lambda>st. \<lparr>wk_tag = 5, wk_token = 0, wk_stage = st\<rparr>"
  let ?s = "\<lambda>st p. demo_accepted\<lparr>as_server := demo_server\<lparr>sv_msize := 8192\<rparr>, as_pending := p, as_workers := [?w st]\<rparr>"
  have "async_step null_fs demo_accepted (Answer 0 demo_request)
      (set_stage 0 (Answered demo_answer) (demo_accepted\<lparr>as_server := demo_server\<lparr>sv_msize := 8192\<rparr>\<rparr>))"
    by (rule async_step.answer [OF demo_worker(1)]) (simp_all add: demo_worker demo_answers)
  then have 1: "async_step null_fs demo_accepted (Answer 0 demo_request) (?s (Answered demo_answer) [5 \<mapsto> 0])"
    by (simp add: set_stage_def demo_accepted_def spawn_worker_def from_server_def)
  have "async_step null_fs (?s (Answered demo_answer) [5 \<mapsto> 0]) (Decide 0 True)
      (set_stage 0 (Sending demo_answer) ((?s (Answered demo_answer) [5 \<mapsto> 0])\<lparr>as_pending :=
        (as_pending (?s (Answered demo_answer) [5 \<mapsto> 0]))(wk_tag (?w (Answered demo_answer)) := None)\<rparr>))"
    by (rule async_step.decide_send) (simp_all add: worker_at_def should_send_def demo_worker)
  then have 2: "async_step null_fs (?s (Answered demo_answer) [5 \<mapsto> 0]) (Decide 0 True)
      (?s (Sending demo_answer) Map.empty)"
    by (simp add: set_stage_def)
  have 3: "async_step null_fs (?s (Sending demo_answer) Map.empty)
      (Reply demo_flush (Ok (Some [7, 0, 0, 0, 109, 6, 0]))) (?s (Sending demo_answer) Map.empty)"
    by (rule async_step.reply) (simp_all add: async_handle_frame_def demo_decodes obind_def async_cancel_def)
  have 4: "\<exists>s. async_step null_fs (?s (Sending demo_answer) Map.empty) (Push 0 demo_answer) s"
    by (rule exI, rule async_step.push [where w = "?w (Sending demo_answer)"]) (simp_all add: worker_at_def)
  show ?thesis
    using 4 async_run.more [OF async_run.more [OF async_run.more [OF async_run.more [OF demo_run 1] 2] 3]] by fastforce
qed

theorem async_at_most_once_witness:
  "\<exists>s. async_run null_fs (from_server demo_server)
      [Accept 0 5 demo_request, Answer 0 demo_request, Decide 0 True,
       Reply demo_flush (Ok (Some [7, 0, 0, 0, 109, 6, 0])), Push 0 demo_answer] s \<and>
    \<not> as_cancelled s 0"
proof -
  obtain s where run: "async_run null_fs (from_server demo_server)
      [Accept 0 5 demo_request, Answer 0 demo_request, Decide 0 True,
       Reply demo_flush (Ok (Some [7, 0, 0, 0, 109, 6, 0])), Push 0 demo_answer] s"
    using flush_overtaken by blast
  have "\<not> as_cancelled s 0"
    using async_at_most_once [OF run] by (auto simp: pushed_def List.map_filter_def)
  with run show ?thesis by blast
qed

end
