(* ===== verification/Ninep_Client.thy ===== *)
theory Ninep_Client
  imports Ninep_Stream
begin

text \<open>
  \<open>NinePClientFs\<close> and \<open>NinePFile\<close> of \<open>crates/star9-protocol/src/p9.rs\<close>: a file system whose every
  method is a sequence of 9P calls over a transport. The transport (the trait \<open>NinePTransport\<close>) is
  an argument: an operation on a transport state of type \<open>'t\<close> that takes a request frame and
  returns an answer frame. The two implementations in the source, the loopback to a server and the
  byte stream, are the last section. Dropping a \<open>NinePFile\<close> that was not closed clunks its fid;
  the definitions do so where the source lets one go out of scope. Counters wrap around, as
  the atomic operations do.
\<close>

section \<open>State\<close>

record 't client =
  cl_msize :: u32
  cl_next_tag :: u16
  cl_next_fid :: u32
  cl_root_fid :: u32
  cl_transport :: 't

type_synonym 't transport = "bytes \<Rightarrow> ('t, bytes) op"
type_synonym ('t, 'a) cop = "('t client, 'a) op"

definition on_transport :: "('t, 'a) op \<Rightarrow> ('t, 'a) cop" where
  "on_transport m = (\<lambda>c. case m (cl_transport c) of (r, t) \<Rightarrow> (r, c\<lparr>cl_transport := t\<rparr>))"

definition fetch_add_tag :: "('t, u16) cop" where
  "fetch_add_tag = (\<lambda>c. (Ok (cl_next_tag c), c\<lparr>cl_next_tag := cl_next_tag c + 1\<rparr>))"

definition alloc_tag :: "('t, u16) cop" where
  "alloc_tag = obind fetch_add_tag (\<lambda>tag. if tag = NOTAG then fetch_add_tag else ret tag)"

definition alloc_fid :: "('t, u32) cop" where
  "alloc_fid = (\<lambda>c. (Ok (cl_next_fid c), c\<lparr>cl_next_fid := cl_next_fid c + 1\<rparr>))"

definition validated_client_path :: "string \<Rightarrow> string \<Rightarrow> string res" where
  "validated_client_path what name =
     (if name = '''' \<or> starts_with name ''/'' \<or> ''..'' \<in> set (split_on slash name)
      then Err (Path what name Invalid)
      else
        (let path = clean_path name in
         if \<not> valid_path path then Err (Path what path Invalid) else Ok path))"

section \<open>Calls\<close>

definition client_call :: "'t transport \<Rightarrow> nine_p_request \<Rightarrow> ('t, nine_p_response) cop" where
  "client_call rt request =
     obind alloc_tag (\<lambda>tag.
     obind (lift_res (encode_request tag request)) (\<lambda>frame.
     obind (on_transport (rt frame)) (\<lambda>answer.
     obind (lift_res (decode_response answer)) (\<lambda>(response_tag, response).
     if response_tag \<noteq> tag then throw (Fail (Kind Invalid))
     else (case response of
             RLerror ecode \<Rightarrow> throw (Fail (errno_to_error ecode))
           | _ \<Rightarrow> ret response)))))"

text \<open>
  \<open>expect pick r\<close> is the match on an answer that takes one kind of response and refuses the
  others; \<open>then_clunk\<close> runs the clunk whatever the result was and reports the first error.
\<close>

definition expect :: "(nine_p_response \<Rightarrow> 'a option) \<Rightarrow> nine_p_response \<Rightarrow> ('c, 'a) op" where
  "expect pick r = (case pick r of Some x \<Rightarrow> ret x | None \<Rightarrow> throw (Fail (Kind Invalid)))"

definition call_for :: "'t transport \<Rightarrow> nine_p_request \<Rightarrow> (nine_p_response \<Rightarrow> 'a option) \<Rightarrow> ('t, 'a) cop" where
  "call_for rt request pick = obind (client_call rt request) (expect pick)"

definition got :: "nine_p_response \<Rightarrow> nine_p_response \<Rightarrow> unit option" where
  "got expected r = (if r = expected then Some () else None)"

definition clunk_fid :: "'t transport \<Rightarrow> u32 \<Rightarrow> ('t, unit) cop" where
  "clunk_fid rt fid = call_for rt (TClunk fid) (got RClunk)"

definition then_clunk :: "'t transport \<Rightarrow> u32 \<Rightarrow> ('t, 'a) cop \<Rightarrow> ('t, 'a) cop" where
  "then_clunk rt fid m =
     obind (attempt m) (\<lambda>result.
     obind (attempt (clunk_fid rt fid)) (\<lambda>clunk.
     case result of
       Inl e \<Rightarrow> throw (Fail e)
     | Inr x \<Rightarrow> (case clunk of Inl e \<Rightarrow> throw (Fail e) | Inr _ \<Rightarrow> ret x)))"

definition client_new :: "'t \<Rightarrow> 't client" where
  "client_new t =
     \<lparr>cl_msize = DEFAULT_MSIZE, cl_next_tag = 1, cl_next_fid = 2, cl_root_fid = 1, cl_transport = t\<rparr>"

definition client_connect :: "'t transport \<Rightarrow> ('t, unit) cop" where
  "client_connect rt =
     obind (client_call rt (TVersion DEFAULT_MSIZE VERSION)) (\<lambda>r.
     obind (case r of
              RVersion msize version \<Rightarrow>
                if version = VERSION then modify (\<lambda>c. c\<lparr>cl_msize := msize\<rparr>)
                else throw (Fail (Kind Invalid))
            | _ \<Rightarrow> throw (Fail (Kind Invalid))) (\<lambda>_.
     obind (gets cl_root_fid) (\<lambda>root.
     call_for rt (TAttach root NOFID ''star9'' '''' 0)
       (\<lambda>r. case r of RAttach _ \<Rightarrow> Some () | _ \<Rightarrow> None))))"

definition walk_answer :: "'t transport \<Rightarrow> string \<Rightarrow> u32 \<Rightarrow> nat \<Rightarrow> nine_p_response \<Rightarrow> ('t, u32) cop" where
  "walk_answer rt name fid expected_qids r =
     (case r of
        RWalk qids \<Rightarrow>
          if length qids = expected_qids then ret fid
          else obind (discard (clunk_fid rt fid)) (\<lambda>_. throw (Fail (Path ''walk'' name NotFound)))
      | _ \<Rightarrow> throw (Fail (Kind Invalid)))"

definition path_names :: "string \<Rightarrow> string list" where
  "path_names name = (if name = ''.'' then [] else split_on slash name)"

definition walk_fid :: "'t transport \<Rightarrow> string \<Rightarrow> ('t, u32) cop" where
  "walk_fid rt name =
     obind (lift_res (validated_client_path ''walk'' name)) (\<lambda>name.
     obind alloc_fid (\<lambda>fid.
     obind (gets cl_root_fid) (\<lambda>root.
     obind (client_call rt (TWalk root fid (path_names name)))
       (walk_answer rt name fid (length (path_names name))))))"

definition getattr_fid :: "'t transport \<Rightarrow> u32 \<Rightarrow> string \<Rightarrow> ('t, metadata) cop" where
  "getattr_fid rt fid path =
     obind (call_for rt (TGetAttr fid ATTR_BASIC) (\<lambda>r. case r of RGetAttr attr \<Rightarrow> Some attr | _ \<Rightarrow> None)) (\<lambda>attr.
     lift_res (metadata_from_attr path attr))"

definition client_set_attr :: "'t transport \<Rightarrow> string \<Rightarrow> set_attr \<Rightarrow> ('t, unit) cop" where
  "client_set_attr rt path attr =
     obind (walk_fid rt path) (\<lambda>fid.
     then_clunk rt fid (call_for rt (TSetAttr fid attr) (got RSetAttr)))"

definition xattrwalk_fid :: "'t transport \<Rightarrow> string \<Rightarrow> string \<Rightarrow> ('t, u32 \<times> u64) cop" where
  "xattrwalk_fid rt path attr =
     obind (walk_fid rt path) (\<lambda>fid.
     obind alloc_fid (\<lambda>newfid.
     obind (attempt (call_for rt (TXattrWalk fid newfid attr)
              (\<lambda>r. case r of RXattrWalk sz \<Rightarrow> Some (newfid, sz) | _ \<Rightarrow> None))) (\<lambda>result.
     obind (attempt (clunk_fid rt fid)) (\<lambda>clunk.
     case (result, clunk) of
       (Inr x, Inr _) \<Rightarrow> ret x
     | (Inl e, _) \<Rightarrow> obind (discard (clunk_fid rt newfid)) (\<lambda>_. throw (Fail e))
     | (Inr _, Inl e) \<Rightarrow> obind (discard (clunk_fid rt newfid)) (\<lambda>_. throw (Fail e))))))"

text \<open>
  The loop of \<open>read_all_fid\<close>: every chunk but the last advances the offset, so \<open>size\<close> rounds are
  enough, and one more ends the loop.
\<close>

definition read_count :: "u32 \<Rightarrow> u64 \<Rightarrow> u32" where
  "read_count msize rest =
     (let count = max (if msize < 11 then 0 else msize - 11) 1 in
      min count (ucast (min rest 0xFFFFFFFF)))"

fun read_all_loop :: "'t transport \<Rightarrow> u32 \<Rightarrow> u32 \<Rightarrow> u64 \<Rightarrow> nat \<Rightarrow> u64 \<Rightarrow> bytes \<Rightarrow> ('t, bytes) cop" where
  "read_all_loop rt msize fid sz 0 offset data = throw Diverge"
| "read_all_loop rt msize fid sz (Suc fuel) offset data =
     (if offset < sz then
        obind (call_for rt (TRead fid offset (read_count msize (sz - offset)))
                 (\<lambda>r. case r of RRead chunk \<Rightarrow> Some chunk | _ \<Rightarrow> None)) (\<lambda>chunk.
        if chunk = [] then throw (Fail (Kind UnexpectedEof))
        else if uint offset + int (length chunk) \<ge> 2 ^ 64 then throw (Fail (Kind Invalid))
        else read_all_loop rt msize fid sz fuel (offset + of_nat (length chunk)) (data @ chunk))
      else ret data)"

definition read_all_fid :: "'t transport \<Rightarrow> u32 \<Rightarrow> u64 \<Rightarrow> ('t, bytes) cop" where
  "read_all_fid rt fid sz =
     obind (gets cl_msize) (\<lambda>msize. read_all_loop rt msize fid sz (Suc (unat sz)) 0 [])"

text \<open>\<open>data.chunks(count)\<close>: pieces of \<open>count\<close> bytes, the last one possibly shorter.\<close>

function chunks :: "nat \<Rightarrow> bytes \<Rightarrow> bytes list" where
  "chunks n data = (if data = [] \<or> n = 0 then [] else take n data # chunks n (drop n data))"
  by auto
termination by (relation "measure (\<lambda>(n, data). length data)") auto

declare chunks.simps [simp del]

fun write_chunks :: "'t transport \<Rightarrow> u32 \<Rightarrow> u64 \<Rightarrow> bytes list \<Rightarrow> ('t, unit) cop" where
  "write_chunks rt fid offset [] = ret ()"
| "write_chunks rt fid offset (chunk # rest) =
     obind (call_for rt (TWrite fid offset chunk) (\<lambda>r. case r of RWrite n \<Rightarrow> Some n | _ \<Rightarrow> None)) (\<lambda>n.
     if unat n \<noteq> length chunk then throw (Fail (Kind UnexpectedEof))
     else if uint offset + int (length chunk) \<ge> 2 ^ 64 then throw (Fail (Kind Invalid))
     else write_chunks rt fid (offset + of_nat (length chunk)) rest)"

definition write_all_fid :: "'t transport \<Rightarrow> u32 \<Rightarrow> bytes \<Rightarrow> ('t, unit) cop" where
  "write_all_fid rt fid data =
     obind (gets cl_msize) (\<lambda>msize.
     write_chunks rt fid 0 (chunks (unat (max (if msize < 23 then 0 else msize - 23) 1)) data))"

section \<open>Open files\<close>

record ninep_file =
  np_fid :: u32
  np_path :: string
  np_offset :: u64
  np_closed :: bool
  np_dir_cache :: "dir_entry list option"
  np_dir_offset :: nat

type_synonym ('t, 'a) fop = "(ninep_file \<times> 't client, 'a) op"

definition ninep_file_new :: "u32 \<Rightarrow> string \<Rightarrow> ninep_file" where
  "ninep_file_new fid path =
     \<lparr>np_fid = fid, np_path = path, np_offset = 0, np_closed = False, np_dir_cache = None, np_dir_offset = 0\<rparr>"

definition with_client :: "('t, 'a) cop \<Rightarrow> ('t, 'a) fop" where
  "with_client m = (\<lambda>(f, c). case m c of (r, c') \<Rightarrow> (r, (f, c')))"

definition ensure_open :: "('t, unit) fop" where
  "ensure_open = (\<lambda>(f, c). if np_closed f then (Err (Kind Closed), (f, c)) else (Ok (), (f, c)))"

text \<open>An answer longer than the buffer panics in \<open>buf[..n]\<close>.\<close>

definition np_fetch :: "'t transport \<Rightarrow> nat \<Rightarrow> u64 \<Rightarrow> ('t, bytes) fop" where
  "np_fetch rt len offset =
     obind ensure_open (\<lambda>_.
     obind (gets (np_fid \<circ> fst)) (\<lambda>fid.
     obind (lift_res (try_u32 len)) (\<lambda>count.
     obind (with_client (call_for rt (TRead fid offset count)
              (\<lambda>r. case r of RRead data \<Rightarrow> Some data | _ \<Rightarrow> None))) (\<lambda>data.
     if length data > len then throw Panic else ret data))))"

definition np_read :: "'t transport \<Rightarrow> nat \<Rightarrow> ('t, bytes) fop" where
  "np_read rt len =
     obind (gets (np_offset \<circ> fst)) (\<lambda>offset.
     obind (np_fetch rt len offset) (\<lambda>data.
     obind (modify (\<lambda>(f, c). (f\<lparr>np_offset := np_offset f + of_nat (length data)\<rparr>, c))) (\<lambda>_.
     ret data)))"

definition np_read_at :: "'t transport \<Rightarrow> nat \<Rightarrow> u64 \<Rightarrow> ('t, bytes) fop" where
  "np_read_at rt len offset = np_fetch rt len offset"

definition np_write_at :: "'t transport \<Rightarrow> bytes \<Rightarrow> u64 \<Rightarrow> ('t, nat) fop" where
  "np_write_at rt data offset =
     obind ensure_open (\<lambda>_.
     obind (gets (np_fid \<circ> fst)) (\<lambda>fid.
     obind (with_client (call_for rt (TWrite fid offset data)
              (\<lambda>r. case r of RWrite n \<Rightarrow> Some n | _ \<Rightarrow> None))) (\<lambda>n.
     ret (unat n))))"

definition np_write :: "'t transport \<Rightarrow> bytes \<Rightarrow> ('t, nat) fop" where
  "np_write rt data =
     obind (gets (np_offset \<circ> fst)) (\<lambda>offset.
     obind (np_write_at rt data offset) (\<lambda>n.
     obind (modify (\<lambda>(f, c). (f\<lparr>np_offset := np_offset f + of_nat n\<rparr>, c))) (\<lambda>_.
     ret n)))"

definition np_stat :: "'t transport \<Rightarrow> ('t, metadata) fop" where
  "np_stat rt =
     obind ensure_open (\<lambda>_.
     obind (gets fst) (\<lambda>f.
     with_client (getattr_fid rt (np_fid f) (np_path f))))"

definition np_seek :: "'t transport \<Rightarrow> seek_from \<Rightarrow> ('t, u64) fop" where
  "np_seek rt pos =
     obind ensure_open (\<lambda>_.
     obind (case pos of
              SeekStart p \<Rightarrow> ret (int (unat p))
            | SeekCurrent delta \<Rightarrow> gets (\<lambda>(f, c). int (unat (np_offset f)) + delta)
            | SeekEnd delta \<Rightarrow> obind (np_stat rt) (\<lambda>md. ret (int (unat (md_size md)) + delta))) (\<lambda>next.
     if next < 0 then throw (Fail (Kind Invalid))
     else
       obind (modify (\<lambda>(f, c). (f\<lparr>np_offset := of_int next\<rparr>, c))) (\<lambda>_.
       ret (of_int next))))"

definition entry_of_dirent :: "nine_p_dirent \<Rightarrow> dir_entry" where
  "entry_of_dirent d =
     dir_entry_new (dt_name d)
       \<lparr>md_name = dt_name d, md_mode = mode_from_dirent_type (dt_typ d), md_size = 0,
        md_modified = unix_epoch, md_uid = 0, md_gid = 0\<rparr>"

text \<open>
  The loop that reads a directory ends when the server sends an empty page, which a server need
  never do: the fuel bounds the number of pages.
\<close>

fun read_dir_pages :: "nat \<Rightarrow> 't transport \<Rightarrow> u32 \<Rightarrow> u32 \<Rightarrow> u64 \<Rightarrow> dir_entry list \<Rightarrow> ('t, dir_entry list) cop" where
  "read_dir_pages 0 rt fid count offset entries = throw Diverge"
| "read_dir_pages (Suc fuel) rt fid count offset entries =
     obind (call_for rt (TReaddir fid offset count)
              (\<lambda>r. case r of RReaddir data \<Rightarrow> Some data | _ \<Rightarrow> None)) (\<lambda>data.
     if data = [] then ret entries
     else
       obind (lift_res (decode_dirents data)) (\<lambda>dirents.
       if dirents = [] then ret entries
       else read_dir_pages fuel rt fid count (dt_offset (last dirents))
              (entries @ map entry_of_dirent dirents)))"

definition np_dir_entries :: "nat \<Rightarrow> 't transport \<Rightarrow> ('t, dir_entry list) fop" where
  "np_dir_entries fuel rt =
     obind (gets fst) (\<lambda>f.
     case np_dir_cache f of
       Some entries \<Rightarrow> ret entries
     | None \<Rightarrow>
         obind (gets (cl_msize \<circ> snd)) (\<lambda>msize.
         obind (with_client (read_dir_pages fuel rt (np_fid f) (if msize < 24 then 0 else msize - 24) 0 [])) (\<lambda>entries.
         obind (modify (\<lambda>(f, c). (f\<lparr>np_dir_cache := Some entries\<rparr>, c))) (\<lambda>_.
         ret entries))))"

definition np_read_dir :: "nat \<Rightarrow> 't transport \<Rightarrow> int \<Rightarrow> ('t, dir_entry list) fop" where
  "np_read_dir fuel rt count =
     obind ensure_open (\<lambda>_.
     obind (np_dir_entries fuel rt) (\<lambda>entries.
     if count < 0 then
       obind (modify (\<lambda>(f, c). (f\<lparr>np_dir_offset := length entries\<rparr>, c))) (\<lambda>_. ret entries)
     else
       obind (gets (np_dir_offset \<circ> fst)) (\<lambda>start.
       if start \<ge> length entries then ret []
       else
         (let end = (if count = 0 then length entries else min (start + nat count) (length entries)) in
          obind (modify (\<lambda>(f, c). (f\<lparr>np_dir_offset := end\<rparr>, c))) (\<lambda>_.
          ret (take (end - start) (drop start entries)))))))"

definition np_sync :: "'t transport \<Rightarrow> ('t, unit) fop" where
  "np_sync rt =
     obind ensure_open (\<lambda>_.
     obind (gets (np_fid \<circ> fst)) (\<lambda>fid.
     with_client (call_for rt (TFsync fid) (got RFsync))))"

definition np_close :: "'t transport \<Rightarrow> ('t, unit) fop" where
  "np_close rt =
     obind ensure_open (\<lambda>_.
     obind (gets (np_fid \<circ> fst)) (\<lambda>fid.
     obind (with_client (clunk_fid rt fid)) (\<lambda>_.
     modify (\<lambda>(f, c). (f\<lparr>np_closed := True\<rparr>, c)))))"

definition np_drop :: "'t transport \<Rightarrow> ('t, unit) fop" where
  "np_drop rt =
     obind (gets fst) (\<lambda>f.
     if np_closed f then ret ()
     else obind (discard (with_client (clunk_fid rt (np_fid f)))) (\<lambda>_.
          modify (\<lambda>(f, c). (f\<lparr>np_closed := True\<rparr>, c))))"

definition ninep_handle :: "nat \<Rightarrow> 't transport \<Rightarrow> ('t client, ninep_file) file_handle" where
  "ninep_handle fuel rt =
     \<lparr>fh_read = np_read rt, fh_write = np_write rt, fh_read_at = np_read_at rt,
      fh_write_at = np_write_at rt, fh_seek = np_seek rt, fh_stat = np_stat rt,
      fh_read_dir = np_read_dir fuel rt, fh_sync = np_sync rt, fh_close = np_close rt\<rparr>"

section \<open>The file system\<close>

definition open_existing :: "'t transport \<Rightarrow> string \<Rightarrow> u32 \<Rightarrow> ('t, ninep_file) cop" where
  "open_existing rt name flags =
     obind (lift_res (validated_client_path ''open'' name)) (\<lambda>path.
     obind (walk_fid rt path) (\<lambda>fid.
     obind (attempt (call_for rt (TLopen fid flags) (\<lambda>r. case r of RLopen _ _ \<Rightarrow> Some () | _ \<Rightarrow> None))) (\<lambda>r.
     case r of
       Inr _ \<Rightarrow> ret (ninep_file_new fid path)
     | Inl e \<Rightarrow> obind (discard (clunk_fid rt fid)) (\<lambda>_. throw (Fail e)))))"

definition client_open :: "'t transport \<Rightarrow> fs_context \<Rightarrow> string \<Rightarrow> ('t, ninep_file) cop" where
  "client_open rt ctx name =
     obind (attempt (open_existing rt name O_RDWR)) (\<lambda>r.
     case r of
       Inr f \<Rightarrow> ret f
     | Inl _ \<Rightarrow> open_existing rt name O_RDONLY)"

definition client_stat :: "'t transport \<Rightarrow> fs_context \<Rightarrow> string \<Rightarrow> ('t, metadata) cop" where
  "client_stat rt ctx name =
     obind (lift_res (validated_client_path ''stat'' name)) (\<lambda>name.
     obind (walk_fid rt name) (\<lambda>fid.
     then_clunk rt fid (getattr_fid rt fid name)))"

definition client_lstat :: "'t transport \<Rightarrow> fs_context \<Rightarrow> string \<Rightarrow> ('t, metadata) cop" where
  "client_lstat rt ctx name = client_stat rt ctx name"

definition client_read_dir :: "nat \<Rightarrow> 't transport \<Rightarrow> fs_context \<Rightarrow> string \<Rightarrow> ('t, dir_entry list) cop" where
  "client_read_dir fuel rt ctx name =
     obind (open_existing rt name O_RDONLY) (\<lambda>f. scoped f (
     obind (attempt (np_read_dir fuel rt (-1))) (\<lambda>entries.
     obind (attempt (np_close rt)) (\<lambda>close.
     obind (np_drop rt) (\<lambda>_.
     obind (of_attempt entries) (\<lambda>entries.
     obind (of_attempt close) (\<lambda>_.
     ret entries)))))))"

text \<open>A file that goes out of scope because a later step failed is dropped.\<close>

definition or_drop :: "'t transport \<Rightarrow> ('t, 'a) fop \<Rightarrow> ('t, 'a) fop" where
  "or_drop rt m =
     obind (attempt m) (\<lambda>r. case r of
       Inr x \<Rightarrow> ret x
     | Inl e \<Rightarrow> obind (np_drop rt) (\<lambda>_. throw (Fail e)))"

definition seek_if_append :: "'t transport \<Rightarrow> open_flags \<Rightarrow> ninep_file \<Rightarrow> ('t, ninep_file) cop" where
  "seek_if_append rt flags f =
     (if flags_contains flags O_APPEND
      then obind (run_on f (or_drop rt (np_seek rt (SeekEnd 0)))) (\<lambda>(_, f). ret f)
      else ret f)"

definition client_open_file :: "'t transport \<Rightarrow> string \<Rightarrow> open_flags \<Rightarrow> file_mode \<Rightarrow> ('t, ninep_file) cop" where
  "client_open_file rt name flags p =
     obind (lift_res (validated_client_path ''open'' name)) (\<lambda>path.
     if path = ''.'' then throw (Fail (Path ''open'' path Invalid))
     else if flags_contains flags O_CREATE then
       obind (walk_fid rt (parent_path path)) (\<lambda>fid.
       obind (attempt (call_for rt (TLcreate fid (base_name path) flags (perm p) 0)
                (\<lambda>r. case r of RLcreate _ _ \<Rightarrow> Some () | _ \<Rightarrow> None))) (\<lambda>r.
       case r of
         Inr _ \<Rightarrow> seek_if_append rt flags (ninep_file_new fid path)
       | Inl e \<Rightarrow> obind (discard (clunk_fid rt fid)) (\<lambda>_. throw (Fail e))))
     else
       obind (open_existing rt path flags) (\<lambda>f.
       obind (if flags_contains flags O_TRUNC
              then scoped f (or_drop rt (with_client (client_set_attr rt path
                     (set_attr_default\<lparr>sa_valid := SETATTR_SIZE, sa_size := 0\<rparr>))))
              else ret ()) (\<lambda>_.
       seek_if_append rt flags f)))"

definition client_create :: "'t transport \<Rightarrow> string \<Rightarrow> ('t, ninep_file) cop" where
  "client_create rt name = client_open_file rt name (O_RDWR OR O_CREATE OR O_TRUNC) (from_perm 0x1A4)"

definition client_mkdir :: "'t transport \<Rightarrow> string \<Rightarrow> file_mode \<Rightarrow> ('t, unit) cop" where
  "client_mkdir rt name p =
     obind (lift_res (validated_client_path ''mkdir'' name)) (\<lambda>path.
     if path = ''.'' then throw (Fail (Path ''mkdir'' path Invalid))
     else
       obind (walk_fid rt (parent_path path)) (\<lambda>fid.
       then_clunk rt fid (call_for rt (TMkdir fid (base_name path) (perm p) 0)
         (\<lambda>r. case r of RMkdir _ \<Rightarrow> Some () | _ \<Rightarrow> None))))"

definition client_remove :: "'t transport \<Rightarrow> string \<Rightarrow> ('t, unit) cop" where
  "client_remove rt name =
     obind (lift_res (validated_client_path ''remove'' name)) (\<lambda>path.
     if path = ''.'' then throw (Fail (Path ''remove'' path Invalid))
     else
       obind (client_stat rt (no_follow context_new) path) (\<lambda>md.
       obind (walk_fid rt (parent_path path)) (\<lambda>fid.
       then_clunk rt fid (call_for rt
         (TUnlinkAt fid (base_name path) (if md_is_dir md then AT_REMOVEDIR else 0)) (got RUnlinkAt)))))"

text \<open>\<open>result.and(old_clunk).and(new_clunk)\<close>: both fids are clunked and the first error is reported.\<close>

definition client_rename :: "'t transport \<Rightarrow> string \<Rightarrow> string \<Rightarrow> ('t, unit) cop" where
  "client_rename rt old new =
     obind (lift_res (validated_client_path ''rename'' old)) (\<lambda>old.
     obind (lift_res (validated_client_path ''rename'' new)) (\<lambda>new.
     obind (walk_fid rt (parent_path old)) (\<lambda>old_parent.
     obind (walk_fid rt (parent_path new)) (\<lambda>new_parent.
     then_clunk rt new_parent (then_clunk rt old_parent
       (call_for rt (TRenameAt old_parent (base_name old) new_parent (base_name new)) (got RRenameAt)))))))"

definition client_link :: "'t transport \<Rightarrow> string \<Rightarrow> string \<Rightarrow> ('t, unit) cop" where
  "client_link rt old new =
     obind (lift_res (validated_client_path ''link'' old)) (\<lambda>old.
     obind (lift_res (validated_client_path ''link'' new)) (\<lambda>new.
     if old = ''.'' \<or> new = ''.'' then throw (Fail (Path ''link'' new Invalid))
     else
       obind (walk_fid rt old) (\<lambda>old_fid.
       obind (walk_fid rt (parent_path new)) (\<lambda>new_parent.
       then_clunk rt new_parent (then_clunk rt old_fid
         (call_for rt (TLink old_fid new_parent (base_name new)) (got RLink)))))))"

definition client_chmod :: "'t transport \<Rightarrow> string \<Rightarrow> file_mode \<Rightarrow> ('t, unit) cop" where
  "client_chmod rt name mode =
     client_set_attr rt name (set_attr_default\<lparr>sa_valid := SETATTR_MODE, sa_mode := perm mode\<rparr>)"

definition client_chown :: "'t transport \<Rightarrow> string \<Rightarrow> u32 \<Rightarrow> u32 \<Rightarrow> ('t, unit) cop" where
  "client_chown rt name uid gid =
     client_set_attr rt name
       (set_attr_default\<lparr>sa_valid := SETATTR_UID OR SETATTR_GID, sa_uid := uid, sa_gid := gid\<rparr>)"

definition client_chtimes :: "'t transport \<Rightarrow> string \<Rightarrow> system_time \<Rightarrow> ('t, unit) cop" where
  "client_chtimes rt name mtime =
     (case system_time_parts mtime of (secs, nanos) \<Rightarrow>
        client_set_attr rt name
          (set_attr_default\<lparr>sa_valid := SETATTR_MTIME OR SETATTR_MTIME_SET,
             sa_mtime_seconds := secs, sa_mtime_nanoseconds := ucast nanos\<rparr>))"

definition client_truncate :: "'t transport \<Rightarrow> string \<Rightarrow> u64 \<Rightarrow> ('t, unit) cop" where
  "client_truncate rt name sz =
     client_set_attr rt name (set_attr_default\<lparr>sa_valid := SETATTR_SIZE, sa_size := sz\<rparr>)"

definition client_symlink :: "'t transport \<Rightarrow> string \<Rightarrow> string \<Rightarrow> ('t, unit) cop" where
  "client_symlink rt old new =
     obind (lift_res (validated_client_path ''symlink'' new)) (\<lambda>new.
     obind (walk_fid rt (parent_path new)) (\<lambda>fid.
     then_clunk rt fid (call_for rt (TSymlink fid (base_name new) old 0)
       (\<lambda>r. case r of RSymlink _ \<Rightarrow> Some () | _ \<Rightarrow> None))))"

definition client_readlink :: "'t transport \<Rightarrow> string \<Rightarrow> ('t, string) cop" where
  "client_readlink rt name =
     obind (walk_fid rt name) (\<lambda>fid.
     then_clunk rt fid (call_for rt (TReadlink fid)
       (\<lambda>r. case r of RReadlink target \<Rightarrow> Some target | _ \<Rightarrow> None)))"

definition client_set_xattr :: "'t transport \<Rightarrow> string \<Rightarrow> string \<Rightarrow> bytes \<Rightarrow> ('t, unit) cop" where
  "client_set_xattr rt name attr data =
     obind (lift_res (validated_client_path ''setxattr'' name)) (\<lambda>path.
     obind (walk_fid rt path) (\<lambda>fid.
     then_clunk rt fid (
       obind (call_for rt (TXattrCreate fid attr (of_nat (length data)) 0) (got RXattrCreate)) (\<lambda>_.
       write_all_fid rt fid data))))"

definition client_get_xattr :: "'t transport \<Rightarrow> string \<Rightarrow> string \<Rightarrow> ('t, bytes) cop" where
  "client_get_xattr rt name attr =
     obind (lift_res (validated_client_path ''getxattr'' name)) (\<lambda>path.
     obind (xattrwalk_fid rt path attr) (\<lambda>(fid, sz).
     then_clunk rt fid (read_all_fid rt fid sz)))"

definition client_list_xattrs :: "'t transport \<Rightarrow> string \<Rightarrow> ('t, string list) cop" where
  "client_list_xattrs rt name =
     obind (lift_res (validated_client_path ''listxattrs'' name)) (\<lambda>path.
     obind (xattrwalk_fid rt path '''') (\<lambda>(fid, sz).
     then_clunk rt fid (
       obind (read_all_fid rt fid sz) (\<lambda>data. lift_res (decode_xattr_names data)))))"

definition client_ops :: "nat \<Rightarrow> 't transport \<Rightarrow> ('t client, ninep_file) filesystem" where
  "client_ops fuel rt =
     \<lparr>fs_file = ninep_handle fuel rt, fs_open = client_open rt, fs_stat = client_stat rt,
      fs_lstat = client_lstat rt, fs_read_dir = client_read_dir fuel rt,
      fs_create = client_create rt, fs_open_file = client_open_file rt,
      fs_mkdir = client_mkdir rt, fs_remove = client_remove rt, fs_rename = client_rename rt,
      fs_link = client_link rt, fs_chmod = client_chmod rt, fs_chown = client_chown rt,
      fs_chtimes = client_chtimes rt, fs_truncate = client_truncate rt,
      fs_symlink = client_symlink rt, fs_readlink = client_readlink rt,
      fs_set_xattr = client_set_xattr rt, fs_get_xattr = client_get_xattr rt,
      fs_list_xattrs = client_list_xattrs rt, fs_remove_xattr = (\<lambda>_ _. not_supported),
      fs_sync_fs = ret ()\<rparr>"

section \<open>Transports\<close>

definition loopback :: "('s, 'h) filesystem \<Rightarrow> ('s, 'h) server transport" where
  "loopback fs request = handle_frame fs request"

definition stream_transport :: "(read_event list \<times> writer) transport" where
  "stream_transport request = (\<lambda>(rd, wr).
     case write_frame request wr of
       (Inl e, wr') \<Rightarrow> (Inl e, (rd, wr'))
     | (Inr _, wr') \<Rightarrow>
         (case read_frame rd of
            (Inl e, rd') \<Rightarrow> (Inl e, (rd', wr'))
          | (Inr None, rd') \<Rightarrow> (Err (Kind UnexpectedEof), (rd', wr'))
          | (Inr (Some f), rd') \<Rightarrow> (Ok f, (rd', wr'))))"

end
