(* ===== verification/Client_Laws.thy ===== *)
theory Client_Laws
  imports Ninep_Client
begin

text \<open>
  The client over the loopback transport: a call is the server's handler applied to the request,
  with errors reduced to their numbers; the path operations leave no fid behind on the server; and
  what the client's \<open>stat\<close> and directory reading return is what the exported file system holds.
\<close>

section \<open>One call\<close>

definition wire_error :: "'a res \<Rightarrow> 'a res" where
  "wire_error r = (case r of Inl (Fail e) \<Rightarrow> Err (errno_to_error (errno_for_error e)) | _ \<Rightarrow> r)"

text \<open>The handler, with the error the client will see.\<close>

definition direct :: "('s, 'h) filesystem \<Rightarrow> nine_p_request \<Rightarrow> ('s, 'h, nine_p_response) sop" where
  "direct fs req = (\<lambda>sv. case handle fs req sv of (r, sv') \<Rightarrow> (wire_error r, sv'))"

definition request_fits :: "nine_p_request \<Rightarrow> bool" where
  "request_fits req \<longleftrightarrow> (case request_body req of Inr (typ, body) \<Rightarrow> 7 + length body < 4294967296 | _ \<Rightarrow> False)"

definition response_fits :: "nine_p_response \<Rightarrow> bool" where
  "response_fits resp \<longleftrightarrow> (case response_body resp of Inr (typ, body) \<Rightarrow> 7 + length body < 4294967296 | _ \<Rightarrow> False)"

lemma fits_request: "request_fits req \<Longrightarrow> \<exists>frame. encode_request tag req = Ok frame"
  by (auto simp: request_fits_def encode_request_def encode_frame_iff split: sum.splits)

lemma fits_response: "response_fits resp \<longleftrightarrow> (\<exists>out. encode_response tag resp = Ok out)"
  by (auto simp: response_fits_def encode_response_def encode_frame_iff split: sum.splits)

lemma fits_error: "response_fits (RLerror e)"
  by (simp add: response_fits_def put_u32_def)

definition next_call :: "'t client \<Rightarrow> 't client" where
  "next_call c = snd (alloc_tag c)"

lemma alloc_tag_run: "alloc_tag c = (Ok (if cl_next_tag c = NOTAG then 0 else cl_next_tag c), next_call c)"
  by (auto simp: next_call_def alloc_tag_def fetch_add_tag_def obind_def NOTAG_def)

lemma next_call_fields [simp]:
  "cl_transport (next_call c) = cl_transport c" "cl_msize (next_call c) = cl_msize c"
  "cl_next_fid (next_call c) = cl_next_fid c" "cl_root_fid (next_call c) = cl_root_fid c"
  by (auto simp: next_call_def alloc_tag_def fetch_add_tag_def obind_def)

definition answer_ok :: "nine_p_response res \<Rightarrow> bool" where
  "answer_ok r \<longleftrightarrow> (\<forall>resp. r = Ok resp \<longrightarrow> wf_response resp \<and> response_fits resp)"

lemma answers_not_lerror: "\<not> answers req (RLerror e)"
  by (cases req) (simp_all add: answers_def)

lemma handle_not_lerror: "fst (handle fs req sv) \<noteq> Ok (RLerror e)"
  using handle_answers answers_not_lerror by blast

lemma encodes_and_decodes:
  "response_fits resp \<Longrightarrow> wf_response resp \<Longrightarrow>
     \<exists>out. encode_response tag resp = Ok out \<and> decode_response out = Ok (tag, resp)"
  using response_decodes fits_response [of resp tag] by blast

lemma loopback_frame:
  assumes "decode_request frame = Ok (tag, req)"
  shows "handle fs req sv = (Ok resp, sv') \<Longrightarrow> response_fits resp \<Longrightarrow> wf_response resp \<Longrightarrow>
      \<exists>out. handle_frame fs frame sv = (Ok out, sv') \<and> decode_response out = Ok (tag, resp)"
    and "handle fs req sv = (Err e, sv') \<Longrightarrow>
      \<exists>out. handle_frame fs frame sv = (Ok out, sv') \<and> decode_response out = Ok (tag, RLerror (errno_for_error e))"
    and "handle fs req sv = (Inl f, sv') \<Longrightarrow> f \<noteq> Fail e' \<Longrightarrow> is_fault (Inl f :: unit res) \<Longrightarrow>
      handle_frame fs frame sv = (Inl f, sv')"
  using assms encodes_and_decodes [of resp tag]
    encodes_and_decodes [OF fits_error, of "errno_for_error e" tag]
  by (auto simp: handle_frame_def obind_def attempt_def is_fault_def split: fault.splits)

lemma loopback_call:
  assumes "wf_request req" "request_fits req" "answer_ok (fst (handle fs req (cl_transport c)))"
  shows "client_call (loopback fs) req c = on_transport (direct fs req) (next_call c)"
proof -
  define tag where "tag = (if cl_next_tag c = NOTAG then 0 else cl_next_tag c)"
  obtain frame where f: "encode_request tag req = Ok frame" using fits_request assms(2) by blast
  note d = request_decodes [OF assms(1) f]
  have sent: "client_call (loopback fs) req c =
      obind (on_transport (handle_frame fs frame)) (\<lambda>answer.
      obind (lift_res (decode_response answer)) (\<lambda>(response_tag, response).
      if response_tag \<noteq> tag then throw (Fail (Kind Invalid))
      else (case response of RLerror ecode \<Rightarrow> throw (Fail (errno_to_error ecode)) | _ \<Rightarrow> ret response)))
      (next_call c)"
    using f by (simp add: client_call_def obind_Ok [OF alloc_tag_run] tag_def loopback_def)
  obtain r sv' where h: "handle fs req (cl_transport c) = (r, sv')" by (cases "handle fs req (cl_transport c)")
  show ?thesis
  proof (cases r)
    case (Inr resp)
    then obtain out where "handle_frame fs frame (cl_transport c) = (Ok out, sv')" "decode_response out = Ok (tag, resp)"
      using loopback_frame(1) [OF d, of fs "cl_transport c"] h assms(3) by (auto simp: answer_ok_def)
    moreover have "\<forall>e. resp \<noteq> RLerror e"
      using handle_not_lerror [of fs req "cl_transport c"] h Inr by auto
    ultimately show ?thesis
      using h Inr
      by (cases resp) (simp_all add: sent on_transport_def direct_def wire_error_def obind_def)
  next
    case (Inl f)
    show ?thesis
    proof (cases f)
      case (Fail e)
      then obtain out where "handle_frame fs frame (cl_transport c) = (Ok out, sv')"
        "decode_response out = Ok (tag, RLerror (errno_for_error e))"
        using loopback_frame(2) [OF d, of fs "cl_transport c"] h Inl by auto
      then show ?thesis
        using h Inl Fail by (simp add: sent on_transport_def direct_def wire_error_def obind_def)
    next
      case Panic
      then show ?thesis
        using loopback_frame(3) [OF d, of fs "cl_transport c" f sv'] h Inl
        by (simp add: sent on_transport_def direct_def wire_error_def obind_def is_fault_def)
    next
      case Diverge
      then show ?thesis
        using loopback_frame(3) [OF d, of fs "cl_transport c" f sv'] h Inl
        by (simp add: sent on_transport_def direct_def wire_error_def obind_def is_fault_def)
    qed
  qed
qed

section \<open>The strings of a path\<close>

definition path_str :: "string \<Rightarrow> bool" where
  "path_str p \<longleftrightarrow> (\<forall>x \<in> set (split_on slash p). valid_str x)"

lemma valid_str_path: "valid_str s \<Longrightarrow> path_str s"
  unfolding path_str_def using valid_str_split_on [of s slash] by simp

lemma path_str_dot [simp]: "path_str ''.''"
  by (rule valid_str_path, rule valid_str_ascii) simp

lemma clean_parts_subset: "set (clean_parts acc ps) \<subseteq> set acc \<union> set ps"
  by (induction acc ps rule: clean_parts.induct) (auto dest: in_set_butlastD)

lemma path_str_clean:
  assumes "path_str p"
  shows "path_str (clean_path p)"
proof (cases "clean_path p = ''.''")
  case False
  let ?ps = "clean_parts [] (split_on slash p)"
  have good: "\<forall>q \<in> set ?ps. good_part q"
    by (rule clean_parts_good) (auto dest: split_on_no_sep)
  have ne: "?ps \<noteq> []" using False by (auto simp: clean_path_def Let_def split: if_splits)
  with good have g: "good_parts ?ps" by (simp add: good_parts_def)
  then obtain c s where "join_on slash ?ps = c # s" "c \<noteq> slash" by (metis join_good_hd)
  then have "clean_path p = join_on slash ?ps"
    using False by (auto simp: clean_path_def Let_def trim_start_char_def split: if_splits)
  then show ?thesis
    using assms g clean_parts_subset [of "[]" "split_on slash p"]
    by (auto simp: path_str_def good_parts_split)
qed simp

lemma path_str_parent:
  assumes "valid_path p" "path_str p"
  shows "path_str (parent_path p)"
proof (cases "p = ''.''")
  case True
  then show ?thesis by (simp add: parent_path_def)
next
  case False
  obtain ps where g: "good_parts ps" and p: "p = join_on slash ps"
    using assms(1) False valid_path_form by blast
  then obtain qs q where ps: "ps = qs @ [q]" by (cases ps rule: rev_cases) (auto simp: good_parts_def)
  have "parent_path p = (if qs = [] then ''.'' else join_on slash qs)"
    using parent_join g p ps by simp
  moreover have "path_str (join_on slash qs)" if "qs \<noteq> []"
    using assms(2) g ps good_parts_split [of qs] good_parts_butlast [of qs q] that
    by (auto simp: path_str_def p good_parts_split)
  ultimately show ?thesis by simp
qed

lemma valid_str_base: "path_str p \<Longrightarrow> valid_str (base_name p)"
  by (simp add: path_str_def base_name_def)

lemma validated_path:
  assumes "validated_client_path what name = Ok p" "path_str name"
  shows "valid_path p" "path_str p"
  using assms path_str_clean by (auto simp: validated_client_path_def Let_def split: if_splits)

section \<open>No fid is left behind\<close>

abbreviation fids_of :: "('s, 'h) server client \<Rightarrow> u32 \<Rightarrow> 'h fid_state option" where
  "fids_of c \<equiv> sv_fids (cl_transport c)"

text \<open>
  Whatever becomes of the answer, the server has handled the request, or the request was too
  large to be sent.
\<close>

lemma handle_frame_state:
  assumes "decode_request frame = Ok (tag, req)"
  shows "snd (handle_frame fs frame sv) = snd (handle fs req sv)"
  using assms by (auto simp: handle_frame_def obind_def attempt_def split: prod.splits sum.splits fault.splits)

lemma snd_obind_pure: "(\<And>x t. snd (f x t) = t) \<Longrightarrow> snd (obind m f t) = snd (m t)"
  by (auto simp: obind_snd split: sum.splits)

lemma client_call_state:
  assumes "wf_request req"
  shows "cl_transport (snd (client_call (loopback fs) req c)) \<in>
      {cl_transport c, snd (handle fs req (cl_transport c))}"
    "request_fits req \<Longrightarrow>
      cl_transport (snd (client_call (loopback fs) req c)) = snd (handle fs req (cl_transport c))"
    "cl_next_fid (snd (client_call (loopback fs) req c)) = cl_next_fid c"
proof -
  define tag where "tag = (if cl_next_tag c = NOTAG then 0 else cl_next_tag c)"
  have st: "snd (client_call (loopback fs) req c) =
      (case encode_request tag req of
         Inl _ \<Rightarrow> next_call c
       | Inr frame \<Rightarrow> (next_call c)\<lparr>cl_transport := snd (handle fs req (cl_transport c))\<rparr>)"
  proof (cases "encode_request tag req")
    case (Inl e)
    then show ?thesis by (simp add: client_call_def alloc_tag_run tag_def obind_def)
  next
    case (Inr frame)
    then have "snd (client_call (loopback fs) req c) = snd (on_transport (handle_frame fs frame) (next_call c))"
      unfolding client_call_def obind_Ok [OF alloc_tag_run] tag_def [symmetric]
      by (simp add: loopback_def)
         (rule snd_obind_pure, simp add: obind_snd split: sum.splits prod.splits nine_p_response.splits)
    then show ?thesis
      using Inr handle_frame_state [OF request_decodes [OF assms Inr], of fs "cl_transport c"]
      by (simp add: on_transport_def split: prod.splits)
  qed
  show "cl_transport (snd (client_call (loopback fs) req c)) \<in>
      {cl_transport c, snd (handle fs req (cl_transport c))}"
    unfolding st by (simp split: sum.splits)
  show "request_fits req \<Longrightarrow>
      cl_transport (snd (client_call (loopback fs) req c)) = snd (handle fs req (cl_transport c))"
    using fits_request [of req tag] unfolding st by auto
  show "cl_next_fid (snd (client_call (loopback fs) req c)) = cl_next_fid c"
    unfolding st by (simp split: sum.splits)
qed

definition other_fids :: "u32 \<Rightarrow> (u32 \<Rightarrow> 'h fid_state option) \<Rightarrow> ('s, 'h) server client \<Rightarrow> bool" where
  "other_fids fid F c \<longleftrightarrow> (\<forall>k. k \<noteq> fid \<longrightarrow> fids_of c k = F k)"

lemma other_fids_call:
  assumes "wf_request req" "bound_fids req \<subseteq> {fid}"
  shows "keeps (other_fids fid F) (client_call (loopback fs) req)"
proof -
  have "sv_fids (snd (handle fs req sv)) k = sv_fids sv k" if "k \<noteq> fid" for k sv
    using keeps_apply [OF handle_frame_fid [of k req "sv_fids sv k" fs], of sv] assms(2) that by auto
  then show ?thesis
    using client_call_state(1) [OF assms(1), of fs] unfolding keeps_def other_fids_def
    by (metis insertE singletonD)
qed

lemma keeps_expect [keeps_intros]: "keeps P (expect pick r)"
  unfolding expect_def by (intro keeps_intros)

lemma other_fids_call_for:
  assumes "wf_request req" "bound_fids req \<subseteq> {fid}"
  shows "keeps (other_fids fid F) (call_for (loopback fs) req pick)"
  unfolding call_for_def by (intro keeps_intros other_fids_call [OF assms])

lemma clunk_fits: "request_fits (TClunk fid)"
  by (simp add: request_fits_def put_u32_def)

lemma clunk_state: "fids_of (snd (clunk_fid (loopback fs) fid c)) fid = None"
proof -
  have "sv_fids (snd (srv_clunk fs fid sv)) fid = None" for sv
    unfolding srv_clunk_def by (rule fid_dropped) (intro frame_intros)
  then have "sv_fids (snd (handle fs (TClunk fid) sv)) fid = None" for sv
    by (simp add: obind_snd split: sum.split)
  moreover have "snd (clunk_fid (loopback fs) fid c) = snd (client_call (loopback fs) (TClunk fid) c)"
    unfolding clunk_fid_def call_for_def expect_def by (auto simp: obind_snd split: sum.splits option.splits)
  ultimately show ?thesis using client_call_state(2) [OF _ clunk_fits, of fid fs c] by simp
qed

lemma obind_assoc: "obind (obind m f) g = obind m (\<lambda>x. obind (f x) g)"
  by (auto simp: obind_def fun_eq_iff split: prod.splits sum.splits)

lemma obind_Inl_left:
  "obind m g t = (Inl e, t') \<Longrightarrow> (\<And>x t. \<exists>y t'. g x t = (Inr y, t')) \<Longrightarrow> m t = (Inl e, t')"
  by (cases "m t") (auto simp: obind_def split: sum.splits, metis Inl_Inr_False prod.inject)

text \<open>A walk that fails leaves its new fid as it was, and one that succeeds answers.\<close>

lemma srv_walk_Inl:
  assumes "handle fs (TWalk fid newfid names) sv = (Inl e, sv')"
  shows "sv_fids sv' newfid = sv_fids sv newfid"
proof -
  let ?m = "obind (gets (\<lambda>sv. sv_fids sv newfid)) (\<lambda>nst.
     obind (guard (\<not> (newfid \<noteq> fid \<and> nst \<noteq> None)) Invalid) (\<lambda>_.
     obind (fid_path fid) (\<lambda>base. walk_names fs base [] names)))"
  let ?g = "\<lambda>(path, qids). obind (put_fid newfid (fid_unopened path)) (\<lambda>_. ret (RWalk qids))"
  have "obind ?m ?g sv = (Inl e, sv')"
    using assms unfolding handle.simps srv_walk_def obind_assoc .
  then have m: "?m sv = (Inl e, sv')"
    by (rule obind_Inl_left) (auto simp: put_fid_def obind_def)
  have k: "keeps (fid_is newfid (sv_fids sv newfid)) ?m" by (intro frame_intros)
  show ?thesis using keepsD [OF k refl m] .
qed

lemma put_qids:
  "\<exists>out. put_each (\<lambda>out q. Ok (encode_qid out q)) bs qs = Ok out \<and> length out = length bs + 13 * length qs"
proof (induction qs arbitrary: bs)
  case (Cons q qs)
  from Cons [of "encode_qid bs q"] show ?case
    by (auto simp: encode_qid_def put_u8_def put_u32_def put_u64_def)
qed simp

text \<open>The answer to a walk always fits into a frame, because the request did.\<close>

lemma walk_answers:
  assumes "handle fs (TWalk fid newfid names) sv = (Ok resp, sv')"
  shows "\<exists>qids. resp = RWalk qids \<and> length qids \<le> length names"
proof -
  have "srv_walk fs fid newfid names sv = (Ok resp, sv')" using assms by simp
  then obtain base p qids s1 s2 where "walk_names fs base [] names s1 = (Ok (p, qids), s2)" "resp = RWalk qids"
    unfolding srv_walk_def by (auto elim!: obind_okE)
  then show ?thesis using walk_names_result by force
qed

lemma walk_answer_ok:
  assumes "request_fits (TWalk fid newfid names)"
  shows "answer_ok (fst (handle fs (TWalk fid newfid names) sv))"
proof -
  have n: "length names < 65536"
    using assms by (auto simp: request_fits_def rbind_def try_u16_def split: sum.splits if_splits)
  have f: "response_fits (RWalk qids)" if "length qids < 65536" for qids
    using put_qids [of "put_u16 [] (of_nat (length qids))" qids] that
    by (auto simp: response_fits_def try_u16_def put_u16_def)
  show ?thesis unfolding answer_ok_def
  proof (intro allI impI)
    fix resp
    assume "fst (handle fs (TWalk fid newfid names) sv) = Ok resp"
    then have "handle fs (TWalk fid newfid names) sv = (Ok resp, snd (handle fs (TWalk fid newfid names) sv))"
      by (simp add: prod_eq_iff)
    then obtain qids where "resp = RWalk qids" "length qids \<le> length names" using walk_answers by blast
    then show "wf_response resp \<and> response_fits resp" using f n by simp
  qed
qed

lemma fault_cases: "\<not> is_fault r \<longleftrightarrow> (\<exists>x. r = Inr x) \<or> (\<exists>e. r = Err e)"
  by (cases r) (auto simp: is_fault_def split: fault.splits)

lemma unsent:
  assumes "\<not> request_fits req"
  shows "\<exists>e. client_call rt req c = (Inl e, next_call c)"
proof -
  define tag where "tag = (if cl_next_tag c = NOTAG then 0 else cl_next_tag c)"
  have "\<exists>e. encode_request tag req = Inl e"
    using assms by (cases "encode_request tag req")
      (auto simp: request_fits_def encode_request_def rbind_eq_Inr encode_frame_iff)
  then show ?thesis by (auto simp: client_call_def alloc_tag_run tag_def obind_def)
qed

text \<open>The outcome of a call over the loopback that neither panics nor diverges.\<close>

lemma call_outcome:
  assumes "wf_request req" "client_call (loopback fs) req c = (r, c')" "\<not> is_fault r"
    and "answer_ok (fst (handle fs req (cl_transport c)))"
  shows "(\<exists>resp. r = Ok resp \<and> handle fs req (cl_transport c) = (Ok resp, cl_transport c')) \<or>
    (\<exists>e e'. r = Err e \<and> handle fs req (cl_transport c) = (Err e', cl_transport c')) \<or>
    (\<exists>e. r = Err e \<and> cl_transport c' = cl_transport c)"
proof (cases "request_fits req")
  case True
  obtain h sv where h: "handle fs req (cl_transport c) = (h, sv)" by (cases "handle fs req (cl_transport c)")
  then have "r = wire_error h" "cl_transport c' = sv"
    using assms(2) loopback_call [OF assms(1) True assms(4)] by (auto simp: on_transport_def direct_def)
  then show ?thesis
    using h assms(3) by (cases h) (auto simp: wire_error_def is_fault_def split: fault.splits)
next
  case False
  then show ?thesis
    using unsent [OF False, of "loopback fs" c] assms(2,3) by (auto simp: fault_cases)
qed

lemma discard_fids: "keeps P m \<Longrightarrow> keeps P (discard m)"
  unfolding discard_def by (intro keeps_intros)

definition tables_agree :: "('s, 'h) server client \<Rightarrow> ('s, 'h) server client \<Rightarrow> bool" where
  "tables_agree c c' \<longleftrightarrow> fids_of c' = fids_of c"

lemma walk_call_unbound:
  assumes "client_call (loopback fs) (TWalk root fid names) c = (r, c')" "\<not> is_fault r"
    and "\<forall>x \<in> set names. valid_str x" "fids_of c fid = None"
  shows "r = Err e \<Longrightarrow> fids_of c' fid = None" "r = Ok resp \<Longrightarrow> \<exists>qids. resp = RWalk qids"
proof -
  have wf: "wf_request (TWalk root fid names)" using assms(3) by simp
  have "(r = Err e \<longrightarrow> fids_of c' fid = None) \<and> (r = Ok resp \<longrightarrow> (\<exists>qids. resp = RWalk qids))"
  proof (cases "request_fits (TWalk root fid names)")
    case True
    from call_outcome [OF wf assms(1,2) walk_answer_ok [OF True]] show ?thesis
      using srv_walk_Inl [of fs root fid names "cl_transport c"] walk_answers assms(4)
      by (elim disjE exE conjE) (fastforce simp del: handle.simps)+
  next
    case False
    then show ?thesis using unsent [OF False, of "loopback fs" c] assms(1,4) by auto
  qed
  then show "r = Err e \<Longrightarrow> fids_of c' fid = None" "r = Ok resp \<Longrightarrow> \<exists>qids. resp = RWalk qids" by blast+
qed

lemma path_names_str: "path_str p \<Longrightarrow> x \<in> set (path_names p) \<Longrightarrow> valid_str x"
  by (auto simp: path_names_def path_str_def split: if_splits)

lemma walk_fid_run:
  assumes "validated_client_path ''walk'' name = Ok p"
  shows "walk_fid rt name c =
    obind (client_call rt (TWalk (cl_root_fid c) (cl_next_fid c) (path_names p)))
      (walk_answer rt p (cl_next_fid c) (length (path_names p))) (c\<lparr>cl_next_fid := cl_next_fid c + 1\<rparr>)"
  using assms by (simp add: walk_fid_def obind_run alloc_fid_def)

lemma other_fids_eq: "other_fids fid F c \<Longrightarrow> fids_of c fid = F fid \<Longrightarrow> fids_of c = F"
  by (rule ext) (metis other_fids_def)

lemma discard_run: "\<not> is_fault (fst (discard m c)) \<Longrightarrow> snd (discard m c) = snd (m c)"
  by (auto simp: discard_def attempt_def obind_def is_fault_def split: prod.splits sum.splits fault.splits)

lemma walk_answer_fids:
  assumes "walk_answer (loopback fs) p fid n (RWalk qids) c = (r, c')" "\<not> is_fault r"
    and "other_fids fid F c" "F fid = None"
  shows "other_fids fid F c'" "r = Ok fid' \<Longrightarrow> fid' = fid" "r = Err e \<Longrightarrow> fids_of c' = F"
proof -
  let ?clunk = "clunk_fid (loopback fs) fid"
  have keep: "keeps (other_fids fid F) ?clunk"
    unfolding clunk_fid_def by (rule other_fids_call_for) simp_all
  have "other_fids fid F c' \<and> (r = Ok fid' \<longrightarrow> fid' = fid) \<and> (r = Err e \<longrightarrow> fids_of c' = F)"
  proof (cases "length qids = n")
    case True
    then show ?thesis using assms by (auto simp: walk_answer_def)
  next
    case False
    then have run: "obind (discard ?clunk) (\<lambda>_. throw (Fail (Path ''walk'' p NotFound))) c = (r, c')"
      using assms(1) by (simp add: walk_answer_def)
    have nf: "\<not> is_fault (fst (discard ?clunk c))"
      using run assms(2) by (auto simp: obind_def is_fault_def split: prod.splits sum.splits fault.splits)
    have c': "c' = snd (?clunk c)"
      using run discard_run [OF nf] by (auto simp: obind_def split: prod.splits sum.splits)
    have "other_fids fid F c'" using keeps_apply [OF keep assms(3)] c' by simp
    moreover have "fids_of c' fid = F fid" using clunk_state [of fs fid c] c' assms(4) by simp
    moreover have "\<exists>e. r = Inl e" using run by (auto simp: obind_def split: prod.splits sum.splits)
    ultimately show ?thesis using other_fids_eq by blast
  qed
  then show "other_fids fid F c'" "r = Ok fid' \<Longrightarrow> fid' = fid" "r = Err e \<Longrightarrow> fids_of c' = F" by blast+
qed

lemma walk_fid_fids:
  assumes "walk_fid (loopback fs) name c = (r, c')" "\<not> is_fault r" "path_str name"
    and "fids_of c (cl_next_fid c) = None"
  shows "other_fids (cl_next_fid c) (fids_of c) c'"
    "r = Ok fid \<Longrightarrow> fid = cl_next_fid c" "r = Err e \<Longrightarrow> fids_of c' = fids_of c"
proof -
  let ?fid = "cl_next_fid c" and ?c1 = "c\<lparr>cl_next_fid := cl_next_fid c + 1\<rparr>"
  have "other_fids ?fid (fids_of c) c' \<and> (r = Ok fid \<longrightarrow> fid = ?fid) \<and> (r = Err e \<longrightarrow> fids_of c' = fids_of c)"
  proof (cases "validated_client_path ''walk'' name")
    case (Inl f)
    then show ?thesis using assms(1) by (auto simp: walk_fid_def obind_def other_fids_def)
  next
    case (Inr p)
    let ?req = "TWalk (cl_root_fid c) ?fid (path_names p)"
    have ns: "\<forall>x \<in> set (path_names p). valid_str x"
      using path_names_str [OF validated_path(2) [OF Inr assms(3)]] by blast
    have keep: "keeps (other_fids ?fid (fids_of c)) (client_call (loopback fs) ?req)"
      using ns by (intro other_fids_call) simp_all
    obtain a c2 where call: "client_call (loopback fs) ?req ?c1 = (a, c2)"
      by (cases "client_call (loopback fs) ?req ?c1")
    have o2: "other_fids ?fid (fids_of c) c2"
      using keepsD [OF keep _ call] by (simp add: other_fids_def)
    note run = walk_fid_run [OF Inr, of "loopback fs" c]
    show ?thesis
    proof (cases a)
      case (Inl f)
      then have r: "r = Inl f" "c' = c2" using assms(1) run call by (auto simp: obind_def)
      then obtain e' where "a = Err e'" using assms(2) Inl by (auto simp: fault_cases)
      then have "fids_of c2 ?fid = fids_of c ?fid"
        using walk_call_unbound(1) [OF call _ ns] assms(4) by (simp add: is_fault_def)
      then show ?thesis using r o2 other_fids_eq [OF o2] by simp
    next
      case (Inr resp)
      then obtain qids where "resp = RWalk qids"
        using walk_call_unbound(2) [OF call _ ns] assms(4) by (auto simp: is_fault_def)
      then have "walk_answer (loopback fs) p ?fid (length (path_names p)) (RWalk qids) c2 = (r, c')"
        using assms(1) run call Inr by (simp add: obind_def)
      from walk_answer_fids [OF this assms(2) o2 assms(4)] show ?thesis by blast
    qed
  qed
  then show "other_fids ?fid (fids_of c) c'" "r = Ok fid \<Longrightarrow> fid = ?fid" "r = Err e \<Longrightarrow> fids_of c' = fids_of c"
    by blast+
qed

lemma then_clunk_fids:
  assumes "then_clunk (loopback fs) fid m c = (r, c')" "\<not> is_fault r"
    and "keeps (other_fids fid F) m" "other_fids fid F c" "F fid = None"
  shows "fids_of c' = F"
proof -
  let ?clunk = "clunk_fid (loopback fs) fid"
  have keep: "keeps (other_fids fid F) ?clunk"
    unfolding clunk_fid_def by (rule other_fids_call_for) simp_all
  obtain a c1 where a: "attempt m c = (a, c1)" by (cases "attempt m c")
  then obtain x where x: "a = Ok x"
    using assms(1,2) unfolding then_clunk_def
    by (cases a) (auto simp: obind_def is_fault_def attempt_def split: prod.splits sum.splits fault.splits)
  obtain b where b: "attempt ?clunk c1 = (Ok b, c')"
    using assms(1,2) a x unfolding then_clunk_def
    by (auto simp: obind_def is_fault_def attempt_def split: prod.splits sum.splits fault.splits)
  have "other_fids fid F c1" using keepsD [OF keeps_attempt [OF assms(3)] assms(4) a] .
  then have "other_fids fid F c'" using keepsD [OF keeps_attempt [OF keep] _ b] by blast
  moreover have "c' = snd (?clunk c1)"
    using b by (auto simp: attempt_def split: prod.splits sum.splits fault.splits)
  then have "fids_of c' fid = None" by (simp add: clunk_state)
  ultimately show ?thesis using other_fids_eq assms(5) by metis
qed

text \<open>The shape of the path operations: walk to the path, one call on the new fid, clunk it.\<close>

lemma path_op_fids:
  assumes "obind (walk_fid (loopback fs) p) (\<lambda>fid. then_clunk (loopback fs) fid (m fid)) c = (r, c')"
    and "\<And>fid F. keeps (other_fids fid F) (m fid)"
    and "path_str p" "fids_of c (cl_next_fid c) = None" "\<not> is_fault r"
  shows "fids_of c' = fids_of c"
proof -
  obtain w c1 where w: "walk_fid (loopback fs) p c = (w, c1)" by (cases "walk_fid (loopback fs) p c")
  show ?thesis
  proof (cases w)
    case (Inl f)
    then have "r = Inl f" "c' = c1" using assms(1) w by (auto simp: obind_def)
    then show ?thesis
      using walk_fid_fids(3) [OF w _ assms(3,4)] Inl assms(5) by (auto simp: fault_cases)
  next
    case (Inr fid)
    have nf: "\<not> is_fault w" using Inr by (simp add: is_fault_def)
    have fid: "fid = cl_next_fid c" using walk_fid_fids(2) [OF w nf assms(3,4) Inr] .
    have o: "other_fids fid (fids_of c) c1" using walk_fid_fids(1) [OF w nf assms(3,4)] fid by simp
    have "then_clunk (loopback fs) fid (m fid) c1 = (r, c')" using assms(1) w Inr by (simp add: obind_def)
    from then_clunk_fids [OF this assms(5,2) o] show ?thesis using assms(4) fid by simp
  qed
qed

lemma getattr_keeps: "keeps (other_fids fid F) (getattr_fid (loopback fs) fid path)"
  unfolding getattr_fid_def by (intro keeps_intros other_fids_call_for) simp_all

lemma lift_fids:
  assumes "obind (lift_res r0) f c = (r, c')" "\<And>p. r0 = Ok p \<Longrightarrow> f p c = (r, c') \<Longrightarrow> fids_of c' = fids_of c"
  shows "fids_of c' = fids_of c"
  using assms by (cases r0) (auto simp: obind_def)

lemma stat_no_fid:
  assumes "client_stat (loopback fs) ctx name c = (r, c')" "\<not> is_fault r" "path_str name"
    and "fids_of c (cl_next_fid c) = None"
  shows "fids_of c' = fids_of c"
  using assms(1) unfolding client_stat_def
proof (rule lift_fids)
  fix p
  assume p: "validated_client_path ''stat'' name = Ok p"
    and r: "obind (walk_fid (loopback fs) p) (\<lambda>fid. then_clunk (loopback fs) fid (getattr_fid (loopback fs) fid p)) c = (r, c')"
  show "fids_of c' = fids_of c"
    by (rule path_op_fids [OF r getattr_keeps validated_path(2) [OF p assms(3)] assms(4,2)])
qed

lemma mkdir_no_fid:
  assumes "client_mkdir (loopback fs) name md c = (r, c')" "\<not> is_fault r" "path_str name"
    and "fids_of c (cl_next_fid c) = None"
  shows "fids_of c' = fids_of c"
  using assms(1) unfolding client_mkdir_def
proof (rule lift_fids)
  fix p
  assume p: "validated_client_path ''mkdir'' name = Ok p"
    and r: "(if p = ''.'' then throw (Fail (Path ''mkdir'' p Invalid))
      else obind (walk_fid (loopback fs) (parent_path p)) (\<lambda>fid. then_clunk (loopback fs) fid
        (call_for (loopback fs) (TMkdir fid (base_name p) (perm md) 0)
          (\<lambda>r. case r of RMkdir _ \<Rightarrow> Some () | _ \<Rightarrow> None)))) c = (r, c')"
  note v = validated_path [OF p assms(3)]
  show "fids_of c' = fids_of c"
  proof (cases "p = ''.''")
    case False
    then show ?thesis
      using r assms(2,4) path_str_parent [OF v] valid_str_base [OF v(2)]
      by (intro path_op_fids [where m = "\<lambda>fid. call_for (loopback fs) (TMkdir fid (base_name p) (perm md) 0)
          (\<lambda>r. case r of RMkdir _ \<Rightarrow> Some () | _ \<Rightarrow> None)"] other_fids_call_for) simp_all
  qed (use r in auto)
qed

lemma symlink_no_fid:
  assumes "client_symlink (loopback fs) target name c = (r, c')" "\<not> is_fault r" "path_str name" "valid_str target"
    and "fids_of c (cl_next_fid c) = None"
  shows "fids_of c' = fids_of c"
  using assms(1) unfolding client_symlink_def
proof (rule lift_fids)
  fix p
  assume p: "validated_client_path ''symlink'' name = Ok p"
    and r: "obind (walk_fid (loopback fs) (parent_path p)) (\<lambda>fid. then_clunk (loopback fs) fid
        (call_for (loopback fs) (TSymlink fid (base_name p) target 0)
          (\<lambda>r. case r of RSymlink _ \<Rightarrow> Some () | _ \<Rightarrow> None))) c = (r, c')"
  note v = validated_path [OF p assms(3)]
  show "fids_of c' = fids_of c"
    using r assms(2,4,5) path_str_parent [OF v] valid_str_base [OF v(2)]
    by (intro path_op_fids [where m = "\<lambda>fid. call_for (loopback fs) (TSymlink fid (base_name p) target 0)
        (\<lambda>r. case r of RSymlink _ \<Rightarrow> Some () | _ \<Rightarrow> None)"] other_fids_call_for) simp_all
qed

lemma readlink_no_fid:
  assumes "client_readlink (loopback fs) name c = (r, c')" "\<not> is_fault r" "path_str name"
    and "fids_of c (cl_next_fid c) = None"
  shows "fids_of c' = fids_of c"
  by (rule path_op_fids [OF assms(1) [unfolded client_readlink_def] _ assms(3,4,2)])
     (rule other_fids_call_for; simp)

lemma set_attr_no_fid:
  assumes "client_set_attr (loopback fs) name a c = (r, c')" "\<not> is_fault r" "path_str name"
    and "fids_of c (cl_next_fid c) = None"
  shows "fids_of c' = fids_of c"
  by (rule path_op_fids [OF assms(1) [unfolded client_set_attr_def] _ assms(3,4,2)])
     (rule other_fids_call_for; simp)

text \<open>
  C20. One call over the loopback: the client gets exactly the response of the server's handler,
  an error arrives as the error its number stands for, the server's state is the handler's, and
  the client has spent one tag. The strings must be well-formed UTF-8, as every \<open>String\<close> is, and
  request and response must fit into a frame.
\<close>
theorem client_call_refines:
  assumes "wf_request req" and "request_fits req"
    and "answer_ok (fst (handle fs req (cl_transport c)))"
  shows "client_call (loopback fs) req c = on_transport (direct fs req) (next_call c)"
  by (rule loopback_call [OF assms])

theorem client_call_refines_witness:
  "fst (client_call (loopback null_fs) (TClunk 7) (client_new (server_new 0 () :: (unit, unit) server))) =
     Err (Kind Invalid)"
proof -
  let ?c = "client_new (server_new 0 () :: (unit, unit) server)"
  have "handle null_fs (TClunk 7) (cl_transport ?c) = (Err (Kind Invalid), cl_transport ?c)"
    by (simp add: client_new_def server_new_def srv_clunk_def fid_or_def obind_def)
  moreover have "errno_to_error (errno_for_error (Kind Invalid)) = Kind Invalid" by code_simp
  ultimately show ?thesis
    using client_call_refines [of "TClunk 7" null_fs ?c]
    by (simp add: clunk_fits answer_ok_def on_transport_def direct_def wire_error_def split: prod.splits del: handle.simps)
qed

text \<open>
  C21. No fid is left behind: a \<open>stat\<close>, \<open>mkdir\<close>, \<open>symlink\<close>, \<open>readlink\<close> or attribute change through the
  client, whether it succeeds or fails and whatever file system the server exports, leaves the
  server's fid table as it found it, provided the next fid the client hands out is free.
\<close>
theorem client_leaves_no_fid:
  assumes "valid_str name" and "valid_str target" and "fids_of c (cl_next_fid c) = None"
  shows "(client_stat (loopback fs) ctx name c = (r1, c1) \<and> \<not> is_fault r1 \<longrightarrow> fids_of c1 = fids_of c) \<and>
    (client_mkdir (loopback fs) name p c = (r2, c2) \<and> \<not> is_fault r2 \<longrightarrow> fids_of c2 = fids_of c) \<and>
    (client_symlink (loopback fs) target name c = (r3, c3) \<and> \<not> is_fault r3 \<longrightarrow> fids_of c3 = fids_of c) \<and>
    (client_readlink (loopback fs) name c = (r4, c4) \<and> \<not> is_fault r4 \<longrightarrow> fids_of c4 = fids_of c) \<and>
    (client_set_attr (loopback fs) name a c = (r5, c5) \<and> \<not> is_fault r5 \<longrightarrow> fids_of c5 = fids_of c)"
proof (intro conjI impI; elim conjE)
  note str = valid_str_path [OF assms(1)]
  show "fids_of c1 = fids_of c" if "client_stat (loopback fs) ctx name c = (r1, c1)" "\<not> is_fault r1"
    using stat_no_fid [OF that str assms(3)] .
  show "fids_of c2 = fids_of c" if "client_mkdir (loopback fs) name p c = (r2, c2)" "\<not> is_fault r2"
    using mkdir_no_fid [OF that str assms(3)] .
  show "fids_of c3 = fids_of c" if "client_symlink (loopback fs) target name c = (r3, c3)" "\<not> is_fault r3"
    using symlink_no_fid [OF that str assms(2,3)] .
  show "fids_of c4 = fids_of c" if "client_readlink (loopback fs) name c = (r4, c4)" "\<not> is_fault r4"
    using readlink_no_fid [OF that str assms(3)] .
  show "fids_of c5 = fids_of c" if "client_set_attr (loopback fs) name a c = (r5, c5)" "\<not> is_fault r5"
    using set_attr_no_fid [OF that str assms(3)] .
qed

section \<open>What \<open>stat\<close> returns\<close>

text \<open>
  \<open>lstat\<close> answers \<open>md\<close> and changes nothing; a path is walkable when that holds of every prefix.
\<close>

definition lstat_is :: "('s, 'h) filesystem \<Rightarrow> 's \<Rightarrow> string \<Rightarrow> metadata \<Rightarrow> bool" where
  "lstat_is fs w q md \<longleftrightarrow> fs_lstat fs (no_follow context_new) q w = (Ok md, w)"

fun walkable :: "('s, 'h) filesystem \<Rightarrow> 's \<Rightarrow> string \<Rightarrow> string list \<Rightarrow> bool" where
  "walkable fs w base [] \<longleftrightarrow> True"
| "walkable fs w base (n # ns) \<longleftrightarrow>
     n \<noteq> '''' \<and> slash \<notin> set n \<and> (\<exists>md. lstat_is fs w (walk_join base n) md) \<and> walkable fs w (walk_join base n) ns"

lemma on_fs_qid: "lstat_is fs (sv_world sv) q md \<Longrightarrow> on_fs (qid_for fs q) sv = (Ok (qid_from_meta q md), sv)"
  by (simp add: lstat_is_def on_fs_def qid_for_def obind_def)

lemma walk_names_walkable:
  "walkable fs (sv_world sv) base ns \<Longrightarrow>
     \<exists>qs. walk_names fs base qids ns sv = (Ok (foldl walk_join base ns, qids @ qs), sv) \<and> length qs = length ns"
proof (induction ns arbitrary: base qids)
  case (Cons n ns)
  then obtain md where n: "n \<noteq> ''''" "slash \<notin> set n" "lstat_is fs (sv_world sv) (walk_join base n) md" by auto
  let ?q = "qid_from_meta (walk_join base n) md"
  obtain qs where "walk_names fs (walk_join base n) (qids @ [?q]) ns sv =
      (Ok (foldl walk_join (walk_join base n) ns, (qids @ [?q]) @ qs), sv)" "length qs = length ns"
    using Cons by fastforce
  then show ?case
    using n on_fs_qid [OF n(3)] by (intro exI [of _ "?q # qs"]) (simp add: attempt_def obind_def Let_def)
qed simp

lemma srv_walk_walkable:
  assumes "sv_fids sv root = Some st" "sv_fids sv fid = None" "walkable fs (sv_world sv) (fid_path_of st) ns"
  shows "\<exists>qs. handle fs (TWalk root fid ns) sv =
    (Ok (RWalk qs), sv\<lparr>sv_fids := (sv_fids sv)(fid \<mapsto> fid_unopened (foldl walk_join (fid_path_of st) ns))\<rparr>) \<and>
    length qs = length ns"
proof -
  obtain qs where "walk_names fs (fid_path_of st) [] ns sv = (Ok (foldl walk_join (fid_path_of st) ns, qs), sv)"
    "length qs = length ns"
    using walk_names_walkable [OF assms(3), of "[]"] by auto
  then show ?thesis
    using assms(1,2)
    by (intro exI [of _ qs]) (simp add: srv_walk_def guard_def fid_path_def fid_or_def put_fid_def obind_def)
qed

lemma validated_valid: "valid_path p \<Longrightarrow> validated_client_path what p = Ok p"
  by (auto simp: validated_client_path_def clean_valid Let_def valid_path_def list_all_iff starts_with_def
      split: if_splits)

lemma foldl_walk_join: "good_parts ns \<Longrightarrow> foldl walk_join ''.'' ns = join_on slash ns"
proof (induction ns rule: rev_induct)
  case (snoc n ns)
  have n: "good_part n" using snoc.prems by (simp add: good_parts_def)
  show ?case
  proof (cases "ns = []")
    case True
    then show ?thesis
      using n good_part_valid [OF n] by (simp add: walk_join_def join_path_def clean_valid good_part_def)
  next
    case False
    then have g: "good_parts ns" using snoc.prems good_parts_butlast by blast
    have "foldl walk_join ''.'' ns = join_on slash ns" using snoc.IH g by blast
    moreover have "walk_join (join_on slash ns) n = clean_path (join_on slash ns @ ''/'' @ n)"
      using n join_good_neq_dot [OF g] by (auto simp: walk_join_def join_path_def good_part_def)
    moreover have "join_on slash ns @ ''/'' @ n = join_on slash (ns @ [n])"
      using False by (simp add: join_on_snoc)
    ultimately show ?thesis using clean_join [OF snoc.prems] by simp
  qed
qed (simp add: good_parts_def)

lemma walked_path: "valid_path p \<Longrightarrow> foldl walk_join ''.'' (path_names p) = p"
  by (auto simp: valid_path_form path_names_def good_parts_split foldl_walk_join join_good_neq_dot)

text \<open>Bindings a walk adds and a clunk takes away again.\<close>

abbreviation with_fid :: "u32 \<Rightarrow> string \<Rightarrow> ('s, 'h) server \<Rightarrow> ('s, 'h) server" where
  "with_fid fid p sv \<equiv> sv\<lparr>sv_fids := (sv_fids sv)(fid \<mapsto> fid_unopened p)\<rparr>"

lemma clunk_with_fid:
  assumes "sv_fids sv fid = None"
  shows "handle fs (TClunk fid) (with_fid fid p sv) = (Ok RClunk, sv)"
proof -
  have "(sv_fids sv)(fid := None) = sv_fids sv" using assms by auto
  then show ?thesis
    by (simp add: srv_clunk_def fid_or_def drop_fid_def commit_xattr_if_ready_def fid_unopened_def obind_def)
qed

lemma call_ok:
  assumes "wf_request req" "request_fits req" "handle fs req (cl_transport c) = (Ok resp, sv')"
    and "wf_response resp" "response_fits resp"
  shows "client_call (loopback fs) req c = (Ok resp, (next_call c)\<lparr>cl_transport := sv'\<rparr>)"
  using loopback_call [OF assms(1,2), of fs c] assms(3-5)
  by (simp add: answer_ok_def on_transport_def direct_def wire_error_def)

lemma clunk_fid_ok:
  assumes "cl_transport c = with_fid fid p sv" "sv_fids sv fid = None"
  shows "\<exists>c'. clunk_fid (loopback fs) fid c = (Ok (), c') \<and> cl_transport c' = sv"
  using call_ok [of "TClunk fid" fs c RClunk sv] clunk_with_fid [OF assms(2), of fs p] assms(1)
  by (simp add: clunk_fits response_fits_def clunk_fid_def call_for_def expect_def got_def obind_def)

lemma walk_fid_ok:
  assumes "fids_of c (cl_root_fid c) = Some st" "fid_path_of st = ''.''" "fids_of c (cl_next_fid c) = None"
    and "valid_path p" "path_str p" "request_fits (TWalk (cl_root_fid c) (cl_next_fid c) (path_names p))"
    and "walkable fs (sv_world (cl_transport c)) ''.'' (path_names p)"
  shows "\<exists>c'. walk_fid (loopback fs) p c = (Ok (cl_next_fid c), c') \<and>
    cl_transport c' = with_fid (cl_next_fid c) p (cl_transport c)"
proof -
  let ?req = "TWalk (cl_root_fid c) (cl_next_fid c) (path_names p)"
    and ?c1 = "c\<lparr>cl_next_fid := cl_next_fid c + 1\<rparr>" and ?sv' = "with_fid (cl_next_fid c) p (cl_transport c)"
  obtain qs where h: "handle fs ?req (cl_transport c) = (Ok (RWalk qs), ?sv')" "length qs = length (path_names p)"
    using srv_walk_walkable [OF assms(1,3)] assms(2,7) walked_path [OF assms(4)] by fastforce
  have wf: "wf_request ?req" using path_names_str [OF assms(5)] by simp
  have "answer_ok (fst (handle fs ?req (cl_transport c)))" by (rule walk_answer_ok [OF assms(6)])
  then have "client_call (loopback fs) ?req ?c1 = (Ok (RWalk qs), (next_call ?c1)\<lparr>cl_transport := ?sv'\<rparr>)"
    using call_ok [OF wf assms(6), of fs ?c1 "RWalk qs" ?sv'] h by (simp add: answer_ok_def)
  then show ?thesis
    using walk_fid_run [OF validated_valid [OF assms(4)], of "loopback fs" c] h(2)
    by (simp add: walk_answer_def obind_def)
qed

lemma attr_for_pure:
  assumes "md_is_dir md \<Longrightarrow> \<exists>rd. fs_read_dir fs context_new p w = (rd, w) \<and> \<not> is_fault rd"
  shows "\<exists>a. attr_for fs p md msk w = (Ok a, w)"
proof (cases "md_is_dir md")
  case True
  with assms obtain rd where "fs_read_dir fs context_new p w = (rd, w)" "\<not> is_fault rd" by blast
  then show ?thesis using True
    by (auto simp: attr_for_def obind_def attempt_def is_fault_def split: prod.splits sum.splits fault.splits)
next
  case False
  then show ?thesis by (auto simp: attr_for_def obind_def split: prod.splits)
qed

lemma getattr_fits: "request_fits (TGetAttr fid msk)" "response_fits (RGetAttr a)"
  by (simp_all add: request_fits_def response_fits_def put_u32_def put_u64_def encode_attr_def encode_qid_def put_u8_def)

lemma getattr_fid_ok:
  assumes "cl_transport c = with_fid fid p sv" "lstat_is fs (sv_world sv) p md"
    and "attr_for fs p md ATTR_BASIC (sv_world sv) = (Ok a, sv_world sv)"
  shows "\<exists>c'. getattr_fid (loopback fs) fid p c = (metadata_from_attr p a, c') \<and> cl_transport c' = cl_transport c"
proof -
  have "handle fs (TGetAttr fid ATTR_BASIC) (cl_transport c) = (Ok (RGetAttr a), cl_transport c)"
    using assms
    by (simp add: srv_getattr_def fid_or_def fid_unopened_def on_fs_def lstat_is_def obind_def)
  from call_ok [OF _ getattr_fits(1) this _ getattr_fits(2)] show ?thesis
    by (simp add: getattr_fid_def call_for_def expect_def obind_def)
qed

lemma stat_ok:
  assumes "fids_of c (cl_root_fid c) = Some st" "fid_path_of st = ''.''" "fids_of c (cl_next_fid c) = None"
    and "valid_path p" "valid_str p" "request_fits (TWalk (cl_root_fid c) (cl_next_fid c) (path_names p))"
    and "walkable fs (sv_world (cl_transport c)) ''.'' (path_names p)"
    and "lstat_is fs (sv_world (cl_transport c)) p md"
    and "md_is_dir md \<Longrightarrow> \<exists>rd. fs_read_dir fs context_new p (sv_world (cl_transport c)) =
      (rd, sv_world (cl_transport c)) \<and> \<not> is_fault rd"
    and "md_mode md = kind OR from_perm q" "kind \<in> {0, MODE_DIR, MODE_SYMLINK, MODE_NAMED_PIPE, MODE_SOCKET}"
    and "0 \<le> md_modified md" "md_modified md < 2 ^ 63 * 1000000000"
  shows "\<exists>c'. client_stat (loopback fs) ctx p c = (Ok (md\<lparr>md_name := base_name p\<rparr>), c') \<and>
    cl_transport c' = cl_transport c"
proof -
  let ?fid = "cl_next_fid c" and ?sv = "cl_transport c"
  obtain c1 where w: "walk_fid (loopback fs) p c = (Ok ?fid, c1)" "cl_transport c1 = with_fid ?fid p ?sv"
    using walk_fid_ok [OF assms(1-4) valid_str_path [OF assms(5)] assms(6,7)] by blast
  obtain a where a: "attr_for fs p md ATTR_BASIC (sv_world ?sv) = (Ok a, sv_world ?sv)"
    using attr_for_pure [of md fs p "sv_world ?sv" ATTR_BASIC] assms(9) by blast
  have m: "metadata_from_attr p a = Ok (md\<lparr>md_name := base_name p\<rparr>)"
    by (rule attr_metadata [OF a assms(10-13)])
  obtain c2 where g: "getattr_fid (loopback fs) ?fid p c1 = (Ok (md\<lparr>md_name := base_name p\<rparr>), c2)"
    "cl_transport c2 = with_fid ?fid p ?sv"
    using getattr_fid_ok [OF w(2) assms(8) a] m w(2) by auto
  obtain c3 where k: "clunk_fid (loopback fs) ?fid c2 = (Ok (), c3)" "cl_transport c3 = ?sv"
    using clunk_fid_ok [OF g(2) assms(3)] by blast
  show ?thesis
    using w(1) g(1) k
    by (intro exI [of _ c3])
       (simp add: client_stat_def validated_valid [OF assms(4)] then_clunk_def attempt_def obind_def)
qed

text \<open>
  What \<open>stat\<close> returns over the loopback: if every prefix of the path exists, the client's
  \<open>stat\<close> succeeds and returns the metadata \<open>lstat\<close> gives on the exported file system, under the
  base name of the path, and the server is afterwards exactly as it was. Symbolic links are not
  followed, whatever the context asks for.
\<close>
lemma client_stat_returns:
  assumes "fids_of c (cl_root_fid c) = Some st" "fid_path_of st = ''.''" "fids_of c (cl_next_fid c) = None"
    and "valid_path p" "valid_str p" "request_fits (TWalk (cl_root_fid c) (cl_next_fid c) (path_names p))"
    and "walkable fs (sv_world (cl_transport c)) ''.'' (path_names p)"
    and "lstat_is fs (sv_world (cl_transport c)) p md"
    and "md_is_dir md \<Longrightarrow> \<exists>rd. fs_read_dir fs context_new p (sv_world (cl_transport c)) =
      (rd, sv_world (cl_transport c)) \<and> \<not> is_fault rd"
    and "md_mode md = kind OR from_perm q" "kind \<in> {0, MODE_DIR, MODE_SYMLINK, MODE_NAMED_PIPE, MODE_SOCKET}"
    and "0 \<le> md_modified md" "md_modified md < 2 ^ 63 * 1000000000"
  shows "\<exists>c'. client_stat (loopback fs) ctx p c = (Ok (md\<lparr>md_name := base_name p\<rparr>), c') \<and>
    cl_transport c' = cl_transport c"
  by (rule stat_ok [OF assms])

end
