(* ===== verification/Client_Readdir.thy ===== *)
theory Client_Readdir
  imports Client_Laws
begin

text \<open>
  Reading a directory through the client: the server packs as many entries as fit behind a cursor,
  the client asks again behind the last one, and together the pages are the whole listing. The
  exported file system is any whose listing and \<open>lstat\<close> of the entries answer without changing it.
\<close>

section \<open>A page\<close>

text \<open>
  The entries of a directory as the server sends them: the cursor of an entry is its position
  counted from one. \<open>meta_of\<close> gives the metadata \<open>lstat\<close> returns for each child.
\<close>

definition dirent_of :: "string \<Rightarrow> (string \<Rightarrow> metadata) \<Rightarrow> nat \<Rightarrow> dir_entry \<Rightarrow> nine_p_dirent" where
  "dirent_of path meta_of i e =
     \<lparr>dt_qid = qid_from_meta (join_path path (de_name e)) (meta_of (join_path path (de_name e))),
      dt_offset = of_nat i + 1, dt_typ = dirent_type (md_mode (de_meta e)), dt_name = de_name e\<rparr>"

fun dirents_from :: "string \<Rightarrow> (string \<Rightarrow> metadata) \<Rightarrow> nat \<Rightarrow> dir_entry list \<Rightarrow> nine_p_dirent list" where
  "dirents_from path meta_of i [] = []"
| "dirents_from path meta_of i (e # es) = dirent_of path meta_of i e # dirents_from path meta_of (Suc i) es"

lemma dirents_append:
  "dirents_from path meta_of i (xs @ ys) =
     dirents_from path meta_of i xs @ dirents_from path meta_of (i + length xs) ys"
  by (induction xs arbitrary: i) simp_all

lemma dirents_Nil [simp]: "dirents_from path meta_of i es = [] \<longleftrightarrow> es = []"
  by (cases es) simp_all

lemma last_dirent: "es \<noteq> [] \<Longrightarrow> dt_offset (last (dirents_from path meta_of i es)) = of_nat (i + length es)"
proof (induction es arbitrary: i)
  case (Cons e es)
  then show ?case by (cases "es = []") (simp_all add: dirent_of_def add.commute)
qed simp

lemma dirent_names: "set (map dt_name (dirents_from path meta_of i es)) = de_name ` set es"
  by (induction es arbitrary: i) (simp_all add: dirent_of_def)

text \<open>What a directory must satisfy to be read through: its listing and its entries answer.\<close>

definition readable_dir ::
    "('s, 'h) filesystem \<Rightarrow> 's \<Rightarrow> string \<Rightarrow> (string \<Rightarrow> metadata) \<Rightarrow> u32 \<Rightarrow> dir_entry list \<Rightarrow> bool" where
  "readable_dir fs w path meta_of count es \<longleftrightarrow>
     (\<forall>e \<in> set es. valid_str (de_name e) \<and> length (de_name e) < 65536 \<and>
        24 + length (de_name e) \<le> unat count \<and>
        lstat_is fs w (join_path path (de_name e)) (meta_of (join_path path (de_name e))))"

lemma encode_one:
  "length (dt_name d) < 65536 \<Longrightarrow> encode_dirents [d] = Ok (dirent_bytes d)"
  "length (dirent_bytes d) = 24 + length (dt_name d)"
  by (simp_all add: encode_dirents_def put_dirent_def put_bytes dirent_bytes_def)

lemma encode_all:
  "\<forall>d \<in> set ds. length (dt_name d) < 65536 \<Longrightarrow> encode_dirents ds = Ok (concat (map dirent_bytes ds))"
proof -
  have "\<forall>d \<in> set ds. length (dt_name d) < 65536 \<Longrightarrow>
      put_each put_dirent out ds = Ok (out @ concat (map dirent_bytes ds))" for out
  proof (induction ds arbitrary: out)
    case (Cons d ds)
    have "put_dirent out d = Ok (out @ dirent_bytes d)" using Cons.prems by (simp add: put_dirent_iff)
    then show ?case using Cons by simp
  qed simp
  then show "\<forall>d \<in> set ds. length (dt_name d) < 65536 \<Longrightarrow> ?thesis" by (simp add: encode_dirents_def)
qed

lemma cursor_le:
  assumes "Suc i < 2 ^ 64" "k < 2 ^ 64"
  shows "(of_nat i + 1 :: u64) \<le> of_nat k \<longleftrightarrow> Suc i \<le> k"
proof -
  have "unat (of_nat (Suc i) :: u64) = Suc i" using assms(1) by (simp add: unat_of_nat del: of_nat_Suc)
  moreover have "unat (of_nat k :: u64) = k" using assms(2) by (simp add: unat_of_nat)
  moreover have "(of_nat i + 1 :: u64) = of_nat (Suc i)" by simp
  ultimately show ?thesis by (simp add: word_le_nat_alt del: of_nat_Suc)
qed

lemma readdir_skip:
  assumes "i + length xs = k" "k < 2 ^ 64"
  shows "readdir_loop fs path (of_nat k) count i data (xs @ ys) = readdir_loop fs path (of_nat k) count k data ys"
  using assms
proof (induction xs arbitrary: i)
  case (Cons x xs)
  then have "(of_nat i + 1 :: u64) \<le> of_nat k" by (subst cursor_le) auto
  then show ?case using Cons.IH [of "Suc i"] Cons.prems by (simp add: Let_def)
qed simp

lemma readdir_page:
  assumes "readable_dir fs w path mo count es" "k \<le> i" "i + length es < 2 ^ 64" "length data \<le> unat count"
  shows "\<exists>m \<le> length es.
    readdir_loop fs path (of_nat k) count i data es w =
      (Ok (data @ concat (map dirent_bytes (dirents_from path mo i (take m es)))), w) \<and>
    length (data @ concat (map dirent_bytes (dirents_from path mo i (take m es)))) \<le> unat count \<and>
    (m = 0 \<longrightarrow> es \<noteq> [] \<longrightarrow> length data + 24 + length (de_name (hd es)) > unat count)"
  using assms
proof (induction es arbitrary: i data)
  case Nil
  then show ?case by simp
next
  case (Cons e es)
  let ?d = "dirent_of path mo i e" and ?q = "join_path path (de_name e)"
  have e: "length (de_name e) < 65536" "lstat_is fs w ?q (mo ?q)"
    using Cons.prems(1) by (auto simp: readable_dir_def)
  have q: "qid_for fs ?q w = (Ok (qid_from_meta ?q (mo ?q)), w)"
    using e(2) by (simp add: qid_for_def lstat_is_def obind_def)
  have enc: "encode_dirents [?d] = Ok (dirent_bytes ?d)" "length (dirent_bytes ?d) = 24 + length (de_name e)"
    using encode_one [of ?d] e(1) by (simp_all add: dirent_of_def)
  have cur: "\<not> (of_nat i + 1 :: u64) \<le> of_nat k" using Cons.prems(2,3) by (subst cursor_le) auto
  have step: "readdir_loop fs path (of_nat k) count i data (e # es) w =
      (if length data + length (dirent_bytes ?d) > unat count then (Ok data, w)
       else readdir_loop fs path (of_nat k) count (Suc i) (data @ dirent_bytes ?d) es w)"
    using cur q enc(1) by (simp add: Let_def obind_def dirent_of_def)
  show ?case
  proof (cases "length data + length (dirent_bytes ?d) > unat count")
    case True
    then show ?thesis using step Cons.prems(4) enc(2) by (intro exI [of _ 0]) simp
  next
    case False
    have "readable_dir fs w path mo count es" using Cons.prems(1) by (simp add: readable_dir_def)
    then obtain m where "m \<le> length es"
      "readdir_loop fs path (of_nat k) count (Suc i) (data @ dirent_bytes ?d) es w =
        (Ok ((data @ dirent_bytes ?d) @ concat (map dirent_bytes (dirents_from path mo (Suc i) (take m es)))), w)"
      "length ((data @ dirent_bytes ?d) @ concat (map dirent_bytes (dirents_from path mo (Suc i) (take m es)))) \<le> unat count"
      using Cons.IH [of "Suc i" "data @ dirent_bytes ?d"] Cons.prems(2,3) False by auto
    then show ?thesis using step False by (intro exI [of _ "Suc m"]) simp
  qed
qed

lemma readdir_at:
  assumes "readable_dir fs w path mo count es" "k \<le> length es" "length es < 2 ^ 64"
  shows "\<exists>m \<le> length es - k.
    readdir_loop fs path (of_nat k) count 0 [] es w =
      (Ok (concat (map dirent_bytes (dirents_from path mo k (take m (drop k es))))), w) \<and>
    length (concat (map dirent_bytes (dirents_from path mo k (take m (drop k es))))) \<le> unat count \<and>
    (m = 0 \<longrightarrow> k = length es)"
proof -
  have "readable_dir fs w path mo count (drop k es)"
    using assms(1) by (auto simp: readable_dir_def dest: in_set_dropD)
  moreover have "24 + length (de_name (hd (drop k es))) \<le> unat count" if "k < length es"
    using assms(1) that by (auto simp: readable_dir_def hd_drop_conv_nth)
  moreover have "readdir_loop fs path (of_nat k) count 0 [] es =
      readdir_loop fs path (of_nat k) count k [] (drop k es)"
    using readdir_skip [of 0 "take k es" k fs path count "[]" "drop k es"] assms(2,3) by simp
  ultimately show ?thesis
    using readdir_page [of fs w path mo count "drop k es" k k "[]"] assms(2,3)
    by (fastforce simp: not_less_iff_gr_or_eq)
qed

section \<open>All pages\<close>

definition entry_seen :: "dir_entry \<Rightarrow> dir_entry" where
  "entry_seen e =
     dir_entry_new (de_name e)
       \<lparr>md_name = de_name e, md_mode = mode_from_dirent_type (dirent_type (md_mode (de_meta e))),
        md_size = 0, md_modified = unix_epoch, md_uid = 0, md_gid = 0\<rparr>"

lemma entries_seen: "map entry_of_dirent (dirents_from path mo i es) = map entry_seen es"
  by (induction es arbitrary: i) (simp_all add: entry_of_dirent_def entry_seen_def dirent_of_def)

lemma readdir_call:
  assumes "fids_of c fid = Some st" "fid_path_of st = path"
    and "fs_read_dir fs context_new path (sv_world (cl_transport c)) = (Ok es, sv_world (cl_transport c))"
    and "readdir_loop fs path offset count 0 [] es (sv_world (cl_transport c)) = (Ok data, sv_world (cl_transport c))"
    and "11 + length data < 4294967296"
  shows "client_call (loopback fs) (TReaddir fid offset count) c = (Ok (RReaddir data), next_call c)"
proof -
  have "handle fs (TReaddir fid offset count) (cl_transport c) = (Ok (RReaddir data), cl_transport c)"
    using assms(1-4) by (simp add: srv_readdir_def fid_path_def fid_or_def on_fs_def obind_def)
  moreover have "request_fits (TReaddir fid offset count)"
    by (simp add: request_fits_def put_u32_def put_u64_def)
  moreover have "response_fits (RReaddir data)"
    using assms(5) by (simp add: response_fits_def put_counted_data_def try_u32_def put_u32_def)
  ultimately have "client_call (loopback fs) (TReaddir fid offset count) c =
      (Ok (RReaddir data), (next_call c)\<lparr>cl_transport := cl_transport c\<rparr>)"
    by (intro call_ok) simp_all
  moreover have "(next_call c)\<lparr>cl_transport := cl_transport c\<rparr> = next_call c"
    by (metis next_call_fields(1) client.surjective client.update_convs(5))
  ultimately show ?thesis by simp
qed

lemma read_dir_pages_rest:
  assumes "fids_of c fid = Some st" "fid_path_of st = path"
    and "fs_read_dir fs context_new path (sv_world (cl_transport c)) = (Ok es, sv_world (cl_transport c))"
    and "readable_dir fs (sv_world (cl_transport c)) path mo count es"
    and "k \<le> length es" "length es < 2 ^ 64" "unat count < 4294967285" "length es - k < fuel"
  shows "\<exists>c'. read_dir_pages fuel (loopback fs) fid count (of_nat k) acc c =
      (Ok (acc @ map entry_seen (drop k es)), c') \<and> cl_transport c' = cl_transport c"
  using assms
proof (induction fuel arbitrary: k acc c)
  case (Suc fuel)
  let ?w = "sv_world (cl_transport c)" and ?page = "\<lambda>m. dirents_from path mo k (take m (drop k es))"
  obtain m where m: "m \<le> length es - k"
    "readdir_loop fs path (of_nat k) count 0 [] es ?w = (Ok (concat (map dirent_bytes (?page m))), ?w)"
    "length (concat (map dirent_bytes (?page m))) \<le> unat count" "m = 0 \<longrightarrow> k = length es"
    using readdir_at [OF Suc.prems(4-6)] by blast
  let ?data = "concat (map dirent_bytes (?page m))"
  have call: "client_call (loopback fs) (TReaddir fid (of_nat k) count) c = (Ok (RReaddir ?data), next_call c)"
    using readdir_call [OF Suc.prems(1-3) m(2)] m(3) Suc.prems(7) by simp
  have run: "read_dir_pages (Suc fuel) (loopback fs) fid count (of_nat k) acc c =
      (if ?data = [] then (Ok acc, next_call c)
       else obind (lift_res (decode_dirents ?data)) (\<lambda>dirents.
         if dirents = [] then ret acc
         else read_dir_pages fuel (loopback fs) fid count (dt_offset (last dirents)) (acc @ map entry_of_dirent dirents))
         (next_call c))"
    using call by (simp add: call_for_def expect_def obind_def)
  show ?case
  proof (cases "m = 0")
    case True
    then show ?thesis using run m(4) by simp
  next
    case False
    have ne: "take m (drop k es) \<noteq> []" using False m(1) by auto
    then obtain d ds where "?page m = d # ds" by (metis dirents_Nil neq_Nil_conv)
    then have data: "?data \<noteq> []" by simp
    have names: "dt_name ` set (?page m) \<subseteq> de_name ` set es"
      using dirent_names [of path mo k "take m (drop k es)"] by (auto dest!: in_set_takeD in_set_dropD)
    have dec: "decode_dirents ?data = Ok (?page m)"
    proof (rule dirents_decode)
      show "\<forall>e \<in> set (?page m). valid_str (dt_name e)"
        using names Suc.prems(4) by (fastforce simp: readable_dir_def)
      show "encode_dirents (?page m) = Ok ?data"
        by (rule encode_all) (use names Suc.prems(4) in \<open>fastforce simp: readable_dir_def\<close>)
      show "length ?data \<le> isize_max" using m(3) Suc.prems(7) by (simp add: isize_max_def)
    qed
    have off: "dt_offset (last (?page m)) = of_nat (k + m)"
      using last_dirent [OF ne, of path mo k] m(1) by (simp add: min_absorb2)
    have "read_dir_pages (Suc fuel) (loopback fs) fid count (of_nat k) acc c =
        read_dir_pages fuel (loopback fs) fid count (of_nat (k + m))
          (acc @ map entry_seen (take m (drop k es))) (next_call c)"
      using run data dec ne off by (simp add: entries_seen obind_def)
    moreover have "k + m \<le> length es" "length es - (k + m) < fuel"
      using m(1) False Suc.prems(5,8) by linarith+
    then have "\<exists>c'. read_dir_pages fuel (loopback fs) fid count (of_nat (k + m))
          (acc @ map entry_seen (take m (drop k es))) (next_call c) =
          (Ok ((acc @ map entry_seen (take m (drop k es))) @ map entry_seen (drop (k + m) es)), c') \<and>
        cl_transport c' = cl_transport (next_call c)"
      using Suc.prems(1-4,6,7) by (intro Suc.IH) simp_all
    moreover have "map entry_seen (take m (drop k es)) @ map entry_seen (drop (k + m) es) = map entry_seen (drop k es)"
      by (metis add.commute append_take_drop_id drop_drop map_append)
    ultimately show ?thesis by auto
  qed
qed simp

text \<open>
  C22. Reading a directory over the loopback ends and returns the whole listing: every entry of
  the exported directory once, in order, with its name and its kind, after at most one page per
  entry and an empty one, whatever the page size, as long as each entry fits into a page. The
  server is afterwards exactly as it was.
\<close>
theorem client_reads_directory:
  assumes "fids_of c fid = Some st"
    and "fs_read_dir fs context_new (fid_path_of st) (sv_world (cl_transport c)) = (Ok es, sv_world (cl_transport c))"
    and "readable_dir fs (sv_world (cl_transport c)) (fid_path_of st) mo count es"
    and "length es < 2 ^ 64" and "unat count < 4294967285" and "length es < fuel"
  shows "\<exists>c'. read_dir_pages fuel (loopback fs) fid count 0 [] c = (Ok (map entry_seen es), c') \<and>
    cl_transport c' = cl_transport c"
  using read_dir_pages_rest [OF assms(1) refl assms(2,3) _ assms(4,5), of 0 fuel "[]"] assms(6) by simp

end
