(* ===== verification/Client_Memfs.thy ===== *)
theory Client_Memfs
  imports Client_Readdir Memfs_Corners Listing
begin

text \<open>
  The client, the server and the in-memory file system together: a client attached over the
  loopback to a server that exports a \<open>MemFs\<close> with one directory and one file. The runs here
  instantiate the laws of the client, and the last section shows a fid the client forgets.
\<close>

definition demo_fs :: memfs where
  "demo_fs = snd (memfs_create ''f'' (snd (memfs_mkdir ''d'' 0x1ED (memfs_new 5))))"

definition attached :: "memfs \<Rightarrow> (memfs, mem_file) server client" where
  "attached fs = client_new ((server_new 0 fs)\<lparr>sv_fids := [1 \<mapsto> fid_unopened ''.'']\<rparr>)"

lemma attached_fields [simp]:
  "fids_of (attached fs) = [1 \<mapsto> fid_unopened ''.'']"
  "cl_root_fid (attached fs) = 1" "cl_next_fid (attached fs) = 2"
  "sv_world (cl_transport (attached fs)) = fs"
  by (simp_all add: attached_def client_new_def server_new_def)

definition demo_meta :: "string \<Rightarrow> metadata" where
  "demo_meta q =
     (if q = ''d'' then metadata_dir ''d'' 0x1ED\<lparr>md_size := 2\<rparr> else metadata_file q 0x1A4 0)"

lemma demo_lstat:
  "lstat_is memfs_ops demo_fs ''f'' (demo_meta ''f'')" "lstat_is memfs_ops demo_fs ''d'' (demo_meta ''d'')"
proof -
  have pure: "snd (fs_lstat memfs_ops c q demo_fs) = demo_fs" for c q
    by (simp add: memfs_ops_def default_lstat_def)
  have "fst (fs_lstat memfs_ops (no_follow context_new) ''f'' demo_fs) = Ok (demo_meta ''f'')"
    "fst (fs_lstat memfs_ops (no_follow context_new) ''d'' demo_fs) = Ok (demo_meta ''d'')"
    by code_simp+
  then show "lstat_is memfs_ops demo_fs ''f'' (demo_meta ''f'')" "lstat_is memfs_ops demo_fs ''d'' (demo_meta ''d'')"
    using pure by (simp_all add: lstat_is_def prod_eq_iff)
qed

definition demo_entries :: "dir_entry list" where
  "demo_entries = map (\<lambda>q. dir_entry_new q (demo_meta q)) [''d'', ''f'']"

lemma demo_read_dir: "fs_read_dir memfs_ops context_new ''.'' demo_fs = (Ok demo_entries, demo_fs)"
proof -
  have n: "mf_node ''.'' demo_fs = Some 0" "md_is_dir (node_metadata 0 demo_fs)"
    "\<not> is_symlink (md_mode (node_metadata 0 demo_fs))" by code_simp+
  obtain es need where "children_for ''.'' demo_fs = (es, need)" by (cases "children_for ''.'' demo_fs")
  from memfs_read_dir_run [OF valid_dot n this, of context_new]
  have "snd (memfs_read_dir context_new ''.'' demo_fs) = demo_fs" by simp
  moreover have "fst (memfs_read_dir context_new ''.'' demo_fs) = Ok demo_entries" by code_simp
  ultimately show ?thesis by (simp add: memfs_ops_def prod_eq_iff)
qed


text \<open>The laws of the client at this server.\<close>

lemma demo_path:
  "valid_path ''f''" "valid_path ''d''" "path_names ''f'' = [''f'']" "base_name ''f'' = ''f''"
  "md_mode (demo_meta ''f'') = 0 OR from_perm 0x1A4" "\<not> md_is_dir (demo_meta ''f'')"
  "md_modified (demo_meta ''f'') = 0" "demo_meta ''f''\<lparr>md_name := ''f''\<rparr> = demo_meta ''f''"
  by code_simp+

lemma demo_fits: "request_fits (TWalk 1 2 [''f''])"
  by (simp add: request_fits_def put_u32_def put_string_def put_u16_def try_u16_def)

lemma demo_strings: "valid_str ''d''" "valid_str ''f''"
  by (rule valid_str_ascii, simp)+

lemma demo_walkable: "walkable memfs_ops demo_fs ''.'' [''f'']"
  using demo_lstat(1) by (auto simp: walk_join_def join_path_def clean_valid demo_path)

lemmas demo_laws = demo_path demo_fits demo_strings demo_walkable demo_lstat demo_read_dir

theorem client_stat_returns_witness:
  "fst (client_stat (loopback memfs_ops) context_new ''f'' (attached demo_fs)) = Ok (demo_meta ''f'')"
  using client_stat_returns [of "attached demo_fs" "fid_unopened ''.''" "''f''" memfs_ops "demo_meta ''f''" 0 "0x1A4" context_new]
  by (auto simp: demo_laws fid_unopened_def simp del: walkable.simps)

theorem client_leaves_no_fid_witness:
  "fids_of (snd (client_stat (loopback memfs_ops) context_new ''f'' (attached demo_fs))) = [1 \<mapsto> fid_unopened ''.'']"
proof -
  let ?run = "client_stat (loopback memfs_ops) context_new ''f'' (attached demo_fs)"
  have "fst ?run = Ok (demo_meta ''f'')"
    using stat_ok [of "attached demo_fs" "fid_unopened ''.''" "''f''" memfs_ops "demo_meta ''f''" 0 "0x1A4" context_new]
    by (auto simp: demo_laws fid_unopened_def simp del: walkable.simps)
  then have run: "?run = (Ok (demo_meta ''f''), snd ?run)" by (simp add: prod_eq_iff)
  note law = client_leaves_no_fid [OF demo_strings(2) demo_strings(1), of "attached demo_fs" memfs_ops context_new
      "Ok (demo_meta ''f'')" "snd ?run", THEN conjunct1]
  show ?thesis using run by (subst law) (simp_all add: is_fault_def)
qed

theorem client_reads_directory_witness:
  "fst (read_dir_pages 3 (loopback memfs_ops) 1 100 0 [] (attached demo_fs)) = Ok (map entry_seen demo_entries)"
proof -
  have "readable_dir memfs_ops demo_fs ''.'' demo_meta 100 demo_entries"
    by (simp add: readable_dir_def demo_entries_def dir_entry_new_def join_path_def clean_valid demo_laws)
  then show ?thesis
    using client_reads_directory [of "attached demo_fs" 1 "fid_unopened ''.''" memfs_ops demo_entries demo_meta 100 3]
    by (auto simp: demo_laws fid_unopened_def demo_entries_def)
qed

end
