(* ===== verification/Composite.thy ===== *)
theory Composite
  imports Memfs
begin

text \<open>
  File systems made of other file systems: \<open>MapFs\<close> and \<open>UnionFs\<close> of \<open>crates/star9-fs/src/lib.rs\<close>.
  The source holds its parts as \<open>FsRef\<close>, shared pointers to trait objects. Here a reference is a
  value of a type \<open>'r\<close>, compared where the source compares pointers, and a table gives the methods
  behind each reference; all parts act on one world of type \<open>'s\<close>, so two references may share
  state. The state of the composite is a pair of its own configuration and that world.
\<close>

section \<open>References and handles\<close>

type_synonym ('r, 's, 'h) fs_table = "'r \<Rightarrow> ('s, 'h) filesystem"

definition on_sub :: "('s, 'a) op \<Rightarrow> ('c \<times> 's, 'a) op" where
  "on_sub m = (\<lambda>(c, s). case m s of (r, s') \<Rightarrow> (r, (c, s')))"

text \<open>The handles a composite returns: a directory it listed itself, or a file of a part.\<close>

datatype ('r, 'h) comp_file = CompDir dir_file | CompSub 'r 'h

definition comp_dispatch ::
    "('r, 's, 'h) fs_table \<Rightarrow> (('s, 'h) file_handle \<Rightarrow> ('h \<times> 's, 'a) op) \<Rightarrow> (dir_file \<times> 'c \<times> 's, 'a) op
      \<Rightarrow> (('r, 'h) comp_file \<times> 'c \<times> 's, 'a) op" where
  "comp_dispatch tbl m n = (\<lambda>(f, c, s). case f of
       CompDir d \<Rightarrow> (case n (d, c, s) of (r, (d', w)) \<Rightarrow> (r, (CompDir d', w)))
     | CompSub k h \<Rightarrow> (case m (fs_file (tbl k)) (h, s) of (r, (h', s')) \<Rightarrow> (r, (CompSub k h', c, s'))))"

definition comp_handle :: "('r, 's, 'h) fs_table \<Rightarrow> ('c \<times> 's, ('r, 'h) comp_file) file_handle" where
  "comp_handle tbl =
     \<lparr>fh_read = (\<lambda>n. comp_dispatch tbl (\<lambda>fh. fh_read fh n) (fh_read dir_file_handle n)),
      fh_write = (\<lambda>d. comp_dispatch tbl (\<lambda>fh. fh_write fh d) (fh_write dir_file_handle d)),
      fh_read_at = (\<lambda>n p. comp_dispatch tbl (\<lambda>fh. fh_read_at fh n p) (fh_read_at dir_file_handle n p)),
      fh_write_at = (\<lambda>d p. comp_dispatch tbl (\<lambda>fh. fh_write_at fh d p) (fh_write_at dir_file_handle d p)),
      fh_seek = (\<lambda>p. comp_dispatch tbl (\<lambda>fh. fh_seek fh p) (fh_seek dir_file_handle p)),
      fh_stat = comp_dispatch tbl fh_stat (fh_stat dir_file_handle),
      fh_read_dir = (\<lambda>n. comp_dispatch tbl (\<lambda>fh. fh_read_dir fh n) (fh_read_dir dir_file_handle n)),
      fh_sync = comp_dispatch tbl fh_sync (fh_sync dir_file_handle),
      fh_close = comp_dispatch tbl fh_close (fh_close dir_file_handle)\<rparr>"

definition sub_open :: "('r, 's, 'h) fs_table \<Rightarrow> 'r \<Rightarrow> fs_context \<Rightarrow> string \<Rightarrow> ('c \<times> 's, ('r, 'h) comp_file) op" where
  "sub_open tbl k ctx name = obind (on_sub (fs_open (tbl k) ctx name)) (\<lambda>h. ret (CompSub k h))"

definition sub_create :: "('r, 's, 'h) fs_table \<Rightarrow> 'r \<Rightarrow> string \<Rightarrow> ('c \<times> 's, ('r, 'h) comp_file) op" where
  "sub_create tbl k name = obind (on_sub (fs_create (tbl k) name)) (\<lambda>h. ret (CompSub k h))"

definition sub_stat :: "('r, 's, 'h) fs_table \<Rightarrow> 'r \<Rightarrow> fs_context \<Rightarrow> string \<Rightarrow> ('c \<times> 's, metadata) op" where
  "sub_stat tbl k ctx name = on_sub (fs_stat (tbl k) ctx name)"

definition sub_read_dir :: "('r, 's, 'h) fs_table \<Rightarrow> 'r \<Rightarrow> fs_context \<Rightarrow> string \<Rightarrow> ('c \<times> 's, dir_entry list) op" where
  "sub_read_dir tbl k ctx name = on_sub (fs_read_dir (tbl k) ctx name)"

text \<open>The methods of a file system that overrides \<open>open\<close> and \<open>stat\<close> and may create.\<close>

definition with_defaults ::
    "('s, 'h) file_handle \<Rightarrow> (fs_context \<Rightarrow> string \<Rightarrow> ('s, 'h) op) \<Rightarrow> (fs_context \<Rightarrow> string \<Rightarrow> ('s, metadata) op)
      \<Rightarrow> (string \<Rightarrow> ('s, 'h) op) \<Rightarrow> (string \<Rightarrow> file_mode \<Rightarrow> ('s, unit) op) \<Rightarrow> ('s, 'h) filesystem" where
  "with_defaults fh opn st create mkdir =
     \<lparr>fs_file = fh, fs_open = opn, fs_stat = st, fs_lstat = default_lstat st,
      fs_read_dir = default_read_dir fh opn, fs_create = create,
      fs_open_file = default_open_file fh opn create (\<lambda>_ _. not_supported), fs_mkdir = mkdir,
      fs_remove = (\<lambda>_. not_supported), fs_rename = (\<lambda>_ _. not_supported),
      fs_link = (\<lambda>_ _. not_supported), fs_chmod = (\<lambda>_ _. not_supported),
      fs_chown = (\<lambda>_ _ _. not_supported), fs_chtimes = (\<lambda>_ _. not_supported),
      fs_truncate = (\<lambda>_ _. not_supported), fs_symlink = (\<lambda>_ _. not_supported),
      fs_readlink = (\<lambda>_. not_supported), fs_set_xattr = (\<lambda>_ _ _. not_supported),
      fs_get_xattr = (\<lambda>_ _. not_supported), fs_list_xattrs = (\<lambda>_. not_supported),
      fs_remove_xattr = (\<lambda>_ _. not_supported), fs_sync_fs = ret ()\<rparr>"

section \<open>\<open>MapFs\<close>\<close>

type_synonym 'r mapfs = "(string, 'r) btmap"

definition mapfs_new :: "'r mapfs" where
  "mapfs_new = []"

definition mapfs_insert :: "string \<Rightarrow> 'r \<Rightarrow> ('r mapfs \<times> 's, unit) op" where
  "mapfs_insert name k = modify (\<lambda>(m, s). (bt_insert (clean_path name) k m, s))"

definition mapfs_direct :: "string \<Rightarrow> 'r mapfs \<Rightarrow> 'r option" where
  "mapfs_direct name m = bt_get m name"

text \<open>\<open>sort_by_key\<close> with \<open>Reverse\<close> is stable: the longest key comes first.\<close>

definition longest_first :: "(string \<times> 'a) list \<Rightarrow> (string \<times> 'a) list" where
  "longest_first ps = sort_key (\<lambda>(key, _). - int (length key)) ps"

definition match_prefixes :: "string \<Rightarrow> 'r mapfs \<Rightarrow> (string \<times> 'r) list" where
  "match_prefixes name m =
     longest_first (filter (\<lambda>(key, _). key = name \<or> key \<noteq> ''.'' \<and> starts_with name (key @ ''/'')) m)"

text \<open>\<open>trim_start_matches\<close> takes the prefix away as often as it is there.\<close>

function trim_start_str :: "string \<Rightarrow> string \<Rightarrow> string" where
  "trim_start_str p s =
     (if p = '''' then s
      else case strip_prefix p s of None \<Rightarrow> s | Some rest \<Rightarrow> trim_start_str p rest)"
  by auto
termination
  by (relation "measure (\<lambda>(p, s). length s)") (auto simp: strip_prefix_Some)

declare trim_start_str.simps [simp del]

definition mapfs_rel :: "string \<Rightarrow> string \<Rightarrow> string" where
  "mapfs_rel key name = (if key = ''.'' then name else clean_path (trim_start_str (key @ ''/'') name))"

fun mapfs_first :: "string \<Rightarrow> (string \<times> 'r) list \<Rightarrow> ('r \<times> string) option" where
  "mapfs_first name [] = None"
| "mapfs_first name ((key, k) # rest) =
     (if mapfs_rel key name \<noteq> ''.'' then Some (k, mapfs_rel key name) else mapfs_first name rest)"

fun mapfs_list ::
    "('r, 's, 'h) fs_table \<Rightarrow> fs_context \<Rightarrow> string \<Rightarrow> (string \<times> 'r) list \<Rightarrow> dir_entry list \<times> string btset
      \<Rightarrow> ('c \<times> 's, dir_entry list \<times> string btset) op" where
  "mapfs_list tbl ctx name [] acc = ret acc"
| "mapfs_list tbl ctx name ((fname, k) # rest) (entries, need) =
     (case rest_under name fname of
        None \<Rightarrow> mapfs_list tbl ctx name rest (entries, need)
      | Some r \<Rightarrow>
          (case split_once slash r of
             Some (head, _) \<Rightarrow> mapfs_list tbl ctx name rest (entries, bs_insert head need)
           | None \<Rightarrow>
               obind (attempt (sub_stat tbl k ctx ''.'')) (\<lambda>md.
               mapfs_list tbl ctx name rest
                 ((case md of
                     Inr md \<Rightarrow> entries @ [dir_entry_new r (md\<lparr>md_name := r\<rparr>)]
                   | Inl _ \<Rightarrow> entries), need))))"

definition mapfs_open :: "('r, 's, 'h) fs_table \<Rightarrow> fs_context \<Rightarrow> string \<Rightarrow> ('r mapfs \<times> 's, ('r, 'h) comp_file) op" where
  "mapfs_open tbl ctx name =
     (if \<not> valid_path name then throw (Fail (Path ''open'' name NotFound))
      else
        (let name = clean_path name in
         obind (gets fst) (\<lambda>m.
         case mapfs_direct name m of
           Some k \<Rightarrow> sub_open tbl k ctx ''.''
         | None \<Rightarrow>
             (case mapfs_first name (match_prefixes name m) of
                Some (k, rel) \<Rightarrow> sub_open tbl k ctx rel
              | None \<Rightarrow>
                  obind (mapfs_list tbl ctx name m ([], [])) (\<lambda>(entries, need).
                  if name \<noteq> ''.'' \<and> entries = [] \<and> need = []
                  then throw (Fail (Path ''open'' name NotFound))
                  else
                    ret (CompDir (dir_file_new (metadata_dir name 0x16D)
                      (entries @ map (\<lambda>d. dir_entry_new d (metadata_dir d 0x16D)) (bt_keys need)))))))))"

definition mapfs_stat :: "('r, 's, 'h) fs_table \<Rightarrow> fs_context \<Rightarrow> string \<Rightarrow> ('r mapfs \<times> 's, metadata) op" where
  "mapfs_stat tbl ctx name =
     (if name = ''.'' then
        obind (gets (mapfs_direct ''.'' \<circ> fst)) (\<lambda>root.
        case root of
          Some k \<Rightarrow> sub_stat tbl k ctx ''.''
        | None \<Rightarrow> ret (metadata_dir ''.'' 0x16D))
      else
        obind (mapfs_open tbl ctx name) (\<lambda>f. scoped f (
        obind (attempt (fh_stat (comp_handle tbl))) (\<lambda>st.
        obind (discard (fh_close (comp_handle tbl))) (\<lambda>_.
        of_attempt st)))))"

definition mapfs_ops :: "('r, 's, 'h) fs_table \<Rightarrow> ('r mapfs \<times> 's, ('r, 'h) comp_file) filesystem" where
  "mapfs_ops tbl =
     with_defaults (comp_handle tbl) (mapfs_open tbl) (mapfs_stat tbl) (\<lambda>_. not_supported) (\<lambda>_ _. not_supported)"

section \<open>\<open>UnionFs\<close>\<close>

type_synonym 'r unionfs = "'r list"

definition unionfs_new :: "'r list \<Rightarrow> 'r unionfs" where
  "unionfs_new layers = layers"

definition push_front :: "'r \<Rightarrow> ('r unionfs \<times> 's, unit) op" where
  "push_front k = modify (\<lambda>(ls, s). (k # ls, s))"

text \<open>
  The loop of \<open>open\<close>: a layer where the name is a file returns its handle, a directory adds its
  entries, whose listing may fail silently, and a missing name is skipped.
\<close>

fun union_open_loop ::
    "('r, 's, 'h) fs_table \<Rightarrow> fs_context \<Rightarrow> string \<Rightarrow> dir_entry list \<Rightarrow> 'r list
      \<Rightarrow> ('c \<times> 's, ('r, 'h) comp_file) op" where
  "union_open_loop tbl ctx name entries [] =
     (if entries \<noteq> [] \<or> name = ''.''
      then ret (CompDir (dir_file_new (metadata_dir (base_name name) 0x16D) entries))
      else throw (Fail (Path ''open'' name NotFound)))"
| "union_open_loop tbl ctx name entries (k # rest) =
     obind (attempt (sub_stat tbl k ctx name)) (\<lambda>r.
     case r of
       Inr md \<Rightarrow>
         if md_is_dir md then
           obind (attempt (sub_read_dir tbl k ctx name)) (\<lambda>es.
           union_open_loop tbl ctx name (entries @ (case es of Inr es \<Rightarrow> es | Inl _ \<Rightarrow> [])) rest)
         else sub_open tbl k ctx name
     | Inl e \<Rightarrow>
         if kind_of e = NotFound then union_open_loop tbl ctx name entries rest
         else throw (Fail e))"

definition unionfs_open :: "('r, 's, 'h) fs_table \<Rightarrow> fs_context \<Rightarrow> string \<Rightarrow> ('r unionfs \<times> 's, ('r, 'h) comp_file) op" where
  "unionfs_open tbl ctx name = obind (gets fst) (\<lambda>layers. union_open_loop tbl ctx name [] layers)"

text \<open>
  The other loops ask the layers in turn until one gives an answer other than the error kind
  that means \<^emph>\<open>not here\<close>.
\<close>

fun first_layer :: "error_kind \<Rightarrow> error \<Rightarrow> ('r \<Rightarrow> ('w, 'a) op) \<Rightarrow> 'r list \<Rightarrow> ('w, 'a) op" where
  "first_layer skip none f [] = throw (Fail none)"
| "first_layer skip none f (k # rest) =
     obind (attempt (f k)) (\<lambda>r.
     case r of
       Inr x \<Rightarrow> ret x
     | Inl e \<Rightarrow> if kind_of e = skip then first_layer skip none f rest else throw (Fail e))"

definition unionfs_stat :: "('r, 's, 'h) fs_table \<Rightarrow> fs_context \<Rightarrow> string \<Rightarrow> ('r unionfs \<times> 's, metadata) op" where
  "unionfs_stat tbl ctx name =
     obind (gets fst) (\<lambda>layers.
     first_layer NotFound (Path ''stat'' name NotFound) (\<lambda>k. sub_stat tbl k ctx name) layers)"

definition unionfs_create :: "('r, 's, 'h) fs_table \<Rightarrow> string \<Rightarrow> ('r unionfs \<times> 's, ('r, 'h) comp_file) op" where
  "unionfs_create tbl name =
     obind (gets fst) (\<lambda>layers.
     first_layer NotSupported (Kind NotSupported) (\<lambda>k. sub_create tbl k name) layers)"

definition unionfs_mkdir :: "('r, 's, 'h) fs_table \<Rightarrow> string \<Rightarrow> file_mode \<Rightarrow> ('r unionfs \<times> 's, unit) op" where
  "unionfs_mkdir tbl name p =
     obind (gets fst) (\<lambda>layers.
     first_layer NotSupported (Kind NotSupported) (\<lambda>k. on_sub (fs_mkdir (tbl k) name p)) layers)"

definition unionfs_ops :: "('r, 's, 'h) fs_table \<Rightarrow> ('r unionfs \<times> 's, ('r, 'h) comp_file) filesystem" where
  "unionfs_ops tbl =
     with_defaults (comp_handle tbl) (unionfs_open tbl) (unionfs_stat tbl) (unionfs_create tbl) (unionfs_mkdir tbl)"

end
