(* ===== verification/Namespace.thy ===== *)
theory Namespace
  imports Composite
begin

text \<open>
  The Plan 9 style namespace of \<open>crates/star9-vfs/src/lib.rs\<close>: an ordered table from paths to lists
  of bind targets, and the file system that resolves names through it. References to file systems
  and the world they share are those of the composite file systems; comparing references stands
  for \<open>Arc::ptr_eq\<close>.
\<close>

section \<open>Bindings\<close>

datatype bind_mode = BindAfter | BindReplace | BindBefore

record 'r bind_target =
  tg_fs :: 'r
  tg_path :: string
  tg_metadata :: metadata

type_synonym 'r bindings = "(string, 'r bind_target list) btmap"

definition ns_new :: "'r bindings" where
  "ns_new = []"

definition clone_namespace :: "'r bindings \<Rightarrow> 'r bindings" where
  "clone_namespace b = b"

definition entry_or_default :: "string \<Rightarrow> 'r bindings \<Rightarrow> 'r bind_target list" where
  "entry_or_default dst b = (case bt_get b dst of Some ts \<Rightarrow> ts | None \<Rightarrow> [])"

definition add_target :: "bind_mode \<Rightarrow> string \<Rightarrow> 'r bind_target \<Rightarrow> 'r bindings \<Rightarrow> 'r bindings" where
  "add_target mode dst target b =
     (case mode of
        BindAfter \<Rightarrow> bt_insert dst (target # entry_or_default dst b) b
      | BindBefore \<Rightarrow> bt_insert dst (entry_or_default dst b @ [target]) b
      | BindReplace \<Rightarrow> bt_insert dst [target] b)"

definition ns_bind ::
    "('r, 's, 'h) fs_table \<Rightarrow> 'r \<Rightarrow> string \<Rightarrow> string \<Rightarrow> bind_mode \<Rightarrow> ('r bindings \<times> 's, unit) op" where
  "ns_bind tbl src src_path dst_path mode =
     (if \<not> valid_path src_path then throw (Fail (Path ''bind'' src_path NotFound))
      else if \<not> valid_path dst_path then throw (Fail (Path ''bind'' dst_path NotFound))
      else
        (let src_path = clean_path src_path; dst_path = clean_path dst_path in
         obind (sub_stat tbl src (with_origin src_path ''stat'' context_new) src_path) (\<lambda>md.
         modify (\<lambda>(b, s).
           (add_target mode dst_path \<lparr>tg_fs = src, tg_path = src_path, tg_metadata = md\<rparr> b, s)))))"

text \<open>\<open>retain\<close> on the targets of one path; an emptied list leaves the table.\<close>

definition retain_targets :: "('r bind_target \<Rightarrow> bool) \<Rightarrow> string \<Rightarrow> 'r bindings \<Rightarrow> 'r bindings" where
  "retain_targets keep dst b =
     (case bt_get b dst of
        None \<Rightarrow> b
      | Some ts \<Rightarrow> if filter keep ts = [] then bt_remove dst b else bt_insert dst (filter keep ts) b)"

definition ns_unbind :: "'r \<Rightarrow> string \<Rightarrow> string \<Rightarrow> ('r bindings \<times> 's, unit) op" where
  "ns_unbind src src_path dst_path =
     (if \<not> valid_path src_path then throw (Fail (Path ''unbind'' src_path NotFound))
      else if \<not> valid_path dst_path then throw (Fail (Path ''unbind'' dst_path NotFound))
      else
        (let src_path = clean_path src_path; dst_path = clean_path dst_path in
         modify (\<lambda>(b, s).
           (retain_targets (\<lambda>t. \<not> (tg_fs t = src \<and> tg_path t = src_path)) dst_path b, s))))"

definition unbind_path :: "string \<Rightarrow> ('r bindings \<times> 's, unit) op" where
  "unbind_path dst_path =
     (if \<not> valid_path dst_path then throw (Fail (Path ''unmount'' dst_path NotFound))
      else
        (let dst_path = clean_path dst_path in
         obind (gets (\<lambda>(b, s). bt_get b dst_path)) (\<lambda>removed.
         obind (modify (\<lambda>(b, s). (bt_remove dst_path b, s))) (\<lambda>_.
         if removed \<noteq> None then ret () else throw (Fail (Path ''unmount'' dst_path NotFound))))))"

definition unbind_source_path :: "string \<Rightarrow> string \<Rightarrow> ('r bindings \<times> 's, unit) op" where
  "unbind_source_path src_path dst_path =
     (if \<not> valid_path src_path then throw (Fail (Path ''unmount'' src_path NotFound))
      else if \<not> valid_path dst_path then throw (Fail (Path ''unmount'' dst_path NotFound))
      else
        (let src_path = clean_path src_path; dst_path = clean_path dst_path in
         obind (gets (\<lambda>(b, s). bt_get b dst_path)) (\<lambda>targets.
         case targets of
           None \<Rightarrow> throw (Fail (Path ''unmount'' dst_path NotFound))
         | Some ts \<Rightarrow>
             obind (modify (\<lambda>(b, s). (retain_targets (\<lambda>t. tg_path t \<noteq> src_path) dst_path b, s))) (\<lambda>_.
             obind (gets (\<lambda>(b, s). length (entry_or_default dst_path b))) (\<lambda>after.
             if length ts = after then throw (Fail (Path ''unmount'' src_path NotFound))
             else ret ())))))"

definition unbind_all :: "('r bindings \<times> 's, unit) op" where
  "unbind_all = modify (\<lambda>(b, s). (filter (\<lambda>(path, _). starts_with path ''#'') b, s))"

definition binding_paths :: "'r bindings \<Rightarrow> string list" where
  "binding_paths b = bt_keys b"

definition format_binding :: "string \<Rightarrow> 'r bind_target list \<Rightarrow> string list" where
  "format_binding dst ts =
     (if length ts = 1 then map (\<lambda>t. dst @ '' -> fs:'' @ tg_path t) ts
      else map (\<lambda>(i, t). dst @ ''['' @ show_nat i @ ''] -> fs:'' @ tg_path t) (enumerate 0 ts))"

definition format_bindings :: "'r bindings \<Rightarrow> string" where
  "format_bindings b = join_on (CHR 0x0A) (concat (map (\<lambda>(dst, ts). format_binding dst ts) b))"

section \<open>Resolution\<close>

definition direct_targets :: "string \<Rightarrow> 'r bindings \<Rightarrow> 'r bind_target list option" where
  "direct_targets name b = bt_get b name"

definition matching_targets :: "string \<Rightarrow> 'r bindings \<Rightarrow> (string \<times> 'r bind_target list) list" where
  "matching_targets name b =
     longest_first (filter (\<lambda>(bind_path, _).
       bind_path = ''.'' \<or> bind_path = name \<or> starts_with name (bind_path @ ''/'')) b)"

definition target_path :: "string \<Rightarrow> string \<Rightarrow> string \<Rightarrow> string" where
  "target_path bind_path target name =
     (if bind_path = name then clean_path target
      else if bind_path = ''.'' then
        (if target = ''.'' then clean_path name else clean_path (target @ ''/'' @ name))
      else
        (let rel = (case Option.bind (strip_prefix bind_path name) (strip_prefix ''/'') of
                      Some r \<Rightarrow> r | None \<Rightarrow> ''.'')
         in if target = ''.'' then clean_path rel else clean_path (target @ ''/'' @ rel)))"

definition target_matches :: "string \<Rightarrow> string \<Rightarrow> bool" where
  "target_matches bind_path name \<longleftrightarrow>
     bind_path = ''.'' \<or> bind_path = name \<or>
     (case strip_prefix bind_path name of Some rest \<Rightarrow> starts_with rest ''/'' | None \<Rightarrow> False)"

text \<open>The nested loops over the matching paths and their targets, in the order they run.\<close>

definition each_target :: "(string \<times> 'r bind_target list) list \<Rightarrow> (string \<times> 'r bind_target) list" where
  "each_target ms = concat (map (\<lambda>(bind_path, ts). map (\<lambda>t. (bind_path, t)) ts) ms)"

section \<open>Synthesised directories\<close>

definition stat_or_cached :: "('r, 's, 'h) fs_table \<Rightarrow> fs_context \<Rightarrow> 'r bind_target \<Rightarrow> ('c \<times> 's, metadata) op" where
  "stat_or_cached tbl ctx t =
     obind (attempt (sub_stat tbl (tg_fs t) ctx (tg_path t))) (\<lambda>r.
     ret (case r of Inr md \<Rightarrow> md | Inl _ \<Rightarrow> tg_metadata t))"

fun synth_targets ::
    "('r, 's, 'h) fs_table \<Rightarrow> fs_context \<Rightarrow> string \<Rightarrow> 'r bind_target list \<Rightarrow> dir_entry list
      \<Rightarrow> ('c \<times> 's, dir_entry list) op" where
  "synth_targets tbl ctx r [] entries = ret entries"
| "synth_targets tbl ctx r (t # ts) entries =
     obind (stat_or_cached tbl ctx t) (\<lambda>md.
     synth_targets tbl ctx r ts (entries @ [dir_entry_new r (md\<lparr>md_name := r\<rparr>)]))"

fun synth_loop ::
    "('r, 's, 'h) fs_table \<Rightarrow> fs_context \<Rightarrow> string \<Rightarrow> (string \<times> 'r bind_target list) list
      \<Rightarrow> dir_entry list \<times> string btset \<Rightarrow> ('c \<times> 's, dir_entry list \<times> string btset) op" where
  "synth_loop tbl ctx name [] acc = ret acc"
| "synth_loop tbl ctx name ((path, ts) # rest) (entries, need) =
     (case rest_under name path of
        None \<Rightarrow> synth_loop tbl ctx name rest (entries, need)
      | Some r \<Rightarrow>
          (case split_once slash r of
             Some (head, _) \<Rightarrow> synth_loop tbl ctx name rest (entries, bs_insert head need)
           | None \<Rightarrow>
               obind (synth_targets tbl ctx r ts entries) (\<lambda>entries.
               synth_loop tbl ctx name rest (entries, need))))"

definition synthesize_entries ::
    "('r, 's, 'h) fs_table \<Rightarrow> fs_context \<Rightarrow> string \<Rightarrow> ('r bindings \<times> 's, dir_entry list) op" where
  "synthesize_entries tbl ctx name =
     obind (gets fst) (\<lambda>b.
     obind (synth_loop tbl ctx name b ([], [])) (\<lambda>(entries, need).
     ret (entries @ map (\<lambda>d. dir_entry_new d (metadata_dir d 0x1ED))
       (bt_keys (fold (\<lambda>e s. bt_remove (de_name e) s) entries need)))))"

section \<open>Opening and \<open>stat\<close>\<close>

text \<open>
  The loops of \<open>open\<close> either return a file of a target, \<open>Inl\<close>, or go on with the directory
  metadata and the entries found so far, \<open>Inr\<close>.
\<close>

type_synonym ('r, 'h) open_acc = "('r, 'h) comp_file + metadata option \<times> dir_entry list"

definition first_meta :: "metadata option \<Rightarrow> metadata \<Rightarrow> metadata option" where
  "first_meta dir_meta md = (case dir_meta of None \<Rightarrow> Some md | Some _ \<Rightarrow> dir_meta)"

fun open_direct ::
    "('r, 's, 'h) fs_table \<Rightarrow> fs_context \<Rightarrow> 'r bind_target list \<Rightarrow> metadata option \<times> dir_entry list
      \<Rightarrow> ('c \<times> 's, ('r, 'h) open_acc) op" where
  "open_direct tbl ctx [] acc = ret (Inr acc)"
| "open_direct tbl ctx (t # ts) (dir_meta, entries) =
     obind (stat_or_cached tbl ctx t) (\<lambda>md.
     if md_is_dir md then
       obind (sub_read_dir tbl (tg_fs t) ctx (tg_path t)) (\<lambda>es.
       open_direct tbl ctx ts (first_meta dir_meta md, entries @ es))
     else obind (sub_open tbl (tg_fs t) ctx (tg_path t)) (\<lambda>f. ret (Inl f)))"

fun open_matching ::
    "('r, 's, 'h) fs_table \<Rightarrow> fs_context \<Rightarrow> string \<Rightarrow> (string \<times> 'r bind_target) list
      \<Rightarrow> metadata option \<times> dir_entry list \<Rightarrow> ('c \<times> 's, ('r, 'h) open_acc) op" where
  "open_matching tbl ctx name [] acc = ret (Inr acc)"
| "open_matching tbl ctx name ((bind_path, t) # rest) (dir_meta, entries) =
     (let full = target_path bind_path (tg_path t) name in
      obind (attempt (sub_stat tbl (tg_fs t) ctx full)) (\<lambda>r.
      case r of
        Inr md \<Rightarrow>
          if md_is_dir md then
            obind (sub_read_dir tbl (tg_fs t) ctx full) (\<lambda>es.
            open_matching tbl ctx name rest (first_meta dir_meta md, entries @ es))
          else obind (sub_open tbl (tg_fs t) ctx full) (\<lambda>f. ret (Inl f))
      | Inl e \<Rightarrow>
          if kind_of e = NotFound then open_matching tbl ctx name rest (dir_meta, entries)
          else throw (Fail e)))"

definition indirect_targets :: "string \<Rightarrow> 'r bindings \<Rightarrow> (string \<times> 'r bind_target) list" where
  "indirect_targets name b = each_target (filter (\<lambda>(bind_path, _). bind_path \<noteq> name) (matching_targets name b))"

definition open_finish ::
    "('r, 's, 'h) fs_table \<Rightarrow> fs_context \<Rightarrow> string \<Rightarrow> metadata option \<times> dir_entry list
      \<Rightarrow> ('r bindings \<times> 's, ('r, 'h) comp_file) op" where
  "open_finish tbl ctx name = (\<lambda>(dir_meta, entries).
     obind (synthesize_entries tbl ctx name) (\<lambda>more.
     if entries @ more \<noteq> [] \<or> dir_meta \<noteq> None \<or> name = ''.''
     then ret (CompDir (dir_file_new
            (case dir_meta of Some md \<Rightarrow> md | None \<Rightarrow> metadata_dir (base_name name) 0x1ED) (entries @ more)))
     else throw (Fail (Path ''open'' name NotFound))))"

definition ns_open :: "('r, 's, 'h) fs_table \<Rightarrow> fs_context \<Rightarrow> string \<Rightarrow> ('r bindings \<times> 's, ('r, 'h) comp_file) op" where
  "ns_open tbl ctx name =
     (if \<not> valid_path name then throw (Fail (Path ''open'' name NotFound))
      else
        (let ctx = with_origin name ''open'' ctx; name = clean_path name in
         obind (gets fst) (\<lambda>b.
         obind (open_direct tbl ctx (entry_or_default name b) (None, [])) (\<lambda>r.
         case r of
           Inl f \<Rightarrow> ret f
         | Inr acc \<Rightarrow>
             obind (open_matching tbl ctx name (indirect_targets name b) acc) (\<lambda>r.
             case r of Inl f \<Rightarrow> ret f | Inr acc \<Rightarrow> open_finish tbl ctx name acc)))))"

fun stat_direct :: "('r, 's, 'h) fs_table \<Rightarrow> fs_context \<Rightarrow> 'r bind_target list \<Rightarrow> ('c \<times> 's, metadata option) op" where
  "stat_direct tbl ctx [] = ret None"
| "stat_direct tbl ctx (t # ts) =
     obind (attempt (sub_stat tbl (tg_fs t) ctx (tg_path t))) (\<lambda>r.
     case r of Inr md \<Rightarrow> ret (Some md) | Inl _ \<Rightarrow> stat_direct tbl ctx ts)"

fun stat_matching ::
    "('r, 's, 'h) fs_table \<Rightarrow> fs_context \<Rightarrow> string \<Rightarrow> (string \<times> 'r bind_target) list \<Rightarrow> ('c \<times> 's, metadata option) op" where
  "stat_matching tbl ctx name [] = ret None"
| "stat_matching tbl ctx name ((bind_path, t) # rest) =
     obind (attempt (sub_stat tbl (tg_fs t) ctx (target_path bind_path (tg_path t) name))) (\<lambda>r.
     case r of
       Inr md \<Rightarrow> ret (Some md)
     | Inl e \<Rightarrow> if kind_of e = NotFound then stat_matching tbl ctx name rest else throw (Fail e))"

definition ns_stat :: "('r, 's, 'h) fs_table \<Rightarrow> fs_context \<Rightarrow> string \<Rightarrow> ('r bindings \<times> 's, metadata) op" where
  "ns_stat tbl ctx name =
     (if \<not> valid_path name then throw (Fail (Path ''stat'' name NotFound))
      else
        (let ctx = with_origin name ''stat'' ctx; name = clean_path name in
         if name = ''.'' then ret (metadata_dir ''.'' 0x1ED)
         else
           obind (gets fst) (\<lambda>b.
           obind (stat_direct tbl ctx (entry_or_default name b)) (\<lambda>r.
           case r of
             Some md \<Rightarrow> ret (md\<lparr>md_name := base_name name\<rparr>)
           | None \<Rightarrow>
               obind (stat_matching tbl ctx name (indirect_targets name b)) (\<lambda>r.
               case r of
                 Some md \<Rightarrow> ret (md\<lparr>md_name := base_name name\<rparr>)
               | None \<Rightarrow>
                   obind (synthesize_entries tbl ctx name) (\<lambda>entries.
                   if entries \<noteq> [] then ret (metadata_dir (base_name name) 0x1ED)
                   else throw (Fail (Path ''stat'' name NotFound))))))))"

section \<open>Changing operations\<close>

fun route_direct :: "('r bind_target \<Rightarrow> string \<Rightarrow> ('w, 'a) op) \<Rightarrow> error \<Rightarrow> 'r bind_target list \<Rightarrow> ('w, 'a) op" where
  "route_direct f none [] = throw (Fail none)"
| "route_direct f none (t # ts) =
     obind (attempt (f t (tg_path t))) (\<lambda>r.
     case r of
       Inr x \<Rightarrow> ret x
     | Inl e \<Rightarrow> if kind_of e = NotSupported then route_direct f e ts else throw (Fail e))"

definition passes :: "error_kind \<Rightarrow> bool" where
  "passes k \<longleftrightarrow> k = NotFound \<or> k = NotSupported \<or> k = NotDir"

fun route_matching ::
    "('r bind_target \<Rightarrow> string \<Rightarrow> ('w, 'a) op) \<Rightarrow> string \<Rightarrow> string \<Rightarrow> (string \<times> 'r bind_target) list \<Rightarrow> ('w, 'a) op" where
  "route_matching f oper name [] = throw (Fail (Path oper name NotFound))"
| "route_matching f oper name ((bind_path, t) # rest) =
     obind (attempt (f t (target_path bind_path (tg_path t) name))) (\<lambda>r.
     case r of
       Inr x \<Rightarrow> ret x
     | Inl e \<Rightarrow> if passes (kind_of e) then route_matching f oper name rest else throw (Fail e))"

definition route_write ::
    "string \<Rightarrow> string \<Rightarrow> ('r bind_target \<Rightarrow> string \<Rightarrow> ('r bindings \<times> 's, 'a) op) \<Rightarrow> ('r bindings \<times> 's, 'a) op" where
  "route_write name oper f =
     (let name = clean_path name in
      obind (gets fst) (\<lambda>b.
      case direct_targets name b of
        Some ts \<Rightarrow> route_direct f (Kind NotSupported) ts
      | None \<Rightarrow> route_matching f oper name (each_target (matching_targets name b))))"

definition if_parent ::
    "('r, 's, 'h) fs_table \<Rightarrow> string \<Rightarrow> ('c \<times> 's, 'a) op \<Rightarrow> 'r bind_target \<Rightarrow> string \<Rightarrow> ('c \<times> 's, 'a) op" where
  "if_parent tbl oper m t full =
     obind (attempt (sub_stat tbl (tg_fs t) context_new (parent_path full))) (\<lambda>r.
     case r of Inr _ \<Rightarrow> m | Inl _ \<Rightarrow> throw (Fail (Path oper full NotFound)))"

definition ns_create :: "('r, 's, 'h) fs_table \<Rightarrow> string \<Rightarrow> ('r bindings \<times> 's, ('r, 'h) comp_file) op" where
  "ns_create tbl name =
     route_write name ''create'' (\<lambda>t full. if_parent tbl ''create'' (sub_create tbl (tg_fs t) full) t full)"

definition ns_mkdir :: "('r, 's, 'h) fs_table \<Rightarrow> string \<Rightarrow> file_mode \<Rightarrow> ('r bindings \<times> 's, unit) op" where
  "ns_mkdir tbl name p =
     route_write name ''mkdir'' (\<lambda>t full. if_parent tbl ''mkdir'' (on_sub (fs_mkdir (tbl (tg_fs t)) full p)) t full)"

definition ns_remove :: "('r, 's, 'h) fs_table \<Rightarrow> string \<Rightarrow> ('r bindings \<times> 's, unit) op" where
  "ns_remove tbl name = route_write name ''remove'' (\<lambda>t full. on_sub (fs_remove (tbl (tg_fs t)) full))"

definition rename_bind_path :: "string \<Rightarrow> 'r bind_target \<Rightarrow> 'r bindings \<Rightarrow> string" where
  "rename_bind_path old t b =
     (case find (\<lambda>(_, ts). \<exists>c \<in> set ts. tg_fs c = tg_fs t) (matching_targets old b) of
        Some (path, _) \<Rightarrow> path
      | None \<Rightarrow> ''.'')"

definition ns_rename :: "('r, 's, 'h) fs_table \<Rightarrow> string \<Rightarrow> string \<Rightarrow> ('r bindings \<times> 's, unit) op" where
  "ns_rename tbl old new =
     route_write old ''rename'' (\<lambda>t full.
       obind (gets (rename_bind_path old t \<circ> fst)) (\<lambda>bind_path.
       on_sub (fs_rename (tbl (tg_fs t)) full (target_path bind_path (tg_path t) new))))"

text \<open>
  The four nested loops of \<open>link\<close>: every new target with every old target of the same file system.
\<close>

definition link_pairs :: "string \<Rightarrow> string \<Rightarrow> 'r bindings \<Rightarrow> ('r \<times> string \<times> string) list" where
  "link_pairs old new b =
     (let news = each_target (filter (\<lambda>(p, _). target_matches p new) (matching_targets new b));
          olds = each_target (filter (\<lambda>(p, _). target_matches p old) (matching_targets old b))
      in concat (map (\<lambda>(np, nt).
           map (\<lambda>(op, ot). (tg_fs nt, target_path op (tg_path ot) old, target_path np (tg_path nt) new))
             (filter (\<lambda>(op, ot). tg_fs ot = tg_fs nt) olds)) news))"

fun link_loop :: "('r, 's, 'h) fs_table \<Rightarrow> error \<Rightarrow> ('r \<times> string \<times> string) list \<Rightarrow> ('c \<times> 's, unit) op" where
  "link_loop tbl none [] = throw (Fail none)"
| "link_loop tbl none ((k, old_full, new_full) # rest) =
     obind (attempt (on_sub (fs_link (tbl k) old_full new_full))) (\<lambda>r.
     case r of
       Inr _ \<Rightarrow> ret ()
     | Inl e \<Rightarrow> if passes (kind_of e) then link_loop tbl e rest else throw (Fail e))"

definition ns_link :: "('r, 's, 'h) fs_table \<Rightarrow> string \<Rightarrow> string \<Rightarrow> ('r bindings \<times> 's, unit) op" where
  "ns_link tbl old new =
     (let old = clean_path old; new = clean_path new in
      if \<not> valid_path old \<or> \<not> valid_path new then throw (Fail (Path ''link'' old NotFound))
      else
        obind (gets fst) (\<lambda>b.
        link_loop tbl (Path ''link'' new NotFound) (link_pairs old new b)))"

definition ns_chmod :: "('r, 's, 'h) fs_table \<Rightarrow> string \<Rightarrow> file_mode \<Rightarrow> ('r bindings \<times> 's, unit) op" where
  "ns_chmod tbl name mode = route_write name ''chmod'' (\<lambda>t full. on_sub (fs_chmod (tbl (tg_fs t)) full mode))"

definition ns_chown :: "('r, 's, 'h) fs_table \<Rightarrow> string \<Rightarrow> u32 \<Rightarrow> u32 \<Rightarrow> ('r bindings \<times> 's, unit) op" where
  "ns_chown tbl name uid gid =
     route_write name ''chown'' (\<lambda>t full. on_sub (fs_chown (tbl (tg_fs t)) full uid gid))"

definition ns_chtimes :: "('r, 's, 'h) fs_table \<Rightarrow> string \<Rightarrow> system_time \<Rightarrow> ('r bindings \<times> 's, unit) op" where
  "ns_chtimes tbl name mtime =
     route_write name ''chtimes'' (\<lambda>t full. on_sub (fs_chtimes (tbl (tg_fs t)) full mtime))"

definition ns_truncate :: "('r, 's, 'h) fs_table \<Rightarrow> string \<Rightarrow> u64 \<Rightarrow> ('r bindings \<times> 's, unit) op" where
  "ns_truncate tbl name sz =
     route_write name ''truncate'' (\<lambda>t full. on_sub (fs_truncate (tbl (tg_fs t)) full sz))"

definition ns_symlink :: "('r, 's, 'h) fs_table \<Rightarrow> string \<Rightarrow> string \<Rightarrow> ('r bindings \<times> 's, unit) op" where
  "ns_symlink tbl old new =
     route_write new ''symlink'' (\<lambda>t full. on_sub (fs_symlink (tbl (tg_fs t)) old full))"

definition ns_readlink :: "('r, 's, 'h) fs_table \<Rightarrow> string \<Rightarrow> ('r bindings \<times> 's, string) op" where
  "ns_readlink tbl name = route_write name ''readlink'' (\<lambda>t full. on_sub (fs_readlink (tbl (tg_fs t)) full))"

definition ns_ops :: "('r, 's, 'h) fs_table \<Rightarrow> ('r bindings \<times> 's, ('r, 'h) comp_file) filesystem" where
  "ns_ops tbl =
     \<lparr>fs_file = comp_handle tbl, fs_open = ns_open tbl, fs_stat = ns_stat tbl,
      fs_lstat = default_lstat (ns_stat tbl),
      fs_read_dir = default_read_dir (comp_handle tbl) (ns_open tbl),
      fs_create = ns_create tbl,
      fs_open_file = default_open_file (comp_handle tbl) (ns_open tbl) (ns_create tbl) (ns_chmod tbl),
      fs_mkdir = ns_mkdir tbl, fs_remove = ns_remove tbl, fs_rename = ns_rename tbl,
      fs_link = ns_link tbl, fs_chmod = ns_chmod tbl, fs_chown = ns_chown tbl,
      fs_chtimes = ns_chtimes tbl, fs_truncate = ns_truncate tbl, fs_symlink = ns_symlink tbl,
      fs_readlink = ns_readlink tbl, fs_set_xattr = (\<lambda>_ _ _. not_supported),
      fs_get_xattr = (\<lambda>_ _. not_supported), fs_list_xattrs = (\<lambda>_. not_supported),
      fs_remove_xattr = (\<lambda>_ _. not_supported), fs_sync_fs = ret ()\<rparr>"

end
