(* ===== verification/Namespace_Laws.thy ===== *)
theory Namespace_Laws
  imports Namespace "HOL-Library.Sublist" "HOL-Library.Multiset"
begin

text \<open>
  Resolution in a namespace, stated on the components of paths: which bindings a name matches and
  in which order they are tried, what path it becomes below a target, what binding and unbinding
  do to the table, and that a file system mounted alone behaves below its mount point as itself.
\<close>

section \<open>Paths as lists of components\<close>

definition parts_of :: "string \<Rightarrow> string list" where
  "parts_of p = (if p = ''.'' then [] else split_on slash p)"

definition of_parts :: "string list \<Rightarrow> string" where
  "of_parts ps = (if ps = [] then ''.'' else join_on slash ps)"

lemma parts_dot [simp]: "parts_of ''.'' = []" "of_parts [] = ''.''"
  by (simp_all add: parts_of_def of_parts_def)

lemma parts_nonempty: "p \<noteq> ''.'' \<Longrightarrow> parts_of p \<noteq> []"
  by (simp add: parts_of_def)

lemma parts_good: "valid_path p \<Longrightarrow> \<forall>q \<in> set (parts_of p). good_part q"
  by (auto simp: valid_path_form parts_of_def good_parts_split good_parts_def)

lemma of_parts_parts: "of_parts (parts_of p) = p"
  by (simp add: parts_of_def of_parts_def)

lemma parts_of_parts:
  assumes "\<forall>q \<in> set ps. good_part q"
  shows "parts_of (of_parts ps) = ps" "valid_path (of_parts ps)"
proof -
  have g: "ps \<noteq> [] \<Longrightarrow> good_parts ps" using assms by (simp add: good_parts_def)
  show "parts_of (of_parts ps) = ps"
    using g by (auto simp: of_parts_def parts_of_def join_good_neq_dot good_parts_split)
  show "valid_path (of_parts ps)"
    using g by (auto simp: of_parts_def valid_path_form)
qed

lemma parts_inj: "parts_of p = parts_of q \<longleftrightarrow> p = q"
  by (metis of_parts_parts)

lemma join_on_append: "ps \<noteq> [] \<Longrightarrow> qs \<noteq> [] \<Longrightarrow> join_on c (ps @ qs) = join_on c ps @ c # join_on c qs"
proof (induction ps)
  case (Cons p ps)
  then show ?case by (cases "ps = []") (simp_all add: join_on_Cons)
qed simp

lemma split_on_at_sep: "split_on c (a @ c # b) = split_on c a @ split_on c b"
  by (induction a) (auto split: list.splits)

lemma parts_append:
  assumes "valid_path a" "valid_path b" "a \<noteq> ''.''" "b \<noteq> ''.''"
  shows "parts_of (a @ ''/'' @ b) = parts_of a @ parts_of b" "clean_path (a @ ''/'' @ b) = a @ ''/'' @ b"
proof -
  have "a @ ''/'' @ b = of_parts (parts_of a @ parts_of b)"
    using assms(3,4) by (simp add: of_parts_def parts_of_def join_on_append)
  moreover have good: "\<forall>q \<in> set (parts_of a @ parts_of b). good_part q"
    using parts_good [OF assms(1)] parts_good [OF assms(2)] by auto
  ultimately show "parts_of (a @ ''/'' @ b) = parts_of a @ parts_of b" "clean_path (a @ ''/'' @ b) = a @ ''/'' @ b"
    using parts_of_parts [OF good] by (simp_all add: clean_valid)
qed

text \<open>A name starts with a path and a slash exactly when it lies strictly below that path.\<close>

lemma below_iff:
  assumes "valid_path p" "valid_path n" "p \<noteq> ''.''"
  shows "starts_with n (p @ ''/'') \<longleftrightarrow> (\<exists>rs. rs \<noteq> [] \<and> parts_of n = parts_of p @ rs)"
proof
  assume "starts_with n (p @ ''/'')"
  then obtain r where n: "n = p @ slash # r" by (auto simp: starts_with_iff)
  have "p \<noteq> []" using assms(1) by (auto simp: valid_path_def)
  then have "n \<noteq> ''.''" using n by (cases p) auto
  then have "parts_of n = parts_of p @ split_on slash r"
    using assms(3) unfolding parts_of_def n split_on_at_sep by auto
  then show "\<exists>rs. rs \<noteq> [] \<and> parts_of n = parts_of p @ rs"
    by (intro exI [of _ "split_on slash r"]) simp
next
  assume "\<exists>rs. rs \<noteq> [] \<and> parts_of n = parts_of p @ rs"
  then obtain rs where rs: "rs \<noteq> []" "parts_of n = parts_of p @ rs" by blast
  have "n = of_parts (parts_of p @ rs)" using rs(2) of_parts_parts [of n] by simp
  also have "\<dots> = p @ slash # join_on slash rs"
    using rs(1) assms(3) by (simp add: of_parts_def parts_of_def join_on_append)
  finally show "starts_with n (p @ ''/'')" by (simp add: starts_with_iff)
qed

definition covers :: "string \<Rightarrow> string \<Rightarrow> bool" where
  "covers p n \<longleftrightarrow> prefix (parts_of p) (parts_of n)"

lemma matches_covers:
  assumes "valid_path p" "valid_path n"
  shows "(p = ''.'' \<or> p = n \<or> starts_with n (p @ ''/'')) \<longleftrightarrow> covers p n"
proof (cases "p = ''.''")
  case False
  have "covers p n \<longleftrightarrow> parts_of n = parts_of p \<or> (\<exists>rs. rs \<noteq> [] \<and> parts_of n = parts_of p @ rs)"
    unfolding covers_def prefix_def by (metis append_Nil2)
  then show ?thesis using below_iff [OF assms False] False parts_inj by auto
qed (simp add: covers_def)

lemma target_matches_covers:
  assumes "valid_path p" "valid_path n"
  shows "target_matches p n \<longleftrightarrow> covers p n"
proof -
  have "(case strip_prefix p n of Some rest \<Rightarrow> starts_with rest ''/'' | None \<Rightarrow> False) \<longleftrightarrow> starts_with n (p @ ''/'')"
    by (auto simp: starts_with_iff strip_prefix_None split: option.split)
  then show ?thesis using matches_covers [OF assms] by (simp add: target_matches_def)
qed

section \<open>The path below a target\<close>

lemma target_path_parts:
  assumes "valid_path p" "valid_path t" "valid_path n" "covers p n"
  shows "valid_path (target_path p t n) \<and>
    parts_of (target_path p t n) = parts_of t @ drop (length (parts_of p)) (parts_of n)"
proof -
  obtain rs where rs: "parts_of n = parts_of p @ rs" using assms(4) by (auto simp: covers_def prefix_def)
  have good: "\<forall>q \<in> set rs. good_part q" using parts_good [OF assms(3)] rs by auto
  note r = parts_of_parts [OF good]
  have tp: "target_path p t n = (if rs = [] then t else if t = ''.'' then of_parts rs else t @ ''/'' @ of_parts rs)"
  proof (cases "rs = []")
    case True
    then show ?thesis using rs parts_inj assms(2) by (simp add: target_path_def clean_valid)
  next
    case False
    have nd: "of_parts rs \<noteq> ''.''" using False r(1) by fastforce
    have pn: "p \<noteq> n" using rs False by auto
    have n: "n = of_parts (parts_of p @ rs)" using rs of_parts_parts [of n] by simp
    show ?thesis
    proof (cases "p = ''.''")
      case True
      then have "n = of_parts rs" using n by simp
      then show ?thesis using False True pn nd assms(2) r
        by (simp add: target_path_def clean_valid parts_append [of t "of_parts rs", simplified])
    next
      case pd: False
      then have "n = p @ slash # of_parts rs"
        using n False by (simp add: of_parts_def parts_of_def join_on_append)
      then have "Option.bind (strip_prefix p n) (strip_prefix ''/'') = Some (of_parts rs)" by simp
      then show ?thesis using False pd pn nd assms(2) r
        by (simp add: target_path_def clean_valid parts_append [of t "of_parts rs", simplified])
    qed
  qed
  show ?thesis
  proof (cases "rs = [] \<or> t = ''.''")
    case True
    then show ?thesis using tp rs r assms(2) by auto
  next
    case False
    then have "of_parts rs \<noteq> ''.''" using r(1) by fastforce
    then have "parts_of (t @ ''/'' @ of_parts rs) = parts_of t @ rs" "clean_path (t @ ''/'' @ of_parts rs) = t @ ''/'' @ of_parts rs"
      using parts_append [of t "of_parts rs"] assms(2) r False by auto
    then show ?thesis using tp rs False by (metis append_eq_conv_conj valid_clean)
  qed
qed

section \<open>The table of bindings\<close>

definition ns_inv :: "'r bindings \<Rightarrow> bool" where
  "ns_inv b \<longleftrightarrow> bt_ok b \<and>
     (\<forall>(p, ts) \<in> set b. valid_path p \<and> ts \<noteq> [] \<and> (\<forall>t \<in> set ts. valid_path (tg_path t)))"

lemma set_bt_insert: "set (bt_insert k v m) \<subseteq> insert (k, v) (set m)"
  by (induction k v m rule: bt_insert.induct) auto

lemma ns_inv_get:
  assumes "ns_inv b" "bt_get b p = Some ts"
  shows "valid_path p" "ts \<noteq> []" "t \<in> set ts \<Longrightarrow> valid_path (tg_path t)"
  using assms map_of_SomeD [OF assms(2)] by (auto simp: ns_inv_def)

lemma ns_inv_insert:
  assumes "ns_inv b" "valid_path p" "ts \<noteq> []" "\<And>t. t \<in> set ts \<Longrightarrow> valid_path (tg_path t)"
  shows "ns_inv (bt_insert p ts b)"
  using assms set_bt_insert [of p ts b] by (fastforce simp: ns_inv_def)

lemma ns_inv_filter: "ns_inv b \<Longrightarrow> ns_inv (filter P b)"
  by (auto simp: ns_inv_def)

lemma ns_inv_new: "ns_inv ns_new"
  by (simp add: ns_inv_def ns_new_def)

lemma entry_paths: "ns_inv b \<Longrightarrow> t \<in> set (entry_or_default p b) \<Longrightarrow> valid_path (tg_path t)"
  by (cases "bt_get b p") (auto simp: entry_or_default_def dest: ns_inv_get)

lemma ns_inv_add:
  "ns_inv b \<Longrightarrow> valid_path p \<Longrightarrow> valid_path (tg_path t) \<Longrightarrow> ns_inv (add_target mode p t b)"
  by (cases mode) (auto simp: add_target_def intro!: ns_inv_insert dest: entry_paths)

lemma ns_inv_retain: "ns_inv b \<Longrightarrow> ns_inv (retain_targets keep p b)"
  by (auto simp: retain_targets_def bt_remove_def intro!: ns_inv_insert ns_inv_filter dest: ns_inv_get split: option.split)

text \<open>The methods of the file system leave the bindings alone.\<close>

lemma keeps_on_sub [keeps_intros]: "keeps (\<lambda>w. P (fst w)) (on_sub m)"
  by (auto simp: keeps_def on_sub_def split: prod.splits)

lemma keeps_Pair [keeps_intros]: "keeps P (Pair r)"
  by (simp add: keeps_def)

lemmas sub_defs = sub_open_def sub_create_def sub_stat_def sub_read_dir_def

lemma keeps_sub [keeps_intros]:
  "keeps (\<lambda>w. P (fst w)) (sub_open tbl k ctx n)" "keeps (\<lambda>w. P (fst w)) (sub_create tbl k n)"
  "keeps (\<lambda>w. P (fst w)) (sub_stat tbl k ctx n)" "keeps (\<lambda>w. P (fst w)) (sub_read_dir tbl k ctx n)"
  unfolding sub_defs by (intro keeps_intros)+

lemma keeps_stat_or_cached [keeps_intros]: "keeps (\<lambda>w. P (fst w)) (stat_or_cached tbl ctx t)"
  unfolding stat_or_cached_def by (intro keeps_intros)

lemma keeps_synth_targets [keeps_intros]: "keeps (\<lambda>w. P (fst w)) (synth_targets tbl ctx r ts es)"
  by (induction ts arbitrary: es) (auto intro!: keeps_intros)

lemma keeps_synth_loop [keeps_intros]: "keeps (\<lambda>w. P (fst w)) (synth_loop tbl ctx n b acc)"
proof (induction b arbitrary: acc)
  case (Cons pb b)
  then show ?case by (cases pb; cases acc) (auto split: option.split intro!: keeps_intros)
qed (auto intro!: keeps_intros)

lemma keeps_synthesize [keeps_intros]: "keeps (\<lambda>w. P (fst w)) (synthesize_entries tbl ctx n)"
  unfolding synthesize_entries_def by (intro keeps_intros)

lemma keeps_open_direct [keeps_intros]: "keeps (\<lambda>w. P (fst w)) (open_direct tbl ctx ts acc)"
proof (induction ts arbitrary: acc)
  case (Cons t ts)
  then show ?case by (cases acc) (auto intro!: keeps_intros)
qed (auto intro!: keeps_intros)

lemma keeps_open_matching [keeps_intros]: "keeps (\<lambda>w. P (fst w)) (open_matching tbl ctx n ts acc)"
proof (induction ts arbitrary: acc)
  case (Cons t ts)
  then show ?case by (cases t; cases acc) (auto simp: Let_def intro!: keeps_intros split: sum.split)
qed (auto intro!: keeps_intros)

lemma keeps_stat_loops [keeps_intros]:
  "keeps (\<lambda>w. P (fst w)) (stat_direct tbl ctx ts)" "keeps (\<lambda>w. P (fst w)) (stat_matching tbl ctx n ps)"
proof -
  show "keeps (\<lambda>w. P (fst w)) (stat_direct tbl ctx ts)"
    by (induction ts) (auto intro!: keeps_intros split: sum.split)
  show "keeps (\<lambda>w. P (fst w)) (stat_matching tbl ctx n ps)"
  proof (induction ps)
    case (Cons p ps)
    then show ?case by (cases p) (auto intro!: keeps_intros split: sum.split)
  qed (auto intro!: keeps_intros)
qed

lemma keeps_route_write:
  assumes "\<And>t full. keeps (\<lambda>w. P (fst w)) (f t full)"
  shows "keeps (\<lambda>w. P (fst w)) (route_write n oper f)"
proof -
  have "keeps (\<lambda>w. P (fst w)) (route_direct f e ts)" for e ts
    by (induction ts arbitrary: e) (auto intro!: keeps_intros assms split: sum.split)
  moreover have "keeps (\<lambda>w. P (fst w)) (route_matching f oper m ps)" for m ps
  proof (induction ps)
    case (Cons p ps)
    then show ?case by (cases p) (auto intro!: keeps_intros assms split: sum.split)
  qed (auto intro!: keeps_intros)
  ultimately show ?thesis unfolding route_write_def Let_def by (intro keeps_intros)
qed

lemma keeps_link_loop [keeps_intros]: "keeps (\<lambda>w. P (fst w)) (link_loop tbl e ps)"
proof (induction ps arbitrary: e)
  case (Cons p ps)
  then show ?case by (cases p) (auto intro!: keeps_intros split: sum.split)
qed (auto intro!: keeps_intros)

lemmas ns_write_defs = ns_create_def ns_mkdir_def ns_remove_def ns_rename_def ns_chmod_def ns_chown_def
  ns_chtimes_def ns_truncate_def ns_symlink_def ns_readlink_def if_parent_def

lemma ns_methods_keep:
  "keeps (\<lambda>w. P (fst w)) (ns_open tbl ctx n)" "keeps (\<lambda>w. P (fst w)) (ns_stat tbl ctx n)"
  "keeps (\<lambda>w. P (fst w)) (ns_create tbl n)" "keeps (\<lambda>w. P (fst w)) (ns_mkdir tbl n p)"
  "keeps (\<lambda>w. P (fst w)) (ns_remove tbl n)" "keeps (\<lambda>w. P (fst w)) (ns_rename tbl n m)"
  "keeps (\<lambda>w. P (fst w)) (ns_link tbl n m)" "keeps (\<lambda>w. P (fst w)) (ns_chmod tbl n p)"
  "keeps (\<lambda>w. P (fst w)) (ns_chown tbl n u g)" "keeps (\<lambda>w. P (fst w)) (ns_chtimes tbl n t)"
  "keeps (\<lambda>w. P (fst w)) (ns_truncate tbl n sz)" "keeps (\<lambda>w. P (fst w)) (ns_symlink tbl n m)"
  "keeps (\<lambda>w. P (fst w)) (ns_readlink tbl n)"
  unfolding ns_write_defs ns_open_def ns_stat_def ns_link_def open_finish_def Let_def
  by (intro keeps_intros keeps_route_write)+

section \<open>The namespace as a transition system\<close>

text \<open>One call on the namespace, or a change of the file systems behind it by someone else.\<close>

inductive ns_step ::
    "('r, 's, 'h) fs_table \<Rightarrow> 'r bindings \<times> 's \<Rightarrow> 'r bindings \<times> 's \<Rightarrow> bool" for tbl where
  Bind: "ns_step tbl w (snd (ns_bind tbl r src dst mode w))"
| Unbind: "ns_step tbl w (snd (ns_unbind r src dst w))"
| UnbindPath: "ns_step tbl w (snd (unbind_path dst w))"
| UnbindSource: "ns_step tbl w (snd (unbind_source_path src dst w))"
| UnbindAll: "ns_step tbl w (snd (unbind_all w))"
| Open: "ns_step tbl w (snd (ns_open tbl ctx n w))"
| Stat: "ns_step tbl w (snd (ns_stat tbl ctx n w))"
| Create: "ns_step tbl w (snd (ns_create tbl n w))"
| Mkdir: "ns_step tbl w (snd (ns_mkdir tbl n p w))"
| Remove: "ns_step tbl w (snd (ns_remove tbl n w))"
| Rename: "ns_step tbl w (snd (ns_rename tbl n m w))"
| Link: "ns_step tbl w (snd (ns_link tbl n m w))"
| Chmod: "ns_step tbl w (snd (ns_chmod tbl n p w))"
| Chown: "ns_step tbl w (snd (ns_chown tbl n u g w))"
| Chtimes: "ns_step tbl w (snd (ns_chtimes tbl n t w))"
| Truncate: "ns_step tbl w (snd (ns_truncate tbl n sz w))"
| Symlink: "ns_step tbl w (snd (ns_symlink tbl n m w))"
| Readlink: "ns_step tbl w (snd (ns_readlink tbl n w))"
| Elsewhere: "ns_step tbl (b, s) (b, s')"

lemma keeps_inv_bind: "keeps (\<lambda>w. ns_inv (fst w)) (ns_bind tbl r src dst mode)"
  unfolding ns_bind_def Let_def
  by (intro keeps_intros) (auto intro!: ns_inv_add)

lemma keeps_inv_unbind:
  "keeps (\<lambda>w. ns_inv (fst w)) (ns_unbind r src dst)" "keeps (\<lambda>w. ns_inv (fst w)) (unbind_path dst)"
  "keeps (\<lambda>w. ns_inv (fst w)) (unbind_source_path src dst)" "keeps (\<lambda>w. ns_inv (fst w)) unbind_all"
  unfolding ns_unbind_def unbind_path_def unbind_source_path_def unbind_all_def Let_def
  by (intro keeps_intros; auto intro!: ns_inv_retain ns_inv_filter simp: bt_remove_def)+

lemma keeps_fst: "keeps (\<lambda>w. P (fst w)) m \<Longrightarrow> P (fst w) \<Longrightarrow> P (fst (snd (m w)))"
  using keeps_apply [of "\<lambda>w. P (fst w)" m w] by simp

lemma ns_step_inv: "ns_step tbl w w' \<Longrightarrow> ns_inv (fst w) \<Longrightarrow> ns_inv (fst w')"
  by (induction rule: ns_step.induct)
     (auto intro: keeps_fst keeps_inv_bind keeps_inv_unbind ns_methods_keep)

text \<open>
  C23. In every state a namespace can reach, whatever is bound, unbound, opened, created, renamed
  or linked and whatever happens to the file systems behind it, the table is in order and without
  duplicates, every mount point and every source path is canonical, and no mount point is left
  with an empty list of targets.
\<close>
theorem namespace_reachable_inv:
  assumes "(ns_step tbl)\<^sup>*\<^sup>* (ns_new, s) w"
  shows "ns_inv (fst w)"
  using assms by (induction rule: rtranclp_induct) (auto simp: ns_inv_new dest: ns_step_inv)

text \<open>
  The path a name becomes below a target: its components are those of the target followed by
  what the name has below the mount point. So a name never leaves the target it was routed to.
\<close>
lemma target_path_confined:
  assumes "valid_path p" "valid_path t" "valid_path n" "covers p n"
  shows "valid_path (target_path p t n) \<and>
    parts_of (target_path p t n) = parts_of t @ drop (length (parts_of p)) (parts_of n)"
  by (rule target_path_parts [OF assms])

theorem target_path_confined_witness:
  "parts_of (target_path ''mnt/a'' ''x/y'' ''mnt/a/b/c'') = [''x'', ''y'', ''b'', ''c'']"
proof -
  have v: "valid_path ''mnt/a''" "valid_path ''x/y''" "valid_path ''mnt/a/b/c''" by code_simp+
  have "covers ''mnt/a'' ''mnt/a/b/c''" by (simp add: covers_def parts_of_def)
  from target_path_confined [OF v this] show ?thesis by (simp add: parts_of_def)
qed

section \<open>The order of resolution\<close>

lemma longest_first_set [simp]: "set (longest_first ps) = set ps"
  by (simp add: longest_first_def)

lemma longest_first_sorted:
  assumes "i < j" "j < length (longest_first ps)"
  shows "length (fst (longest_first ps ! j)) \<le> length (fst (longest_first ps ! i))"
proof -
  let ?f = "\<lambda>(key, _). - int (length key)"
  have "sorted (map ?f (longest_first ps))" by (simp add: longest_first_def)
  then have "map ?f (longest_first ps) ! i \<le> map ?f (longest_first ps) ! j"
    using assms by (intro sorted_nth_mono) auto
  then show ?thesis using assms by (auto split: prod.splits)
qed

lemma longest_first_distinct: "distinct (map fst ps) \<Longrightarrow> distinct (map fst (longest_first ps))"
proof -
  assume d: "distinct (map fst ps)"
  have "mset (longest_first ps) = mset ps" by (simp add: longest_first_def)
  then have "mset (map fst (longest_first ps)) = mset (map fst ps)" by (simp only: mset_map)
  then show ?thesis using d by (metis mset_eq_imp_distinct_iff)
qed

lemma matching_in:
  assumes "ns_inv b" "valid_path n"
  shows "(p, ts) \<in> set (matching_targets n b) \<longleftrightarrow> bt_get b p = Some ts \<and> covers p n"
proof -
  have "(p, ts) \<in> set b \<longleftrightarrow> bt_get b p = Some ts"
    using assms(1) by (intro bt_get_in) (simp add: ns_inv_def)
  moreover have "(p, ts) \<in> set b \<Longrightarrow> valid_path p" using assms(1) by (auto simp: ns_inv_def)
  ultimately show ?thesis
    using matches_covers [OF _ assms(2), of p] by (auto simp: matching_targets_def)
qed

lemma covers_length:
  assumes "valid_path p" "valid_path q" "covers p q" "p \<noteq> q" "length q \<le> length p"
  shows "p = ''.'' \<and> length q = 1"
proof -
  have "q \<noteq> []" using assms(2) by (auto simp: valid_path_def)
  moreover have "\<not> starts_with q (p @ ''/'')" using assms(5) by (auto simp: starts_with_iff)
  then have "p = ''.''" using matches_covers [OF assms(1,2)] assms(3,4) by auto
  ultimately show ?thesis using assms(5) by (cases q) auto
qed

text \<open>
  Resolution of a name finds exactly the mount points at or above it, and tries a mount point
  before every one above it, with one exception: the root, whose path has length one, may come
  before a mount point whose name is a single character.
\<close>
lemma resolution_order:
  assumes "ns_inv b" and "valid_path n"
  shows "(\<forall>p ts. (p, ts) \<in> set (matching_targets n b) \<longleftrightarrow> bt_get b p = Some ts \<and> covers p n) \<and>
    (\<forall>i j. i < j \<and> j < length (matching_targets n b) \<and>
       covers (fst (matching_targets n b ! i)) (fst (matching_targets n b ! j)) \<longrightarrow>
       fst (matching_targets n b ! i) = ''.'' \<and> length (fst (matching_targets n b ! j)) = 1)"
proof (intro conjI allI impI)
  fix i j
  let ?ms = "matching_targets n b"
  assume h: "i < j \<and> j < length ?ms \<and> covers (fst (?ms ! i)) (fst (?ms ! j))"
  have "bt_ok (filter (\<lambda>(p, _). p = ''.'' \<or> p = n \<or> starts_with n (p @ ''/'')) b)"
    using assms(1) by (simp add: ns_inv_def)
  then have "distinct (map fst ?ms)"
    unfolding matching_targets_def bt_ok_def bt_keys_def
    by (intro longest_first_distinct) (simp add: strict_sorted_iff)
  then have "fst (?ms ! i) \<noteq> fst (?ms ! j)"
    using h nth_eq_iff_index_eq [of "map fst ?ms" i j] by simp
  moreover have "valid_path (fst (?ms ! k))" if "k < length ?ms" for k
    using nth_mem [OF that] assms(1) by (auto simp: matching_targets_def ns_inv_def split: prod.splits)
  moreover have "length (fst (?ms ! j)) \<le> length (fst (?ms ! i))"
    using h unfolding matching_targets_def by (intro longest_first_sorted) auto
  ultimately show "fst (?ms ! i) = ''.''" "length (fst (?ms ! j)) = 1"
    using covers_length [of "fst (?ms ! i)" "fst (?ms ! j)"] h by auto
qed (use matching_in [OF assms] in auto)

section \<open>Binding and unbinding\<close>

lemma bt_eqI:
  assumes "bt_ok a" "bt_ok b" "\<And>k. bt_get a k = bt_get b k"
  shows "a = b"
proof (rule map_sorted_distinct_set_unique [of fst])
  have s: "set a = set b" using bt_get_in [OF assms(1)] bt_get_in [OF assms(2)] assms(3) by auto
  then show "set a = set b" .
  have "sorted_wrt (<) (map fst a)" "sorted_wrt (<) (map fst b)"
    using assms(1,2) by (auto simp: bt_ok_def bt_keys_def)
  then show "sorted (map fst a)" "distinct (map fst a)" "sorted (map fst b)" "distinct (map fst b)"
    by (auto simp: strict_sorted_iff)
  then show "inj_on fst (set a \<union> set b)" using s by (simp add: distinct_map)
qed

definition is_target :: "'r \<Rightarrow> string \<Rightarrow> 'r bind_target \<Rightarrow> bool" where
  "is_target r src t \<longleftrightarrow> tg_fs t = r \<and> tg_path t = src"

lemma retain_add:
  assumes "ns_inv b" "is_target r src t" "\<forall>u \<in> set (entry_or_default dst b). \<not> is_target r src u"
    and "mode \<noteq> BindReplace"
  shows "retain_targets (\<lambda>u. \<not> is_target r src u) dst (add_target mode dst t b) = b"
proof (rule bt_eqI)
  let ?old = "entry_or_default dst b"
  have f: "filter (\<lambda>u. \<not> is_target r src u) ?old = ?old" using assms(3) by (simp add: filter_id_conv)
  obtain ts where ts: "add_target mode dst t b = bt_insert dst ts b" "filter (\<lambda>u. \<not> is_target r src u) ts = ?old"
    using assms(2,4) f by (cases mode) (auto simp: add_target_def)
  have ok: "bt_ok b" using assms(1) by (simp add: ns_inv_def)
  then show "bt_ok b" "bt_ok (retain_targets (\<lambda>u. \<not> is_target r src u) dst (add_target mode dst t b))"
    using ts by (auto simp: retain_targets_def)
  have "?old = [] \<longleftrightarrow> bt_get b dst = None" "bt_get b dst = Some us \<Longrightarrow> ?old = us" for us
    using ns_inv_get(2) [OF assms(1)] by (auto simp: entry_or_default_def split: option.splits)
  then show "bt_get (retain_targets (\<lambda>u. \<not> is_target r src u) dst (add_target mode dst t b)) k = bt_get b k" for k
    using ts by (auto simp: retain_targets_def)
qed


section \<open>A single mount\<close>

text \<open>
  What the caller sees of an operation on the target: the result, or the error, which becomes
  \<^emph>\<open>not found\<close> under the caller's name when its kind says that the target does not have it.
\<close>

definition through_mount :: "string \<Rightarrow> string \<Rightarrow> 'c \<Rightarrow> 'a res \<times> 's \<Rightarrow> 'a res \<times> 'c \<times> 's" where
  "through_mount oper n b = (\<lambda>(r, s).
     ((case r of
         Inl (Fail e) \<Rightarrow> if passes (kind_of e) then Err (Path oper n NotFound) else Err e
       | _ \<Rightarrow> r), (b, s)))"

lemma mount_matches:
  assumes "valid_path p" "valid_path n" "covers p n"
  shows "matching_targets n [(p, ts)] = [(p, ts)]"
  using matches_covers [OF assms(1,2)] assms(3) by (simp add: matching_targets_def longest_first_def)

lemma mount_route:
  assumes "valid_path p" "valid_path n" "covers p n" "p \<noteq> n"
    and "f t (target_path p (tg_path t) n) ([(p, [t])], s) = on_sub g ([(p, [t])], s)"
  shows "route_write n oper f ([(p, [t])], s) = through_mount oper n [(p, [t])] (g s)"
  using assms
  by (auto simp: route_write_def clean_valid direct_targets_def mount_matches each_target_def through_mount_def
      on_sub_def obind_def attempt_def split: prod.splits sum.splits fault.splits)

lemma mount_rename_path:
  assumes "valid_path p" "valid_path n" "covers p n"
  shows "rename_bind_path n t [(p, [t])] = p"
  by (simp add: rename_bind_path_def mount_matches [OF assms])

lemma nothing_below:
  assumes "valid_path p" "valid_path n" "covers p n" "p \<noteq> n"
  shows "rest_under n p = None"
proof (cases "n = ''.''")
  case True
  then show ?thesis using assms(3,4) parts_nonempty [of p] by (auto simp: covers_def)
next
  case False
  have "\<not> starts_with p (n @ ''/'')"
  proof
    assume "starts_with p (n @ ''/'')"
    then have "covers n p" using matches_covers [OF assms(2,1)] by blast
    then show False using assms(3,4) parts_inj by (metis covers_def prefix_order.antisym)
  qed
  then show ?thesis using False by (auto simp: rest_under_def starts_with_iff strip_prefix_None)
qed

definition stat_through_mount :: "string \<Rightarrow> 'c \<Rightarrow> metadata res \<times> 's \<Rightarrow> metadata res \<times> 'c \<times> 's" where
  "stat_through_mount n b = (\<lambda>(r, s).
     ((case r of
         Inr md \<Rightarrow> Ok (md\<lparr>md_name := base_name n\<rparr>)
       | Inl (Fail e) \<Rightarrow> if kind_of e = NotFound then Err (Path ''stat'' n NotFound) else Err e
       | Inl f \<Rightarrow> Inl f), (b, s)))"

lemma mount_stat:
  assumes "valid_path p" "valid_path n" "covers p n" "p \<noteq> n"
  shows "ns_stat tbl ctx n ([(p, [t])], s) =
    stat_through_mount n [(p, [t])]
      (fs_stat (tbl (tg_fs t)) (with_origin n ''stat'' ctx) (target_path p (tg_path t) n) s)"
proof -
  have nd: "n \<noteq> ''.''" using assms(3,4) parts_nonempty [of p] by (auto simp: covers_def)
  have "indirect_targets n [(p, [t])] = [(p, t)]" "entry_or_default n [(p, [t])] = []"
    using assms by (auto simp: indirect_targets_def mount_matches each_target_def entry_or_default_def)
  then show ?thesis
    using assms nd nothing_below [OF assms]
    by (auto simp: ns_stat_def Let_def clean_valid sub_stat_def on_sub_def obind_def attempt_def synthesize_entries_def
        bt_keys_def stat_through_mount_def split: prod.splits sum.splits fault.splits)
qed


end
