(* ===== verification/Composite_Laws.thy ===== *)
theory Composite_Laws
  imports Composite Memfs_Laws
begin

text \<open>
  What the composite file systems inherit from their parts: if every part keeps an invariant of the
  world they share, so do \<open>MapFs\<close> and \<open>UnionFs\<close>. The in-memory file systems, each with a state of its
  own, are such a family. The last section states which layer of a union answers.
\<close>

section \<open>Families of file systems\<close>

locale fs_family =
  fixes tbl :: "('r, 's, 'h) fs_table"
    and winv :: "'s \<Rightarrow> bool"
  assumes part: "fs_contract (tbl k) winv"
begin

lemmas part_methods = fs_contract.methods [OF part]

lemma keeps_sub_world [keeps_intros]: "keeps winv m \<Longrightarrow> keeps (\<lambda>w. winv (snd w)) (on_sub m)"
  by (auto simp: keeps_def on_sub_def split: prod.splits)

lemma keeps_parts [keeps_intros]:
  "keeps (\<lambda>w. winv (snd w)) (sub_open tbl k ctx n)" "keeps (\<lambda>w. winv (snd w)) (sub_create tbl k n)"
  "keeps (\<lambda>w. winv (snd w)) (sub_stat tbl k ctx n)" "keeps (\<lambda>w. winv (snd w)) (sub_read_dir tbl k ctx n)"
  unfolding sub_open_def sub_create_def sub_stat_def sub_read_dir_def
  by (intro keeps_intros part_methods)+

lemma keeps_dispatch:
  assumes "\<And>k. hkeeps winv (m (fs_file (tbl k)))" "\<And>x. snd (snd (n x)) = snd x"
  shows "hkeeps (\<lambda>w. winv (snd w)) (comp_dispatch tbl m n)"
  unfolding keeps_def comp_dispatch_def
proof (clarsimp split: comp_file.splits prod.splits, intro conjI allI impI)
  fix c s d r d' w1 w2
  assume "winv s" "n (d, c, s) = (r, d', w1, w2)"
  then show "winv w2" using assms(2) [of "(d, c, s)"] by simp
next
  fix c s k h r h' s'
  assume "winv s" "m (fs_file (tbl k)) (h, s) = (r, h', s')"
  then show "winv s'" using keepsD [OF assms(1) [of k], of "(h, s)"] by simp
qed

lemma dir_file_frame [simp]:
  "snd (snd (fh_read dir_file_handle j x)) = snd x" "snd (snd (fh_write dir_file_handle d x)) = snd x"
  "snd (snd (fh_read_at dir_file_handle j off x)) = snd x" "snd (snd (fh_write_at dir_file_handle d off x)) = snd x"
  "snd (snd (fh_seek dir_file_handle pos x)) = snd x" "snd (snd (fh_stat dir_file_handle x)) = snd x"
  "snd (snd (fh_read_dir dir_file_handle i x)) = snd x" "snd (snd (fh_sync dir_file_handle x)) = snd x"
  "snd (snd (fh_close dir_file_handle x)) = snd x"
  by (cases x; simp add: dir_file_handle_def dir_file_read_def default_write_def default_read_at_def
      default_write_at_def default_seek_def dir_file_stat_def dir_file_read_dir_def default_sync_def
      default_close_def obind_def Let_def)+

lemma handle_keeps:
  "hkeeps (\<lambda>w. winv (snd w)) (fh_read (comp_handle tbl) j)" "hkeeps (\<lambda>w. winv (snd w)) (fh_write (comp_handle tbl) d)"
  "hkeeps (\<lambda>w. winv (snd w)) (fh_read_at (comp_handle tbl) j off)" "hkeeps (\<lambda>w. winv (snd w)) (fh_write_at (comp_handle tbl) d off)"
  "hkeeps (\<lambda>w. winv (snd w)) (fh_seek (comp_handle tbl) pos)" "hkeeps (\<lambda>w. winv (snd w)) (fh_stat (comp_handle tbl))"
  "hkeeps (\<lambda>w. winv (snd w)) (fh_read_dir (comp_handle tbl) i)" "hkeeps (\<lambda>w. winv (snd w)) (fh_sync (comp_handle tbl))"
  "hkeeps (\<lambda>w. winv (snd w)) (fh_close (comp_handle tbl))"
  unfolding comp_handle_def
  by (simp_all, (rule keeps_dispatch; simp add: part_methods)+)

text \<open>A file system that overrides \<open>open\<close> and \<open>stat\<close> inherits the contract through the default methods.\<close>

lemma defaults_contract:
  assumes "\<And>ctx n. keeps (\<lambda>w. winv (snd w)) (opn ctx n)" "\<And>ctx n. keeps (\<lambda>w. winv (snd w)) (st ctx n)"
    and "\<And>n. keeps (\<lambda>w. winv (snd w)) (create n)" "\<And>n p. keeps (\<lambda>w. winv (snd w)) (mkdir n p)"
  shows "fs_contract (with_defaults (comp_handle tbl) opn st create mkdir) (\<lambda>w. winv (snd w))"
  by unfold_locales
     (auto simp: with_defaults_def default_lstat_def default_read_dir_def default_open_file_def
       intro!: keeps_intros handle_keeps assms split: sum.splits)

lemma keeps_mapfs_list: "keeps (\<lambda>w. winv (snd w)) (mapfs_list tbl ctx n m acc)"
proof (induction m arbitrary: acc)
  case (Cons p m)
  then show ?case by (cases p; cases acc) (auto split: option.split intro!: keeps_intros)
qed (auto intro!: keeps_intros)

lemma keeps_mapfs_open: "keeps (\<lambda>w. winv (snd w)) (mapfs_open tbl ctx n)"
  unfolding mapfs_open_def Let_def by (intro keeps_intros keeps_mapfs_list)

lemma mapfs_contract: "fs_contract (mapfs_ops tbl) (\<lambda>w. winv (snd w))"
  unfolding mapfs_ops_def mapfs_stat_def
  by (rule defaults_contract) (intro keeps_intros keeps_mapfs_open handle_keeps)+

lemma keeps_union_loop: "keeps (\<lambda>w. winv (snd w)) (union_open_loop tbl ctx n es ls)"
  by (induction ls arbitrary: es) (auto intro!: keeps_intros split: sum.split)

lemma keeps_first_layer:
  "(\<And>k. keeps (\<lambda>w. winv (snd w)) (f k)) \<Longrightarrow> keeps (\<lambda>w. winv (snd w)) (first_layer skip none f ls)"
  by (induction ls) (auto intro!: keeps_intros split: sum.split)

lemma unionfs_contract: "fs_contract (unionfs_ops tbl) (\<lambda>w. winv (snd w))"
  unfolding unionfs_ops_def unionfs_open_def unionfs_stat_def unionfs_create_def unionfs_mkdir_def
  by (rule defaults_contract)
     (intro keeps_intros keeps_union_loop keeps_first_layer part_methods)+

end

section \<open>Independent parts\<close>

text \<open>A world with one state for every reference; the file system \<open>fs_at k\<close> works on its own.\<close>

definition at_ref :: "'r \<Rightarrow> ('s, 'a) op \<Rightarrow> ('r \<Rightarrow> 's, 'a) op" where
  "at_ref k m = (\<lambda>w. case m (w k) of (r, s) \<Rightarrow> (r, w(k := s)))"

definition at_ref_file :: "'r \<Rightarrow> ('h \<times> 's, 'a) op \<Rightarrow> ('h \<times> ('r \<Rightarrow> 's), 'a) op" where
  "at_ref_file k m = (\<lambda>(h, w). case m (h, w k) of (r, (h', s)) \<Rightarrow> (r, (h', w(k := s))))"

definition fs_at :: "('s, 'h) filesystem \<Rightarrow> ('r, 'r \<Rightarrow> 's, 'h) fs_table" where
  "fs_at fs k =
     \<lparr>fs_file =
        \<lparr>fh_read = (\<lambda>n. at_ref_file k (fh_read (fs_file fs) n)),
         fh_write = (\<lambda>d. at_ref_file k (fh_write (fs_file fs) d)),
         fh_read_at = (\<lambda>n p. at_ref_file k (fh_read_at (fs_file fs) n p)),
         fh_write_at = (\<lambda>d p. at_ref_file k (fh_write_at (fs_file fs) d p)),
         fh_seek = (\<lambda>p. at_ref_file k (fh_seek (fs_file fs) p)),
         fh_stat = at_ref_file k (fh_stat (fs_file fs)),
         fh_read_dir = (\<lambda>n. at_ref_file k (fh_read_dir (fs_file fs) n)),
         fh_sync = at_ref_file k (fh_sync (fs_file fs)),
         fh_close = at_ref_file k (fh_close (fs_file fs))\<rparr>,
      fs_open = (\<lambda>c n. at_ref k (fs_open fs c n)), fs_stat = (\<lambda>c n. at_ref k (fs_stat fs c n)),
      fs_lstat = (\<lambda>c n. at_ref k (fs_lstat fs c n)), fs_read_dir = (\<lambda>c n. at_ref k (fs_read_dir fs c n)),
      fs_create = (\<lambda>n. at_ref k (fs_create fs n)),
      fs_open_file = (\<lambda>n fl p. at_ref k (fs_open_file fs n fl p)),
      fs_mkdir = (\<lambda>n p. at_ref k (fs_mkdir fs n p)), fs_remove = (\<lambda>n. at_ref k (fs_remove fs n)),
      fs_rename = (\<lambda>a b. at_ref k (fs_rename fs a b)), fs_link = (\<lambda>a b. at_ref k (fs_link fs a b)),
      fs_chmod = (\<lambda>n p. at_ref k (fs_chmod fs n p)), fs_chown = (\<lambda>n u g. at_ref k (fs_chown fs n u g)),
      fs_chtimes = (\<lambda>n t. at_ref k (fs_chtimes fs n t)),
      fs_truncate = (\<lambda>n sz. at_ref k (fs_truncate fs n sz)),
      fs_symlink = (\<lambda>a b. at_ref k (fs_symlink fs a b)), fs_readlink = (\<lambda>n. at_ref k (fs_readlink fs n)),
      fs_set_xattr = (\<lambda>n a d. at_ref k (fs_set_xattr fs n a d)),
      fs_get_xattr = (\<lambda>n a. at_ref k (fs_get_xattr fs n a)),
      fs_list_xattrs = (\<lambda>n. at_ref k (fs_list_xattrs fs n)),
      fs_remove_xattr = (\<lambda>n a. at_ref k (fs_remove_xattr fs n a)),
      fs_sync_fs = at_ref k (fs_sync_fs fs)\<rparr>"

lemma keeps_at_ref: "keeps P m \<Longrightarrow> keeps (\<lambda>w. \<forall>k. P (w k)) (at_ref k m)"
  by (auto simp: at_ref_def keeps_def split: prod.split) (metis snd_conv)

lemma keeps_at_ref_file: "hkeeps P m \<Longrightarrow> hkeeps (\<lambda>w. \<forall>k. P (w k)) (at_ref_file k m)"
  by (auto simp: at_ref_file_def keeps_def split: prod.split) (metis snd_conv)

lemma fs_at_contract:
  assumes "fs_contract fs P"
  shows "fs_contract (fs_at fs k) (\<lambda>w. \<forall>k. P (w k))"
  by unfold_locales
     (simp_all add: fs_at_def keeps_at_ref keeps_at_ref_file fs_contract.methods [OF assms]
       fs_contract.f_rename [OF assms])

interpretation mems: fs_family "fs_at memfs_ops" "\<lambda>w. \<forall>k. memfs_inv (w k)"
  by (rule fs_family.intro) (rule fs_at_contract [OF mem.fs_contract_axioms])

section \<open>Which layer answers\<close>

text \<open>
  The specification of a union over layers that answer without changing the world: the first layer
  whose answer is not the error that means \<^emph>\<open>not here\<close>.
\<close>

definition first_answer :: "error_kind \<Rightarrow> error \<Rightarrow> ('r \<Rightarrow> 'a res) \<Rightarrow> 'r list \<Rightarrow> 'a res" where
  "first_answer skip none ans layers =
     (case find (\<lambda>k. \<not> (\<exists>e. ans k = Err e \<and> kind_of e = skip)) layers of
        Some k \<Rightarrow> ans k
      | None \<Rightarrow> Err none)"

lemma first_layer_answer:
  assumes "\<And>k. k \<in> set layers \<Longrightarrow> f k w = (ans k, w)"
  shows "first_layer skip none f layers w = (first_answer skip none ans layers, w)"
  using assms
proof (induction layers)
  case (Cons k layers)
  then have "f k w = (ans k, w)" "first_layer skip none f layers w = (first_answer skip none ans layers, w)" by simp_all
  then show ?case
    by (auto simp: first_answer_def obind_def attempt_def split: sum.split fault.split)
qed (simp add: first_answer_def)

text \<open>A directory of a part that is empty opens as \<^emph>\<open>not found\<close> although \<open>stat\<close> finds it.\<close>

lemma union_empty_dir:
  "let w = ([0 :: nat], \<lambda>k :: nat. snd (memfs_mkdir ''d'' 0x1ED (memfs_new 0))) in
     (case fst (unionfs_stat (fs_at memfs_ops) context_new ''d'' w) of Inr md \<Rightarrow> md_is_dir md | _ \<Rightarrow> False) \<and>
     (case fst (unionfs_open (fs_at memfs_ops) context_new ''d'' w) of
        Inl (Fail e) \<Rightarrow> e = Path ''open'' ''d'' NotFound | _ \<Rightarrow> False)"
  by code_simp

text \<open>A key that repeats at the start of the rest of the name is stripped twice.\<close>

lemma mapfs_strips_twice: "mapfs_rel ''a'' ''a/a/f'' = ''f''"
  by code_simp

end
