(* ===== verification/Namespace_Memfs.thy ===== *)
theory Namespace_Memfs
  imports Namespace_Laws Composite_Laws Memfs_Props
begin

text \<open>
  Namespaces over in-memory file systems, each reference with a state of its own: instances of the
  laws of the namespace, and runs in which resolution picks the wrong target.
\<close>

section \<open>Instances\<close>

definition two_mems :: "nat \<Rightarrow> memfs" where
  "two_mems k =
     (if k = 0 then snd (memfs_mkdir ''a/x'' 0x1ED (snd (memfs_mkdir ''a'' 0x1ED (memfs_new 0))))
      else snd (memfs_create ''x'' (snd (memfs_mkdir ''d'' 0x1ED (memfs_new 0)))))"

abbreviation bind_at :: "nat \<Rightarrow> string \<Rightarrow> string \<Rightarrow> bind_mode \<Rightarrow> (nat bindings \<times> (nat \<Rightarrow> memfs), unit) op" where
  "bind_at \<equiv> ns_bind (fs_at memfs_ops)"

theorem namespace_reachable_inv_witness:
  "ns_inv (fst (snd (unbind_path ''m'' (snd (bind_at 1 ''d'' ''m'' BindAfter (ns_new, two_mems))))))"
  by (rule namespace_reachable_inv [of "fs_at memfs_ops" two_mems])
     (rule rtranclp.rtrancl_into_rtrancl, rule r_into_rtranclp, rule Bind, rule UnbindPath)

definition one_target :: "nat bind_target" where
  "one_target = \<lparr>tg_fs = 1, tg_path = ''.'', tg_metadata = metadata_dir ''.'' 0x1ED\<rparr>"

lemma demo_paths: "valid_path ''m''" "valid_path ''m/x''" "valid_path ''m/y''" "valid_path ''d''"
  by code_simp+

lemma demo_covers: "covers ''m'' ''m/x''" "covers ''m'' ''m/y''"
  by (simp_all add: covers_def parts_of_def)

theorem resolution_order_witness:
  "((''m'', [one_target]) \<in> set (matching_targets ''m/x'' [(''m'', [one_target])])) =
    (bt_get [(''m'', [one_target])] ''m'' = Some [one_target] \<and> covers ''m'' ''m/x'')"
proof -
  have "ns_inv [(''m'', [one_target])]"
    using demo_paths by (simp add: ns_inv_def bt_ok_def bt_keys_def one_target_def)
  from resolution_order [OF this demo_paths(2)] show ?thesis by blast
qed



section \<open>Surprises\<close>

text \<open>
  The path of the root has length one, so it is not tried after a mount point with a name of one
  character: with the first file system at the root and the second at \<open>a\<close>, the name \<open>a/x\<close> is the
  directory of the first and not the file of the second.
\<close>

definition shadowed :: "nat bindings \<times> (nat \<Rightarrow> memfs)" where
  "shadowed = snd (bind_at 1 ''.'' ''a'' BindReplace (snd (bind_at 0 ''.'' ''.'' BindReplace (ns_new, two_mems))))"

lemma root_shadows_short_mount:
  "map fst (matching_targets ''a/x'' (fst shadowed)) = [''.'', ''a''] \<and>
   (case fst (ns_stat (fs_at memfs_ops) context_new ''a/x'' shadowed) of
      Inr md \<Rightarrow> md_is_dir md | _ \<Rightarrow> False)"
  by code_simp

text \<open>
  A rename to a name outside the mount becomes a rename onto the root of the mounted file system,
  which succeeds and replaces that root by the file.
\<close>

lemma rename_out_of_mount_replaces_root:
  "let w = ([(''m'', [one_target])], two_mems); run = ns_rename (fs_at memfs_ops) ''m/x'' ''elsewhere/y'' w in
     fst run = Ok () \<and>
     (case fst (memfs_stat context_new ''.'' (snd (snd run) 1)) of Inr md \<Rightarrow> \<not> md_is_dir md | _ \<Rightarrow> False)"
  by code_simp

text \<open>\<open>BindMode::After\<close> puts the new target first, so it hides what was there.\<close>

lemma bind_after_comes_first:
  "map tg_fs (entry_or_default ''m'' (fst (snd (bind_at 1 ''d'' ''m'' BindAfter
     (snd (bind_at 0 ''a'' ''m'' BindAfter (ns_new, two_mems))))))) = [1, 0]"
  by code_simp

end
