(* ===== verification/Rust_Text.thy ===== *)
theory Rust_Text
  imports Rust_Std
begin

text \<open>
  The methods of \<open>str\<close> that work on white space: \<open>trim\<close>, \<open>split_whitespace\<close> and \<open>lines\<close>, on strings as
  lists of bytes. White space is the Unicode property \<open>White_Space\<close>, given by the UTF-8 encodings of its
  characters; in a valid string an encoding is found only where a character starts.
\<close>

section \<open>White space\<close>

definition ws_seqs :: "string list" where
  "ws_seqs =
     map (\<lambda>n. [char_of n]) [9, 10, 11, 12, 13, 32 :: nat]
     @ [[CHR 0xC2, CHR 0x85], [CHR 0xC2, CHR 0xA0], [CHR 0xE1, CHR 0x9A, CHR 0x80]]
     @ map (\<lambda>n. [CHR 0xE2, CHR 0x80, char_of n]) ([128 ..< 139] @ [168, 169, 175 :: nat])
     @ [[CHR 0xE2, CHR 0x81, CHR 0x9F], [CHR 0xE3, CHR 0x80, CHR 0x80]]"

definition find_seq :: "string list \<Rightarrow> string \<Rightarrow> string option" where
  "find_seq ws s = find (\<lambda>w. w \<noteq> [] \<and> starts_with s w) ws"

lemma find_seq_Some: "find_seq ws s = Some w \<Longrightarrow> w \<in> set ws \<and> w \<noteq> [] \<and> (\<exists>t. s = w @ t)"
  unfolding find_seq_def find_Some_iff
  by (auto simp: starts_with_def strip_prefix_Some)

lemma find_seq_shorter: "find_seq ws s = Some w \<Longrightarrow> length (drop (length w) s) < length s"
  using find_seq_Some by fastforce

function drop_seqs :: "string list \<Rightarrow> string \<Rightarrow> string" where
  "drop_seqs ws s = (case find_seq ws s of None \<Rightarrow> s | Some w \<Rightarrow> drop_seqs ws (drop (length w) s))"
  by pat_completeness auto
termination
  by (relation "measure (length \<circ> snd)") (simp_all del: length_drop add: find_seq_shorter)

declare drop_seqs.simps [simp del]

definition trim_start :: "string \<Rightarrow> string" where
  "trim_start s = drop_seqs ws_seqs s"

definition trim_end :: "string \<Rightarrow> string" where
  "trim_end s = rev (drop_seqs (map rev ws_seqs) (rev s))"

definition str_trim :: "string \<Rightarrow> string" where
  "str_trim s = trim_end (trim_start s)"

function split_ws_loop :: "string \<Rightarrow> string \<Rightarrow> string list" where
  "split_ws_loop acc s =
     (case find_seq ws_seqs s of
        Some w \<Rightarrow> acc # split_ws_loop [] (drop (length w) s)
      | None \<Rightarrow> (case s of [] \<Rightarrow> [acc] | c # cs \<Rightarrow> split_ws_loop (acc @ [c]) cs))"
  by pat_completeness auto
termination
  by (relation "measure (length \<circ> snd)") (simp_all del: length_drop add: find_seq_shorter)

declare split_ws_loop.simps [simp del]

definition split_ws :: "string \<Rightarrow> string list" where
  "split_ws s = filter (\<lambda>p. p \<noteq> []) (split_ws_loop [] s)"

section \<open>Lines\<close>

definition newline :: char where
  "newline = CHR 0x0A"

text \<open>Every line but the last ends with a newline, before which a carriage return is dropped.\<close>

definition drop_cr :: "string \<Rightarrow> string" where
  "drop_cr l = (if ends_with l [CHR 0x0D] then butlast l else l)"

definition str_lines :: "string \<Rightarrow> string list" where
  "str_lines s =
     (let ps = split_on newline s in
      map drop_cr (butlast ps) @ (if last ps = [] then [] else [last ps]))"

section \<open>Laws\<close>

lemma drop_seqs_None [simp]: "find_seq ws s = None \<Longrightarrow> drop_seqs ws s = s"
  by (simp add: drop_seqs.simps [of ws s])

lemma drop_seqs_done: "find_seq ws (drop_seqs ws s) = None"
proof (induction ws s rule: drop_seqs.induct)
  case (1 ws s)
  then show ?case by (cases "find_seq ws s") (simp_all add: drop_seqs.simps [of ws s])
qed

lemma drop_seqs_idem [simp]: "drop_seqs ws (drop_seqs ws s) = drop_seqs ws s"
  by (simp add: drop_seqs_done)

lemma drop_seqs_suffix: "\<exists>p. s = p @ drop_seqs ws s"
proof (induction ws s rule: drop_seqs.induct)
  case (1 ws s)
  show ?case
  proof (cases "find_seq ws s")
    case (Some w)
    obtain p where "drop (length w) s = p @ drop_seqs ws (drop (length w) s)"
      using "1.IH" [OF Some] by blast
    then have "s = (take (length w) s @ p) @ drop_seqs ws s"
      using Some append_take_drop_id [of "length w" s] by (simp add: drop_seqs.simps [of ws s])
    then show ?thesis by blast
  qed simp
qed

lemma find_seq_prefix_None: "find_seq ws (p @ q) = None \<Longrightarrow> find_seq ws p = None"
  unfolding find_seq_def find_None_iff by (auto simp: starts_with_def strip_prefix_Some)

lemma str_trim_idem [simp]: "str_trim (str_trim s) = str_trim s"
proof -
  let ?t = "trim_start s"
  have none: "find_seq ws_seqs ?t = None" by (simp add: trim_start_def drop_seqs_done)
  obtain p where "rev ?t = p @ drop_seqs (map rev ws_seqs) (rev ?t)"
    using drop_seqs_suffix by blast
  then have "?t = trim_end ?t @ rev p" by (metis rev_append rev_rev_ident trim_end_def)
  with none have "find_seq ws_seqs (trim_end ?t) = None" by (metis find_seq_prefix_None)
  then have "trim_start (trim_end ?t) = trim_end ?t" by (simp add: trim_start_def)
  then show ?thesis by (simp add: str_trim_def trim_end_def)
qed

lemma str_lines_nil [simp]: "str_lines [] = []"
  by (simp add: str_lines_def)

text \<open>Lines that hold no newline and do not end with a carriage return are read back from their join.\<close>

lemma str_lines_join:
  assumes "\<forall>l \<in> set ls. newline \<notin> set l \<and> \<not> ends_with l [CHR 0x0D]" "ls \<noteq> []" "last ls \<noteq> []"
  shows "str_lines (join_on newline ls) = ls"
proof -
  have "split_on newline (join_on newline ls) = ls" using assms by (simp add: split_join_on)
  moreover have "map drop_cr (butlast ls) = butlast ls"
    using assms(1) in_set_butlastD by (fastforce simp: drop_cr_def intro: map_idI)
  ultimately show ?thesis using assms(2,3) by (simp add: str_lines_def Let_def)
qed

end
