(* ===== verification/Pipes.thy ===== *)
theory Pipes
  imports Composite Rust_Text
begin

text \<open>
  The synthetic files of \<open>crates/star9-fs/src/lib.rs\<close>: a field whose text is read and replaced, a
  control file that runs a command when it is closed, pipes with two ends, and the signal file that
  copies what is written to every reader. The callback of a control file is a parameter. A field is its
  own world; pipe buffers live in a heap, because the ends and the clones of a port share them.
\<close>

section \<open>Directories and files of one file system\<close>

datatype 'h dir_or = OfDir dir_file | OfFile 'h

definition dir_or_dispatch ::
    "('h \<times> 's, 'a) op \<Rightarrow> (dir_file \<times> 's, 'a) op \<Rightarrow> ('h dir_or \<times> 's, 'a) op" where
  "dir_or_dispatch m n = (\<lambda>(f, s). case f of
       OfDir d \<Rightarrow> (case n (d, s) of (r, (d', s')) \<Rightarrow> (r, (OfDir d', s')))
     | OfFile h \<Rightarrow> (case m (h, s) of (r, (h', s')) \<Rightarrow> (r, (OfFile h', s'))))"

definition dir_or_handle :: "('s, 'h) file_handle \<Rightarrow> ('s, 'h dir_or) file_handle" where
  "dir_or_handle fh =
     \<lparr>fh_read = (\<lambda>n. dir_or_dispatch (fh_read fh n) (fh_read dir_file_handle n)),
      fh_write = (\<lambda>d. dir_or_dispatch (fh_write fh d) (fh_write dir_file_handle d)),
      fh_read_at = (\<lambda>n p. dir_or_dispatch (fh_read_at fh n p) (fh_read_at dir_file_handle n p)),
      fh_write_at = (\<lambda>d p. dir_or_dispatch (fh_write_at fh d p) (fh_write_at dir_file_handle d p)),
      fh_seek = (\<lambda>p. dir_or_dispatch (fh_seek fh p) (fh_seek dir_file_handle p)),
      fh_stat = dir_or_dispatch (fh_stat fh) (fh_stat dir_file_handle),
      fh_read_dir = (\<lambda>n. dir_or_dispatch (fh_read_dir fh n) (fh_read_dir dir_file_handle n)),
      fh_sync = dir_or_dispatch (fh_sync fh) (fh_sync dir_file_handle),
      fh_close = dir_or_dispatch (fh_close fh) (fh_close dir_file_handle)\<rparr>"

text \<open>The bytes a handle over a fixed buffer reads from its offset.\<close>

definition read_from :: "bytes \<Rightarrow> u64 \<Rightarrow> nat \<Rightarrow> bytes" where
  "read_from data offset len =
     (if unat offset \<ge> length data then [] else take (min len (length data - unat offset)) (drop (unat offset) data))"

section \<open>\<open>FieldFile\<close>\<close>

record field_file =
  ff_name :: string
  ff_value :: string
  ff_writable :: bool

definition field_readonly :: "string \<Rightarrow> string \<Rightarrow> field_file" where
  "field_readonly name val = \<lparr>ff_name = name, ff_value = val, ff_writable = False\<rparr>"

definition field_writable :: "string \<Rightarrow> string \<Rightarrow> field_file" where
  "field_writable name val = \<lparr>ff_name = name, ff_value = val, ff_writable = True\<rparr>"

definition field_set :: "string \<Rightarrow> (field_file, unit) op" where
  "field_set val =
     obind (gets ff_writable) (\<lambda>w.
     if \<not> w then throw (Fail (Kind PermissionDenied))
     else modify (\<lambda>f. f\<lparr>ff_value := val\<rparr>))"

record field_handle =
  fd_data :: bytes
  fd_offset :: u64
  fd_dirty :: bytes

definition field_open :: "fs_context \<Rightarrow> string \<Rightarrow> (field_file, field_handle) op" where
  "field_open ctx name =
     self_only ''open'' name (gets (\<lambda>f.
       \<lparr>fd_data = as_bytes (ff_value f @ [newline]), fd_offset = 0, fd_dirty = []\<rparr>))"

definition field_stat :: "fs_context \<Rightarrow> string \<Rightarrow> (field_file, metadata) op" where
  "field_stat ctx name = gets (\<lambda>f.
     metadata_file (ff_name f) (if ff_writable f then 0x1B6 else 0x124) (of_nat (length (ff_value f)) + 1))"

definition field_handle_read :: "nat \<Rightarrow> (field_handle \<times> field_file, bytes) op" where
  "field_handle_read len = (\<lambda>(h, f).
     (let data = read_from (fd_data h) (fd_offset h) len in
      (Ok data, (h\<lparr>fd_offset := fd_offset h + of_nat (length data)\<rparr>, f))))"

definition field_handle_write :: "bytes \<Rightarrow> (field_handle \<times> field_file, nat) op" where
  "field_handle_write data = (\<lambda>(h, f).
     if \<not> ff_writable f then (Err (Kind PermissionDenied), (h, f))
     else (Ok (length data), (h\<lparr>fd_dirty := fd_dirty h @ data\<rparr>, f)))"

definition field_handle_seek :: "seek_from \<Rightarrow> (field_handle \<times> field_file, u64) op" where
  "field_handle_seek pos = (\<lambda>(h, f).
     (let next = (case pos of
                    SeekStart p \<Rightarrow> int (unat p)
                  | SeekEnd off \<Rightarrow> int (length (fd_data h)) + off
                  | SeekCurrent off \<Rightarrow> int (unat (fd_offset h)) + off) in
      if next < 0 \<or> next > int (length (fd_data h)) then (Err (Kind Invalid), (h, f))
      else (Ok (of_int next), (h\<lparr>fd_offset := of_int next\<rparr>, f))))"

definition field_handle_stat :: "(field_handle \<times> field_file, metadata) op" where
  "field_handle_stat = (\<lambda>(h, f). case field_stat context_new ''.'' f of (r, f') \<Rightarrow> (r, (h, f')))"

definition field_handle_close :: "(field_handle \<times> field_file, unit) op" where
  "field_handle_close = (\<lambda>(h, f).
     if fd_dirty h \<noteq> []
     then (case field_set (str_trim (from_utf8_lossy (fd_dirty h))) f of (r, f') \<Rightarrow> (r, (h, f')))
     else (Ok (), (h, f)))"

definition field_file_handle :: "(field_file, field_handle) file_handle" where
  "field_file_handle =
     \<lparr>fh_read = field_handle_read, fh_write = field_handle_write,
      fh_read_at = default_read_at field_handle_seek field_handle_read,
      fh_write_at = default_write_at field_handle_seek field_handle_write,
      fh_seek = field_handle_seek, fh_stat = field_handle_stat,
      fh_read_dir = default_handle_read_dir field_handle_stat,
      fh_sync = default_sync, fh_close = field_handle_close\<rparr>"

definition field_ops :: "(field_file, field_handle) filesystem" where
  "field_ops = with_defaults field_file_handle field_open field_stat (\<lambda>_. not_supported) (\<lambda>_ _. not_supported)"

section \<open>\<open>ControlFile\<close>\<close>

type_synonym 's control_callback = "string \<Rightarrow> ('s, unit) op"

definition control_open :: "fs_context \<Rightarrow> string \<Rightarrow> ('s, bytes) op" where
  "control_open ctx name = self_only ''open'' name (ret [])"

definition control_stat :: "string \<Rightarrow> fs_context \<Rightarrow> string \<Rightarrow> ('s, metadata) op" where
  "control_stat cname ctx name = ret (metadata_file cname 0x92 0)"

definition control_write :: "bytes \<Rightarrow> (bytes \<times> 's, nat) op" where
  "control_write data = (\<lambda>(buf, s). (Ok (length data), (buf @ data, s)))"

definition control_handle_stat :: "string \<Rightarrow> (bytes \<times> 's, metadata) op" where
  "control_handle_stat cname = (\<lambda>(buf, s). case control_stat cname context_new ''.'' s of (r, s') \<Rightarrow> (r, (buf, s')))"

definition control_close :: "'s control_callback \<Rightarrow> (bytes \<times> 's, unit) op" where
  "control_close cb = (\<lambda>(buf, s).
     (let cmd = str_trim (from_utf8_lossy buf) in
      if cmd \<noteq> [] then (case cb cmd s of (r, s') \<Rightarrow> (r, (buf, s'))) else (Ok (), (buf, s))))"

definition control_handle :: "string \<Rightarrow> 's control_callback \<Rightarrow> ('s, bytes) file_handle" where
  "control_handle cname cb =
     \<lparr>fh_read = default_read, fh_write = control_write,
      fh_read_at = default_read_at default_seek default_read,
      fh_write_at = default_write_at default_seek control_write,
      fh_seek = default_seek, fh_stat = control_handle_stat cname,
      fh_read_dir = default_handle_read_dir (control_handle_stat cname),
      fh_sync = default_sync, fh_close = control_close cb\<rparr>"

definition control_ops :: "string \<Rightarrow> 's control_callback \<Rightarrow> ('s, bytes) filesystem" where
  "control_ops cname cb =
     with_defaults (control_handle cname cb) control_open (control_stat cname)
       (\<lambda>_. not_supported) (\<lambda>_ _. not_supported)"

section \<open>Pipe buffers\<close>

record pipe_buffer =
  pb_data :: bytes
  pb_closed :: bool
  pb_blocking :: bool

definition pipe_buffer_new :: "bool \<Rightarrow> pipe_buffer" where
  "pipe_buffer_new blocking = \<lparr>pb_data = [], pb_closed = False, pb_blocking = blocking\<rparr>"

record pipe_heap =
  ph_bufs :: "nat \<Rightarrow> pipe_buffer"
  ph_next :: nat

definition pipe_heap_new :: pipe_heap where
  "pipe_heap_new = \<lparr>ph_bufs = (\<lambda>_. pipe_buffer_new False), ph_next = 0\<rparr>"

definition alloc_pipe :: "bool \<Rightarrow> ('a pipe_heap_scheme, nat) op" where
  "alloc_pipe blocking = (\<lambda>s.
     (Ok (ph_next s), s\<lparr>ph_bufs := (ph_bufs s)(ph_next s := pipe_buffer_new blocking), ph_next := Suc (ph_next s)\<rparr>))"

definition upd_pipe :: "nat \<Rightarrow> (pipe_buffer \<Rightarrow> pipe_buffer) \<Rightarrow> 'a pipe_heap_scheme \<Rightarrow> 'a pipe_heap_scheme" where
  "upd_pipe b f s = s\<lparr>ph_bufs := (ph_bufs s)(b := f (ph_bufs s b))\<rparr>"

definition pipe_len :: "nat \<Rightarrow> 'a pipe_heap_scheme \<Rightarrow> nat" where
  "pipe_len b s = length (pb_data (ph_bufs s b))"

section \<open>\<open>PipePort\<close>\<close>

record pipe_port =
  pp_reader :: nat
  pp_writer :: nat

definition pipe_pair :: "bool \<Rightarrow> ('a pipe_heap_scheme, pipe_port \<times> pipe_port) op" where
  "pipe_pair blocking =
     obind (alloc_pipe blocking) (\<lambda>a.
     obind (alloc_pipe blocking) (\<lambda>b.
     ret (\<lparr>pp_reader = a, pp_writer = b\<rparr>, \<lparr>pp_reader = b, pp_writer = a\<rparr>)))"

text \<open>
  A read of an empty blocking buffer waits on the condition variable until somebody writes or closes.
  As long as nobody does, the call has not returned, which is \<open>Diverge\<close>; among other threads it is a step
  that is not enabled yet.
\<close>

definition must_wait :: "pipe_buffer \<Rightarrow> bool" where
  "must_wait b \<longleftrightarrow> pb_blocking b \<and> pb_data b = [] \<and> \<not> pb_closed b"

definition pipe_read :: "nat \<Rightarrow> nat \<Rightarrow> ('a pipe_heap_scheme, bytes) op" where
  "pipe_read b len = (\<lambda>s.
     (let buf = ph_bufs s b in
      if must_wait buf then (Inl Diverge, s)
      else if pb_data buf = [] then (Ok [], s)
      else
        (let n = min len (length (pb_data buf)) in
         (Ok (take n (pb_data buf)), upd_pipe b (\<lambda>p. p\<lparr>pb_data := drop n (pb_data p)\<rparr>) s))))"

definition port_read :: "nat \<Rightarrow> (pipe_port \<times> 'a pipe_heap_scheme, bytes) op" where
  "port_read len = (\<lambda>(p, s). case pipe_read (pp_reader p) len s of (r, s') \<Rightarrow> (r, (p, s')))"

definition port_write :: "bytes \<Rightarrow> (pipe_port \<times> 'a pipe_heap_scheme, nat) op" where
  "port_write data = (\<lambda>(p, s).
     if pb_closed (ph_bufs s (pp_writer p)) then (Err (Kind Closed), (p, s))
     else (Ok (length data), (p, upd_pipe (pp_writer p) (\<lambda>b. b\<lparr>pb_data := pb_data b @ data\<rparr>) s)))"

definition port_stat :: "(pipe_port \<times> 'a pipe_heap_scheme, metadata) op" where
  "port_stat = (\<lambda>(p, s). (Ok (metadata_file ''data'' 0x1B6 (of_nat (pipe_len (pp_reader p) s))), (p, s)))"

definition port_close :: "(pipe_port \<times> 'a pipe_heap_scheme, unit) op" where
  "port_close = (\<lambda>(p, s). (Ok (), (p, upd_pipe (pp_writer p) (\<lambda>b. b\<lparr>pb_closed := True\<rparr>) s)))"

definition port_handle :: "('a pipe_heap_scheme, pipe_port) file_handle" where
  "port_handle =
     \<lparr>fh_read = port_read, fh_write = port_write,
      fh_read_at = default_read_at default_seek port_read,
      fh_write_at = default_write_at default_seek port_write,
      fh_seek = default_seek, fh_stat = port_stat,
      fh_read_dir = default_handle_read_dir port_stat,
      fh_sync = default_sync, fh_close = port_close\<rparr>"

section \<open>\<open>PipeFs\<close>\<close>

record pipefs =
  pf_a :: pipe_port
  pf_b :: pipe_port

definition pipefs_new :: "bool \<Rightarrow> ('a pipe_heap_scheme, pipefs) op" where
  "pipefs_new blocking = obind (pipe_pair blocking) (\<lambda>(a, b). ret \<lparr>pf_a = a, pf_b = b\<rparr>)"

definition data_entry :: "string \<Rightarrow> dir_entry" where
  "data_entry name = dir_entry_new name (metadata_file name 0x1B6 0)"

definition pipefs_open :: "pipefs \<Rightarrow> fs_context \<Rightarrow> string \<Rightarrow> ('a pipe_heap_scheme, pipe_port dir_or) op" where
  "pipefs_open pf ctx name =
     (if name = ''.'' then
        ret (OfDir (dir_file_new (metadata_dir ''.'' 0x16D) [data_entry ''data'', data_entry ''data1'']))
      else if name = ''data'' then ret (OfFile (pf_a pf))
      else if name = ''data1'' then ret (OfFile (pf_b pf))
      else throw (Fail (Path ''open'' name NotFound)))"

definition pipefs_stat :: "pipefs \<Rightarrow> fs_context \<Rightarrow> string \<Rightarrow> ('a pipe_heap_scheme, metadata) op" where
  "pipefs_stat pf ctx name =
     (if name = ''.'' then ret (metadata_dir ''.'' 0x16D)
      else if name = ''data'' \<or> name = ''data1'' then ret (metadata_file name 0x1B6 0)
      else throw (Fail (Path ''stat'' name NotFound)))"

definition pipefs_ops :: "pipefs \<Rightarrow> ('a pipe_heap_scheme, pipe_port dir_or) filesystem" where
  "pipefs_ops pf =
     with_defaults (dir_or_handle port_handle) (pipefs_open pf) (pipefs_stat pf)
       (\<lambda>_. not_supported) (\<lambda>_ _. not_supported)"

section \<open>\<open>SignalFs\<close>\<close>

text \<open>A signal file system is the list of its subscribers; its handle is the buffer it reads.\<close>

record signalfs = pipe_heap +
  sg_subscribers :: "nat list"

definition signalfs_new :: signalfs where
  "signalfs_new = pipe_heap.extend pipe_heap_new \<lparr>sg_subscribers = []\<rparr>"

definition signal_open :: "fs_context \<Rightarrow> string \<Rightarrow> ('a signalfs_scheme, nat dir_or) op" where
  "signal_open ctx name =
     (if name = ''.'' then
        ret (OfDir (dir_file_new (metadata_dir ''.'' 0x16D) [data_entry ''data'']))
      else if name \<noteq> ''data'' then throw (Fail (Path ''open'' name NotFound))
      else
        obind (alloc_pipe True) (\<lambda>b.
        obind (modify (\<lambda>s. s\<lparr>sg_subscribers := sg_subscribers s @ [b]\<rparr>)) (\<lambda>_.
        ret (OfFile b))))"

definition signal_read :: "nat \<Rightarrow> (nat \<times> 'a signalfs_scheme, bytes) op" where
  "signal_read len = (\<lambda>(b, s).
     case port_read len (\<lparr>pp_reader = b, pp_writer = b\<rparr>, s) of (r, (p, s')) \<Rightarrow> (r, (b, s')))"

definition signal_one :: "bytes \<Rightarrow> nat \<Rightarrow> 'a signalfs_scheme \<Rightarrow> 'a signalfs_scheme" where
  "signal_one data b s =
     (if \<not> pb_closed (ph_bufs s b) then upd_pipe b (\<lambda>p. p\<lparr>pb_data := pb_data p @ data\<rparr>) s else s)"

definition signal_write :: "bytes \<Rightarrow> (nat \<times> 'a signalfs_scheme, nat) op" where
  "signal_write data = (\<lambda>(b, s). (Ok (length data), (b, fold (signal_one data) (sg_subscribers s) s)))"

definition signal_stat :: "(nat \<times> 'a signalfs_scheme, metadata) op" where
  "signal_stat = (\<lambda>(b, s). (Ok (metadata_file ''data'' 0x1B6 (of_nat (pipe_len b s))), (b, s)))"

definition signal_handle :: "('a signalfs_scheme, nat) file_handle" where
  "signal_handle =
     \<lparr>fh_read = signal_read, fh_write = signal_write,
      fh_read_at = default_read_at default_seek signal_read,
      fh_write_at = default_write_at default_seek signal_write,
      fh_seek = default_seek, fh_stat = signal_stat,
      fh_read_dir = default_handle_read_dir signal_stat,
      fh_sync = default_sync, fh_close = default_close\<rparr>"

definition signal_ops :: "('a signalfs_scheme, nat dir_or) filesystem" where
  "signal_ops =
     with_defaults (dir_or_handle signal_handle) signal_open
       (default_stat (dir_or_handle signal_handle) signal_open) (\<lambda>_. not_supported) (\<lambda>_ _. not_supported)"

end
