(* ===== verification/Rust_Num.thy ===== *)
theory Rust_Num
  imports Rust_Std
begin

text \<open>Parsing unsigned integers as \<open>str::parse\<close> does, with an evaluation over binary integers.\<close>

definition is_digit_char :: "char \<Rightarrow> bool" where
  "is_digit_char c \<longleftrightarrow> 48 \<le> (of_char c :: nat) \<and> (of_char c :: nat) \<le> 57"

text \<open>\<open>str::parse\<close> for unsigned integers: an optional plus sign, at least one digit, no overflow.\<close>

definition digits_value :: "string \<Rightarrow> nat" where
  "digits_value s = foldl (\<lambda>n c. 10 * n + (of_char c - 48)) 0 s"

definition parse_uint :: "nat \<Rightarrow> string \<Rightarrow> nat option" where
  "parse_uint max_value s =
     (let d = (case s of c # cs \<Rightarrow> if c = CHR ''+'' then cs else s | [] \<Rightarrow> []) in
      if d = [] \<or> \<not> list_all is_digit_char d \<or> digits_value d > max_value then None
      else Some (digits_value d))"

definition parse_u32 :: "string \<Rightarrow> u32 option" where
  "parse_u32 s = map_option of_nat (parse_uint 4294967295 s)"

definition parse_u64 :: "string \<Rightarrow> u64 option" where
  "parse_u64 s = map_option of_nat (parse_uint 18446744073709551615 s)"

definition parse_usize :: "string \<Rightarrow> nat option" where
  "parse_usize s = parse_uint usize_max s"

definition digits_int :: "string \<Rightarrow> int" where
  "digits_int s = foldl (\<lambda>n c. 10 * n + int (of_char c - 48)) 0 s"

lemma digits_int: "digits_int s = int (digits_value s)"
proof -
  have "foldl (\<lambda>n c. 10 * n + int (of_char c - 48)) (int k) s = int (foldl (\<lambda>n c. 10 * n + (of_char c - 48)) k s)" for k
  proof (induction s arbitrary: k)
    case (Cons c s)
    have "10 * int k + int (of_char c - 48) = int (10 * k + (of_char c - 48))" by simp
    then show ?case using Cons.IH [of "10 * k + (of_char c - 48)"] by (simp only: foldl_Cons)
  qed simp
  from this [of 0] show ?thesis by (simp add: digits_int_def digits_value_def)
qed

definition parse_int_below :: "int \<Rightarrow> string \<Rightarrow> int option" where
  "parse_int_below max_value s =
     (let d = (case s of c # cs \<Rightarrow> if c = CHR ''+'' then cs else s | [] \<Rightarrow> []) in
      if d = [] \<or> \<not> list_all is_digit_char d \<or> digits_int d > max_value then None else Some (digits_int d))"

lemma parse_uint_int: "parse_uint n s = map_option nat (parse_int_below (int n) s)"
  by (simp add: parse_uint_def parse_int_below_def digits_int Let_def split: list.splits)

lemma parse_word_int:
  "map_option (of_nat :: nat \<Rightarrow> 'a::len word) (parse_uint n s) = map_option word_of_int (parse_int_below (int n) s)"
proof -
  have "\<forall>i. parse_int_below (int n) s = Some i \<longrightarrow> 0 \<le> i"
    by (auto simp: parse_int_below_def digits_int Let_def split: if_splits list.splits)
  then show ?thesis
    unfolding parse_uint_int by (cases "parse_int_below (int n) s") (auto simp: of_nat_nat)
qed

lemma parse_u32_code [code]: "parse_u32 s = map_option (\<lambda>i. word_of_int i) (parse_int_below 4294967295 s)"
  unfolding parse_u32_def parse_word_int by simp

lemma parse_u64_code [code]: "parse_u64 s = map_option (\<lambda>i. word_of_int i) (parse_int_below 18446744073709551615 s)"
  unfolding parse_u64_def parse_word_int by simp

lemma parse_usize_code [code]: "parse_usize s = map_option nat (parse_int_below 18446744073709551615 s)"
  unfolding parse_usize_def parse_uint_int by (simp add: usize_max_def)

end
