(* ===== verification/Http_Meta.thy ===== *)
theory Http_Meta
  imports Pipes Rust_Num
begin

text \<open>
  The headers that carry the metadata of a file in \<open>crates/star9-fs/src/lib.rs\<close>, shared by the object store
  and the HTTP file system: reading and writing them, the mode as a Unix number, and the handle of a file
  that was fetched whole.
\<close>

section \<open>Headers\<close>

type_synonym headers = "(string, string) btmap"

definition ascii_lower :: "char \<Rightarrow> char" where
  "ascii_lower c = (if 65 \<le> (of_char c :: nat) \<and> (of_char c :: nat) \<le> 90 then char_of ((of_char c :: nat) + 32) else c)"

definition header_value :: "headers \<Rightarrow> string \<Rightarrow> string option" where
  "header_value headers name =
     map_option snd (find (\<lambda>(key, _). map ascii_lower key = map ascii_lower name) headers)"

definition unix_secs :: "system_time \<Rightarrow> u64" where
  "unix_secs time = (if time < 0 then 0 else of_int (time div int nanos_per_sec))"

section \<open>Modes\<close>

definition parse_http_mode :: "string \<Rightarrow> file_mode" where
  "parse_http_mode mode =
     (case parse_u32 mode of
        None \<Rightarrow> from_perm 0x1A4
      | Some bits \<Rightarrow>
          (let p = bits AND 0x1FF; t = bits AND 0xF000 in
           if t = 0x4000 then MODE_DIR OR from_perm p
           else if t = 0xA000 then MODE_SYMLINK OR from_perm p
           else from_perm p))"

definition format_http_mode :: "file_mode \<Rightarrow> string" where
  "format_http_mode mode = show_nat (unat (unix_type_and_perm mode))"

definition parse_http_content_range_size :: "string \<Rightarrow> u64 option" where
  "parse_http_content_range_size val =
     (case split_once (CHR ''/'') val of None \<Rightarrow> None | Some (_, len) \<Rightarrow> parse_u64 (str_trim len))"

section \<open>Metadata\<close>

definition header_mode :: "headers \<Rightarrow> file_mode" where
  "header_mode headers =
     (case header_value headers ''Content-Mode'' of
        Some mode \<Rightarrow> parse_http_mode mode
      | None \<Rightarrow>
          (let content_type = (case header_value headers ''Content-Type'' of Some v \<Rightarrow> v | None \<Rightarrow> []) in
           if content_type = ''application/x-directory'' then MODE_DIR OR from_perm 0x1ED
           else if content_type = ''application/x-symlink'' then MODE_SYMLINK OR from_perm 0x1FF
           else from_perm 0x1A4))"

definition header_size :: "headers \<Rightarrow> u64 \<Rightarrow> u64" where
  "header_size headers body_len =
     (case Option.bind (header_value headers ''Content-Length'') parse_u64 of
        Some n \<Rightarrow> n
      | None \<Rightarrow>
          (case Option.bind (header_value headers ''Content-Range'') parse_http_content_range_size of
             Some n \<Rightarrow> n | None \<Rightarrow> body_len))"

definition header_modified :: "headers \<Rightarrow> system_time res" where
  "header_modified headers =
     (case Option.bind (header_value headers ''Content-Modified'') parse_u64 of
        Some secs \<Rightarrow> epoch_plus secs 0 | None \<Rightarrow> Ok unix_epoch)"

definition header_owner :: "headers \<Rightarrow> u32 \<times> u32" where
  "header_owner headers =
     (case Option.bind (header_value headers ''Content-Ownership'') (split_once (CHR '':'')) of
        None \<Rightarrow> (0, 0)
      | Some (uid, gid) \<Rightarrow>
          (case parse_u32 uid of Some u \<Rightarrow> u | None \<Rightarrow> 0, case parse_u32 gid of Some g \<Rightarrow> g | None \<Rightarrow> 0))"

definition parse_http_metadata :: "string \<Rightarrow> headers \<Rightarrow> u64 \<Rightarrow> metadata res" where
  "parse_http_metadata name headers body_len =
     rbind (header_modified headers) (\<lambda>modified.
     (let mode = header_mode headers; sz = header_size headers body_len; (uid, gid) = header_owner headers in
      Ok \<lparr>md_name = base_name name, md_mode = mode, md_size = (if is_dir mode then max sz 2 else sz),
          md_modified = modified, md_uid = uid, md_gid = gid\<rparr>))"

section \<open>\<open>HttpFile\<close>\<close>

record http_file =
  hf_metadata :: metadata
  hf_data :: bytes
  hf_position :: u64
  hf_closed :: bool

definition http_file_new :: "metadata \<Rightarrow> bytes \<Rightarrow> http_file" where
  "http_file_new md body = \<lparr>hf_metadata = md, hf_data = body, hf_position = 0, hf_closed = False\<rparr>"

text \<open>\<open>Cursor\<close>: reading from the position, and seeking with checked additions.\<close>

definition cursor_read :: "nat \<Rightarrow> http_file \<Rightarrow> bytes" where
  "cursor_read len f = take len (drop (unat (hf_position f)) (hf_data f))"

definition cursor_seek :: "seek_from \<Rightarrow> http_file \<Rightarrow> u64 res" where
  "cursor_seek pos f =
     (let next = (case pos of
                    SeekStart p \<Rightarrow> int (unat p)
                  | SeekEnd off \<Rightarrow> int (length (hf_data f)) + off
                  | SeekCurrent off \<Rightarrow> int (unat (hf_position f)) + off) in
      if next < 0 \<or> next > 18446744073709551615 then Err (error_of_io IoInvalidInput) else Ok (of_int next))"

definition unless_closed :: "(http_file \<times> 's, 'a) op \<Rightarrow> (http_file \<times> 's, 'a) op" where
  "unless_closed m = (\<lambda>(f, s). if hf_closed f then (Err (Kind Closed), (f, s)) else m (f, s))"

definition http_file_read :: "nat \<Rightarrow> (http_file \<times> 's, bytes) op" where
  "http_file_read len = unless_closed (\<lambda>(f, s).
     (let data = cursor_read len f in
      (Ok data, (f\<lparr>hf_position := hf_position f + of_nat (length data)\<rparr>, s))))"

definition http_file_read_at :: "nat \<Rightarrow> u64 \<Rightarrow> (http_file \<times> 's, bytes) op" where
  "http_file_read_at len offset = unless_closed (\<lambda>(f, s).
     (Ok (cursor_read len (f\<lparr>hf_position := offset\<rparr>)), (f, s)))"

definition http_file_seek :: "seek_from \<Rightarrow> (http_file \<times> 's, u64) op" where
  "http_file_seek pos = unless_closed (\<lambda>(f, s).
     case cursor_seek pos f of
       Inl e \<Rightarrow> (Inl e, (f, s))
     | Inr next \<Rightarrow> (Ok next, (f\<lparr>hf_position := next\<rparr>, s)))"

definition http_file_stat :: "(http_file \<times> 's, metadata) op" where
  "http_file_stat = (\<lambda>(f, s). (Ok (hf_metadata f), (f, s)))"

definition http_file_close :: "(http_file \<times> 's, unit) op" where
  "http_file_close = unless_closed (\<lambda>(f, s). (Ok (), (f\<lparr>hf_closed := True\<rparr>, s)))"

definition http_file_handle :: "('s, http_file) file_handle" where
  "http_file_handle =
     \<lparr>fh_read = http_file_read, fh_write = default_write, fh_read_at = http_file_read_at,
      fh_write_at = default_write_at http_file_seek default_write, fh_seek = http_file_seek,
      fh_stat = http_file_stat, fh_read_dir = default_handle_read_dir http_file_stat,
      fh_sync = default_sync, fh_close = http_file_close\<rparr>"

end
