(* ===== verification/Object_Store.thy ===== *)
theory Object_Store
  imports Http_Meta
begin

text \<open>
  The file system over an object store, \<open>R2Fs\<close> of \<open>crates/star9-fs/src/lib.rs\<close>. The store is the trait
  \<open>ObjectStore\<close>, a record of operations over a world of its own, with the in-memory store of the crate as
  one implementation. A directory is an object whose body lists its entries, and every change of an entry
  rewrites the listing of its parent with a compare and swap.
\<close>

section \<open>Object stores\<close>

record object =
  ob_metadata :: headers
  ob_body :: bytes

record 's object_store =
  os_get :: "string \<Rightarrow> ('s, object option) op"
  os_put :: "string \<Rightarrow> object \<Rightarrow> ('s, unit) op"
  os_compare_and_swap :: "string \<Rightarrow> object option \<Rightarrow> object option \<Rightarrow> ('s, bool) op"
  os_delete :: "string \<Rightarrow> ('s, unit) op"
  os_list_prefix :: "string \<Rightarrow> ('s, (string \<times> object) list) op"

text \<open>\<open>InMemoryObjectStore\<close>.\<close>

type_synonym objects = "(string, object) btmap"

definition mem_get :: "string \<Rightarrow> (objects, object option) op" where
  "mem_get key = gets (\<lambda>m. bt_get m key)"

definition mem_put :: "string \<Rightarrow> object \<Rightarrow> (objects, unit) op" where
  "mem_put key ob = modify (bt_insert key ob)"

definition mem_compare_and_swap :: "string \<Rightarrow> object option \<Rightarrow> object option \<Rightarrow> (objects, bool) op" where
  "mem_compare_and_swap key expected new =
     obind (gets (\<lambda>m. bt_get m key)) (\<lambda>current.
     if current \<noteq> expected then ret False
     else
       obind (modify (\<lambda>m. case new of Some ob \<Rightarrow> bt_insert key ob m | None \<Rightarrow> bt_remove key m)) (\<lambda>_.
       ret True))"

definition mem_delete :: "string \<Rightarrow> (objects, unit) op" where
  "mem_delete key = modify (bt_remove key)"

definition mem_list_prefix :: "string \<Rightarrow> (objects, (string \<times> object) list) op" where
  "mem_list_prefix prefix = gets (filter (\<lambda>(key, _). starts_with key prefix))"

definition mem_store :: "objects object_store" where
  "mem_store =
     \<lparr>os_get = mem_get, os_put = mem_put, os_compare_and_swap = mem_compare_and_swap,
      os_delete = mem_delete, os_list_prefix = mem_list_prefix\<rparr>"

section \<open>Listings\<close>

definition r2_metadata :: "string \<Rightarrow> file_mode \<Rightarrow> nat \<Rightarrow> system_time \<Rightarrow> headers" where
  "r2_metadata content_type mode len now =
     fold (\<lambda>(k, v). bt_insert k v)
       [(''Content-Type'', content_type), (''Content-Mode'', format_http_mode mode),
        (''Content-Length'', show_nat len), (''Content-Modified'', show_nat (unat (unix_secs now))),
        (''Content-Ownership'', ''0:0'')] []"

definition listing_line :: "string \<Rightarrow> (string \<times> file_mode) option" where
  "listing_line line =
     (case split_ws line of name # mode # _ \<Rightarrow> Some (name, parse_http_mode mode) | _ \<Rightarrow> None)"

definition parse_r2_listing :: "bytes \<Rightarrow> (string, file_mode) btmap" where
  "parse_r2_listing body =
     fold (\<lambda>line m. case listing_line line of Some (name, mode) \<Rightarrow> bt_insert name mode m | None \<Rightarrow> m)
       (str_lines (from_utf8_lossy body)) []"

definition format_r2_listing :: "(string \<times> file_mode) list \<Rightarrow> string" where
  "format_r2_listing entries =
     concat (map (\<lambda>(name, mode). name @ '' '' @ format_http_mode mode @ [newline]) (sort_key fst entries))"

definition directory_listing_object :: "(string \<times> file_mode) list \<Rightarrow> system_time \<Rightarrow> object" where
  "directory_listing_object entries now =
     \<lparr>ob_metadata = r2_metadata ''application/x-directory'' (MODE_DIR OR from_perm 0x1ED) 0 now,
      ob_body = as_bytes (format_r2_listing entries)\<rparr>"

section \<open>\<open>R2Fs\<close>\<close>

text \<open>The world of the file system: the clock and the store.\<close>

record 's r2_world =
  rw_now :: system_time
  rw_store :: 's

record 's r2fs =
  r2_base_path :: string
  r2_store :: "'s object_store"

definition on_store :: "('s, 'a) op \<Rightarrow> ('s r2_world, 'a) op" where
  "on_store m = (\<lambda>w. case m (rw_store w) of (r, s) \<Rightarrow> (r, w\<lparr>rw_store := s\<rparr>))"

definition trim_slashes :: "string \<Rightarrow> string" where
  "trim_slashes s = rev (trim_start_char slash (rev (trim_start_char slash s)))"

definition normalize_r2_base_path :: "string \<Rightarrow> string" where
  "normalize_r2_base_path base_path =
     (let trimmed = trim_slashes base_path in
      if trimmed = [] \<or> trimmed = ''.'' then [] else clean_path trimmed)"

definition r2_key :: "'s r2fs \<Rightarrow> string \<Rightarrow> string" where
  "r2_key fs name =
     (let base = r2_base_path fs; path = clean_path name in
      if base = [] \<and> path = ''.'' then ''/''
      else if base = [] then ''/'' @ path
      else if path = ''.'' then ''/'' @ base
      else ''/'' @ base @ ''/'' @ path)"

definition r2_get :: "'s r2fs \<Rightarrow> string \<Rightarrow> ('s r2_world, object option) op" where
  "r2_get fs key = on_store (os_get (r2_store fs) key)"

definition r2_put :: "'s r2fs \<Rightarrow> string \<Rightarrow> object \<Rightarrow> ('s r2_world, unit) op" where
  "r2_put fs key ob = on_store (os_put (r2_store fs) key ob)"

definition put_directory_object :: "'s r2fs \<Rightarrow> string \<Rightarrow> (string \<times> file_mode) list \<Rightarrow> ('s r2_world, unit) op" where
  "put_directory_object fs name entries =
     obind (gets rw_now) (\<lambda>now. r2_put fs (r2_key fs name) (directory_listing_object entries now))"

definition ensure_root :: "'s r2fs \<Rightarrow> ('s r2_world, unit) op" where
  "ensure_root fs =
     obind (r2_get fs (r2_key fs ''.'')) (\<lambda>v.
     if v = None then put_directory_object fs ''.'' [] else ret ())"

definition r2fs_with_base_path :: "'s object_store \<Rightarrow> string \<Rightarrow> ('s r2_world, 's r2fs) op" where
  "r2fs_with_base_path store base_path =
     (let fs = \<lparr>r2_base_path = normalize_r2_base_path base_path, r2_store = store\<rparr> in
      obind (discard (ensure_root fs)) (\<lambda>_. ret fs))"

definition r2fs_new :: "'s object_store \<Rightarrow> ('s r2_world, 's r2fs) op" where
  "r2fs_new store = r2fs_with_base_path store []"

definition get_object :: "'s r2fs \<Rightarrow> string \<Rightarrow> ('s r2_world, object) op" where
  "get_object fs name =
     obind (r2_get fs (r2_key fs name)) (\<lambda>v. case v of
       Some ob \<Rightarrow> ret ob | None \<Rightarrow> throw (Fail (Path ''r2fs'' name NotFound)))"

definition COMPARE_AND_SWAP_RETRIES :: nat where
  "COMPARE_AND_SWAP_RETRIES = 3"

definition change_entry :: "string \<Rightarrow> file_mode option \<Rightarrow> (string, file_mode) btmap \<Rightarrow> (string, file_mode) btmap" where
  "change_entry child child_mode entries =
     (case child_mode of Some mode \<Rightarrow> bt_insert child mode entries | None \<Rightarrow> bt_remove child entries)"

definition next_listing :: "string \<Rightarrow> file_mode option \<Rightarrow> object \<Rightarrow> system_time \<Rightarrow> object" where
  "next_listing child child_mode ob now =
     directory_listing_object (change_entry child child_mode (parse_r2_listing (ob_body ob))) now"

text \<open>The object the loop of \<open>update_parent_listing\<close> starts from in each round.\<close>

definition parent_object :: "'s r2fs \<Rightarrow> string \<Rightarrow> ('s r2_world, object) op" where
  "parent_object fs parent =
     obind (r2_get fs (r2_key fs parent)) (\<lambda>v. case v of
       Some ob \<Rightarrow> ret ob
     | None \<Rightarrow>
         if parent = ''.'' then gets (\<lambda>w. directory_listing_object [] (rw_now w))
         else throw (Fail (Path ''r2fs'' parent NotFound)))"

fun listing_rounds :: "nat \<Rightarrow> 's r2fs \<Rightarrow> string \<Rightarrow> string \<Rightarrow> file_mode option \<Rightarrow> ('s r2_world, unit) op" where
  "listing_rounds 0 fs parent child child_mode =
     throw (Fail (Message (''r2fs compare-and-swap conflict for '' @ parent)))"
| "listing_rounds (Suc n) fs parent child child_mode =
     obind (parent_object fs parent) (\<lambda>ob.
     obind (gets rw_now) (\<lambda>now.
     obind (on_store (os_compare_and_swap (r2_store fs) (r2_key fs parent) (Some ob)
              (Some (next_listing child child_mode ob now)))) (\<lambda>swapped.
     if swapped then ret () else listing_rounds n fs parent child child_mode)))"

definition update_parent_listing :: "'s r2fs \<Rightarrow> string \<Rightarrow> file_mode option \<Rightarrow> ('s r2_world, unit) op" where
  "update_parent_listing fs name child_mode =
     (let parent = parent_path name; child = base_name name in
      if child = ''.'' \<or> child = [] then ret ()
      else listing_rounds COMPARE_AND_SWAP_RETRIES fs parent child child_mode)"

definition put_file_object :: "'s r2fs \<Rightarrow> string \<Rightarrow> file_mode \<Rightarrow> bytes \<Rightarrow> ('s r2_world, unit) op" where
  "put_file_object fs name mode body =
     obind (gets rw_now) (\<lambda>now.
     obind (r2_put fs (r2_key fs name)
              \<lparr>ob_metadata = r2_metadata ''application/octet-stream'' mode (length body) now, ob_body = body\<rparr>) (\<lambda>_.
     update_parent_listing fs name (Some mode)))"

record r2_node =
  rn_metadata :: metadata
  rn_body :: bytes
  rn_entries :: "dir_entry list"

definition listing_entry :: "string \<times> file_mode \<Rightarrow> dir_entry" where
  "listing_entry = (\<lambda>(name, mode).
     dir_entry_new name \<lparr>md_name = name, md_mode = mode, md_size = (if is_dir mode then 2 else 0),
       md_modified = unix_epoch, md_uid = 0, md_gid = 0\<rparr>)"

definition parse_object :: "string \<Rightarrow> object \<Rightarrow> r2_node res" where
  "parse_object name ob =
     rbind (parse_http_metadata name (ob_metadata ob) (of_nat (length (ob_body ob)))) (\<lambda>md.
     Ok \<lparr>rn_metadata = md, rn_body = ob_body ob,
         rn_entries = (if md_is_dir md then map listing_entry (parse_r2_listing (ob_body ob)) else [])\<rparr>)"

definition load_object :: "'s r2fs \<Rightarrow> string \<Rightarrow> ('s r2_world, r2_node) op" where
  "load_object fs name = obind (get_object fs name) (\<lambda>ob. lift_res (parse_object name ob))"

definition resolve_link :: "string \<Rightarrow> bytes \<Rightarrow> string" where
  "resolve_link name body =
     (let target = from_utf8_lossy body in
      if starts_with target ''/'' then clean_path (trim_start_char slash target)
      else clean_path (parent_path name @ ''/'' @ target))"

section \<open>\<open>R2WriteFile\<close>\<close>

record r2_write_file =
  rf_path :: string
  rf_metadata :: metadata
  rf_data :: bytes
  rf_offset :: u64
  rf_closed :: bool

definition r2_write :: "bytes \<Rightarrow> (r2_write_file \<times> 'w, nat) op" where
  "r2_write data = (\<lambda>(f, w).
     if rf_closed f then (Err (Kind Closed), (f, w))
     else
       (let start = unat (rf_offset f); end = start + length data in
        case rbind (if start > length (rf_data f) then vec_resize start (rf_data f) else Ok (rf_data f))
               (\<lambda>d. if end > length d then vec_resize end d else Ok d) of
          Inl e \<Rightarrow> (Inl e, (f, w))
        | Inr d \<Rightarrow>
            (let d = write_range d start data in
             (Ok (length data),
              (f\<lparr>rf_data := d, rf_offset := of_nat end,
                 rf_metadata := (rf_metadata f)\<lparr>md_size := of_nat (length d)\<rparr>\<rparr>, w)))))"

definition r2_write_at :: "bytes \<Rightarrow> u64 \<Rightarrow> (r2_write_file \<times> 'w, nat) op" where
  "r2_write_at data offset = (\<lambda>(f, w). r2_write data (f\<lparr>rf_offset := offset\<rparr>, w))"

definition r2_seek :: "seek_from \<Rightarrow> (r2_write_file \<times> 'w, u64) op" where
  "r2_seek pos = (\<lambda>(f, w).
     (let next = (case pos of
                    SeekStart p \<Rightarrow> int (unat p)
                  | SeekEnd off \<Rightarrow> int (length (rf_data f)) + off
                  | SeekCurrent off \<Rightarrow> int (unat (rf_offset f)) + off) in
      if next < 0 then (Err (Kind Invalid), (f, w))
      else (Ok (of_int next), (f\<lparr>rf_offset := of_int next\<rparr>, w))))"

definition r2_write_stat :: "(r2_write_file \<times> 'w, metadata) op" where
  "r2_write_stat = (\<lambda>(f, w). (Ok (rf_metadata f), (f, w)))"

definition r2_close :: "'s r2fs \<Rightarrow> (r2_write_file \<times> 's r2_world, unit) op" where
  "r2_close fs = (\<lambda>(f, w).
     if rf_closed f then (Err (Kind Closed), (f, w))
     else
       (case put_file_object fs (rf_path f) (md_mode (rf_metadata f)) (rf_data f) w of
          (Inl e, w') \<Rightarrow> (Inl e, (f, w'))
        | (Inr _, w') \<Rightarrow> (Ok (), (f\<lparr>rf_closed := True\<rparr>, w'))))"

definition r2_write_handle :: "'s r2fs \<Rightarrow> ('s r2_world, r2_write_file) file_handle" where
  "r2_write_handle fs =
     \<lparr>fh_read = default_read, fh_write = r2_write,
      fh_read_at = default_read_at r2_seek default_read, fh_write_at = r2_write_at,
      fh_seek = r2_seek, fh_stat = r2_write_stat, fh_read_dir = default_handle_read_dir r2_write_stat,
      fh_sync = default_sync, fh_close = r2_close fs\<rparr>"

section \<open>Handles of the file system\<close>

datatype r2_file = R2Dir dir_file | R2Read http_file | R2Write r2_write_file

definition r2_box ::
    "(dir_file \<times> 'w, 'a) op \<Rightarrow> (http_file \<times> 'w, 'a) op \<Rightarrow> (r2_write_file \<times> 'w, 'a) op \<Rightarrow> (r2_file \<times> 'w, 'a) op" where
  "r2_box m1 m2 m3 = (\<lambda>(f, w). case f of
       R2Dir d \<Rightarrow> (case m1 (d, w) of (r, (d', w')) \<Rightarrow> (r, (R2Dir d', w')))
     | R2Read h \<Rightarrow> (case m2 (h, w) of (r, (h', w')) \<Rightarrow> (r, (R2Read h', w')))
     | R2Write h \<Rightarrow> (case m3 (h, w) of (r, (h', w')) \<Rightarrow> (r, (R2Write h', w'))))"

definition r2_handle :: "'s r2fs \<Rightarrow> ('s r2_world, r2_file) file_handle" where
  "r2_handle fs =
     (let d = dir_file_handle; h = http_file_handle; v = r2_write_handle fs in
      \<lparr>fh_read = (\<lambda>n. r2_box (fh_read d n) (fh_read h n) (fh_read v n)),
       fh_write = (\<lambda>x. r2_box (fh_write d x) (fh_write h x) (fh_write v x)),
       fh_read_at = (\<lambda>n p. r2_box (fh_read_at d n p) (fh_read_at h n p) (fh_read_at v n p)),
       fh_write_at = (\<lambda>x p. r2_box (fh_write_at d x p) (fh_write_at h x p) (fh_write_at v x p)),
       fh_seek = (\<lambda>p. r2_box (fh_seek d p) (fh_seek h p) (fh_seek v p)),
       fh_stat = r2_box (fh_stat d) (fh_stat h) (fh_stat v),
       fh_read_dir = (\<lambda>n. r2_box (fh_read_dir d n) (fh_read_dir h n) (fh_read_dir v n)),
       fh_sync = r2_box (fh_sync d) (fh_sync h) (fh_sync v),
       fh_close = r2_box (fh_close d) (fh_close h) (fh_close v)\<rparr>)"

section \<open>Methods\<close>

text \<open>Opening and \<open>stat\<close> follow links by calling themselves, without a limit; the fuel bounds the links.\<close>

fun r2_open :: "nat \<Rightarrow> 's r2fs \<Rightarrow> fs_context \<Rightarrow> string \<Rightarrow> ('s r2_world, r2_file) op" where
  "r2_open 0 fs ctx name = throw Diverge"
| "r2_open (Suc fuel) fs ctx name =
     (if \<not> valid_path name then throw (Fail (Path ''open'' name NotFound))
      else
        (let name = clean_path name in
         obind (load_object fs name) (\<lambda>node.
         if follow_symlinks ctx \<and> is_symlink (md_mode (rn_metadata node))
         then r2_open fuel fs ctx (resolve_link name (rn_body node))
         else if md_is_dir (rn_metadata node)
         then ret (R2Dir (dir_file_new (rn_metadata node) (rn_entries node)))
         else ret (R2Read (http_file_new (rn_metadata node) (rn_body node))))))"

fun r2_stat :: "nat \<Rightarrow> 's r2fs \<Rightarrow> fs_context \<Rightarrow> string \<Rightarrow> ('s r2_world, metadata) op" where
  "r2_stat 0 fs ctx name = throw Diverge"
| "r2_stat (Suc fuel) fs ctx name =
     (if \<not> valid_path name then throw (Fail (Path ''stat'' name NotFound))
      else
        (let name = clean_path name in
         obind (load_object fs name) (\<lambda>node.
         if follow_symlinks ctx \<and> is_symlink (md_mode (rn_metadata node))
         then r2_stat fuel fs ctx (resolve_link name (rn_body node))
         else ret (rn_metadata node))))"

text \<open>\<open>read_file\<close> on the file system uses its \<open>open\<close> only.\<close>

definition r2_reading :: "nat \<Rightarrow> 's r2fs \<Rightarrow> ('s r2_world, r2_file) filesystem" where
  "r2_reading fuel fs =
     with_defaults (r2_handle fs) (r2_open fuel fs) (r2_stat fuel fs) (\<lambda>_. not_supported) (\<lambda>_ _. not_supported)"

definition r2_open_file ::
    "nat \<Rightarrow> nat \<Rightarrow> 's r2fs \<Rightarrow> string \<Rightarrow> open_flags \<Rightarrow> file_mode \<Rightarrow> ('s r2_world, r2_file) op" where
  "r2_open_file fuel reads fs name flags p =
     (if \<not> is_write flags then r2_open fuel fs context_new name
      else
        (let name = clean_path name in
         obind (if flags_contains flags O_TRUNC \<or> flags_contains flags O_CREATE then ret []
                else obind (attempt (read_file reads (r2_reading fuel fs) name)) (\<lambda>r.
                     ret (case r of Inr data \<Rightarrow> data | Inl _ \<Rightarrow> []))) (\<lambda>data.
         ret (R2Write
           \<lparr>rf_path = name,
            rf_metadata = metadata_file name (if p = 0 then 0x1A4 else perm p) (of_nat (length data)),
            rf_data = data,
            rf_offset = (if flags_contains flags O_APPEND then of_nat (length data) else 0),
            rf_closed = False\<rparr>))))"

definition r2_create :: "nat \<Rightarrow> nat \<Rightarrow> 's r2fs \<Rightarrow> string \<Rightarrow> ('s r2_world, r2_file) op" where
  "r2_create fuel reads fs name =
     r2_open_file fuel reads fs name (O_WRONLY OR O_CREATE OR O_TRUNC) (from_perm 0x1A4)"

definition r2_require :: "'s r2fs \<Rightarrow> string \<Rightarrow> string \<Rightarrow> ('s r2_world, unit) op" where
  "r2_require fs what name =
     obind (r2_get fs (r2_key fs (parent_path name))) (\<lambda>v.
     if v = None then throw (Fail (Path what name NotFound)) else ret ())"

definition r2_mkdir :: "'s r2fs \<Rightarrow> string \<Rightarrow> file_mode \<Rightarrow> ('s r2_world, unit) op" where
  "r2_mkdir fs name p =
     (let name = clean_path name in
      obind (r2_require fs ''mkdir'' name) (\<lambda>_.
      obind (put_directory_object fs name []) (\<lambda>_.
      update_parent_listing fs name (Some (MODE_DIR OR from_perm 0x1ED)))))"

definition r2_remove :: "'s r2fs \<Rightarrow> string \<Rightarrow> ('s r2_world, unit) op" where
  "r2_remove fs name =
     (let name = clean_path name in
      obind (load_object fs name) (\<lambda>node.
      if md_is_dir (rn_metadata node) \<and> rn_entries node \<noteq> []
      then throw (Fail (Path ''remove'' name NotEmpty))
      else
        obind (on_store (os_delete (r2_store fs) (r2_key fs name))) (\<lambda>_.
        update_parent_listing fs name None)))"

definition move_object :: "'s r2fs \<Rightarrow> string \<Rightarrow> string \<Rightarrow> string \<times> object \<Rightarrow> ('s r2_world, unit) op" where
  "move_object fs old_prefix new_prefix = (\<lambda>(key, ob).
     (let suffix = (case strip_prefix old_prefix key of Some s \<Rightarrow> s | None \<Rightarrow> []) in
      obind (r2_put fs (new_prefix @ suffix) ob) (\<lambda>_.
      on_store (os_delete (r2_store fs) key))))"

definition r2_rename :: "'s r2fs \<Rightarrow> string \<Rightarrow> string \<Rightarrow> ('s r2_world, unit) op" where
  "r2_rename fs old new =
     (let old = clean_path old; new = clean_path new in
      obind (r2_require fs ''rename'' new) (\<lambda>_.
      obind (get_object fs old) (\<lambda>ob.
      obind (lift_res (parse_object old ob)) (\<lambda>node.
      let old_key = r2_key fs old; new_key = r2_key fs new in
      obind (r2_put fs new_key ob) (\<lambda>_.
      obind (on_store (os_delete (r2_store fs) old_key)) (\<lambda>_.
      obind (if md_is_dir (rn_metadata node)
             then obind (on_store (os_list_prefix (r2_store fs) (old_key @ ''/''))) (\<lambda>obs.
                  op_each (move_object fs (old_key @ ''/'') (new_key @ ''/'')) obs)
             else ret ()) (\<lambda>_.
      obind (update_parent_listing fs old None) (\<lambda>_.
      update_parent_listing fs new (Some (md_mode (rn_metadata node)))))))))))"

definition r2_symlink :: "'s r2fs \<Rightarrow> string \<Rightarrow> string \<Rightarrow> ('s r2_world, unit) op" where
  "r2_symlink fs old new =
     (let new = clean_path new; mode = MODE_SYMLINK OR from_perm 0x1FF in
      obind (r2_require fs ''symlink'' new) (\<lambda>_.
      obind (gets rw_now) (\<lambda>now.
      obind (r2_put fs (r2_key fs new)
               \<lparr>ob_metadata = r2_metadata ''application/x-symlink'' mode (length old) now, ob_body = as_bytes old\<rparr>) (\<lambda>_.
      update_parent_listing fs new (Some mode)))))"

definition r2_readlink :: "'s r2fs \<Rightarrow> string \<Rightarrow> ('s r2_world, string) op" where
  "r2_readlink fs name =
     obind (load_object fs name) (\<lambda>node.
     if \<not> is_symlink (md_mode (rn_metadata node)) then throw (Fail (Path ''readlink'' name Invalid))
     else ret (from_utf8_lossy (rn_body node)))"

definition r2_ops :: "nat \<Rightarrow> nat \<Rightarrow> 's r2fs \<Rightarrow> ('s r2_world, r2_file) filesystem" where
  "r2_ops fuel reads fs =
     (r2_reading fuel fs)\<lparr>fs_create := r2_create fuel reads fs,
        fs_open_file := r2_open_file fuel reads fs, fs_mkdir := r2_mkdir fs, fs_remove := r2_remove fs,
        fs_rename := r2_rename fs, fs_symlink := r2_symlink fs, fs_readlink := r2_readlink fs\<rparr>"


section \<open>The contract of an object store\<close>

text \<open>
  What the file system relies on: the calls read and change one key each of a map from keys to objects,
  and a swap changes the key exactly when it holds the object that was expected.
\<close>

locale object_contract =
  fixes st :: "'s object_store" and view :: "'s \<Rightarrow> string \<rightharpoonup> object"
  assumes get_view: "os_get st k s = (Ok (view s k), s)"
    and put_view: "\<exists>s'. os_put st k ob s = (Ok (), s') \<and> view s' = (view s)(k \<mapsto> ob)"
    and delete_view: "\<exists>s'. os_delete st k s = (Ok (), s') \<and> view s' = (view s)(k := None)"
    and swap_view: "view s k = old \<Longrightarrow>
      \<exists>s'. os_compare_and_swap st k old new s = (Ok True, s') \<and> view s' = (view s)(k := new)"
    and swap_refused: "view s k \<noteq> old \<Longrightarrow> os_compare_and_swap st k old new s = (Ok False, s)"
begin

lemma swap_True:
  assumes "os_compare_and_swap st k old new s = (Ok True, s')"
  shows "view s k = old \<and> view s' = (view s)(k := new)"
  using assms swap_view [of s k old new] swap_refused [of s k old new] by (cases "view s k = old") auto

lemma swap_False: "os_compare_and_swap st k old new s = (Ok False, s') \<Longrightarrow> s' = s"
  using swap_view [of s k old new] swap_refused [of s k old new] by (cases "view s k = old") auto

lemma put_other: "os_put st k ob s = (r, s') \<Longrightarrow> j \<noteq> k \<Longrightarrow> view s' j = view s j"
  using put_view [of k ob s] by auto

lemma delete_other: "os_delete st k s = (r, s') \<Longrightarrow> j \<noteq> k \<Longrightarrow> view s' j = view s j"
  using delete_view [of k s] by auto

lemma swap_other: "os_compare_and_swap st k old new s = (r, s') \<Longrightarrow> j \<noteq> k \<Longrightarrow> view s' j = view s j"
  using swap_view [of s k old new] swap_refused [of s k old new] by (cases "view s k = old") auto

lemma r2_get_view: "r2_store fs = st \<Longrightarrow> r2_get fs k w = (Ok (view (rw_store w) k), w)"
  by (simp add: r2_get_def on_store_def get_view)

lemma r2_put_view:
  assumes "r2_store fs = st"
  shows "\<exists>s. r2_put fs k ob w = (Ok (), w\<lparr>rw_store := s\<rparr>) \<and> view s = (view (rw_store w))(k \<mapsto> ob)"
  using put_view [of k ob "rw_store w"] assms by (auto simp: r2_put_def on_store_def)

lemma r2_delete_view:
  "\<exists>s. on_store (os_delete st k) w = (Ok (), w\<lparr>rw_store := s\<rparr>) \<and> view s = (view (rw_store w))(k := None)"
  using delete_view [of k "rw_store w"] by (auto simp: on_store_def)

text \<open>Alone, one round changes the listing.\<close>

lemma one_round:
  assumes "r2_store fs = st" "view (rw_store w) (r2_key fs parent) = Some ob"
  shows "\<exists>s. listing_rounds (Suc n) fs parent child v w = (Ok (), w\<lparr>rw_store := s\<rparr>) \<and>
    view s = (view (rw_store w))(r2_key fs parent \<mapsto> next_listing child v ob (rw_now w))"
  using assms swap_view [of "rw_store w" "r2_key fs parent" "Some ob" "Some (next_listing child v ob (rw_now w))"]
  by (auto simp: parent_object_def r2_get_view on_store_def obind_def)

lemma update_view:
  assumes "r2_store fs = st" "view (rw_store w) (r2_key fs (parent_path name)) = Some ob"
    and "base_name name \<noteq> ''.''" "base_name name \<noteq> []"
  shows "\<exists>s. update_parent_listing fs name v w = (Ok (), w\<lparr>rw_store := s\<rparr>) \<and>
    view s = (view (rw_store w))(r2_key fs (parent_path name) \<mapsto> next_listing (base_name name) v ob (rw_now w))"
  using one_round [OF assms(1,2), of 2] assms(3,4)
  by (simp add: update_parent_listing_def Let_def COMPARE_AND_SWAP_RETRIES_def numeral_3_eq_3 numeral_2_eq_2
      del: listing_rounds.simps)

end

interpretation stored: object_contract mem_store bt_get
  by unfold_locales
     (auto simp: mem_store_def mem_get_def mem_put_def mem_delete_def mem_compare_and_swap_def obind_def fun_eq_iff
        split: option.splits)

end
