(* ===== verification/Object_Laws.thy ===== *)
theory Object_Laws
  imports Object_Store Namespace_Laws Ninep_Util
begin

text \<open>
  What the file system over an object store promises: a listing is read back as it was written, files
  are read back as they were written, and the listings of a directory that many clients change at once
  lose no change. The last section holds the runs that lose data.
\<close>

section \<open>Numbers and modes\<close>

lemma digit_char_digit: "d < 10 \<Longrightarrow> of_char (digit_char d) = (48 + d :: nat)"
  by (simp add: digit_char_def)

lemma digits_value_snoc: "digits_value (s @ [c]) = 10 * digits_value s + (of_char c - 48)"
  by (simp add: digits_value_def)

lemma show_nat_digits:
  "digits_value (show_nat n) = n \<and> show_nat n \<noteq> [] \<and> list_all is_digit_char (show_nat n)"
  unfolding show_nat_def
proof (induction n rule: less_induct)
  case (less n)
  show ?case
  proof (cases "n < 10")
    case True
    then show ?thesis
      by (simp add: show_base.simps [of 10 n] digits_value_def digit_char_digit is_digit_char_def)
  next
    case False
    then have "n div 10 < n" by simp
    from less [OF this] False show ?thesis
      by (simp add: show_base.simps [of 10 n] digits_value_snoc digit_char_digit is_digit_char_def)
  qed
qed

lemma is_digit_plus: "\<not> is_digit_char (CHR ''+'')"
  by (simp add: is_digit_char_def)

lemma parse_show: "n \<le> bound \<Longrightarrow> parse_uint bound (show_nat n) = Some n"
  using show_nat_digits [of n] is_digit_plus
  by (cases "show_nat n") (auto simp: parse_uint_def Let_def)

lemma parse_u32_show: "parse_u32 (show_nat (unat (x :: u32))) = Some x"
proof -
  have "unat x < 2 ^ LENGTH(32)" by (rule unsigned_less)
  then have "unat x \<le> 4294967295" by simp
  then show ?thesis by (simp add: parse_u32_def parse_show)
qed

lemma parse_u64_show: "n < 18446744073709551616 \<Longrightarrow> parse_u64 (show_nat n) = Some (of_nat n)"
  by (simp add: parse_u64_def parse_show)

text \<open>The modes that survive: a permission, alone or of a directory or a link.\<close>

definition plain_mode :: "file_mode \<Rightarrow> bool" where
  "plain_mode m \<longleftrightarrow> m \<in> {from_perm (perm m), MODE_DIR OR from_perm (perm m), MODE_SYMLINK OR from_perm (perm m)}"

lemma parse_format_mode: "plain_mode m \<Longrightarrow> parse_http_mode (format_http_mode m) = m"
proof -
  define q where "q = from_perm (perm m)"
  assume "plain_mode m"
  then have m: "m \<in> {0 OR q, MODE_DIR OR q, MODE_SYMLINK OR q}" by (simp add: plain_mode_def q_def)
  have q: "q = q AND 0x1FF" by (simp add: q_def from_perm_def PERM_MASK_def and.assoc)
  have andq: "(k OR q) AND v = k AND v" if "v AND 0x1FF = 0" for k v :: u32
  proof -
    have "q AND v = (q AND 0x1FF) AND v" using arg_cong [OF q, of "\<lambda>x. x AND v"] .
    also have "\<dots> = q AND (v AND 0x1FF)" by (simp only: and.assoc and.commute [of v])
    finally show ?thesis using that by (simp add: bit.conj_disj_distrib2)
  qed
  have per: "(k OR q) AND 0x1FF = q" if "k AND 0x1FF = 0" for k :: u32
    using q that by (simp add: bit.conj_disj_distrib2)
  have fp: "from_perm q = q" using q by (simp add: from_perm_def PERM_MASK_def)
  have kinds: "(k OR q) AND 0xF000 = k AND 0xF000" for k :: u32 by (rule andq) simp
  have flags: "(k OR q) AND MODE_DIR = k AND MODE_DIR" "(k OR q) AND MODE_SYMLINK = k AND MODE_SYMLINK"
    "(k OR q) AND MODE_NAMED_PIPE = k AND MODE_NAMED_PIPE" "(k OR q) AND MODE_SOCKET = k AND MODE_SOCKET" for k :: u32
    by (rule andq; simp add: mode_consts)+
  have pm: "perm (k OR q) = q" if "k \<in> {0, MODE_DIR, MODE_SYMLINK}" for k
    unfolding perm_def PERM_MASK_def by (rule per) (use that in \<open>auto simp: mode_consts\<close>)
  have u: "unix_type_and_perm (k OR q) =
      (if k = MODE_DIR then 0x4000 else if k = MODE_SYMLINK then 0xA000 else 0x8000) OR q"
    if "k \<in> {0, MODE_DIR, MODE_SYMLINK}" for k
    unfolding unix_type_and_perm_def is_dir_def is_symlink_def mode_contains_def flags pm [OF that] Let_def
    using that by (elim insertE emptyE) (simp_all add: mode_consts)
  have "parse_http_mode (format_http_mode (k OR q)) = k OR q" if "k \<in> {0, MODE_DIR, MODE_SYMLINK}" for k
    unfolding parse_http_mode_def format_http_mode_def parse_u32_show option.case u [OF that] kinds Let_def
    using that per fp by (elim insertE emptyE) (simp_all add: mode_consts)
  from this [of 0] this [of MODE_DIR] this [of MODE_SYMLINK] m show ?thesis by auto
qed

section \<open>White space\<close>

definition ws_free :: "string \<Rightarrow> bool" where
  "ws_free s \<longleftrightarrow> list_all (\<lambda>i. find_seq ws_seqs (drop i s) = None) [0 ..< length s]"

lemma ws_free_Nil [simp]: "ws_free []"
  by (simp add: ws_free_def)

lemma ws_free_Cons: "ws_free (c # s) \<longleftrightarrow> find_seq ws_seqs (c # s) = None \<and> ws_free s"
  by (simp add: ws_free_def upt_conv_Cons map_Suc_upt [symmetric] list.pred_map comp_def del: upt_Suc)

lemma ws_seqs_first:
  "ws_seqs = [[CHR 0x09], [newline], [CHR 0x0B], [CHR 0x0C], [CHR 0x0D], '' ''] @ drop 6 ws_seqs"
  by code_simp

lemma ws_seqs_space: "w \<in> set ws_seqs \<Longrightarrow> w = '' '' \<or> CHR '' '' \<notin> set w"
proof -
  have "list_all (\<lambda>w. w = '' '' \<or> CHR '' '' \<notin> set w) ws_seqs" by code_simp
  then show "w \<in> set ws_seqs \<Longrightarrow> w = '' '' \<or> CHR '' '' \<notin> set w" unfolding list_all_iff by blast
qed

lemma find_space [simp]: "find_seq ws_seqs (CHR '' '' # s) = Some '' ''"
  unfolding find_seq_def by (subst ws_seqs_first) (simp add: starts_with_def newline_def)

lemma find_before_space:
  assumes "find_seq ws_seqs s = None" "s \<noteq> []"
  shows "find_seq ws_seqs (s @ CHR '' '' # r) = None"
proof (rule ccontr)
  assume "find_seq ws_seqs (s @ CHR '' '' # r) \<noteq> None"
  then obtain w where "find_seq ws_seqs (s @ CHR '' '' # r) = Some w" by blast
  from find_seq_Some [OF this] obtain t where w: "w \<in> set ws_seqs" "w \<noteq> []" "s @ CHR '' '' # r = w @ t" by blast
  have "CHR '' '' \<notin> set w"
  proof
    assume "CHR '' '' \<in> set w"
    then have "w = '' ''" using ws_seqs_space [OF w(1)] by blast
    then show False using w(3) assms by (cases s) auto
  qed
  then have "\<exists>u. s = w @ u" using w(3) by (auto simp: append_eq_append_conv2 append_eq_Cons_conv Cons_eq_append_conv)
  then show False using assms(1) w(1,2) by (auto simp: find_seq_def find_None_iff starts_with_def strip_prefix_append)
qed

lemma split_ws_word: "ws_free s \<Longrightarrow> split_ws_loop acc (s @ CHR '' '' # r) = (acc @ s) # split_ws_loop [] r"
proof (induction s arbitrary: acc)
  case (Cons c s)
  then have "find_seq ws_seqs ((c # s) @ CHR '' '' # r) = None"
    by (intro find_before_space) (simp_all add: ws_free_Cons)
  then show ?case using Cons by (simp add: split_ws_loop.simps [of acc "c # s @ CHR '' '' # r"] ws_free_Cons)
qed (simp add: split_ws_loop.simps [of _ "CHR '' '' # r"])

lemma find_seq_Nil [simp]: "find_seq ws_seqs [] = None"
  by (simp add: find_seq_def find_None_iff starts_with_def strip_prefix_Some)

lemma split_ws_last: "ws_free s \<Longrightarrow> split_ws_loop acc s = [acc @ s]"
proof (induction s arbitrary: acc)
  case (Cons c s)
  then show ?case by (simp add: split_ws_loop.simps [of acc "c # s"] ws_free_Cons)
qed (simp add: split_ws_loop.simps)

lemma split_ws_two: "ws_free a \<Longrightarrow> ws_free b \<Longrightarrow> a \<noteq> [] \<Longrightarrow> b \<noteq> [] \<Longrightarrow> split_ws (a @ '' '' @ b) = [a, b]"
  by (simp add: split_ws_def split_ws_word split_ws_last)

lemma ws_seqs_heads: "w \<in> set ws_seqs \<Longrightarrow> \<not> is_digit_char (hd w)"
proof -
  have "list_all (\<lambda>w. \<not> is_digit_char (hd w)) ws_seqs" by code_simp
  then show "w \<in> set ws_seqs \<Longrightarrow> \<not> is_digit_char (hd w)" unfolding list_all_iff by blast
qed

lemma ws_free_digits: "list_all is_digit_char s \<Longrightarrow> ws_free s"
proof (induction s)
  case (Cons c s)
  have "find_seq ws_seqs (c # s) = None"
  proof (rule ccontr)
    assume "find_seq ws_seqs (c # s) \<noteq> None"
    then obtain w where w: "find_seq ws_seqs (c # s) = Some w" by blast
    from find_seq_Some [OF this] have "w \<in> set ws_seqs" "hd w = c" by (auto simp: Cons_eq_append_conv)
    then show False using ws_seqs_heads [of w] Cons.prems by simp
  qed
  then show ?case using Cons by (simp add: ws_free_Cons)
qed simp

lemma ws_free_newline: "ws_free s \<Longrightarrow> newline \<notin> set s"
proof (induction s)
  case (Cons c s)
  have "find_seq ws_seqs (newline # s) \<noteq> None"
    unfolding find_seq_def by (subst ws_seqs_first) (simp add: starts_with_def newline_def)
  then show ?case using Cons by (auto simp: ws_free_Cons)
qed simp

section \<open>Listings\<close>

text \<open>A name that a listing can hold: not empty, well formed and without white space.\<close>

definition plain_name :: "string \<Rightarrow> bool" where
  "plain_name n \<longleftrightarrow> n \<noteq> [] \<and> valid_str n \<and> ws_free n"

definition plain_listing :: "(string, file_mode) btmap \<Rightarrow> bool" where
  "plain_listing es \<longleftrightarrow> bt_ok es \<and> (\<forall>(n, m) \<in> set es. plain_name n \<and> plain_mode m)"

definition listing_text :: "string \<times> file_mode \<Rightarrow> string" where
  "listing_text = (\<lambda>(n, m). n @ '' '' @ format_http_mode m)"

lemma format_mode_digits:
  "format_http_mode m \<noteq> []" "list_all is_digit_char (format_http_mode m)" "ws_free (format_http_mode m)"
  using show_nat_digits [of "unat (unix_type_and_perm m)"] by (auto simp: format_http_mode_def intro: ws_free_digits)

lemma listing_line_text:
  "plain_name n \<Longrightarrow> plain_mode m \<Longrightarrow> listing_line (listing_text (n, m)) = Some (n, m)"
  using split_ws_two [of n "format_http_mode m"]
  by (simp add: plain_name_def listing_line_def listing_text_def format_mode_digits parse_format_mode)

lemma listing_text_line:
  assumes "plain_name n"
  shows "newline \<notin> set (listing_text (n, m))" "\<not> ends_with (listing_text (n, m)) [CHR 0x0D]" "listing_text (n, m) \<noteq> []"
proof -
  have "newline \<notin> set n" "newline \<notin> set (format_http_mode m)"
    using assms format_mode_digits(3) by (auto simp: plain_name_def dest: ws_free_newline)
  then show "newline \<notin> set (listing_text (n, m))" by (auto simp: listing_text_def newline_def)
  have "is_digit_char (last (format_http_mode m))"
    using format_mode_digits(1,2) [of m] by (simp add: list_all_iff)
  then have "last (listing_text (n, m)) \<noteq> CHR 0x0D"
    using format_mode_digits(1) [of m] by (auto simp: listing_text_def is_digit_char_def)
  then show "\<not> ends_with (listing_text (n, m)) [CHR 0x0D]"
    by (auto simp: ends_with_iff)
  show "listing_text (n, m) \<noteq> []" by (simp add: listing_text_def)
qed

lemma valid_str_append:
  assumes "valid_str a" "valid_str b"
  shows "valid_str (a @ b)"
proof -
  have "utf8_valid x \<Longrightarrow> utf8_valid y \<Longrightarrow> utf8_valid (x @ y)" for x y
  proof (induction x rule: utf8_valid.induct)
    case (1 x)
    show ?case
    proof (cases "x = []")
      case False
      then have ok: "fst (utf8_step x)" "utf8_valid (drop (snd (utf8_step x)) x)"
        using "1.prems"(1) by (auto simp: utf8_valid.simps [of x] split: if_splits)
      obtain n where n: "utf8_step x = (True, n)" using ok(1) by (cases "utf8_step x") auto
      have seq: "seq_ok n (byte_at x)" by (rule seq_ok_step [OF n])
      have len: "n \<le> length x"
      proof (cases "n \<le> 1")
        case True
        then show ?thesis using False by (cases x) auto
      next
        case False
        then have "128 \<le> byte_at x (n - 1)" using seq_ok_cont [OF seq, of "n - 1"] by simp
        then have "n - 1 < length x" by (rule byte_at_ge)
        then show ?thesis by simp
      qed
      have "utf8_step (x @ y) = (True, n)"
        by (rule step_seq_ok, rule seq_ok_cong [OF seq]) (use len in simp)
      moreover have "utf8_valid (drop n x @ y)" using "1.IH" [OF False ok(1)] ok(2) "1.prems"(2) n by simp
      ultimately show ?thesis using False len by (simp add: utf8_valid.simps [of "x @ y"])
    qed (simp add: "1.prems")
  qed
  then show ?thesis using assms by (simp add: valid_str_def)
qed

lemma valid_str_concat: "\<forall>s \<in> set ss. valid_str s \<Longrightarrow> valid_str (concat ss)"
  by (induction ss) (auto intro: valid_str_append valid_str_ascii)

lemma valid_listing_text: "plain_name n \<Longrightarrow> valid_str (listing_text (n, m) @ [newline])"
proof -
  assume n: "plain_name n"
  have "valid_str ('' '' @ format_http_mode m @ [newline])"
    using format_mode_digits(2) [of m]
    by (intro valid_str_ascii) (auto simp: newline_def list_all_iff is_digit_char_def)
  then show ?thesis using n valid_str_append [of n "'' '' @ format_http_mode m @ [newline]"]
    by (simp add: plain_name_def listing_text_def)
qed

lemma sort_listing: "bt_ok es \<Longrightarrow> sort_key fst es = es"
  by (simp add: bt_ok_def bt_keys_def sort_key_id_if_sorted strict_sorted_imp_sorted)

lemma bt_insert_last: "\<forall>(j, _) \<in> set es. j < k \<Longrightarrow> bt_insert k v es = es @ [(k, v)]"
  by (induction es) auto

lemma fold_insert_listing: "bt_ok (acc @ es) \<Longrightarrow> fold (\<lambda>(n, m). bt_insert n m) es acc = acc @ es"
proof (induction es arbitrary: acc)
  case (Cons e es)
  obtain n m where e: "e = (n, m)" by (cases e)
  have "bt_insert n m acc = acc @ [(n, m)]"
    using Cons.prems by (intro bt_insert_last) (auto simp: bt_ok_def bt_keys_def sorted_wrt_append e)
  then show ?case using Cons.IH [of "acc @ [(n, m)]"] Cons.prems e by simp
qed simp

lemma format_listing_lines:
  "bt_ok es \<Longrightarrow> format_r2_listing es = concat (map (\<lambda>e. listing_text e @ [newline]) es)"
  by (simp add: format_r2_listing_def sort_listing listing_text_def split_def)

lemma str_lines_terminated:
  assumes "\<forall>l \<in> set ls. newline \<notin> set l \<and> \<not> ends_with l [CHR 0x0D]"
  shows "str_lines (concat (map (\<lambda>l. l @ [newline]) ls)) = ls"
proof -
  have split: "split_on newline (concat (map (\<lambda>l. l @ [newline]) ls)) = ls @ [[]]"
    using assms by (induction ls) (simp_all add: split_on_append_sep)
  have "map drop_cr ls = ls" using assms by (intro map_idI) (simp add: drop_cr_def)
  then show ?thesis by (simp add: str_lines_def split Let_def)
qed

text \<open>
  A listing is read back as it was written, for names without white space and the three kinds of mode.
\<close>

lemma listing_roundtrip:
  assumes "plain_listing es"
  shows "parse_r2_listing (as_bytes (format_r2_listing es)) = es"
proof -
  have ok: "bt_ok es" and plain: "\<forall>(n, m) \<in> set es. plain_name n \<and> plain_mode m"
    using assms by (auto simp: plain_listing_def)
  have "valid_str (format_r2_listing es)"
    unfolding format_listing_lines [OF ok]
    by (intro valid_str_concat) (use plain in \<open>auto intro: valid_listing_text\<close>)
  moreover have "str_lines (format_r2_listing es) = map listing_text es"
  proof -
    have "\<forall>l \<in> set (map listing_text es). newline \<notin> set l \<and> \<not> ends_with l [CHR 0x0D]"
      using plain listing_text_line by fastforce
    from str_lines_terminated [OF this] show ?thesis by (simp add: format_listing_lines [OF ok] comp_def)
  qed
  moreover have "fold (\<lambda>line m. case listing_line line of Some (n, v) \<Rightarrow> bt_insert n v m | None \<Rightarrow> m)
      (map listing_text es') acc = fold (\<lambda>(n, m). bt_insert n m) es' acc"
    if "\<forall>(n, m) \<in> set es'. plain_name n \<and> plain_mode m" for es' acc
    using that by (induction es' arbitrary: acc) (auto simp: listing_line_text)
  ultimately show ?thesis
    using fold_insert_listing [of "[]" es] ok plain by (simp add: parse_r2_listing_def from_utf8_lossy_as_bytes)
qed

lemma plain_change:
  assumes "plain_listing es" "plain_name n" "\<And>m. v = Some m \<Longrightarrow> plain_mode m"
  shows "plain_listing (change_entry n v es)"
proof (cases v)
  case None
  then show ?thesis using assms(1) by (auto simp: plain_listing_def change_entry_def bt_remove_def)
next
  case (Some m)
  then show ?thesis using assms set_bt_insert [of n m es] by (fastforce simp: plain_listing_def change_entry_def)
qed

section \<open>Many clients\<close>

text \<open>
  Clients that change the entries of one directory at the same time. The store is shared and each of its
  calls is atomic; between the read and the swap of one client the others may do anything of theirs. A
  client is where it stands in the rounds of \<open>update_parent_listing\<close>.
\<close>

datatype updater = Trying nat | Holding nat object | Finished | GaveUp

record change =
  ch_child :: string
  ch_mode :: "file_mode option"

record 's shared_dir =
  sd_store :: 's
  sd_clients :: "nat \<Rightarrow> updater"
  sd_log :: "nat list"

inductive dir_step :: "'s object_store \<Rightarrow> string \<Rightarrow> (nat \<Rightarrow> change) \<Rightarrow> 's shared_dir \<Rightarrow> 's shared_dir \<Rightarrow> bool"
  for st key ch where
  read_listing:
    "sd_clients d i = Trying (Suc n) \<Longrightarrow> os_get st key (sd_store d) = (Ok (Some ob), s) \<Longrightarrow>
     dir_step st key ch d (d\<lparr>sd_store := s, sd_clients := (sd_clients d)(i := Holding n ob)\<rparr>)"
| swap_listing:
    "sd_clients d i = Holding n ob \<Longrightarrow>
     os_compare_and_swap st key (Some ob) (Some (next_listing (ch_child (ch i)) (ch_mode (ch i)) ob now)) (sd_store d)
       = (Ok True, s) \<Longrightarrow>
     dir_step st key ch d (d\<lparr>sd_store := s, sd_clients := (sd_clients d)(i := Finished), sd_log := sd_log d @ [i]\<rparr>)"
| lose_swap:
    "sd_clients d i = Holding n ob \<Longrightarrow>
     os_compare_and_swap st key (Some ob) (Some (next_listing (ch_child (ch i)) (ch_mode (ch i)) ob now)) (sd_store d)
       = (Ok False, s) \<Longrightarrow>
     dir_step st key ch d (d\<lparr>sd_store := s, sd_clients := (sd_clients d)(i := Trying n)\<rparr>)"
| give_up:
    "sd_clients d i = Trying 0 \<Longrightarrow> dir_step st key ch d (d\<lparr>sd_clients := (sd_clients d)(i := GaveUp)\<rparr>)"
| put_elsewhere:
    "k \<noteq> key \<Longrightarrow> os_put st k ob (sd_store d) = (r, s) \<Longrightarrow> dir_step st key ch d (d\<lparr>sd_store := s\<rparr>)"
| delete_elsewhere:
    "k \<noteq> key \<Longrightarrow> os_delete st k (sd_store d) = (r, s) \<Longrightarrow> dir_step st key ch d (d\<lparr>sd_store := s\<rparr>)"
| swap_elsewhere:
    "k \<noteq> key \<Longrightarrow> os_compare_and_swap st k old new (sd_store d) = (swapped, s) \<Longrightarrow>
     dir_step st key ch d (d\<lparr>sd_store := s\<rparr>)"

definition apply_change :: "change \<Rightarrow> (string, file_mode) btmap \<Rightarrow> (string, file_mode) btmap" where
  "apply_change c = change_entry (ch_child c) (ch_mode c)"

definition plain_changes :: "(nat \<Rightarrow> change) \<Rightarrow> bool" where
  "plain_changes ch \<longleftrightarrow> (\<forall>i. plain_name (ch_child (ch i)) \<and> (\<forall>m. ch_mode (ch i) = Some m \<longrightarrow> plain_mode m))"

definition dir_inv ::
    "('s \<Rightarrow> string \<rightharpoonup> object) \<Rightarrow> string \<Rightarrow> (nat \<Rightarrow> change) \<Rightarrow> (string, file_mode) btmap \<Rightarrow> 's shared_dir \<Rightarrow> bool" where
  "dir_inv view key ch es d \<longleftrightarrow>
     (\<exists>ob. view (sd_store d) key = Some ob \<and> plain_listing (parse_r2_listing (ob_body ob)) \<and>
        parse_r2_listing (ob_body ob) = fold apply_change (map ch (sd_log d)) es) \<and>
     distinct (sd_log d) \<and> (\<forall>i. sd_clients d i = Finished \<longleftrightarrow> i \<in> set (sd_log d))"

lemma parse_next_listing:
  assumes "plain_changes ch" "plain_listing (parse_r2_listing (ob_body ob))"
  shows "parse_r2_listing (ob_body (next_listing (ch_child (ch i)) (ch_mode (ch i)) ob now)) =
      apply_change (ch i) (parse_r2_listing (ob_body ob)) \<and>
    plain_listing (apply_change (ch i) (parse_r2_listing (ob_body ob)))"
proof -
  have "plain_listing (apply_change (ch i) (parse_r2_listing (ob_body ob)))"
    using assms by (simp add: apply_change_def plain_changes_def plain_change)
  then show ?thesis
    by (simp add: next_listing_def directory_listing_object_def listing_roundtrip apply_change_def)
qed

lemma waiting: "dir_inv view key ch es d \<Longrightarrow> sd_clients d i \<noteq> Finished \<Longrightarrow> i \<notin> set (sd_log d)"
  by (simp add: dir_inv_def)

text \<open>Steps that leave the listing alone.\<close>

lemma dir_inv_same:
  assumes "dir_inv view key ch es d" "view s key = view (sd_store d) key" "sd_clients d i \<noteq> Finished" "u \<noteq> Finished"
  shows "dir_inv view key ch es (d\<lparr>sd_store := s, sd_clients := (sd_clients d)(i := u)\<rparr>)"
    and "dir_inv view key ch es (d\<lparr>sd_store := s\<rparr>)"
  using assms waiting [OF assms(1,3)] by (auto simp: dir_inv_def)

context object_contract
begin

lemma swap_inv:
  assumes "plain_changes ch" "dir_inv view key ch es d" "sd_clients d i = Holding n ob"
    and "os_compare_and_swap st key (Some ob) (Some (next_listing (ch_child (ch i)) (ch_mode (ch i)) ob now)) (sd_store d)
       = (Ok True, s)"
  shows "dir_inv view key ch es (d\<lparr>sd_store := s, sd_clients := (sd_clients d)(i := Finished), sd_log := sd_log d @ [i]\<rparr>)"
proof -
  note cur = swap_True [OF assms(4)]
  have plain: "plain_listing (parse_r2_listing (ob_body ob))"
    and now: "parse_r2_listing (ob_body ob) = fold apply_change (map ch (sd_log d)) es"
    using assms(2) cur by (auto simp: dir_inv_def)
  have "i \<notin> set (sd_log d)" using waiting [OF assms(2)] assms(3) by simp
  then show ?thesis
    using parse_next_listing [OF assms(1) plain, of i] now assms(2) cur by (auto simp: dir_inv_def)
qed

lemma dir_step_inv:
  assumes "dir_step st key ch d d'" "plain_changes ch" "dir_inv view key ch es d"
  shows "dir_inv view key ch es d'"
  using assms(1)
proof cases
  case (swap_listing i n ob now s)
  then show ?thesis using swap_inv [OF assms(2,3)] by blast
next
  case (read_listing i n ob s)
  then show ?thesis using dir_inv_same(1) [OF assms(3), of s i] by (simp add: get_view)
next
  case (lose_swap i n ob now s)
  then show ?thesis using dir_inv_same(1) [OF assms(3), of s i] swap_False by fastforce
next
  case (give_up i)
  then show ?thesis using dir_inv_same(1) [OF assms(3), of "sd_store d" i] by simp
qed (use assms(3) put_other delete_other swap_other in \<open>fastforce simp: dir_inv_def\<close>)+

lemma dir_reach_inv:
  "(dir_step st key ch)\<^sup>*\<^sup>* d d' \<Longrightarrow> plain_changes ch \<Longrightarrow> dir_inv view key ch es d \<Longrightarrow> dir_inv view key ch es d'"
  by (induction rule: rtranclp_induct) (auto intro: dir_step_inv)

end



end
