(* ===== verification/Object_Files.thy ===== *)
theory Object_Files
  imports Object_Laws
begin

text \<open>
  Files over an object store: what is written is read back, over any store that meets the contract; and
  the runs that lose data.
\<close>

section \<open>Files\<close>

lemma r2_headers:
  "header_value (r2_metadata ct mode len now) ''Content-Mode'' = Some (format_http_mode mode)"
  "header_value (r2_metadata ct mode len now) ''Content-Length'' = Some (show_nat len)"
  "header_value (r2_metadata ct mode len now) ''Content-Modified'' = Some (show_nat (unat (unix_secs now)))"
  "header_value (r2_metadata ct mode len now) ''Content-Ownership'' = Some ''0:0''"
proof -
  have "header_value h ''Content-Mode'' = Some cm \<and> header_value h ''Content-Length'' = Some cl \<and>
      header_value h ''Content-Modified'' = Some cf \<and> header_value h ''Content-Ownership'' = Some co"
    if "h = fold (\<lambda>(k, v). bt_insert k v)
         [(''Content-Type'', ct), (''Content-Mode'', cm), (''Content-Length'', cl), (''Content-Modified'', cf),
          (''Content-Ownership'', co)] []"
    for h and cm cl cf co :: string
    unfolding that by code_simp
  from this [OF r2_metadata_def]
  show "header_value (r2_metadata ct mode len now) ''Content-Mode'' = Some (format_http_mode mode)"
    "header_value (r2_metadata ct mode len now) ''Content-Length'' = Some (show_nat len)"
    "header_value (r2_metadata ct mode len now) ''Content-Modified'' = Some (show_nat (unat (unix_secs now)))"
    "header_value (r2_metadata ct mode len now) ''Content-Ownership'' = Some ''0:0''"
    by blast+
qed

definition clock_ok :: "system_time \<Rightarrow> bool" where
  "clock_ok now \<longleftrightarrow> unat (unix_secs now) \<le> isize_max"

lemma unat_u64_less: "unat (x :: u64) < 18446744073709551616"
proof -
  have "unat x < 2 ^ LENGTH(64)" by (rule unsigned_less)
  then show ?thesis by simp
qed

lemma parse_r2_metadata:
  assumes "plain_mode mode" "len < 18446744073709551616" "clock_ok now"
  shows "parse_http_metadata name (r2_metadata ct mode len now) n =
    Ok \<lparr>md_name = base_name name, md_mode = mode,
        md_size = (if is_dir mode then max (of_nat len) 2 else of_nat len),
        md_modified = int (unat (unix_secs now)) * int nanos_per_sec, md_uid = 0, md_gid = 0\<rparr>"
proof -
  let ?h = "r2_metadata ct mode len now"
  have mode: "header_mode ?h = mode"
    using assms(1) by (simp add: header_mode_def r2_headers parse_format_mode)
  have size: "header_size ?h n = of_nat len"
    using assms(2) by (simp add: header_size_def r2_headers parse_u64_show)
  have "parse_u64 (show_nat (unat (unix_secs now))) = Some (unix_secs now)"
    by (simp add: parse_u64_show unat_u64_less)
  then have "header_modified ?h = Ok (int (unat (unix_secs now)) * int nanos_per_sec)"
    using assms(3) by (simp add: header_modified_def r2_headers epoch_plus_def clock_ok_def Let_def
        isize_max_def usize_max_def)
  moreover have "header_owner ?h = (0, 0)"
  proof -
    have "split_once (CHR '':'') ''0:0'' = Some (''0'', ''0'')" "parse_u32 ''0'' = Some 0" by code_simp+
    then show ?thesis by (simp add: header_owner_def r2_headers)
  qed
  ultimately show ?thesis using mode size by (simp add: parse_http_metadata_def Let_def)
qed

lemma r2_key_inj:
  assumes "r2_key fs a = r2_key fs b" "valid_path a" "valid_path b"
  shows "a = b"
proof -
  have "\<not> valid_path []" by code_simp
  then have "a \<noteq> []" "b \<noteq> []" using assms(2,3) by auto
  then show ?thesis using assms by (auto simp: r2_key_def clean_valid Let_def split: if_splits)
qed

lemma http_read_loop:
  assumes "\<not> hf_closed h" "hf_data h = data" "unat (hf_position h) = k" "length data \<le> isize_max"
    and "length data - k \<le> 8192 * n" "k \<le> length data"
  shows "\<exists>h'. read_file_loop (Suc n) (r2_handle fs) out (R2Read h, w) = (Ok (out @ drop k data), (R2Read h', w))"
  using assms(1-3,5-6)
proof (induction n arbitrary: h k out)
  case 0
  then show ?case
    by (auto simp: r2_handle_def r2_box_def http_file_handle_def http_file_read_def unless_closed_def cursor_read_def
        obind_def attempt_def Let_def)
next
  case (Suc n)
  let ?c = "min 8192 (length data - k)" and ?d = "take 8192 (drop k data)"
  let ?g = "h\<lparr>hf_position := hf_position h + of_nat (length ?d)\<rparr>"
  have rd: "fh_read (r2_handle fs) 8192 (R2Read h, w) = (Ok ?d, (R2Read ?g, w))"
    using Suc.prems by (simp add: r2_handle_def r2_box_def http_file_handle_def http_file_read_def unless_closed_def
        cursor_read_def Let_def)
  show ?case
  proof (cases "k = length data")
    case True
    then show ?thesis using rd by (subst read_file_loop.simps) (auto simp: obind_def attempt_def)
  next
    case False
    then have ne: "?d \<noteq> []" using Suc.prems by auto
    have off: "unat (hf_position ?g) = k + ?c"
    proof -
      have "k + ?c < 2 ^ 64" using Suc.prems assms(4) by (simp add: isize_max_def usize_max_def)
      then show ?thesis using Suc.prems by (simp add: unat_word_ariths unat_of_nat)
    qed
    have "\<exists>h'. read_file_loop (Suc n) (r2_handle fs) (out @ ?d) (R2Read ?g, w) =
        (Ok ((out @ ?d) @ drop (k + ?c) data), (R2Read h', w))"
      by (rule Suc.IH) (use Suc.prems off in auto)
    moreover have "?d @ drop (k + ?c) data = drop k data"
      by (cases "length data - k \<le> 8192") (simp_all, metis add.commute append_take_drop_id drop_drop)
    ultimately show ?thesis using rd ne by (subst read_file_loop.simps) (auto simp: obind_def attempt_def)
  qed
qed

definition r2_open_mode :: "file_mode \<Rightarrow> file_mode" where
  "r2_open_mode p = from_perm (if p = 0 then 0x1A4 else perm p)"

lemma r2_open_mode_plain: "plain_mode (r2_open_mode p)" "\<not> is_dir (r2_open_mode p)" "\<not> is_symlink (r2_open_mode p)"
proof -
  have q: "r2_open_mode p = (if p = 0 then 0x1A4 else perm p) AND 0x1FF"
    by (simp add: r2_open_mode_def from_perm_def PERM_MASK_def)
  show "plain_mode (r2_open_mode p)"
    by (simp add: plain_mode_def q perm_def from_perm_def PERM_MASK_def and.assoc)
  show "\<not> is_dir (r2_open_mode p)" "\<not> is_symlink (r2_open_mode p)"
    by (simp_all add: q is_dir_def is_symlink_def mode_contains_def mode_consts and.assoc)
qed

lemma base_name_valid:
  assumes "valid_path name" "name \<noteq> ''.''"
  shows "base_name name \<noteq> ''.''" "base_name name \<noteq> []"
proof -
  obtain qs where qs: "good_parts qs" "name = join_on slash qs" using assms by (auto simp: valid_path_form)
  then have "qs \<noteq> []" by (simp add: good_parts_def)
  then obtain ps q where "qs = ps @ [q]" by (cases qs rule: rev_cases) auto
  then have "good_part q" "base_name name = q" using qs by (auto simp: base_join good_parts_def)
  then show "base_name name \<noteq> ''.''" "base_name name \<noteq> []"
    by (auto simp: good_part_def)
qed

lemma parent_differs: "valid_path name \<Longrightarrow> name \<noteq> ''.'' \<Longrightarrow> r2_key fs (parent_path name) \<noteq> r2_key fs name"
  using path_depth_parent [of name] r2_key_inj [of fs "parent_path name" name] by auto

text \<open>The object of a written file, and the node it is read as.\<close>

definition file_object :: "file_mode \<Rightarrow> bytes \<Rightarrow> system_time \<Rightarrow> object" where
  "file_object mode data now =
     \<lparr>ob_metadata = r2_metadata ''application/octet-stream'' mode (length data) now, ob_body = data\<rparr>"

definition written_node :: "string \<Rightarrow> file_mode \<Rightarrow> bytes \<Rightarrow> system_time \<Rightarrow> r2_node" where
  "written_node name mode data now =
     \<lparr>rn_metadata = \<lparr>md_name = base_name name, md_mode = mode, md_size = of_nat (length data),
        md_modified = int (unat (unix_secs now)) * int nanos_per_sec, md_uid = 0, md_gid = 0\<rparr>,
      rn_body = data, rn_entries = []\<rparr>"

lemma parse_file_object:
  assumes "clock_ok now" "length data \<le> isize_max" "plain_mode mode" "\<not> is_dir mode"
  shows "parse_object name (file_object mode data now) = Ok (written_node name mode data now)"
proof -
  have "length data < 18446744073709551616" using assms(2) by (simp add: isize_max_def)
  then show ?thesis
    using assms parse_r2_metadata [OF assms(3) _ assms(1)]
    by (simp add: parse_object_def file_object_def md_is_dir_def written_node_def)
qed

text \<open>The handle that opening for writing gives, and what it holds after one write.\<close>

definition empty_writer :: "string \<Rightarrow> file_mode \<Rightarrow> r2_write_file" where
  "empty_writer name p =
     \<lparr>rf_path = name, rf_metadata = metadata_file name (if p = 0 then 0x1A4 else perm p) 0,
      rf_data = [], rf_offset = 0, rf_closed = False\<rparr>"

definition filled_writer :: "string \<Rightarrow> file_mode \<Rightarrow> bytes \<Rightarrow> r2_write_file" where
  "filled_writer name p data =
     (empty_writer name p)\<lparr>rf_data := data, rf_offset := of_nat (length data),
        rf_metadata := (metadata_file name (if p = 0 then 0x1A4 else perm p) 0)\<lparr>md_size := of_nat (length data)\<rparr>\<rparr>"

lemma open_to_write: "r2_open_file links rds fs name (O_WRONLY OR O_CREATE OR O_TRUNC) p w =
  (Ok (R2Write (empty_writer (clean_path name) p)), w)"
proof -
  have "is_write (O_WRONLY OR O_CREATE OR O_TRUNC)" "flags_contains (O_WRONLY OR O_CREATE OR O_TRUNC) O_TRUNC"
    by code_simp+
  then show ?thesis by (simp add: r2_open_file_def Let_def empty_writer_def)
qed

lemma write_once:
  "length data \<le> isize_max \<Longrightarrow> r2_write data (empty_writer name p, w) = (Ok (length data), (filled_writer name p data, w))"
  by (auto simp: r2_write_def Let_def vec_resize_def write_range_def empty_writer_def filled_writer_def)

lemma filled_writer_fields:
  "\<not> rf_closed (filled_writer name p data)" "rf_path (filled_writer name p data) = name"
  "rf_data (filled_writer name p data) = data" "md_mode (rf_metadata (filled_writer name p data)) = r2_open_mode p"
  by (simp_all add: filled_writer_def empty_writer_def metadata_file_def metadata_new_def r2_open_mode_def Let_def)

lemma r2_ops_fields:
  "fs_file (r2_ops links rds fs) = r2_handle fs" "fs_open_file (r2_ops links rds fs) = r2_open_file links rds fs"
  "fs_open (r2_ops links rds fs) = r2_open links fs" "fs_stat (r2_ops links rds fs) = r2_stat links fs"
  by (simp_all add: r2_ops_def r2_reading_def with_defaults_def)

lemma write_to_writer:
  assumes "length data \<le> isize_max" "put_file_object fs (clean_path name) (r2_open_mode p) data w = (Ok (), w')"
  shows "write_file (r2_ops links rds fs) name data p w = (Ok (), w')"
  using assms write_once [OF assms(1), of "clean_path name" p w]
  by (simp add: write_file_def write_then_close_def scoped_def obind_def r2_ops_fields open_to_write r2_handle_def r2_box_def
      r2_write_handle_def r2_close_def filled_writer_fields Let_def)

lemma read_loaded:
  assumes "valid_path name" "load_object fs name w = (Ok node, w)"
    and "\<not> is_symlink (md_mode (rn_metadata node))" "\<not> md_is_dir (rn_metadata node)"
    and "length (rn_body node) \<le> isize_max" "length (rn_body node) \<le> 8192 * n"
  shows "read_file (Suc n) (r2_ops (Suc links) rds fs) name w = (Ok (rn_body node), w)"
    and "stat_path (r2_ops (Suc links) rds fs) name w = (Ok (rn_metadata node), w)"
proof -
  have opened: "open_path (r2_ops (Suc links) rds fs) name w = (Ok (R2Read (http_file_new (rn_metadata node) (rn_body node))), w)"
    using assms(1-4) by (simp add: open_path_def r2_ops_fields obind_def Let_def clean_valid)
  then show "read_file (Suc n) (r2_ops (Suc links) rds fs) name w = (Ok (rn_body node), w)"
    using http_read_loop [of "http_file_new (rn_metadata node) (rn_body node)" "rn_body node" 0 n fs "[]" w] assms(5,6)
    by (auto simp: read_file_def scoped_def obind_def r2_ops_fields http_file_new_def discard_def attempt_def r2_handle_def
        r2_box_def http_file_handle_def http_file_close_def unless_closed_def Let_def
        simp del: read_file_loop.simps split: if_splits sum.splits prod.splits)
  show "stat_path (r2_ops (Suc links) rds fs) name w = (Ok (rn_metadata node), w)"
    using assms(1-4) by (simp add: stat_path_def r2_ops_fields obind_def Let_def clean_valid)
qed

context object_contract
begin

lemma put_file_view:
  assumes "r2_store fs = st" "valid_path name" "name \<noteq> ''.''"
    and "view (rw_store w) (r2_key fs (parent_path name)) = Some ob"
  shows "\<exists>s. put_file_object fs name mode data w = (Ok (), w\<lparr>rw_store := s\<rparr>) \<and>
    view s = (view (rw_store w))(r2_key fs name \<mapsto> file_object mode data (rw_now w),
      r2_key fs (parent_path name) \<mapsto> next_listing (base_name name) (Some mode) ob (rw_now w))"
proof -
  obtain s where s: "r2_put fs (r2_key fs name) (file_object mode data (rw_now w)) w = (Ok (), w\<lparr>rw_store := s\<rparr>)"
      "view s = (view (rw_store w))(r2_key fs name \<mapsto> file_object mode data (rw_now w))"
    using r2_put_view [OF assms(1)] by blast
  have "view (rw_store (w\<lparr>rw_store := s\<rparr>)) (r2_key fs (parent_path name)) = Some ob"
    using s(2) assms(4) parent_differs [OF assms(2,3), of fs] by simp
  from update_view [OF assms(1) this base_name_valid [OF assms(2,3)], of "Some mode"] s show ?thesis
    by (auto simp: put_file_object_def obind_def file_object_def)
qed

lemma load_view:
  "r2_store fs = st \<Longrightarrow> view (rw_store w) (r2_key fs name) = Some ob \<Longrightarrow> parse_object name ob = Ok node \<Longrightarrow>
   load_object fs name w = (Ok node, w)"
  by (simp add: load_object_def get_object_def r2_get_view obind_def)

lemma write_then_read:
  assumes "r2_store fs = st" "clean_path name \<noteq> ''.''" "clock_ok (rw_now w)"
    and "view (rw_store w) (r2_key fs (parent_path name)) = Some ob"
    and "length data \<le> isize_max" "length data \<le> 8192 * n"
  shows "\<exists>w'. write_file (r2_ops (Suc links) rds fs) name data p w = (Ok (), w') \<and>
    read_file (Suc n) (r2_ops (Suc links) rds fs) (clean_path name) w' = (Ok data, w') \<and>
    stat_path (r2_ops (Suc links) rds fs) (clean_path name) w' =
      (Ok (rn_metadata (written_node (clean_path name) (r2_open_mode p) data (rw_now w))), w') \<and>
    view (rw_store w') = (view (rw_store w))(r2_key fs (clean_path name) \<mapsto> file_object (r2_open_mode p) data (rw_now w),
      r2_key fs (parent_path name) \<mapsto> next_listing (base_name (clean_path name)) (Some (r2_open_mode p)) ob (rw_now w))"
proof -
  let ?name = "clean_path name" and ?mode = "r2_open_mode p"
  let ?node = "written_node ?name ?mode data (rw_now w)"
  obtain s where s: "put_file_object fs ?name ?mode data w = (Ok (), w\<lparr>rw_store := s\<rparr>)"
      "view s = (view (rw_store w))(r2_key fs ?name \<mapsto> file_object ?mode data (rw_now w),
        r2_key fs (parent_path name) \<mapsto> next_listing (base_name ?name) (Some ?mode) ob (rw_now w))"
    using put_file_view [OF assms(1) valid_clean assms(2)] assms(4) by force
  have "view s (r2_key fs ?name) = Some (file_object ?mode data (rw_now w))"
    using s(2) parent_differs [OF valid_clean assms(2), of fs] by simp
  then have loaded: "load_object fs ?name (w\<lparr>rw_store := s\<rparr>) = (Ok ?node, w\<lparr>rw_store := s\<rparr>)"
    using parse_file_object [OF assms(3,5)] r2_open_mode_plain [of p] by (intro load_view [OF assms(1)]) auto
  have node: "\<not> is_symlink (md_mode (rn_metadata ?node))" "\<not> md_is_dir (rn_metadata ?node)" "rn_body ?node = data"
    using r2_open_mode_plain [of p] by (simp_all add: written_node_def md_is_dir_def)
  show ?thesis
    using write_to_writer [OF assms(5) s(1)] read_loaded [OF valid_clean loaded node(1,2)] node(3) assms(5,6) s(2)
    by (intro exI [of _ "w\<lparr>rw_store := s\<rparr>"]) simp
qed

end




section \<open>Runs that lose data\<close>

text \<open>Appending to a file opens it as an empty one: it is the same as writing it.\<close>

lemma append_is_write: "append_file (r2_ops links rds fs) name data = write_file (r2_ops links rds fs) name data 0x1A4"
proof -
  have flags: "is_write (O_WRONLY OR O_CREATE OR O_TRUNC)" "flags_contains (O_WRONLY OR O_CREATE OR O_TRUNC) O_TRUNC"
    "is_write (O_WRONLY OR O_CREATE OR O_APPEND)" "flags_contains (O_WRONLY OR O_CREATE OR O_APPEND) O_CREATE"
    "from_perm 0x1A4 = 0x1A4" by code_simp+
  then have "r2_open_file links rds fs name (O_WRONLY OR O_CREATE OR O_APPEND) 0x1A4 =
      r2_open_file links rds fs name (O_WRONLY OR O_CREATE OR O_TRUNC) 0x1A4"
    by (simp add: r2_open_file_def Let_def fun_eq_iff)
  then show ?thesis using flags(5) by (simp add: append_file_def write_file_def r2_ops_def)
qed

context object_contract
begin

lemma orphan_view:
  assumes "r2_store fs = st" "valid_path name" "name \<noteq> ''.''" "parent_path name \<noteq> ''.''"
    and "view (rw_store w) (r2_key fs (parent_path name)) = None"
  shows "\<exists>w'. put_file_object fs name mode data w = (Err (Path ''r2fs'' (parent_path name) NotFound), w') \<and>
    view (rw_store w') (r2_key fs name) = Some (file_object mode data (rw_now w))"
proof -
  obtain s where s: "r2_put fs (r2_key fs name) (file_object mode data (rw_now w)) w = (Ok (), w\<lparr>rw_store := s\<rparr>)"
      "view s = (view (rw_store w))(r2_key fs name \<mapsto> file_object mode data (rw_now w))"
    using r2_put_view [OF assms(1)] by blast
  then have "view s (r2_key fs (parent_path name)) = None"
    using assms(5) parent_differs [OF assms(2,3), of fs] by simp
  then show ?thesis
    using s assms(4) base_name_valid [OF assms(2,3)]
    by (simp add: put_file_object_def obind_def file_object_def update_parent_listing_def Let_def
        COMPARE_AND_SWAP_RETRIES_def numeral_3_eq_3 parent_object_def r2_get_view [OF assms(1)] throw_def)
qed

lemma rename_same_view:
  assumes "r2_store fs = st" "valid_path name" "name \<noteq> ''.''"
    and "view (rw_store w) (r2_key fs (parent_path name)) = Some dir"
    and "view (rw_store w) (r2_key fs name) = Some ob" "parse_object name ob = Ok node" "\<not> md_is_dir (rn_metadata node)"
  shows "\<exists>w'. r2_rename fs name name w = (Ok (), w') \<and> view (rw_store w') (r2_key fs name) = None"
proof -
  let ?k = "r2_key fs name" and ?j = "r2_key fs (parent_path name)"
  note jk = parent_differs [OF assms(2,3), of fs]
  obtain s1 where s1: "r2_put fs ?k ob w = (Ok (), w\<lparr>rw_store := s1\<rparr>)" "view s1 = (view (rw_store w))(?k \<mapsto> ob)"
    using r2_put_view [OF assms(1)] by blast
  obtain s2 where s2: "on_store (os_delete st ?k) (w\<lparr>rw_store := s1\<rparr>) = (Ok (), w\<lparr>rw_store := s2\<rparr>)"
      "view s2 = (view s1)(?k := None)"
    using r2_delete_view [of ?k "w\<lparr>rw_store := s1\<rparr>"] by auto
  have "view (rw_store (w\<lparr>rw_store := s2\<rparr>)) ?j = Some dir" using s1 s2 assms(4) jk by simp
  from update_view [OF assms(1) this base_name_valid [OF assms(2,3)], of None] obtain s3 d3 where
    s3: "update_parent_listing fs name None (w\<lparr>rw_store := s2\<rparr>) = (Ok (), w\<lparr>rw_store := s3\<rparr>)" "view s3 = (view s2)(?j \<mapsto> d3)"
    by auto
  then have "view (rw_store (w\<lparr>rw_store := s3\<rparr>)) ?j = Some d3" by simp
  from update_view [OF assms(1) this base_name_valid [OF assms(2,3)], of "Some (md_mode (rn_metadata node))"] obtain s4 d4 where
    s4: "update_parent_listing fs name (Some (md_mode (rn_metadata node))) (w\<lparr>rw_store := s3\<rparr>) = (Ok (), w\<lparr>rw_store := s4\<rparr>)"
      "view s4 = (view s3)(?j \<mapsto> d4)"
    by auto
  have "view s4 ?k = None" using s4 s3 s2 jk by simp
  then show ?thesis
    using assms s1(1) s2(1) s3(1) s4(1)
    by (simp add: r2_rename_def Let_def clean_valid obind_def r2_require_def get_object_def r2_get_view)
qed

lemma mkdir_view:
  assumes "r2_store fs = st" "valid_path name" "name \<noteq> ''.''"
    and "view (rw_store w) (r2_key fs (parent_path name)) = Some dir"
  shows "\<exists>w'. r2_mkdir fs name p w = (Ok (), w') \<and>
    view (rw_store w') (r2_key fs name) = Some (directory_listing_object [] (rw_now w))"
proof -
  let ?k = "r2_key fs name" and ?j = "r2_key fs (parent_path name)" and ?ob = "directory_listing_object [] (rw_now w)"
  note jk = parent_differs [OF assms(2,3), of fs]
  obtain s where s: "r2_put fs ?k ?ob w = (Ok (), w\<lparr>rw_store := s\<rparr>)" "view s = (view (rw_store w))(?k \<mapsto> ?ob)"
    using r2_put_view [OF assms(1)] by blast
  have "view (rw_store (w\<lparr>rw_store := s\<rparr>)) ?j = Some dir" using s assms(4) jk by simp
  from update_view [OF assms(1) this base_name_valid [OF assms(2,3)], of "Some (MODE_DIR OR from_perm 0x1ED)"] s jk assms
  show ?thesis
    by (auto simp: r2_mkdir_def Let_def clean_valid obind_def r2_require_def r2_get_view put_directory_object_def)
qed

end

text \<open>A file written into a directory that does not exist is refused after its object is stored.\<close>

lemma refused_write_is_stored:
  assumes "r2_store fs = mem_store" "valid_path name" "name \<noteq> ''.''" "parent_path name \<noteq> ''.''"
    and "bt_get (rw_store w) (r2_key fs (parent_path name)) = None"
  shows "\<exists>w'. put_file_object fs name mode data w = (Err (Path ''r2fs'' (parent_path name) NotFound), w') \<and>
    bt_get (rw_store w') (r2_key fs name) = Some (file_object mode data (rw_now w))"
  by (rule stored.orphan_view [OF assms])

text \<open>Renaming a file to its own name deletes it, and succeeds.\<close>

lemma rename_to_itself_deletes:
  assumes "r2_store fs = mem_store" "valid_path name" "name \<noteq> ''.''"
    and "bt_get (rw_store w) (r2_key fs (parent_path name)) = Some dir"
    and "bt_get (rw_store w) (r2_key fs name) = Some ob" "parse_object name ob = Ok node" "\<not> md_is_dir (rn_metadata node)"
  shows "\<exists>w'. r2_rename fs name name w = (Ok (), w') \<and> bt_get (rw_store w') (r2_key fs name) = None"
  by (rule stored.rename_same_view [OF assms])

text \<open>Making a directory that exists replaces its listing by an empty one.\<close>

lemma mkdir_forgets:
  assumes "r2_store fs = mem_store" "valid_path name" "name \<noteq> ''.''"
    and "bt_get (rw_store w) (r2_key fs (parent_path name)) = Some dir"
  shows "\<exists>w'. r2_mkdir fs name p w = (Ok (), w') \<and>
    bt_get (rw_store w') (r2_key fs name) = Some (directory_listing_object [] (rw_now w))"
  by (rule stored.mkdir_view [OF assms])

text \<open>A name with a space is listed as its first word, with a mode read from the second.\<close>

lemma spaced_name_is_cut:
  assumes "plain_name a" "plain_name b"
  shows "listing_line (listing_text (a @ '' '' @ b, m)) = Some (a, parse_http_mode b)"
  using assms split_ws_word [of a "[]" "b @ '' '' @ format_http_mode m"] split_ws_word [of b "[]" "format_http_mode m"]
  by (simp add: plain_name_def listing_line_def listing_text_def split_ws_def)

end
