(* ===== verification/Metacache.thy ===== *)
theory Metacache
  imports Filesystem "HOL-Library.Product_Lexorder"
begin

text \<open>
  The metadata cache, \<open>MetaCacheFs\<close> of \<open>crates/star9-fs/src/metacache.rs\<close>, over any file system: it answers
  \<open>stat\<close>, \<open>lstat\<close> and \<open>read_dir\<close> from entries that expire, renews them in threads of its own, and forgets what
  the calls that go through it change.
\<close>

section \<open>Keys and entries\<close>

datatype cache_kind = CStat | CLstat | CReadDir

instantiation cache_kind :: linorder
begin

definition kind_rank :: "cache_kind \<Rightarrow> nat" where
  "kind_rank k = (case k of CStat \<Rightarrow> 0 | CLstat \<Rightarrow> 1 | CReadDir \<Rightarrow> 2)"

definition less_eq_cache_kind :: "cache_kind \<Rightarrow> cache_kind \<Rightarrow> bool" where
  "less_eq_cache_kind a b \<longleftrightarrow> kind_rank a \<le> kind_rank b"

definition less_cache_kind :: "cache_kind \<Rightarrow> cache_kind \<Rightarrow> bool" where
  "less_cache_kind a b \<longleftrightarrow> kind_rank a < kind_rank b"

instance
  by standard (auto simp: less_eq_cache_kind_def less_cache_kind_def kind_rank_def split: cache_kind.splits)

end

text \<open>\<open>CacheKey\<close>, ordered by its path and then by its kind.\<close>

type_synonym cache_key = "string \<times> cache_kind"

datatype cache_payload = PMetadata "error + metadata" | PReadDir "error + dir_entry list"

text \<open>An \<open>Instant\<close> is a number of nanoseconds; adding to it panics at the end of its range.\<close>

type_synonym instant = nat

definition instant_plus :: "instant \<Rightarrow> nat \<Rightarrow> instant res" where
  "instant_plus t d = (if t + d \<ge> (isize_max + 1) * nanos_per_sec then Inl Panic else Ok (t + d))"

record cache_entry =
  ce_payload :: cache_payload
  ce_renew_at :: "instant option"
  ce_expires_at :: instant
  ce_refreshing :: bool

text \<open>
  The world of the cache: the file system below it, the clock, the state behind the lock, and the threads
  that were spawned to refresh an entry and have not run yet.
\<close>

record refresh_job =
  rj_path :: string
  rj_key :: cache_key

record 's metacache =
  mc_inner :: 's
  mc_now :: instant
  mc_ttl :: nat
  mc_cache :: "(cache_key, cache_entry) btmap"
  mc_threads :: "refresh_job list"

definition DEFAULT_TTL :: nat where
  "DEFAULT_TTL = 30 * nanos_per_sec"

definition metacache_with_ttl :: "'s \<Rightarrow> instant \<Rightarrow> nat \<Rightarrow> 's metacache" where
  "metacache_with_ttl inner now ttl =
     \<lparr>mc_inner = inner, mc_now = now, mc_ttl = ttl, mc_cache = [], mc_threads = []\<rparr>"

definition metacache_new :: "'s \<Rightarrow> instant \<Rightarrow> 's metacache" where
  "metacache_new inner now = metacache_with_ttl inner now DEFAULT_TTL"

definition set_ttl :: "nat \<Rightarrow> ('s metacache, unit) op" where
  "set_ttl ttl = modify (\<lambda>w. w\<lparr>mc_ttl := ttl\<rparr>)"

definition normalize_cache_path :: "string \<Rightarrow> string" where
  "normalize_cache_path path = clean_path (trim_start_char slash path)"

definition cache_key :: "string \<Rightarrow> cache_kind \<Rightarrow> cache_key" where
  "cache_key path kind = (normalize_cache_path path, kind)"

section \<open>Forgetting\<close>

definition forget :: "cache_key \<Rightarrow> 's metacache \<Rightarrow> 's metacache" where
  "forget key w = w\<lparr>mc_cache := bt_remove key (mc_cache w)\<rparr>"

definition invalidate :: "string \<Rightarrow> ('s metacache, unit) op" where
  "invalidate path =
     (let path = normalize_cache_path path in
      obind (modify (forget (path, CStat))) (\<lambda>_.
      obind (modify (forget (path, CLstat))) (\<lambda>_.
      modify (forget (path, CReadDir)))))"

definition invalidate_dir :: "string \<Rightarrow> ('s metacache, unit) op" where
  "invalidate_dir path =
     (let path = normalize_cache_path path in
      modify (\<lambda>w. w\<lparr>mc_cache :=
        filter (\<lambda>(key, _). \<not> (fst key = path \<or> (path = ''.'' \<or> starts_with (fst key) (path @ ''/'')))) (mc_cache w)\<rparr>))"

definition invalidate_all :: "('s metacache, unit) op" where
  "invalidate_all = modify (\<lambda>w. w\<lparr>mc_cache := []\<rparr>)"

definition invalidate_parent_listing :: "string \<Rightarrow> ('s metacache, unit) op" where
  "invalidate_parent_listing path = modify (forget (parent_path (normalize_cache_path path), CReadDir))"

section \<open>Looking up and storing\<close>

record cached_lookup =
  cl_payload :: cache_payload
  cl_refresh :: bool

definition wants_refresh :: "instant \<Rightarrow> cache_entry \<Rightarrow> bool" where
  "wants_refresh now e \<longleftrightarrow>
     (case ce_renew_at e of Some renew_at \<Rightarrow> now \<ge> renew_at | None \<Rightarrow> False) \<and> \<not> ce_refreshing e"

definition get_cached :: "cache_key \<Rightarrow> ('s metacache, cached_lookup option) op" where
  "get_cached key = (\<lambda>w. case bt_get (mc_cache w) key of
       None \<Rightarrow> (Ok None, w)
     | Some e \<Rightarrow>
         if mc_now w \<ge> ce_expires_at e then (Ok None, forget key w)
         else
           (let refresh = wants_refresh (mc_now w) e;
                w' = (if refresh then w\<lparr>mc_cache := bt_insert key (e\<lparr>ce_refreshing := True\<rparr>) (mc_cache w)\<rparr> else w) in
            (Ok (Some \<lparr>cl_payload = ce_payload e, cl_refresh = refresh\<rparr>), w')))"

definition payload_is_err :: "cache_payload \<Rightarrow> bool" where
  "payload_is_err p =
     (case p of PMetadata (Inl _) \<Rightarrow> True | PReadDir (Inl _) \<Rightarrow> True | _ \<Rightarrow> False)"

definition set_cached :: "cache_key \<Rightarrow> cache_payload \<Rightarrow> ('s metacache, unit) op" where
  "set_cached key payload =
     obind (gets mc_ttl) (\<lambda>ttl.
     if ttl = 0 then ret ()
     else
       obind (gets mc_now) (\<lambda>now.
       let is_error = payload_is_err payload in
       obind (if is_error then ret None
              else obind (lift_res (instant_plus now (ttl div 2))) (\<lambda>t. ret (Some t))) (\<lambda>renew_at.
       obind (lift_res (instant_plus now (if is_error then ttl div 2 else ttl))) (\<lambda>expires_at.
       modify (\<lambda>w. w\<lparr>mc_cache := bt_insert key
         \<lparr>ce_payload = payload, ce_renew_at = renew_at, ce_expires_at = expires_at, ce_refreshing = False\<rparr>
         (mc_cache w)\<rparr>)))))"

definition extend_expiry :: "cache_key \<Rightarrow> ('s metacache, unit) op" where
  "extend_expiry key =
     obind (gets mc_ttl) (\<lambda>ttl.
     if ttl = 0 then modify (forget key)
     else
       obind (gets (\<lambda>w. bt_get (mc_cache w) key)) (\<lambda>entry. case entry of
         None \<Rightarrow> ret ()
       | Some e \<Rightarrow>
           obind (gets mc_now) (\<lambda>now.
           obind (lift_res (instant_plus now (ttl div 2))) (\<lambda>renew_at.
           obind (lift_res (instant_plus now ttl)) (\<lambda>expires_at.
           modify (\<lambda>w. w\<lparr>mc_cache := bt_insert key
             (e\<lparr>ce_renew_at := Some renew_at, ce_expires_at := expires_at, ce_refreshing := False\<rparr>)
             (mc_cache w)\<rparr>))))))"

section \<open>Asking the file system below\<close>

definition on_inner :: "('s, 'a) op \<Rightarrow> ('s metacache, 'a) op" where
  "on_inner m = (\<lambda>w. case m (mc_inner w) of (r, s) \<Rightarrow> (r, w\<lparr>mc_inner := s\<rparr>))"

definition schedule_refresh :: "string \<Rightarrow> cache_key \<Rightarrow> ('s metacache, unit) op" where
  "schedule_refresh path key = modify (\<lambda>w. w\<lparr>mc_threads := mc_threads w @ [\<lparr>rj_path = path, rj_key = key\<rparr>]\<rparr>)"

definition fetch_stat :: "('s, 'h) filesystem \<Rightarrow> fs_context \<Rightarrow> string \<Rightarrow> bool \<Rightarrow> ('s metacache, error + metadata) op" where
  "fetch_stat fs ctx name lstat = attempt (on_inner ((if lstat then fs_lstat fs else fs_stat fs) ctx name))"

definition stat_context :: "('s, 'h) filesystem \<Rightarrow> fs_context \<Rightarrow> string \<Rightarrow> bool \<Rightarrow> ('s metacache, metadata) op" where
  "stat_context fs ctx name lstat =
     (let key = cache_key name (if lstat then CLstat else CStat);
          ask = obind (fetch_stat fs ctx name lstat) (\<lambda>result.
                obind (set_cached key (PMetadata result)) (\<lambda>_. of_attempt result)) in
      obind (get_cached key) (\<lambda>lookup. case lookup of
        None \<Rightarrow> ask
      | Some l \<Rightarrow>
          obind (if cl_refresh l then schedule_refresh name key else ret ()) (\<lambda>_.
          case cl_payload l of PMetadata result \<Rightarrow> of_attempt result | PReadDir _ \<Rightarrow> ask)))"

definition read_dir_context :: "('s, 'h) filesystem \<Rightarrow> fs_context \<Rightarrow> string \<Rightarrow> ('s metacache, dir_entry list) op" where
  "read_dir_context fs ctx name =
     (let key = cache_key name CReadDir;
          ask = obind (attempt (on_inner (fs_read_dir fs ctx name))) (\<lambda>result.
                obind (set_cached key (PReadDir result)) (\<lambda>_. of_attempt result)) in
      obind (get_cached key) (\<lambda>lookup. case lookup of
        None \<Rightarrow> ask
      | Some l \<Rightarrow>
          obind (if cl_refresh l then schedule_refresh name key else ret ()) (\<lambda>_.
          case cl_payload l of PReadDir result \<Rightarrow> of_attempt result | PMetadata _ \<Rightarrow> ask)))"

definition refresh_metadata :: "('s, 'h) filesystem \<Rightarrow> string \<Rightarrow> cache_key \<Rightarrow> bool \<Rightarrow> ('s metacache, unit) op" where
  "refresh_metadata fs path key lstat =
     (let ctx = (if lstat then with_origin path ''stat'' (no_follow context_new)
                 else with_origin path ''stat'' context_new) in
      obind (fetch_stat fs ctx path lstat) (\<lambda>result. case result of
        Inr md \<Rightarrow> set_cached key (PMetadata (Inr md)) | Inl _ \<Rightarrow> extend_expiry key))"

definition refresh_dir :: "('s, 'h) filesystem \<Rightarrow> string \<Rightarrow> cache_key \<Rightarrow> ('s metacache, unit) op" where
  "refresh_dir fs path key =
     (let ctx = with_origin path ''readdir'' (with_read_only context_new) in
      obind (attempt (on_inner (fs_read_dir fs ctx path))) (\<lambda>result. case result of
        Inr entries \<Rightarrow> set_cached key (PReadDir (Inr entries)) | Inl _ \<Rightarrow> extend_expiry key))"

text \<open>What a spawned thread does.\<close>

definition run_job :: "('s, 'h) filesystem \<Rightarrow> refresh_job \<Rightarrow> ('s metacache, unit) op" where
  "run_job fs job =
     (case snd (rj_key job) of
        CStat \<Rightarrow> refresh_metadata fs (rj_path job) (rj_key job) False
      | CLstat \<Rightarrow> refresh_metadata fs (rj_path job) (rj_key job) True
      | CReadDir \<Rightarrow> refresh_dir fs (rj_path job) (rj_key job))"

section \<open>Files\<close>

record 'h metacache_file =
  mf_path :: string
  mf_inner :: 'h
  mf_dirty :: bool
  mf_dir_entries :: "dir_entry list option"
  mf_dir_offset :: nat

definition metacache_file_new :: "string \<Rightarrow> 'h \<Rightarrow> 'h metacache_file" where
  "metacache_file_new path inner =
     \<lparr>mf_path = normalize_cache_path path, mf_inner = inner, mf_dirty = False, mf_dir_entries = None, mf_dir_offset = 0\<rparr>"

definition on_inner_file :: "('h \<times> 's, 'a) op \<Rightarrow> ('h metacache_file \<times> 's metacache, 'a) op" where
  "on_inner_file m = (\<lambda>(f, w).
     case m (mf_inner f, mc_inner w) of (r, (h, s)) \<Rightarrow> (r, (f\<lparr>mf_inner := h\<rparr>, w\<lparr>mc_inner := s\<rparr>)))"

definition on_cache :: "('s metacache, 'a) op \<Rightarrow> ('h metacache_file \<times> 's metacache, 'a) op" where
  "on_cache m = (\<lambda>(f, w). case m w of (r, w') \<Rightarrow> (r, (f, w')))"

definition mark_dirty :: "('h \<times> 's, nat) op \<Rightarrow> ('h metacache_file \<times> 's metacache, nat) op" where
  "mark_dirty m =
     obind (on_inner_file m) (\<lambda>written.
     obind (if written > 0 then modify (\<lambda>(f, w). (f\<lparr>mf_dirty := True\<rparr>, w)) else ret ()) (\<lambda>_.
     ret written))"

definition mc_file_stat :: "('s, 'h) filesystem \<Rightarrow> ('h metacache_file \<times> 's metacache, metadata) op" where
  "mc_file_stat fs =
     obind (gets (\<lambda>(f, _). mf_path f)) (\<lambda>path.
     on_cache (stat_context fs (with_origin path ''stat'' context_new) path False))"

definition take_page :: "int \<Rightarrow> ('h metacache_file \<times> 's metacache, dir_entry list) op" where
  "take_page count = (\<lambda>(f, w).
     (let entries = (case mf_dir_entries f of Some es \<Rightarrow> es | None \<Rightarrow> []); offset = mf_dir_offset f in
      if count \<le> 0 then (Ok (drop offset entries), (f\<lparr>mf_dir_offset := length entries\<rparr>, w))
      else if offset \<ge> length entries then (Ok [], (f, w))
      else
        (let end = min (offset + nat count) (length entries) in
         (Ok (take (end - offset) (drop offset entries)), (f\<lparr>mf_dir_offset := end\<rparr>, w)))))"

definition mc_file_read_dir :: "('s, 'h) filesystem \<Rightarrow> int \<Rightarrow> ('h metacache_file \<times> 's metacache, dir_entry list) op" where
  "mc_file_read_dir fs count =
     obind (gets fst) (\<lambda>f.
     obind (if mf_dir_entries f = None
            then obind (on_cache (read_dir_context fs
                   (with_origin (mf_path f) ''readdir'' (with_read_only context_new)) (mf_path f))) (\<lambda>entries.
                 modify (\<lambda>(f, w). (f\<lparr>mf_dir_entries := Some entries, mf_dir_offset := 0\<rparr>, w)))
            else ret ()) (\<lambda>_.
     take_page count))"

definition mc_file_close :: "('s, 'h) filesystem \<Rightarrow> ('h metacache_file \<times> 's metacache, unit) op" where
  "mc_file_close fs =
     obind (attempt (on_inner_file (fh_close (fs_file fs)))) (\<lambda>result.
     obind (gets fst) (\<lambda>f.
     obind (if mf_dirty f
            then obind (on_cache (invalidate (mf_path f))) (\<lambda>_. on_cache (invalidate_parent_listing (mf_path f)))
            else ret ()) (\<lambda>_.
     of_attempt result)))"

definition metacache_handle :: "('s, 'h) filesystem \<Rightarrow> ('s metacache, 'h metacache_file) file_handle" where
  "metacache_handle fs =
     \<lparr>fh_read = (\<lambda>n. on_inner_file (fh_read (fs_file fs) n)),
      fh_write = (\<lambda>d. mark_dirty (fh_write (fs_file fs) d)),
      fh_read_at = (\<lambda>n p. on_inner_file (fh_read_at (fs_file fs) n p)),
      fh_write_at = (\<lambda>d p. mark_dirty (fh_write_at (fs_file fs) d p)),
      fh_seek = (\<lambda>p. on_inner_file (fh_seek (fs_file fs) p)),
      fh_stat = mc_file_stat fs, fh_read_dir = mc_file_read_dir fs,
      fh_sync = on_inner_file (fh_sync (fs_file fs)), fh_close = mc_file_close fs\<rparr>"

section \<open>Methods\<close>

definition invalidating :: "string \<Rightarrow> ('s metacache, unit) op" where
  "invalidating name = obind (invalidate name) (\<lambda>_. invalidate_parent_listing name)"

definition mc_open :: "('s, 'h) filesystem \<Rightarrow> fs_context \<Rightarrow> string \<Rightarrow> ('s metacache, 'h metacache_file) op" where
  "mc_open fs ctx name = obind (on_inner (fs_open fs ctx name)) (\<lambda>f. ret (metacache_file_new name f))"

definition mc_create :: "('s, 'h) filesystem \<Rightarrow> string \<Rightarrow> ('s metacache, 'h metacache_file) op" where
  "mc_create fs name =
     obind (on_inner (fs_create fs name)) (\<lambda>f.
     obind (invalidating name) (\<lambda>_. ret (metacache_file_new name f)))"

definition mc_open_file ::
    "('s, 'h) filesystem \<Rightarrow> string \<Rightarrow> open_flags \<Rightarrow> file_mode \<Rightarrow> ('s metacache, 'h metacache_file) op" where
  "mc_open_file fs name flags p =
     obind (on_inner (fs_open_file fs name flags p)) (\<lambda>f.
     obind (if flags_contains flags O_CREATE \<or> flags_contains flags O_TRUNC then invalidating name else ret ()) (\<lambda>_.
     ret (metacache_file_new name f)))"

definition mc_change :: "string \<Rightarrow> ('s, unit) op \<Rightarrow> ('s metacache, unit) op" where
  "mc_change name m = obind (on_inner m) (\<lambda>_. invalidating name)"

definition mc_remove :: "('s, 'h) filesystem \<Rightarrow> string \<Rightarrow> ('s metacache, unit) op" where
  "mc_remove fs name =
     obind (on_inner (fs_remove fs name)) (\<lambda>_.
     obind (invalidate_dir name) (\<lambda>_. invalidate_parent_listing name))"

definition mc_rename :: "('s, 'h) filesystem \<Rightarrow> string \<Rightarrow> string \<Rightarrow> ('s metacache, unit) op" where
  "mc_rename fs old new =
     obind (on_inner (fs_rename fs old new)) (\<lambda>_.
     obind (invalidate_dir old) (\<lambda>_.
     obind (invalidate_dir new) (\<lambda>_.
     obind (invalidate_parent_listing old) (\<lambda>_.
     invalidate_parent_listing new))))"

definition metacache_ops :: "('s, 'h) filesystem \<Rightarrow> ('s metacache, 'h metacache_file) filesystem" where
  "metacache_ops fs =
     \<lparr>fs_file = metacache_handle fs, fs_open = mc_open fs,
      fs_stat = (\<lambda>ctx name. stat_context fs ctx name False), fs_lstat = (\<lambda>ctx name. stat_context fs ctx name True),
      fs_read_dir = read_dir_context fs, fs_create = mc_create fs, fs_open_file = mc_open_file fs,
      fs_mkdir = (\<lambda>name p. mc_change name (fs_mkdir fs name p)), fs_remove = mc_remove fs, fs_rename = mc_rename fs,
      fs_link = (\<lambda>old new. mc_change new (fs_link fs old new)),
      fs_chmod = (\<lambda>name p. mc_change name (fs_chmod fs name p)),
      fs_chown = (\<lambda>name u g. mc_change name (fs_chown fs name u g)),
      fs_chtimes = (\<lambda>name t. mc_change name (fs_chtimes fs name t)),
      fs_truncate = (\<lambda>name sz. mc_change name (fs_truncate fs name sz)),
      fs_symlink = (\<lambda>old new. mc_change new (fs_symlink fs old new)),
      fs_readlink = (\<lambda>name. on_inner (fs_readlink fs name)),
      fs_set_xattr = (\<lambda>name a d. on_inner (fs_set_xattr fs name a d)),
      fs_get_xattr = (\<lambda>name a. on_inner (fs_get_xattr fs name a)),
      fs_list_xattrs = (\<lambda>name. on_inner (fs_list_xattrs fs name)),
      fs_remove_xattr = (\<lambda>name a. on_inner (fs_remove_xattr fs name a)),
      fs_sync_fs = on_inner (fs_sync_fs fs)\<rparr>"

end
