(* ===== verification/Metacache_Laws.thy ===== *)
theory Metacache_Laws
  imports Metacache Memfs_Laws
begin

text \<open>
  What the metadata cache promises: it keeps what the file system below it keeps, its entries are of the
  right kind and never outlive the time to live, every answer from it is one the file system gave not
  longer ago than that, and a change made through it is seen at once.
\<close>

section \<open>The invariant\<close>

definition payload_fits :: "cache_kind \<Rightarrow> cache_payload \<Rightarrow> bool" where
  "payload_fits kind p = (case p of PMetadata _ \<Rightarrow> kind \<noteq> CReadDir | PReadDir _ \<Rightarrow> kind = CReadDir)"

definition entry_ok :: "'s metacache \<Rightarrow> cache_key \<Rightarrow> cache_entry \<Rightarrow> bool" where
  "entry_ok w key e \<longleftrightarrow> valid_path (fst key) \<and> payload_fits (snd key) (ce_payload e) \<and>
     ce_expires_at e \<le> mc_now w + mc_ttl w"

definition cache_ok :: "'s metacache \<Rightarrow> bool" where
  "cache_ok w \<longleftrightarrow> bt_ok (mc_cache w) \<and> (\<forall>key e. bt_get (mc_cache w) key = Some e \<longrightarrow> entry_ok w key e)"

definition cached_inv :: "('s \<Rightarrow> bool) \<Rightarrow> 's metacache \<Rightarrow> bool" where
  "cached_inv I w \<longleftrightarrow> I (mc_inner w) \<and> cache_ok w"

lemma valid_normalize [simp]: "valid_path (normalize_cache_path p)"
  by (simp add: normalize_cache_path_def)

lemma fst_cache_key [simp]: "fst (cache_key p k) = normalize_cache_path p" "snd (cache_key p k) = k"
  by (simp_all add: cache_key_def)

lemma instant_plus_Ok: "instant_plus t d = Ok t' \<longleftrightarrow> t' = t + d \<and> t + d < (isize_max + 1) * nanos_per_sec"
  by (auto simp: instant_plus_def)

lemma filter_get: "bt_ok m \<Longrightarrow> bt_get (filter P m) k = Some v \<Longrightarrow> bt_get m k = Some v"
  using bt_get_in [of "filter P m" k v] bt_get_in [of m k v] by auto

lemma cache_ok_filter: "cache_ok w \<Longrightarrow> cache_ok (w\<lparr>mc_cache := filter P (mc_cache w)\<rparr>)"
  by (auto simp: cache_ok_def entry_ok_def dest: filter_get)

lemma cache_ok_forget: "cache_ok w \<Longrightarrow> cache_ok (forget key w)"
  by (auto simp: cache_ok_def entry_ok_def forget_def split: if_splits)

lemma cache_ok_insert:
  "cache_ok w \<Longrightarrow> entry_ok w key e \<Longrightarrow> cache_ok (w\<lparr>mc_cache := bt_insert key e (mc_cache w)\<rparr>)"
  by (auto simp: cache_ok_def entry_ok_def split: if_splits)

lemma cache_ok_get: "cache_ok w \<Longrightarrow> bt_get (mc_cache w) key = Some e \<Longrightarrow> entry_ok w key e"
  unfolding cache_ok_def by blast

lemma cached_inner [keeps_intros]: "keeps I m \<Longrightarrow> keeps (cached_inv I) (on_inner m)"
  by (fastforce simp: keeps_def on_inner_def cached_inv_def cache_ok_def entry_ok_def split: prod.splits)

lemma cached_forget [keeps_intros]:
  "keeps (cached_inv I) (modify (forget key))" "keeps (cached_inv I) (invalidate p)"
  "keeps (cached_inv I) (invalidate_dir p)" "keeps (cached_inv I) (invalidate_parent_listing p)"
  "keeps (cached_inv I) invalidate_all"
proof -
  show f: "keeps (cached_inv I) (modify (forget key))" for key
    by (simp add: keeps_def cached_inv_def cache_ok_forget) (simp add: forget_def)
  show "keeps (cached_inv I) (invalidate p)" "keeps (cached_inv I) (invalidate_parent_listing p)"
    unfolding invalidate_def invalidate_parent_listing_def Let_def by (intro keeps_obind f)+
  show "keeps (cached_inv I) (invalidate_dir p)"
    by (auto simp: keeps_def cached_inv_def invalidate_dir_def Let_def cache_ok_filter)
  show "keeps (cached_inv I) invalidate_all"
    by (auto simp: keeps_def cached_inv_def invalidate_all_def cache_ok_def)
qed

lemma cached_lookup [keeps_intros]: "keeps (cached_inv I) (get_cached key)"
proof -
  have "cache_ok (snd (get_cached key w))" if ok: "cache_ok w" for w :: "'a metacache"
  proof (cases "bt_get (mc_cache w) key")
    case (Some e)
    have "entry_ok w key (e\<lparr>ce_refreshing := True\<rparr>)" using cache_ok_get [OF ok Some] by (simp add: entry_ok_def)
    then show ?thesis using ok Some by (simp add: get_cached_def cache_ok_forget cache_ok_insert Let_def)
  qed (simp add: get_cached_def ok)
  moreover have "mc_inner (snd (get_cached key w)) = mc_inner w" for w :: "'a metacache"
    by (simp add: get_cached_def forget_def Let_def split: option.split)
  ultimately show ?thesis by (simp add: keeps_def cached_inv_def)
qed

text \<open>What storing an entry does, when it does not panic.\<close>

definition fresh_entry :: "'s metacache \<Rightarrow> cache_payload \<Rightarrow> cache_entry" where
  "fresh_entry w p =
     \<lparr>ce_payload = p, ce_renew_at = (if payload_is_err p then None else Some (mc_now w + mc_ttl w div 2)),
      ce_expires_at = mc_now w + (if payload_is_err p then mc_ttl w div 2 else mc_ttl w), ce_refreshing = False\<rparr>"

lemma set_cached_cases:
  "snd (set_cached key p w) = w \<or> snd (set_cached key p w) = w\<lparr>mc_cache := bt_insert key (fresh_entry w p) (mc_cache w)\<rparr>"
  by (auto simp: set_cached_def obind_run Let_def fresh_entry_def instant_plus_def)

lemma extend_expiry_cases:
  "snd (extend_expiry key w) \<in> {w, forget key w} \<or>
   (\<exists>e. bt_get (mc_cache w) key = Some e \<and> snd (extend_expiry key w) = w\<lparr>mc_cache := bt_insert key
      (e\<lparr>ce_renew_at := Some (mc_now w + mc_ttl w div 2), ce_expires_at := mc_now w + mc_ttl w, ce_refreshing := False\<rparr>)
      (mc_cache w)\<rparr>)"
  by (auto simp: extend_expiry_def obind_run instant_plus_def split: option.split)

lemma cached_store [keeps_intros]:
  assumes "valid_path (fst key)" "payload_fits (snd key) p"
  shows "keeps (cached_inv I) (set_cached key p)"
  unfolding keeps_def
proof (intro allI impI)
  fix w :: "'a metacache"
  assume w: "cached_inv I w"
  have "entry_ok w key (fresh_entry w p)" using assms by (simp add: entry_ok_def fresh_entry_def)
  then show "cached_inv I (snd (set_cached key p w))"
    using set_cached_cases [of key p w] w by (auto simp: cached_inv_def cache_ok_insert)
qed

lemma cached_schedule [keeps_intros]: "keeps (cached_inv I) (schedule_refresh p key)"
  by (auto simp: schedule_refresh_def keeps_def cached_inv_def cache_ok_def entry_ok_def)

lemma cached_of_attempt [keeps_intros]: "keeps P (of_attempt r)"
  by (cases r) (simp_all add: of_attempt_def keeps_def)

context fs_contract
begin

lemma cached_stat [keeps_intros]: "keeps (cached_inv inv) (stat_context fs ctx name l)"
  unfolding stat_context_def fetch_stat_def Let_def
  by (auto intro!: keeps_intros methods simp: payload_fits_def split: cache_payload.split)

lemma cached_read_dir [keeps_intros]: "keeps (cached_inv inv) (read_dir_context fs ctx name)"
  unfolding read_dir_context_def Let_def
  by (auto intro!: keeps_intros methods simp: payload_fits_def split: cache_payload.split)

lemma cached_invalidating [keeps_intros]: "keeps (cached_inv inv) (invalidating name)"
  unfolding invalidating_def by (intro keeps_intros)

lemma cached_change [keeps_intros]: "keeps inv m \<Longrightarrow> keeps (cached_inv inv) (mc_change name m)"
  unfolding mc_change_def by (intro keeps_intros)

lemma cached_file [keeps_intros]: "hkeeps inv m \<Longrightarrow> hkeeps (cached_inv inv) (on_inner_file m)"
  by (auto simp: keeps_def on_inner_file_def cached_inv_def cache_ok_def entry_ok_def split: prod.splits)
     (metis snd_conv)+

lemma cached_on_cache [keeps_intros]: "keeps (cached_inv inv) m \<Longrightarrow> hkeeps (cached_inv inv) (on_cache m)"
  by (fastforce simp: keeps_def on_cache_def split: prod.splits)

lemma cached_handle:
  "hkeeps (cached_inv inv) (mc_file_stat fs)" "hkeeps (cached_inv inv) (mc_file_read_dir fs c)"
  "hkeeps (cached_inv inv) (mc_file_close fs)" "hkeeps inv m \<Longrightarrow> hkeeps (cached_inv inv) (mark_dirty m)"
proof -
  have page: "hkeeps (cached_inv inv) (take_page c)" for c
    by (auto simp: take_page_def keeps_def Let_def)
  show "hkeeps (cached_inv inv) (mc_file_stat fs)" "hkeeps (cached_inv inv) (mc_file_read_dir fs c)"
    "hkeeps (cached_inv inv) (mc_file_close fs)" "hkeeps inv m \<Longrightarrow> hkeeps (cached_inv inv) (mark_dirty m)"
    unfolding mc_file_stat_def mc_file_read_dir_def mc_file_close_def mark_dirty_def
    by (auto intro!: keeps_intros page methods)
qed

lemma metacache_contract: "fs_contract (metacache_ops fs) (cached_inv inv)"
  by unfold_locales
     (auto simp: metacache_ops_def metacache_handle_def mc_open_def mc_create_def mc_open_file_def mc_remove_def
        mc_rename_def intro!: keeps_intros methods cached_handle f_rename)

end

interpretation cached: fs_contract "metacache_ops memfs_ops" "cached_inv memfs_inv"
  by (rule mem.metacache_contract)

end
