(* ===== verification/Metacache_Props.thy ===== *)
theory Metacache_Props
  imports Metacache_Laws
begin

text \<open>
  The metadata cache in time: how old its answers can be, what it forgets, and where it shows a state
  that has passed.
\<close>

section \<open>Answers of the file system below\<close>

definition inner_result :: "('s, 'h) filesystem \<Rightarrow> cache_kind \<Rightarrow> fs_context \<Rightarrow> string \<Rightarrow> 's \<Rightarrow> cache_payload res" where
  "inner_result fs kind ctx path s =
     (case kind of
        CStat \<Rightarrow> rbind (fst (attempt (fs_stat fs ctx path) s)) (\<lambda>r. Ok (PMetadata r))
      | CLstat \<Rightarrow> rbind (fst (attempt (fs_lstat fs ctx path) s)) (\<lambda>r. Ok (PMetadata r))
      | CReadDir \<Rightarrow> rbind (fst (attempt (fs_read_dir fs ctx path) s)) (\<lambda>r. Ok (PReadDir r)))"

text \<open>The file system in state \<open>s\<close> gives the answer \<open>p\<close> for the key, asked under one of the names with this key.\<close>

definition answers :: "('s, 'h) filesystem \<Rightarrow> 's \<Rightarrow> cache_key \<Rightarrow> cache_payload \<Rightarrow> bool" where
  "answers fs s key p \<longleftrightarrow>
     (\<exists>ctx path. fst key = normalize_cache_path path \<and> inner_result fs (snd key) ctx path s = Ok p)"

text \<open>It gives an error.\<close>

definition fails :: "('s, 'h) filesystem \<Rightarrow> 's \<Rightarrow> cache_key \<Rightarrow> bool" where
  "fails fs s key \<longleftrightarrow> (\<exists>p. answers fs s key p \<and> payload_is_err p)"

text \<open>What a call may leave in the cache: what was there, and what the file system answers at that moment.\<close>

definition entry_from :: "('s, 'h) filesystem \<Rightarrow> 's metacache \<Rightarrow> cache_key \<Rightarrow> cache_entry \<Rightarrow> bool" where
  "entry_from fs w0 key e \<longleftrightarrow>
     (\<exists>e0. bt_get (mc_cache w0) key = Some e0 \<and> ce_payload e = ce_payload e0 \<and> ce_expires_at e = ce_expires_at e0) \<or>
     (answers fs (mc_inner w0) key (ce_payload e) \<and> ce_expires_at e \<le> mc_now w0 + mc_ttl w0)"

definition job_ok :: "refresh_job \<Rightarrow> bool" where
  "job_ok job \<longleftrightarrow> fst (rj_key job) = normalize_cache_path (rj_path job)"

definition from_start :: "('s, 'h) filesystem \<Rightarrow> 's metacache \<Rightarrow> 's metacache \<Rightarrow> bool" where
  "from_start fs w0 w \<longleftrightarrow> mc_ttl w = mc_ttl w0 \<and> mc_now w = mc_now w0 \<and> bt_ok (mc_cache w) \<and>
     (\<forall>job \<in> set (mc_threads w). job \<in> set (mc_threads w0) \<or> job_ok job) \<and>
     (\<forall>key e. bt_get (mc_cache w) key = Some e \<longrightarrow> entry_from fs w0 key e)"

lemma from_refl: "bt_ok (mc_cache w) \<Longrightarrow> from_start fs w w"
  by (auto simp: from_start_def entry_from_def)

lemma from_insert:
  "from_start fs w0 w \<Longrightarrow> entry_from fs w0 key e \<Longrightarrow> from_start fs w0 (w\<lparr>mc_cache := bt_insert key e (mc_cache w)\<rparr>)"
  by (auto simp: from_start_def split: if_splits)

lemma from_forgotten: "from_start fs w0 w \<Longrightarrow> from_start fs w0 (forget key w)"
  by (auto simp: from_start_def forget_def split: if_splits)

lemma from_inner [keeps_intros]: "keeps (from_start fs w0) (on_inner m)"
  by (simp add: keeps_def from_start_def on_inner_def split: prod.splits)

lemma from_schedule [keeps_intros]:
  "fst key = normalize_cache_path p \<Longrightarrow> keeps (from_start fs w0) (schedule_refresh p key)"
  by (auto simp: keeps_def from_start_def schedule_refresh_def job_ok_def)

lemma from_lookup [keeps_intros]: "keeps (from_start fs w0) (get_cached key)"
  unfolding keeps_def
proof (intro allI impI)
  fix w
  assume w: "from_start fs w0 w"
  show "from_start fs w0 (snd (get_cached key w))"
  proof (cases "bt_get (mc_cache w) key")
    case (Some e)
    then have "entry_from fs w0 key e" using w unfolding from_start_def by blast
    then have "entry_from fs w0 key (e\<lparr>ce_refreshing := True\<rparr>)" by (simp add: entry_from_def)
    then show ?thesis using Some w by (simp add: get_cached_def Let_def from_forgotten from_insert)
  qed (simp add: get_cached_def w)
qed

lemma from_set:
  assumes "from_start fs w0 w" "answers fs (mc_inner w0) key p"
  shows "from_start fs w0 (snd (set_cached key p w))"
proof -
  have "entry_from fs w0 key (fresh_entry w p)"
    using assms by (simp add: entry_from_def fresh_entry_def from_start_def)
  from from_insert [OF assms(1) this] show ?thesis using set_cached_cases [of key p w] assms(1) by auto
qed

lemma from_forgets [keeps_intros]:
  "keeps (from_start fs w0) (modify (forget key))" "keeps (from_start fs w0) (invalidate p)"
  "keeps (from_start fs w0) (invalidate_parent_listing p)" "keeps (from_start fs w0) (invalidating p)"
proof -
  show f: "keeps (from_start fs w0) (modify (forget key))" for key
    by (simp add: keeps_def from_forgotten)
  show i: "keeps (from_start fs w0) (invalidate p)" "keeps (from_start fs w0) (invalidate_parent_listing p)" for p
    unfolding invalidate_def invalidate_parent_listing_def Let_def by (intro keeps_obind f)+
  show "keeps (from_start fs w0) (invalidating p)" unfolding invalidating_def by (intro keeps_obind i)
qed

lemma from_filters [keeps_intros]:
  "keeps (from_start fs w0) (invalidate_dir p)" "keeps (from_start fs w0) invalidate_all"
  by (auto simp: keeps_def from_start_def invalidate_dir_def invalidate_all_def Let_def dest: filter_get)

lemma lookup_inner: "mc_inner (snd (get_cached key w)) = mc_inner w"
  by (simp add: get_cached_def forget_def Let_def split: option.split)

lemma fst_on_inner: "fst (on_inner m w) = fst (m (mc_inner w))"
  by (simp add: on_inner_def split: prod.split)

lemma attempt_fst: "fst (attempt m t) = (case fst (m t) of Inr x \<Rightarrow> Ok (Inr x) | Inl (Fail e) \<Rightarrow> Ok (Inl e) | Inl Panic \<Rightarrow> Inl Panic | Inl Diverge \<Rightarrow> Inl Diverge)"
  by (auto simp: attempt_def split: prod.splits sum.splits fault.splits)

text \<open>The rest of a run keeps what the lookup found out.\<close>

lemma asks_from:
  assumes "from_start fs w0 w" "mc_inner w = mc_inner w0"
    and "\<And>r. fst (attempt (m) (mc_inner w0)) = Ok r \<Longrightarrow> answers fs (mc_inner w0) key (pl r)"
  shows "from_start fs w0 (snd (obind (attempt (on_inner m)) (\<lambda>result.
            obind (set_cached key (pl result)) (\<lambda>_. of_attempt result)) w))"
proof -
  let ?a = "attempt (on_inner m) w"
  have inner: "fst ?a = fst (attempt m (mc_inner w0))"
    using assms(2) by (simp add: attempt_fst fst_on_inner)
  have "keeps (from_start fs w0) (attempt (on_inner m))" by (intro keeps_intros)
  from keeps_apply [OF this assms(1)] have kept: "from_start fs w0 (snd ?a)" .
  have "from_start fs w0 (snd (obind (set_cached key (pl r)) (\<lambda>_. of_attempt r) (snd ?a)))" if "fst ?a = Ok r" for r
    using from_set [OF kept assms(3)] that inner keeps_apply [OF cached_of_attempt]
    by (auto simp: obind_snd split: sum.split)
  then show ?thesis using kept by (simp add: obind_snd split: sum.split)
qed


lemma stat_answers:
  "fst (attempt ((if l then fs_lstat fs else fs_stat fs) ctx name) s) = Ok r \<Longrightarrow>
   answers fs s (cache_key name (if l then CLstat else CStat)) (PMetadata r)"
  by (cases l) (auto simp: answers_def inner_result_def intro!: exI [of _ ctx] exI [of _ name])

lemma dir_answers:
  "fst (attempt (fs_read_dir fs ctx name) s) = Ok r \<Longrightarrow> answers fs s (cache_key name CReadDir) (PReadDir r)"
  by (auto simp: answers_def inner_result_def intro!: exI [of _ ctx] exI [of _ name])

text \<open>A lookup followed by what its outcome leads to.\<close>

lemma lookup_then_from:
  assumes "\<And>w. from_start fs w0 w \<Longrightarrow> mc_inner w = mc_inner w0 \<Longrightarrow> from_start fs w0 (snd (ask w))"
    and "fst key = normalize_cache_path name" "\<And>l. use l = ask \<or> (\<exists>r. use l = of_attempt r)"
    and "bt_ok (mc_cache w0)"
  shows "from_start fs w0 (snd (obind (get_cached key) (\<lambda>lookup. case lookup of
      None \<Rightarrow> ask
    | Some l \<Rightarrow> obind (if cl_refresh l then schedule_refresh name key else ret ()) (\<lambda>_. use l)) w0))"
proof -
  let ?w = "snd (get_cached key w0)"
  have w: "from_start fs w0 ?w" "mc_inner ?w = mc_inner w0"
    using keeps_apply [OF from_lookup [of fs w0 key] from_refl [OF assms(4)]] by (simp_all add: lookup_inner)
  have used: "from_start fs w0 (snd (use l u))" if "from_start fs w0 u" "mc_inner u = mc_inner w0" for l u
    using assms(3) [of l] assms(1) [OF that] that(1) by (auto simp: of_attempt_def split: sum.split)
  have "from_start fs w0 (snd (schedule_refresh name key ?w))" by (rule keeps_apply [OF from_schedule [OF assms(2)] w(1)])
  then show ?thesis
    using assms(1) [OF w] used w by (auto simp: obind_snd schedule_refresh_def split: sum.split option.split)
qed

lemma stat_from: "bt_ok (mc_cache w0) \<Longrightarrow> from_start fs w0 (snd (stat_context fs ctx name l w0))"
  unfolding stat_context_def fetch_stat_def Let_def
  by (intro lookup_then_from asks_from stat_answers) (auto split: cache_payload.split)

lemma read_dir_from: "bt_ok (mc_cache w0) \<Longrightarrow> from_start fs w0 (snd (read_dir_context fs ctx name w0))"
  unfolding read_dir_context_def Let_def
  by (intro lookup_then_from asks_from dir_answers) (auto split: cache_payload.split)

section \<open>Runs\<close>

text \<open>
  A step: a call of a method on the cache or on one of its files, a thread that was spawned to refresh an
  entry, time passing, or a change of the file system below by somebody else.
\<close>

inductive mc_call :: "('s, 'h) filesystem \<Rightarrow> 's metacache \<Rightarrow> 's metacache \<Rightarrow> bool" for fs where
  stat: "mc_call fs w (snd (fs_stat (metacache_ops fs) ctx name w))"
| lstat: "mc_call fs w (snd (fs_lstat (metacache_ops fs) ctx name w))"
| read_dir: "mc_call fs w (snd (fs_read_dir (metacache_ops fs) ctx name w))"
| opens: "mc_call fs w (snd (fs_open (metacache_ops fs) ctx name w))"
| create: "mc_call fs w (snd (fs_create (metacache_ops fs) name w))"
| open_file: "mc_call fs w (snd (fs_open_file (metacache_ops fs) name flags p w))"
| mkdir: "mc_call fs w (snd (fs_mkdir (metacache_ops fs) name p w))"
| remove: "mc_call fs w (snd (fs_remove (metacache_ops fs) name w))"
| rename: "mc_call fs w (snd (fs_rename (metacache_ops fs) old new w))"
| link: "mc_call fs w (snd (fs_link (metacache_ops fs) old new w))"
| chmod: "mc_call fs w (snd (fs_chmod (metacache_ops fs) name p w))"
| chown: "mc_call fs w (snd (fs_chown (metacache_ops fs) name u g w))"
| chtimes: "mc_call fs w (snd (fs_chtimes (metacache_ops fs) name t w))"
| truncate: "mc_call fs w (snd (fs_truncate (metacache_ops fs) name sz w))"
| symlink: "mc_call fs w (snd (fs_symlink (metacache_ops fs) old new w))"
| readlink: "mc_call fs w (snd (fs_readlink (metacache_ops fs) name w))"
| set_xattr: "mc_call fs w (snd (fs_set_xattr (metacache_ops fs) name a d w))"
| get_xattr: "mc_call fs w (snd (fs_get_xattr (metacache_ops fs) name a w))"
| list_xattrs: "mc_call fs w (snd (fs_list_xattrs (metacache_ops fs) name w))"
| remove_xattr: "mc_call fs w (snd (fs_remove_xattr (metacache_ops fs) name a w))"
| sync_fs: "mc_call fs w (snd (fs_sync_fs (metacache_ops fs) w))"
| file_read: "mc_call fs w (snd (snd (fh_read (metacache_handle fs) n (f, w))))"
| file_write: "mc_call fs w (snd (snd (fh_write (metacache_handle fs) d (f, w))))"
| file_read_at: "mc_call fs w (snd (snd (fh_read_at (metacache_handle fs) n off (f, w))))"
| file_write_at: "mc_call fs w (snd (snd (fh_write_at (metacache_handle fs) d off (f, w))))"
| file_seek: "mc_call fs w (snd (snd (fh_seek (metacache_handle fs) pos (f, w))))"
| file_stat: "mc_call fs w (snd (snd (fh_stat (metacache_handle fs) (f, w))))"
| file_read_dir: "mc_call fs w (snd (snd (fh_read_dir (metacache_handle fs) c (f, w))))"
| file_sync: "mc_call fs w (snd (snd (fh_sync (metacache_handle fs) (f, w))))"
| file_close: "mc_call fs w (snd (snd (fh_close (metacache_handle fs) (f, w))))"
| forget_path: "mc_call fs w (snd (invalidate path w))"
| forget_dir: "mc_call fs w (snd (invalidate_dir path w))"
| forget_all: "mc_call fs w (snd (invalidate_all w))"

inductive mc_step :: "('s, 'h) filesystem \<Rightarrow> 's metacache \<Rightarrow> 's metacache \<Rightarrow> bool" for fs where
  call: "mc_call fs w w' \<Longrightarrow> mc_step fs w w'"
| thread: "mc_threads w = js @ job # ks \<Longrightarrow> mc_step fs w (snd (run_job fs job (w\<lparr>mc_threads := js @ ks\<rparr>)))"
| tick: "mc_step fs w (w\<lparr>mc_now := mc_now w + d\<rparr>)"
| outside: "mc_step fs w (w\<lparr>mc_inner := s\<rparr>)"

text \<open>A run as the list of its states, the last one first.\<close>

inductive mc_run :: "('s, 'h) filesystem \<Rightarrow> 's metacache list \<Rightarrow> bool" for fs where
  start: "mc_run fs [metacache_with_ttl s now ttl]"
| step: "mc_run fs (w # ws) \<Longrightarrow> mc_step fs w w' \<Longrightarrow> mc_run fs (w' # w # ws)"

lemma from_inner_file [keeps_intros]: "hkeeps (from_start fs w0) (on_inner_file m)"
  by (auto simp: keeps_def from_start_def on_inner_file_def split: prod.splits)

lemma from_on_cache [keeps_intros]: "keeps (from_start fs w0) m \<Longrightarrow> hkeeps (from_start fs w0) (on_cache m)"
  by (fastforce simp: keeps_def on_cache_def split: prod.splits)

lemma on_cache_snd: "snd (snd (on_cache m (f, w))) = snd (m w)" "fst (on_cache m (f, w)) = fst (m w)"
  by (simp_all add: on_cache_def split: prod.split)

lemma from_methods:
  "keeps (from_start fs w0) (mc_open fs ctx name)" "keeps (from_start fs w0) (mc_create fs name)"
  "keeps (from_start fs w0) (mc_open_file fs name fl p)" "keeps (from_start fs w0) (mc_change name m)"
  "keeps (from_start fs w0) (mc_remove fs name)" "keeps (from_start fs w0) (mc_rename fs old new)"
  unfolding mc_open_def mc_create_def mc_open_file_def mc_change_def mc_remove_def mc_rename_def
  by (intro keeps_intros)+

lemma from_file_methods:
  "hkeeps (from_start fs w0) (mark_dirty m)" "hkeeps (from_start fs w0) (mc_file_close fs)"
  unfolding mark_dirty_def mc_file_close_def by (auto intro!: keeps_intros)

lemma file_stat_from: "bt_ok (mc_cache w) \<Longrightarrow> from_start fs w (snd (snd (mc_file_stat fs (f, w))))"
  by (simp add: mc_file_stat_def obind_snd on_cache_snd stat_from)

lemma take_page_world: "snd (snd (take_page c (f, w))) = w"
  by (simp add: take_page_def Let_def)

lemma file_read_dir_from: "bt_ok (mc_cache w) \<Longrightarrow> from_start fs w (snd (snd (mc_file_read_dir fs c (f, w))))"
proof -
  assume ok: "bt_ok (mc_cache w)"
  let ?r = "read_dir_context fs (with_origin (mf_path f) ''readdir'' (with_read_only context_new)) (mf_path f) w"
  have "snd (snd (mc_file_read_dir fs c (f, w))) \<in> {w, snd ?r}"
    by (simp add: mc_file_read_dir_def obind_run on_cache_def take_page_world split: sum.split prod.split)
  then show ?thesis using ok read_dir_from [OF ok] from_refl [OF ok] by auto
qed

lemma call_from:
  assumes "mc_call fs w w'" "bt_ok (mc_cache w)"
  shows "from_start fs w w'"
proof -
  note r = from_refl [OF assms(2), of fs]
  have h: "hkeeps (from_start fs w) m \<Longrightarrow> from_start fs w (snd (snd (m (f, w))))"
    for m :: "('b metacache_file \<times> 'a metacache, 'c) op" and f
    using keeps_apply [of "\<lambda>x. from_start fs w (snd x)" m "(f, w)"] r by simp
  from assms(1) show ?thesis
    by cases
       (simp_all add: metacache_ops_def metacache_handle_def stat_from read_dir_from assms(2) file_stat_from file_read_dir_from
          keeps_apply [OF from_methods(1) r] keeps_apply [OF from_methods(2) r] keeps_apply [OF from_methods(3) r]
          keeps_apply [OF from_methods(4) r] keeps_apply [OF from_methods(5) r] keeps_apply [OF from_methods(6) r]
          keeps_apply [OF from_inner r] keeps_apply [OF from_forgets(2) r] keeps_apply [OF from_filters(1) r]
          keeps_apply [OF from_filters(2) r] h [OF from_file_methods(1)] h [OF from_file_methods(2)] h [OF from_inner_file])
qed


text \<open>A refresh stores a new answer, or keeps the old one for another while because it got none.\<close>

definition entry_next :: "('s, 'h) filesystem \<Rightarrow> 's metacache \<Rightarrow> cache_key \<Rightarrow> cache_entry \<Rightarrow> bool" where
  "entry_next fs w key e \<longleftrightarrow> entry_from fs w key e \<or>
     (\<exists>e0. bt_get (mc_cache w) key = Some e0 \<and> ce_payload e = ce_payload e0 \<and>
        ce_expires_at e \<le> mc_now w + mc_ttl w \<and> fails fs (mc_inner w) key)"

definition next_ok :: "('s, 'h) filesystem \<Rightarrow> 's metacache \<Rightarrow> 's metacache \<Rightarrow> bool" where
  "next_ok fs w w' \<longleftrightarrow> mc_ttl w' = mc_ttl w \<and> bt_ok (mc_cache w') \<and>
     (\<forall>job \<in> set (mc_threads w'). job \<in> set (mc_threads w) \<or> job_ok job) \<and>
     (\<forall>key e. bt_get (mc_cache w') key = Some e \<longrightarrow> entry_next fs w key e)"

lemma from_next: "from_start fs w w' \<Longrightarrow> next_ok fs w w'"
  unfolding from_start_def next_ok_def entry_next_def by blast

lemma extend_next:
  assumes "from_start fs w0 w" "mc_cache w = mc_cache w0" "fails fs (mc_inner w0) key"
  shows "next_ok fs w0 (snd (extend_expiry key w))"
  using extend_expiry_cases [of key w]
proof (elim disjE exE conjE)
  assume "snd (extend_expiry key w) \<in> {w, forget key w}"
  then show ?thesis using assms(1) from_forgotten [OF assms(1), of key] from_next by auto
next
  fix e :: cache_entry
  let ?e = "e\<lparr>ce_renew_at := Some (mc_now w + mc_ttl w div 2), ce_expires_at := mc_now w + mc_ttl w, ce_refreshing := False\<rparr>"
  assume e: "bt_get (mc_cache w) key = Some e" and ext: "snd (extend_expiry key w) = w\<lparr>mc_cache := bt_insert key ?e (mc_cache w)\<rparr>"
  have "entry_next fs w0 key ?e" using e assms by (simp add: entry_next_def from_start_def)
  then show ?thesis
    using ext assms(1) by (auto simp: next_ok_def from_start_def entry_next_def)
qed

lemma refresh_next:
  assumes "bt_ok (mc_cache w)" "\<And>r. fst (attempt m (mc_inner w)) = Ok r \<Longrightarrow> answers fs (mc_inner w) key (pl r)"
    and "\<And>e. payload_is_err (pl (Inl e))"
  shows "next_ok fs w (snd (obind (attempt (on_inner m)) (\<lambda>result. case result of
      Inr x \<Rightarrow> set_cached key (pl (Inr x)) | Inl _ \<Rightarrow> extend_expiry key) w))"
proof -
  let ?a = "attempt (on_inner m) w"
  have inner: "fst ?a = fst (attempt m (mc_inner w))" by (simp add: attempt_fst fst_on_inner)
  have "keeps (from_start fs w) (attempt (on_inner m))" by (intro keeps_intros)
  from keeps_apply [OF this from_refl [OF assms(1)]] have kept: "from_start fs w (snd ?a)" .
  have same: "mc_cache (snd ?a) = mc_cache w"
    by (auto simp: attempt_def on_inner_def split: prod.split sum.split fault.split)
  show ?thesis
  proof (cases "fst ?a")
    case (Inr r)
    then have ans: "answers fs (mc_inner w) key (pl r)" using assms(2) inner by simp
    show ?thesis
    proof (cases r)
      case (Inl e)
      then have "fails fs (mc_inner w) key" using ans assms(3) unfolding fails_def by blast
      then show ?thesis using extend_next [OF kept same] Inl Inr by (simp add: obind_snd)
    next
      case (Inr x)
      then show ?thesis using from_next [OF from_set [OF kept ans]] \<open>fst ?a = Inr r\<close> by (simp add: obind_snd)
    qed
  qed (use kept from_next in \<open>simp add: obind_snd\<close>)
qed

lemma job_next:
  assumes "bt_ok (mc_cache w)" "job_ok job"
  shows "next_ok fs w (snd (run_job fs job w))"
proof -
  have key: "rj_key job = cache_key (rj_path job) (snd (rj_key job))"
    using assms(2) by (simp add: job_ok_def cache_key_def prod_eq_iff)
  have err: "payload_is_err (PMetadata (Inl e))" "payload_is_err (PReadDir (Inl e))" for e
    by (simp_all add: payload_is_err_def)
  have st: "next_ok fs w (snd (refresh_metadata fs (rj_path job) (rj_key job) l w))"
    if "snd (rj_key job) = (if l then CLstat else CStat)" for l
    unfolding refresh_metadata_def fetch_stat_def Let_def
    by (rule refresh_next [OF assms(1), where pl = PMetadata], subst key, subst that, erule stat_answers, rule err)
  show ?thesis
  proof (cases "snd (rj_key job)")
    case CReadDir
    have "next_ok fs w (snd (refresh_dir fs (rj_path job) (rj_key job) w))"
      unfolding refresh_dir_def Let_def
      by (rule refresh_next [OF assms(1), where pl = PReadDir], subst key, subst CReadDir, erule dir_answers, rule err)
    then show ?thesis by (simp add: run_job_def CReadDir)
  qed (use st [of False] st [of True] in \<open>simp_all add: run_job_def\<close>)
qed


section \<open>How old an answer can be\<close>

text \<open>
  Somewhere in the states \<open>ws\<close> the file system gave this answer, and the entry expires at most the time to
  live after that, or after a state in which the file system had no answer for a refresh.
\<close>

definition sourced :: "('s, 'h) filesystem \<Rightarrow> 's metacache set \<Rightarrow> nat \<Rightarrow> cache_key \<Rightarrow> cache_payload \<Rightarrow> instant \<Rightarrow> bool" where
  "sourced fs ws ttl key p until \<longleftrightarrow>
     (\<exists>w0 \<in> ws. answers fs (mc_inner w0) key p \<and>
        (until \<le> mc_now w0 + ttl \<or> (\<exists>w1 \<in> ws. fails fs (mc_inner w1) key \<and> until \<le> mc_now w1 + ttl)))"

definition run_ok :: "('s, 'h) filesystem \<Rightarrow> 's metacache list \<Rightarrow> bool" where
  "run_ok fs ws \<longleftrightarrow> ws \<noteq> [] \<and> bt_ok (mc_cache (hd ws)) \<and> (\<forall>job \<in> set (mc_threads (hd ws)). job_ok job) \<and>
     (\<forall>key e. bt_get (mc_cache (hd ws)) key = Some e \<longrightarrow>
        sourced fs (set ws) (mc_ttl (hd ws)) key (ce_payload e) (ce_expires_at e))"

lemma sourced_mono: "sourced fs ws ttl key p t \<Longrightarrow> sourced fs (insert w ws) ttl key p t"
  unfolding sourced_def by blast

lemma sourced_next:
  assumes "entry_next fs w key e" "w \<in> ws"
    and "\<And>e. bt_get (mc_cache w) key = Some e \<Longrightarrow> sourced fs ws (mc_ttl w) key (ce_payload e) (ce_expires_at e)"
  shows "sourced fs ws (mc_ttl w) key (ce_payload e) (ce_expires_at e)"
  using assms unfolding entry_next_def entry_from_def sourced_def by metis

lemma next_run_ok:
  assumes "run_ok fs (w # ws)" "next_ok fs w w'"
  shows "run_ok fs (w' # w # ws)"
proof -
  have "sourced fs (set (w # ws)) (mc_ttl w) key (ce_payload e) (ce_expires_at e)" if "bt_get (mc_cache w') key = Some e" for key e
    by (rule sourced_next [of fs w]) (use assms that in \<open>cases key; auto simp: run_ok_def next_ok_def\<close>)+
  then have "sourced fs (set (w' # w # ws)) (mc_ttl w') key (ce_payload e) (ce_expires_at e)"
    if "bt_get (mc_cache w') key = Some e" for key e
    using sourced_mono [of fs "set (w # ws)" "mc_ttl w" key "ce_payload e" "ce_expires_at e" w'] assms(2) that
    by (simp add: next_ok_def)
  then show ?thesis using assms by (auto simp: run_ok_def next_ok_def)
qed

lemma mc_run_ok: "mc_run fs ws \<Longrightarrow> run_ok fs ws"
proof (induction rule: mc_run.induct)
  case (start s now ttl)
  then show ?case by (simp add: run_ok_def metacache_with_ttl_def)
next
  case (step w ws w')
  have same: "next_ok fs w u" if "mc_ttl u = mc_ttl w" "mc_cache u = mc_cache w" "set (mc_threads u) \<subseteq> set (mc_threads w)" for u
    using that from_refl [of w fs] step.IH unfolding next_ok_def run_ok_def from_start_def entry_next_def by auto
  from step.hyps(2) show ?case
  proof cases
    case call
    then show ?thesis using next_run_ok [OF step.IH from_next [OF call_from]] step.IH by (simp add: run_ok_def)
  next
    case (thread js job ks)
    let ?u = "w\<lparr>mc_threads := js @ ks\<rparr>"
    have "next_ok fs ?u w'"
      unfolding thread(1) by (rule job_next) (use step.IH thread(2) in \<open>auto simp: run_ok_def\<close>)
    moreover have "entry_next fs ?u key e \<longleftrightarrow> entry_next fs w key e" for key e
      by (simp add: entry_next_def entry_from_def)
    ultimately have "next_ok fs w w'" using thread(2) by (auto simp: next_ok_def)
    then show ?thesis by (rule next_run_ok [OF step.IH])
  next
    case (tick d)
    then show ?thesis using next_run_ok [OF step.IH same] by simp
  next
    case (outside s)
    then show ?thesis using next_run_ok [OF step.IH same] by simp
  qed
qed

lemma answers_kind: "answers fs s key (PReadDir r) \<Longrightarrow> snd key = CReadDir" "answers fs s key (PMetadata q) \<Longrightarrow> snd key \<noteq> CReadDir"
  by (cases "snd key"; auto simp: answers_def inner_result_def rbind_eq_Inr)+

text \<open>Where the answer of a \<open>stat\<close> comes from.\<close>

lemma stat_source:
  assumes "stat_context fs ctx name l w = (Ok md, w')"
    and "\<And>e. bt_get (mc_cache w) (cache_key name (if l then CLstat else CStat)) = Some e \<Longrightarrow> \<exists>r. ce_payload e = PMetadata r"
  shows "fst ((if l then fs_lstat fs else fs_stat fs) ctx name (mc_inner w)) = Ok md \<or>
    (\<exists>e. bt_get (mc_cache w) (cache_key name (if l then CLstat else CStat)) = Some e \<and>
       mc_now w < ce_expires_at e \<and> ce_payload e = PMetadata (Inr md))"
proof -
  let ?key = "cache_key name (if l then CLstat else CStat)"
  let ?m = "(if l then fs_lstat fs else fs_stat fs) ctx name"
  let ?ask = "obind (attempt (on_inner ?m)) (\<lambda>result. obind (set_cached ?key (PMetadata result)) (\<lambda>_. of_attempt result))"
  have ask: "fst (?m (mc_inner u)) = Ok md" if "fst (?ask u) = Ok md" for u
    using that by (auto simp: obind_run attempt_fst fst_on_inner of_attempt_def split: sum.splits fault.splits)
  show ?thesis
  proof (cases "bt_get (mc_cache w) ?key")
    case None
    then have "fst (?ask w) = Ok md"
      using assms(1) by (simp add: stat_context_def fetch_stat_def Let_def get_cached_def obind_def)
    then show ?thesis using ask by simp
  next
    case (Some e)
    show ?thesis
    proof (cases "mc_now w \<ge> ce_expires_at e")
      case True
      then have "fst (?ask (forget ?key w)) = Ok md"
        using assms(1) Some by (simp add: stat_context_def fetch_stat_def Let_def get_cached_def obind_def)
      then show ?thesis using ask [of "forget ?key w"] by (simp add: forget_def)
    next
      case False
      obtain r where r: "ce_payload e = PMetadata r" using assms(2) [OF Some] by blast
      then have "r = Inr md"
        using assms(1) Some False
        by (auto simp: stat_context_def Let_def get_cached_def obind_run schedule_refresh_def of_attempt_def split: sum.splits if_splits)
      then show ?thesis using Some False r by auto
    qed
  qed
qed



section \<open>What a change makes the cache forget\<close>

text \<open>A missing entry sends the call to the file system below.\<close>

definition in_range :: "'s metacache \<Rightarrow> bool" where
  "in_range w \<longleftrightarrow> mc_now w + mc_ttl w < (isize_max + 1) * nanos_per_sec"

lemma in_range_plus:
  "in_range w \<Longrightarrow> instant_plus (mc_now w) (mc_ttl w) = Ok (mc_now w + mc_ttl w)"
  "in_range w \<Longrightarrow> instant_plus (mc_now w) (mc_ttl w div 2) = Ok (mc_now w + mc_ttl w div 2)"
  by (auto simp: in_range_def instant_plus_def)

lemma set_cached_Ok: "in_range w \<Longrightarrow> fst (set_cached key p w) = Ok ()"
  by (auto simp: set_cached_def obind_run Let_def instant_plus_def in_range_def)

lemma on_inner_range: "in_range (snd (attempt (on_inner m) w)) = in_range w"
  by (auto simp: in_range_def attempt_def on_inner_def split: prod.split sum.split fault.split)

lemma ask_result:
  assumes "in_range w"
  shows "fst (obind (attempt (on_inner m)) (\<lambda>r. obind (set_cached key (pl r)) (\<lambda>_. of_attempt r)) w) = fst (m (mc_inner w))"
proof -
  let ?a = "attempt (on_inner m) w"
  have "fst (set_cached key (pl r) (snd ?a)) = Ok ()" for r
    using assms by (simp add: set_cached_Ok on_inner_range)
  then show ?thesis
    by (simp add: obind_run attempt_fst fst_on_inner of_attempt_def split: sum.split fault.split)
qed

lemma stat_miss:
  assumes "bt_get (mc_cache w) (cache_key n (if l then CLstat else CStat)) = None" "in_range w"
  shows "fst (stat_context fs ctx n l w) = fst ((if l then fs_lstat fs else fs_stat fs) ctx n (mc_inner w))"
  using assms ask_result [OF assms(2), of "(if l then fs_lstat fs else fs_stat fs) ctx n"]
  by (simp add: stat_context_def fetch_stat_def Let_def get_cached_def)

lemma read_dir_miss:
  assumes "bt_get (mc_cache w) (cache_key n CReadDir) = None" "in_range w"
  shows "fst (read_dir_context fs ctx n w) = fst (fs_read_dir fs ctx n (mc_inner w))"
  using assms ask_result [OF assms(2), of "fs_read_dir fs ctx n"]
  by (simp add: read_dir_context_def Let_def get_cached_def)

definition gone :: "'s metacache \<Rightarrow> string \<Rightarrow> bool" where
  "gone w p \<longleftrightarrow> (\<forall>kind. bt_get (mc_cache w) (p, kind) = None)"

lemma invalidating_gone:
  "gone (snd (invalidating name w)) (normalize_cache_path name)"
  "bt_get (mc_cache (snd (invalidating name w))) (parent_path (normalize_cache_path name), CReadDir) = None"
proof -
  have "bt_get (mc_cache (snd (invalidating name w))) (normalize_cache_path name, kind) = None" for kind
    by (cases kind) (simp_all add: invalidating_def invalidate_def invalidate_parent_listing_def forget_def Let_def)
  then show "gone (snd (invalidating name w)) (normalize_cache_path name)" by (simp add: gone_def)
qed (simp add: invalidating_def invalidate_def invalidate_parent_listing_def forget_def Let_def)

lemma map_of_filter_out: "\<forall>v. \<not> P (k, v) \<Longrightarrow> map_of (filter P m) k = None"
  by (auto simp: map_of_eq_None_iff)

lemma invalidate_dir_gone:
  assumes "p = normalize_cache_path name \<or> normalize_cache_path name = ''.'' \<or>
    starts_with p (normalize_cache_path name @ ''/'')"
  shows "gone (snd (invalidate_dir name w)) p"
  using assms by (auto simp: gone_def invalidate_dir_def Let_def intro!: map_of_filter_out)

lemma gone_keeps:
  "gone w p \<Longrightarrow> gone (snd (invalidate_parent_listing name w)) p" "gone w p \<Longrightarrow> gone (snd (invalidate_dir name w)) p"
  by (auto simp: gone_def invalidate_parent_listing_def invalidate_dir_def forget_def Let_def map_of_eq_None_iff)


definition below :: "string \<Rightarrow> string \<Rightarrow> bool" where
  "below name p \<longleftrightarrow> p = normalize_cache_path name \<or> normalize_cache_path name = ''.'' \<or>
     starts_with p (normalize_cache_path name @ ''/'')"

text \<open>
  A successful call that changes what is at the canonical path \<open>p\<close>, and the entries of the directory \<open>d\<close>.
\<close>

inductive changed :: "('s, 'h) filesystem \<Rightarrow> 's metacache \<Rightarrow> 's metacache \<Rightarrow> string \<Rightarrow> string \<Rightarrow> bool" for fs where
  mkdir: "fs_mkdir (metacache_ops fs) name p w = (Ok (), w') \<Longrightarrow>
    changed fs w w' (normalize_cache_path name) (parent_path (normalize_cache_path name))"
| link: "fs_link (metacache_ops fs) old name w = (Ok (), w') \<Longrightarrow>
    changed fs w w' (normalize_cache_path name) (parent_path (normalize_cache_path name))"
| symlink: "fs_symlink (metacache_ops fs) old name w = (Ok (), w') \<Longrightarrow>
    changed fs w w' (normalize_cache_path name) (parent_path (normalize_cache_path name))"
| chmod: "fs_chmod (metacache_ops fs) name p w = (Ok (), w') \<Longrightarrow>
    changed fs w w' (normalize_cache_path name) (parent_path (normalize_cache_path name))"
| chown: "fs_chown (metacache_ops fs) name u g w = (Ok (), w') \<Longrightarrow>
    changed fs w w' (normalize_cache_path name) (parent_path (normalize_cache_path name))"
| chtimes: "fs_chtimes (metacache_ops fs) name t w = (Ok (), w') \<Longrightarrow>
    changed fs w w' (normalize_cache_path name) (parent_path (normalize_cache_path name))"
| truncate: "fs_truncate (metacache_ops fs) name sz w = (Ok (), w') \<Longrightarrow>
    changed fs w w' (normalize_cache_path name) (parent_path (normalize_cache_path name))"
| create: "fs_create (metacache_ops fs) name w = (Ok f, w') \<Longrightarrow>
    changed fs w w' (normalize_cache_path name) (parent_path (normalize_cache_path name))"
| open_file: "fs_open_file (metacache_ops fs) name flags p w = (Ok f, w') \<Longrightarrow>
    flags_contains flags O_CREATE \<or> flags_contains flags O_TRUNC \<Longrightarrow>
    changed fs w w' (normalize_cache_path name) (parent_path (normalize_cache_path name))"
| close: "fh_close (metacache_handle fs) (f, w) = (Ok (), (f', w')) \<Longrightarrow> mf_dirty f \<Longrightarrow>
    changed fs w w' (normalize_cache_path (mf_path f)) (parent_path (normalize_cache_path (mf_path f)))"
| remove: "fs_remove (metacache_ops fs) name w = (Ok (), w') \<Longrightarrow> below name p \<Longrightarrow>
    changed fs w w' p (parent_path (normalize_cache_path name))"
| rename: "fs_rename (metacache_ops fs) old new w = (Ok (), w') \<Longrightarrow> below old p \<or> below new p \<Longrightarrow>
    d \<in> {parent_path (normalize_cache_path old), parent_path (normalize_cache_path new)} \<Longrightarrow>
    changed fs w w' p d"

text \<open>The calls on the file system below change neither the clock nor the cache.\<close>

definition settled :: "'s metacache \<Rightarrow> 's metacache \<Rightarrow> string \<Rightarrow> string \<Rightarrow> bool" where
  "settled w w' p d \<longleftrightarrow> mc_now w' = mc_now w \<and> mc_ttl w' = mc_ttl w \<and> gone w' p \<and> bt_get (mc_cache w') (d, CReadDir) = None"

lemma invalidating_settled:
  assumes "on_inner m w = (r, u)" "invalidating name u = (Ok (), w')"
  shows "settled w w' (normalize_cache_path name) (parent_path (normalize_cache_path name))"
proof -
  have "mc_now u = mc_now w" "mc_ttl u = mc_ttl w" using assms(1) by (auto simp: on_inner_def split: prod.splits)
  moreover have "mc_now w' = mc_now u" "mc_ttl w' = mc_ttl u"
    using assms(2) by (auto simp: invalidating_def invalidate_def invalidate_parent_listing_def forget_def obind_def Let_def)
  ultimately show ?thesis using invalidating_gone [of name u] assms(2) by (simp add: settled_def)
qed

lemma change_settled:
  "mc_change name m w = (Ok (), w') \<Longrightarrow> settled w w' (normalize_cache_path name) (parent_path (normalize_cache_path name))"
  unfolding mc_change_def by (elim obind_okE) (rule invalidating_settled)

lemma opening_settled:
  assumes "obind (on_inner m) (\<lambda>f. obind (invalidating name) (\<lambda>_. ret (g f))) w = (Ok x, w')"
  shows "settled w w' (normalize_cache_path name) (parent_path (normalize_cache_path name))"
  using assms by (elim obind_okE) (auto intro: invalidating_settled)

lemma remove_settled:
  assumes "mc_remove fs name w = (Ok (), w')" "below name p"
  shows "settled w w' p (parent_path (normalize_cache_path name))"
proof -
  obtain x u where u: "on_inner (fs_remove fs name) w = (Ok x, u)"
      "w' = snd (invalidate_parent_listing name (snd (invalidate_dir name u)))"
    using assms(1) unfolding mc_remove_def
    by (elim obind_okE) (auto simp: invalidate_dir_def invalidate_parent_listing_def Let_def)
  then have "gone w' p" using invalidate_dir_gone [of p name u] assms(2) gone_keeps(1) by (auto simp: below_def)
  then show ?thesis
    using u by (auto simp: settled_def invalidate_dir_def invalidate_parent_listing_def forget_def Let_def on_inner_def
        split: prod.splits)
qed

lemma rename_settled:
  assumes "mc_rename fs old new w = (Ok (), w')" "below old p \<or> below new p"
    and "d \<in> {parent_path (normalize_cache_path old), parent_path (normalize_cache_path new)}"
  shows "settled w w' p d"
proof -
  obtain x u where u: "on_inner (fs_rename fs old new) w = (Ok x, u)"
      "w' = snd (invalidate_parent_listing new (snd (invalidate_parent_listing old
         (snd (invalidate_dir new (snd (invalidate_dir old u)))))))"
    using assms(1) unfolding mc_rename_def
    by (elim obind_okE) (auto simp: invalidate_dir_def invalidate_parent_listing_def Let_def)
  have "gone w' p"
    using assms(2) invalidate_dir_gone [of p old u] invalidate_dir_gone [of p new "snd (invalidate_dir old u)"]
    unfolding u(2) below_def by (intro gone_keeps(1)) (auto intro: gone_keeps(2))
  then show ?thesis
    using u assms(3) by (auto simp: settled_def invalidate_dir_def invalidate_parent_listing_def forget_def Let_def on_inner_def
        split: prod.splits)
qed

lemma close_settled:
  assumes "mc_file_close fs (f, w) = (Ok (), (f', w'))" "mf_dirty f"
  shows "settled w w' (normalize_cache_path (mf_path f)) (parent_path (normalize_cache_path (mf_path f)))"
proof -
  obtain r g u where u: "attempt (on_inner_file (fh_close (fs_file fs))) (f, w) = (Ok r, (g, u))"
    using assms(1) unfolding mc_file_close_def by (elim obind_okE) auto
  have same: "mf_path g = mf_path f" "mf_dirty g" "mc_now u = mc_now w" "mc_ttl u = mc_ttl w"
    using u assms(2) by (auto simp: attempt_def on_inner_file_def split: prod.splits sum.splits fault.splits)
  have "w' = snd (invalidating (mf_path f) u)"
    using assms(1) u same
    by (auto simp: mc_file_close_def invalidating_def on_cache_def invalidate_def invalidate_parent_listing_def obind_def
        Let_def of_attempt_def split: sum.splits)
  then show ?thesis
    using invalidating_gone [of "mf_path f" u] same
    by (auto simp: settled_def invalidating_def invalidate_def invalidate_parent_listing_def forget_def obind_def Let_def)
qed

lemma changed_settled: "changed fs w w' p d \<Longrightarrow> settled w w' p d"
  by (induction rule: changed.induct)
     (simp_all add: metacache_ops_def metacache_handle_def change_settled mc_create_def mc_open_file_def opening_settled
        close_settled remove_settled rename_settled)



section \<open>Answers that have passed\<close>

lemma stat_hit:
  assumes "bt_get (mc_cache w) (cache_key n (if l then CLstat else CStat)) = Some e" "mc_now w < ce_expires_at e"
    and "ce_payload e = PMetadata (Inr md)"
  shows "fst (stat_context fs ctx n l w) = Ok md"
  using assms by (simp add: stat_context_def Let_def get_cached_def obind_run schedule_refresh_def of_attempt_def)

lemma stat_stored:
  assumes "bt_get (mc_cache w) (cache_key n (if l then CLstat else CStat)) = None" "in_range w" "mc_ttl w \<noteq> 0"
    and "fst ((if l then fs_lstat fs else fs_stat fs) ctx n (mc_inner w)) = Ok md"
  shows "bt_get (mc_cache (snd (stat_context fs ctx n l w))) (cache_key n (if l then CLstat else CStat)) =
      Some (fresh_entry w (PMetadata (Inr md)))"
    "mc_now (snd (stat_context fs ctx n l w)) = mc_now w" "mc_ttl (snd (stat_context fs ctx n l w)) = mc_ttl w"
proof -
  let ?key = "cache_key n (if l then CLstat else CStat)" and ?m = "(if l then fs_lstat fs else fs_stat fs) ctx n"
  obtain s where s: "?m (mc_inner w) = (Ok md, s)" using assms(4) by (cases "?m (mc_inner w)") auto
  have asked: "attempt (on_inner ?m) w = (Ok (Inr md), w\<lparr>mc_inner := s\<rparr>)" using s by (simp add: attempt_def on_inner_def)
  have stored: "set_cached ?key (PMetadata (Inr md)) (w\<lparr>mc_inner := s\<rparr>) =
      (Ok (), w\<lparr>mc_inner := s, mc_cache := bt_insert ?key (fresh_entry w (PMetadata (Inr md))) (mc_cache w)\<rparr>)"
    using assms(3) in_range_plus [OF assms(2)] by (simp add: set_cached_def payload_is_err_def fresh_entry_def)
  have "get_cached ?key w = (Ok None, w)" using assms(1) by (simp add: get_cached_def)
  then have "stat_context fs ctx n l w =
      (Ok md, w\<lparr>mc_inner := s, mc_cache := bt_insert ?key (fresh_entry w (PMetadata (Inr md))) (mc_cache w)\<rparr>)"
    using asked stored unfolding stat_context_def fetch_stat_def Let_def by (simp add: of_attempt_def)
  then show "bt_get (mc_cache (snd (stat_context fs ctx n l w))) ?key = Some (fresh_entry w (PMetadata (Inr md)))"
    "mc_now (snd (stat_context fs ctx n l w)) = mc_now w" "mc_ttl (snd (stat_context fs ctx n l w)) = mc_ttl w"
    by simp_all
qed

text \<open>The size a handle reports after a write is the one from before, as long as the entry lasts.\<close>

lemma written_size_hidden:
  assumes "bt_get (mc_cache w) (cache_key (mf_path f) CStat) = Some e" "mc_now w < ce_expires_at e"
    and "ce_payload e = PMetadata (Inr md)" "fh_write (metacache_handle fs) d (f, w) = (Ok n, (f', w'))"
  shows "fst (fh_stat (metacache_handle fs) (f', w')) = Ok md"
proof -
  have "mf_path f' = mf_path f" "mc_cache w' = mc_cache w" "mc_now w' = mc_now w"
    using assms(4) by (auto simp: metacache_handle_def mark_dirty_def on_inner_file_def obind_run split: prod.splits sum.splits if_splits)
  then show ?thesis
    using assms(1-3) stat_hit [of w' "mf_path f'" False e md fs]
    by (simp add: metacache_handle_def mc_file_stat_def obind_run on_cache_snd)
qed

text \<open>An entry the file system below can no longer answer for, because the file is gone, starts a new life.\<close>

lemma failed_refresh_prolongs:
  assumes "fst (fs_stat fs (with_origin path ''stat'' context_new) path (mc_inner w)) = Err e"
    and "bt_get (mc_cache w) (cache_key path CStat) = Some old" "in_range w" "mc_ttl w \<noteq> 0"
  shows "bt_get (mc_cache (snd (run_job fs \<lparr>rj_path = path, rj_key = cache_key path CStat\<rparr> w))) (cache_key path CStat) =
    Some (old\<lparr>ce_renew_at := Some (mc_now w + mc_ttl w div 2), ce_expires_at := mc_now w + mc_ttl w, ce_refreshing := False\<rparr>)"
proof -
  obtain s where "fs_stat fs (with_origin path ''stat'' context_new) path (mc_inner w) = (Err e, s)"
    using assms(1) by (cases "fs_stat fs (with_origin path ''stat'' context_new) path (mc_inner w)") auto
  then show ?thesis
    using assms(2,4) in_range_plus [OF assms(3)]
    by (simp add: run_job_def refresh_metadata_def fetch_stat_def Let_def attempt_def on_inner_def extend_expiry_def)
qed

text \<open>A change leaves the metadata of every other name in the cache, those of links to the same file included.\<close>

lemma other_names_kept:
  assumes "mc_change name m w = (Ok (), w')" "p \<noteq> normalize_cache_path name" "kind \<noteq> CReadDir"
  shows "bt_get (mc_cache w') (p, kind) = bt_get (mc_cache w) (p, kind)"
  using assms unfolding mc_change_def
  by (elim obind_okE) (auto simp: invalidating_def invalidate_def invalidate_parent_listing_def forget_def Let_def on_inner_def
      split: prod.splits)

section \<open>Instances\<close>

lemma memfs_root_stat: "\<exists>md. fst (fs_stat memfs_ops context_new ''.'' (memfs_new 0)) = Ok md"
proof -
  have "(case fst (fs_stat memfs_ops context_new ''.'' (memfs_new 0)) of Inr md \<Rightarrow> True | Inl _ \<Rightarrow> False)" by code_simp
  then show ?thesis by (auto split: sum.splits)
qed



end
