(* ===== verification/Tasks.thy ===== *)
theory Tasks
  imports Namespace Pipes Rust_Num
begin

text \<open>
  Tasks and the task file system of \<open>crates/star9-task/src/lib.rs\<close>. A task is a shared pointer: here an
  address in a heap of \<open>task_inner\<close> records. Namespaces are shared in the same way and have addresses of
  their own. The reference under which a task binds its own namespace is a new pointer each time, so it
  carries a number no other reference has. The drivers that start tasks are a parameter, except the
  built-in \<open>auto\<close> driver, and the methods behind a reference are those of a table, as for the namespace.
\<close>

section \<open>State\<close>

datatype 'd task_driver = AutoDriver | Driver 'd

datatype 'r task_ref = Mounted 'r | NsHandle nat nat

record task_state =
  ts_alias :: string
  ts_kind :: string
  ts_cmd :: string
  ts_env :: "string list"
  ts_exit :: string
  ts_dir :: string

record ('r, 'h) open_file =
  of_file :: "('r task_ref, 'h) comp_file"
  of_path :: string

record ('r, 'h) fd_table =
  ft_files :: "(u32, ('r, 'h) open_file) btmap"
  ft_next :: u32

record ('r, 'h, 'd) task_inner =
  ti_driver :: "'d task_driver"
  ti_parent :: "nat option"
  ti_ns :: nat
  ti_id :: u32
  ti_state :: task_state
  ti_fds :: "('r, 'h) fd_table"
  ti_worker :: "string option"
  ti_export :: "'r task_ref option"

record ('r, 's, 'h, 'd) task_world =
  tw_sub :: 's
  tw_ns :: "nat \<Rightarrow> 'r task_ref bindings"
  tw_next_ns :: nat
  tw_tasks :: "nat \<Rightarrow> ('r, 'h, 'd) task_inner"
  tw_next_task :: nat
  tw_next_ref :: nat
  tw_drivers :: "(string, 'd task_driver) btmap"
  tw_resources :: "(string, nat) btmap"
  tw_aliases :: "(string, nat) btmap"
  tw_next_id :: u32

type_synonym ('r, 's, 'h) task_table = "('r task_ref, 's, 'h) fs_table"

record ('w, 'd) driver_methods =
  dm_check :: "'d \<Rightarrow> nat \<Rightarrow> ('w, bool) op"
  dm_start :: "'d \<Rightarrow> nat \<Rightarrow> ('w, unit) op"

text \<open>The methods a driver has when it does not override them.\<close>

definition default_driver :: "('w, 'd) driver_methods" where
  "default_driver = \<lparr>dm_check = (\<lambda>_ _. ret False), dm_start = (\<lambda>_ _. ret ())\<rparr>"

definition upd_task ::
    "nat \<Rightarrow> (('r, 'h, 'd) task_inner \<Rightarrow> ('r, 'h, 'd) task_inner) \<Rightarrow> ('r, 's, 'h, 'd) task_world
      \<Rightarrow> ('r, 's, 'h, 'd) task_world" where
  "upd_task t f w = w\<lparr>tw_tasks := (tw_tasks w)(t := f (tw_tasks w t))\<rparr>"

definition upd_state ::
    "nat \<Rightarrow> (task_state \<Rightarrow> task_state) \<Rightarrow> ('r, 's, 'h, 'd) task_world \<Rightarrow> ('r, 's, 'h, 'd) task_world" where
  "upd_state t f = upd_task t (\<lambda>ti. ti\<lparr>ti_state := f (ti_state ti)\<rparr>)"

definition upd_fds ::
    "nat \<Rightarrow> (('r, 'h) fd_table \<Rightarrow> ('r, 'h) fd_table) \<Rightarrow> ('r, 's, 'h, 'd) task_world
      \<Rightarrow> ('r, 's, 'h, 'd) task_world" where
  "upd_fds t f = upd_task t (\<lambda>ti. ti\<lparr>ti_fds := f (ti_fds ti)\<rparr>)"

definition state_of :: "nat \<Rightarrow> ('r, 's, 'h, 'd) task_world \<Rightarrow> task_state" where
  "state_of t w = ti_state (tw_tasks w t)"

definition files_of :: "nat \<Rightarrow> ('r, 's, 'h, 'd) task_world \<Rightarrow> (u32, ('r, 'h) open_file) btmap" where
  "files_of t w = ft_files (ti_fds (tw_tasks w t))"

text \<open>Operations of a namespace, of a file system of the table, and of a boxed file, in the world of tasks.\<close>

definition on_ns :: "nat \<Rightarrow> ('r task_ref bindings \<times> 's, 'a) op \<Rightarrow> (('r, 's, 'h, 'd) task_world, 'a) op" where
  "on_ns n m = (\<lambda>w. case m (tw_ns w n, tw_sub w) of
     (r, (b, s)) \<Rightarrow> (r, w\<lparr>tw_ns := (tw_ns w)(n := b), tw_sub := s\<rparr>))"

definition on_parts :: "(unit \<times> 's, 'a) op \<Rightarrow> (('r, 's, 'h, 'd) task_world, 'a) op" where
  "on_parts m = (\<lambda>w. case m ((), tw_sub w) of (r, (_, s)) \<Rightarrow> (r, w\<lparr>tw_sub := s\<rparr>))"

definition on_box ::
    "('b \<times> unit \<times> 's, 'a) op \<Rightarrow> ('b \<times> ('r, 's, 'h, 'd) task_world, 'a) op" where
  "on_box m = (\<lambda>(f, w). case m (f, (), tw_sub w) of (r, (f', (_, s))) \<Rightarrow> (r, (f', w\<lparr>tw_sub := s\<rparr>)))"

section \<open>Tasks\<close>

definition alloc_ns :: "'r task_ref bindings \<Rightarrow> (('r, 's, 'h, 'd) task_world, nat) op" where
  "alloc_ns b = (\<lambda>w. (Ok (tw_next_ns w),
     w\<lparr>tw_ns := (tw_ns w)(tw_next_ns w := b), tw_next_ns := Suc (tw_next_ns w)\<rparr>))"

definition task_new_with_namespace ::
    "u32 \<Rightarrow> string \<Rightarrow> 'd task_driver \<Rightarrow> nat option \<Rightarrow> nat \<Rightarrow> (('r, 's, 'h, 'd) task_world, nat) op" where
  "task_new_with_namespace tid kind driver parent n = (\<lambda>w. (Ok (tw_next_task w),
     w\<lparr>tw_tasks := (tw_tasks w)(tw_next_task w :=
         \<lparr>ti_driver = driver, ti_parent = parent, ti_ns = n, ti_id = tid,
          ti_state = \<lparr>ts_alias = [], ts_kind = kind, ts_cmd = [], ts_env = [], ts_exit = [], ts_dir = ''.''\<rparr>,
          ti_fds = \<lparr>ft_files = [], ft_next = 3\<rparr>, ti_worker = None, ti_export = None\<rparr>),
       tw_next_task := Suc (tw_next_task w)\<rparr>))"

definition task_new ::
    "u32 \<Rightarrow> string \<Rightarrow> 'd task_driver \<Rightarrow> nat option \<Rightarrow> (('r, 's, 'h, 'd) task_world, nat) op" where
  "task_new tid kind driver parent =
     obind (gets (\<lambda>w. case parent of
         Some p \<Rightarrow> clone_namespace (tw_ns w (ti_ns (tw_tasks w p)))
       | None \<Rightarrow> ns_new)) (\<lambda>b.
     obind (alloc_ns b) (\<lambda>n.
     task_new_with_namespace tid kind driver parent n))"

definition task_id :: "nat \<Rightarrow> ('r, 's, 'h, 'd) task_world \<Rightarrow> string" where
  "task_id t w = show_nat (unat (ti_id (tw_tasks w t)))"

definition task_ns :: "nat \<Rightarrow> ('r, 's, 'h, 'd) task_world \<Rightarrow> nat" where
  "task_ns t w = ti_ns (tw_tasks w t)"

text \<open>The loop of \<open>root\<close> follows the parents; a parent is older than its child, so the address bounds it.\<close>

fun root_loop :: "nat \<Rightarrow> nat \<Rightarrow> ('r, 's, 'h, 'd) task_world \<Rightarrow> nat option" where
  "root_loop 0 t w = None"
| "root_loop (Suc fuel) t w =
     (case ti_parent (tw_tasks w t) of None \<Rightarrow> Some t | Some p \<Rightarrow> root_loop fuel p w)"

definition task_root :: "nat \<Rightarrow> ('r, 's, 'h, 'd) task_world \<Rightarrow> nat option" where
  "task_root t w = root_loop (Suc t) t w"

definition task_arg :: "nat \<Rightarrow> nat \<Rightarrow> ('r, 's, 'h, 'd) task_world \<Rightarrow> string" where
  "task_arg i t w =
     (let ps = split_on (CHR '' '') (ts_cmd (state_of t w)) in if i < length ps then ps ! i else [])"

definition set_worker :: "string \<Rightarrow> nat \<Rightarrow> (('r, 's, 'h, 'd) task_world, unit) op" where
  "set_worker v t = modify (upd_task t (\<lambda>ti. ti\<lparr>ti_worker := Some v\<rparr>))"

definition set_export :: "'r task_ref \<Rightarrow> nat \<Rightarrow> (('r, 's, 'h, 'd) task_world, unit) op" where
  "set_export k t = modify (upd_task t (\<lambda>ti. ti\<lparr>ti_export := Some k\<rparr>))"

definition clear_export :: "nat \<Rightarrow> (('r, 's, 'h, 'd) task_world, unit) op" where
  "clear_export t = modify (upd_task t (\<lambda>ti. ti\<lparr>ti_export := None\<rparr>))"

definition set_cmd :: "string \<Rightarrow> nat \<Rightarrow> (('r, 's, 'h, 'd) task_world, unit) op" where
  "set_cmd v t = modify (upd_state t (\<lambda>st. st\<lparr>ts_cmd := v\<rparr>))"

definition set_env :: "string list \<Rightarrow> nat \<Rightarrow> (('r, 's, 'h, 'd) task_world, unit) op" where
  "set_env vs t = modify (upd_state t (\<lambda>st. st\<lparr>ts_env := vs\<rparr>))"

definition set_dir :: "string \<Rightarrow> nat \<Rightarrow> (('r, 's, 'h, 'd) task_world, unit) op" where
  "set_dir v t = modify (upd_state t (\<lambda>st. st\<lparr>ts_dir := v\<rparr>))"

definition set_exit :: "string \<Rightarrow> nat \<Rightarrow> (('r, 's, 'h, 'd) task_world, unit) op" where
  "set_exit v t = modify (upd_state t (\<lambda>st. st\<lparr>ts_exit := v\<rparr>))"

text \<open>\<^verbatim>\<open>fs_ref((*self.namespace()).clone())\<close>: a new pointer to the namespace of the task.\<close>

definition own_ns_ref :: "nat \<Rightarrow> (('r, 's, 'h, 'd) task_world, 'r task_ref) op" where
  "own_ns_ref t = (\<lambda>w. (Ok (NsHandle (task_ns t w) (tw_next_ref w)), w\<lparr>tw_next_ref := Suc (tw_next_ref w)\<rparr>))"

definition task_bind ::
    "('r, 's, 'h) task_table \<Rightarrow> string \<Rightarrow> string \<Rightarrow> nat \<Rightarrow> (('r, 's, 'h, 'd) task_world, unit) op" where
  "task_bind tbl src dst t =
     obind (own_ns_ref t) (\<lambda>k.
     obind (gets (task_ns t)) (\<lambda>n.
     on_ns n (ns_bind tbl k src dst BindAfter)))"

definition task_unbind :: "string \<Rightarrow> string \<Rightarrow> nat \<Rightarrow> (('r, 's, 'h, 'd) task_world, unit) op" where
  "task_unbind src dst t =
     obind (own_ns_ref t) (\<lambda>k.
     obind (gets (task_ns t)) (\<lambda>n.
     on_ns n (ns_unbind k src dst)))"

section \<open>Drivers\<close>

definition register_driver :: "string \<Rightarrow> 'd task_driver \<Rightarrow> (('r, 's, 'h, 'd) task_world, unit) op" where
  "register_driver kind d = modify (\<lambda>w. w\<lparr>tw_drivers := bt_insert kind d (tw_drivers w)\<rparr>)"

text \<open>The \<open>auto\<close> driver gives the task to the first other driver whose check accepts it.\<close>

fun auto_start ::
    "(('r, 's, 'h, 'd) task_world, 'd) driver_methods \<Rightarrow> nat \<Rightarrow> (string \<times> 'd task_driver) list
      \<Rightarrow> (('r, 's, 'h, 'd) task_world, unit) op" where
  "auto_start D t [] = ret ()"
| "auto_start D t ((kind, drv) # rest) =
     (if kind = ''auto'' then auto_start D t rest
      else case drv of
        AutoDriver \<Rightarrow> auto_start D t rest
      | Driver d \<Rightarrow>
          obind (dm_check D d t) (\<lambda>ok.
          if ok then obind (modify (upd_state t (\<lambda>st. st\<lparr>ts_kind := kind\<rparr>))) (\<lambda>_. dm_start D d t)
          else auto_start D t rest))"

definition task_start ::
    "(('r, 's, 'h, 'd) task_world, 'd) driver_methods \<Rightarrow> nat \<Rightarrow> (('r, 's, 'h, 'd) task_world, unit) op" where
  "task_start D t =
     obind (gets (\<lambda>w. ti_driver (tw_tasks w t))) (\<lambda>drv. case drv of
       AutoDriver \<Rightarrow> obind (gets tw_drivers) (auto_start D t)
     | Driver d \<Rightarrow> dm_start D d t)"

section \<open>File descriptors\<close>

definition open_fd ::
    "('r task_ref, 'h) comp_file \<Rightarrow> string \<Rightarrow> nat \<Rightarrow> (('r, 's, 'h, 'd) task_world, u32) op" where
  "open_fd f path t =
     obind (gets (\<lambda>w. ft_next (ti_fds (tw_tasks w t)))) (\<lambda>fd.
     obind (modify (upd_fds t (\<lambda>fds. fds\<lparr>ft_next := fd + 1,
         ft_files := bt_insert fd \<lparr>of_file = f, of_path = path\<rparr> (ft_files fds)\<rparr>))) (\<lambda>_.
     ret fd))"

definition set_fd ::
    "u32 \<Rightarrow> ('r task_ref, 'h) comp_file \<Rightarrow> string \<Rightarrow> nat \<Rightarrow> (('r, 's, 'h, 'd) task_world, unit) op" where
  "set_fd fd f path t = modify (upd_fds t (\<lambda>fds.
     fds\<lparr>ft_next := (if fd \<ge> ft_next fds then fd + 1 else ft_next fds),
         ft_files := bt_insert fd \<lparr>of_file = f, of_path = path\<rparr> (ft_files fds)\<rparr>))"

definition fd_entries :: "nat \<Rightarrow> ('r, 's, 'h, 'd) task_world \<Rightarrow> (u32 \<times> string) list" where
  "fd_entries t w = map (\<lambda>(fd, f). (fd, of_path f)) (files_of t w)"

definition close_box ::
    "('r, 's, 'h) task_table \<Rightarrow> ('r task_ref, 'h) comp_file \<Rightarrow> (('r, 's, 'h, 'd) task_world, unit) op" where
  "close_box tbl f = scoped f (on_box (fh_close (comp_handle tbl)))"

definition clear_fds :: "('r, 's, 'h) task_table \<Rightarrow> nat \<Rightarrow> (('r, 's, 'h, 'd) task_world, unit) op" where
  "clear_fds tbl t =
     obind (gets (files_of t)) (\<lambda>files.
     obind (modify (upd_fds t (\<lambda>fds. fds\<lparr>ft_files := []\<rparr>))) (\<lambda>_.
     op_each (\<lambda>(_, f). close_box tbl (of_file f)) files))"

definition ns_open_at ::
    "('r, 's, 'h) task_table \<Rightarrow> nat \<Rightarrow> fs_context \<Rightarrow> string
      \<Rightarrow> (('r, 's, 'h, 'd) task_world, ('r task_ref, 'h) comp_file) op" where
  "ns_open_at tbl t ctx name = obind (gets (task_ns t)) (\<lambda>n. on_ns n (ns_open tbl ctx name))"

definition reopen_fds_from ::
    "('r, 's, 'h) task_table \<Rightarrow> nat \<Rightarrow> nat \<Rightarrow> (('r, 's, 'h, 'd) task_world, unit) op" where
  "reopen_fds_from tbl src t =
     obind (gets (fd_entries src)) (\<lambda>entries.
     op_each (\<lambda>(fd, path).
       obind (ns_open_at tbl src context_new path) (\<lambda>f. set_fd fd f path t)) entries)"

definition bad_fd :: "string \<Rightarrow> u32 \<Rightarrow> error" where
  "bad_fd what fd = Path what (show_nat (unat fd)) Invalid"

definition close_fd :: "('r, 's, 'h) task_table \<Rightarrow> u32 \<Rightarrow> nat \<Rightarrow> (('r, 's, 'h, 'd) task_world, unit) op" where
  "close_fd tbl fd t =
     obind (gets (\<lambda>w. bt_get (files_of t w) fd)) (\<lambda>v. case v of
       None \<Rightarrow> throw (Fail (bad_fd ''closefd'' fd))
     | Some f \<Rightarrow>
         obind (modify (upd_fds t (\<lambda>fds. fds\<lparr>ft_files := bt_remove fd (ft_files fds)\<rparr>))) (\<lambda>_.
         close_box tbl (of_file f)))"

text \<open>A handle operation on the file of a descriptor, which stays in the table with what it became.\<close>

definition with_fd_mut ::
    "string \<Rightarrow> u32 \<Rightarrow> (('r task_ref, 'h) comp_file \<times> unit \<times> 's, 'a) op \<Rightarrow> nat
      \<Rightarrow> (('r, 's, 'h, 'd) task_world, 'a) op" where
  "with_fd_mut what fd m t = (\<lambda>w.
     case bt_get (files_of t w) fd of
       None \<Rightarrow> (Err (bad_fd what fd), w)
     | Some f \<Rightarrow>
         (case m (of_file f, (), tw_sub w) of (r, (f', (_, s))) \<Rightarrow>
            (r, upd_fds t (\<lambda>fds. fds\<lparr>ft_files := bt_insert fd (f\<lparr>of_file := f'\<rparr>) (ft_files fds)\<rparr>)
                  (w\<lparr>tw_sub := s\<rparr>))))"

definition renumber_fd ::
    "('r, 's, 'h) task_table \<Rightarrow> u32 \<Rightarrow> u32 \<Rightarrow> nat \<Rightarrow> (('r, 's, 'h, 'd) task_world, unit) op" where
  "renumber_fd tbl src dst t =
     obind (gets (\<lambda>w. bt_get (files_of t w) src)) (\<lambda>v. case v of
       None \<Rightarrow> throw (Fail (bad_fd ''renumberfd'' src))
     | Some f \<Rightarrow>
         if src = dst then ret ()
         else
           obind (with_fd_mut ''renumberfd'' dst (fh_close (comp_handle tbl)) t) (\<lambda>_.
           modify (upd_fds t (\<lambda>fds. fds\<lparr>ft_files := bt_insert dst f (bt_remove src (ft_files fds))\<rparr>))))"

definition fd_path :: "u32 \<Rightarrow> nat \<Rightarrow> (('r, 's, 'h, 'd) task_world, string) op" where
  "fd_path fd t =
     obind (gets (\<lambda>w. bt_get (files_of t w) fd)) (\<lambda>v. case v of
       None \<Rightarrow> throw (Fail (bad_fd ''fd'' fd)) | Some f \<Rightarrow> ret (of_path f))"

end
