(* ===== verification/Task_Fs.thy ===== *)
theory Task_Fs
  imports Tasks
begin

text \<open>
  The task file system of \<open>crates/star9-task/src/lib.rs\<close>: the table of tasks and aliases, the fields of a
  task as files, descriptors as files, the control file, and the file that allocates a task when it is
  read.
\<close>

section \<open>The table of tasks\<close>

definition taskfs_new :: "'s \<Rightarrow> ('r, 's, 'h, 'd) task_world" where
  "taskfs_new s = snd (register_driver ''auto'' AutoDriver
     \<lparr>tw_sub = s, tw_ns = (\<lambda>_. ns_new), tw_next_ns = 0,
      tw_tasks = (\<lambda>_. \<lparr>ti_driver = AutoDriver, ti_parent = None, ti_ns = 0, ti_id = 0,
         ti_state = \<lparr>ts_alias = [], ts_kind = [], ts_cmd = [], ts_env = [], ts_exit = [], ts_dir = []\<rparr>,
         ti_fds = \<lparr>ft_files = [], ft_next = 0\<rparr>, ti_worker = None, ti_export = None\<rparr>),
      tw_next_task = 0, tw_next_ref = 0, tw_drivers = [], tw_resources = [], tw_aliases = [], tw_next_id = 0\<rparr>)"

definition alloc_with_parent_and_namespace ::
    "string \<Rightarrow> nat option \<Rightarrow> nat option \<Rightarrow> (('r, 's, 'h, 'd) task_world, nat) op" where
  "alloc_with_parent_and_namespace kind parent namespace =
     obind (gets (\<lambda>w. bt_get (tw_drivers w) kind)) (\<lambda>v. case v of
       None \<Rightarrow> throw (Fail (Kind NotFound))
     | Some driver \<Rightarrow>
         obind (modify (\<lambda>w. w\<lparr>tw_next_id := tw_next_id w + 1\<rparr>)) (\<lambda>_.
         obind (gets tw_next_id) (\<lambda>tid.
         obind (case namespace of
                  Some n \<Rightarrow> task_new_with_namespace tid kind driver parent n
                | None \<Rightarrow> task_new tid kind driver parent) (\<lambda>t.
         obind (modify (\<lambda>w. w\<lparr>tw_resources := bt_insert (show_nat (unat tid)) t (tw_resources w)\<rparr>)) (\<lambda>_.
         ret t)))))"

definition task_alloc :: "string \<Rightarrow> nat option \<Rightarrow> (('r, 's, 'h, 'd) task_world, nat) op" where
  "task_alloc kind parent =
     obind (gets (\<lambda>w. case parent of Some p \<Rightarrow> Some p | None \<Rightarrow> bt_get (tw_resources w) ''1'')) (\<lambda>parent.
     alloc_with_parent_and_namespace kind parent None)"

definition alloc_with_namespace :: "string \<Rightarrow> nat option \<Rightarrow> nat \<Rightarrow> (('r, 's, 'h, 'd) task_world, nat) op" where
  "alloc_with_namespace kind parent n = alloc_with_parent_and_namespace kind parent (Some n)"

definition alloc_clean_namespace :: "string \<Rightarrow> (('r, 's, 'h, 'd) task_world, nat) op" where
  "alloc_clean_namespace kind =
     obind (alloc_ns ns_new) (\<lambda>n. alloc_with_parent_and_namespace kind None (Some n))"

definition task_lookup :: "string \<Rightarrow> (('r, 's, 'h, 'd) task_world, nat) op" where
  "task_lookup rid =
     obind (gets (\<lambda>w. bt_get (tw_resources w) rid)) (\<lambda>v. case v of
       Some t \<Rightarrow> ret t
     | None \<Rightarrow>
         obind (gets (\<lambda>w. bt_get (tw_aliases w) rid)) (\<lambda>v. case v of
           Some t \<Rightarrow> ret t
         | None \<Rightarrow> throw (Fail (Path ''lookup'' rid NotFound))))"

definition all_tasks :: "('r, 's, 'h, 'd) task_world \<Rightarrow> nat list" where
  "all_tasks w = bt_values (tw_resources w)"

definition update_alias :: "nat \<Rightarrow> string \<Rightarrow> string \<Rightarrow> (('r, 's, 'h, 'd) task_world, unit) op" where
  "update_alias t old new = modify (\<lambda>w.
     (let al = (if old \<noteq> [] then bt_remove old (tw_aliases w) else tw_aliases w) in
      w\<lparr>tw_aliases := (if new \<noteq> [] then bt_insert new t al else al)\<rparr>))"

definition new_dir_entries :: "('r, 's, 'h, 'd) task_world \<Rightarrow> dir_entry list" where
  "new_dir_entries w = map (\<lambda>kind. dir_entry_new kind (metadata_file kind 0x16D 0)) (bt_keys (tw_drivers w))"

section \<open>Fields\<close>

definition set_field :: "string \<Rightarrow> string \<Rightarrow> nat \<Rightarrow> (('r, 's, 'h, 'd) task_world, unit) op" where
  "set_field name val t =
     (if name = ''cmd'' then modify (upd_state t (\<lambda>st. st\<lparr>ts_cmd := val\<rparr>))
      else if name = ''alias'' then
        obind (gets (\<lambda>w. ts_alias (state_of t w))) (\<lambda>old.
        obind (modify (upd_state t (\<lambda>st. st\<lparr>ts_alias := val\<rparr>))) (\<lambda>_.
        update_alias t old val))
      else if name = ''env'' then modify (upd_state t (\<lambda>st. st\<lparr>ts_env := str_lines val\<rparr>))
      else if name = ''dir'' then modify (upd_state t (\<lambda>st. st\<lparr>ts_dir := val\<rparr>))
      else if name = ''exit'' then modify (upd_state t (\<lambda>st. st\<lparr>ts_exit := val\<rparr>))
      else throw (Fail (Kind Invalid)))"

definition field_value :: "string \<Rightarrow> nat \<Rightarrow> (('r, 's, 'h, 'd) task_world, string) op" where
  "field_value name t =
     obind (gets (state_of t)) (\<lambda>st.
     if name = ''id'' then gets (task_id t)
     else if name = ''kind'' then ret (ts_kind st)
     else if name = ''cmd'' then ret (ts_cmd st)
     else if name = ''alias'' then ret (ts_alias st)
     else if name = ''env'' then ret (join_on newline (ts_env st))
     else if name = ''dir'' then ret (ts_dir st)
     else if name = ''exit'' then ret (ts_exit st)
     else throw (Fail (Kind Invalid)))"

record task_field_handle =
  tf_task :: nat
  tf_name :: string
  tf_data :: bytes
  tf_written :: bytes
  tf_offset :: u64

definition readonly_field :: "string \<Rightarrow> bool" where
  "readonly_field name \<longleftrightarrow> name \<in> {''id'', ''kind'', ''binds''}"

definition task_field_read :: "nat \<Rightarrow> (task_field_handle \<times> 'w, bytes) op" where
  "task_field_read len = (\<lambda>(h, w).
     (let data = read_from (tf_data h) (tf_offset h) len in
      (Ok data, (h\<lparr>tf_offset := tf_offset h + of_nat (length data)\<rparr>, w))))"

definition task_field_write :: "bytes \<Rightarrow> (task_field_handle \<times> 'w, nat) op" where
  "task_field_write data = (\<lambda>(h, w).
     if readonly_field (tf_name h) then (Err (Kind PermissionDenied), (h, w))
     else (Ok (length data), (h\<lparr>tf_written := tf_written h @ data\<rparr>, w)))"

definition task_field_stat :: "(task_field_handle \<times> 'w, metadata) op" where
  "task_field_stat = (\<lambda>(h, w).
     (Ok (metadata_file (tf_name h) (if readonly_field (tf_name h) then 0x124 else 0x1B6)
        (of_nat (length (tf_data h)))), (h, w)))"

definition task_field_close :: "(task_field_handle \<times> ('r, 's, 'h, 'd) task_world, unit) op" where
  "task_field_close = (\<lambda>(h, w).
     if tf_written h \<noteq> []
     then (case set_field (tf_name h) (str_trim (from_utf8_lossy (tf_written h))) (tf_task h) w of
             (r, w') \<Rightarrow> (r, (h, w')))
     else (Ok (), (h, w)))"

definition task_field_file :: "(('r, 's, 'h, 'd) task_world, task_field_handle) file_handle" where
  "task_field_file =
     \<lparr>fh_read = task_field_read, fh_write = task_field_write,
      fh_read_at = default_read_at default_seek task_field_read,
      fh_write_at = default_write_at default_seek task_field_write,
      fh_seek = default_seek, fh_stat = task_field_stat,
      fh_read_dir = default_handle_read_dir task_field_stat,
      fh_sync = default_sync, fh_close = task_field_close\<rparr>"

section \<open>\<open>FdProxy\<close>\<close>

definition fd_proxy_do ::
    "(('r task_ref, 'h) comp_file \<times> unit \<times> 's, 'a) op \<Rightarrow> ((nat \<times> u32) \<times> ('r, 's, 'h, 'd) task_world, 'a) op" where
  "fd_proxy_do m = (\<lambda>((t, fd), w). case with_fd_mut ''fd'' fd m t w of (r, w') \<Rightarrow> (r, ((t, fd), w')))"

definition fd_proxy_handle ::
    "('r, 's, 'h) task_table \<Rightarrow> (('r, 's, 'h, 'd) task_world, nat \<times> u32) file_handle" where
  "fd_proxy_handle tbl =
     \<lparr>fh_read = (\<lambda>n. fd_proxy_do (fh_read (comp_handle tbl) n)),
      fh_write = (\<lambda>d. fd_proxy_do (fh_write (comp_handle tbl) d)),
      fh_read_at = (\<lambda>n p. fd_proxy_do (fh_read_at (comp_handle tbl) n p)),
      fh_write_at = (\<lambda>d p. fd_proxy_do (fh_write_at (comp_handle tbl) d p)),
      fh_seek = (\<lambda>p. fd_proxy_do (fh_seek (comp_handle tbl) p)),
      fh_stat = fd_proxy_do (fh_stat (comp_handle tbl)),
      fh_read_dir = default_handle_read_dir (fd_proxy_do (fh_stat (comp_handle tbl))),
      fh_sync = fd_proxy_do (fh_sync (comp_handle tbl)),
      fh_close = ret ()\<rparr>"

section \<open>The control file\<close>

definition task_ctl ::
    "('r, 's, 'h) task_table \<Rightarrow> (('r, 's, 'h, 'd) task_world, 'd) driver_methods \<Rightarrow> nat
      \<Rightarrow> ('r, 's, 'h, 'd) task_world control_callback" where
  "task_ctl tbl D t cmd =
     (case split_ws cmd of
        [c, src, dst] \<Rightarrow>
          if c = ''bind'' then task_bind tbl src dst t
          else if c = ''unbind'' then task_unbind src dst t
          else throw (Fail (Kind Invalid))
      | [c] \<Rightarrow> if c = ''start'' then task_start D t else throw (Fail (Kind Invalid))
      | _ \<Rightarrow> throw (Fail (Kind Invalid)))"

section \<open>\<open>NewTaskHandle\<close>\<close>

record new_task_handle =
  nt_kind :: string
  nt_data :: "bytes option"
  nt_offset :: u64

definition new_task_data :: "(new_task_handle \<times> ('r, 's, 'h, 'd) task_world, bytes) op" where
  "new_task_data = (\<lambda>(h, w).
     case nt_data h of
       Some data \<Rightarrow> (Ok data, (h, w))
     | None \<Rightarrow>
         (case task_alloc (nt_kind h) None w of
            (Inl e, w') \<Rightarrow> (Inl e, (h, w'))
          | (Inr t, w') \<Rightarrow>
              (let data = as_bytes (task_id t w' @ [newline]) in (Ok data, (h\<lparr>nt_data := Some data\<rparr>, w')))))"

definition new_task_read :: "nat \<Rightarrow> (new_task_handle \<times> ('r, 's, 'h, 'd) task_world, bytes) op" where
  "new_task_read len =
     obind new_task_data (\<lambda>data. \<lambda>(h, w).
       (let out = read_from data (nt_offset h) len in
        (Ok out, (h\<lparr>nt_offset := nt_offset h + of_nat (length out)\<rparr>, w))))"

definition new_task_stat :: "(new_task_handle \<times> 'w, metadata) op" where
  "new_task_stat = (\<lambda>(h, w). (Ok (metadata_file (base_name (nt_kind h)) 0x16D 0), (h, w)))"

definition new_task_file_handle :: "(('r, 's, 'h, 'd) task_world, new_task_handle) file_handle" where
  "new_task_file_handle =
     \<lparr>fh_read = new_task_read, fh_write = default_write,
      fh_read_at = default_read_at default_seek new_task_read,
      fh_write_at = default_write_at default_seek default_write,
      fh_seek = default_seek, fh_stat = new_task_stat,
      fh_read_dir = default_handle_read_dir new_task_stat,
      fh_sync = default_sync, fh_close = default_close\<rparr>"

section \<open>Handles\<close>

text \<open>The \<open>BoxFile\<close>s the task file system returns.\<close>

datatype ('r, 'h) task_file =
    TaskDir dir_file
  | TaskSub "('r task_ref, 'h) comp_file"
  | TaskProxy "nat \<times> u32"
  | TaskCtl nat bytes
  | TaskField task_field_handle
  | TaskNew new_task_handle

definition boxed :: "('a \<Rightarrow> 'b) \<Rightarrow> ('a \<times> 'w, 'x) op \<Rightarrow> 'a \<Rightarrow> 'w \<Rightarrow> 'x res \<times> 'b \<times> 'w" where
  "boxed C m h w = (case m (h, w) of (r, (h', w')) \<Rightarrow> (r, (C h', w')))"

text \<open>A method of \<open>FileHandle\<close>, on whichever handle is in the box.\<close>

definition task_box_do ::
    "('r, 's, 'h) task_table \<Rightarrow> (('r, 's, 'h, 'd) task_world, 'd) driver_methods
      \<Rightarrow> ((('r, 's, 'h, 'd) task_world, dir_file) file_handle \<Rightarrow> (dir_file \<times> ('r, 's, 'h, 'd) task_world, 'a) op)
      \<Rightarrow> ((unit \<times> 's, ('r task_ref, 'h) comp_file) file_handle \<Rightarrow> (('r task_ref, 'h) comp_file \<times> unit \<times> 's, 'a) op)
      \<Rightarrow> ((('r, 's, 'h, 'd) task_world, nat \<times> u32) file_handle \<Rightarrow> ((nat \<times> u32) \<times> ('r, 's, 'h, 'd) task_world, 'a) op)
      \<Rightarrow> ((('r, 's, 'h, 'd) task_world, bytes) file_handle \<Rightarrow> (bytes \<times> ('r, 's, 'h, 'd) task_world, 'a) op)
      \<Rightarrow> ((('r, 's, 'h, 'd) task_world, task_field_handle) file_handle \<Rightarrow> (task_field_handle \<times> ('r, 's, 'h, 'd) task_world, 'a) op)
      \<Rightarrow> ((('r, 's, 'h, 'd) task_world, new_task_handle) file_handle \<Rightarrow> (new_task_handle \<times> ('r, 's, 'h, 'd) task_world, 'a) op)
      \<Rightarrow> (('r, 'h) task_file \<times> ('r, 's, 'h, 'd) task_world, 'a) op" where
  "task_box_do tbl D m1 m2 m3 m4 m5 m6 = (\<lambda>(f, w). case f of
       TaskDir d \<Rightarrow> boxed TaskDir (m1 dir_file_handle) d w
     | TaskSub g \<Rightarrow> boxed TaskSub (on_box (m2 (comp_handle tbl))) g w
     | TaskProxy p \<Rightarrow> boxed TaskProxy (m3 (fd_proxy_handle tbl)) p w
     | TaskCtl t buf \<Rightarrow> boxed (TaskCtl t) (m4 (control_handle ''ctl'' (task_ctl tbl D t))) buf w
     | TaskField h \<Rightarrow> boxed TaskField (m5 task_field_file) h w
     | TaskNew h \<Rightarrow> boxed TaskNew (m6 new_task_file_handle) h w)"

definition task_handle ::
    "('r, 's, 'h) task_table \<Rightarrow> (('r, 's, 'h, 'd) task_world, 'd) driver_methods
      \<Rightarrow> (('r, 's, 'h, 'd) task_world, ('r, 'h) task_file) file_handle" where
  "task_handle tbl D =
     \<lparr>fh_read = (\<lambda>n. task_box_do tbl D (\<lambda>fh. fh_read fh n) (\<lambda>fh. fh_read fh n) (\<lambda>fh. fh_read fh n)
        (\<lambda>fh. fh_read fh n) (\<lambda>fh. fh_read fh n) (\<lambda>fh. fh_read fh n)),
      fh_write = (\<lambda>d. task_box_do tbl D (\<lambda>fh. fh_write fh d) (\<lambda>fh. fh_write fh d) (\<lambda>fh. fh_write fh d)
        (\<lambda>fh. fh_write fh d) (\<lambda>fh. fh_write fh d) (\<lambda>fh. fh_write fh d)),
      fh_read_at = (\<lambda>n p. task_box_do tbl D (\<lambda>fh. fh_read_at fh n p) (\<lambda>fh. fh_read_at fh n p) (\<lambda>fh. fh_read_at fh n p)
        (\<lambda>fh. fh_read_at fh n p) (\<lambda>fh. fh_read_at fh n p) (\<lambda>fh. fh_read_at fh n p)),
      fh_write_at = (\<lambda>d p. task_box_do tbl D (\<lambda>fh. fh_write_at fh d p) (\<lambda>fh. fh_write_at fh d p) (\<lambda>fh. fh_write_at fh d p)
        (\<lambda>fh. fh_write_at fh d p) (\<lambda>fh. fh_write_at fh d p) (\<lambda>fh. fh_write_at fh d p)),
      fh_seek = (\<lambda>p. task_box_do tbl D (\<lambda>fh. fh_seek fh p) (\<lambda>fh. fh_seek fh p) (\<lambda>fh. fh_seek fh p)
        (\<lambda>fh. fh_seek fh p) (\<lambda>fh. fh_seek fh p) (\<lambda>fh. fh_seek fh p)),
      fh_stat = task_box_do tbl D fh_stat fh_stat fh_stat fh_stat fh_stat fh_stat,
      fh_read_dir = (\<lambda>n. task_box_do tbl D (\<lambda>fh. fh_read_dir fh n) (\<lambda>fh. fh_read_dir fh n) (\<lambda>fh. fh_read_dir fh n)
        (\<lambda>fh. fh_read_dir fh n) (\<lambda>fh. fh_read_dir fh n) (\<lambda>fh. fh_read_dir fh n)),
      fh_sync = task_box_do tbl D fh_sync fh_sync fh_sync fh_sync fh_sync fh_sync,
      fh_close = task_box_do tbl D fh_close fh_close fh_close fh_close fh_close fh_close\<rparr>"

section \<open>A task as a file system\<close>

definition task_dir_entry :: "string \<Rightarrow> dir_entry" where
  "task_dir_entry field =
     dir_entry_new field
       (if field \<in> {''fd'', ''ns'', ''export''} then metadata_dir field 0x16D
        else if field \<in> {''id'', ''kind'', ''binds''} then metadata_file field 0x124 0
        else metadata_file field 0x1B6 0)"

definition task_dir_entries :: "bool \<Rightarrow> dir_entry list" where
  "task_dir_entries exported =
     map task_dir_entry
       ([''ctl'', ''id'', ''kind'', ''cmd'', ''alias'', ''env'', ''dir'', ''exit'', ''fd'', ''ns'', ''binds'']
        @ (if exported then [''export''] else []))"

text \<open>The name below \<open>export\<close> or \<open>ns\<close>.\<close>

definition below :: "string \<Rightarrow> string \<Rightarrow> string" where
  "below dir name = (case strip_prefix (dir @ ''/'') name of Some rel \<Rightarrow> clean_path rel | None \<Rightarrow> ''.'')"

definition under :: "string \<Rightarrow> string \<Rightarrow> bool" where
  "under dir name \<longleftrightarrow> name = dir \<or> starts_with name (dir @ ''/'')"

definition field_handle_at :: "nat \<Rightarrow> string \<Rightarrow> bytes \<Rightarrow> ('r, 'h) task_file" where
  "field_handle_at t name data =
     TaskField \<lparr>tf_task = t, tf_name = name, tf_data = data, tf_written = [], tf_offset = 0\<rparr>"

definition fd_dir_entry :: "u32 \<Rightarrow> dir_entry" where
  "fd_dir_entry fd = dir_entry_new (show_nat (unat fd)) (metadata_file (show_nat (unat fd)) 0x1B6 0)"

definition binds_text :: "nat \<Rightarrow> ('r, 's, 'h, 'd) task_world \<Rightarrow> string" where
  "binds_text t w =
     (let data = format_bindings (tw_ns w (task_ns t w)) in if data \<noteq> [] then data @ [newline] else data)"

definition task_open ::
    "('r, 's, 'h) task_table \<Rightarrow> nat \<Rightarrow> fs_context \<Rightarrow> string \<Rightarrow> (('r, 's, 'h, 'd) task_world, ('r, 'h) task_file) op" where
  "task_open tbl t ctx name =
     (if \<not> valid_path name then throw (Fail (Path ''open'' name NotFound))
      else
        (let name = clean_path name in
         if name = ''.'' then
           gets (\<lambda>w. TaskDir (dir_file_new (metadata_dir ''.'' 0x16D)
             (task_dir_entries (ti_export (tw_tasks w t) \<noteq> None))))
         else if under ''export'' name then
           obind (gets (\<lambda>w. ti_export (tw_tasks w t))) (\<lambda>export. case export of
             None \<Rightarrow> throw (Fail (Path ''open'' name NotFound))
           | Some k \<Rightarrow> obind (on_parts (sub_open tbl k ctx (below ''export'' name))) (\<lambda>f. ret (TaskSub f)))
         else if under ''ns'' name then
           obind (ns_open_at tbl t ctx (below ''ns'' name)) (\<lambda>f. ret (TaskSub f))
         else if name = ''fd'' then
           gets (\<lambda>w. TaskDir (dir_file_new (metadata_dir ''fd'' 0x16D)
             (map fd_dir_entry (bt_keys (files_of t w)))))
         else case strip_prefix ''fd/'' name of
           Some fd_name \<Rightarrow>
             (case parse_u32 fd_name of
                None \<Rightarrow> throw (Fail (Path ''open'' name Invalid))
              | Some fd \<Rightarrow> ret (TaskProxy (t, fd)))
         | None \<Rightarrow>
             if name = ''ctl'' then obind (control_open ctx ''.'') (\<lambda>buf. ret (TaskCtl t buf))
             else if name \<in> {''id'', ''kind'', ''cmd'', ''alias'', ''env'', ''dir'', ''exit''} then
               obind (field_value name t) (\<lambda>v. ret (field_handle_at t name (as_bytes (v @ [newline]))))
             else if name = ''binds'' then gets (\<lambda>w. field_handle_at t name (as_bytes (binds_text t w)))
             else throw (Fail (Path ''open'' name NotFound))))"

text \<open>Both \<open>stat\<close> methods open the file with the context they were given.\<close>

definition stat_by_open ::
    "('w, 'h) file_handle \<Rightarrow> (fs_context \<Rightarrow> string \<Rightarrow> ('w, 'h) op) \<Rightarrow> fs_context \<Rightarrow> string \<Rightarrow> ('w, metadata) op" where
  "stat_by_open fh opn ctx name =
     obind (opn ctx name) (\<lambda>f. scoped f (
     obind (attempt (fh_stat fh)) (\<lambda>st.
     obind (discard (fh_close fh)) (\<lambda>_.
     of_attempt st))))"

definition task_ops ::
    "('r, 's, 'h) task_table \<Rightarrow> (('r, 's, 'h, 'd) task_world, 'd) driver_methods \<Rightarrow> nat
      \<Rightarrow> (('r, 's, 'h, 'd) task_world, ('r, 'h) task_file) filesystem" where
  "task_ops tbl D t =
     with_defaults (task_handle tbl D) (task_open tbl t) (stat_by_open (task_handle tbl D) (task_open tbl t))
       (\<lambda>_. not_supported) (\<lambda>_ _. not_supported)"

section \<open>The file system of all tasks\<close>

definition taskfs_root_entries :: "('r, 's, 'h, 'd) task_world \<Rightarrow> dir_entry list" where
  "taskfs_root_entries w =
     map (\<lambda>d. dir_entry_new d (metadata_dir d 0x16D))
       (''new'' # bt_keys (tw_resources w) @ bt_keys (tw_aliases w))"

definition taskfs_open ::
    "('r, 's, 'h) task_table \<Rightarrow> fs_context \<Rightarrow> string \<Rightarrow> (('r, 's, 'h, 'd) task_world, ('r, 'h) task_file) op" where
  "taskfs_open tbl ctx name =
     (if \<not> valid_path name then throw (Fail (Path ''open'' name NotFound))
      else
        (let name = clean_path name in
         if name = ''.'' then gets (\<lambda>w. TaskDir (dir_file_new (metadata_dir ''.'' 0x16D) (taskfs_root_entries w)))
         else if name = ''new'' then gets (\<lambda>w. TaskDir (dir_file_new (metadata_dir ''new'' 0x16D) (new_dir_entries w)))
         else case strip_prefix ''new/'' name of
           Some kind \<Rightarrow> ret (TaskNew \<lparr>nt_kind = kind, nt_data = None, nt_offset = 0\<rparr>)
         | None \<Rightarrow>
             (let (head, rest) = (case split_once slash name of Some p \<Rightarrow> p | None \<Rightarrow> (name, ''.'')) in
              obind (task_lookup head) (\<lambda>t. task_open tbl t ctx rest))))"

definition taskfs_ops ::
    "('r, 's, 'h) task_table \<Rightarrow> (('r, 's, 'h, 'd) task_world, 'd) driver_methods
      \<Rightarrow> (('r, 's, 'h, 'd) task_world, ('r, 'h) task_file) filesystem" where
  "taskfs_ops tbl D =
     with_defaults (task_handle tbl D) (taskfs_open tbl) (stat_by_open (task_handle tbl D) (taskfs_open tbl))
       (\<lambda>_. not_supported) (\<lambda>_ _. not_supported)"

end
