(* ===== verification/Pipes_Laws.thy ===== *)
theory Pipes_Laws
  imports Pipes
begin

text \<open>
  What the synthetic files promise. A byte queue is anything whose steps append at one end and take
  from the other; a pipe in each direction and the buffer of each reader of a signal file are byte
  queues, so no byte is lost, doubled or reordered in any interleaving of the calls.
\<close>

section \<open>Byte queues\<close>

inductive steps :: "('e \<Rightarrow> 's \<Rightarrow> 's \<Rightarrow> bool) \<Rightarrow> 'e list \<Rightarrow> 's \<Rightarrow> 's \<Rightarrow> bool" for step where
  steps_nil: "steps step [] s s"
| steps_snoc: "steps step es s s' \<Longrightarrow> step e s' s'' \<Longrightarrow> steps step (es @ [e]) s s''"

inductive_simps steps_nil_iff [simp]: "steps step [] s s'"
inductive_simps steps_snoc_iff: "steps step (es @ [e]) s s''"

lemma steps_keep:
  assumes "steps step es s s'" "P s" "\<And>e t t'. step e t t' \<Longrightarrow> P t \<Longrightarrow> P t'"
  shows "P s'"
  using assms(1,2) by (induction rule: steps.induct) (auto intro: assms(3))

locale byte_queue =
  fixes step :: "'e \<Rightarrow> 's \<Rightarrow> 's \<Rightarrow> bool"
    and good :: "'s \<Rightarrow> bool"
    and sent got :: "'e \<Rightarrow> bytes"
    and buffered :: "'s \<Rightarrow> bytes"
  assumes good_step: "step e s s' \<Longrightarrow> good s \<Longrightarrow> good s'"
    and queue_step: "step e s s' \<Longrightarrow> good s \<Longrightarrow> buffered s @ sent e = got e @ buffered s'"
begin

lemma queue_run:
  assumes "steps step es s s'" "good s"
  shows "good s' \<and> buffered s @ concat (map sent es) = concat (map got es) @ buffered s'"
  using assms
proof (induction rule: steps.induct)
  case (steps_snoc es s s' e s'')
  then have IH: "good s'" "buffered s @ concat (map sent es) = concat (map got es) @ buffered s'"
    by simp_all
  have "buffered s @ concat (map sent (es @ [e])) = concat (map got es) @ (buffered s' @ sent e)"
    using IH(2) by (simp flip: append_assoc)
  also have "\<dots> = concat (map got (es @ [e])) @ buffered s''"
    using queue_step [OF steps_snoc.hyps(2) IH(1)] by simp
  finally show ?case using good_step [OF steps_snoc.hyps(2) IH(1)] by blast
qed simp

end

section \<open>Fields and control files\<close>

fun write_chunks :: "('s, 'h) file_handle \<Rightarrow> bytes list \<Rightarrow> ('h \<times> 's, unit) op" where
  "write_chunks fh [] = ret ()"
| "write_chunks fh (d # ds) = obind (fh_write fh d) (\<lambda>_. write_chunks fh ds)"

lemma field_write_chunks:
  "ff_writable f \<Longrightarrow>
     write_chunks field_file_handle ds (h, f) = (Ok (), (h\<lparr>fd_dirty := fd_dirty h @ concat ds\<rparr>, f))"
  by (induction ds arbitrary: h) (simp_all add: field_file_handle_def field_handle_write_def obind_def)

lemma control_write_chunks:
  "write_chunks (control_handle cname cb) ds (buf, s) = (Ok (), (buf @ concat ds, s))"
  by (induction ds arbitrary: buf) (simp_all add: control_handle_def control_write_def obind_def)

lemma read_from_all: "length data \<le> n \<Longrightarrow> read_from data 0 n = data"
  by (simp add: read_from_def)

lemma field_read_file:
  assumes "length (ff_value f) < 8192"
  shows "read_file (Suc (Suc n)) field_ops ''.'' f = (Ok (as_bytes (ff_value f @ [newline])), f)"
proof -
  let ?d = "as_bytes (ff_value f @ [newline])"
  have len: "length ?d \<le> 8192" "?d \<noteq> []" using assms by (auto simp: as_bytes_def)
  have unat: "unat (of_nat (length ?d) :: u64) = length ?d"
    by (subst unat_of_nat, rule mod_less) (use len in simp)
  have "field_handle_read 8192 (\<lparr>fd_data = ?d, fd_offset = 0, fd_dirty = []\<rparr>, f) =
      (Ok ?d, (\<lparr>fd_data = ?d, fd_offset = of_nat (length ?d), fd_dirty = []\<rparr>, f))"
    using len by (simp add: field_handle_read_def Let_def read_from_all del: as_bytes_append)
  moreover have "field_handle_read 8192 (\<lparr>fd_data = ?d, fd_offset = of_nat (length ?d), fd_dirty = []\<rparr>, f) =
      (Ok [], (\<lparr>fd_data = ?d, fd_offset = of_nat (length ?d), fd_dirty = []\<rparr>, f))"
    using unat by (simp add: field_handle_read_def Let_def read_from_def del: as_bytes_append)
  ultimately show ?thesis
    using len unfolding read_file_def open_path_def field_ops_def with_defaults_def field_file_handle_def
    by (simp add: field_open_def self_only_def obind_def scoped_def discard_def attempt_def
          field_handle_close_def del: as_bytes_append)
qed


text \<open>
  What is written to a writable field in any number of pieces and then closed is what the field
  reads as afterwards: its text without the white space around it, and a newline.
\<close>
lemma field_roundtrip:
  assumes "ff_writable f" "concat ds \<noteq> []"
    and "val = str_trim (from_utf8_lossy (concat ds))" "length val < 8192"
  shows "obind (obind (open_path field_ops ''.'') (\<lambda>h. scoped h (
           obind (write_chunks (fs_file field_ops) ds) (\<lambda>_. fh_close (fs_file field_ops)))))
         (\<lambda>_. read_file (Suc (Suc n)) field_ops ''.'') f
       = (Ok (as_bytes (val @ [newline])), f\<lparr>ff_value := val\<rparr>)"
proof -
  let ?h = "\<lparr>fd_data = as_bytes (ff_value f @ [newline]), fd_offset = 0, fd_dirty = []\<rparr>"
  have opened: "open_path field_ops ''.'' f = (Ok ?h, f)"
    by (simp add: open_path_def field_ops_def with_defaults_def field_open_def self_only_def)
  have fh: "fs_file field_ops = field_file_handle" by (simp add: field_ops_def with_defaults_def)
  have written: "write_chunks field_file_handle ds (?h, f) = (Ok (), (?h\<lparr>fd_dirty := concat ds\<rparr>, f))"
    using field_write_chunks [OF assms(1), of ds ?h] by simp
  have closed: "fh_close field_file_handle (?h\<lparr>fd_dirty := concat ds\<rparr>, f) =
      (Ok (), (?h\<lparr>fd_dirty := concat ds\<rparr>, f\<lparr>ff_value := val\<rparr>))"
    using assms(1-3) by (simp add: field_file_handle_def field_handle_close_def field_set_def)
  have "(obind (open_path field_ops ''.'') (\<lambda>h. scoped h (
      obind (write_chunks (fs_file field_ops) ds) (\<lambda>_. fh_close (fs_file field_ops))))) f =
      (Ok (), f\<lparr>ff_value := val\<rparr>)"
    using opened written closed by (simp add: scoped_def fh)
  then show ?thesis using field_read_file [of "f\<lparr>ff_value := val\<rparr>" n] assms(4) by simp
qed

lemma control_runs:
  "obind (open_path (control_ops cname cb) ''.'') (\<lambda>h. scoped h (
     obind (write_chunks (fs_file (control_ops cname cb)) ds) (\<lambda>_. fh_close (fs_file (control_ops cname cb))))) s =
   (if str_trim (from_utf8_lossy (concat ds)) = [] then (Ok (), s)
    else cb (str_trim (from_utf8_lossy (concat ds))) s)"
proof -
  have fh: "fs_file (control_ops cname cb) = control_handle cname cb"
    by (simp add: control_ops_def with_defaults_def)
  have opened: "open_path (control_ops cname cb) ''.'' s = (Ok [], s)"
    by (simp add: open_path_def control_ops_def with_defaults_def control_open_def self_only_def)
  have "write_chunks (control_handle cname cb) ds ([], s) = (Ok (), (concat ds, s))"
    by (simp add: control_write_chunks)
  then show ?thesis
    using opened unfolding fh
    by (cases "cb (str_trim (from_utf8_lossy (concat ds))) s")
       (simp add: scoped_def control_handle_def control_close_def Let_def)
qed

section \<open>Pipes\<close>

datatype pipe_event = Wrote pipe_port bytes | Refused pipe_port error | Got pipe_port bytes | ShutDown pipe_port

text \<open>The calls of any number of threads on any ports; a read that has to wait is not a step.\<close>

inductive pipe_step :: "pipe_event \<Rightarrow> pipe_heap \<Rightarrow> pipe_heap \<Rightarrow> bool" where
  step_write: "fh_write port_handle d (p, s) = (Ok n, (p', s')) \<Longrightarrow> pipe_step (Wrote p d) s s'"
| step_refuse: "fh_write port_handle d (p, s) = (Err e, (p', s')) \<Longrightarrow> pipe_step (Refused p e) s s'"
| step_read: "fh_read port_handle n (p, s) = (Ok d, (p', s')) \<Longrightarrow> pipe_step (Got p d) s s'"
| step_close: "fh_close port_handle (p, s) = (Ok (), (p', s')) \<Longrightarrow> pipe_step (ShutDown p) s s'"

definition sent_to :: "nat \<Rightarrow> pipe_event \<Rightarrow> bytes" where
  "sent_to b e = (case e of Wrote p d \<Rightarrow> if pp_writer p = b then d else [] | _ \<Rightarrow> [])"

definition got_from :: "nat \<Rightarrow> pipe_event \<Rightarrow> bytes" where
  "got_from b e = (case e of Got p d \<Rightarrow> if pp_reader p = b then d else [] | _ \<Rightarrow> [])"

lemma port_handle_simps [simp]:
  "fh_read port_handle = port_read" "fh_write port_handle = port_write" "fh_close port_handle = port_close"
  by (simp_all add: port_handle_def)

lemma ph_bufs_upd_pipe [simp]:
  "ph_bufs (upd_pipe b f s) c = (if c = b then f (ph_bufs s b) else ph_bufs s c)"
  by (simp add: upd_pipe_def)

lemma port_read_Ok:
  assumes "port_read n (p, s) = (Ok d, (p', s'))"
  shows "pb_data (ph_bufs s (pp_reader p)) = d @ pb_data (ph_bufs s' (pp_reader p))"
    and "c \<noteq> pp_reader p \<Longrightarrow> ph_bufs s' c = ph_bufs s c"
    and "pb_closed (ph_bufs s' c) = pb_closed (ph_bufs s c)"
  using assms by (auto simp: port_read_def pipe_read_def Let_def split: if_splits)

lemma pipe_step_queue:
  assumes "pipe_step e s s'"
  shows "pb_data (ph_bufs s b) @ sent_to b e = got_from b e @ pb_data (ph_bufs s' b)"
  using assms
proof cases
  case (step_read n p d p')
  then show ?thesis
    using port_read_Ok(1,2) [of n p s d p' s'] by (cases "b = pp_reader p") (auto simp: sent_to_def got_from_def)
qed (auto simp: sent_to_def got_from_def port_write_def port_close_def split: if_splits)

lemma pipe_step_closed:
  "pipe_step e s s' \<Longrightarrow> pb_closed (ph_bufs s' b) \<longleftrightarrow> pb_closed (ph_bufs s b) \<or> (\<exists>p. e = ShutDown p \<and> pp_writer p = b)"
  by (erule pipe_step.cases) (auto simp: port_read_Ok(3) port_write_def port_close_def split: if_splits)

interpretation pipe: byte_queue pipe_step "\<lambda>_. True" "sent_to b" "got_from b" "\<lambda>s. pb_data (ph_bufs s b)" for b
  by unfold_locales (simp_all add: pipe_step_queue)

lemma pipe_pair_new:
  assumes "pipe_pair blocking s0 = (Ok (a, b), s)"
  shows "pp_writer a = pp_reader b" "pp_writer b = pp_reader a" "pp_reader a \<noteq> pp_reader b"
    and "ph_bufs s (pp_reader a) = pipe_buffer_new blocking" "ph_bufs s (pp_reader b) = pipe_buffer_new blocking"
  using assms by (auto simp: pipe_pair_def alloc_pipe_def obind_def)

lemma pipe_fifo:
  assumes "pipe_pair blocking s0 = (Ok (a, b), s)" "steps pipe_step es s s'"
  shows "concat (map (sent_to (pp_writer a)) es)
           = concat (map (got_from (pp_reader b)) es) @ pb_data (ph_bufs s' (pp_reader b)) \<and>
         concat (map (sent_to (pp_writer b)) es)
           = concat (map (got_from (pp_reader a)) es) @ pb_data (ph_bufs s' (pp_reader a))"
  using pipe.queue_run [OF assms(2), of "pp_reader b"] pipe.queue_run [OF assms(2), of "pp_reader a"]
    pipe_pair_new [OF assms(1)] by (simp add: pipe_buffer_new_def)

lemma pipe_steps_closed:
  "steps pipe_step es s s' \<Longrightarrow>
     pb_closed (ph_bufs s' b) \<longleftrightarrow> pb_closed (ph_bufs s b) \<or> (\<exists>p. ShutDown p \<in> set es \<and> pp_writer p = b)"
  by (induction rule: steps.induct) (auto simp: pipe_step_closed)

lemma closed_port_read_all:
  assumes "pb_closed (ph_bufs s (pp_reader p))"
  shows "length (pb_data (ph_bufs s (pp_reader p))) < fuel \<Longrightarrow>
    \<exists>s'. read_file_loop fuel port_handle out (p, s) = (Ok (out @ pb_data (ph_bufs s (pp_reader p))), (p, s')) \<and>
         (\<forall>c. pb_closed (ph_bufs s' c) = pb_closed (ph_bufs s c))"
  using assms
proof (induction fuel arbitrary: out s)
  case (Suc fuel)
  let ?b = "ph_bufs s (pp_reader p)"
  show ?case
  proof (cases "pb_data ?b = []")
    case True
    then have "port_read 8192 (p, s) = (Ok [], (p, s))" using Suc.prems
      by (simp add: port_read_def pipe_read_def must_wait_def Let_def)
    then show ?thesis using True by (auto simp: obind_def attempt_def)
  next
    case False
    let ?n = "min 8192 (length (pb_data ?b))"
    let ?s = "upd_pipe (pp_reader p) (\<lambda>b. b\<lparr>pb_data := drop ?n (pb_data b)\<rparr>) s"
    have rd: "port_read 8192 (p, s) = (Ok (take ?n (pb_data ?b)), (p, ?s))" using Suc.prems False
      by (simp add: port_read_def pipe_read_def must_wait_def Let_def)
    have "0 < length (pb_data ?b)" using False by simp
    then have "length (pb_data (ph_bufs ?s (pp_reader p))) < fuel" "pb_closed (ph_bufs ?s (pp_reader p))"
      using Suc.prems by (simp_all add: min_def, arith)
    from Suc.IH [OF this, of "out @ take ?n (pb_data ?b)"] obtain s' where
      "read_file_loop fuel port_handle (out @ take ?n (pb_data ?b)) (p, ?s) = (Ok (out @ pb_data ?b), (p, s'))"
      "\<forall>c. pb_closed (ph_bufs s' c) = pb_closed (ph_bufs s c)"
      by auto
    moreover have "take ?n (pb_data ?b) \<noteq> []" using False by simp
    ultimately show ?thesis using rd by (auto simp: obind_def attempt_def upd_pipe_def)
  qed
qed simp

lemma pipe_drains:
  assumes "pipe_pair blocking s0 = (Ok (a, b), s)" "steps pipe_step es s s'" "ShutDown a \<in> set es"
  shows "\<exists>rest fuel s''. read_file_loop fuel port_handle [] (b, s') = (Ok rest, (b, s'')) \<and>
      concat (map (sent_to (pp_writer a)) es) = concat (map (got_from (pp_reader b)) es) @ rest \<and>
      port_write d (a, s'') = (Err (Kind Closed), (a, s''))"
proof -
  let ?data = "pb_data (ph_bufs s' (pp_reader b))"
  have new: "pp_writer a = pp_reader b" using pipe_pair_new [OF assms(1)] by simp
  then have closed: "pb_closed (ph_bufs s' (pp_reader b))"
    using pipe_steps_closed [OF assms(2), of "pp_reader b"] assms(3) by metis
  from closed_port_read_all [where s = s' and p = b and fuel = "Suc (length ?data)" and out = "[]"] closed
  obtain s'' where
    "read_file_loop (Suc (length ?data)) port_handle [] (b, s') = (Ok ?data, (b, s''))"
    "\<forall>c. pb_closed (ph_bufs s'' c) = pb_closed (ph_bufs s' c)"
    by auto
  moreover have "port_write d (a, s'') = (Err (Kind Closed), (a, s''))"
    using closed new calculation(2) by (simp add: port_write_def)
  ultimately show ?thesis using pipe_fifo [OF assms(1,2)] by blast
qed

text \<open>
  C33. A pipe delivers what is written to it: whatever calls any number of threads make on the two ends
  and their clones, in any order, the bytes written at one end are the bytes read at the other followed
  by those still in the buffer. Once the writing end is closed, reading the other end to its end of
  file returns, also where a read would otherwise block, and then every byte has arrived and a further
  write is refused.
\<close>
theorem pipe_delivers:
  assumes "pipe_pair blocking s0 = (Ok (a, b), s)" "steps pipe_step es s s'"
  shows "concat (map (sent_to (pp_writer a)) es)
           = concat (map (got_from (pp_reader b)) es) @ pb_data (ph_bufs s' (pp_reader b)) \<and>
    (ShutDown a \<in> set es \<longrightarrow> (\<exists>rest fuel s''. read_file_loop fuel port_handle [] (b, s') = (Ok rest, (b, s'')) \<and>
      concat (map (sent_to (pp_writer a)) es) = concat (map (got_from (pp_reader b)) es) @ rest \<and>
      port_write d (a, s'') = (Err (Kind Closed), (a, s''))))"
  using pipe_fifo [OF assms] pipe_drains [OF assms] by blast

lemma pipe_stepI:
  "fst (port_write d (p, s)) = Ok n \<Longrightarrow> pipe_step (Wrote p d) s (snd (snd (port_write d (p, s))))"
  "fst (port_read n (p, s)) = Ok d \<Longrightarrow> pipe_step (Got p d) s (snd (snd (port_read n (p, s))))"
  "fst (port_close (p, s)) = Ok () \<Longrightarrow> pipe_step (ShutDown p) s (snd (snd (port_close (p, s))))"
  by (auto intro!: pipe_step.intros prod_eqI)

definition demo_near :: pipe_port where "demo_near = \<lparr>pp_reader = 0, pp_writer = 1\<rparr>"
definition demo_far :: pipe_port where "demo_far = \<lparr>pp_reader = 1, pp_writer = 0\<rparr>"

definition demo_pipe :: pipe_heap where "demo_pipe = snd (pipe_pair True pipe_heap_new)"
definition demo_pipe1 :: pipe_heap where "demo_pipe1 = snd (snd (port_write [1, 2] (demo_near, demo_pipe)))"
definition demo_pipe2 :: pipe_heap where "demo_pipe2 = snd (snd (port_read 1 (demo_far, demo_pipe1)))"
definition demo_pipe3 :: pipe_heap where "demo_pipe3 = snd (snd (port_close (demo_near, demo_pipe2)))"

lemma demo_pipe_steps:
  "steps pipe_step [Wrote demo_near [1, 2], Got demo_far [1], ShutDown demo_near] demo_pipe demo_pipe3"
proof -
  have "fst (port_write [1, 2] (demo_near, demo_pipe)) = Ok 2" "fst (port_read 1 (demo_far, demo_pipe1)) = Ok [1]"
    "fst (port_close (demo_near, demo_pipe2)) = Ok ()"
    by code_simp+
  then have w: "pipe_step (Wrote demo_near [1, 2]) demo_pipe demo_pipe1"
    and r: "pipe_step (Got demo_far [1]) demo_pipe1 demo_pipe2"
    and c: "pipe_step (ShutDown demo_near) demo_pipe2 demo_pipe3"
    unfolding demo_pipe1_def demo_pipe2_def demo_pipe3_def by (blast intro: pipe_stepI)+
  have "steps pipe_step ((([] @ [Wrote demo_near [1, 2]]) @ [Got demo_far [1]]) @ [ShutDown demo_near]) demo_pipe demo_pipe3"
    by (intro steps_snoc [where step = pipe_step, OF _ c] steps_snoc [where step = pipe_step, OF _ r]
          steps_snoc [where step = pipe_step, OF _ w] steps_nil)
  then show ?thesis by simp
qed

theorem pipe_delivers_witness:
  "\<exists>fuel s''. read_file_loop fuel port_handle [] (demo_far, demo_pipe3) = (Ok [2], (demo_far, s''))"
proof -
  have "fst (pipe_pair True pipe_heap_new) = Ok (demo_near, demo_far)" by code_simp
  then have "pipe_pair True pipe_heap_new = (Ok (demo_near, demo_far), demo_pipe)"
    by (simp add: demo_pipe_def prod_eq_iff)
  note delivered = conjunct2 [OF pipe_delivers [OF this demo_pipe_steps, of "[]"]]
  then obtain rest fuel s'' where
    run: "read_file_loop fuel port_handle [] (demo_far, demo_pipe3) = (Ok rest, (demo_far, s''))"
    and all: "concat (map (sent_to (pp_writer demo_near)) [Wrote demo_near [1, 2], Got demo_far [1], ShutDown demo_near]) =
      concat (map (got_from (pp_reader demo_far)) [Wrote demo_near [1, 2], Got demo_far [1], ShutDown demo_near]) @ rest"
    by (metis list.set_intros)
  from all have "rest = [2]" by (simp add: sent_to_def got_from_def demo_near_def demo_far_def)
  with run show ?thesis by blast
qed

section \<open>Signals\<close>

datatype signal_event = Opened | Signalled bytes | Heard nat bytes

inductive signal_step :: "signal_event \<Rightarrow> signalfs \<Rightarrow> signalfs \<Rightarrow> bool" where
  step_open: "fs_open signal_ops ctx name s = (r, s') \<Longrightarrow> signal_step Opened s s'"
| step_stat: "fs_stat signal_ops ctx name s = (r, s') \<Longrightarrow> signal_step Opened s s'"
| step_signal: "fh_write signal_handle d (h, s) = (Ok n, (h', s')) \<Longrightarrow> signal_step (Signalled d) s s'"
| step_hear: "fh_read signal_handle n (h, s) = (Ok d, (h', s')) \<Longrightarrow> signal_step (Heard h d) s s'"

definition signal_inv :: "signalfs \<Rightarrow> bool" where
  "signal_inv s \<longleftrightarrow> distinct (sg_subscribers s) \<and> (\<forall>b \<in> set (sg_subscribers s). b < ph_next s) \<and>
     (\<forall>b. \<not> pb_closed (ph_bufs s b))"

definition signal_sent :: "signal_event \<Rightarrow> bytes" where
  "signal_sent e = (case e of Signalled d \<Rightarrow> d | _ \<Rightarrow> [])"

definition signal_heard :: "nat \<Rightarrow> signal_event \<Rightarrow> bytes" where
  "signal_heard b e = (case e of Heard h d \<Rightarrow> if h = b then d else [] | _ \<Rightarrow> [])"

lemma signalfs_new_inv: "signal_inv signalfs_new"
  by (simp add: signal_inv_def signalfs_new_def pipe_heap_new_def pipe_heap.defs pipe_buffer_new_def)

lemma signal_one_run:
  assumes "\<forall>b. \<not> pb_closed (ph_bufs s b)"
  shows "ph_bufs (signal_one d c s) e =
      (if e = c then (ph_bufs s c)\<lparr>pb_data := pb_data (ph_bufs s c) @ d\<rparr> else ph_bufs s e)"
    and "ph_next (signal_one d c s) = ph_next s" and "sg_subscribers (signal_one d c s) = sg_subscribers s"
  using assms by (auto simp: signal_one_def upd_pipe_def)

lemma fold_signal:
  assumes "\<forall>b. \<not> pb_closed (ph_bufs s b)" "distinct bs"
  shows "ph_bufs (fold (signal_one d) bs s) b =
      (if b \<in> set bs then (ph_bufs s b)\<lparr>pb_data := pb_data (ph_bufs s b) @ d\<rparr> else ph_bufs s b) \<and>
    ph_next (fold (signal_one d) bs s) = ph_next s \<and>
    sg_subscribers (fold (signal_one d) bs s) = sg_subscribers s"
  using assms
proof (induction bs arbitrary: s)
  case (Cons c bs)
  then show ?case using Cons.IH [of "signal_one d c s"] by (auto simp: signal_one_run)
qed simp

text \<open>What a step that moves no byte of the subscribers in \<open>B\<close> keeps.\<close>

definition signal_ext :: "nat set \<Rightarrow> bytes \<Rightarrow> signalfs \<Rightarrow> bool" where
  "signal_ext B data s \<longleftrightarrow>
     signal_inv s \<and> (\<forall>b \<in> B. b \<in> set (sg_subscribers s) \<and> pb_data (ph_bufs s b) = data)"

lemma signal_open_ext: "keeps (signal_ext B data) (signal_open ctx name)"
  by (auto simp: keeps_def signal_ext_def signal_inv_def signal_open_def alloc_pipe_def obind_def pipe_buffer_new_def
      less_Suc_eq split: if_splits)

lemma signal_handle_ext:
  "hkeeps P (fh_stat (dir_or_handle (signal_handle :: ('a signalfs_scheme, nat) file_handle)))"
  "hkeeps P (fh_close (dir_or_handle (signal_handle :: ('a signalfs_scheme, nat) file_handle)))"
  by (auto simp: keeps_def dir_or_handle_def dir_or_dispatch_def signal_handle_def signal_stat_def dir_file_handle_def
      dir_file_stat_def default_close_def split: dir_or.splits)

lemma signal_stat_ext: "keeps (signal_ext B data) (fs_stat signal_ops ctx name)"
  unfolding signal_ops_def with_defaults_def
  by (simp add: default_stat_def) (intro keeps_intros signal_open_ext signal_handle_ext)

lemma signal_write_ext:
  assumes "signal_write d (h, s) = (Ok n, (h', s'))" "signal_ext B data s"
  shows "signal_ext B (data @ d) s'"
proof -
  have "\<forall>b. \<not> pb_closed (ph_bufs s b)" "distinct (sg_subscribers s)"
    using assms(2) by (simp_all add: signal_ext_def signal_inv_def)
  from fold_signal [OF this] assms show ?thesis
    by (auto simp: signal_write_def signal_ext_def signal_inv_def split: if_splits)
qed

lemma signal_read_ext:
  assumes "signal_read n (h, s) = (Ok d, (h', s'))" "signal_ext B data s"
  shows "signal_inv s' \<and>
    (\<forall>b \<in> B. b \<in> set (sg_subscribers s') \<and> data = signal_heard b (Heard h d) @ pb_data (ph_bufs s' b))"
  using assms
  by (auto simp: signal_read_def port_read_def pipe_read_def Let_def signal_ext_def signal_inv_def signal_heard_def
      upd_pipe_def split: if_splits prod.splits)

lemma signal_step_ext:
  assumes "signal_step e s s'" "signal_ext B data s"
  shows "signal_inv s' \<and>
    (\<forall>b \<in> B. b \<in> set (sg_subscribers s') \<and> data @ signal_sent e = signal_heard b e @ pb_data (ph_bufs s' b))"
  using assms(1)
proof cases
  case (step_open ctx name r)
  then show ?thesis using keepsD [OF signal_open_ext assms(2), of ctx name r s']
    by (simp add: signal_ext_def signal_sent_def signal_heard_def signal_ops_def with_defaults_def)
next
  case (step_stat ctx name r)
  then show ?thesis using keepsD [OF signal_stat_ext assms(2), of ctx name r s']
    by (simp add: signal_ext_def signal_sent_def signal_heard_def)
next
  case (step_signal d h n h')
  then show ?thesis using signal_write_ext [OF _ assms(2), of d h n h' s']
    by (simp add: signal_ext_def signal_sent_def signal_heard_def signal_handle_def)
next
  case (step_hear n h d h')
  then show ?thesis using signal_read_ext [OF _ assms(2), of n h d h' s']
    by (simp add: signal_sent_def signal_handle_def)
qed

lemma signal_step_inv: "signal_step e s s' \<Longrightarrow> signal_inv s \<Longrightarrow> signal_inv s'"
  using signal_step_ext [of e s s' "{}"] by (simp add: signal_ext_def)

interpretation signals: byte_queue signal_step "\<lambda>s. signal_inv s \<and> b \<in> set (sg_subscribers s)"
  signal_sent "signal_heard b" "\<lambda>s. pb_data (ph_bufs s b)" for b
proof unfold_locales
  fix e s s'
  assume "signal_step e s s'" "signal_inv s \<and> b \<in> set (sg_subscribers s)"
  then have "signal_inv s' \<and> b \<in> set (sg_subscribers s') \<and>
      pb_data (ph_bufs s b) @ signal_sent e = signal_heard b e @ pb_data (ph_bufs s' b)"
    using signal_step_ext [of e s s' "{b}" "pb_data (ph_bufs s b)"] by (simp add: signal_ext_def)
  then show "signal_inv s' \<and> b \<in> set (sg_subscribers s')"
    "pb_data (ph_bufs s b) @ signal_sent e = signal_heard b e @ pb_data (ph_bufs s' b)" by blast+
qed

text \<open>
  C34. A signal reaches every reader once and in order: from the moment a reader has opened the signal
  file, whatever is opened, asked for, signalled and read by anyone in any order, the bytes signalled
  are the bytes this reader has read followed by those waiting for it.
\<close>
theorem signal_broadcast:
  assumes "steps signal_step earlier signalfs_new s0" "fs_open signal_ops ctx ''data'' s0 = (Ok (OfFile b), s)"
    and "steps signal_step es s s'"
  shows "concat (map signal_sent es) = concat (map (signal_heard b) es) @ pb_data (ph_bufs s' b)"
proof -
  have "signal_inv s0" using assms(1) signalfs_new_inv signal_step_inv by (rule steps_keep)
  then have "signal_inv s \<and> b \<in> set (sg_subscribers s)" "pb_data (ph_bufs s b) = []"
    using assms(2) by (auto simp: signal_ops_def with_defaults_def signal_open_def alloc_pipe_def obind_def
        signal_inv_def pipe_buffer_new_def less_Suc_eq split: if_splits)
  then show ?thesis using signals.queue_run [OF assms(3), of b] by simp
qed

lemma signal_writeI:
  "fst (signal_write d (h, s)) = Ok n \<Longrightarrow> signal_step (Signalled d) s (snd (snd (signal_write d (h, s))))"
  by (auto intro!: step_signal prod_eqI simp: signal_handle_def)

theorem signal_broadcast_witness:
  "let s = snd (signal_open context_new ''data'' signalfs_new) in
     pb_data (ph_bufs (snd (snd (signal_write [5, 6] (0, s)))) 0) = [5, 6]"
proof -
  let ?s = "snd (signal_open context_new ''data'' signalfs_new)"
  have "fst (signal_write [5, 6] (0, ?s)) = Ok 2" "fst (signal_open context_new ''data'' signalfs_new) = Ok (OfFile 0)"
    by code_simp+
  then have "signal_step (Signalled [5, 6]) ?s (snd (snd (signal_write [5, 6] (0, ?s))))"
    and opened: "fs_open signal_ops context_new ''data'' signalfs_new = (Ok (OfFile 0), ?s)"
    by (auto intro: signal_writeI simp: signal_ops_def with_defaults_def prod_eq_iff)
  from steps_snoc [where step = signal_step, OF steps_nil this(1)]
    signal_broadcast [OF steps_nil opened, of "[Signalled [5, 6]]"]
  show ?thesis by (fastforce simp: signal_sent_def signal_heard_def)
qed

lemma field_roundtrip_witness:
  "obind (obind (open_path field_ops ''.'') (\<lambda>h. scoped h (
       obind (write_chunks (fs_file field_ops) [as_bytes '' r'', as_bytes ''c '']) (\<lambda>_. fh_close (fs_file field_ops)))))
     (\<lambda>_. read_file 2 field_ops ''.'') (field_writable ''cmd'' ''old'') =
   (Ok (as_bytes (''rc'' @ [newline])), field_writable ''cmd'' ''rc'')"
proof -
  have "str_trim (from_utf8_lossy (concat [as_bytes '' r'', as_bytes ''c ''])) = ''rc''" by code_simp
  moreover have "concat [as_bytes '' r'', as_bytes ''c ''] \<noteq> []" by (simp add: as_bytes_def)
  ultimately show ?thesis
    using field_roundtrip [of "field_writable ''cmd'' ''old''" "[as_bytes '' r'', as_bytes ''c '']" "''rc''" 0]
    by (simp add: field_writable_def numeral_2_eq_2)
qed

section \<open>Corners\<close>

text \<open>
  Asking a signal file for its metadata opens it, and nothing takes a reader off the list again: each
  \<open>stat\<close> leaves one more buffer that every later signal is copied to.
\<close>

lemma signal_stat_subscribes:
  "sg_subscribers (snd (obind (stat_path signal_ops ''data'') (\<lambda>_. stat_path signal_ops ''data'') signalfs_new)) = [0, 1]"
  by code_simp

text \<open>\<open>write_file\<close> truncates by creating the file again, which a field does not support.\<close>

lemma field_write_file_refused:
  "write_file field_ops ''.'' data p f = (Err (Kind NotSupported), f)"
proof -
  have "is_write (O_WRONLY OR O_CREATE OR O_TRUNC)" "flags_contains (O_WRONLY OR O_CREATE OR O_TRUNC) O_TRUNC"
    by code_simp+
  then show ?thesis
    by (simp add: write_file_def field_ops_def with_defaults_def default_open_file_def obind_def attempt_def
        field_open_def self_only_def scoped_def discard_def field_file_handle_def field_handle_close_def
        not_supported_def)
qed

end
