(* ===== verification/Task_Laws.thy ===== *)
theory Task_Laws
  imports Task_Fs Namespace_Memfs Pipes_Laws
begin

text \<open>
  The invariant of the table of tasks and that every operation keeps it, also through the files of the
  task file system and so for any 9P client it is exported to; what allocation, aliases, descriptors and
  forked namespaces promise; and two operations that do less than their names say.
\<close>

section \<open>The invariant\<close>

definition ref_below :: "nat \<Rightarrow> 'r task_ref \<Rightarrow> bool" where
  "ref_below k r = (case r of NsHandle _ j \<Rightarrow> j < k | Mounted _ \<Rightarrow> True)"

definition refs_below :: "nat \<Rightarrow> 'r task_ref bindings \<Rightarrow> bool" where
  "refs_below k b \<longleftrightarrow> (\<forall>(p, ts) \<in> set b. \<forall>t \<in> set ts. ref_below k (tg_fs t))"

definition table_ok :: "nat \<Rightarrow> 'r task_ref bindings \<Rightarrow> bool" where
  "table_ok k b \<longleftrightarrow> ns_inv b \<and> refs_below k b"

definition task_ok :: "nat \<Rightarrow> ('r, 'h, 'd) task_inner \<Rightarrow> bool" where
  "task_ok t ti \<longleftrightarrow> (\<forall>p. ti_parent ti = Some p \<longrightarrow> p < t) \<and> bt_ok (ft_files (ti_fds ti))"

definition task_inv :: "('r, 's, 'h, 'd) task_world \<Rightarrow> bool" where
  "task_inv w \<longleftrightarrow>
     bt_ok (tw_resources w) \<and> bt_ok (tw_aliases w) \<and> bt_get (tw_aliases w) [] = None \<and>
     (\<forall>k t. bt_get (tw_resources w) k = Some t \<longrightarrow> t < tw_next_task w \<and> task_id t w = k) \<and>
     (\<forall>t < tw_next_task w. task_ns t w < tw_next_ns w) \<and>
     (\<forall>t. task_ok t (tw_tasks w t)) \<and> (\<forall>n. table_ok (tw_next_ref w) (tw_ns w n))"

lemma taskfs_new_inv: "task_inv (taskfs_new s)"
  by (simp add: task_inv_def taskfs_new_def register_driver_def task_ok_def table_ok_def ns_inv_new [unfolded ns_new_def] refs_below_def ns_new_def)

lemma refs_below_insert:
  assumes "refs_below k b" "\<forall>t \<in> set ts. ref_below k (tg_fs t)"
  shows "refs_below k (bt_insert p ts b)"
  using assms set_bt_insert [of p ts b] by (fastforce simp: refs_below_def)

lemma refs_below_entry: "refs_below k b \<Longrightarrow> t \<in> set (entry_or_default p b) \<Longrightarrow> ref_below k (tg_fs t)"
  by (cases "bt_get b p") (auto simp: entry_or_default_def refs_below_def dest: map_of_SomeD)

lemma refs_below_get: "refs_below k b \<Longrightarrow> bt_get b p = Some ts \<Longrightarrow> t \<in> set ts \<Longrightarrow> ref_below k (tg_fs t)"
  by (auto simp: refs_below_def dest: map_of_SomeD)

lemma refs_below_add: "refs_below k b \<Longrightarrow> ref_below k (tg_fs t) \<Longrightarrow> refs_below k (add_target mode p t b)"
  by (cases mode) (auto simp: add_target_def intro!: refs_below_insert dest: refs_below_entry)

lemma refs_below_retain: "refs_below k b \<Longrightarrow> refs_below k (retain_targets keep p b)"
  by (auto simp: retain_targets_def bt_remove_def intro!: refs_below_insert dest: refs_below_get split: option.split)
     (auto simp: refs_below_def)

lemma table_ok_mono: "table_ok k b \<Longrightarrow> k \<le> j \<Longrightarrow> table_ok j b"
  by (fastforce simp: table_ok_def refs_below_def ref_below_def split: task_ref.splits)

lemma keeps_table_bind: "ref_below k r \<Longrightarrow> keeps (\<lambda>w. table_ok k (fst w)) (ns_bind tbl r src dst mode)"
  unfolding ns_bind_def Let_def
  by (intro keeps_intros) (auto simp: table_ok_def intro!: ns_inv_add refs_below_add)

lemma keeps_table_unbind: "keeps (\<lambda>w. table_ok k (fst w)) (ns_unbind r src dst)"
  unfolding ns_unbind_def Let_def
  by (intro keeps_intros) (auto simp: table_ok_def intro!: ns_inv_retain refs_below_retain)

section \<open>Operations keep it\<close>

lemma hkeepsD: "hkeeps P m \<Longrightarrow> P w \<Longrightarrow> m (h, w) = (r, (h', w')) \<Longrightarrow> P w'"
  using keepsD [of "\<lambda>x. P (snd x)" m "(h, w)" r "(h', w')"] by simp

lemma task_inv_upd_task:
  assumes "task_inv w"
    and "ti_parent (f (tw_tasks w t)) = ti_parent (tw_tasks w t)" "ti_id (f (tw_tasks w t)) = ti_id (tw_tasks w t)"
    and "ti_ns (f (tw_tasks w t)) = ti_ns (tw_tasks w t)"
    and "bt_ok (ft_files (ti_fds (tw_tasks w t))) \<Longrightarrow> bt_ok (ft_files (ti_fds (f (tw_tasks w t))))"
  shows "task_inv (upd_task t f w)"
  using assms by (auto simp: task_inv_def upd_task_def task_id_def task_ns_def task_ok_def)

lemma task_inv_upd_state [intro]: "task_inv w \<Longrightarrow> task_inv (upd_state t f w)"
  by (simp add: upd_state_def task_inv_upd_task)

lemma task_inv_upd_fds:
  "task_inv w \<Longrightarrow> (\<And>fds. bt_ok (ft_files fds) \<Longrightarrow> bt_ok (ft_files (f fds))) \<Longrightarrow> task_inv (upd_fds t f w)"
  by (simp add: upd_fds_def task_inv_upd_task)

lemma task_inv_sub [simp]: "task_inv (w\<lparr>tw_sub := s\<rparr>) = task_inv w"
  by (simp add: task_inv_def task_id_def task_ns_def)

lemma task_inv_next_id [simp]: "task_inv (w\<lparr>tw_next_id := i\<rparr>) = task_inv w"
  by (simp add: task_inv_def task_id_def task_ns_def)

lemma task_inv_drivers [simp]: "task_inv (w\<lparr>tw_drivers := d\<rparr>) = task_inv w"
  by (simp add: task_inv_def task_id_def task_ns_def)

lemma keeps_on_ns:
  assumes "\<And>k. keeps (\<lambda>w. table_ok k (fst w)) m"
  shows "keeps task_inv (on_ns n m)"
  unfolding keeps_def
proof (intro allI impI, goal_cases)
  case w: (1 w)
  then have "table_ok (tw_next_ref w) (fst (snd (m (tw_ns w n, tw_sub w))))"
    using keeps_fst [OF assms, of "tw_next_ref w" "(tw_ns w n, tw_sub w)"] by (simp add: task_inv_def)
  then show ?case
    using w by (auto simp: on_ns_def task_inv_def task_id_def task_ns_def split: prod.splits)
qed

lemma keeps_on_parts [keeps_intros]: "keeps task_inv (on_parts m)"
  by (auto simp: keeps_def on_parts_def split: prod.splits)

lemma keeps_on_box [keeps_intros]: "hkeeps task_inv (on_box m)"
  by (auto simp: keeps_def on_box_def split: prod.splits)

lemma keeps_setters [keeps_intros]:
  "keeps task_inv (set_worker v t)" "keeps task_inv (set_export k t)" "keeps task_inv (clear_export t)"
  "keeps task_inv (set_cmd v t)" "keeps task_inv (set_env vs t)" "keeps task_inv (set_dir v t)"
  "keeps task_inv (set_exit v t)"
  unfolding set_worker_def set_export_def clear_export_def set_cmd_def set_env_def set_dir_def set_exit_def
  by (intro keeps_modify; auto intro: task_inv_upd_task)+

lemma task_inv_next_ref: "task_inv w \<Longrightarrow> task_inv (w\<lparr>tw_next_ref := Suc (tw_next_ref w)\<rparr>)"
  by (auto simp: task_inv_def task_id_def task_ns_def intro: table_ok_mono)

lemma keeps_task_bind [keeps_intros]: "keeps task_inv (task_bind tbl src dst t)"
  unfolding keeps_def
proof (intro allI impI, goal_cases)
  case w: (1 w)
  let ?w = "w\<lparr>tw_next_ref := Suc (tw_next_ref w)\<rparr>"
  let ?n = "task_ns t ?w" and ?k = "NsHandle (task_ns t w) (tw_next_ref w)"
  have inv: "task_inv ?w" using w by (rule task_inv_next_ref)
  then have "table_ok (tw_next_ref ?w) (fst (snd (ns_bind tbl ?k src dst BindAfter (tw_ns ?w ?n, tw_sub ?w))))"
    by (intro keeps_fst [OF keeps_table_bind]) (auto simp: ref_below_def task_inv_def)
  then have "task_inv (snd (on_ns ?n (ns_bind tbl ?k src dst BindAfter) ?w))"
    using inv by (auto simp: on_ns_def task_inv_def task_id_def task_ns_def split: prod.splits)
  then show ?case
    by (simp add: task_bind_def own_ns_ref_def obind_def)
qed

lemma keeps_own_ns_ref [keeps_intros]: "keeps task_inv (own_ns_ref t)"
  by (auto simp: keeps_def own_ns_ref_def intro: task_inv_next_ref)

lemma keeps_task_unbind [keeps_intros]: "keeps task_inv (task_unbind src dst t)"
  unfolding task_unbind_def by (intro keeps_intros keeps_on_ns keeps_table_unbind)

lemma keeps_ns_open_at [keeps_intros]: "keeps task_inv (ns_open_at tbl t ctx name)"
  unfolding ns_open_at_def by (intro keeps_intros keeps_on_ns ns_methods_keep)

lemma keeps_fd_ops [keeps_intros]:
  "keeps task_inv (open_fd f path t)" "keeps task_inv (set_fd fd f path t)" "keeps task_inv (close_box tbl f)"
  "keeps task_inv (fd_path fd t)"
  unfolding open_fd_def set_fd_def close_box_def fd_path_def
  by (intro keeps_intros; simp add: task_inv_upd_fds)+

lemma keeps_with_fd_mut [keeps_intros]: "keeps task_inv (with_fd_mut what fd m t)"
  by (auto simp: keeps_def with_fd_mut_def intro!: task_inv_upd_fds split: option.split prod.splits)

lemma keeps_fd_tables [keeps_intros]:
  "keeps task_inv (clear_fds tbl t)" "keeps task_inv (reopen_fds_from tbl src t)"
  "keeps task_inv (close_fd tbl fd t)" "keeps task_inv (renumber_fd tbl fd to t)"
  unfolding clear_fds_def reopen_fds_from_def close_fd_def renumber_fd_def
  by (intro keeps_intros; simp add: task_inv_upd_fds)+

lemma keeps_update_alias [keeps_intros]: "keeps task_inv (update_alias t old new)"
  unfolding update_alias_def by (intro keeps_intros) (auto simp: task_inv_def task_id_def task_ns_def Let_def)

lemma keeps_set_field [keeps_intros]: "keeps task_inv (set_field name val t)"
  unfolding set_field_def by (intro keeps_intros task_inv_upd_state)

lemma keeps_field_value [keeps_intros]: "keeps task_inv (field_value name t)"
  unfolding field_value_def by (intro keeps_intros)

lemma keeps_register [keeps_intros]: "keeps task_inv (register_driver kind d)"
  unfolding register_driver_def by (intro keeps_intros) simp

section \<open>Allocation\<close>

lemma alloc_ns_inv: "table_ok (tw_next_ref w) b \<Longrightarrow> task_inv w \<Longrightarrow> task_inv (snd (alloc_ns b w))"
  by (auto simp: alloc_ns_def task_inv_def task_id_def task_ns_def less_SucI)

lemma table_ok_new: "table_ok k ns_new"
  by (simp add: table_ok_def ns_inv_new) (simp add: refs_below_def ns_new_def)

text \<open>
  Allocating with a known driver: the new task is the next address and the number of the task counter
  is the name it is found under. The other tasks and namespaces are untouched.
\<close>

definition fresh_task ::
    "u32 \<Rightarrow> string \<Rightarrow> 'd task_driver \<Rightarrow> nat option \<Rightarrow> nat \<Rightarrow> ('r, 'h, 'd) task_inner" where
  "fresh_task tid kind driver parent n =
     \<lparr>ti_driver = driver, ti_parent = parent, ti_ns = n, ti_id = tid,
      ti_state = \<lparr>ts_alias = [], ts_kind = kind, ts_cmd = [], ts_env = [], ts_exit = [], ts_dir = ''.''\<rparr>,
      ti_fds = \<lparr>ft_files = [], ft_next = 3\<rparr>, ti_worker = None, ti_export = None\<rparr>"

definition parent_bindings :: "nat option \<Rightarrow> ('r, 's, 'h, 'd) task_world \<Rightarrow> 'r task_ref bindings" where
  "parent_bindings parent w = (case parent of Some p \<Rightarrow> tw_ns w (task_ns p w) | None \<Rightarrow> ns_new)"

definition add_task ::
    "('r, 'h, 'd) task_inner \<Rightarrow> ('r, 's, 'h, 'd) task_world \<Rightarrow> ('r, 's, 'h, 'd) task_world" where
  "add_task ti w = w\<lparr>tw_tasks := (tw_tasks w)(tw_next_task w := ti), tw_next_task := Suc (tw_next_task w),
     tw_next_id := ti_id ti, tw_resources := bt_insert (show_nat (unat (ti_id ti))) (tw_next_task w) (tw_resources w)\<rparr>"

lemma alloc_run:
  assumes "bt_get (tw_drivers w) kind = Some driver"
  shows "alloc_with_parent_and_namespace kind parent (Some n) w =
      (Ok (tw_next_task w), add_task (fresh_task (tw_next_id w + 1) kind driver parent n) w)"
    and "alloc_with_parent_and_namespace kind parent None w =
      (Ok (tw_next_task w), add_task (fresh_task (tw_next_id w + 1) kind driver parent (tw_next_ns w))
         (snd (alloc_ns (parent_bindings parent w) w)))"
  using assms
  by (simp_all add: alloc_with_parent_and_namespace_def task_new_with_namespace_def task_new_def alloc_ns_def
      obind_def add_task_def fresh_task_def parent_bindings_def clone_namespace_def task_ns_def cong: option.case_cong)

lemma alloc_unknown:
  "bt_get (tw_drivers w) kind = None \<Longrightarrow> alloc_with_parent_and_namespace kind parent n w = (Err (Kind NotFound), w)"
  by (simp add: alloc_with_parent_and_namespace_def obind_def)

lemma add_task_inv:
  assumes "task_inv w" "task_ok (tw_next_task w) ti" "ti_ns ti < tw_next_ns w"
  shows "task_inv (add_task ti w)"
  using assms by (auto simp: task_inv_def add_task_def task_id_def task_ns_def less_Suc_eq)

lemma fresh_task_ok: "(\<And>p. parent = Some p \<Longrightarrow> p < t) \<Longrightarrow> task_ok t (fresh_task tid kind driver parent n)"
  by (simp add: task_ok_def fresh_task_def)

lemma parent_bindings_ok: "task_inv w \<Longrightarrow> table_ok (tw_next_ref w) (parent_bindings parent w)"
  by (auto simp: parent_bindings_def task_inv_def table_ok_new split: option.split)

lemma alloc_inv:
  assumes "task_inv w" "\<And>p. parent = Some p \<Longrightarrow> p < tw_next_task w" "\<And>m. n = Some m \<Longrightarrow> m < tw_next_ns w"
  shows "task_inv (snd (alloc_with_parent_and_namespace kind parent n w))"
proof (cases "bt_get (tw_drivers w) kind")
  case (Some driver)
  have inv: "task_inv (snd (alloc_ns (parent_bindings parent w) w))"
    using assms(1) by (intro alloc_ns_inv parent_bindings_ok)
  have new: "tw_next_task (snd (alloc_ns (parent_bindings parent w) w)) = tw_next_task w"
    "tw_next_ns (snd (alloc_ns (parent_bindings parent w) w)) = Suc (tw_next_ns w)" by (simp_all add: alloc_ns_def)
  show ?thesis
  proof (cases n)
    case None
    then show ?thesis
      using alloc_run(2) [OF Some, of parent] new assms(2) by (auto intro!: add_task_inv [OF inv] fresh_task_ok) (simp add: fresh_task_def)
  next
    case n: (Some m)
    then show ?thesis
      using alloc_run(1) [OF Some, of parent m] assms by (auto intro!: add_task_inv fresh_task_ok) (simp add: fresh_task_def)
  qed
qed (simp add: alloc_unknown assms(1))

lemma task_inv_resource: "task_inv w \<Longrightarrow> bt_get (tw_resources w) k = Some t \<Longrightarrow> t < tw_next_task w \<and> task_id t w = k"
  by (simp add: task_inv_def)

lemma keeps_task_alloc [keeps_intros]: "keeps task_inv (task_alloc kind None)"
  unfolding keeps_def task_alloc_def obind_def by (auto intro!: alloc_inv dest: task_inv_resource)

lemma keeps_task_lookup [keeps_intros]: "keeps task_inv (task_lookup rid)"
  unfolding task_lookup_def by (intro keeps_intros)

section \<open>The files of the task file system\<close>

locale task_contract =
  fixes tbl :: "('r, 's, 'h) task_table"
    and D :: "(('r, 's, 'h, 'd) task_world, 'd) driver_methods"
  assumes check_keeps: "keeps task_inv (dm_check D d t)"
    and start_keeps: "keeps task_inv (dm_start D d t)"
begin

lemma auto_start_keeps: "keeps task_inv (auto_start D t ds)"
proof (induction ds)
  case (Cons x ds)
  then show ?case
    by (cases x) (auto split: task_driver.split intro!: keeps_intros check_keeps start_keeps)
qed (auto intro!: keeps_intros)

lemma task_start_keeps: "keeps task_inv (task_start D t)"
  unfolding task_start_def
  by (intro keeps_intros) (auto split: task_driver.split intro!: auto_start_keeps start_keeps keeps_intros)

lemma task_ctl_keeps: "keeps task_inv (task_ctl tbl D t cmd)"
  unfolding task_ctl_def by (auto split: list.split intro!: keeps_intros task_start_keeps)

lemma control_close_keeps: "hkeeps task_inv (control_close (task_ctl tbl D t))"
  using keeps_apply [OF task_ctl_keeps, of _ t]
  by (auto simp: keeps_def control_close_def Let_def split: prod.splits) (metis snd_conv)

lemma box_keeps:
  assumes "hkeeps task_inv (m1 dir_file_handle)" "\<And>t. hkeeps task_inv (m4 (control_handle ''ctl'' (task_ctl tbl D t)))"
    and "hkeeps task_inv (m3 (fd_proxy_handle tbl))" "hkeeps task_inv (m5 task_field_file)"
    and "hkeeps task_inv (m6 new_task_file_handle)"
  shows "hkeeps task_inv (task_box_do tbl D m1 m2 m3 m4 m5 m6)"
proof -
  have boxed: "hkeeps task_inv m \<Longrightarrow> task_inv w \<Longrightarrow> task_inv (snd (snd (boxed C m h w)))"
    for C and m :: "('x \<times> ('r, 's, 'h, 'd) task_world, 'y) op" and h w
    by (auto simp: boxed_def split: prod.splits dest: hkeepsD)
  show ?thesis
    unfolding keeps_def task_box_do_def
    by (auto split: task_file.split intro!: boxed assms keeps_on_box)
qed

end

lemma dir_handle_keeps:
  "hkeeps P (fh_read dir_file_handle n)" "hkeeps P (fh_write dir_file_handle d)"
  "hkeeps P (fh_read_at dir_file_handle n p)" "hkeeps P (fh_write_at dir_file_handle d p)"
  "hkeeps P (fh_seek dir_file_handle pos)" "hkeeps P (fh_stat dir_file_handle)"
  "hkeeps P (fh_read_dir dir_file_handle c)" "hkeeps P (fh_sync dir_file_handle)" "hkeeps P (fh_close dir_file_handle)"
  by (auto simp: dir_file_handle_def keeps_def dir_file_read_def default_write_def default_read_at_def obind_def
      default_write_at_def default_seek_def dir_file_stat_def dir_file_read_dir_def default_sync_def default_close_def
      Let_def)

lemma field_handle_keeps:
  "hkeeps task_inv (fh_read task_field_file n)" "hkeeps task_inv (fh_write task_field_file d)"
  "hkeeps task_inv (fh_read_at task_field_file n p)" "hkeeps task_inv (fh_write_at task_field_file d p)"
  "hkeeps task_inv (fh_seek task_field_file pos)" "hkeeps task_inv (fh_stat task_field_file)"
  "hkeeps task_inv (fh_read_dir task_field_file c)" "hkeeps task_inv (fh_sync task_field_file)"
  "hkeeps task_inv (fh_close task_field_file)"
proof -
  show "hkeeps task_inv (fh_close task_field_file)"
    by (auto simp: task_field_file_def keeps_def task_field_close_def split: prod.splits
        dest: keepsD [OF keeps_set_field])
qed (auto simp: task_field_file_def keeps_def task_field_read_def task_field_write_def task_field_stat_def
      default_read_at_def default_write_at_def default_seek_def default_sync_def default_handle_read_dir_def obind_def Let_def)

lemma proxy_handle_keeps:
  "hkeeps task_inv (fh_read (fd_proxy_handle tbl) n)" "hkeeps task_inv (fh_write (fd_proxy_handle tbl) d)"
  "hkeeps task_inv (fh_read_at (fd_proxy_handle tbl) n p)" "hkeeps task_inv (fh_write_at (fd_proxy_handle tbl) d p)"
  "hkeeps task_inv (fh_seek (fd_proxy_handle tbl) pos)" "hkeeps task_inv (fh_stat (fd_proxy_handle tbl))"
  "hkeeps task_inv (fh_read_dir (fd_proxy_handle tbl) c)" "hkeeps task_inv (fh_sync (fd_proxy_handle tbl))"
  "hkeeps task_inv (fh_close (fd_proxy_handle tbl))"
  by (auto simp: fd_proxy_handle_def keeps_def fd_proxy_do_def default_handle_read_dir_def obind_def
      split: prod.splits sum.splits dest: keepsD [OF keeps_with_fd_mut])

lemma new_handle_keeps:
  "hkeeps task_inv (fh_read new_task_file_handle n)" "hkeeps task_inv (fh_write new_task_file_handle d)"
  "hkeeps task_inv (fh_read_at new_task_file_handle n p)" "hkeeps task_inv (fh_write_at new_task_file_handle d p)"
  "hkeeps task_inv (fh_seek new_task_file_handle pos)" "hkeeps task_inv (fh_stat new_task_file_handle)"
  "hkeeps task_inv (fh_read_dir new_task_file_handle c)" "hkeeps task_inv (fh_sync new_task_file_handle)"
  "hkeeps task_inv (fh_close new_task_file_handle)"
proof -
  have "hkeeps task_inv (new_task_data :: (new_task_handle \<times> ('a, 'b, 'c, 'd) task_world, bytes) op)"
    by (auto simp: keeps_def new_task_data_def Let_def split: option.split prod.splits sum.splits
        dest: keepsD [OF keeps_task_alloc])
  note new_data = hkeepsD [OF this]
  show "hkeeps task_inv (fh_read (new_task_file_handle :: (('a, 'b, 'c, 'd) task_world, new_task_handle) file_handle) n)"
    by (auto simp: new_task_file_handle_def new_task_read_def Let_def keeps_def obind_def split: prod.splits sum.splits
        dest: new_data)
qed (auto simp: new_task_file_handle_def keeps_def new_task_stat_def default_write_def default_read_at_def
      default_write_at_def default_seek_def default_sync_def default_close_def default_handle_read_dir_def obind_def)

context task_contract
begin

lemma ctl_handle_keeps:
  "hkeeps task_inv (fh_read (control_handle ''ctl'' (task_ctl tbl D t)) n)"
  "hkeeps task_inv (fh_write (control_handle ''ctl'' (task_ctl tbl D t)) d)"
  "hkeeps task_inv (fh_read_at (control_handle ''ctl'' (task_ctl tbl D t)) n p)"
  "hkeeps task_inv (fh_write_at (control_handle ''ctl'' (task_ctl tbl D t)) d p)"
  "hkeeps task_inv (fh_seek (control_handle ''ctl'' (task_ctl tbl D t)) pos)"
  "hkeeps task_inv (fh_stat (control_handle ''ctl'' (task_ctl tbl D t)))"
  "hkeeps task_inv (fh_read_dir (control_handle ''ctl'' (task_ctl tbl D t)) c)"
  "hkeeps task_inv (fh_sync (control_handle ''ctl'' (task_ctl tbl D t)))"
  "hkeeps task_inv (fh_close (control_handle ''ctl'' (task_ctl tbl D t)))"
proof -
  show "hkeeps task_inv (fh_close (control_handle ''ctl'' (task_ctl tbl D t)))"
    by (simp add: control_handle_def control_close_keeps)
qed (auto simp: control_handle_def keeps_def default_read_def control_write_def default_read_at_def default_write_at_def
      default_seek_def control_handle_stat_def control_stat_def default_sync_def default_handle_read_dir_def obind_def)

lemmas box_methods = dir_handle_keeps ctl_handle_keeps proxy_handle_keeps field_handle_keeps new_handle_keeps

lemma handle_keeps:
  "hkeeps task_inv (fh_read (task_handle tbl D) n)" "hkeeps task_inv (fh_write (task_handle tbl D) d)"
  "hkeeps task_inv (fh_read_at (task_handle tbl D) n p)" "hkeeps task_inv (fh_write_at (task_handle tbl D) d p)"
  "hkeeps task_inv (fh_seek (task_handle tbl D) pos)" "hkeeps task_inv (fh_stat (task_handle tbl D))"
  "hkeeps task_inv (fh_read_dir (task_handle tbl D) c)" "hkeeps task_inv (fh_sync (task_handle tbl D))"
  "hkeeps task_inv (fh_close (task_handle tbl D))"
  by (simp_all add: task_handle_def box_keeps box_methods)

lemma task_open_keeps: "keeps task_inv (task_open tbl t ctx name)"
  unfolding task_open_def Let_def control_open_def self_only_def by (intro keeps_intros)

lemma taskfs_open_keeps: "keeps task_inv (taskfs_open tbl ctx name)"
  unfolding taskfs_open_def Let_def by (intro keeps_intros task_open_keeps)

lemma stat_by_open_keeps:
  "(\<And>ctx name. keeps task_inv (opn ctx name)) \<Longrightarrow> keeps task_inv (stat_by_open (task_handle tbl D) opn ctx name)"
  unfolding stat_by_open_def by (intro keeps_intros handle_keeps)

lemma open_file_keeps:
  "(\<And>ctx name. keeps task_inv (opn ctx name)) \<Longrightarrow>
     keeps task_inv (default_open_file (task_handle tbl D) opn (\<lambda>_. not_supported) (\<lambda>_ _. not_supported) name fl p)"
  unfolding default_open_file_def by (intro keeps_intros handle_keeps)

lemma read_dir_keeps:
  "(\<And>ctx name. keeps task_inv (opn ctx name)) \<Longrightarrow> keeps task_inv (default_read_dir (task_handle tbl D) opn ctx name)"
  unfolding default_read_dir_def by (intro keeps_intros handle_keeps)

lemma taskfs_fs_contract: "fs_contract (taskfs_ops tbl D) task_inv"
  by unfold_locales
     (simp_all add: taskfs_ops_def with_defaults_def default_lstat_def handle_keeps taskfs_open_keeps
       stat_by_open_keeps open_file_keeps read_dir_keeps keeps_not_supported)

end

interpretation tasks: task_contract tbl default_driver for tbl
  by unfold_locales (simp_all add: default_driver_def keeps_intros)

interpretation task_files: fs_contract "taskfs_ops tbl default_driver" task_inv for tbl
  by (rule tasks.taskfs_fs_contract)

end
