(* ===== verification/Task_Props.thy ===== *)
theory Task_Props
  imports Task_Laws Server_Laws
begin

text \<open>
  The properties of tasks: the invariant behind a server that exports them, the chain of parents,
  allocation and lookup, the isolation of forked namespaces, the descriptor table, and the two
  operations that do less than their names say.
\<close>

section \<open>Parents\<close>

lemma root_loop_ends:
  assumes "\<forall>t. task_ok t (tw_tasks w t)"
  shows "t < fuel \<Longrightarrow> \<exists>r \<le> t. root_loop fuel t w = Some r \<and> ti_parent (tw_tasks w r) = None"
proof (induction fuel arbitrary: t)
  case (Suc fuel)
  show ?case
  proof (cases "ti_parent (tw_tasks w t)")
    case (Some p)
    then have "p < t" using assms by (simp add: task_ok_def)
    moreover from this Suc.prems have "p < fuel" by simp
    ultimately obtain r where "r \<le> p" "root_loop fuel p w = Some r" "ti_parent (tw_tasks w r) = None"
      using Suc.IH by blast
    then show ?thesis using Some \<open>p < t\<close> by (auto intro!: exI [of _ r])
  qed auto
qed simp

section \<open>A server over the tasks\<close>

text \<open>
  C35. The task file system behind a 9P server: with drivers that keep the invariant of the table of
  tasks, and after any sequence of frames a client sends, well-formed or not, the table still has it:
  every task is listed under its own number, a parent is older than its child, no alias is empty, the
  descriptors and the bindings of every task are in order, and following the parents of any task ends
  at a task that has none.
\<close>
theorem served_tasks_inv:
  assumes "\<And>d t. keeps task_inv (dm_check D d t)" "\<And>d t. keeps task_inv (dm_start D d t)"
    and "sv = fold (\<lambda>frame sv. snd (handle_frame (taskfs_ops tbl D) frame sv)) frames (server_new now (taskfs_new s))"
  shows "server_inv task_inv sv \<and>
    (\<exists>r. task_root t (sv_world sv) = Some r \<and> ti_parent (tw_tasks (sv_world sv) r) = None)"
proof -
  have "task_contract D" using assms(1,2) by unfold_locales
  then have "fs_contract (taskfs_ops tbl D) task_inv" by (rule task_contract.taskfs_fs_contract)
  then have inv: "server_inv task_inv sv"
    unfolding assms(3) by (rule fs_contract.frames_keep) (rule taskfs_new_inv)
  then have "\<forall>t. task_ok t (tw_tasks (sv_world sv) t)" by (simp add: server_inv_def task_inv_def)
  from root_loop_ends [OF this, of t "Suc t"] inv show ?thesis by (auto simp: task_root_def)
qed

section \<open>Allocation and lookup\<close>

lemma lookup_run:
  "task_lookup rid w =
     ((case bt_get (tw_resources w) rid of
         Some t \<Rightarrow> Ok t
       | None \<Rightarrow> (case bt_get (tw_aliases w) rid of
           Some t \<Rightarrow> Ok t | None \<Rightarrow> Err (Path ''lookup'' rid NotFound))), w)"
  by (simp add: task_lookup_def obind_def split: option.splits)

lemma task_alloc_run:
  assumes "task_alloc kind parent w = (Ok t, w')"
  obtains driver p where "bt_get (tw_drivers w) kind = Some driver"
    "p = (case parent of Some p \<Rightarrow> Some p | None \<Rightarrow> bt_get (tw_resources w) ''1'')"
    "t = tw_next_task w"
    "w' = add_task (fresh_task (tw_next_id w + 1) kind driver p (tw_next_ns w)) (snd (alloc_ns (parent_bindings p w) w))"
proof -
  let ?p = "case parent of Some p \<Rightarrow> Some p | None \<Rightarrow> bt_get (tw_resources w) ''1''"
  have run: "alloc_with_parent_and_namespace kind ?p None w = (Ok t, w')"
    using assms by (simp add: task_alloc_def obind_def)
  show thesis
  proof (cases "bt_get (tw_drivers w) kind")
    case None
    with run show thesis using alloc_unknown [OF None, of ?p None] by simp
  next
    case (Some driver)
    with run show thesis using alloc_run(2) [OF Some, of ?p] that by (metis Pair_inject sum.inject(2))
  qed
qed

text \<open>
  A task that is allocated is found under its number, its number is the next of the counter, it is
  not one of the tasks there were, and every other name still leads to the task it led to.
\<close>
lemma task_alloc_lookup:
  assumes "task_inv w" "task_alloc kind parent w = (Ok t, w')" "rid \<noteq> task_id t w'"
  shows "fst (task_lookup (task_id t w') w') = Ok t \<and> task_id t w' = show_nat (unat (tw_next_id w + 1)) \<and>
    t \<notin> set (all_tasks w) \<and> fst (task_lookup rid w') = fst (task_lookup rid w)"
proof -
  obtain driver p where w': "t = tw_next_task w"
    "w' = add_task (fresh_task (tw_next_id w + 1) kind driver p (tw_next_ns w)) (snd (alloc_ns (parent_bindings p w) w))"
    using assms(2) by (rule task_alloc_run)
  have tid: "task_id t w' = show_nat (unat (tw_next_id w + 1))"
    unfolding w' by (simp add: add_task_def task_id_def fresh_task_def alloc_ns_def)
  have tables: "tw_resources w' = bt_insert (show_nat (unat (tw_next_id w + 1))) (tw_next_task w) (tw_resources w)"
    "tw_aliases w' = tw_aliases w"
    unfolding w' by (simp_all add: add_task_def fresh_task_def alloc_ns_def)
  have "t \<notin> set (all_tasks w)"
    using assms(1) task_inv_resource [OF assms(1)] w'(1)
    by (fastforce simp: all_tasks_def bt_values_def task_inv_def bt_get_in)
  then show ?thesis
    using assms(3) tid unfolding lookup_run by (simp add: tables w'(1) split: option.split)
qed


section \<open>Aliases\<close>

lemma set_alias_run:
  "set_field ''alias'' a t w =
     (Ok (), snd (update_alias t (ts_alias (state_of t w)) a (upd_state t (\<lambda>st. st\<lparr>ts_alias := a\<rparr>) w)))"
  by (simp add: set_field_def update_alias_def obind_def)

lemma alias_lookup:
  assumes "a \<noteq> []" "bt_get (tw_resources w) a = None"
  shows "fst (task_lookup a (snd (set_field ''alias'' a t w))) = Ok t"
  using assms unfolding set_alias_run lookup_run
  by (simp add: update_alias_def Let_def upd_state_def upd_task_def)

section \<open>Descriptors\<close>

definition fds_below :: "nat \<Rightarrow> ('r, 's, 'h, 'd) task_world \<Rightarrow> bool" where
  "fds_below t w \<longleftrightarrow> (\<forall>fd f. bt_get (files_of t w) fd = Some f \<longrightarrow> fd < ft_next (ti_fds (tw_tasks w t)))"

lemma word_less_Suc: "(n :: u32) \<noteq> - 1 \<Longrightarrow> fd \<le> n \<Longrightarrow> fd < n + 1"
  by (simp add: word_less_nat_alt word_le_nat_alt unatSuc eq_neg_iff_add_eq_0 add.commute)

lemma files_of_upd [simp]:
  "files_of t (upd_fds t f w) = ft_files (f (ti_fds (tw_tasks w t)))"
  "ti_fds (tw_tasks (upd_fds t f w) t) = f (ti_fds (tw_tasks w t))"
  by (simp_all add: files_of_def upd_fds_def upd_task_def)

lemma files_of_sub [simp]: "files_of t (w\<lparr>tw_sub := s\<rparr>) = files_of t w"
  by (simp add: files_of_def)

text \<open>
  A descriptor that is opened was not in use, leads to the path it was opened for, and leaves every
  other descriptor of the task alone; closing it takes it away again and leaves the table as it was. The
  bound the counter keeps above the descriptors in use is kept, until the counter has run through.
\<close>
lemma open_fd_fresh:
  assumes "task_inv w" "fds_below t w" "ft_next (ti_fds (tw_tasks w t)) \<noteq> - 1"
    and "open_fd f path t w = (Ok fd, w')"
  shows "bt_get (files_of t w) fd = None \<and> fst (fd_path fd t w') = Ok path \<and>
    (\<forall>g. g \<noteq> fd \<longrightarrow> bt_get (files_of t w') g = bt_get (files_of t w) g) \<and> fds_below t w' \<and>
    files_of t (snd (close_fd tbl fd t w')) = files_of t w \<and> fds_below t (snd (close_fd tbl fd t w'))"
proof -
  let ?n = "ft_next (ti_fds (tw_tasks w t))"
  have fd: "fd = ?n" and w': "w' = upd_fds t (\<lambda>fds. fds\<lparr>ft_next := ?n + 1,
      ft_files := bt_insert fd \<lparr>of_file = f, of_path = path\<rparr> (ft_files fds)\<rparr>) w"
    using assms(4) by (auto simp: open_fd_def obind_def)
  have ok: "bt_ok (files_of t w)" using assms(1) by (simp add: task_inv_def task_ok_def files_of_def)
  have none: "bt_get (files_of t w) fd = None"
    using assms(2) by (cases "bt_get (files_of t w) fd") (auto simp: fds_below_def fd)
  have files: "files_of t w' = bt_insert fd \<lparr>of_file = f, of_path = path\<rparr> (files_of t w)"
    "ft_next (ti_fds (tw_tasks w' t)) = ?n + 1"
    unfolding w' by (simp_all add: files_of_def)
  have below: "g < ?n + 1" if "bt_get (files_of t w) g = Some h" for g h
    using assms(2) that by (intro word_less_Suc [OF assms(3)]) (auto simp: fds_below_def order.strict_implies_order)
  have "?n < ?n + 1" using assms(3) by (simp add: word_less_Suc)
  then have fb: "fds_below t w'" using below by (auto simp: fds_below_def files fd)
  have "bt_remove fd (files_of t w') = files_of t w"
    using ok none by (intro bt_eqI) (auto simp: files)
  then have closed: "files_of t (snd (close_fd tbl fd t w')) = files_of t w"
    "ft_next (ti_fds (tw_tasks (snd (close_fd tbl fd t w')) t)) = ?n + 1"
    using files by (auto simp: close_fd_def obind_def close_box_def scoped_def on_box_def files_of_def [of t w'] split: prod.splits)
  show ?thesis
    using none fb closed below by (auto simp: fd_path_def obind_def files fds_below_def)
qed

section \<open>Less than the name says\<close>

text \<open>
  \<open>Task::unbind\<close> makes a new pointer to the namespace of the task and removes the targets with that
  pointer, of which there are none: no binding ever goes away.
\<close>

lemma retain_all:
  assumes "ns_inv b" "\<forall>ts. bt_get b dst = Some ts \<longrightarrow> (\<forall>t \<in> set ts. keep t)"
  shows "retain_targets keep dst b = b"
proof (cases "bt_get b dst")
  case (Some ts)
  have "filter keep ts = ts" using assms(2) Some by (simp add: filter_id_conv)
  moreover have "bt_insert dst ts b = b"
    using assms(1) Some by (intro bt_eqI) (auto simp: ns_inv_def)
  ultimately show ?thesis using ns_inv_get(2) [OF assms(1) Some] Some by (simp add: retain_targets_def)
qed (simp add: retain_targets_def)

lemma task_unbind_does_nothing:
  assumes "task_inv w"
  shows "tw_ns (snd (task_unbind src dst t w)) = tw_ns w"
proof -
  let ?n = "task_ns t w" and ?b = "tw_ns w (task_ns t w)"
  have "ns_inv ?b" "refs_below (tw_next_ref w) ?b" using assms by (simp_all add: task_inv_def table_ok_def)
  then have "retain_targets (\<lambda>u. \<not> (tg_fs u = NsHandle ?n (tw_next_ref w) \<and> tg_path u = p)) d ?b = ?b" for p d
    by (intro retain_all) (auto simp: ref_below_def dest!: refs_below_get)
  then have "fst (snd (ns_unbind (NsHandle ?n (tw_next_ref w)) src dst (?b, s))) = ?b" for s
    by (simp add: ns_unbind_def Let_def)
  then have "\<exists>r s'. ns_unbind (NsHandle ?n (tw_next_ref w)) src dst (?b, tw_sub w) = (r, (?b, s'))"
    by (metis prod.collapse)
  then show ?thesis
    by (auto simp: task_unbind_def own_ns_ref_def obind_def on_ns_def task_ns_def)
qed

text \<open>
  The alias table has one task for each name. When two tasks take the same alias and the first then
  takes another, the alias of the second is removed with it, though it still shows it as its own.
\<close>

lemma alias_taken_away:
  assumes "t \<noteq> u" "a \<noteq> []" "b \<noteq> []" "a \<noteq> b" "bt_get (tw_resources w) a = None"
    and "w' = snd (set_field ''alias'' b t (snd (set_field ''alias'' a u (snd (set_field ''alias'' a t w)))))"
  shows "ts_alias (state_of u w') = a \<and> fst (task_lookup a w') = Err (Path ''lookup'' a NotFound)"
  using assms
  unfolding assms(6) set_alias_run lookup_run
  by (simp add: update_alias_def Let_def upd_state_def upd_task_def state_of_def)

section \<open>Instances\<close>

definition demo_tasks :: "(nat, nat \<Rightarrow> memfs, mem_file, unit) task_world" where
  "demo_tasks = snd (task_alloc ''auto'' None (taskfs_new two_mems))"

lemma demo_tasks_inv: "task_inv demo_tasks"
  unfolding demo_tasks_def by (rule keeps_apply [OF keeps_task_alloc taskfs_new_inv])

definition demo_table :: "nat task_ref \<Rightarrow> (nat \<Rightarrow> memfs, mem_file) filesystem" where
  "demo_table r = (case r of Mounted k \<Rightarrow> fs_at memfs_ops k | NsHandle n _ \<Rightarrow> fs_at memfs_ops n)"

definition demo_parent :: "(nat, nat \<Rightarrow> memfs, mem_file, unit) task_world" where
  "demo_parent = snd (on_ns (task_ns 0 demo_tasks) (ns_bind demo_table (Mounted 1) ''d'' ''m'' BindAfter) demo_tasks)"

abbreviation demo_drivers :: "((nat, nat \<Rightarrow> memfs, mem_file, unit) task_world, unit) driver_methods" where
  "demo_drivers \<equiv> default_driver"

theorem served_tasks_inv_witness:
  "server_inv task_inv
     (snd (handle_frame (taskfs_ops demo_table demo_drivers) [7, 0, 0, 0, 120, 1, 0] (server_new 0 (taskfs_new two_mems))))"
  using served_tasks_inv [of demo_drivers
      "fold (\<lambda>frame sv. snd (handle_frame (taskfs_ops demo_table demo_drivers) frame sv)) [[7, 0, 0, 0, 120, 1, 0]]
         (server_new 0 (taskfs_new two_mems))" demo_table "[[7, 0, 0, 0, 120, 1, 0]]" 0 two_mems 0]
  by (simp add: tasks.check_keeps tasks.start_keeps)

lemma demo_alloc: "\<exists>t w'. task_alloc ''auto'' (Some 0) demo_parent = (Ok t, w')"
proof -
  have "case fst (task_alloc ''auto'' (Some 0) demo_parent) of Inr _ \<Rightarrow> True | Inl _ \<Rightarrow> False" by code_simp
  then show ?thesis by (cases "task_alloc ''auto'' (Some 0) demo_parent") (auto split: sum.splits)
qed

lemma demo_parent_inv: "task_inv demo_parent"
proof -
  have "ref_below k (Mounted (1 :: nat))" for k by (simp add: ref_below_def)
  then show ?thesis
    unfolding demo_parent_def by (intro keeps_apply [OF keeps_on_ns demo_tasks_inv] keeps_table_bind)
qed

theorem task_alloc_lookup_witness:
  "fst (task_lookup ''1'' (snd (task_alloc ''auto'' (Some 0) demo_parent))) = fst (task_lookup ''1'' demo_parent) \<and>
   fst (task_lookup ''1'' demo_parent) = Ok 0"
proof -
  obtain t w' where run: "task_alloc ''auto'' (Some 0) demo_parent = (Ok t, w')" using demo_alloc by blast
  have "task_id t w' = ''2''"
  proof -
    have "(case task_alloc ''auto'' (Some 0) demo_parent of (Inr t, w') \<Rightarrow> task_id t w' | _ \<Rightarrow> []) = ''2''" by code_simp
    then show ?thesis by (simp add: run)
  qed
  moreover have "fst (task_lookup ''1'' demo_parent) = Ok 0" by code_simp
  ultimately show ?thesis using task_alloc_lookup [OF demo_parent_inv run, of "''1''"] run by simp
qed


lemma open_fd_fresh_witness:
  "(case open_fd (CompDir (dir_file_new (metadata_dir ''d'' 0x16D) [])) ''d'' 0 demo_parent of
      (Inr fd, w') \<Rightarrow> fd = 3 \<and> fst (fd_path fd 0 w') = Ok ''d'' | _ \<Rightarrow> False)"
proof -
  let ?f = "CompDir (dir_file_new (metadata_dir ''d'' 0x16D) [])"
  have empty: "files_of 0 demo_parent = []" "ft_next (ti_fds (tw_tasks demo_parent 0)) = 3" by code_simp+
  then have "fds_below 0 demo_parent" "ft_next (ti_fds (tw_tasks demo_parent 0)) \<noteq> - 1"
    by (simp_all add: fds_below_def)
  moreover have "open_fd ?f ''d'' 0 demo_parent = (Ok 3, snd (open_fd ?f ''d'' 0 demo_parent))"
    using empty by (simp add: open_fd_def obind_def)
  ultimately show ?thesis
    using open_fd_fresh [OF demo_parent_inv, of 0 ?f "''d''" 3] by (auto split: prod.splits sum.splits)
qed

end
