(* ===== verification/Rc_Syntax.thy ===== *)
theory Rc_Syntax
  imports Btree_Map Rust_Num
begin

text \<open>
  The rc language of \<open>crates/star9-rc/src/lib.rs\<close>, first part: errors, statuses and outputs, the
  syntax tree, here documents and the lexer. A character of a script is a HOL \<open>char\<close>: the model is
  that of ASCII scripts, where the character and byte positions of the source coincide. The source
  walks through an array of characters with an index; here a function takes the rest of the
  characters, and the index of the rest where the code reports it.
\<close>

section \<open>Errors, statuses and outputs\<close>

record span =
  sp_start :: nat
  sp_end :: nat

record rc_error =
  re_message :: string
  re_span :: "span option"

type_synonym 'a rc_result = "rc_error + 'a"

definition rc_error_new :: "string \<Rightarrow> rc_error" where
  "rc_error_new message = \<lparr>re_message = message, re_span = None\<rparr>"

definition rc_error_at :: "string \<Rightarrow> nat \<Rightarrow> nat \<Rightarrow> rc_error" where
  "rc_error_at message start end = \<lparr>re_message = message, re_span = Some \<lparr>sp_start = start, sp_end = end\<rparr>\<rparr>"

definition show_rc_error :: "rc_error \<Rightarrow> string" where
  "show_rc_error e =
     (case re_span e of
        Some sp \<Rightarrow> re_message e @ '' at '' @ show_nat (sp_start sp) @ ''..'' @ show_nat (sp_end sp)
      | None \<Rightarrow> re_message e)"

definition ebind :: "'e + 'a \<Rightarrow> ('a \<Rightarrow> 'e + 'b) \<Rightarrow> 'e + 'b" where
  "ebind r f = (case r of Inl e \<Rightarrow> Inl e | Inr x \<Rightarrow> f x)"

lemma ebind_simps [simp]: "ebind (Inl e) f = Inl e" "ebind (Inr x) f = f x"
  by (simp_all add: ebind_def)

lemma ebind_Inr: "ebind r f = Inr y \<longleftrightarrow> (\<exists>x. r = Inr x \<and> f x = Inr y)"
  by (cases r) auto

text \<open>A status is a string; the empty one is success.\<close>

type_synonym rc_status = string

definition status_success :: rc_status where
  "status_success = ''''"

definition status_failure :: rc_status where
  "status_failure = ''false''"

definition show_int :: "int \<Rightarrow> string" where
  "show_int i = (if i < 0 then ''-'' @ show_nat (nat (- i)) else show_nat (nat i))"

definition status_from_code :: "int \<Rightarrow> rc_status" where
  "status_from_code code = (if code = 0 then status_success else show_int code)"

definition status_is_success :: "rc_status \<Rightarrow> bool" where
  "status_is_success s \<longleftrightarrow>
     s = '''' \<or> s = ''0'' \<or>
     (CHR ''|'' \<in> set s \<and> list_all (\<lambda>p. p = '''' \<or> p = ''0'') (split_on (CHR ''|'') s))"

definition status_invert :: "rc_status \<Rightarrow> rc_status" where
  "status_invert s = (if status_is_success s then status_failure else status_success)"

definition status_from_status :: "string \<Rightarrow> rc_status" where
  "status_from_status s = (if s = ''0'' then status_success else s)"

definition status_pipeline :: "rc_status \<Rightarrow> rc_status \<Rightarrow> rc_status" where
  "status_pipeline left right =
     (if left = '''' then ''0'' else left) @ ''|'' @ (if right = '''' then ''0'' else right)"

definition show_status :: "rc_status \<Rightarrow> string" where
  "show_status s = (if s = '''' then ''0'' else s)"

record rc_output =
  ro_status :: rc_status
  ro_stdout :: string
  ro_stderr :: string
  ro_exited :: bool

definition output_default :: rc_output where
  "output_default = \<lparr>ro_status = '''', ro_stdout = '''', ro_stderr = '''', ro_exited = False\<rparr>"

definition output_success :: "string \<Rightarrow> rc_output" where
  "output_success out = \<lparr>ro_status = status_success, ro_stdout = out, ro_stderr = '''', ro_exited = False\<rparr>"

definition output_failure :: "string \<Rightarrow> string \<Rightarrow> rc_output" where
  "output_failure st err = \<lparr>ro_status = st, ro_stdout = '''', ro_stderr = err, ro_exited = False\<rparr>"

definition output_append :: "rc_output \<Rightarrow> rc_output \<Rightarrow> rc_output" where
  "output_append o1 o2 =
     \<lparr>ro_status = ro_status o2, ro_stdout = ro_stdout o1 @ ro_stdout o2,
      ro_stderr = ro_stderr o1 @ ro_stderr o2, ro_exited = ro_exited o2\<rparr>"

section \<open>The syntax tree\<close>

record rc_word =
  w_raw :: string
  w_span :: span

definition word_new :: "string \<Rightarrow> rc_word" where
  "word_new raw = \<lparr>w_raw = raw, w_span = \<lparr>sp_start = 0, sp_end = 0\<rparr>\<rparr>"

record assignment =
  as_name :: string
  as_values :: "rc_word list"

record pipe_spec =
  pp_from_fd :: u32
  pp_to_fd :: u32

datatype redirect_mode = ModeRead | ModeWrite | ModeAppend | ModeHere | ModeDup "u32 option"

record here_doc =
  hd_body :: string
  hd_expand :: bool

datatype node =
    NEmpty
  | NSimple simple_command
  | NBlock "node list"
  | NSequence "node list"
  | NAnd node node
  | NOr node node
  | NPipe node node "pipe_spec option"
  | NNot node
  | NBackground node
  | NIf node node "node option"
  | NFor string "rc_word list" node
  | NWhile node node
  | NSwitch rc_word "switch_case list"
  | NFunction string "node option"
and simple_command = SimpleCommand (sc_assignments: "assignment list") (sc_words: "rc_word list") (sc_redirects: "redirect list")
and switch_case = SwitchCase (sw_patterns: "rc_word list") (sw_body: "node list")
and redirect_target = TargetWord rc_word | TargetProcess node | TargetHereDoc here_doc
and redirect = Redirect (rd_fd: u32) (rd_mode: redirect_mode) (rd_target: "redirect_target option")

record redirect_op =
  op_fd :: u32
  op_mode :: redirect_mode

datatype token_kind =
    KWord string | KNewline | KSemi | KAndAnd | KOrOr | KAmp | KPipe "pipe_spec option" | KBang
  | KLBrace | KRBrace | KLParen | KRParen | KRedirect redirect_op

record token =
  tk_kind :: token_kind
  tk_span :: span

definition token_new :: "token_kind \<Rightarrow> nat \<Rightarrow> nat \<Rightarrow> token" where
  "token_new kind start end = \<lparr>tk_kind = kind, tk_span = \<lparr>sp_start = start, sp_end = end\<rparr>\<rparr>"

section \<open>Characters and numbers\<close>

abbreviation nl :: char where "nl \<equiv> CHR 0x0A"
abbreviation tab :: char where "tab \<equiv> CHR 0x09"
abbreviation cr :: char where "cr \<equiv> CHR 0x0D"
abbreviation apos :: char where "apos \<equiv> CHR 0x27"
abbreviation btick :: char where "btick \<equiv> CHR 0x60"

definition is_whitespace :: "char \<Rightarrow> bool" where
  "is_whitespace c \<longleftrightarrow> c \<in> {CHR '' '', tab, nl, CHR 0x0B, CHR 0x0C, cr}"

definition is_alpha_char :: "char \<Rightarrow> bool" where
  "is_alpha_char c \<longleftrightarrow>
     65 \<le> (of_char c :: nat) \<and> (of_char c :: nat) \<le> 90 \<or> 97 \<le> (of_char c :: nat) \<and> (of_char c :: nat) \<le> 122"

section \<open>Words\<close>

text \<open>The inside of a quotation up to and with its closing quote, or to the end; doubled quotes stay.\<close>

fun take_quoted :: "string \<Rightarrow> string \<times> string" where
  "take_quoted [] = ([], [])"
| "take_quoted (c # cs) =
     (if c = apos then
        (case cs of
           c2 # cs2 \<Rightarrow>
             if c2 = apos then (case take_quoted cs2 of (a, r) \<Rightarrow> (apos # apos # a, r)) else ([apos], cs)
         | [] \<Rightarrow> ([apos], []))
      else (case take_quoted cs of (a, r) \<Rightarrow> (c # a, r)))"

text \<open>From inside a parenthesis to its closing one, or to the end.\<close>

fun take_paren :: "string \<Rightarrow> string \<times> string" where
  "take_paren [] = ([], [])"
| "take_paren (c # cs) =
     (if c = CHR '')'' then ([c], cs) else (case take_paren cs of (a, r) \<Rightarrow> (c # a, r)))"

lemma take_quoted_append: "take_quoted s = (a, r) \<Longrightarrow> s = a @ r"
  by (induction s arbitrary: a r rule: take_quoted.induct) (auto split: if_splits list.splits prod.splits)

lemma take_paren_append: "take_paren s = (a, r) \<Longrightarrow> s = a @ r"
  by (induction s arbitrary: a r) (auto split: if_splits prod.splits)

lemma take_lengths:
  "(a, r) = take_quoted s \<Longrightarrow> length r < Suc (length s)" "(a, r) = take_paren s \<Longrightarrow> length r < Suc (length s)"
  by (metis take_quoted_append le_imp_less_Suc length_append le_add2)
     (metis take_paren_append le_imp_less_Suc length_append le_add2)

function braced_loop :: "int \<Rightarrow> string \<Rightarrow> string \<Rightarrow> (string \<times> string) option" where
  "braced_loop depth out [] = None"
| "braced_loop depth out (c # cs) =
     (if c = apos then
        (case take_quoted cs of (a, r) \<Rightarrow> braced_loop depth (out @ c # a) r)
      else if c = CHR ''{'' then braced_loop (depth + 1) (out @ [c]) cs
      else if c = CHR ''}'' then
        (if depth - 1 = 0 then Some (out @ [c], cs) else braced_loop (depth - 1) (out @ [c]) cs)
      else braced_loop depth (out @ [c]) cs)"
  by pat_completeness auto
termination
  by (relation "measure (\<lambda>(depth, out, s). length s)") (auto dest: take_lengths)

definition read_braced_substitution :: "nat \<Rightarrow> string \<Rightarrow> (string \<times> string) rc_result" where
  "read_braced_substitution start s =
     (case braced_loop 0 [] s of
        Some r \<Rightarrow> Inr r
      | None \<Rightarrow> Inl (rc_error_at ''unterminated command substitution'' start (start + length s)))"

lemma braced_loop_append: "braced_loop depth out s = Some (a, r) \<Longrightarrow> \<exists>b. a = out @ b \<and> s = b @ r \<and> b \<noteq> []"
  by (induction depth out s arbitrary: a r rule: braced_loop.induct)
     (fastforce split: if_splits prod.splits dest: take_quoted_append)+

lemma read_braced_append: "read_braced_substitution i s = Inr (a, r) \<Longrightarrow> s = a @ r \<and> a \<noteq> []"
  using braced_loop_append [of 0 "[]" s a r] by (auto simp: read_braced_substitution_def split: option.splits)

definition word_break :: "char \<Rightarrow> bool" where
  "word_break c \<longleftrightarrow> is_whitespace c \<or> c \<in> set '';{}()&|<>''"

text \<open>\<open>read_loop start pos out s\<close>: \<open>start\<close> is where the word began, \<open>pos\<close> where \<open>s\<close> begins.\<close>

function read_loop :: "nat \<Rightarrow> nat \<Rightarrow> string \<Rightarrow> string \<Rightarrow> (string \<times> string) rc_result" where
  "read_loop start pos out [] = (if out = [] then Inl (rc_error_at ''expected word'' start pos) else Inr (out, []))"
| "read_loop start pos out (c # cs) =
     (if c = CHR ''('' \<and> CHR ''$'' \<in> set out then
        (case take_paren cs of (a, r) \<Rightarrow> read_loop start (pos + 1 + length a) (out @ c # a) r)
      else if word_break c then
        (if out = [] then Inl (rc_error_at ''expected word'' start pos) else Inr (out, c # cs))
      else if c = apos then
        (case take_quoted cs of (a, r) \<Rightarrow> read_loop start (pos + 1 + length a) (out @ c # a) r)
      else if c = btick \<and> take 1 cs = ''{'' then
        (case read_braced_substitution pos (c # cs) of
           Inl e \<Rightarrow> Inl e
         | Inr (sub, r) \<Rightarrow> read_loop start (pos + length sub) (out @ sub) r)
      else read_loop start (pos + 1) (out @ [c]) cs)"
  by pat_completeness auto
termination
proof (relation "measure (\<lambda>(start, pos, out, s). length s)", goal_cases)
  case (4 start pos out c cs x sub r)
  then have "c # cs = sub @ r" "sub \<noteq> []" using read_braced_append by metis+
  then show ?case by (cases sub) auto
qed (auto dest: take_lengths)

definition read_word :: "nat \<Rightarrow> string \<Rightarrow> (string \<times> string) rc_result" where
  "read_word pos s = read_loop pos pos [] s"

section \<open>Pipes and redirections\<close>

definition find_closing_bracket :: "nat \<Rightarrow> string \<Rightarrow> (string \<times> string) rc_result" where
  "find_closing_bracket start s =
     (case split_once (CHR '']'') s of
        Some (text, rest) \<Rightarrow> Inr (text, rest)
      | None \<Rightarrow> Inl (rc_error_at ''unterminated fd specifier'' start (start + 1 + length s)))"

definition parse_pipe_spec :: "nat \<Rightarrow> string \<Rightarrow> (pipe_spec option \<times> string) rc_result" where
  "parse_pipe_spec start s =
     (case s of
        c # cs \<Rightarrow>
          if c \<noteq> CHR ''['' then Inr (None, s)
          else
            ebind (find_closing_bracket start cs) (\<lambda>(text, rest).
            Inr (Some (case split_once (CHR ''='') text of
                Some (left, right) \<Rightarrow>
                  \<lparr>pp_from_fd = (case parse_u32 left of Some n \<Rightarrow> n | None \<Rightarrow> 1),
                   pp_to_fd = (case parse_u32 right of Some n \<Rightarrow> n | None \<Rightarrow> 0)\<rparr>
              | None \<Rightarrow> \<lparr>pp_from_fd = (case parse_u32 text of Some n \<Rightarrow> n | None \<Rightarrow> 1), pp_to_fd = 0\<rparr>), rest))
      | [] \<Rightarrow> Inr (None, s))"

text \<open>The operator at the head of the text, and how many characters it takes.\<close>

definition redirect_head :: "string \<Rightarrow> redirect_mode \<times> u32 \<times> nat" where
  "redirect_head s =
     (if starts_with s ''>>'' then (ModeAppend, 1, 2)
      else if starts_with s ''<<'' then (ModeHere, 0, 2)
      else if starts_with s ''<'' then (ModeRead, 0, 1)
      else (ModeWrite, 1, 1))"

definition redirect_spec :: "string \<Rightarrow> redirect_mode \<Rightarrow> u32 \<Rightarrow> redirect_op" where
  "redirect_spec text mode fd =
     (case split_once (CHR ''='') text of
        Some (left, right) \<Rightarrow>
          (let fd = (case parse_u32 left of Some n \<Rightarrow> n | None \<Rightarrow> fd) in
           \<lparr>op_fd = fd,
            op_mode = ModeDup (if right = [] then None
                               else Some (case parse_u32 right of Some n \<Rightarrow> n | None \<Rightarrow> fd))\<rparr>)
      | None \<Rightarrow>
          \<lparr>op_fd = (if text = [] then fd else case parse_u32 text of Some n \<Rightarrow> n | None \<Rightarrow> fd), op_mode = mode\<rparr>)"

definition parse_redirect :: "nat \<Rightarrow> string \<Rightarrow> (redirect_op \<times> string) rc_result" where
  "parse_redirect start s =
     (case redirect_head s of (mode, fd, n) \<Rightarrow>
        (case drop n s of
           c # cs \<Rightarrow>
             if c = CHR ''['' then
               ebind (find_closing_bracket (start + n) cs) (\<lambda>(text, rest).
               Inr (redirect_spec text mode fd, rest))
             else Inr (\<lparr>op_fd = fd, op_mode = mode\<rparr>, c # cs)
         | [] \<Rightarrow> Inr (\<lparr>op_fd = fd, op_mode = mode\<rparr>, [])))"

section \<open>The lexer\<close>

lemma read_loop_append:
  "read_loop start pos out s = Inr (a, r) \<Longrightarrow> \<exists>b. a = out @ b \<and> s = b @ r \<and> (out = [] \<longrightarrow> b \<noteq> [])"
proof (induction start pos out s arbitrary: a r rule: read_loop.induct)
  case (2 start pos out c cs)
  consider (paren) "c = CHR ''('' \<and> CHR ''$'' \<in> set out"
    | (stop) "\<not> (c = CHR ''('' \<and> CHR ''$'' \<in> set out)" "word_break c"
    | (quote) "\<not> (c = CHR ''('' \<and> CHR ''$'' \<in> set out)" "\<not> word_break c" "c = apos"
    | (sub) "\<not> (c = CHR ''('' \<and> CHR ''$'' \<in> set out)" "\<not> word_break c" "c \<noteq> apos" "c = btick \<and> take 1 cs = ''{''"
    | (plain) "\<not> (c = CHR ''('' \<and> CHR ''$'' \<in> set out)" "\<not> word_break c" "c \<noteq> apos" "\<not> (c = btick \<and> take 1 cs = ''{'')"
    by blast
  then show ?case
  proof cases
    case paren
    obtain x y where xy: "take_paren cs = (x, y)" by (cases "take_paren cs")
    with 2(1) [OF paren xy [symmetric]] "2.prems" paren take_paren_append [OF xy] show ?thesis by fastforce
  next
    case stop
    then show ?thesis using "2.prems" by (auto split: if_splits)
  next
    case quote
    obtain x y where xy: "take_quoted cs = (x, y)" by (cases "take_quoted cs")
    have "read_loop start (pos + 1 + length x) (out @ c # x) y = Inr (a, r)" using "2.prems" quote xy by simp
    with 2(2) [OF quote xy [symmetric]] take_quoted_append [OF xy] show ?thesis by fastforce
  next
    case sub
    obtain x y where xy: "read_braced_substitution pos (c # cs) = Inr (x, y)"
      "read_loop start (pos + length x) (out @ x) y = Inr (a, r)"
      using "2.prems" sub by (auto split: sum.splits prod.splits)
    with 2(3) [OF sub xy(1) refl] read_braced_append [OF xy(1)] show ?thesis by fastforce
  next
    case plain
    from "2.prems" have "read_loop start (pos + 1) (out @ [c]) cs = Inr (a, r)"
      unfolding read_loop.simps(2) if_not_P [OF plain(1)] if_not_P [OF plain(2)] if_not_P [OF plain(3)] if_not_P [OF plain(4)] .
    with 2(4) [OF plain] show ?thesis by fastforce
  qed
qed (auto split: if_splits)

lemma read_word_rest: "read_word pos s = Inr (a, r) \<Longrightarrow> s = a @ r \<and> a \<noteq> []"
  using read_loop_append [of pos pos "[]" s a r] by (simp add: read_word_def)

lemma closing_bracket_rest: "find_closing_bracket pos s = Inr (a, r) \<Longrightarrow> length r < length s"
  by (auto simp: find_closing_bracket_def split: option.splits dest!: split_once_Some)

lemma pipe_spec_rest: "parse_pipe_spec pos s = Inr (a, r) \<Longrightarrow> length r \<le> length s"
  by (auto simp: parse_pipe_spec_def ebind_Inr split: list.splits if_splits prod.splits dest: closing_bracket_rest)

lemma redirect_rest: "parse_redirect pos (c # s) = Inr (a, r) \<Longrightarrow> length r < Suc (length s)"
proof -
  assume p: "parse_redirect pos (c # s) = Inr (a, r)"
  obtain mode fd n where h: "redirect_head (c # s) = (mode, fd, n)" "0 < n"
    by (cases "redirect_head (c # s)") (auto simp: redirect_head_def split: if_splits)
  then have "length (drop n (c # s)) < Suc (length s)" by (cases n) auto
  moreover have "length y < Suc (length s)" if "drop n (c # s) = x # w" "find_closing_bracket i w = Inr (t, y)" for x w i t y
    using closing_bracket_rest [OF that(2)] calculation that(1) by simp
  ultimately show ?thesis
    using p h by (auto simp: parse_redirect_def ebind_Inr split: list.splits if_splits prod.splits)
qed

lemma lex_rests:
  "parse_pipe_spec pos s = Inr (a, r) \<Longrightarrow> length r < Suc (length s)"
  "parse_redirect pos (c # s) = Inr (op, r) \<Longrightarrow> length r < Suc (length s)"
  "read_word pos (c # s) = Inr (w, r) \<Longrightarrow> length r < Suc (length s)"
  "length (dropWhile P s) < Suc (length s)"
proof -
  show "parse_pipe_spec pos s = Inr (a, r) \<Longrightarrow> length r < Suc (length s)"
    by (metis pipe_spec_rest le_imp_less_Suc)
  show "parse_redirect pos (c # s) = Inr (op, r) \<Longrightarrow> length r < Suc (length s)" by (metis redirect_rest)
  show "length r < Suc (length s)" if "read_word pos (c # s) = Inr (w, r)"
  proof -
    have "c # s = w @ r" "w \<noteq> []" using read_word_rest [OF that] by auto
    then have "length (c # s) = length w + length r" "0 < length w" by (metis length_append, simp)
    then show ?thesis by simp
  qed
  show "length (dropWhile P s) < Suc (length s)" by (simp add: length_dropWhile_le less_Suc_eq_le)
qed

text \<open>The tokens of one or two characters whose text is fixed.\<close>

definition symbol_at :: "string \<Rightarrow> (token_kind \<times> nat) option" where
  "symbol_at s =
     (if starts_with s '';'' then Some (KSemi, 1)
      else if starts_with s ''{'' then Some (KLBrace, 1)
      else if starts_with s ''}'' then Some (KRBrace, 1)
      else if starts_with s ''('' then Some (KLParen, 1)
      else if starts_with s '')'' then Some (KRParen, 1)
      else if starts_with s ''&&'' then Some (KAndAnd, 2)
      else if starts_with s ''&'' then Some (KAmp, 1)
      else if starts_with s ''||'' then Some (KOrOr, 2)
      else if starts_with s ''!'' then Some (KBang, 1)
      else None)"

lemma symbol_width: "symbol_at s = Some (k, n) \<Longrightarrow> 0 < n"
  by (auto simp: symbol_at_def split: if_splits)

function lex :: "nat \<Rightarrow> bool \<Rightarrow> string \<Rightarrow> token list rc_result" where
  "lex pos at_line_start [] = Inr []"
| "lex pos at_line_start (c # cs) =
     (if c = CHR '' '' \<or> c = tab \<or> c = cr then lex (pos + 1) at_line_start cs
      else if c = nl then ebind (lex (pos + 1) True cs) (\<lambda>ts. Inr (token_new KNewline pos (pos + 1) # ts))
      else if c = CHR ''#'' \<and> at_line_start then
        lex (pos + 1 + length (takeWhile (\<lambda>x. x \<noteq> nl) cs)) at_line_start (dropWhile (\<lambda>x. x \<noteq> nl) cs)
      else
        (case symbol_at (c # cs) of
           Some (k, n) \<Rightarrow>
             ebind (lex (pos + n) False (drop (n - 1) cs)) (\<lambda>ts. Inr (token_new k pos (pos + n) # ts))
         | None \<Rightarrow>
             if c = CHR ''|'' then
               (case parse_pipe_spec (pos + 1) cs of
                  Inl e \<Rightarrow> Inl e
                | Inr (spec, r) \<Rightarrow>
                    (let next = pos + 1 + (length cs - length r) in
                     ebind (lex next False r) (\<lambda>ts. Inr (token_new (KPipe spec) pos next # ts))))
             else if c = CHR ''<'' \<or> c = CHR ''>'' then
               (case parse_redirect pos (c # cs) of
                  Inl e \<Rightarrow> Inl e
                | Inr (op, r) \<Rightarrow>
                    (let next = pos + (length (c # cs) - length r) in
                     ebind (lex next False r) (\<lambda>ts. Inr (token_new (KRedirect op) pos next # ts))))
             else
               (case read_word pos (c # cs) of
                  Inl e \<Rightarrow> Inl e
                | Inr (w, r) \<Rightarrow>
                    (let next = pos + length w in
                     ebind (lex next False r) (\<lambda>ts. Inr (token_new (KWord w) pos next # ts))))))"
  by pat_completeness auto
termination
  by (relation "measure (\<lambda>(pos, b, s). length s)")
     (simp_all add: lex_rests(4), (metis lex_rests(1-3))+)

declare lex.simps [simp del]

section \<open>Here documents\<close>

text \<open>\<open>split_inclusive\<close>: the lines with their newlines.\<close>

fun split_lines :: "string \<Rightarrow> string list" where
  "split_lines [] = []"
| "split_lines (c # cs) =
     (if c = nl then [c] # split_lines cs
      else (case split_lines cs of [] \<Rightarrow> [[c]] | l # ls \<Rightarrow> (c # l) # ls))"

record here_marker =
  hm_start :: nat
  hm_end :: nat
  hm_delimiter :: string
  hm_quoted :: bool
  hm_marker :: string

definition marker_name :: "nat \<Rightarrow> string" where
  "marker_name n = ''__star9_heredoc_'' @ show_nat n @ ''__''"

text \<open>The delimiter at the head of the text: its characters, how many it takes, whether it is quoted.\<close>

definition read_delimiter :: "string \<Rightarrow> string \<times> nat \<times> bool" where
  "read_delimiter s =
     (if starts_with s [apos] then
        (let d = takeWhile (\<lambda>c. c \<noteq> apos) (tl s) in
         (d, 1 + length d + (if length d + 1 < length s then 1 else 0), True))
      else
        (let d = takeWhile (\<lambda>c. \<not> is_whitespace c \<and> c \<notin> set '';&|'') s in (d, length d, False)))"

function markers_loop :: "nat \<Rightarrow> nat \<Rightarrow> bool \<Rightarrow> string \<Rightarrow> here_marker list rc_result" where
  "markers_loop nid pos quoted [] = Inr []"
| "markers_loop nid pos quoted (c # cs) =
     (if c = apos then markers_loop nid (pos + 1) (\<not> quoted) cs
      else if \<not> quoted \<and> c = CHR ''<'' \<and> take 1 cs = ''<'' then
        (let ws = takeWhile (\<lambda>x. is_whitespace x \<and> x \<noteq> nl) (drop 1 cs);
             rest = drop (1 + length ws) cs;
             start = pos + 2 + length ws
         in if rest = [] then Inr []
            else
              (case read_delimiter rest of (d, n, q) \<Rightarrow>
                 if d = [] then Inl (rc_error_at ''empty here document delimiter'' pos (start + n))
                 else
                   ebind (markers_loop (nid + 1) (start + n) quoted (drop n rest)) (\<lambda>ms.
                   Inr (\<lparr>hm_start = start, hm_end = start + n, hm_delimiter = d, hm_quoted = q,
                         hm_marker = marker_name nid\<rparr> # ms))))
      else markers_loop nid (pos + 1) quoted cs)"
  by pat_completeness auto
termination by (relation "measure (\<lambda>(nid, pos, q, s). length s)") auto

declare markers_loop.simps [simp del]

definition find_here_markers :: "string \<Rightarrow> nat \<Rightarrow> here_marker list rc_result" where
  "find_here_markers line next_id = markers_loop next_id 0 False line"

definition trim_line_end :: "string \<Rightarrow> string" where
  "trim_line_end s = rev (dropWhile (\<lambda>c. c = cr) (dropWhile (\<lambda>c. c = nl) (rev s)))"

text \<open>The lines up to the delimiter, and the lines after it.\<close>

fun here_body :: "string \<Rightarrow> string list \<Rightarrow> (string \<times> string list) option" where
  "here_body delimiter [] = None"
| "here_body delimiter (l # ls) =
     (if trim_line_end l = delimiter then Some ([], ls)
      else map_option (\<lambda>(body, rest). (l @ body, rest)) (here_body delimiter ls))"

fun here_bodies ::
    "here_marker list \<Rightarrow> string list \<Rightarrow> (string, here_doc) btmap \<Rightarrow> (string list \<times> (string, here_doc) btmap) rc_result" where
  "here_bodies [] ls docs = Inr (ls, docs)"
| "here_bodies (m # ms) ls docs =
     (case here_body (hm_delimiter m) ls of
        None \<Rightarrow> Inl (rc_error_new (''unterminated here document '' @ hm_delimiter m))
      | Some (body, rest) \<Rightarrow>
          here_bodies ms rest (bt_insert (hm_marker m) \<lparr>hd_body = body, hd_expand = \<not> hm_quoted m\<rparr> docs))"

definition replace_range :: "string \<Rightarrow> nat \<Rightarrow> nat \<Rightarrow> string \<Rightarrow> string" where
  "replace_range s start end new = take start s @ new @ drop end s"

definition replace_markers :: "string \<Rightarrow> here_marker list \<Rightarrow> string" where
  "replace_markers line ms = fold (\<lambda>m l. replace_range l (hm_start m) (hm_end m) (hm_marker m)) (rev ms) line"

lemma here_body_rest: "here_body d ls = Some (b, r) \<Longrightarrow> length r < length ls"
  by (induction ls arbitrary: b) (fastforce split: if_splits)+

lemma here_bodies_rest: "here_bodies ms ls docs = Inr (r, docs') \<Longrightarrow> length r \<le> length ls"
  by (induction ms ls docs rule: here_bodies.induct) (fastforce split: option.splits dest: here_body_rest)+

lemma here_bodies_less: "here_bodies ms ls docs = Inr (r, docs') \<Longrightarrow> length r < Suc (length ls)"
  by (metis here_bodies_rest le_imp_less_Suc)

function prepare_loop ::
    "nat \<Rightarrow> string list \<Rightarrow> string \<Rightarrow> (string, here_doc) btmap \<Rightarrow> (string \<times> (string, here_doc) btmap) rc_result" where
  "prepare_loop next_id [] out docs = Inr (out, docs)"
| "prepare_loop next_id (line # ls) out docs =
     (case find_here_markers line next_id of
        Inl e \<Rightarrow> Inl e
      | Inr ms \<Rightarrow>
          if ms = [] then prepare_loop next_id ls (out @ line) docs
          else
            (case here_bodies ms ls docs of
               Inl e \<Rightarrow> Inl e
             | Inr (rest, docs) \<Rightarrow>
                 prepare_loop (next_id + length ms) rest (out @ replace_markers line ms) docs))"
  by pat_completeness auto
termination
  by (relation "measure (\<lambda>(n, ls, out, docs). length ls)") (auto dest: here_bodies_less)

definition prepare_here_docs :: "string \<Rightarrow> (string \<times> (string, here_doc) btmap) rc_result" where
  "prepare_here_docs source = prepare_loop 0 (split_lines source) [] []"

end
