(* ===== verification/Rc_Parser.thy ===== *)
theory Rc_Parser
  imports Rc_Syntax
begin

text \<open>
  The recursive descent parser of \<open>crates/star9-rc/src/lib.rs\<close>. Its state is the rest of the tokens
  and the here documents that have not been claimed. The methods call each other only through
  \<open>parse_command\<close>, so that one is the recursion, on fuel, and the others take it as an argument;
  their loops carry fuel too. The laws at the end show that one unit of fuel more than there are
  tokens is enough: the parser always ends with a tree or an error.
\<close>

section \<open>State and primitive steps\<close>

record parser =
  ps_tokens :: "token list"
  ps_docs :: "(string, here_doc) btmap"

datatype parse_fault = ParseErr rc_error | ParseFuel

type_synonym 'a parse = "parser \<Rightarrow> parse_fault + ('a \<times> parser)"

definition pret :: "'a \<Rightarrow> 'a parse" where
  "pret x = (\<lambda>st. Inr (x, st))"

definition pfail :: "parse_fault \<Rightarrow> 'a parse" where
  "pfail e = (\<lambda>st. Inl e)"

definition pbind :: "'a parse \<Rightarrow> ('a \<Rightarrow> 'b parse) \<Rightarrow> 'b parse" where
  "pbind m f = (\<lambda>st. case m st of Inl e \<Rightarrow> Inl e | Inr (x, st') \<Rightarrow> f x st')"

definition perr :: "string \<Rightarrow> 'a parse" where
  "perr message = pfail (ParseErr (rc_error_new message))"

definition peek_kind :: "parser \<Rightarrow> token_kind option" where
  "peek_kind st = (case ps_tokens st of [] \<Rightarrow> None | t # _ \<Rightarrow> Some (tk_kind t))"

definition advance :: "unit parse" where
  "advance = (\<lambda>st. Inr ((), st\<lparr>ps_tokens := tl (ps_tokens st)\<rparr>))"

definition peeking :: "(token_kind option \<Rightarrow> 'a parse) \<Rightarrow> 'a parse" where
  "peeking f = (\<lambda>st. f (peek_kind st) st)"

definition is_separator :: "token_kind option \<Rightarrow> bool" where
  "is_separator k \<longleftrightarrow> k = Some KSemi \<or> k = Some KNewline"

definition skip_separators :: "unit parse" where
  "skip_separators = (\<lambda>st.
     Inr ((), st\<lparr>ps_tokens := dropWhile (\<lambda>t. is_separator (Some (tk_kind t))) (ps_tokens st)\<rparr>))"

definition consume_separator :: "bool parse" where
  "consume_separator = peeking (\<lambda>k. if is_separator k then pbind advance (\<lambda>_. pret True) else pret False)"

definition expect_symbol :: "token_kind \<Rightarrow> string \<Rightarrow> unit parse" where
  "expect_symbol k label = (\<lambda>st.
     case ps_tokens st of
       t # _ \<Rightarrow>
         if tk_kind t = k then advance st
         else Inl (ParseErr \<lparr>re_message = ''expected '' @ label, re_span = Some (tk_span t)\<rparr>)
     | [] \<Rightarrow> Inl (ParseErr (rc_error_new (''expected '' @ label))))"

definition expect_lbrace :: "unit parse" where "expect_lbrace = expect_symbol KLBrace ''{''"
definition expect_rbrace :: "unit parse" where "expect_rbrace = expect_symbol KRBrace ''}''"
definition expect_lparen :: "unit parse" where "expect_lparen = expect_symbol KLParen ''(''"
definition expect_rparen :: "unit parse" where "expect_rparen = expect_symbol KRParen '')''"

definition expect_word :: "string \<Rightarrow> unit parse" where
  "expect_word w = peeking (\<lambda>k. if k = Some (KWord w) then advance else perr (''expected '' @ w))"

definition expect_any_word :: "string parse" where
  "expect_any_word = peeking (\<lambda>k. case k of
     Some (KWord w) \<Rightarrow> pbind advance (\<lambda>_. pret w)
   | _ \<Rightarrow> perr ''expected word'')"

definition match_word :: "string \<Rightarrow> bool parse" where
  "match_word w = peeking (\<lambda>k. if k = Some (KWord w) then pbind advance (\<lambda>_. pret True) else pret False)"

fun word_list :: "nat \<Rightarrow> (token_kind option \<Rightarrow> bool) \<Rightarrow> rc_word list \<Rightarrow> rc_word list parse" where
  "word_list 0 until ws = pfail ParseFuel"
| "word_list (Suc n) until ws =
     peeking (\<lambda>k. if until k then pret ws
                  else pbind expect_any_word (\<lambda>w. word_list n until (ws @ [word_new w])))"

section \<open>The debug form of a token\<close>

text \<open>What \<^verbatim>\<open>{:?}\<close> prints, which appears in one error message.\<close>

definition debug_char :: "char \<Rightarrow> string" where
  "debug_char c =
     (if c = CHR 0x22 \<or> c = CHR 0x5C then [CHR 0x5C, c]
      else if c = tab then [CHR 0x5C, CHR ''t'']
      else if c = nl then [CHR 0x5C, CHR ''n'']
      else if c = cr then [CHR 0x5C, CHR ''r'']
      else if c = CHR 0x00 then [CHR 0x5C, CHR ''0'']
      else if (of_char c :: nat) < 32 \<or> (of_char c :: nat) = 127
      then [CHR 0x5C] @ ''u{'' @ map (\<lambda>d. if d = CHR '':'' then CHR ''a'' else if d = CHR '';'' then CHR ''b''
             else if d = CHR ''<'' then CHR ''c'' else if d = CHR ''='' then CHR ''d''
             else if d = CHR ''>'' then CHR ''e'' else if d = CHR ''?'' then CHR ''f'' else d)
             (show_base 16 (of_char c)) @ ''}''
      else [c])"

definition debug_string :: "string \<Rightarrow> string" where
  "debug_string s = [CHR 0x22] @ concat (map debug_char s) @ [CHR 0x22]"

definition debug_u32 :: "u32 \<Rightarrow> string" where
  "debug_u32 n = show_nat (unat n)"

definition debug_option :: "('a \<Rightarrow> string) \<Rightarrow> 'a option \<Rightarrow> string" where
  "debug_option f x = (case x of None \<Rightarrow> ''None'' | Some y \<Rightarrow> ''Some('' @ f y @ '')'')"

definition debug_mode :: "redirect_mode \<Rightarrow> string" where
  "debug_mode m =
     (case m of
        ModeRead \<Rightarrow> ''Read'' | ModeWrite \<Rightarrow> ''Write'' | ModeAppend \<Rightarrow> ''Append'' | ModeHere \<Rightarrow> ''Here''
      | ModeDup from \<Rightarrow> ''Dup { from: '' @ debug_option debug_u32 from @ '' }'')"

definition debug_kind :: "token_kind \<Rightarrow> string" where
  "debug_kind k =
     (case k of
        KWord w \<Rightarrow> ''Word('' @ debug_string w @ '')''
      | KNewline \<Rightarrow> ''Newline'' | KSemi \<Rightarrow> ''Semi'' | KAndAnd \<Rightarrow> ''AndAnd'' | KOrOr \<Rightarrow> ''OrOr'' | KAmp \<Rightarrow> ''Amp''
      | KPipe spec \<Rightarrow>
          ''Pipe('' @ debug_option (\<lambda>sp. ''PipeSpec { from_fd: '' @ debug_u32 (pp_from_fd sp) @
             '', to_fd: '' @ debug_u32 (pp_to_fd sp) @ '' }'') spec @ '')''
      | KBang \<Rightarrow> ''Bang'' | KLBrace \<Rightarrow> ''LBrace'' | KRBrace \<Rightarrow> ''RBrace'' | KLParen \<Rightarrow> ''LParen'' | KRParen \<Rightarrow> ''RParen''
      | KRedirect op \<Rightarrow>
          ''Redirect(RedirectOp { fd: '' @ debug_u32 (op_fd op) @ '', mode: '' @ debug_mode (op_mode op) @ '' })'')"

section \<open>Sequences, lists and pipelines\<close>

fun pipe_loop :: "nat \<Rightarrow> node parse \<Rightarrow> node \<Rightarrow> node parse" where
  "pipe_loop 0 unary left = pfail ParseFuel"
| "pipe_loop (Suc n) unary left =
     peeking (\<lambda>k. case k of
       Some (KPipe spec) \<Rightarrow>
         pbind advance (\<lambda>_. pbind unary (\<lambda>right. pipe_loop n unary (NPipe left right spec)))
     | _ \<Rightarrow> pret left)"

fun and_or_loop :: "nat \<Rightarrow> node parse \<Rightarrow> node \<Rightarrow> node parse" where
  "and_or_loop 0 pipeline left = pfail ParseFuel"
| "and_or_loop (Suc n) pipeline left =
     peeking (\<lambda>k.
       if k = Some KAndAnd then
         pbind advance (\<lambda>_. pbind pipeline (\<lambda>right. and_or_loop n pipeline (NAnd left right)))
       else if k = Some KOrOr then
         pbind advance (\<lambda>_. pbind pipeline (\<lambda>right. and_or_loop n pipeline (NOr left right)))
       else pret left)"

fun parse_unary :: "nat \<Rightarrow> node parse \<Rightarrow> node parse" where
  "parse_unary 0 command = pfail ParseFuel"
| "parse_unary (Suc n) command =
     peeking (\<lambda>k.
       if k = Some KBang then pbind advance (\<lambda>_. pbind (parse_unary n command) (\<lambda>x. pret (NNot x)))
       else command)"

definition parse_pipeline :: "nat \<Rightarrow> node parse \<Rightarrow> node parse" where
  "parse_pipeline n command = pbind (parse_unary n command) (pipe_loop n (parse_unary n command))"

definition parse_and_or :: "nat \<Rightarrow> node parse \<Rightarrow> node parse" where
  "parse_and_or n command = pbind (parse_pipeline n command) (and_or_loop n (parse_pipeline n command))"

definition no_progress :: "token \<Rightarrow> parse_fault" where
  "no_progress t =
     ParseErr \<lparr>re_message = ''parser made no progress at token '' @ debug_kind (tk_kind t), re_span = Some (tk_span t)\<rparr>"

text \<open>An ampersand after a command makes it a background command.\<close>

definition background :: "node \<Rightarrow> node parse" where
  "background x = peeking (\<lambda>k. if k = Some KAmp then pbind advance (\<lambda>_. pret (NBackground x)) else pret x)"

definition must_progress :: "node parse \<Rightarrow> node parse" where
  "must_progress m = (\<lambda>st.
     case m st of
       Inl e \<Rightarrow> Inl e
     | Inr (x, st') \<Rightarrow>
         if length (ps_tokens st') = length (ps_tokens st)
         then (case ps_tokens st of t # _ \<Rightarrow> Inl (no_progress t) | [] \<Rightarrow> Inr (x, st'))
         else Inr (x, st'))"

fun sequence_loop :: "nat \<Rightarrow> node parse \<Rightarrow> (token_kind \<Rightarrow> bool) \<Rightarrow> node list \<Rightarrow> node list parse" where
  "sequence_loop 0 and_or stop nodes = pfail ParseFuel"
| "sequence_loop (Suc n) and_or stop nodes =
     peeking (\<lambda>k. case k of
       None \<Rightarrow> pret nodes
     | Some kind \<Rightarrow>
         if stop kind then pret nodes
         else
           pbind (pbind (must_progress and_or) background) (\<lambda>x.
           pbind consume_separator (\<lambda>sep.
           if sep then pbind skip_separators (\<lambda>_. sequence_loop n and_or stop (nodes @ [x]))
           else
             peeking (\<lambda>k. case k of
               Some kind \<Rightarrow> if stop kind then pret (nodes @ [x]) else sequence_loop n and_or stop (nodes @ [x])
             | None \<Rightarrow> pret (nodes @ [x])))))"

definition parse_sequence_until :: "nat \<Rightarrow> node parse \<Rightarrow> (token_kind \<Rightarrow> bool) \<Rightarrow> node list parse" where
  "parse_sequence_until n command stop =
     pbind skip_separators (\<lambda>_. sequence_loop n (parse_and_or n command) stop [])"

section \<open>Commands\<close>

definition parse_block :: "nat \<Rightarrow> node parse \<Rightarrow> node parse" where
  "parse_block n command =
     pbind expect_lbrace (\<lambda>_.
     pbind (parse_sequence_until n command (\<lambda>k. k = KRBrace)) (\<lambda>body.
     pbind expect_rbrace (\<lambda>_. pret (NBlock body))))"

definition parse_paren_group :: "nat \<Rightarrow> node parse \<Rightarrow> node parse" where
  "parse_paren_group n command =
     pbind expect_lparen (\<lambda>_.
     pbind (parse_sequence_until n command (\<lambda>k. k = KRParen)) (\<lambda>body.
     pbind expect_rparen (\<lambda>_. pret (NBlock body))))"

definition parse_condition :: "nat \<Rightarrow> node parse \<Rightarrow> string \<Rightarrow> node parse" where
  "parse_condition n command keyword =
     pbind (expect_word keyword) (\<lambda>_.
     pbind expect_lparen (\<lambda>_.
     pbind (parse_sequence_until n command (\<lambda>k. k = KRParen)) (\<lambda>body.
     pbind expect_rparen (\<lambda>_.
     pbind skip_separators (\<lambda>_. pret (NSequence body))))))"

text \<open>The \<open>if not\<close> after a command; without it the position is put back.\<close>

definition parse_else :: "node parse \<Rightarrow> node option parse" where
  "parse_else command = (\<lambda>origin.
     pbind skip_separators (\<lambda>_.
     pbind (match_word ''if'') (\<lambda>a.
     if a then
       pbind (match_word ''not'') (\<lambda>b.
       if b then pbind skip_separators (\<lambda>_. pbind command (\<lambda>x. pret (Some x)))
       else (\<lambda>_. Inr (None, origin)))
     else (\<lambda>_. Inr (None, origin)))) origin)"

definition parse_if :: "nat \<Rightarrow> node parse \<Rightarrow> node parse" where
  "parse_if n command =
     pbind (parse_condition n command ''if'') (\<lambda>condition.
     pbind command (\<lambda>then_branch.
     pbind (parse_else command) (\<lambda>else_branch.
     pret (NIf condition then_branch else_branch))))"

definition parse_while :: "nat \<Rightarrow> node parse \<Rightarrow> node parse" where
  "parse_while n command =
     pbind (parse_condition n command ''while'') (\<lambda>condition.
     pbind command (\<lambda>body. pret (NWhile condition body)))"

definition parse_for :: "nat \<Rightarrow> node parse \<Rightarrow> node parse" where
  "parse_for n command =
     pbind (expect_word ''for'') (\<lambda>_.
     pbind expect_lparen (\<lambda>_.
     pbind expect_any_word (\<lambda>var.
     pbind (match_word ''in'') (\<lambda>has_in.
     pbind (if has_in then word_list n (\<lambda>k. k = Some KRParen) [] else pret []) (\<lambda>values.
     pbind expect_rparen (\<lambda>_.
     pbind skip_separators (\<lambda>_.
     pbind command (\<lambda>body. pret (NFor var values body)))))))))"

definition ends_patterns :: "token_kind option \<Rightarrow> bool" where
  "ends_patterns k \<longleftrightarrow> is_separator k \<or> k = Some KRBrace \<or> k = None"

fun switch_loop :: "nat \<Rightarrow> nat \<Rightarrow> node parse \<Rightarrow> switch_case list \<Rightarrow> switch_case list parse" where
  "switch_loop 0 m command cases = pfail ParseFuel"
| "switch_loop (Suc n) m command cases =
     peeking (\<lambda>k.
       if k = Some KRBrace \<or> k = None then pret cases
       else
         pbind (expect_word ''case'') (\<lambda>_.
         pbind (word_list m ends_patterns []) (\<lambda>patterns.
         pbind consume_separator (\<lambda>_.
         pbind (parse_sequence_until m command (\<lambda>k. k = KRBrace \<or> k = KWord ''case'')) (\<lambda>body.
         pbind skip_separators (\<lambda>_.
         switch_loop n m command (cases @ [SwitchCase patterns body])))))))"

definition parse_switch :: "nat \<Rightarrow> node parse \<Rightarrow> node parse" where
  "parse_switch n command =
     pbind (expect_word ''switch'') (\<lambda>_.
     pbind expect_lparen (\<lambda>_.
     pbind expect_any_word (\<lambda>v.
     pbind expect_rparen (\<lambda>_.
     pbind skip_separators (\<lambda>_.
     pbind expect_lbrace (\<lambda>_.
     pbind skip_separators (\<lambda>_.
     pbind (switch_loop n n command []) (\<lambda>cases.
     pbind expect_rbrace (\<lambda>_. pret (NSwitch (word_new v) cases))))))))))"

definition parse_function :: "nat \<Rightarrow> node parse \<Rightarrow> node parse" where
  "parse_function n command =
     pbind (expect_word ''fn'') (\<lambda>_.
     pbind expect_any_word (\<lambda>name.
     peeking (\<lambda>k.
       if k = Some KLBrace then pbind (parse_block n command) (\<lambda>body. pret (NFunction name (Some body)))
       else pret (NFunction name None))))"

section \<open>Simple commands\<close>

definition is_name :: "string \<Rightarrow> bool" where
  "is_name s =
     (case s of
        [] \<Rightarrow> False
      | c # cs \<Rightarrow>
          (is_alpha_char c \<or> c = CHR ''_'' \<or> c = CHR ''*'') \<and>
          list_all (\<lambda>c. is_alpha_char c \<or> is_digit_char c \<or> c = CHR ''_'') cs)"

definition parse_assignment_head :: "string \<Rightarrow> (string \<times> string) option" where
  "parse_assignment_head raw =
     (case split_once (CHR ''='') raw of
        Some (name, suffix) \<Rightarrow> if is_name name then Some (name, suffix) else None
      | None \<Rightarrow> None)"

definition assignment_values :: "nat \<Rightarrow> string \<Rightarrow> rc_word list parse" where
  "assignment_values n suffix =
     peeking (\<lambda>k.
       if suffix = [] \<and> k = Some KLParen then
         pbind advance (\<lambda>_.
         pbind (word_list n (\<lambda>k. k = Some KRParen \<or> k = None) []) (\<lambda>values.
         pbind expect_rparen (\<lambda>_. pret values)))
       else pret (if suffix = [] then [] else [word_new suffix]))"

definition take_here_doc :: "string \<Rightarrow> redirect_target parse" where
  "take_here_doc raw = (\<lambda>st.
     case bt_get (ps_docs st) raw of
       Some doc \<Rightarrow> Inr (TargetHereDoc doc, st\<lparr>ps_docs := bt_remove raw (ps_docs st)\<rparr>)
     | None \<Rightarrow> Inr (TargetWord (word_new raw), st))"

definition redirect_target :: "nat \<Rightarrow> node parse \<Rightarrow> redirect_mode \<Rightarrow> redirect_target option parse" where
  "redirect_target n command mode =
     (case mode of
        ModeDup _ \<Rightarrow> pret None
      | ModeHere \<Rightarrow> pbind expect_any_word (\<lambda>raw. pbind (take_here_doc raw) (\<lambda>t. pret (Some t)))
      | _ \<Rightarrow>
          peeking (\<lambda>k.
            if k = Some KLBrace then pbind (parse_block n command) (\<lambda>x. pret (Some (TargetProcess x)))
            else pbind expect_any_word (\<lambda>raw. pret (Some (TargetWord (word_new raw))))))"

fun simple_loop ::
    "nat \<Rightarrow> nat \<Rightarrow> node parse \<Rightarrow> bool \<Rightarrow> assignment list \<Rightarrow> rc_word list \<Rightarrow> redirect list \<Rightarrow> node parse" where
  "simple_loop 0 m command seen_word as ws rs = pfail ParseFuel"
| "simple_loop (Suc n) m command seen_word as ws rs =
     peeking (\<lambda>k. case k of
       Some (KWord raw) \<Rightarrow>
         pbind advance (\<lambda>_.
         case (if seen_word then None else parse_assignment_head raw) of
           Some (name, suffix) \<Rightarrow>
             pbind (assignment_values m suffix) (\<lambda>values.
             simple_loop n m command seen_word (as @ [\<lparr>as_name = name, as_values = values\<rparr>]) ws rs)
         | None \<Rightarrow> simple_loop n m command True as (ws @ [word_new raw]) rs)
     | Some (KRedirect op) \<Rightarrow>
         pbind advance (\<lambda>_.
         pbind (redirect_target m command (op_mode op)) (\<lambda>target.
         simple_loop n m command seen_word as ws (rs @ [Redirect (op_fd op) (op_mode op) target])))
     | _ \<Rightarrow> pret (if as = [] \<and> ws = [] \<and> rs = [] then NEmpty else NSimple (SimpleCommand as ws rs)))"

definition parse_simple :: "nat \<Rightarrow> node parse \<Rightarrow> node parse" where
  "parse_simple n command = simple_loop n n command False [] [] []"

fun parse_command :: "nat \<Rightarrow> node parse" where
  "parse_command 0 = pfail ParseFuel"
| "parse_command (Suc n) =
     peeking (\<lambda>k.
       if k = Some KLBrace then parse_block n (parse_command n)
       else if k = Some KLParen then parse_paren_group n (parse_command n)
       else if k = Some (KWord ''if'') then parse_if n (parse_command n)
       else if k = Some (KWord ''while'') then parse_while n (parse_command n)
       else if k = Some (KWord ''for'') then parse_for n (parse_command n)
       else if k = Some (KWord ''switch'') then parse_switch n (parse_command n)
       else if k = Some (KWord ''fn'') then parse_function n (parse_command n)
       else parse_simple (Suc n) (parse_command n))"

section \<open>Scripts\<close>

definition parse_script :: "nat \<Rightarrow> node list parse" where
  "parse_script n = parse_sequence_until n (parse_command n) (\<lambda>k. k = KRBrace \<or> k = KRParen)"

definition script_fuel :: "token list \<Rightarrow> nat" where
  "script_fuel ts = Suc (Suc (length ts))"

definition parse_tokens :: "token list \<Rightarrow> (string, here_doc) btmap \<Rightarrow> parse_fault + node list" where
  "parse_tokens ts docs =
     (case parse_script (script_fuel ts) \<lparr>ps_tokens = ts, ps_docs = docs\<rparr> of
        Inl e \<Rightarrow> Inl e
      | Inr (nodes, _) \<Rightarrow> Inr nodes)"

definition rc_parse :: "string \<Rightarrow> parse_fault + node list" where
  "rc_parse source =
     (case prepare_here_docs source of
        Inl e \<Rightarrow> Inl (ParseErr e)
      | Inr (text, docs) \<Rightarrow>
          (case lex 0 True text of
             Inl e \<Rightarrow> Inl (ParseErr e)
           | Inr ts \<Rightarrow> parse_tokens ts docs))"

end
