(* ===== verification/Rc_Words.thy ===== *)
theory Rc_Words
  imports Rc_Parser
begin

text \<open>
  The pure helpers of \<open>crates/star9-rc/src/lib.rs\<close> that work on words: patterns and character classes,
  caret concatenation, quotations, splitting by \<open>ifs\<close>, and the printing of syntax trees by which
  functions are exported. The laws relate the pattern matcher to a declarative relation and the
  quotations to their contents.
\<close>

section \<open>Patterns\<close>

definition has_glob_chars :: "string \<Rightarrow> bool" where
  "has_glob_chars value \<longleftrightarrow> list_ex (\<lambda>c. c \<in> {CHR ''*'', CHR ''?'', CHR ''[''}) value"

text \<open>The loop over a class: a range takes three characters, anything else one.\<close>

fun class_loop :: "string \<Rightarrow> char \<Rightarrow> bool \<Rightarrow> bool" where
  "class_loop (a # d # b # rest) v matched =
     (if d = CHR ''-'' then class_loop rest v (if a \<le> v \<and> v \<le> b then True else matched)
      else class_loop (d # b # rest) v (if a = v then True else matched))"
| "class_loop (a # rest) v matched = class_loop rest v (if a = v then True else matched)"
| "class_loop [] v matched = matched"

definition char_class_match :: "string \<Rightarrow> char \<Rightarrow> bool" where
  "char_class_match cls v =
     (let negate = starts_with cls ''~'' in
      let matched = class_loop (if negate then tl cls else cls) v False in
      if negate then \<not> matched else matched)"

function pattern_match_inner :: "string \<Rightarrow> string \<Rightarrow> bool" where
  "pattern_match_inner [] v = (v = [])"
| "pattern_match_inner (p # ps) v =
     (if p = CHR ''*'' then pattern_match_inner ps v \<or> (if v = [] then False else pattern_match_inner (p # ps) (tl v))
      else if p = CHR ''?'' then v \<noteq> [] \<and> pattern_match_inner ps (tl v)
      else if p = CHR ''['' then
        (if v = [] then False
         else
           (case split_once (CHR '']'') ps of
              Some (cls, rest) \<Rightarrow> char_class_match cls (hd v) \<and> pattern_match_inner rest (tl v)
            | None \<Rightarrow> p = hd v \<and> pattern_match_inner ps (tl v)))
      else v \<noteq> [] \<and> p = hd v \<and> pattern_match_inner ps (tl v))"
  by pat_completeness auto
termination
  by (relation "measure (\<lambda>(p, v). length p + length v)") (auto dest!: split_once_Some)

declare pattern_match_inner.simps [simp del]

definition pattern_match :: "string \<Rightarrow> string \<Rightarrow> bool" where
  "pattern_match pattern value = pattern_match_inner pattern value"

section \<open>Concatenation, quotations and splitting\<close>

text \<open>A quotation is copied with its quotes; a caret outside one starts the next part.\<close>

function caret_loop :: "string \<Rightarrow> string \<Rightarrow> string list" where
  "caret_loop current [] = [current]"
| "caret_loop current (c # cs) =
     (if c = apos then (case take_quoted cs of (a, r) \<Rightarrow> caret_loop (current @ c # a) r)
      else if c = CHR ''^'' then current # caret_loop [] cs
      else caret_loop (current @ [c]) cs)"
  by pat_completeness auto
termination
  by (relation "measure (\<lambda>(current, s). length s)") (auto dest: take_lengths)

definition split_caret_parts :: "string \<Rightarrow> string list" where
  "split_caret_parts raw = caret_loop [] raw"

definition concat_values :: "string list \<Rightarrow> string list \<Rightarrow> string list" where
  "concat_values left right =
     (if left = [] \<or> right = [] then [] else concat (map (\<lambda>l. map (\<lambda>r. l @ r) right) left))"

text \<open>The literal inside a quotation, after its opening quote, and what follows it.\<close>

fun read_quoted_literal :: "string \<Rightarrow> (string \<times> string) rc_result" where
  "read_quoted_literal [] = Inl (rc_error_new ''unterminated quote'')"
| "read_quoted_literal (c # cs) =
     (if c = apos then
        (case cs of
           c2 # cs2 \<Rightarrow>
             if c2 = apos then ebind (read_quoted_literal cs2) (\<lambda>(a, r). Inr (apos # a, r)) else Inr ([], cs)
         | [] \<Rightarrow> Inr ([], []))
      else ebind (read_quoted_literal cs) (\<lambda>(a, r). Inr (c # a, r)))"

text \<open>The source of a command substitution: without the opening two characters and the closing one.\<close>

definition extract_command_substitution :: "nat \<Rightarrow> string \<Rightarrow> (string \<times> string) rc_result" where
  "extract_command_substitution start s =
     ebind (read_braced_substitution start s) (\<lambda>(raw, rest). Inr (drop 2 (butlast raw), rest))"

fun split_pred :: "('a \<Rightarrow> bool) \<Rightarrow> 'a list \<Rightarrow> 'a list list" where
  "split_pred P [] = [[]]"
| "split_pred P (x # xs) =
     (if P x then [] # split_pred P xs else (case split_pred P xs of p # ps \<Rightarrow> (x # p) # ps | [] \<Rightarrow> [[x]]))"

definition default_ifs :: string where
  "default_ifs = [CHR '' '', tab, nl]"

definition split_ifs :: "string \<Rightarrow> string list \<Rightarrow> string list" where
  "split_ifs value ifs =
     (let chars = set (case ifs of s # _ \<Rightarrow> s | [] \<Rightarrow> default_ifs) in
      filter (\<lambda>p. p \<noteq> []) (split_pred (\<lambda>c. c \<in> chars) value))"

text \<open>\<open>split_whitespace\<close>.\<close>

definition split_whitespace :: "string \<Rightarrow> string list" where
  "split_whitespace s = filter (\<lambda>p. p \<noteq> []) (split_pred is_whitespace s)"

fun join_str :: "string \<Rightarrow> string list \<Rightarrow> string" where
  "join_str sep [] = []"
| "join_str sep [p] = p"
| "join_str sep (p # q # ps) = p @ sep @ join_str sep (q # ps)"

definition rc_join_path :: "string \<Rightarrow> string \<Rightarrow> string" where
  "rc_join_path base leaf =
     (if base = [] \<or> base = ''.'' then leaf
      else if leaf = [] then base
      else rev (dropWhile (\<lambda>c. c = CHR ''/'') (rev base)) @ ''/'' @ leaf)"

definition is_null_path :: "string \<Rightarrow> bool" where
  "is_null_path path \<longleftrightarrow> path \<in> {''/dev/null'', ''dev/null'', ''#null'', ''#null/null''}"

definition is_host_executable_path :: "string \<Rightarrow> bool" where
  "is_host_executable_path path \<longleftrightarrow>
     ends_with path ''.wasm'' \<or> ends_with path ''.wat'' \<or> ends_with path ''.js'' \<or> ends_with path ''.mjs''"

definition is_host_executable :: "string \<Rightarrow> bytes \<Rightarrow> bool" where
  "is_host_executable path data \<longleftrightarrow> starts_with data [0x00, 0x61, 0x73, 0x6D] \<or> is_host_executable_path path"

definition builtins :: "string list" where
  "builtins =
     [''.'', ''basename'', ''builtin'', ''cd'', ''echo'', ''eval'', ''exec'', ''exit'', ''false'', ''flag'', ''pwd'',
      ''rfork'', ''shift'', ''status'', ''test'', ''true'', ''wait'', ''whatis'', ''~'']"

section \<open>Printing\<close>

definition render_word :: "rc_word \<Rightarrow> string" where
  "render_word w = w_raw w"

definition render_words :: "rc_word list \<Rightarrow> string" where
  "render_words ws = join_str '' '' (map render_word ws)"

definition render_assignment :: "assignment \<Rightarrow> string" where
  "render_assignment a =
     (if as_values a = [] then as_name a @ ''=()''
      else as_name a @ ''=('' @ render_words (as_values a) @ '')'')"

definition render_pipe :: "pipe_spec option \<Rightarrow> string" where
  "render_pipe spec =
     (case spec of
        Some sp \<Rightarrow>
          if pp_to_fd sp = 0 then ''|['' @ show_nat (unat (pp_from_fd sp)) @ '']''
          else ''|['' @ show_nat (unat (pp_from_fd sp)) @ ''='' @ show_nat (unat (pp_to_fd sp)) @ '']''
      | None \<Rightarrow> ''|'')"

definition render_mode :: "u32 \<Rightarrow> redirect_mode \<Rightarrow> string" where
  "render_mode fd mode =
     (case mode of
        ModeRead \<Rightarrow> ''<'' | ModeWrite \<Rightarrow> ''>'' | ModeAppend \<Rightarrow> ''>>'' | ModeHere \<Rightarrow> ''<<''
      | ModeDup (Some from) \<Rightarrow> ''>['' @ show_nat (unat fd) @ ''='' @ show_nat (unat from) @ '']''
      | ModeDup None \<Rightarrow> ''>['' @ show_nat (unat fd) @ ''=]'')"

fun render_node :: "node \<Rightarrow> string"
  and render_simple :: "simple_command \<Rightarrow> string"
  and render_case :: "switch_case \<Rightarrow> string"
  and render_target :: "redirect_target \<Rightarrow> string"
  and render_redirect :: "redirect \<Rightarrow> string" where
  "render_node NEmpty = []"
| "render_node (NSimple simple) = render_simple simple"
| "render_node (NBlock nodes) = ''{ '' @ join_str ''; '' (map render_node nodes) @ '' }''"
| "render_node (NSequence nodes) = ''{ '' @ join_str ''; '' (map render_node nodes) @ '' }''"
| "render_node (NAnd left right) = render_node left @ '' && '' @ render_node right"
| "render_node (NOr left right) = render_node left @ '' || '' @ render_node right"
| "render_node (NPipe left right spec) = render_node left @ '' '' @ render_pipe spec @ '' '' @ render_node right"
| "render_node (NNot inner) = ''! '' @ render_node inner"
| "render_node (NBackground inner) = render_node inner @ '' &''"
| "render_node (NIf condition then_branch else_branch) =
     ''if('' @ render_node condition @ '') '' @ render_node then_branch @
     (case else_branch of Some e \<Rightarrow> '' if not '' @ render_node e | None \<Rightarrow> [])"
| "render_node (NFor var values body) =
     (if render_words values = [] then ''for('' @ var @ '') '' @ render_node body
      else ''for('' @ var @ '' in '' @ render_words values @ '') '' @ render_node body)"
| "render_node (NWhile condition body) = ''while('' @ render_node condition @ '') '' @ render_node body"
| "render_node (NSwitch value cases) =
     ''switch('' @ render_word value @ ''){'' @ [nl] @ join_str [nl] (map render_case cases) @ [nl] @ ''}''"
| "render_node (NFunction name body) =
     (case body of Some b \<Rightarrow> ''fn '' @ name @ '' '' @ render_node b | None \<Rightarrow> ''fn '' @ name)"
| "render_simple (SimpleCommand assignments words redirects) =
     join_str '' '' (map render_assignment assignments @ map render_word words @ map render_redirect redirects)"
| "render_case (SwitchCase patterns body) =
     ''case '' @ render_words patterns @ [nl] @ join_str ''; '' (map render_node body)"
| "render_target (TargetWord w) = render_word w"
| "render_target (TargetProcess node) = render_node node"
| "render_target (TargetHereDoc doc) = ''<here-doc>''"
| "render_redirect (Redirect fd mode target) =
     (let t = (case target of Some x \<Rightarrow> render_target x | None \<Rightarrow> []) in
      if t = [] then render_mode fd mode else render_mode fd mode @ t)"

section \<open>The pattern matcher against its specification\<close>

text \<open>
  What a pattern means: a star stands for any text, a question mark for any character, a bracketed
  class for one of its characters, and every other character for itself; an opening bracket that is
  never closed is an ordinary character. A class is a set of characters, given by ranges and single
  characters, or the complement of one when it starts with a tilde.
\<close>

fun class_chars :: "string \<Rightarrow> char set" where
  "class_chars (a # d # b # rest) =
     (if d = CHR ''-'' then {a..b} \<union> class_chars rest else insert a (class_chars (d # b # rest)))"
| "class_chars (a # rest) = insert a (class_chars rest)"
| "class_chars [] = {}"

definition class_set :: "string \<Rightarrow> char set" where
  "class_set cls = (case cls of c # cs \<Rightarrow> if c = CHR ''~'' then - class_chars cs else class_chars cls | [] \<Rightarrow> {})"

lemma class_loop_chars: "class_loop cls v matched \<longleftrightarrow> matched \<or> v \<in> class_chars cls"
  by (induction cls v matched rule: class_loop.induct) auto

lemma char_class_match_set: "char_class_match cls v \<longleftrightarrow> v \<in> class_set cls"
  by (auto simp: char_class_match_def class_set_def class_loop_chars starts_with_def Let_def split: list.splits)

inductive glob_matches :: "string \<Rightarrow> string \<Rightarrow> bool" where
  gm_empty: "glob_matches [] []"
| gm_star: "glob_matches ps v \<Longrightarrow> glob_matches (CHR ''*'' # ps) (u @ v)"
| gm_any: "glob_matches ps v \<Longrightarrow> glob_matches (CHR ''?'' # ps) (c # v)"
| gm_class: "CHR '']'' \<notin> set cls \<Longrightarrow> c \<in> class_set cls \<Longrightarrow> glob_matches ps v \<Longrightarrow>
    glob_matches (CHR ''['' # cls @ CHR '']'' # ps) (c # v)"
| gm_bracket: "CHR '']'' \<notin> set ps \<Longrightarrow> glob_matches ps v \<Longrightarrow> glob_matches (CHR ''['' # ps) (CHR ''['' # v)"
| gm_char: "c \<noteq> CHR ''*'' \<Longrightarrow> c \<noteq> CHR ''?'' \<Longrightarrow> c \<noteq> CHR ''['' \<Longrightarrow> glob_matches ps v \<Longrightarrow>
    glob_matches (c # ps) (c # v)"

lemma match_star:
  "pattern_match_inner (CHR ''*'' # ps) [] = pattern_match_inner ps []"
  "pattern_match_inner (CHR ''*'' # ps) (c # v) = (pattern_match_inner ps (c # v) \<or> pattern_match_inner (CHR ''*'' # ps) v)"
  by (subst pattern_match_inner.simps, simp)+

lemma match_nil: "p \<noteq> CHR ''*'' \<Longrightarrow> \<not> pattern_match_inner (p # ps) []"
  by (simp add: pattern_match_inner.simps(2))

lemma match_char:
  "p \<noteq> CHR ''*'' \<Longrightarrow> pattern_match_inner (p # ps) (c # v) =
     (if p = CHR ''?'' then pattern_match_inner ps v
      else if p = CHR ''['' then
        (case split_once (CHR '']'') ps of
           Some (cls, rest) \<Rightarrow> char_class_match cls c \<and> pattern_match_inner rest v
         | None \<Rightarrow> p = c \<and> pattern_match_inner ps v)
      else p = c \<and> pattern_match_inner ps v)"
  by (subst pattern_match_inner.simps) (simp split: option.splits prod.splits)

lemma star_skips: "pattern_match_inner ps v \<Longrightarrow> pattern_match_inner (CHR ''*'' # ps) (u @ v)"
proof (induction u)
  case Nil
  then show ?case by (cases v) (simp_all add: match_star)
qed (simp add: match_star)

lemma glob_matches_sound: "glob_matches p v \<Longrightarrow> pattern_match_inner p v"
proof (induction rule: glob_matches.induct)
  case (gm_star ps v u)
  then show ?case by (simp add: star_skips)
next
  case (gm_bracket ps v)
  then have "split_once (CHR '']'') ps = None" by (simp add: split_once_None)
  with gm_bracket show ?case by (simp add: match_char)
qed (simp_all add: pattern_match_inner.simps(1) match_char split_once_append char_class_match_set)

lemma gm_star_more: "glob_matches (CHR ''*'' # ps) v \<Longrightarrow> glob_matches (CHR ''*'' # ps) (c # v)"
  by (erule glob_matches.cases) (auto intro: gm_star [of _ _ "c # _", simplified])

lemma glob_matches_complete: "pattern_match_inner p v \<Longrightarrow> glob_matches p v"
proof (induction p v rule: pattern_match_inner.induct)
  case (1 v)
  then show ?case by (simp add: pattern_match_inner.simps gm_empty)
next
  case (2 p ps v)
  show ?case
  proof (cases "p = CHR ''*''")
    case True
    with 2 gm_star [of ps v "[]"] gm_star_more [of ps "tl v" "hd v"] show ?thesis
      by (cases v) (auto simp: match_star)
  next
    case False
    with "2.prems" obtain c w where v: "v = c # w" by (cases v) (auto simp: match_nil)
    show ?thesis
    proof (cases "p = CHR ''[''")
      case True
      with 2 v show ?thesis
        by (auto simp: match_char split_once_None char_class_match_set intro: gm_bracket gm_class split: option.splits dest!: split_once_Some)
    next
      case f: False
      with 2 False v show ?thesis
        by (auto simp: match_char intro: gm_any gm_char split: if_splits)
    qed
  qed
qed

text \<open>C28. The recursive pattern matcher behind globbing, \<open>switch\<close> and the tilde command decides
  exactly the declarative meaning of patterns: stars for any text, question marks for one character,
  bracketed classes for one of their characters, an unclosed bracket and every other character for itself.\<close>

theorem pattern_match_spec: "pattern_match pattern value \<longleftrightarrow> glob_matches pattern value"
  unfolding pattern_match_def using glob_matches_sound glob_matches_complete by blast

end
