(* ===== verification/Rc_Session.thy ===== *)
theory Rc_Session
  imports Rc_Words
begin

text \<open>
  The session of the rc interpreter of \<open>crates/star9-rc/src/lib.rs\<close>: the host interface \<open>RcHost\<close> as a
  record of operations on a host state, the session state, the environment by which a session hands
  its variables and functions to the host, and the expansion of words. An operation of the session is a
  function from the session to a result and a new session; it is \<open>None\<close> only when the fuel of an
  evaluation that it starts runs out.
\<close>

section \<open>What passes between the interpreter and its host\<close>

record rc_stat =
  rs_is_dir :: bool

record rc_command_result =
  cr_status :: rc_status
  cr_stdout :: string
  cr_stderr :: string

record rc_command_invocation =
  ci_name :: string
  ci_args :: "string list"
  ci_stdin :: string
  ci_env :: "(string, string list) btmap"

datatype rc_graph_kind = GraphPipeline | GraphBackground | GraphSubstitutionRead | GraphSubstitutionWrite

record rc_fd_binding =
  fb_fd :: u32
  fb_path :: string
  fb_readable :: bool
  fb_writable :: bool
  fb_append :: bool
  fb_dup_from :: "u32 option"
  fb_close :: bool

definition binding_file :: "u32 \<Rightarrow> string \<Rightarrow> bool \<Rightarrow> bool \<Rightarrow> rc_fd_binding" where
  "binding_file fd path readable writable =
     \<lparr>fb_fd = fd, fb_path = path, fb_readable = readable, fb_writable = writable, fb_append = False,
      fb_dup_from = None, fb_close = False\<rparr>"

definition binding_append_file :: "u32 \<Rightarrow> string \<Rightarrow> rc_fd_binding" where
  "binding_append_file fd path = (binding_file fd path False True)\<lparr>fb_append := True\<rparr>"

definition binding_dup :: "u32 \<Rightarrow> u32 \<Rightarrow> rc_fd_binding" where
  "binding_dup fd from =
     \<lparr>fb_fd = fd, fb_path = [], fb_readable = False, fb_writable = False, fb_append = False,
      fb_dup_from = Some from, fb_close = False\<rparr>"

definition binding_close :: "u32 \<Rightarrow> rc_fd_binding" where
  "binding_close fd =
     \<lparr>fb_fd = fd, fb_path = [], fb_readable = False, fb_writable = False, fb_append = False,
      fb_dup_from = None, fb_close = True\<rparr>"

record rc_stage_spec =
  st_command :: string
  st_cwd :: string
  st_env :: "(string, string list) btmap"
  st_stdin :: "string option"
  st_stdout :: "string option"
  st_stderr :: "string option"
  st_fd_bindings :: "rc_fd_binding list"

record rc_graph_spec =
  gs_kind :: rc_graph_kind
  gs_job_id :: "u32 option"
  gs_stages :: "rc_stage_spec list"

record rc_stage_record =
  sr_command :: string
  sr_task_id :: "string option"
  sr_fd_bindings :: "rc_fd_binding list"

record rc_graph_record =
  gr_graph_id :: string
  gr_kind :: rc_graph_kind
  gr_job_id :: "u32 option"
  gr_stages :: "rc_stage_record list"

record rc_stage_outcome =
  so_status :: rc_status

record rc_job_result =
  jr_id :: u32
  jr_status :: rc_status
  jr_stdout :: string
  jr_stderr :: string

record rc_exec_stage =
  es_argv :: "string list"
  es_stdin :: string
  es_cwd :: string
  es_env :: "(string, string list) btmap"
  es_fd_bindings :: "rc_fd_binding list"

record rc_exec_graph =
  eg_kind :: rc_graph_kind
  eg_job_id :: "u32 option"
  eg_stages :: "rc_exec_stage list"

record rc_started_job =
  sj_id :: u32

datatype rfork_share = RforkShared | RforkCopy | RforkClean

record rc_rfork_spec =
  rf_raw :: string
  rf_namespace :: rfork_share
  rf_environment :: rfork_share
  rf_fds :: rfork_share
  rf_new_note_group :: bool
  rf_no_mount :: bool

datatype rfork_environment_outcome = EnvUnchanged | EnvReload | EnvCleared

record rc_rfork_outcome =
  ro_environment :: rfork_environment_outcome

section \<open>Rfork flags\<close>

definition rfork_lower :: "rfork_share \<Rightarrow> string \<Rightarrow> rfork_share rc_result" where
  "rfork_lower old message = (if old \<noteq> RforkClean then Inr RforkCopy else Inl (rc_error_new message))"

definition rfork_upper :: "rfork_share \<Rightarrow> string \<Rightarrow> rfork_share rc_result" where
  "rfork_upper old message = (if old \<noteq> RforkCopy then Inr RforkClean else Inl (rc_error_new message))"

definition rfork_flag :: "rc_rfork_spec \<Rightarrow> char \<Rightarrow> rc_rfork_spec rc_result" where
  "rfork_flag spec flag =
     (let nmsg = ''rfork flags n and N are mutually exclusive'';
          emsg = ''rfork flags e and E are mutually exclusive'';
          fmsg = ''rfork flags f and F are mutually exclusive'' in
      if flag = CHR ''n'' then ebind (rfork_lower (rf_namespace spec) nmsg) (\<lambda>x. Inr (spec\<lparr>rf_namespace := x\<rparr>))
      else if flag = CHR ''N'' then ebind (rfork_upper (rf_namespace spec) nmsg) (\<lambda>x. Inr (spec\<lparr>rf_namespace := x\<rparr>))
      else if flag = CHR ''e'' then ebind (rfork_lower (rf_environment spec) emsg) (\<lambda>x. Inr (spec\<lparr>rf_environment := x\<rparr>))
      else if flag = CHR ''E'' then ebind (rfork_upper (rf_environment spec) emsg) (\<lambda>x. Inr (spec\<lparr>rf_environment := x\<rparr>))
      else if flag = CHR ''f'' then ebind (rfork_lower (rf_fds spec) fmsg) (\<lambda>x. Inr (spec\<lparr>rf_fds := x\<rparr>))
      else if flag = CHR ''F'' then ebind (rfork_upper (rf_fds spec) fmsg) (\<lambda>x. Inr (spec\<lparr>rf_fds := x\<rparr>))
      else if flag = CHR ''s'' then Inr (spec\<lparr>rf_new_note_group := True\<rparr>)
      else if flag = CHR ''m'' then Inr (spec\<lparr>rf_no_mount := True\<rparr>)
      else Inl (rc_error_new (''unsupported rfork flag '' @ [flag])))"

fun rfork_flags :: "rc_rfork_spec \<Rightarrow> string \<Rightarrow> rc_rfork_spec rc_result" where
  "rfork_flags spec [] = Inr spec"
| "rfork_flags spec (c # cs) = ebind (rfork_flag spec c) (\<lambda>spec. rfork_flags spec cs)"

definition rfork_parse :: "string list \<Rightarrow> rc_rfork_spec rc_result" where
  "rfork_parse args =
     (let raw = (if args = [] then ''ens'' else concat args) in
      rfork_flags \<lparr>rf_raw = raw, rf_namespace = RforkShared, rf_environment = RforkShared, rf_fds = RforkShared,
                   rf_new_note_group = False, rf_no_mount = False\<rparr> raw)"

section \<open>The host interface\<close>

record 'h rc_host =
  h_current_dir :: "'h \<Rightarrow> string"
  h_set_current_dir :: "string \<Rightarrow> 'h \<Rightarrow> unit rc_result \<times> 'h"
  h_read_file :: "string \<Rightarrow> 'h \<Rightarrow> bytes rc_result \<times> 'h"
  h_write_file :: "string \<Rightarrow> bytes \<Rightarrow> 'h \<Rightarrow> unit rc_result \<times> 'h"
  h_append_file :: "string \<Rightarrow> bytes \<Rightarrow> 'h \<Rightarrow> unit rc_result \<times> 'h"
  h_read_dir :: "string \<Rightarrow> 'h \<Rightarrow> string list rc_result \<times> 'h"
  h_stat :: "string \<Rightarrow> 'h \<Rightarrow> rc_stat rc_result \<times> 'h"
  h_run_command :: "rc_command_invocation \<Rightarrow> 'h \<Rightarrow> rc_command_result rc_result \<times> 'h"
  h_load_environment :: "'h \<Rightarrow> (string, bytes) btmap option rc_result \<times> 'h"
  h_store_environment :: "(string, bytes) btmap \<Rightarrow> 'h \<Rightarrow> unit rc_result \<times> 'h"
  h_prepare_process_graph :: "rc_graph_spec \<Rightarrow> 'h \<Rightarrow> rc_graph_record option rc_result \<times> 'h"
  h_finish_process_graph :: "rc_graph_record \<Rightarrow> rc_stage_outcome list \<Rightarrow> 'h \<Rightarrow> unit rc_result \<times> 'h"
  h_wait_process_job :: "u32 option \<Rightarrow> 'h \<Rightarrow> rc_job_result list option rc_result \<times> 'h"
  h_send_note_to_processes :: "string \<Rightarrow> 'h \<Rightarrow> unit rc_result \<times> 'h"
  h_execute_process_graph :: "rc_exec_graph \<Rightarrow> 'h \<Rightarrow> rc_output option rc_result \<times> 'h"
  h_start_process_graph_job :: "rc_exec_graph \<Rightarrow> 'h \<Rightarrow> rc_started_job option rc_result \<times> 'h"
  h_rfork :: "rc_rfork_spec \<Rightarrow> 'h \<Rightarrow> rc_rfork_outcome rc_result \<times> 'h"

definition rfork_environment_outcome :: "rfork_share \<Rightarrow> rfork_environment_outcome" where
  "rfork_environment_outcome e =
     (case e of RforkShared \<Rightarrow> EnvUnchanged | RforkCopy \<Rightarrow> EnvReload | RforkClean \<Rightarrow> EnvCleared)"

text \<open>The provided methods of the trait.\<close>

definition default_rfork :: "rc_rfork_spec \<Rightarrow> 'h \<Rightarrow> rc_rfork_outcome rc_result \<times> 'h" where
  "default_rfork spec h =
     (if rf_namespace spec = RforkShared \<and> rf_fds spec = RforkShared \<and> \<not> rf_new_note_group spec \<and> \<not> rf_no_mount spec
      then (Inr \<lparr>ro_environment = rfork_environment_outcome (rf_environment spec)\<rparr>, h)
      else (Inl (rc_error_new (''unsupported rfork flags '' @ rf_raw spec)), h))"

definition default_host ::
    "('h \<Rightarrow> string) \<Rightarrow> (string \<Rightarrow> 'h \<Rightarrow> unit rc_result \<times> 'h) \<Rightarrow> (string \<Rightarrow> 'h \<Rightarrow> bytes rc_result \<times> 'h) \<Rightarrow>
     (string \<Rightarrow> bytes \<Rightarrow> 'h \<Rightarrow> unit rc_result \<times> 'h) \<Rightarrow> (string \<Rightarrow> bytes \<Rightarrow> 'h \<Rightarrow> unit rc_result \<times> 'h) \<Rightarrow>
     (string \<Rightarrow> 'h \<Rightarrow> string list rc_result \<times> 'h) \<Rightarrow> (string \<Rightarrow> 'h \<Rightarrow> rc_stat rc_result \<times> 'h) \<Rightarrow>
     (rc_command_invocation \<Rightarrow> 'h \<Rightarrow> rc_command_result rc_result \<times> 'h) \<Rightarrow> 'h rc_host" where
  "default_host cwd chdir read write add list_dir stat run =
     \<lparr>h_current_dir = cwd, h_set_current_dir = chdir, h_read_file = read, h_write_file = write, h_append_file = add,
      h_read_dir = list_dir, h_stat = stat, h_run_command = run, h_load_environment = (\<lambda>h. (Inr None, h)),
      h_store_environment = (\<lambda>_ h. (Inr (), h)), h_prepare_process_graph = (\<lambda>_ h. (Inr None, h)),
      h_finish_process_graph = (\<lambda>_ _ h. (Inr (), h)), h_wait_process_job = (\<lambda>_ h. (Inr None, h)),
      h_send_note_to_processes = (\<lambda>_ h. (Inr (), h)), h_execute_process_graph = (\<lambda>_ h. (Inr None, h)),
      h_start_process_graph_job = (\<lambda>_ h. (Inr None, h)), h_rfork = default_rfork\<rparr>"

section \<open>The session\<close>

record rc_job =
  jb_id :: u32
  jb_status :: rc_status
  jb_stdout :: string
  jb_stderr :: string
  jb_graph :: "rc_graph_record option"

record 'h rc_session =
  s_host :: 'h
  s_vars :: "(string, string list) btmap"
  s_functions :: "(string, node) btmap"
  s_last_status :: rc_status
  s_argv0 :: string
  s_argv :: "string list"
  s_jobs :: "rc_job list"
  s_next_job_id :: u32
  s_notes :: "string btset"

type_synonym ('h, 'a) rc = "'h rc_session \<Rightarrow> ('a \<times> 'h rc_session) option"

definition rret :: "'a \<Rightarrow> ('h, 'a) rc" where
  "rret x = (\<lambda>s. Some (x, s))"

definition rcbind :: "('h, 'a) rc \<Rightarrow> ('a \<Rightarrow> ('h, 'b) rc) \<Rightarrow> ('h, 'b) rc" where
  "rcbind m f = (\<lambda>s. case m s of None \<Rightarrow> None | Some (x, s') \<Rightarrow> f x s')"

definition rget :: "('h rc_session \<Rightarrow> 'a) \<Rightarrow> ('h, 'a) rc" where
  "rget f = (\<lambda>s. Some (f s, s))"

definition rupd :: "('h rc_session \<Rightarrow> 'h rc_session) \<Rightarrow> ('h, unit) rc" where
  "rupd f = (\<lambda>s. Some ((), f s))"

definition host_do :: "('h \<Rightarrow> 'a \<times> 'h) \<Rightarrow> ('h, 'a) rc" where
  "host_do f = (\<lambda>s. case f (s_host s) of (x, h) \<Rightarrow> Some (x, s\<lparr>s_host := h\<rparr>))"

lemma rc_run [simp]:
  "rret x s = Some (x, s)" "rget f s = Some (f s, s)" "rupd g s = Some ((), g s)"
  "host_do k s = Some (fst (k (s_host s)), s\<lparr>s_host := snd (k (s_host s))\<rparr>)"
  by (simp_all add: rret_def rget_def rupd_def host_do_def split: prod.splits)

lemma rcbind_run: "rcbind m f s = (case m s of None \<Rightarrow> None | Some (x, s') \<Rightarrow> f x s')"
  by (simp add: rcbind_def)

lemma rcbind_Some [simp]: "m s = Some (x, s') \<Longrightarrow> rcbind m f s = f x s'"
  by (simp add: rcbind_def)

definition set_session_var :: "string \<Rightarrow> string list \<Rightarrow> ('h, unit) rc" where
  "set_session_var name values = rupd (\<lambda>s. s\<lparr>s_vars := bt_insert name values (s_vars s)\<rparr>)"

definition restore_var :: "string \<Rightarrow> string list option \<Rightarrow> ('h, unit) rc" where
  "restore_var name old =
     rupd (\<lambda>s. s\<lparr>s_vars := (case old of Some v \<Rightarrow> bt_insert name v (s_vars s) | None \<Rightarrow> bt_remove name (s_vars s))\<rparr>)"

definition refresh_arg_vars :: "('h, unit) rc" where
  "refresh_arg_vars = rupd (\<lambda>s. s\<lparr>s_vars := bt_insert ''*'' (s_argv s) (s_vars s)\<rparr>)"

section \<open>The environment\<close>

definition export_var :: "string list \<Rightarrow> bytes" where
  "export_var values = as_bytes (join_on (CHR 0x00) values)"

definition import_var :: "bytes \<Rightarrow> string list" where
  "import_var data = map from_utf8_lossy (split_on 0 data)"

definition function_name :: "string \<Rightarrow> string" where
  "function_name name = ''fn#'' @ name"

definition export_environment :: "'h rc_session \<Rightarrow> (string, bytes) btmap" where
  "export_environment s =
     fold (\<lambda>(name, body) env. bt_insert (function_name name) (as_bytes (render_node body)) env) (s_functions s)
       (fold (\<lambda>(name, values) env. bt_insert name (export_var values) env) (s_vars s) [])"

text \<open>The body of the first command of an imported function's source, when it defines a function.\<close>

definition import_function :: "string \<Rightarrow> bytes \<Rightarrow> node option" where
  "import_function name data =
     (case from_utf8 data of
        None \<Rightarrow> None
      | Some source \<Rightarrow>
          (case rc_parse (''fn '' @ name @ '' '' @ source) of
             Inr (NFunction _ (Some body) # _) \<Rightarrow> Some body
           | _ \<Rightarrow> None))"

definition import_entry :: "string \<times> bytes \<Rightarrow> 'h rc_session \<Rightarrow> 'h rc_session" where
  "import_entry entry s =
     (case entry of (name, data) \<Rightarrow>
        (case strip_prefix ''fn#'' name of
           Some function \<Rightarrow>
             (case import_function function data of
                Some body \<Rightarrow> s\<lparr>s_functions := bt_insert function body (s_functions s)\<rparr>
              | None \<Rightarrow> s)
         | None \<Rightarrow> s\<lparr>s_vars := bt_insert name (import_var data) (s_vars s)\<rparr>))"

definition import_environment_without_publish :: "(string, bytes) btmap \<Rightarrow> ('h, unit) rc" where
  "import_environment_without_publish env = rcbind (rupd (fold import_entry env)) (\<lambda>_. refresh_arg_vars)"

definition replace_environment_without_publish :: "(string, bytes) btmap \<Rightarrow> ('h, unit) rc" where
  "replace_environment_without_publish env =
     rcbind (rupd (\<lambda>s. s\<lparr>s_vars := [], s_functions := []\<rparr>)) (\<lambda>_. import_environment_without_publish env)"

definition publish_environment :: "'h rc_host \<Rightarrow> ('h, unit) rc" where
  "publish_environment H =
     rcbind (rget export_environment) (\<lambda>env. rcbind (host_do (h_store_environment H env)) (\<lambda>_. rret ()))"

definition import_host_environment :: "'h rc_host \<Rightarrow> ('h, unit) rc" where
  "import_host_environment H =
     rcbind (host_do (h_load_environment H)) (\<lambda>r.
     case r of Inr (Some env) \<Rightarrow> import_environment_without_publish env | _ \<Rightarrow> rret ())"

definition import_environment :: "'h rc_host \<Rightarrow> (string, bytes) btmap \<Rightarrow> ('h, unit) rc" where
  "import_environment H env = rcbind (rupd (fold import_entry env)) (\<lambda>_. publish_environment H)"

definition set_args :: "'h rc_host \<Rightarrow> string list \<Rightarrow> ('h, unit) rc" where
  "set_args H args =
     rcbind (rupd (\<lambda>s. s\<lparr>s_argv := args\<rparr>)) (\<lambda>_. rcbind refresh_arg_vars (\<lambda>_. publish_environment H))"

definition set_argv0 :: "string \<Rightarrow> ('h, unit) rc" where
  "set_argv0 argv0 = rupd (\<lambda>s. s\<lparr>s_argv0 := argv0\<rparr>)"

definition set_var :: "'h rc_host \<Rightarrow> string \<Rightarrow> string list \<Rightarrow> ('h, unit) rc" where
  "set_var H name values = rcbind (set_session_var name values) (\<lambda>_. publish_environment H)"

definition session_state :: "'h \<Rightarrow> 'h rc_session" where
  "session_state h =
     \<lparr>s_host = h, s_vars = bt_insert ''ifs'' [default_ifs] (bt_insert ''path'' [''.'', ''bin''] []), s_functions = [],
      s_last_status = status_success, s_argv0 = ''rc'', s_argv = [], s_jobs = [], s_next_job_id = 1, s_notes = []\<rparr>"

definition session_new :: "'h rc_host \<Rightarrow> 'h \<Rightarrow> 'h rc_session option" where
  "session_new H h =
     map_option snd (rcbind (import_host_environment H) (\<lambda>_. publish_environment H) (session_state h))"

section \<open>Variables\<close>

definition lookup_var :: "'h rc_session \<Rightarrow> string \<Rightarrow> string list" where
  "lookup_var s name =
     (if name = ''*'' then s_argv s
      else if name = ''0'' then [s_argv0 s]
      else if list_all is_digit_char name then
        (case parse_usize name of
           Some i \<Rightarrow>
             if i = 0 then [s_argv0 s]
             else if i - 1 < length (s_argv s) then [s_argv s ! (i - 1)] else []
         | None \<Rightarrow> [])
      else if name = ''status'' then [show_status (s_last_status s)]
      else (case bt_get (s_vars s) name of Some v \<Rightarrow> v | None \<Rightarrow> []))"

text \<open>The values a subscript selects; indices count from one.\<close>

definition subscript :: "string \<Rightarrow> string list \<Rightarrow> string list" where
  "subscript subs values =
     concat (map (\<lambda>sub. case parse_usize sub of
         Some i \<Rightarrow> if 0 < i \<and> i - 1 < length values then [values ! (i - 1)] else []
       | None \<Rightarrow> []) (split_whitespace subs))"

definition is_name_char :: "char \<Rightarrow> bool" where
  "is_name_char c \<longleftrightarrow> is_alpha_char c \<or> is_digit_char c \<or> c = CHR ''_''"

text \<open>The expansion after a dollar sign: the values and what follows.\<close>

definition read_variable_expansion :: "'h rc_session \<Rightarrow> string \<Rightarrow> (string list \<times> string) rc_result" where
  "read_variable_expansion s cs =
     (let count = starts_with cs ''#'';
          quote = (\<not> count \<and> starts_with cs [CHR 0x22]);
          body = (if count \<or> quote then tl cs else cs);
          name = (if starts_with body ''*'' then ''*'' else takeWhile is_name_char body);
          rest = drop (length name) body
      in if name = [] then Inr ([''$''], cs)
         else
           ebind (if starts_with rest ''(''
                  then (case split_once (CHR '')'') (tl rest) of
                          Some (subs, rest) \<Rightarrow> Inr (subscript subs (lookup_var s name), rest)
                        | None \<Rightarrow> Inl (rc_error_new ''unterminated variable subscript''))
                  else Inr (lookup_var s name, rest)) (\<lambda>(values, rest).
           Inr (if count then [show_nat (length values)]
                else if quote then [join_str '' '' values] else values, rest)))"

lemma split_once_length: "split_once c s = Some (a, b) \<Longrightarrow> length b < length s"
  by (auto dest!: split_once_Some)

lemma read_variable_rest: "read_variable_expansion s cs = Inr (values, rest) \<Longrightarrow> length rest \<le> length cs"
proof -
  assume r: "read_variable_expansion s cs = Inr (values, rest)"
  define body where "body = (if starts_with cs ''#'' \<or> (\<not> starts_with cs ''#'' \<and> starts_with cs [CHR 0x22]) then tl cs else cs)"
  define name where "name = (if starts_with body ''*'' then ''*'' else takeWhile is_name_char body)"
  have b: "length body \<le> length cs" by (simp add: body_def)
  consider "rest = cs" | "rest = drop (length name) body"
    | subs where "split_once (CHR '')'') (tl (drop (length name) body)) = Some (subs, rest)"
    using r unfolding read_variable_expansion_def Let_def body_def [symmetric] name_def [symmetric]
    by (auto simp: ebind_Inr split: if_splits option.splits)
  then show ?thesis
  proof cases
    case 3
    then have "length rest \<le> length (tl (drop (length name) body))" by (rule less_imp_le [OF split_once_length])
    also have "\<dots> \<le> length cs" using b by simp
    finally show ?thesis .
  qed (use b in auto)
qed

end
