(* ===== verification/Rc_Expand.thy ===== *)
theory Rc_Expand
  imports Rc_Session
begin

text \<open>
  The expansion of words of \<open>crates/star9-rc/src/lib.rs\<close>: quotations, variables, command substitutions,
  caret concatenation and globbing against the directories of the host. The evaluation of the source of
  a command substitution is an argument, \<open>sub\<close>.
\<close>

lemma read_quoted_rest: "read_quoted_literal s = Inr (a, r) \<Longrightarrow> length r < length s"
  by (induction s arbitrary: a r rule: read_quoted_literal.induct)
     (fastforce simp: ebind_Inr split: if_splits list.splits)+

lemma extract_rest: "extract_command_substitution pos s = Inr (a, r) \<Longrightarrow> length r < length s"
  by (auto simp: extract_command_substitution_def ebind_Inr split: prod.splits dest!: read_braced_append)

section \<open>One word\<close>

text \<open>\<open>pos\<close> is the position of the rest in the part, which an unterminated substitution reports.\<close>

function expand_loop ::
    "(string \<Rightarrow> ('h, rc_output) rc) \<Rightarrow> nat \<Rightarrow> string list \<Rightarrow> string \<Rightarrow> ('h, string list rc_result) rc" where
  "expand_loop sub pos acc [] s = Some (Inr acc, s)"
| "expand_loop sub pos acc (c # cs) s =
     (if c = apos then
        (case read_quoted_literal cs of
           Inl e \<Rightarrow> Some (Inl e, s)
         | Inr (literal, rest) \<Rightarrow>
             expand_loop sub (pos + 1 + (length cs - length rest)) (concat_values acc [literal]) rest s)
      else if c = CHR ''$'' then
        (case read_variable_expansion s cs of
           Inl e \<Rightarrow> Some (Inl e, s)
         | Inr (values, rest) \<Rightarrow>
             expand_loop sub (pos + 1 + (length cs - length rest)) (concat_values acc values) rest s)
      else if c = btick \<and> take 1 cs = ''{'' then
        (case extract_command_substitution pos (c # cs) of
           Inl e \<Rightarrow> Some (Inl e, s)
         | Inr (source, rest) \<Rightarrow>
             (case sub source s of
                None \<Rightarrow> None
              | Some (out, s) \<Rightarrow>
                  expand_loop sub (pos + 1 + (length cs - length rest))
                    (concat_values acc (split_ifs (ro_stdout out) (lookup_var s ''ifs''))) rest s))
      else expand_loop sub (pos + 1) (concat_values acc [[c]]) cs s)"
  by pat_completeness auto
termination
proof (relation "measure (\<lambda>(sub, pos, acc, cs, s). length cs)", goal_cases)
  case (2 sub pos acc c cs s x literal rest)
  then show ?case using read_quoted_rest [of cs literal rest] by simp
next
  case (3 sub pos acc c cs s x vs rest)
  then show ?case using read_variable_rest [of s cs vs rest] by simp
next
  case (4 sub pos acc c cs s x source rest)
  then show ?case using extract_rest [of pos "c # cs" source rest] by simp
qed auto

declare expand_loop.simps [simp del]

definition expand_part :: "(string \<Rightarrow> ('h, rc_output) rc) \<Rightarrow> string \<Rightarrow> ('h, string list rc_result) rc" where
  "expand_part sub raw = expand_loop sub 0 [[]] raw"

fun expand_parts :: "(string \<Rightarrow> ('h, rc_output) rc) \<Rightarrow> string list \<Rightarrow> string list \<Rightarrow> ('h, string list rc_result) rc" where
  "expand_parts sub acc [] = rret (Inr acc)"
| "expand_parts sub acc (part # parts) =
     rcbind (expand_part sub part) (\<lambda>r.
     case r of Inl e \<Rightarrow> rret (Inl e) | Inr values \<Rightarrow> expand_parts sub (concat_values acc values) parts)"

definition expand_raw_word :: "(string \<Rightarrow> ('h, rc_output) rc) \<Rightarrow> string \<Rightarrow> ('h, string list rc_result) rc" where
  "expand_raw_word sub raw = expand_parts sub [[]] (split_caret_parts raw)"

definition expand_word :: "(string \<Rightarrow> ('h, rc_output) rc) \<Rightarrow> rc_word \<Rightarrow> ('h, string list) rc" where
  "expand_word sub word =
     rcbind (expand_raw_word sub (w_raw word)) (\<lambda>r.
     rret (case r of Inr values \<Rightarrow> values | Inl err \<Rightarrow> [''rc-expansion-error:'' @ show_rc_error err]))"

section \<open>Globbing\<close>

text \<open>\<open>next\<close> continues with the remaining components below an entry.\<close>

fun glob_entries ::
    "(string \<Rightarrow> string \<Rightarrow> string list \<Rightarrow> ('h, string list) rc) \<Rightarrow> string \<Rightarrow> string \<Rightarrow> string \<Rightarrow>
     string list \<Rightarrow> string list \<Rightarrow> ('h, string list) rc" where
  "glob_entries next part base prefix [] out = rret out"
| "glob_entries next part base prefix (entry # entries) out =
     (let clean = rev (dropWhile (\<lambda>c. c = CHR ''/'') (rev entry)) in
      if (starts_with clean ''.'' \<and> \<not> starts_with part ''.'') \<or> \<not> pattern_match part clean
      then glob_entries next part base prefix entries out
      else rcbind (next (rc_join_path base clean) (rc_join_path prefix clean) out)
             (glob_entries next part base prefix entries))"

fun glob_inner :: "'h rc_host \<Rightarrow> string list \<Rightarrow> string \<Rightarrow> string \<Rightarrow> string list \<Rightarrow> ('h, string list) rc" where
  "glob_inner H [] base prefix out = rret (out @ [if prefix = [] then ''.'' else prefix])"
| "glob_inner H (part # parts) base prefix out =
     (if \<not> has_glob_chars part then glob_inner H parts (rc_join_path base part) (rc_join_path prefix part) out
      else
        rcbind (host_do (h_read_dir H base)) (\<lambda>r.
        case r of
          Inl _ \<Rightarrow> rret out
        | Inr entries \<Rightarrow> glob_entries (glob_inner H parts) part base prefix entries out))"

definition glob :: "'h rc_host \<Rightarrow> string \<Rightarrow> ('h, string list) rc" where
  "glob H pattern =
     (let absolute = starts_with pattern ''/'';
          parts = filter (\<lambda>p. p \<noteq> []) (split_on (CHR ''/'') (trim_start_char (CHR ''/'') pattern))
      in rcbind (rget (\<lambda>s. if absolute then ''.'' else h_current_dir H (s_host s))) (\<lambda>base.
         rcbind (glob_inner H parts base [] []) (\<lambda>out. rret (remdups_adj (sort out)))))"

definition expand_glob_or_literal :: "'h rc_host \<Rightarrow> string \<Rightarrow> ('h, string list) rc" where
  "expand_glob_or_literal H value =
     (if \<not> has_glob_chars value then rret [value]
      else rcbind (glob H value) (\<lambda>matches. rret (if matches = [] then [value] else matches)))"

fun glob_values :: "'h rc_host \<Rightarrow> string list \<Rightarrow> string list \<Rightarrow> ('h, string list) rc" where
  "glob_values H [] out = rret out"
| "glob_values H (value # values) out =
     rcbind (expand_glob_or_literal H value) (\<lambda>more. glob_values H values (out @ more))"

fun expand_words_loop ::
    "'h rc_host \<Rightarrow> (string \<Rightarrow> ('h, rc_output) rc) \<Rightarrow> rc_word list \<Rightarrow> string list \<Rightarrow> ('h, string list) rc" where
  "expand_words_loop H sub [] out = rret out"
| "expand_words_loop H sub (word # words) out =
     rcbind (expand_word sub word) (\<lambda>expanded.
     rcbind (glob_values H expanded out) (expand_words_loop H sub words))"

definition expand_words :: "'h rc_host \<Rightarrow> (string \<Rightarrow> ('h, rc_output) rc) \<Rightarrow> rc_word list \<Rightarrow> ('h, string list) rc" where
  "expand_words H sub words = expand_words_loop H sub words []"

end
