(* ===== verification/Rc_Eval.thy ===== *)
theory Rc_Eval
  imports Rc_Expand
begin

text \<open>
  The evaluator of \<open>crates/star9-rc/src/lib.rs\<close>. The methods of the session call each other through
  \<open>eval_node\<close> only, so each definition takes the evaluation of nodes as an argument \<open>ev\<close> and one
  recursion on fuel, at the end, ties the knot. The fuel bounds the depth of nested evaluations: it is
  \<open>None\<close> for a script that recurs for ever, where the program overflows its stack.
\<close>

type_synonym 'h ev = "node \<Rightarrow> string \<Rightarrow> ('h, rc_output) rc"

section \<open>Sequences, scripts and sources\<close>

fun eval_nodes_loop :: "'h ev \<Rightarrow> node list \<Rightarrow> string \<Rightarrow> rc_output \<Rightarrow> ('h, rc_output) rc" where
  "eval_nodes_loop ev [] input out = rret out"
| "eval_nodes_loop ev (node # nodes) input out =
     rcbind (ev node input) (\<lambda>next.
     if ro_exited next then rret (output_append out next)
     else eval_nodes_loop ev nodes [] (output_append out next))"

definition eval_nodes :: "'h ev \<Rightarrow> node list \<Rightarrow> string \<Rightarrow> ('h, rc_output) rc" where
  "eval_nodes ev nodes input = eval_nodes_loop ev nodes input output_default"

definition set_last_status :: "rc_status \<Rightarrow> ('h, unit) rc" where
  "set_last_status st = rupd (\<lambda>s. s\<lparr>s_last_status := st\<rparr>)"

definition eval_script :: "'h rc_host \<Rightarrow> 'h ev \<Rightarrow> node list \<Rightarrow> string \<Rightarrow> ('h, rc_output) rc" where
  "eval_script H ev script input =
     rcbind (eval_nodes ev script input) (\<lambda>output.
     rcbind (set_last_status (ro_status output)) (\<lambda>_.
     rcbind (set_session_var ''status'' [show_status (ro_status output)]) (\<lambda>_.
     rcbind (publish_environment H) (\<lambda>_. rret output))))"

definition show_fault :: "parse_fault \<Rightarrow> string" where
  "show_fault e = (case e of ParseErr err \<Rightarrow> show_rc_error err | ParseFuel \<Rightarrow> [])"

definition eval_source :: "'h rc_host \<Rightarrow> 'h ev \<Rightarrow> string \<Rightarrow> ('h, rc_output) rc" where
  "eval_source H ev source =
     rcbind (import_host_environment H) (\<lambda>_.
     case rc_parse source of
       Inr script \<Rightarrow> eval_script H ev script []
     | Inl err \<Rightarrow>
         rcbind (set_last_status status_failure) (\<lambda>_.
         rret (output_failure ''parse'' (''rc: '' @ show_fault err @ [nl]))))"

section \<open>Redirection targets\<close>

definition redirect_path :: "'h rc_host \<Rightarrow> 'h ev \<Rightarrow> redirect \<Rightarrow> ('h, string rc_result) rc" where
  "redirect_path H ev redirect =
     (case rd_target redirect of
        Some (TargetWord word) \<Rightarrow>
          rcbind (expand_word (eval_source H ev) word) (\<lambda>vs.
          rret (case vs of v # _ \<Rightarrow> Inr v | [] \<Rightarrow> Inl (rc_error_new ''redirect target expanded to empty list'')))
      | Some (TargetHereDoc _) \<Rightarrow> rret (Inl (rc_error_new ''here document is not a path''))
      | Some (TargetProcess _) \<Rightarrow> rret (Inl (rc_error_new ''process substitution is not a path''))
      | None \<Rightarrow> rret (Inl (rc_error_new ''redirect target expanded to empty list'')))"

definition redirect_here_text :: "'h rc_host \<Rightarrow> 'h ev \<Rightarrow> redirect \<Rightarrow> ('h, string rc_result) rc" where
  "redirect_here_text H ev redirect =
     (case rd_target redirect of
        Some (TargetHereDoc doc) \<Rightarrow>
          if hd_expand doc then
            rcbind (expand_raw_word (eval_source H ev) (hd_body doc)) (\<lambda>r.
            rret (ebind r (\<lambda>vs. Inr (join_str '' '' vs))))
          else rret (Inr (hd_body doc))
      | Some (TargetWord word) \<Rightarrow> rret (Inr (w_raw word))
      | Some (TargetProcess _) \<Rightarrow> rret (Inl (rc_error_new ''process substitution cannot be a here document''))
      | None \<Rightarrow> rret (Inr []))"

section \<open>Process graphs\<close>

definition host_executable_argv :: "'h rc_host \<Rightarrow> string \<Rightarrow> string list \<Rightarrow> ('h, string list option) rc" where
  "host_executable_argv H path args =
     rcbind (host_do (h_read_file H path)) (\<lambda>r.
     rret (case r of
         Inr data \<Rightarrow> if is_host_executable path data then Some (path # args) else None
       | Inl _ \<Rightarrow> None))"

fun search_argv :: "'h rc_host \<Rightarrow> string \<Rightarrow> string list \<Rightarrow> string list \<Rightarrow> ('h, string list option) rc" where
  "search_argv H command args [] = rret None"
| "search_argv H command args (dir # dirs) =
     rcbind (host_executable_argv H (rc_join_path dir command) args) (\<lambda>r.
     case r of Some argv \<Rightarrow> rret (Some argv) | None \<Rightarrow> search_argv H command args dirs)"

definition resolve_external_argv :: "'h rc_host \<Rightarrow> string list \<Rightarrow> ('h, string list option) rc" where
  "resolve_external_argv H words =
     (case words of
        [] \<Rightarrow> rret None
      | command # args \<Rightarrow>
          if command \<in> {''wasi'', ''worker'', ''native''} \<and> args \<noteq> [] then rret (Some words)
          else if is_host_executable_path command then rret (Some words)
          else if CHR ''/'' \<in> set command then host_executable_argv H command args
          else rcbind (rget (\<lambda>s. lookup_var s ''path'')) (search_argv H command args))"

definition stage_simple :: "node \<Rightarrow> simple_command option" where
  "stage_simple node =
     (case node of
        NSimple simple \<Rightarrow> Some simple
      | NBlock [NSimple simple] \<Rightarrow> Some simple
      | NSequence [NSimple simple] \<Rightarrow> Some simple
      | _ \<Rightarrow> None)"

definition assignment_value :: "'h rc_host \<Rightarrow> 'h ev \<Rightarrow> assignment \<Rightarrow> ('h, string list) rc" where
  "assignment_value H ev a =
     (if as_values a = [] then rret [] else expand_words H (eval_source H ev) (as_values a))"

fun stage_env ::
    "'h rc_host \<Rightarrow> 'h ev \<Rightarrow> assignment list \<Rightarrow> (string, string list) btmap \<Rightarrow> ('h, (string, string list) btmap) rc" where
  "stage_env H ev [] env = rret env"
| "stage_env H ev (a # as) env =
     rcbind (assignment_value H ev a) (\<lambda>vs. stage_env H ev as (bt_insert (as_name a) vs env))"

text \<open>What one redirection does to the standard input and the descriptor table of a stage.\<close>

definition bind_path ::
    "'h rc_host \<Rightarrow> 'h ev \<Rightarrow> redirect \<Rightarrow> (string \<Rightarrow> rc_fd_binding) \<Rightarrow> string \<Rightarrow> rc_fd_binding list \<Rightarrow>
     ('h, (string \<times> rc_fd_binding list) option) rc" where
  "bind_path H ev redirect mk stdin bindings =
     rcbind (redirect_path H ev redirect) (\<lambda>r.
     rret (case r of Inr path \<Rightarrow> Some (stdin, bindings @ [mk path]) | Inl _ \<Rightarrow> None))"

definition bind_here ::
    "'h rc_host \<Rightarrow> 'h ev \<Rightarrow> redirect \<Rightarrow> rc_fd_binding list \<Rightarrow> ('h, (string \<times> rc_fd_binding list) option) rc" where
  "bind_here H ev redirect bindings =
     (if rd_fd redirect \<noteq> 0 then rret None
      else
        rcbind (redirect_here_text H ev redirect) (\<lambda>r.
        rret (case r of Inr text \<Rightarrow> Some (text, bindings) | Inl _ \<Rightarrow> None)))"

definition stage_redirect ::
    "'h rc_host \<Rightarrow> 'h ev \<Rightarrow> redirect \<Rightarrow> string \<Rightarrow> rc_fd_binding list \<Rightarrow>
     ('h, (string \<times> rc_fd_binding list) option) rc" where
  "stage_redirect H ev redirect stdin bindings =
     (case rd_mode redirect of
        ModeRead \<Rightarrow>
          (case rd_target redirect of
             Some (TargetWord _) \<Rightarrow>
               bind_path H ev redirect (\<lambda>p. binding_file (rd_fd redirect) p True False) stdin bindings
           | Some (TargetHereDoc _) \<Rightarrow> bind_here H ev redirect bindings
           | _ \<Rightarrow> rret None)
      | ModeHere \<Rightarrow> bind_here H ev redirect bindings
      | ModeWrite \<Rightarrow>
          (case rd_target redirect of
             Some (TargetWord _) \<Rightarrow>
               bind_path H ev redirect (\<lambda>p. binding_file (rd_fd redirect) p False True) stdin bindings
           | _ \<Rightarrow> rret None)
      | ModeAppend \<Rightarrow>
          (case rd_target redirect of
             Some (TargetWord _) \<Rightarrow> bind_path H ev redirect (binding_append_file (rd_fd redirect)) stdin bindings
           | _ \<Rightarrow> rret None)
      | ModeDup from \<Rightarrow>
          rret (Some (stdin, bindings @ [case from of
              Some f \<Rightarrow> binding_dup (rd_fd redirect) f
            | None \<Rightarrow> binding_close (rd_fd redirect)])))"

fun stage_redirects ::
    "'h rc_host \<Rightarrow> 'h ev \<Rightarrow> redirect list \<Rightarrow> string \<Rightarrow> rc_fd_binding list \<Rightarrow>
     ('h, (string \<times> rc_fd_binding list) option) rc" where
  "stage_redirects H ev [] stdin bindings = rret (Some (stdin, bindings))"
| "stage_redirects H ev (r # rs) stdin bindings =
     rcbind (stage_redirect H ev r stdin bindings) (\<lambda>x.
     case x of None \<Rightarrow> rret None | Some (stdin, bindings) \<Rightarrow> stage_redirects H ev rs stdin bindings)"

definition executable_stage ::
    "'h rc_host \<Rightarrow> 'h ev \<Rightarrow> node \<Rightarrow> string \<Rightarrow> rc_fd_binding list \<Rightarrow> ('h, rc_exec_stage option) rc" where
  "executable_stage H ev node stdin bindings =
     (case stage_simple node of
        None \<Rightarrow> rret None
      | Some simple \<Rightarrow>
          rcbind (rget s_vars) (\<lambda>vars.
          rcbind (stage_env H ev (sc_assignments simple) vars) (\<lambda>env.
          rcbind (expand_words H (eval_source H ev) (sc_words simple)) (\<lambda>words.
          rcbind (rget s_functions) (\<lambda>functions.
          if words = [] \<or> bt_get functions (hd words) \<noteq> None \<or> hd words \<in> set builtins then rret None
          else
            rcbind (stage_redirects H ev (sc_redirects simple) stdin bindings) (\<lambda>x.
            case x of
              None \<Rightarrow> rret None
            | Some (stdin, bindings) \<Rightarrow>
                rcbind (resolve_external_argv H words) (\<lambda>y.
                case y of
                  None \<Rightarrow> rret None
                | Some argv \<Rightarrow>
                    rcbind (rget (\<lambda>s. h_current_dir H (s_host s))) (\<lambda>cwd.
                    rret (Some \<lparr>es_argv = argv, es_stdin = stdin, es_cwd = cwd, es_env = env,
                                es_fd_bindings = bindings\<rparr>)))))))))"

definition stage_spec :: "'h rc_host \<Rightarrow> node \<Rightarrow> 'h rc_session \<Rightarrow> rc_stage_spec" where
  "stage_spec H node s =
     \<lparr>st_command = render_node node, st_cwd = h_current_dir H (s_host s), st_env = s_vars s, st_stdin = None,
      st_stdout = None, st_stderr = None, st_fd_bindings = []\<rparr>"

definition prepare_graph :: "'h rc_host \<Rightarrow> rc_graph_spec \<Rightarrow> ('h, rc_graph_record option) rc" where
  "prepare_graph H spec =
     rcbind (host_do (h_prepare_process_graph H spec)) (\<lambda>r. rret (case r of Inr g \<Rightarrow> g | Inl _ \<Rightarrow> None))"

definition prepare_pipeline_graph ::
    "'h rc_host \<Rightarrow> node \<Rightarrow> node \<Rightarrow> u32 \<Rightarrow> u32 \<Rightarrow> ('h, rc_graph_record option) rc" where
  "prepare_pipeline_graph H left right from_fd to_fd =
     rcbind (rget (stage_spec H left)) (\<lambda>l.
     rcbind (rget (stage_spec H right)) (\<lambda>r.
     prepare_graph H
       \<lparr>gs_kind = GraphPipeline, gs_job_id = None,
        gs_stages = [l\<lparr>st_fd_bindings := [binding_file from_fd ''pipe:0/data'' False True]\<rparr>,
                     r\<lparr>st_fd_bindings := [binding_file to_fd ''pipe:0/data1'' True False]\<rparr>]\<rparr>))"

definition prepare_background_graph :: "'h rc_host \<Rightarrow> u32 \<Rightarrow> node \<Rightarrow> ('h, rc_graph_record option) rc" where
  "prepare_background_graph H job node =
     rcbind (rget (stage_spec H node)) (\<lambda>stage.
     prepare_graph H
       \<lparr>gs_kind = GraphBackground, gs_job_id = Some job,
        gs_stages = [stage\<lparr>st_stdout := Some (''job:'' @ show_nat (unat job) @ ''/stdout''),
                           st_stderr := Some (''job:'' @ show_nat (unat job) @ ''/stderr'')\<rparr>]\<rparr>)"

definition prepare_process_substitution_graph ::
    "'h rc_host \<Rightarrow> rc_graph_kind \<Rightarrow> node \<Rightarrow> u32 \<Rightarrow> ('h, rc_graph_record option) rc" where
  "prepare_process_substitution_graph H kind node fd =
     (let readable = (kind = GraphSubstitutionRead) in
      rcbind (rget (stage_spec H node)) (\<lambda>stage.
      prepare_graph H
        \<lparr>gs_kind = kind, gs_job_id = None,
         gs_stages = [stage\<lparr>st_fd_bindings :=
           [binding_file fd (if readable then ''pipe:0/data'' else ''pipe:0/data1'') readable (\<not> readable)]\<rparr>]\<rparr>))"

definition finish_process_graph :: "'h rc_host \<Rightarrow> rc_graph_record option \<Rightarrow> rc_status list \<Rightarrow> ('h, unit) rc" where
  "finish_process_graph H graph statuses =
     (case graph of
        None \<Rightarrow> rret ()
      | Some g \<Rightarrow>
          rcbind (host_do (h_finish_process_graph H g (map (\<lambda>st. \<lparr>so_status = st\<rparr>) statuses))) (\<lambda>_. rret ()))"

fun pipeline_nodes :: "node \<Rightarrow> (node list \<times> (u32 \<times> u32) list) option" where
  "pipeline_nodes (NSimple simple) = Some ([NSimple simple], [])"
| "pipeline_nodes (NPipe left right spec) =
     (case pipeline_nodes left of
        None \<Rightarrow> None
      | Some (ns, es) \<Rightarrow>
          (case pipeline_nodes right of
             None \<Rightarrow> None
           | Some (ns', es') \<Rightarrow>
               Some (ns @ ns', es @ [case spec of Some sp \<Rightarrow> (pp_from_fd sp, pp_to_fd sp) | None \<Rightarrow> (1, 0)] @ es')))"
| "pipeline_nodes _ = None"

definition pipe_path :: "nat \<Rightarrow> string \<Rightarrow> string" where
  "pipe_path index leaf = ''pipe:'' @ show_nat index @ ''/'' @ leaf"

fun pipeline_bindings :: "nat \<Rightarrow> (u32 \<times> u32) list \<Rightarrow> rc_fd_binding list list \<Rightarrow> rc_fd_binding list list" where
  "pipeline_bindings index [] bindings = bindings"
| "pipeline_bindings index ((from_fd, to_fd) # edges) bindings =
     pipeline_bindings (Suc index) edges
       (bindings[index := bindings ! index @ [binding_file from_fd (pipe_path index ''data'') False True],
                 Suc index := bindings ! Suc index @ [binding_file to_fd (pipe_path index ''data1'') True False]])"

definition stage_writes_pipe :: "rc_exec_stage \<Rightarrow> u32 \<Rightarrow> nat \<Rightarrow> bool" where
  "stage_writes_pipe stage fd index =
     (case find (\<lambda>b. fb_fd b = fd) (rev (es_fd_bindings stage)) of
        None \<Rightarrow> False
      | Some b \<Rightarrow> fb_writable b \<and> \<not> fb_close b \<and> fb_dup_from b = None \<and> fb_path b = pipe_path index ''data'')"

text \<open>A stage that does not write to its pipe makes the next stage's end a closed descriptor.\<close>

fun close_unwritten :: "nat \<Rightarrow> (u32 \<times> u32) list \<Rightarrow> rc_exec_stage list \<Rightarrow> rc_exec_stage list" where
  "close_unwritten index [] stages = stages"
| "close_unwritten index ((from_fd, to_fd) # edges) stages =
     close_unwritten (Suc index) edges
       (if stage_writes_pipe (stages ! index) from_fd index then stages
        else
          (let stage = stages ! Suc index in
           stages[Suc index := stage\<lparr>es_fd_bindings :=
             filter (\<lambda>b. \<not> (fb_fd b = to_fd \<and> fb_path b = pipe_path index ''data1'')) (es_fd_bindings stage)
             @ [binding_close to_fd]\<rparr>]))"

fun pipeline_stages ::
    "'h rc_host \<Rightarrow> 'h ev \<Rightarrow> string \<Rightarrow> (node \<times> rc_fd_binding list) list \<Rightarrow> ('h, rc_exec_stage list option) rc" where
  "pipeline_stages H ev stdin [] = rret (Some [])"
| "pipeline_stages H ev stdin ((node, bindings) # rest) =
     rcbind (executable_stage H ev node stdin bindings) (\<lambda>x.
     case x of
       None \<Rightarrow> rret None
     | Some stage \<Rightarrow>
         rcbind (pipeline_stages H ev [] rest) (\<lambda>y. rret (map_option (\<lambda>stages. stage # stages) y)))"

definition try_execute_pipeline_graph ::
    "'h rc_host \<Rightarrow> 'h ev \<Rightarrow> node \<Rightarrow> node \<Rightarrow> u32 \<Rightarrow> u32 \<Rightarrow> string \<Rightarrow> ('h, rc_output option) rc" where
  "try_execute_pipeline_graph H ev left right from_fd to_fd input =
     (case (pipeline_nodes left, pipeline_nodes right) of
        (Some (ns, es), Some (ns', es')) \<Rightarrow>
          (let nodes = ns @ ns'; edges = es @ [(from_fd, to_fd)] @ es' in
           if length nodes < 2 \<or> length edges + 1 \<noteq> length nodes then rret None
           else
             rcbind (pipeline_stages H ev input
               (zip nodes (pipeline_bindings 0 edges (replicate (length nodes) [])))) (\<lambda>x.
             case x of
               None \<Rightarrow> rret None
             | Some stages \<Rightarrow>
                 rcbind (host_do (h_execute_process_graph H
                   \<lparr>eg_kind = GraphPipeline, eg_job_id = None, eg_stages = close_unwritten 0 edges stages\<rparr>)) (\<lambda>r.
                 rret (case r of Inr out \<Rightarrow> out | Inl _ \<Rightarrow> None))))
      | _ \<Rightarrow> rret None)"

definition try_start_background_graph :: "'h rc_host \<Rightarrow> 'h ev \<Rightarrow> u32 \<Rightarrow> node \<Rightarrow> string \<Rightarrow> ('h, bool) rc" where
  "try_start_background_graph H ev job node input =
     rcbind (executable_stage H ev node input []) (\<lambda>x.
     case x of
       None \<Rightarrow> rret False
     | Some stage \<Rightarrow>
         rcbind (host_do (h_start_process_graph_job H
           \<lparr>eg_kind = GraphBackground, eg_job_id = Some job, eg_stages = [stage]\<rparr>)) (\<lambda>r.
         rret (case r of Inr (Some _) \<Rightarrow> True | _ \<Rightarrow> False)))"

definition try_execute_process_substitution_graph ::
    "'h rc_host \<Rightarrow> 'h ev \<Rightarrow> rc_graph_kind \<Rightarrow> node \<Rightarrow> string \<Rightarrow> u32 \<Rightarrow> ('h, rc_output option) rc" where
  "try_execute_process_substitution_graph H ev kind node input fd =
     (case (case kind of
              GraphSubstitutionRead \<Rightarrow> Some [binding_file fd ''pipe:0/data'' False True]
            | GraphSubstitutionWrite \<Rightarrow> Some []
            | _ \<Rightarrow> None) of
        None \<Rightarrow> rret None
      | Some bindings \<Rightarrow>
          rcbind (executable_stage H ev node input bindings) (\<lambda>x.
          case x of
            None \<Rightarrow> rret None
          | Some stage \<Rightarrow>
              rcbind (host_do (h_execute_process_graph H \<lparr>eg_kind = kind, eg_job_id = None, eg_stages = [stage]\<rparr>)) (\<lambda>r.
              rret (case r of
                  Inr out \<Rightarrow> out
                | Inl err \<Rightarrow> Some (output_failure ''process-substitution''
                    (''process substitution: '' @ show_rc_error err @ [nl]))))))"

end
