(* ===== verification/Rc_Interp.thy ===== *)
theory Rc_Interp
  imports Rc_Eval
begin

text \<open>
  The evaluator of \<open>crates/star9-rc/src/lib.rs\<close>, second part: running external commands and scripts,
  the builtin commands, redirections, simple commands, and the evaluation of nodes.
\<close>

section \<open>Commands and scripts\<close>

definition command_output :: "rc_command_result \<Rightarrow> rc_output" where
  "command_output r =
     \<lparr>ro_status = cr_status r, ro_stdout = cr_stdout r, ro_stderr = cr_stderr r, ro_exited = False\<rparr>"

definition host_command :: "'h rc_host \<Rightarrow> string \<Rightarrow> string list \<Rightarrow> string \<Rightarrow> ('h, rc_output rc_result) rc" where
  "host_command H name args stdin =
     rcbind (rget s_vars) (\<lambda>env.
     rcbind (host_do (h_run_command H \<lparr>ci_name = name, ci_args = args, ci_stdin = stdin, ci_env = env\<rparr>)) (\<lambda>r.
     rret (ebind r (\<lambda>result. Inr (command_output result)))))"

definition run_command :: "'h rc_host \<Rightarrow> string \<Rightarrow> string list \<Rightarrow> string \<Rightarrow> ('h, rc_output) rc" where
  "run_command H name args stdin =
     rcbind (host_command H name args stdin) (\<lambda>r.
     rret (case r of
         Inr out \<Rightarrow> out
       | Inl err \<Rightarrow> output_failure ''notfound'' (name @ '': '' @ show_rc_error err @ [nl])))"

definition run_rc_script ::
    "'h rc_host \<Rightarrow> 'h ev \<Rightarrow> string \<Rightarrow> string list \<Rightarrow> string \<Rightarrow> ('h, rc_output rc_result) rc" where
  "run_rc_script H ev path args input =
     rcbind (host_do (h_read_file H path)) (\<lambda>r.
     case r of
       Inl e \<Rightarrow> rret (Inl e)
     | Inr data \<Rightarrow>
         if is_host_executable path data then host_command H path args input
         else
           rcbind (rget s_argv0) (\<lambda>old_argv0.
           rcbind (rget s_argv) (\<lambda>old_argv.
           rcbind (set_argv0 path) (\<lambda>_.
           rcbind (set_args H args) (\<lambda>_.
           case rc_parse (from_utf8_lossy data) of
             Inl (ParseErr e) \<Rightarrow> rret (Inl e)
           | Inl ParseFuel \<Rightarrow> rret (Inl (rc_error_new []))
           | Inr script \<Rightarrow>
               rcbind (eval_script H ev script input) (\<lambda>out.
               rcbind (set_argv0 old_argv0) (\<lambda>_.
               rcbind (set_args H old_argv) (\<lambda>_. rret (Inr out)))))))))"

fun search_script ::
    "'h rc_host \<Rightarrow> 'h ev \<Rightarrow> string \<Rightarrow> string list \<Rightarrow> string \<Rightarrow> string list \<Rightarrow> ('h, rc_output option) rc" where
  "search_script H ev command args input [] = rret None"
| "search_script H ev command args input (dir # dirs) =
     rcbind (run_rc_script H ev (rc_join_path dir command) args input) (\<lambda>r.
     case r of Inr out \<Rightarrow> rret (Some out) | Inl _ \<Rightarrow> search_script H ev command args input dirs)"

definition run_path_command :: "'h rc_host \<Rightarrow> 'h ev \<Rightarrow> string list \<Rightarrow> string \<Rightarrow> ('h, rc_output option) rc" where
  "run_path_command H ev words input =
     (case words of
        [] \<Rightarrow> rret None
      | command # args \<Rightarrow>
          if CHR ''/'' \<in> set command then
            rcbind (run_rc_script H ev command args input) (\<lambda>r.
            rret (case r of Inr out \<Rightarrow> Some out | Inl _ \<Rightarrow> None))
          else rcbind (rget (\<lambda>s. lookup_var s ''path'')) (search_script H ev command args input))"

definition call_function :: "'h rc_host \<Rightarrow> 'h ev \<Rightarrow> node \<Rightarrow> string list \<Rightarrow> string \<Rightarrow> ('h, rc_output) rc" where
  "call_function H ev function args input =
     rcbind (rget s_argv) (\<lambda>old_argv.
     rcbind (set_args H args) (\<lambda>_.
     rcbind (ev function input) (\<lambda>out.
     rcbind (set_args H old_argv) (\<lambda>_. rret out))))"

text \<open>The handler of a note; none runs while it is already running.\<close>

definition run_note_function :: "'h rc_host \<Rightarrow> 'h ev \<Rightarrow> string \<Rightarrow> ('h, rc_output option) rc" where
  "run_note_function H ev name =
     rcbind (rget s_notes) (\<lambda>notes.
     if bt_get notes name \<noteq> None then rret None
     else
       rcbind (rupd (\<lambda>s. s\<lparr>s_notes := bs_insert name (s_notes s)\<rparr>)) (\<lambda>_.
       rcbind (rget (\<lambda>s. bt_get (s_functions s) name)) (\<lambda>function.
       rcbind (case function of
           None \<Rightarrow> rret None
         | Some f \<Rightarrow> rcbind (call_function H ev f [] []) (\<lambda>out. rret (Some out))) (\<lambda>out.
       rcbind (rupd (\<lambda>s. s\<lparr>s_notes := bt_remove name (s_notes s)\<rparr>)) (\<lambda>_. rret out)))))"

definition deliver_note :: "'h rc_host \<Rightarrow> 'h ev \<Rightarrow> string \<Rightarrow> ('h, rc_output) rc" where
  "deliver_note H ev note =
     rcbind (host_do (h_send_note_to_processes H note)) (\<lambda>_.
     rcbind (run_note_function H ev (''sig'' @ note)) (\<lambda>x.
     rret (case x of Some out \<Rightarrow> out | None \<Rightarrow> output_failure note (''rc: unhandled note '' @ note @ [nl]))))"

section \<open>Builtin commands\<close>

definition output_false :: rc_output where
  "output_false = \<lparr>ro_status = status_failure, ro_stdout = [], ro_stderr = [], ro_exited = False\<rparr>"

definition output_of_bool :: "bool \<Rightarrow> rc_output" where
  "output_of_bool b = (if b then output_default else output_false)"

definition job_line :: "u32 \<Rightarrow> rc_status \<Rightarrow> string" where
  "job_line job status = ''['' @ show_nat (unat job) @ ''] '' @ show_status status @ [nl]"

definition wait_output :: "rc_job_result list \<Rightarrow> rc_output" where
  "wait_output results =
     \<lparr>ro_status = fold (\<lambda>job st. if status_is_success (jr_status job) then st else jr_status job) results status_success,
      ro_stdout = concat (map (\<lambda>job. jr_stdout job @ jr_stderr job @ job_line (jr_id job) (jr_status job)) results),
      ro_stderr = [], ro_exited = False\<rparr>"

fun finish_jobs :: "'h rc_host \<Rightarrow> rc_job list \<Rightarrow> ('h, unit) rc" where
  "finish_jobs H [] = rret ()"
| "finish_jobs H (job # jobs) =
     rcbind (finish_process_graph H (jb_graph job) [jb_status job]) (\<lambda>_. finish_jobs H jobs)"

definition job_result :: "rc_job \<Rightarrow> rc_job_result" where
  "job_result job =
     \<lparr>jr_id = jb_id job, jr_status = jb_status job, jr_stdout = jb_stdout job, jr_stderr = jb_stderr job\<rparr>"

definition collect_jobs :: "'h rc_host \<Rightarrow> rc_job list \<Rightarrow> rc_job list \<Rightarrow> ('h, rc_output) rc" where
  "collect_jobs H jobs remaining_jobs =
     rcbind (rupd (\<lambda>s. s\<lparr>s_jobs := remaining_jobs\<rparr>)) (\<lambda>_.
     rcbind (finish_jobs H jobs) (\<lambda>_. rret (wait_output (map job_result jobs))))"

text \<open>The first job with an id, and the others.\<close>

fun take_job :: "u32 \<Rightarrow> rc_job list \<Rightarrow> (rc_job \<times> rc_job list) option" where
  "take_job wanted [] = None"
| "take_job wanted (job # jobs) =
     (if jb_id job = wanted then Some (job, jobs)
      else map_option (\<lambda>(found, rest). (found, job # rest)) (take_job wanted jobs))"

definition wait_jobs :: "'h rc_host \<Rightarrow> u32 option \<Rightarrow> ('h, rc_output) rc" where
  "wait_jobs H requested =
     rcbind (host_do (h_wait_process_job H requested)) (\<lambda>r.
     case r of
       Inr (Some results) \<Rightarrow> rret (wait_output results)
     | _ \<Rightarrow>
         rcbind (rget s_jobs) (\<lambda>jobs.
         case requested of
           Some wanted \<Rightarrow>
             (case take_job wanted jobs of
                None \<Rightarrow> rret (output_failure ''wait'' (''wait: '' @ show_nat (unat wanted) @ '': no such job'' @ [nl]))
              | Some (job, rest) \<Rightarrow> collect_jobs H [job] rest)
         | None \<Rightarrow> collect_jobs H jobs []))"

definition run_wait :: "'h rc_host \<Rightarrow> string list \<Rightarrow> ('h, rc_output) rc" where
  "run_wait H args =
     (case args of
        [] \<Rightarrow> wait_jobs H None
      | [arg] \<Rightarrow>
          (case parse_u32 arg of
             Some wanted \<Rightarrow> wait_jobs H (Some wanted)
           | None \<Rightarrow> rret (output_failure ''usage'' (''wait: '' @ arg @ '': bad job id'' @ [nl])))
      | _ \<Rightarrow> rret (output_failure ''usage'' (''usage: wait [job]'' @ [nl])))"

definition rfork_failure :: "rc_error \<Rightarrow> rc_output" where
  "rfork_failure err = output_failure ''rfork'' (''rfork: '' @ show_rc_error err @ [nl])"

definition run_rfork :: "'h rc_host \<Rightarrow> string list \<Rightarrow> ('h, rc_output) rc" where
  "run_rfork H args =
     (case rfork_parse args of
        Inl err \<Rightarrow> rret (rfork_failure err)
      | Inr spec \<Rightarrow>
          rcbind (host_do (h_rfork H spec)) (\<lambda>r.
          case r of
            Inl err \<Rightarrow> rret (rfork_failure err)
          | Inr outcome \<Rightarrow>
              (case ro_environment outcome of
                 EnvUnchanged \<Rightarrow> rret output_default
               | EnvReload \<Rightarrow>
                   rcbind (host_do (h_load_environment H)) (\<lambda>x.
                   case x of
                     Inr (Some env) \<Rightarrow> rcbind (replace_environment_without_publish env) (\<lambda>_. rret output_default)
                   | Inr None \<Rightarrow> rret output_default
                   | Inl err \<Rightarrow> rret (rfork_failure err))
               | EnvCleared \<Rightarrow>
                   rcbind (rupd (\<lambda>s. s\<lparr>s_vars := [], s_functions := []\<rparr>)) (\<lambda>_.
                   rcbind refresh_arg_vars (\<lambda>_. rret output_default)))))"

definition run_flag :: "string list \<Rightarrow> rc_output" where
  "run_flag args =
     (case args of
        [] \<Rightarrow> output_success [nl]
      | [flag] \<Rightarrow>
          if flag \<in> {''x'', ''e'', ''r'', ''i''} then output_default
          else output_failure ''flag'' (''flag: unknown flag '' @ flag @ [nl])
      | _ \<Rightarrow> output_failure ''usage'' (''usage: flag [name]'' @ [nl]))"

definition stat_test :: "'h rc_host \<Rightarrow> string \<Rightarrow> (rc_stat \<Rightarrow> bool) \<Rightarrow> ('h, rc_output) rc" where
  "stat_test H path P =
     rcbind (host_do (h_stat H path)) (\<lambda>r.
     rret (output_of_bool (case r of Inr stat \<Rightarrow> P stat | Inl _ \<Rightarrow> False)))"

definition run_test :: "'h rc_host \<Rightarrow> string list \<Rightarrow> ('h, rc_output) rc" where
  "run_test H args =
     (case args of
        [value] \<Rightarrow> rret (output_of_bool (value \<noteq> []))
      | [flag, path] \<Rightarrow>
          if flag = ''-e'' then stat_test H path (\<lambda>_. True)
          else if flag = ''-f'' then stat_test H path (\<lambda>stat. \<not> rs_is_dir stat)
          else if flag = ''-d'' then stat_test H path rs_is_dir
          else rret output_false
      | [left, op, right] \<Rightarrow>
          if op = ''='' then rret (output_of_bool (left = right))
          else if op = ''!='' then rret (output_of_bool (left \<noteq> right))
          else rret output_false
      | _ \<Rightarrow> rret output_false)"

definition run_basename :: "string list \<Rightarrow> rc_output" where
  "run_basename args =
     (case args of
        [] \<Rightarrow> output_failure ''usage'' (''usage: basename path [suffix]'' @ [nl])
      | path # rest \<Rightarrow>
          (let leaf = List.last (split_on (CHR ''/'') (rev (dropWhile (\<lambda>c. c = CHR ''/'') (rev path)))) in
           output_success
             ((case rest of
                 suffix # _ \<Rightarrow> if ends_with leaf suffix then take (length leaf - length suffix) leaf else leaf
               | [] \<Rightarrow> leaf) @ [nl])))"

definition what_is :: "'h rc_session \<Rightarrow> string \<Rightarrow> string" where
  "what_is s arg =
     (case bt_get (s_vars s) arg of
        Some vs \<Rightarrow> arg @ ''=('' @ join_str '' '' vs @ '')'' @ [nl]
      | None \<Rightarrow>
          (case bt_get (s_functions s) arg of
             Some f \<Rightarrow> ''fn '' @ arg @ '' '' @ render_node f @ [nl]
           | None \<Rightarrow> if arg \<in> set builtins then ''builtin '' @ arg @ [nl] else arg @ '': not found'' @ [nl]))"

definition run_cd :: "'h rc_host \<Rightarrow> string list \<Rightarrow> ('h, rc_output) rc" where
  "run_cd H args =
     (let path = (case args of p # _ \<Rightarrow> p | [] \<Rightarrow> ''.'') in
      rcbind (host_do (h_set_current_dir H path)) (\<lambda>r.
      rret (case r of
          Inr _ \<Rightarrow> output_default
        | Inl err \<Rightarrow> output_failure ''cd'' (''cd: '' @ path @ '': '' @ show_rc_error err @ [nl]))))"

definition run_match :: "string list \<Rightarrow> rc_output" where
  "run_match args =
     (case args of
        subject # p # ps \<Rightarrow> output_of_bool (list_ex (\<lambda>pattern. pattern_match pattern subject) (p # ps))
      | _ \<Rightarrow> output_failure ''usage'' (''usage: ~ subject pattern ...'' @ [nl]))"

definition run_exec :: "'h rc_host \<Rightarrow> 'h ev \<Rightarrow> string list \<Rightarrow> string \<Rightarrow> ('h, rc_output) rc" where
  "run_exec H ev args input =
     (case args of
        [] \<Rightarrow> rret (output_failure ''usage'' (''usage: exec command [args ...]'' @ [nl]))
      | name # rest \<Rightarrow>
          rcbind (run_path_command H ev args input) (\<lambda>x.
          rcbind (case x of Some out \<Rightarrow> rret out | None \<Rightarrow> run_command H name rest input) (\<lambda>out.
          rret (out\<lparr>ro_exited := True\<rparr>))))"

definition run_source :: "'h rc_host \<Rightarrow> 'h ev \<Rightarrow> string list \<Rightarrow> ('h, rc_output) rc" where
  "run_source H ev args =
     (case args of
        [] \<Rightarrow> rret (output_failure ''usage'' (''usage: . file'' @ [nl]))
      | path # _ \<Rightarrow>
          rcbind (host_do (h_read_file H path)) (\<lambda>r.
          case r of
            Inr data \<Rightarrow> eval_source H ev (from_utf8_lossy data)
          | Inl err \<Rightarrow> rret (output_failure ''source'' (''.: '' @ path @ '': '' @ show_rc_error err @ [nl]))))"

definition run_shift :: "string list \<Rightarrow> ('h, rc_output) rc" where
  "run_shift args =
     (let n = (case args of a # _ \<Rightarrow> (case parse_usize a of Some n \<Rightarrow> n | None \<Rightarrow> 1) | [] \<Rightarrow> 1) in
      rcbind (rupd (\<lambda>s. s\<lparr>s_argv := drop n (s_argv s)\<rparr>)) (\<lambda>_.
      rcbind refresh_arg_vars (\<lambda>_. rret output_default)))"

definition run_exit :: "'h rc_host \<Rightarrow> 'h ev \<Rightarrow> string list \<Rightarrow> ('h, rc_output) rc" where
  "run_exit H ev args =
     rcbind (rget (\<lambda>s. case args of a # _ \<Rightarrow> a | [] \<Rightarrow> s_last_status s)) (\<lambda>status.
     rcbind (run_note_function H ev ''sigexit'') (\<lambda>x.
     rret ((case x of Some out \<Rightarrow> out | None \<Rightarrow> output_default)\<lparr>ro_status := status, ro_exited := True\<rparr>)))"

text \<open>All builtins but \<open>builtin\<close> itself, which calls one of the others.\<close>

definition some_output :: "('h, rc_output) rc \<Rightarrow> ('h, rc_output option) rc" where
  "some_output m = rcbind m (\<lambda>out. rret (Some out))"

definition run_plain_builtin ::
    "'h rc_host \<Rightarrow> 'h ev \<Rightarrow> string \<Rightarrow> string list \<Rightarrow> string \<Rightarrow> ('h, rc_output option) rc" where
  "run_plain_builtin H ev name args input =
     (if name = ''echo'' then some_output (rret (output_success (join_str '' '' args @ [nl])))
      else if name = ''cd'' then some_output (run_cd H args)
      else if name = ''pwd'' then some_output (rget (\<lambda>s. output_success (h_current_dir H (s_host s) @ [nl])))
      else if name = ''status'' then some_output (rget (\<lambda>s. output_success (show_status (s_last_status s) @ [nl])))
      else if name = ''true'' then some_output (rret output_default)
      else if name = ''false'' then some_output (rret output_false)
      else if name = ''~'' then some_output (rret (run_match args))
      else if name = ''eval'' then some_output (eval_source H ev (join_str '' '' args))
      else if name = ''exec'' then some_output (run_exec H ev args input)
      else if name = ''.'' then some_output (run_source H ev args)
      else if name = ''shift'' then some_output (run_shift args)
      else if name = ''whatis'' then some_output (rget (\<lambda>s. output_success (concat (map (what_is s) args))))
      else if name = ''test'' then some_output (run_test H args)
      else if name = ''basename'' then some_output (rret (run_basename args))
      else if name = ''exit'' then some_output (run_exit H ev args)
      else if name = ''wait'' then some_output (run_wait H args)
      else if name = ''rfork'' then some_output (run_rfork H args)
      else if name = ''flag'' then some_output (rret (run_flag args))
      else if name = ''cat'' \<and> args = [] then some_output (rret (output_success input))
      else rret None)"

definition run_builtin_command :: "'h rc_host \<Rightarrow> 'h ev \<Rightarrow> string list \<Rightarrow> string \<Rightarrow> ('h, rc_output) rc" where
  "run_builtin_command H ev args input =
     (case args of
        [] \<Rightarrow> rret (output_failure ''usage'' (''usage: builtin command [args ...]'' @ [nl]))
      | name # rest \<Rightarrow>
          if name = ''builtin'' then rret output_default
          else if name \<in> set builtins then
            rcbind (run_plain_builtin H ev name rest input) (\<lambda>x.
            rret (case x of Some out \<Rightarrow> out | None \<Rightarrow> output_default))
          else rret (output_failure ''builtin'' (''builtin: '' @ name @ '': not a builtin'' @ [nl])))"

definition run_builtin :: "'h rc_host \<Rightarrow> 'h ev \<Rightarrow> string list \<Rightarrow> string \<Rightarrow> ('h, rc_output option) rc" where
  "run_builtin H ev words input =
     (case words of
        [] \<Rightarrow> rret None
      | name # args \<Rightarrow>
          if name = ''builtin'' then some_output (run_builtin_command H ev args input)
          else run_plain_builtin H ev name args input)"

section \<open>Redirections\<close>

datatype fd_sink = SinkStdout | SinkStderr | SinkFile string bool | SinkProcess node "rc_graph_record option" | SinkClosed

type_synonym fd_sinks = "(u32, fd_sink) btmap"

definition read_redirect :: "'h rc_host \<Rightarrow> 'h ev \<Rightarrow> redirect \<Rightarrow> ('h, string rc_result) rc" where
  "read_redirect H ev redirect =
     (case rd_target redirect of
        Some (TargetProcess node) \<Rightarrow>
          rcbind (try_execute_process_substitution_graph H ev GraphSubstitutionRead node [] 1) (\<lambda>x.
          case x of
            Some out \<Rightarrow> rret (Inr (ro_stdout out))
          | None \<Rightarrow>
              rcbind (prepare_process_substitution_graph H GraphSubstitutionRead node 1) (\<lambda>graph.
              rcbind (ev node []) (\<lambda>out.
              rcbind (finish_process_graph H graph [ro_status out]) (\<lambda>_. rret (Inr (ro_stdout out))))))
      | _ \<Rightarrow>
          rcbind (redirect_path H ev redirect) (\<lambda>r.
          case r of
            Inl e \<Rightarrow> rret (Inl e)
          | Inr path \<Rightarrow>
              if is_null_path path then rret (Inr [])
              else
                rcbind (host_do (h_read_file H path)) (\<lambda>x.
                rret (ebind x (\<lambda>data. Inr (from_utf8_lossy data))))))"

definition dup_sink :: "u32 option \<Rightarrow> fd_sinks \<Rightarrow> fd_sink" where
  "dup_sink from sinks =
     (case from of
        None \<Rightarrow> SinkClosed
      | Some f \<Rightarrow>
          (case bt_get sinks f of
             Some sink \<Rightarrow> sink
           | None \<Rightarrow> if f = 1 then SinkStdout else if f = 2 then SinkStderr else SinkClosed))"

definition write_redirect :: "'h rc_host \<Rightarrow> 'h ev \<Rightarrow> redirect \<Rightarrow> bool \<Rightarrow> fd_sinks \<Rightarrow> ('h, fd_sinks rc_result) rc" where
  "write_redirect H ev redirect add sinks =
     (case rd_target redirect of
        Some (TargetProcess node) \<Rightarrow>
          rcbind (prepare_process_substitution_graph H GraphSubstitutionWrite node (rd_fd redirect)) (\<lambda>graph.
          rret (Inr (bt_insert (rd_fd redirect) (SinkProcess node graph) sinks)))
      | _ \<Rightarrow>
          rcbind (redirect_path H ev redirect) (\<lambda>r.
          rret (ebind r (\<lambda>path.
            Inr (bt_insert (rd_fd redirect) (if is_null_path path then SinkClosed else SinkFile path add) sinks)))))"

definition prepare_redirect ::
    "'h rc_host \<Rightarrow> 'h ev \<Rightarrow> redirect \<Rightarrow> string \<Rightarrow> fd_sinks \<Rightarrow> ('h, (string \<times> fd_sinks) rc_result) rc" where
  "prepare_redirect H ev redirect input sinks =
     (case rd_mode redirect of
        ModeRead \<Rightarrow> rcbind (read_redirect H ev redirect) (\<lambda>r. rret (ebind r (\<lambda>text. Inr (text, sinks))))
      | ModeHere \<Rightarrow> rcbind (redirect_here_text H ev redirect) (\<lambda>r. rret (ebind r (\<lambda>text. Inr (text, sinks))))
      | ModeWrite \<Rightarrow> rcbind (write_redirect H ev redirect False sinks) (\<lambda>r. rret (ebind r (\<lambda>sinks. Inr (input, sinks))))
      | ModeAppend \<Rightarrow> rcbind (write_redirect H ev redirect True sinks) (\<lambda>r. rret (ebind r (\<lambda>sinks. Inr (input, sinks))))
      | ModeDup from \<Rightarrow> rret (Inr (input, bt_insert (rd_fd redirect) (dup_sink from sinks) sinks)))"

fun prepare_redirects ::
    "'h rc_host \<Rightarrow> 'h ev \<Rightarrow> redirect list \<Rightarrow> string \<Rightarrow> fd_sinks \<Rightarrow> ('h, (string \<times> fd_sinks) rc_result) rc" where
  "prepare_redirects H ev [] input sinks = rret (Inr (input, sinks))"
| "prepare_redirects H ev (r # rs) input sinks =
     rcbind (prepare_redirect H ev r input sinks) (\<lambda>x.
     case x of Inl e \<Rightarrow> rret (Inl e) | Inr (input, sinks) \<Rightarrow> prepare_redirects H ev rs input sinks)"

text \<open>The error, when there is one, and the output so far.\<close>

definition apply_fd_sink ::
    "'h rc_host \<Rightarrow> 'h ev \<Rightarrow> u32 \<Rightarrow> string \<Rightarrow> fd_sinks \<Rightarrow> rc_output \<Rightarrow> ('h, rc_error option \<times> rc_output) rc" where
  "apply_fd_sink H ev fd data sinks output =
     (if data = [] then rret (None, output)
      else
        (case (case bt_get sinks fd of Some sink \<Rightarrow> sink | None \<Rightarrow> if fd = 2 then SinkStderr else SinkStdout) of
           SinkStdout \<Rightarrow> rret (None, output\<lparr>ro_stdout := ro_stdout output @ data\<rparr>)
         | SinkStderr \<Rightarrow> rret (None, output\<lparr>ro_stderr := ro_stderr output @ data\<rparr>)
         | SinkClosed \<Rightarrow> rret (None, output)
         | SinkFile path add \<Rightarrow>
             rcbind (host_do ((if add then h_append_file H else h_write_file H) path (as_bytes data))) (\<lambda>r.
             rret (case r of Inl e \<Rightarrow> Some e | Inr _ \<Rightarrow> None, output))
         | SinkProcess node graph \<Rightarrow>
             rcbind (try_execute_process_substitution_graph H ev GraphSubstitutionWrite node data fd) (\<lambda>x.
             rcbind (case x of Some next \<Rightarrow> rret next | None \<Rightarrow> ev node data) (\<lambda>next.
             rcbind (finish_process_graph H graph [ro_status next]) (\<lambda>_.
             rret (None, \<lparr>ro_status = ro_status next, ro_stdout = ro_stdout output @ ro_stdout next,
                          ro_stderr = ro_stderr output @ ro_stderr next,
                          ro_exited = (ro_exited output \<or> ro_exited next)\<rparr>))))))"

definition apply_output_sinks ::
    "'h rc_host \<Rightarrow> 'h ev \<Rightarrow> rc_output \<Rightarrow> fd_sinks \<Rightarrow> ('h, rc_error option \<times> rc_output) rc" where
  "apply_output_sinks H ev output sinks =
     rcbind (apply_fd_sink H ev 1 (ro_stdout output) sinks (output\<lparr>ro_stdout := [], ro_stderr := []\<rparr>)) (\<lambda>(e, out).
     case e of
       Some err \<Rightarrow> rret (Some err, out)
     | None \<Rightarrow> apply_fd_sink H ev 2 (ro_stderr output) sinks out)"

section \<open>Simple commands\<close>

fun assignment_list :: "'h rc_host \<Rightarrow> 'h ev \<Rightarrow> assignment list \<Rightarrow> ('h, (string \<times> string list) list) rc" where
  "assignment_list H ev [] = rret []"
| "assignment_list H ev (a # as) =
     rcbind (assignment_value H ev a) (\<lambda>vs.
     rcbind (assignment_list H ev as) (\<lambda>rest. rret ((as_name a, vs) # rest)))"

fun assign_all :: "(string \<times> string list) list \<Rightarrow> ('h, (string \<times> string list option) list) rc" where
  "assign_all [] = rret []"
| "assign_all ((name, vs) # rest) =
     rcbind (rget (\<lambda>s. bt_get (s_vars s) name)) (\<lambda>old.
     rcbind (set_session_var name vs) (\<lambda>_.
     rcbind (assign_all rest) (\<lambda>olds. rret ((name, old) # olds))))"

fun restore_all :: "(string \<times> string list option) list \<Rightarrow> ('h, unit) rc" where
  "restore_all [] = rret ()"
| "restore_all ((name, old) # rest) = rcbind (restore_var name old) (\<lambda>_. restore_all rest)"

definition run_words :: "'h rc_host \<Rightarrow> 'h ev \<Rightarrow> string list \<Rightarrow> string \<Rightarrow> ('h, rc_output) rc" where
  "run_words H ev words input =
     rcbind (rget (\<lambda>s. bt_get (s_functions s) (hd words))) (\<lambda>function.
     case function of
       Some f \<Rightarrow> call_function H ev f (tl words) input
     | None \<Rightarrow>
         rcbind (run_builtin H ev words input) (\<lambda>x.
         case x of
           Some out \<Rightarrow> rret out
         | None \<Rightarrow>
             rcbind (run_path_command H ev words input) (\<lambda>y.
             case y of Some out \<Rightarrow> rret out | None \<Rightarrow> run_command H (hd words) (tl words) input)))"

definition sink_error :: "rc_error option \<times> rc_output \<Rightarrow> rc_output" where
  "sink_error r =
     (case r of (e, out) \<Rightarrow>
        (case e of
           None \<Rightarrow> out
         | Some err \<Rightarrow> out\<lparr>ro_status := status_failure, ro_stderr := ro_stderr out @ ''rc: '' @ show_rc_error err @ [nl]\<rparr>))"

definition eval_simple :: "'h rc_host \<Rightarrow> 'h ev \<Rightarrow> simple_command \<Rightarrow> string \<Rightarrow> ('h, rc_output) rc" where
  "eval_simple H ev simple input =
     rcbind (assignment_list H ev (sc_assignments simple)) (\<lambda>assignments.
     if sc_words simple = [] then
       rcbind (assign_all assignments) (\<lambda>_.
       rcbind (publish_environment H) (\<lambda>_. rret output_default))
     else
       rcbind (assign_all assignments) (\<lambda>restore.
       rcbind (prepare_redirects H ev (sc_redirects simple) input [(1, SinkStdout), (2, SinkStderr)]) (\<lambda>x.
       case x of
         Inl err \<Rightarrow> rret (output_failure ''redirect'' (''rc: '' @ show_rc_error err @ [nl]))
       | Inr (input, sinks) \<Rightarrow>
           rcbind (expand_words H (eval_source H ev) (sc_words simple)) (\<lambda>words.
           if words = [] then rcbind (restore_all restore) (\<lambda>_. rret output_default)
           else
             rcbind (run_words H ev words input) (\<lambda>out.
             rcbind (import_host_environment H) (\<lambda>_.
             rcbind (apply_output_sinks H ev out sinks) (\<lambda>r.
             rcbind (set_last_status (ro_status (sink_error r))) (\<lambda>_.
             rcbind (set_session_var ''status'' [show_status (ro_status (sink_error r))]) (\<lambda>_.
             rcbind (restore_all restore) (\<lambda>_.
             rcbind (publish_environment H) (\<lambda>_. rret (sink_error r))))))))))))"

section \<open>Nodes\<close>

fun for_loop :: "'h ev \<Rightarrow> string \<Rightarrow> node \<Rightarrow> string list \<Rightarrow> rc_output \<Rightarrow> ('h, rc_output) rc" where
  "for_loop ev var body [] out = rret out"
| "for_loop ev var body (value # vs) out =
     rcbind (set_session_var var [value]) (\<lambda>_.
     rcbind (ev body []) (\<lambda>next. for_loop ev var body vs (output_append out next)))"

definition while_limit :: nat where
  "while_limit = 100000"

text \<open>The number counts the iterations the guard still allows.\<close>

fun while_loop :: "nat \<Rightarrow> 'h ev \<Rightarrow> node \<Rightarrow> node \<Rightarrow> rc_output \<Rightarrow> ('h, rc_output) rc" where
  "while_loop 0 ev condition body out =
     rret (output_failure ''loop'' (''rc: while loop iteration limit exceeded'' @ [nl]))"
| "while_loop (Suc n) ev condition body out =
     rcbind (ev condition []) (\<lambda>cond.
     if \<not> status_is_success (ro_status cond) then rret out
     else rcbind (ev body []) (\<lambda>next. while_loop n ev condition body (output_append out next)))"

fun switch_cases :: "'h rc_host \<Rightarrow> 'h ev \<Rightarrow> string \<Rightarrow> string \<Rightarrow> switch_case list \<Rightarrow> ('h, rc_output) rc" where
  "switch_cases H ev value input [] = rret output_default"
| "switch_cases H ev value input (c # cs) =
     rcbind (expand_words H (eval_source H ev) (sw_patterns c)) (\<lambda>patterns.
     if list_ex (\<lambda>pattern. pattern_match pattern value) patterns then eval_nodes ev (sw_body c) input
     else switch_cases H ev value input cs)"

definition eval_pipe :: "'h rc_host \<Rightarrow> 'h ev \<Rightarrow> node \<Rightarrow> node \<Rightarrow> pipe_spec option \<Rightarrow> string \<Rightarrow> ('h, rc_output) rc" where
  "eval_pipe H ev left right spec input =
     (let from_fd = (case spec of Some sp \<Rightarrow> pp_from_fd sp | None \<Rightarrow> 1);
          to_fd = (case spec of Some sp \<Rightarrow> pp_to_fd sp | None \<Rightarrow> 0)
      in rcbind (try_execute_pipeline_graph H ev left right from_fd to_fd input) (\<lambda>x.
         case x of
           Some out \<Rightarrow> rret out
         | None \<Rightarrow>
             rcbind (prepare_pipeline_graph H left right from_fd to_fd) (\<lambda>graph.
             rcbind (ev left input) (\<lambda>l.
             let piped = (if from_fd = 2 then ro_stderr l else ro_stdout l);
                 l' = (if from_fd = 2 then l\<lparr>ro_stderr := []\<rparr> else l\<lparr>ro_stdout := []\<rparr>)
             in rcbind (ev right (if to_fd = 0 then piped else [])) (\<lambda>r.
                rcbind (finish_process_graph H graph [ro_status l, ro_status r]) (\<lambda>_.
                rret (r\<lparr>ro_status := status_pipeline (ro_status l) (ro_status r),
                        ro_stdout := ro_stdout l' @ ro_stdout r, ro_stderr := ro_stderr l' @ ro_stderr r\<rparr>)))))))"

definition job_started :: "u32 \<Rightarrow> rc_output" where
  "job_started job = output_success (''['' @ show_nat (unat job) @ '']'' @ [nl])"

definition eval_background :: "'h rc_host \<Rightarrow> 'h ev \<Rightarrow> node \<Rightarrow> string \<Rightarrow> ('h, rc_output) rc" where
  "eval_background H ev inner input =
     rcbind (rget s_next_job_id) (\<lambda>job.
     rcbind (rupd (\<lambda>s. s\<lparr>s_next_job_id := s_next_job_id s + 1\<rparr>)) (\<lambda>_.
     rcbind (try_start_background_graph H ev job inner input) (\<lambda>started.
     if started then rret (job_started job)
     else
       rcbind (prepare_background_graph H job inner) (\<lambda>graph.
       rcbind (ev inner input) (\<lambda>out.
       rcbind (finish_process_graph H graph [ro_status out]) (\<lambda>_.
       rcbind (rupd (\<lambda>s. s\<lparr>s_jobs := s_jobs s @ [\<lparr>jb_id = job, jb_status = ro_status out,
           jb_stdout = ro_stdout out, jb_stderr = ro_stderr out, jb_graph = graph\<rparr>]\<rparr>)) (\<lambda>_.
       rret (job_started job))))))))"

definition eval_for :: "'h rc_host \<Rightarrow> 'h ev \<Rightarrow> string \<Rightarrow> rc_word list \<Rightarrow> node \<Rightarrow> ('h, rc_output) rc" where
  "eval_for H ev var ws body =
     rcbind (if ws = [] then rget s_argv else expand_words H (eval_source H ev) ws) (\<lambda>vs.
     rcbind (rget (\<lambda>s. bt_get (s_vars s) var)) (\<lambda>old.
     rcbind (for_loop ev var body vs output_default) (\<lambda>out.
     rcbind (restore_var var old) (\<lambda>_. rret out))))"

definition eval_step :: "'h rc_host \<Rightarrow> 'h ev \<Rightarrow> 'h ev" where
  "eval_step H ev node input =
     (case node of
        NEmpty \<Rightarrow> rret output_default
      | NSequence nodes \<Rightarrow> eval_nodes ev nodes input
      | NBlock nodes \<Rightarrow> eval_nodes ev nodes input
      | NSimple simple \<Rightarrow> eval_simple H ev simple input
      | NAnd left right \<Rightarrow>
          rcbind (ev left input) (\<lambda>l.
          if status_is_success (ro_status l)
          then rcbind (ev right []) (\<lambda>r. rret (r\<lparr>ro_stderr := ro_stderr l @ ro_stderr r\<rparr>))
          else rret l)
      | NOr left right \<Rightarrow>
          rcbind (ev left input) (\<lambda>l.
          if status_is_success (ro_status l) then rret l
          else rcbind (ev right []) (\<lambda>r. rret (r\<lparr>ro_stderr := ro_stderr l @ ro_stderr r\<rparr>)))
      | NPipe left right spec \<Rightarrow> eval_pipe H ev left right spec input
      | NNot inner \<Rightarrow> rcbind (ev inner input) (\<lambda>out. rret (out\<lparr>ro_status := status_invert (ro_status out)\<rparr>))
      | NBackground inner \<Rightarrow> eval_background H ev inner input
      | NIf condition then_branch else_branch \<Rightarrow>
          rcbind (ev condition input) (\<lambda>cond.
          if status_is_success (ro_status cond) then ev then_branch []
          else
            (case else_branch of
               Some e \<Rightarrow> ev e []
             | None \<Rightarrow>
                 rret \<lparr>ro_status = status_success, ro_stdout = [], ro_stderr = ro_stderr cond, ro_exited = False\<rparr>))
      | NFor var ws body \<Rightarrow> eval_for H ev var ws body
      | NWhile condition body \<Rightarrow> while_loop while_limit ev condition body output_default
      | NSwitch value cases \<Rightarrow>
          rcbind (expand_word (eval_source H ev) value) (\<lambda>vs.
          switch_cases H ev (case vs of v # _ \<Rightarrow> v | [] \<Rightarrow> []) input cases)
      | NFunction name body \<Rightarrow>
          rcbind (rupd (\<lambda>s. s\<lparr>s_functions :=
              (case body of Some b \<Rightarrow> bt_insert name b (s_functions s) | None \<Rightarrow> bt_remove name (s_functions s))\<rparr>)) (\<lambda>_.
          rret output_default))"

fun eval_node :: "nat \<Rightarrow> 'h rc_host \<Rightarrow> 'h ev" where
  "eval_node 0 H = (\<lambda>_ _ _. None)"
| "eval_node (Suc n) H = eval_step H (eval_node n H)"

text \<open>The public entry points, with the fuel of the evaluation.\<close>

definition rc_eval_source :: "nat \<Rightarrow> 'h rc_host \<Rightarrow> string \<Rightarrow> ('h, rc_output) rc" where
  "rc_eval_source n H source = eval_source H (eval_node n H) source"

definition rc_deliver_note :: "nat \<Rightarrow> 'h rc_host \<Rightarrow> string \<Rightarrow> ('h, rc_output) rc" where
  "rc_deliver_note n H note = deliver_note H (eval_node n H) note"

end
