(* ===== verification/Rc_Laws.thy ===== *)
theory Rc_Laws
  imports Rc_Interp "HOL-Library.Multiset"
begin

text \<open>
  Laws of the evaluator that hold of every script. \<open>tracks R m m'\<close> says that whatever \<open>m\<close> returns, \<open>m'\<close>
  returns too, and that the session before and the one after are related by \<open>R\<close>. One walk through the
  evaluator, in the locale \<open>rc_tracking\<close>, shows that every operation tracks \<open>R\<close> when its evaluation of
  nodes does. Interpreting the locale gives that more fuel never changes a result (\<open>R\<close> always true),
  how the job table evolves, and that note handlers do not stay marked as running.
\<close>

section \<open>Tracking\<close>

definition tracks :: "('h rc_session \<Rightarrow> 'h rc_session \<Rightarrow> bool) \<Rightarrow> ('h, 'a) rc \<Rightarrow> ('h, 'a) rc \<Rightarrow> bool" where
  "tracks R m m' \<longleftrightarrow> (\<forall>s x t. m s = Some (x, t) \<longrightarrow> m' s = Some (x, t) \<and> R s t)"

lemma tracksI: "(\<And>s x t. m s = Some (x, t) \<Longrightarrow> m' s = Some (x, t) \<and> R s t) \<Longrightarrow> tracks R m m'"
  by (simp add: tracks_def)

lemma tracksD: "tracks R m m' \<Longrightarrow> m s = Some (x, t) \<Longrightarrow> m' s = Some (x, t) \<and> R s t"
  by (simp add: tracks_def)

named_theorems tracks_intros

lemma tracks_if [tracks_intros]:
  "(b \<Longrightarrow> tracks R m m') \<Longrightarrow> (\<not> b \<Longrightarrow> tracks R n n') \<Longrightarrow> tracks R (if b then m else n) (if b then m' else n')"
  by simp

lemma tracks_option [tracks_intros]:
  "tracks R p p' \<Longrightarrow> (\<And>x. tracks R (q x) (q' x)) \<Longrightarrow> tracks R (case_option p q opt) (case_option p' q' opt)"
  by (cases opt) simp_all

lemma tracks_sum [tracks_intros]:
  "(\<And>e. tracks R (f e) (f' e)) \<Longrightarrow> (\<And>x. tracks R (g x) (g' x)) \<Longrightarrow> tracks R (case_sum f g r) (case_sum f' g' r)"
  by (cases r) simp_all

lemma tracks_prod [tracks_intros]:
  "(\<And>x y. tracks R (h x y) (h' x y)) \<Longrightarrow> tracks R (case_prod h pr) (case_prod h' pr)"
  by (cases pr) simp

lemma tracks_list [tracks_intros]:
  "tracks R a a' \<Longrightarrow> (\<And>x xs. tracks R (k x xs) (k' x xs)) \<Longrightarrow> tracks R (case_list a k l) (case_list a' k' l)"
  by (cases l) simp_all

lemma tracks_target [tracks_intros]:
  "(\<And>w. tracks R (f w) (f' w)) \<Longrightarrow> (\<And>n. tracks R (g n) (g' n)) \<Longrightarrow> (\<And>d. tracks R (h d) (h' d)) \<Longrightarrow>
     tracks R (case_redirect_target f g h target) (case_redirect_target f' g' h' target)"
  by (cases target) simp_all

lemma tracks_mode [tracks_intros]:
  "tracks R a a' \<Longrightarrow> tracks R b b' \<Longrightarrow> tracks R c c' \<Longrightarrow> tracks R d d' \<Longrightarrow> (\<And>x. tracks R (k x) (k' x)) \<Longrightarrow>
     tracks R (case_redirect_mode a b c d k mode) (case_redirect_mode a' b' c' d' k' mode)"
  by (cases mode) simp_all

lemma tracks_sink [tracks_intros]:
  "tracks R a a' \<Longrightarrow> tracks R b b' \<Longrightarrow> (\<And>p q. tracks R (u p q) (u' p q)) \<Longrightarrow> (\<And>n g. tracks R (v n g) (v' n g)) \<Longrightarrow>
     tracks R c c' \<Longrightarrow> tracks R (case_fd_sink a b u v c sink) (case_fd_sink a' b' u' v' c' sink)"
  by (cases sink) simp_all

lemma tracks_outcome [tracks_intros]:
  "tracks R a a' \<Longrightarrow> tracks R b b' \<Longrightarrow> tracks R c c' \<Longrightarrow>
     tracks R (case_rfork_environment_outcome a b c outcome) (case_rfork_environment_outcome a' b' c' outcome)"
  by (cases outcome) simp_all

lemma tracks_fault [tracks_intros]:
  "(\<And>e. tracks R (f e) (f' e)) \<Longrightarrow> tracks R g g' \<Longrightarrow> tracks R (case_parse_fault f g fault) (case_parse_fault f' g' fault)"
  by (cases fault) simp_all

locale rc_tracking =
  fixes R :: "'h rc_session \<Rightarrow> 'h rc_session \<Rightarrow> bool"
  assumes R_refl: "R s s"
    and R_trans: "R s t \<Longrightarrow> R t u \<Longrightarrow> R s u"
    and R_host: "R s (s\<lparr>s_host := h\<rparr>)"
    and R_vars: "R s (s\<lparr>s_vars := vars\<rparr>)"
    and R_functions: "R s (s\<lparr>s_functions := fs\<rparr>)"
    and R_status: "R s (s\<lparr>s_last_status := st\<rparr>)"
    and R_argv0: "R s (s\<lparr>s_argv0 := a0\<rparr>)"
    and R_argv: "R s (s\<lparr>s_argv := a\<rparr>)"
    and R_jobs: "mset js \<subseteq># mset (s_jobs s) \<Longrightarrow> R s (s\<lparr>s_jobs := js\<rparr>)"
    and R_job_id: "R s (s\<lparr>s_next_job_id := s_next_job_id s + 1\<rparr>)"
    and R_background: "R (s\<lparr>s_next_job_id := s_next_job_id s + 1\<rparr>) t \<Longrightarrow> jb_id j = s_next_job_id s \<Longrightarrow>
      R s (t\<lparr>s_jobs := s_jobs t @ [j]\<rparr>)"
    and R_note: "bt_get (s_notes s) name = None \<Longrightarrow> R (s\<lparr>s_notes := bs_insert name (s_notes s)\<rparr>) t \<Longrightarrow>
      R s (t\<lparr>s_notes := bt_remove name (s_notes t)\<rparr>)"
begin

lemma tracks_rret [tracks_intros]: "tracks R (rret x) (rret x)"
  by (auto simp: tracks_def R_refl)

lemma tracks_rget [tracks_intros]: "tracks R (rget f) (rget f)"
  by (auto simp: tracks_def R_refl)

lemma tracks_host_do [tracks_intros]: "tracks R (host_do f) (host_do f)"
  by (auto simp: tracks_def R_host)

lemma tracks_rupd: "(\<And>s. R s (f s)) \<Longrightarrow> tracks R (rupd f) (rupd f)"
  by (auto simp: tracks_def)

lemma tracks_bind [tracks_intros]:
  assumes "tracks R m m'" "\<And>x. tracks R (f x) (f' x)"
  shows "tracks R (rcbind m f) (rcbind m' f')"
proof (rule tracksI)
  fix s y u assume "rcbind m f s = Some (y, u)"
  then obtain x t where "m s = Some (x, t)" "f x t = Some (y, u)" by (auto simp: rcbind_run split: option.splits)
  then have "m' s = Some (x, t)" "R s t" "f' x t = Some (y, u)" "R t u"
    using tracksD [OF assms(1)] tracksD [OF assms(2)] by blast+
  then show "rcbind m' f' s = Some (y, u) \<and> R s u" using R_trans [of s t u] by simp
qed

section \<open>Operations that evaluate nothing\<close>

lemma tracks_assign [tracks_intros]:
  "tracks R (set_session_var name vs) (set_session_var name vs)" "tracks R (restore_var name old) (restore_var name old)"
  "tracks R refresh_arg_vars refresh_arg_vars" "tracks R (set_last_status st) (set_last_status st)"
  "tracks R (set_argv0 a) (set_argv0 a)"
  by (simp_all add: set_session_var_def restore_var_def refresh_arg_vars_def set_last_status_def set_argv0_def tracks_rupd
      R_vars R_status R_argv0)

lemma R_import: "R s (fold import_entry env s)"
proof (induction env arbitrary: s)
  case (Cons entry env)
  have "R s (import_entry entry s)"
    by (simp add: import_entry_def R_refl R_vars R_functions split: prod.splits option.splits)
  with Cons.IH show ?case by (simp add: R_trans [OF _ Cons.IH])
qed (simp add: R_refl)

lemma R_cleared: "R s (s\<lparr>s_vars := vars, s_functions := fs\<rparr>)"
  using R_trans [OF R_vars R_functions] .

lemma tracks_environment [tracks_intros]:
  "tracks R (publish_environment H) (publish_environment H)"
  "tracks R (import_environment_without_publish env) (import_environment_without_publish env)"
  unfolding publish_environment_def import_environment_without_publish_def
  by (intro tracks_intros tracks_rupd R_import)+

lemma tracks_host_environment [tracks_intros]:
  "tracks R (import_host_environment H) (import_host_environment H)"
  "tracks R (replace_environment_without_publish env) (replace_environment_without_publish env)"
  "tracks R (set_args H args) (set_args H args)"
  "tracks R (import_environment H env) (import_environment H env)"
  unfolding import_host_environment_def replace_environment_without_publish_def set_args_def import_environment_def
  by (intro tracks_intros tracks_rupd R_cleared R_argv R_import)+

lemma tracks_glob_entries:
  "(\<And>b p out. tracks R (next b p out) (next b p out)) \<Longrightarrow>
     tracks R (glob_entries next part base prefix entries out) (glob_entries next part base prefix entries out)"
  by (induction entries arbitrary: out) (auto simp: Let_def intro!: tracks_intros)

lemma tracks_glob_inner: "tracks R (glob_inner H parts base prefix out) (glob_inner H parts base prefix out)"
  by (induction parts arbitrary: base prefix out) (auto intro!: tracks_intros tracks_glob_entries)

lemma tracks_glob_values [tracks_intros]: "tracks R (glob_values H vs out) (glob_values H vs out)"
proof (induction vs arbitrary: out)
  case (Cons v vs)
  have "tracks R (expand_glob_or_literal H v) (expand_glob_or_literal H v)"
    unfolding expand_glob_or_literal_def glob_def Let_def by (intro tracks_intros tracks_glob_inner)
  then show ?case using Cons.IH by (auto intro!: tracks_intros)
qed (simp add: tracks_intros)

lemma tracks_search_argv [tracks_intros]: "tracks R (search_argv H command args dirs) (search_argv H command args dirs)"
  by (induction dirs) (unfold search_argv.simps host_executable_argv_def, (intro tracks_intros | assumption)+)

lemma tracks_resolve_argv [tracks_intros]: "tracks R (resolve_external_argv H ws) (resolve_external_argv H ws)"
  unfolding resolve_external_argv_def host_executable_argv_def by (intro tracks_intros)

lemma tracks_graphs [tracks_intros]:
  "tracks R (prepare_pipeline_graph H left right f t) (prepare_pipeline_graph H left right f t)"
  "tracks R (prepare_background_graph H job node) (prepare_background_graph H job node)"
  "tracks R (prepare_process_substitution_graph H kind node fd) (prepare_process_substitution_graph H kind node fd)"
  "tracks R (finish_process_graph H graph sts) (finish_process_graph H graph sts)"
  unfolding prepare_pipeline_graph_def prepare_background_graph_def prepare_process_substitution_graph_def
    prepare_graph_def finish_process_graph_def Let_def
  by (intro tracks_intros)+

lemma tracks_commands [tracks_intros]:
  "tracks R (host_command H name args stdin) (host_command H name args stdin)"
  "tracks R (run_command H name args stdin) (run_command H name args stdin)"
  "tracks R (run_cd H args) (run_cd H args)"
  "tracks R (run_test H args) (run_test H args)"
  unfolding run_command_def host_command_def run_cd_def run_test_def stat_test_def Let_def
  by (intro tracks_intros)+

lemma tracks_run_shift [tracks_intros]: "tracks R (run_shift args) (run_shift args)"
  unfolding run_shift_def Let_def by (intro tracks_intros tracks_rupd R_argv)

lemma tracks_run_rfork [tracks_intros]: "tracks R (run_rfork H args) (run_rfork H args)"
  unfolding run_rfork_def by (intro tracks_intros tracks_rupd R_cleared)

lemma tracks_finish_jobs [tracks_intros]: "tracks R (finish_jobs H jobs) (finish_jobs H jobs)"
  by (induction jobs) (unfold finish_jobs.simps, (intro tracks_intros | assumption)+)

lemma take_job_mset: "take_job wanted jobs = Some (job, rest) \<Longrightarrow> mset rest \<subseteq># mset jobs"
  by (induction jobs arbitrary: rest) (fastforce split: if_splits)+

lemma collect_jobs_tracks:
  assumes "mset rest \<subseteq># mset (s_jobs s)" "collect_jobs H jobs rest s = Some (x, t)"
  shows "R s t"
proof -
  have "finish_jobs H jobs (s\<lparr>s_jobs := rest\<rparr>) = Some ((), t)"
    using assms(2) by (auto simp: collect_jobs_def rcbind_run split: option.splits)
  then have "R (s\<lparr>s_jobs := rest\<rparr>) t" using tracksD [OF tracks_finish_jobs] by blast
  then show ?thesis using R_trans [OF R_jobs [OF assms(1)]] by blast
qed

lemma tracks_wait_jobs [tracks_intros]: "tracks R (wait_jobs H requested) (wait_jobs H requested)"
proof (rule tracksI)
  fix s x t assume w: "wait_jobs H requested s = Some (x, t)"
  define u where "u = s\<lparr>s_host := snd (h_wait_process_job H requested (s_host s))\<rparr>"
  have u: "R s u" by (simp add: u_def R_host)
  have "R u t"
    using w unfolding wait_jobs_def u_def [symmetric]
    by (auto simp: rcbind_run u_def [symmetric] R_refl split: sum.splits option.splits prod.splits
        dest: take_job_mset intro: collect_jobs_tracks [OF empty_le [folded mset.simps(1)]] collect_jobs_tracks)
  then show "wait_jobs H requested s = Some (x, t) \<and> R s t" using w R_trans [OF u] by simp
qed

lemma tracks_run_wait [tracks_intros]: "tracks R (run_wait H args) (run_wait H args)"
  unfolding run_wait_def by (intro tracks_intros)

lemma tracks_assign_all [tracks_intros]: "tracks R (assign_all as) (assign_all as)"
  by (induction as rule: assign_all.induct) (unfold assign_all.simps, (intro tracks_intros | assumption)+)

lemma tracks_restore_all [tracks_intros]: "tracks R (restore_all rs) (restore_all rs)"
  by (induction rs rule: restore_all.induct) (unfold restore_all.simps, (intro tracks_intros | assumption)+)

end

section \<open>Operations that evaluate nodes\<close>

locale rc_evaluation = rc_tracking R
  for R :: "'h rc_session \<Rightarrow> 'h rc_session \<Rightarrow> bool" +
  fixes H :: "'h rc_host" and ev ev' :: "'h ev"
  assumes ev [tracks_intros]: "tracks R (ev node input) (ev' node input)"
begin

lemma tracks_eval_nodes [tracks_intros]: "tracks R (eval_nodes ev nodes input) (eval_nodes ev' nodes input)"
proof -
  have "tracks R (eval_nodes_loop ev nodes input out) (eval_nodes_loop ev' nodes input out)" for out
    by (induction nodes arbitrary: input out)
       (unfold eval_nodes_loop.simps, (intro tracks_intros | assumption)+)
  then show ?thesis by (simp add: eval_nodes_def)
qed

lemma tracks_eval_script [tracks_intros]: "tracks R (eval_script H ev script input) (eval_script H ev' script input)"
  unfolding eval_script_def by (intro tracks_intros)

lemma tracks_eval_source [tracks_intros]: "tracks R (eval_source H ev source) (eval_source H ev' source)"
  unfolding eval_source_def by (intro tracks_intros)

lemma tracks_expand_loop:
  "expand_loop (eval_source H ev) pos acc cs s = Some (x, t) \<Longrightarrow>
     expand_loop (eval_source H ev') pos acc cs s = Some (x, t) \<and> R s t"
proof (induction "eval_source H ev" pos acc cs s arbitrary: x t rule: expand_loop.induct)
  case (1 pos acc s)
  then show ?case by (simp add: expand_loop.simps R_refl)
next
  case (2 pos acc c cs s)
  show ?case
  proof (cases "c = apos \<or> c = CHR ''$'' \<or> \<not> (c = btick \<and> take 1 cs = ''{'')")
    case True
    then show ?thesis
      using 2 by (subst expand_loop.simps) (auto simp: R_refl expand_loop.simps(2) split: sum.splits prod.splits if_splits)
  next
    case False
    then have c: "c \<noteq> apos" "c \<noteq> CHR ''$''" "c = btick \<and> take 1 cs = ''{''" by auto
    show ?thesis
    proof (cases "extract_command_substitution pos (c # cs)")
      case (Inl e)
      then show ?thesis using "2.prems" c by (simp add: expand_loop.simps(2) R_refl)
    next
      case (Inr r)
      obtain source rest where r: "r = (source, rest)" by (cases r)
      obtain out u where u: "eval_source H ev source s = Some (out, u)"
        using "2.prems" c Inr r by (auto simp: expand_loop.simps(2) split: option.splits)
      have e: "eval_source H ev' source s = Some (out, u)" "R s u" using tracksD [OF tracks_eval_source u] by auto
      have "expand_loop (eval_source H ev') (pos + 1 + (length cs - length rest))
          (concat_values acc (split_ifs (ro_stdout out) (lookup_var u ''ifs''))) rest u = Some (x, t) \<and> R u t"
        using 2(3) [OF c Inr r [symmetric] u refl] "2.prems" c Inr r u by (simp add: expand_loop.simps(2))
      then show ?thesis using c Inr r e R_trans [OF e(2)] by (simp add: expand_loop.simps(2))
    qed
  qed
qed

lemma tracks_expand_parts: 
  "tracks R (expand_parts (eval_source H ev) acc parts) (expand_parts (eval_source H ev') acc parts)"
proof (induction parts arbitrary: acc)
  case (Cons part parts)
  have "tracks R (expand_part (eval_source H ev) part) (expand_part (eval_source H ev') part)"
    unfolding expand_part_def by (rule tracksI) (rule tracks_expand_loop)
  then show ?case unfolding expand_parts.simps by (intro tracks_intros Cons.IH)
qed (unfold expand_parts.simps, intro tracks_intros)

lemma tracks_expand_word [tracks_intros]:
  "tracks R (expand_raw_word (eval_source H ev) raw) (expand_raw_word (eval_source H ev') raw)"
  "tracks R (expand_word (eval_source H ev) w) (expand_word (eval_source H ev') w)"
  unfolding expand_word_def expand_raw_word_def by (intro tracks_intros tracks_expand_parts)+

lemma tracks_expand_words [tracks_intros]:
  "tracks R (expand_words H (eval_source H ev) ws) (expand_words H (eval_source H ev') ws)"
proof -
  have "tracks R (expand_words_loop H (eval_source H ev) ws out) (expand_words_loop H (eval_source H ev') ws out)" for out
    by (induction ws arbitrary: out) (unfold expand_words_loop.simps, (intro tracks_intros | assumption)+)
  then show ?thesis by (simp add: expand_words_def)
qed

lemma tracks_redirect_texts [tracks_intros]:
  "tracks R (redirect_path H ev r) (redirect_path H ev' r)"
  "tracks R (redirect_here_text H ev r) (redirect_here_text H ev' r)"
  unfolding redirect_path_def redirect_here_text_def by (intro tracks_intros)+

lemma tracks_assignment_value [tracks_intros]: "tracks R (assignment_value H ev a) (assignment_value H ev' a)"
  unfolding assignment_value_def by (intro tracks_intros)

lemma tracks_stage_env [tracks_intros]: "tracks R (stage_env H ev as env) (stage_env H ev' as env)"
  by (induction as arbitrary: env) (unfold stage_env.simps, (intro tracks_intros | assumption)+)

lemma tracks_stage_redirects [tracks_intros]:
  "tracks R (stage_redirects H ev rs stdin bindings) (stage_redirects H ev' rs stdin bindings)"
proof (induction rs arbitrary: stdin bindings)
  case (Cons r rs)
  have "tracks R (stage_redirect H ev r stdin bindings) (stage_redirect H ev' r stdin bindings)"
    unfolding stage_redirect_def bind_path_def bind_here_def by (intro tracks_intros)
  then show ?case unfolding stage_redirects.simps by (intro tracks_intros Cons.IH)
qed (unfold stage_redirects.simps, intro tracks_intros)

lemma tracks_executable_stage [tracks_intros]:
  "tracks R (executable_stage H ev node stdin bindings) (executable_stage H ev' node stdin bindings)"
  unfolding executable_stage_def by (intro tracks_intros)

lemma tracks_pipeline_stages [tracks_intros]:
  "tracks R (pipeline_stages H ev stdin ns) (pipeline_stages H ev' stdin ns)"
  by (induction ns arbitrary: stdin rule: list.induct)
     (unfold split_paired_all pipeline_stages.simps, (intro tracks_intros | assumption)+)

lemma tracks_try_graphs [tracks_intros]:
  "tracks R (try_execute_pipeline_graph H ev left right f t input) (try_execute_pipeline_graph H ev' left right f t input)"
  "tracks R (try_start_background_graph H ev job node input) (try_start_background_graph H ev' job node input)"
  "tracks R (try_execute_process_substitution_graph H ev kind node input fd)
     (try_execute_process_substitution_graph H ev' kind node input fd)"
  unfolding try_execute_pipeline_graph_def try_start_background_graph_def try_execute_process_substitution_graph_def Let_def
  by (intro tracks_intros)+

lemma tracks_run_rc_script [tracks_intros]:
  "tracks R (run_rc_script H ev path args input) (run_rc_script H ev' path args input)"
  unfolding run_rc_script_def by (intro tracks_intros)

lemma tracks_search_script [tracks_intros]:
  "tracks R (search_script H ev command args input dirs) (search_script H ev' command args input dirs)"
  by (induction dirs) (unfold search_script.simps, (intro tracks_intros | assumption)+)

lemma tracks_calls [tracks_intros]:
  "tracks R (run_path_command H ev ws input) (run_path_command H ev' ws input)"
  "tracks R (call_function H ev function args input) (call_function H ev' function args input)"
  unfolding run_path_command_def call_function_def by (intro tracks_intros)+

lemma tracks_run_note [tracks_intros]: "tracks R (run_note_function H ev name) (run_note_function H ev' name)"
proof (rule tracksI)
  fix s x t assume r: "run_note_function H ev name s = Some (x, t)"
  define m where "m e = rcbind (rget (\<lambda>s. bt_get (s_functions s) name)) (\<lambda>function. case function of
      None \<Rightarrow> rret None | Some f \<Rightarrow> rcbind (call_function H e f [] []) (\<lambda>out. rret (Some out)))" for e
  have m: "tracks R (m ev) (m ev')" unfolding m_def by (intro tracks_intros)
  have run: "run_note_function H e name s =
      (if bt_get (s_notes s) name \<noteq> None then Some (None, s)
       else case m e (s\<lparr>s_notes := bs_insert name (s_notes s)\<rparr>) of
         None \<Rightarrow> None | Some (out, u) \<Rightarrow> Some (out, u\<lparr>s_notes := bt_remove name (s_notes u)\<rparr>))" for e
    by (simp add: run_note_function_def m_def rcbind_run split: option.splits prod.splits)
  show "run_note_function H ev' name s = Some (x, t) \<and> R s t"
  proof (cases "bt_get (s_notes s) name")
    case None
    then obtain u where "m ev (s\<lparr>s_notes := bs_insert name (s_notes s)\<rparr>) = Some (x, u)"
      "t = u\<lparr>s_notes := bt_remove name (s_notes u)\<rparr>"
      using r by (auto simp: run split: option.splits)
    with tracksD [OF m] None R_note [OF None, of u] show ?thesis by (simp add: run)
  qed (use r run R_refl in auto)
qed

lemma tracks_deliver_note: "tracks R (deliver_note H ev note) (deliver_note H ev' note)"
  unfolding deliver_note_def by (intro tracks_intros)

lemma tracks_builtins [tracks_intros]:
  "tracks R (run_exec H ev args input) (run_exec H ev' args input)"
  "tracks R (run_source H ev args) (run_source H ev' args)"
  "tracks R (run_exit H ev args) (run_exit H ev' args)"
  unfolding run_exec_def run_source_def run_exit_def by (intro tracks_intros)+

lemma tracks_plain_builtin [tracks_intros]:
  "tracks R (run_plain_builtin H ev name args input) (run_plain_builtin H ev' name args input)"
  unfolding run_plain_builtin_def some_output_def by (intro tracks_intros)

lemma tracks_run_builtin [tracks_intros]: "tracks R (run_builtin H ev ws input) (run_builtin H ev' ws input)"
  unfolding run_builtin_def run_builtin_command_def some_output_def by (intro tracks_intros)

lemma tracks_prepare_redirects [tracks_intros]:
  "tracks R (prepare_redirects H ev rs input sinks) (prepare_redirects H ev' rs input sinks)"
proof (induction rs arbitrary: input sinks)
  case (Cons r rs)
  have "tracks R (prepare_redirect H ev r input sinks) (prepare_redirect H ev' r input sinks)"
    unfolding prepare_redirect_def read_redirect_def write_redirect_def by (intro tracks_intros)
  then show ?case unfolding prepare_redirects.simps by (intro tracks_intros Cons.IH)
qed (unfold prepare_redirects.simps, intro tracks_intros)

lemma tracks_output_sinks [tracks_intros]:
  "tracks R (apply_output_sinks H ev out sinks) (apply_output_sinks H ev' out sinks)"
  unfolding apply_output_sinks_def apply_fd_sink_def by (intro tracks_intros)

lemma tracks_assignment_list [tracks_intros]: "tracks R (assignment_list H ev as) (assignment_list H ev' as)"
  by (induction as) (unfold assignment_list.simps, (intro tracks_intros | assumption)+)

lemma tracks_eval_simple [tracks_intros]: "tracks R (eval_simple H ev simple input) (eval_simple H ev' simple input)"
  unfolding eval_simple_def run_words_def by (intro tracks_intros)

lemma tracks_for_loop [tracks_intros]: "tracks R (for_loop ev var body vs out) (for_loop ev' var body vs out)"
  by (induction vs arbitrary: out) (unfold for_loop.simps, (intro tracks_intros | assumption)+)

lemma tracks_while_loop [tracks_intros]:
  "tracks R (while_loop n ev condition body out) (while_loop n ev' condition body out)"
  by (induction n arbitrary: out) (unfold while_loop.simps, (intro tracks_intros | assumption)+)

lemma tracks_switch_cases [tracks_intros]:
  "tracks R (switch_cases H ev value input cases) (switch_cases H ev' value input cases)"
  by (induction cases) (unfold switch_cases.simps, (intro tracks_intros | assumption)+)

lemma tracks_eval_background [tracks_intros]:
  "tracks R (eval_background H ev inner input) (eval_background H ev' inner input)"
proof (rule tracksI)
  fix s x t assume r: "eval_background H ev inner input s = Some (x, t)"
  let ?s = "s\<lparr>s_next_job_id := s_next_job_id s + 1\<rparr>" and ?job = "s_next_job_id s"
  define m where "m e = rcbind (try_start_background_graph H e ?job inner input) (\<lambda>started.
      if started then rret None
      else rcbind (prepare_background_graph H ?job inner) (\<lambda>graph.
           rcbind (e inner input) (\<lambda>out.
           rcbind (finish_process_graph H graph [ro_status out]) (\<lambda>_.
           rret (Some \<lparr>jb_id = ?job, jb_status = ro_status out, jb_stdout = ro_stdout out, jb_stderr = ro_stderr out,
             jb_graph = graph\<rparr>)))))" for e
  have m: "tracks R (m ev) (m ev')" unfolding m_def by (intro tracks_intros)
  have run: "eval_background H e inner input s =
      (case m e ?s of
         None \<Rightarrow> None
       | Some (None, u) \<Rightarrow> Some (job_started ?job, u)
       | Some (Some j, u) \<Rightarrow> Some (job_started ?job, u\<lparr>s_jobs := s_jobs u @ [j]\<rparr>))" for e
    by (simp add: eval_background_def m_def rcbind_run split: option.splits prod.splits)
  have id: "jb_id j = ?job" if "m e ?s = Some (Some j, u)" for e j u
    using that by (auto simp: m_def rcbind_run split: option.splits prod.splits if_splits)
  obtain y u where y: "m ev ?s = Some (y, u)" using r by (auto simp: run split: option.splits)
  have u: "m ev' ?s = Some (y, u)" "R ?s u" using tracksD [OF m y] by auto
  show "eval_background H ev' inner input s = Some (x, t) \<and> R s t"
    using r y u R_trans [OF R_job_id u(2)] R_background [OF u(2)] id [of ev']
    by (cases y) (auto simp: run)
qed

lemma tracks_eval_step: "tracks R (eval_step H ev node input) (eval_step H ev' node input)"
proof (cases node)
  case (NFunction name body)
  then show ?thesis unfolding eval_step_def by (simp, intro tracks_intros tracks_rupd R_functions)
qed (simp_all only: eval_step_def node.case eval_pipe_def eval_for_def Let_def, (intro tracks_intros)+)

end

end
