(* ===== verification/Rc_Parser_Laws.thy ===== *)
theory Rc_Parser_Laws
  imports Rc_Parser
begin

text \<open>
  The parser ends. \<open>fed d n P m\<close> says of a parser \<open>m\<close> that in every state with fewer than \<open>n\<close> tokens
  left whose next token satisfies \<open>P\<close> it does not run out of fuel, and that it takes at least \<open>d\<close>
  tokens when it succeeds. The rules below compose it along the methods of the parser, so that a
  parser with more fuel than tokens is shown to return a tree or an error.
\<close>

section \<open>Parsers that have enough fuel\<close>

definition fed :: "nat \<Rightarrow> nat \<Rightarrow> (token_kind option \<Rightarrow> bool) \<Rightarrow> 'a parse \<Rightarrow> bool" where
  "fed d n P m \<longleftrightarrow>
     (\<forall>st. length (ps_tokens st) < n \<longrightarrow> P (peek_kind st) \<longrightarrow>
        (case m st of
           Inl e \<Rightarrow> e \<noteq> ParseFuel
         | Inr (x, st') \<Rightarrow> length (ps_tokens st') + d \<le> length (ps_tokens st)))"

abbreviation anything :: "token_kind option \<Rightarrow> bool" where
  "anything \<equiv> \<lambda>_. True"

lemma fed_weaken: "fed d n P m \<Longrightarrow> d' \<le> d \<Longrightarrow> n' \<le> n \<Longrightarrow> (\<And>k. Q k \<Longrightarrow> P k) \<Longrightarrow> fed d' n' Q m"
  by (fastforce simp: fed_def split: sum.splits)

lemma fed_less: "fed d n anything m \<Longrightarrow> n' \<le> n \<Longrightarrow> fed d n' P m"
  by (erule fed_weaken) auto

lemma fed_any: "fed d n anything m \<Longrightarrow> fed d n P m"
  by (erule fed_weaken) auto

lemma fed_eats: "fed (Suc 0) n P m \<Longrightarrow> fed 0 n P m"
  by (erule fed_weaken) auto

lemma fed_bind:
  assumes "fed d n P m" "\<And>x. fed e (n - d) anything (f x)"
  shows "fed (d + e) n P (pbind m f)"
  unfolding fed_def
proof (intro allI impI)
  fix st assume st: "length (ps_tokens st) < n" "P (peek_kind st)"
  show "case pbind m f st of Inl e \<Rightarrow> e \<noteq> ParseFuel
        | Inr (x, st') \<Rightarrow> length (ps_tokens st') + (d + e) \<le> length (ps_tokens st)"
  proof (cases "m st")
    case (Inr r)
    obtain x st' where r: "r = (x, st')" by (cases r)
    then have le: "length (ps_tokens st') + d \<le> length (ps_tokens st)"
      using assms(1) st Inr by (fastforce simp: fed_def)
    then have "length (ps_tokens st') < n - d" using st by simp
    then have "case f x st' of Inl e \<Rightarrow> e \<noteq> ParseFuel
        | Inr (y, st'') \<Rightarrow> length (ps_tokens st'') + e \<le> length (ps_tokens st')"
      using assms(2) [of x] by (simp add: fed_def)
    then show ?thesis using Inr r le by (auto simp: pbind_def split: sum.splits)
  next
    case Inl
    then show ?thesis using assms(1) st by (fastforce simp: fed_def pbind_def)
  qed
qed

lemma fed_then: "fed 0 n P m \<Longrightarrow> (\<And>x. fed e n anything (f x)) \<Longrightarrow> fed e n P (pbind m f)"
  using fed_bind [of 0 n P m e f] by simp

lemma fed_eat: "fed (Suc 0) (Suc n) P m \<Longrightarrow> (\<And>x. fed 0 n anything (f x)) \<Longrightarrow> fed (Suc 0) (Suc n) P (pbind m f)"
  using fed_bind [of "Suc 0" "Suc n" P m 0 f] by simp

lemma fed_peeking: "(\<And>k. P k \<Longrightarrow> fed d n (\<lambda>x. x = k) (f k)) \<Longrightarrow> fed d n P (peeking f)"
  by (simp add: fed_def peeking_def)

lemma fed_none: "fed d 0 P m"
  by (simp add: fed_def)

lemma fed_pret: "fed 0 n P (pret x)"
  by (simp add: fed_def pret_def)

lemma fed_perr: "fed d n P (perr e)"
  by (simp add: fed_def perr_def pfail_def)

lemma fed_advance: "(\<And>k. P k \<Longrightarrow> k \<noteq> None) \<Longrightarrow> fed (Suc 0) n P advance"
  by (fastforce simp: fed_def advance_def peek_kind_def split: list.splits)

lemma fed_advance_any: "fed 0 n P advance"
  by (simp add: fed_def advance_def)

lemma fed_skip_separators: "fed 0 n P skip_separators"
  by (simp add: fed_def skip_separators_def length_dropWhile_le)

lemma fed_consume_separator: "fed 0 n P consume_separator"
  unfolding consume_separator_def by (intro fed_peeking) (auto intro!: fed_pret fed_then fed_advance_any)

lemma fed_expect_symbol: "fed (Suc 0) n P (expect_symbol k l)"
  by (auto simp: fed_def expect_symbol_def advance_def split: list.splits)

lemma fed_expect_word: "fed (Suc 0) n P (expect_word w)"
  unfolding expect_word_def by (intro fed_peeking) (auto intro!: fed_perr fed_advance)

lemma fed_advance_pret: "fed (Suc 0) n (\<lambda>k. k = Some x) (pbind advance (\<lambda>_. pret y))"
  using fed_bind [OF fed_advance fed_pret, of "\<lambda>k. k = Some x" n "\<lambda>_. y"] by simp

lemma fed_expect_any_word: "fed (Suc 0) n P expect_any_word"
  unfolding expect_any_word_def
  by (intro fed_peeking) (auto intro: fed_perr fed_advance_pret split: option.splits token_kind.splits)

lemma fed_match_word: "fed 0 n P (match_word w)"
  unfolding match_word_def by (intro fed_peeking) (auto intro!: fed_pret fed_then fed_advance_any)

lemma fed_take_here_doc: "fed 0 n P (take_here_doc w)"
  by (simp add: fed_def take_here_doc_def split: option.splits)

lemma fed_braces:
  "fed (Suc 0) n P expect_lbrace" "fed (Suc 0) n P expect_rbrace"
  "fed (Suc 0) n P expect_lparen" "fed (Suc 0) n P expect_rparen"
  by (simp_all add: expect_lbrace_def expect_rbrace_def expect_lparen_def expect_rparen_def fed_expect_symbol)

lemmas fed_eaters = fed_braces fed_expect_word fed_expect_any_word

lemmas fed_atoms = fed_pret fed_perr fed_skip_separators fed_consume_separator fed_match_word fed_take_here_doc
  fed_advance_any fed_eaters fed_eaters [THEN fed_eats]

section \<open>Loops\<close>

lemma fed_word_list: "fed 0 n P (word_list n until ws)"
proof (induction n arbitrary: P ws)
  case (Suc n)
  show ?case
    by (simp, intro fed_peeking)
       (auto intro!: fed_pret fed_eat [THEN fed_eats] fed_expect_any_word Suc.IH)
qed (rule fed_none)

lemma fed_advance_then:
  "(\<And>x. fed 0 n anything (f x)) \<Longrightarrow> fed 0 (Suc n) (\<lambda>k. k = Some y) (pbind advance f)"
  by (rule fed_eats, rule fed_eat, rule fed_advance) auto

text \<open>The induction of a loop that calls a parser and itself again with one unit of fuel less.\<close>

lemma fed_loop:
  assumes step: "\<And>n j P acc. (\<And>Q acc. fed 0 j Q (loop n acc)) \<Longrightarrow> fed 0 j anything m \<Longrightarrow>
      fed 0 (Suc j) anything m \<Longrightarrow> j < k \<Longrightarrow> fed 0 (Suc j) P (loop (Suc n) acc)"
    and "fed 0 k anything m" "k \<le> n"
  shows "fed 0 k P (loop n acc)"
proof -
  have "fed 0 i P (loop n acc)" if "fed 0 i anything m" "i \<le> n" "i \<le> k" for i
    using that
  proof (induction n arbitrary: P i acc)
    case (Suc n)
    show ?case
    proof (cases i)
      case (Suc j)
      have "fed 0 j anything m" using Suc Suc.prems fed_less [of 0 i m j anything] by simp
      then show ?thesis
        using step Suc.IH Suc Suc.prems by simp
    qed (simp add: fed_none)
  qed (simp add: fed_none)
  then show ?thesis using assms(2,3) by simp
qed

lemma fed_unary: "fed 0 k anything command \<Longrightarrow> k \<le> n \<Longrightarrow> fed 0 k P (parse_unary n command)"
proof (rule fed_loop [where loop = "\<lambda>n _ :: unit. parse_unary n command" and m = command])
  fix n j P assume h: "\<And>Q (acc :: unit). fed 0 j Q (parse_unary n command)" "fed 0 (Suc j) anything command"
  have "fed 0 j anything (pbind (parse_unary n command) (\<lambda>x. pret (NNot x)))"
    using h(1) by (intro fed_then fed_pret)
  then show "fed 0 (Suc j) P (parse_unary (Suc n) command)"
    using h(2) by (auto intro!: fed_peeking fed_advance_then intro: fed_any)
qed

lemma fed_pipe_loop: "fed 0 k anything unary \<Longrightarrow> k \<le> n \<Longrightarrow> fed 0 k P (pipe_loop n unary left)"
proof (rule fed_loop [where loop = "\<lambda>n. pipe_loop n unary" and m = unary])
  fix n j P left assume h: "\<And>Q left. fed 0 j Q (pipe_loop n unary left)" "fed 0 j anything unary"
  have "fed 0 j anything (pbind unary (\<lambda>right. pipe_loop n unary (NPipe left right spec)))" for spec
    using h by (intro fed_then)
  then show "fed 0 (Suc j) P (pipe_loop (Suc n) unary left)"
    by (auto intro!: fed_peeking fed_advance_then fed_pret split: option.splits token_kind.splits)
qed

lemma fed_and_or_loop: "fed 0 k anything pipeline \<Longrightarrow> k \<le> n \<Longrightarrow> fed 0 k P (and_or_loop n pipeline left)"
proof (rule fed_loop [where loop = "\<lambda>n. and_or_loop n pipeline" and m = pipeline])
  fix n j P left assume h: "\<And>Q left. fed 0 j Q (and_or_loop n pipeline left)" "fed 0 j anything pipeline"
  have "fed 0 j anything (pbind pipeline (\<lambda>right. and_or_loop n pipeline (f right)))" for f
    using h by (intro fed_then)
  then show "fed 0 (Suc j) P (and_or_loop (Suc n) pipeline left)"
    by (auto intro!: fed_peeking fed_advance_then fed_pret)
qed

lemma fed_pipeline: "fed 0 k anything command \<Longrightarrow> k \<le> n \<Longrightarrow> fed 0 k P (parse_pipeline n command)"
  unfolding parse_pipeline_def by (intro fed_then fed_unary fed_pipe_loop)

lemma fed_and_or: "fed 0 k anything command \<Longrightarrow> k \<le> n \<Longrightarrow> fed 0 k P (parse_and_or n command)"
  unfolding parse_and_or_def by (intro fed_then fed_pipeline fed_and_or_loop)

lemma fed_must_progress:
  assumes "fed 0 n P m" "\<And>k. P k \<Longrightarrow> k \<noteq> None"
  shows "fed (Suc 0) n P (must_progress m)"
  unfolding fed_def
proof (intro allI impI)
  fix st assume st: "length (ps_tokens st) < n" "P (peek_kind st)"
  then obtain t ts where "ps_tokens st = t # ts" using assms(2) by (fastforce simp: peek_kind_def split: list.splits)
  with st assms(1) show "case must_progress m st of Inl e \<Rightarrow> e \<noteq> ParseFuel
        | Inr (x, st') \<Rightarrow> length (ps_tokens st') + Suc 0 \<le> length (ps_tokens st)"
    by (cases "m st") (auto simp: fed_def must_progress_def no_progress_def split: prod.splits dest!: spec [of _ st])
qed

lemma fed_background: "fed 0 n P (background x)"
  unfolding background_def by (auto intro!: fed_peeking fed_then fed_atoms)

lemma fed_sequence_loop: "fed 0 k anything and_or \<Longrightarrow> k \<le> n \<Longrightarrow> fed 0 k P (sequence_loop n and_or stop nodes)"
proof (rule fed_loop [where loop = "\<lambda>n. sequence_loop n and_or stop" and m = and_or])
  fix n j P nodes
  assume loop: "\<And>Q nodes. fed 0 j Q (sequence_loop n and_or stop nodes)" and h: "fed 0 (Suc j) anything and_or"
  have step: "fed (Suc 0) (Suc j) (\<lambda>x. x = Some kind) (pbind (must_progress and_or) background)" for kind
    using h by (auto intro!: fed_eat fed_must_progress fed_background intro: fed_any)
  show "fed 0 (Suc j) P (sequence_loop (Suc n) and_or stop nodes)"
    unfolding sequence_loop.simps
    by (rule fed_peeking, split option.split, intro conjI allI impI fed_pret)
       (auto intro!: fed_pret fed_eats [OF fed_eat [OF step]] fed_then [OF fed_consume_separator]
          fed_then [OF fed_skip_separators] fed_peeking loop split: option.split)
qed

lemma fed_sequence: "fed 0 k anything command \<Longrightarrow> k \<le> n \<Longrightarrow> fed 0 k P (parse_sequence_until n command stop)"
  unfolding parse_sequence_until_def by (intro fed_then fed_skip_separators fed_sequence_loop fed_and_or)

section \<open>Commands\<close>

text \<open>
  Every command but a simple one takes its first word or bracket before it calls \<open>parse_command\<close>
  again, so the inner calls see one token less.
\<close>

locale fed_command =
  fixes n m :: nat and command :: "node parse"
  assumes command: "fed 0 n anything command" and le: "n \<le> m"
begin

lemmas fed_inner = fed_then fed_atoms fed_sequence [OF command le] fed_any [OF command]

lemma fed_block: "fed 0 (Suc n) P (parse_block m command)"
  unfolding parse_block_def by (rule fed_eats, rule fed_eat, rule fed_braces, intro fed_inner)

lemma fed_block_less: "fed 0 n P (parse_block m command)"
  by (rule fed_less [where n = "Suc n"], rule fed_block) simp

lemma fed_paren_group: "fed 0 (Suc n) P (parse_paren_group m command)"
  unfolding parse_paren_group_def by (rule fed_eats, rule fed_eat, rule fed_braces, intro fed_inner)

lemma fed_condition: "fed (Suc 0) (Suc n) P (parse_condition m command w)"
  unfolding parse_condition_def by (rule fed_eat, rule fed_expect_word, intro fed_inner)

lemma fed_word_list_less: "fed 0 n P (word_list m until ws)"
  using fed_less [OF fed_word_list le] .

lemma fed_else: "fed 0 n P (parse_else command)"
proof -
  define q where "q = pbind skip_separators (\<lambda>_. pbind command (\<lambda>x. pret (Some x)))"
  have "fed 0 n anything q" unfolding q_def by (intro fed_inner)
  then have q: "case q st of Inl e \<Rightarrow> e \<noteq> ParseFuel | Inr (x, st') \<Rightarrow> length (ps_tokens st') \<le> length (ps_tokens st)"
    if "length (ps_tokens st) < n" for st using that by (fastforce simp: fed_def split: sum.splits)
  have "case parse_else command st of Inl e \<Rightarrow> e \<noteq> ParseFuel
      | Inr (x, st') \<Rightarrow> length (ps_tokens st') \<le> length (ps_tokens st)" if st: "length (ps_tokens st) < n" for st
  proof -
    define ts where "ts = dropWhile (\<lambda>t. is_separator (Some (tk_kind t))) (ps_tokens st)"
    have "length (tl (tl ts)) \<le> length (ps_tokens st)"
      unfolding ts_def by (metis diff_le_self dual_order.trans length_dropWhile_le length_tl)
    with st q [of "st\<lparr>ps_tokens := tl (tl ts)\<rparr>"] show ?thesis
      unfolding parse_else_def q_def [symmetric]
      by (auto simp: pbind_def match_word_def peeking_def skip_separators_def advance_def pret_def ts_def [symmetric]
          split: sum.splits)
  qed
  then show ?thesis by (fastforce simp: fed_def split: sum.splits)
qed

lemma fed_if: "fed 0 (Suc n) P (parse_if m command)"
  unfolding parse_if_def by (rule fed_eats, rule fed_eat, rule fed_condition, intro fed_inner fed_else)

lemma fed_while: "fed 0 (Suc n) P (parse_while m command)"
  unfolding parse_while_def by (rule fed_eats, rule fed_eat, rule fed_condition, intro fed_inner)

lemma fed_for: "fed 0 (Suc n) P (parse_for m command)"
  unfolding parse_for_def
  by (rule fed_eats, rule fed_eat, rule fed_expect_word) (auto intro!: fed_inner fed_word_list_less)

lemma fed_switch_loop: "n \<le> j \<Longrightarrow> fed 0 n P (switch_loop j m command cases)"
proof (rule fed_loop [where loop = "\<lambda>j. switch_loop j m command" and m = command])
  fix j i P cases
  assume loop: "\<And>Q cases. fed 0 i Q (switch_loop j m command cases)" and i: "i < n"
    and c: "fed 0 i anything command"
  have i': "i \<le> m" using i le by simp
  have "fed 0 (Suc i) Q (pbind (expect_word ''case'') (\<lambda>_. pbind (word_list m ends_patterns []) (\<lambda>ps.
      pbind consume_separator (\<lambda>_. pbind (parse_sequence_until m command stop) (\<lambda>body.
      pbind skip_separators (\<lambda>_. switch_loop j m command (cases @ [SwitchCase ps body])))))))" for Q stop
    by (rule fed_eats, rule fed_eat, rule fed_expect_word)
       (intro fed_then fed_atoms loop fed_sequence c i' fed_less [OF fed_word_list])
  then show "fed 0 (Suc i) P (switch_loop (Suc j) m command cases)"
    by (auto intro!: fed_peeking fed_pret)
qed (use command in auto)

lemma fed_switch: "fed 0 (Suc n) P (parse_switch m command)"
  unfolding parse_switch_def
  by (rule fed_eats, rule fed_eat, rule fed_expect_word) (intro fed_inner fed_switch_loop le order_refl)

lemma fed_function: "fed 0 (Suc n) P (parse_function m command)"
  unfolding parse_function_def
  by (rule fed_eats, rule fed_eat, rule fed_expect_word) (auto intro!: fed_inner fed_peeking fed_block_less)

lemma fed_redirect_target: "fed 0 n P (redirect_target m command mode)"
  unfolding redirect_target_def
  by (cases mode) (auto intro!: fed_inner fed_peeking fed_block_less)

lemma fed_assignment_values: "fed 0 n P (assignment_values m suffix)"
  unfolding assignment_values_def by (auto intro!: fed_inner fed_peeking fed_word_list_less)

lemma fed_simple_loop:
  assumes "Suc n \<le> j"
  shows "fed 0 (Suc n) P (simple_loop j m command seen as ws rs)"
proof -
  define loop where "loop = (\<lambda>j (seen, as, ws, rs). simple_loop j m command seen as ws rs)"
  have "fed 0 (Suc n) P (loop j (seen, as, ws, rs))"
  proof (rule fed_loop [where m = "pret ()" and loop = loop])
    fix j i P acc
    assume "\<And>Q acc. fed 0 i Q (loop j acc)" and "i < Suc n"
    then have inner: "fed 0 i Q (simple_loop j m command seen as ws rs)" and i': "i \<le> n" for Q seen as ws rs
      by (fastforce simp: loop_def split: prod.splits)+
    show "fed 0 (Suc i) P (loop (Suc j) acc)"
      using fed_less [OF fed_assignment_values i'] fed_less [OF fed_redirect_target i'] inner
      by (auto simp: loop_def intro!: fed_peeking fed_advance_then fed_pret fed_then
          split: prod.splits option.splits token_kind.splits)
  qed (use assms fed_pret in auto)
  then show ?thesis by (simp add: loop_def)
qed

end

lemma fed_parse_command: "fed 0 n P (parse_command n)"
proof (induction n arbitrary: P)
  case (Suc n)
  have n: "fed_command n n (parse_command n)" and Sn: "fed_command n (Suc n) (parse_command n)"
    using Suc.IH by (unfold_locales; simp)+
  show ?case
    unfolding parse_command.simps parse_simple_def
    by (intro fed_peeking)
       (auto simp: fed_command.fed_block [OF n] fed_command.fed_paren_group [OF n] fed_command.fed_if [OF n]
         fed_command.fed_while [OF n] fed_command.fed_for [OF n] fed_command.fed_switch [OF n]
         fed_command.fed_function [OF n] fed_command.fed_simple_loop [OF Sn order_refl]
         simp del: simple_loop.simps)
qed (rule fed_none)

interpretation rc_command: fed_command n n "parse_command n" for n
  by unfold_locales (simp_all add: fed_parse_command)

section \<open>Scripts\<close>

lemma fed_parse_script: "fed 0 n anything (parse_script n)"
  unfolding parse_script_def by (rule fed_sequence [OF rc_command.command order_refl])

lemma parse_tokens_ends: "parse_tokens ts docs \<noteq> Inl ParseFuel"
proof -
  have "parse_script (script_fuel ts) \<lparr>ps_tokens = ts, ps_docs = docs\<rparr> \<noteq> Inl ParseFuel"
    using fed_parse_script [of "script_fuel ts"]
    unfolding fed_def by (auto simp: script_fuel_def dest: spec [of _ "\<lparr>ps_tokens = ts, ps_docs = docs\<rparr>"])
  then show ?thesis by (auto simp: parse_tokens_def split: sum.splits prod.splits)
qed

text \<open>C26. The parser of scripts always ends, whatever the text: \<open>rc_parse\<close> returns the nodes of the
  script or a parse error with its message, and never runs out of the fuel of two more than the number
  of tokens, which no bracket, loop or list of the grammar can exhaust.\<close>

theorem rc_parse_ends: "(\<exists>nodes. rc_parse source = Inr nodes) \<or> (\<exists>e. rc_parse source = Inl (ParseErr e))"
proof -
  have "rc_parse source \<noteq> Inl ParseFuel"
    by (auto simp: rc_parse_def parse_tokens_ends split: sum.splits prod.splits)
  then show ?thesis by (metis parse_fault.exhaust sum.exhaust)
qed

end
