(* ===== verification/Rc_Fake.thy ===== *)
theory Rc_Fake
  imports Rc_Interp
begin

text \<open>
  The in-memory host \<open>FakeHost\<close> of \<open>crates/star9-rc/src/lib.rs\<close>, on which the crate tests the
  interpreter: a current directory and a map from paths to contents. It is the concrete host at which
  the laws of the interpreter are instantiated.
\<close>

record fake_host =
  fh_cwd :: string
  fh_files :: "(string, bytes) btmap"

definition fake_default :: fake_host where
  "fake_default = \<lparr>fh_cwd = ''.'', fh_files = []\<rparr>"

fun fake_clean_loop :: "string list \<Rightarrow> string list \<Rightarrow> string list" where
  "fake_clean_loop out [] = out"
| "fake_clean_loop out (part # parts) =
     fake_clean_loop
       (if part = [] \<or> part = ''.'' then out else if part = ''..'' then butlast out else out @ [part]) parts"

definition fake_clean :: "string \<Rightarrow> string" where
  "fake_clean path =
     (let out = fake_clean_loop [] (split_on (CHR ''/'') path) in
      if out = [] then ''.'' else join_on (CHR ''/'') out)"

definition fake_resolve :: "fake_host \<Rightarrow> string \<Rightarrow> string" where
  "fake_resolve h path =
     (if path = ''.'' \<or> starts_with path ''#'' then fake_clean path
      else if starts_with path ''/'' then fake_clean (trim_start_char (CHR ''/'') path)
      else if fh_cwd h = ''.'' then fake_clean path
      else fake_clean (fh_cwd h @ ''/'' @ path))"

definition fake_with_file :: "string \<Rightarrow> string \<Rightarrow> fake_host \<Rightarrow> fake_host" where
  "fake_with_file path data h = h\<lparr>fh_files := bt_insert (fake_clean path) (as_bytes data) (fh_files h)\<rparr>"

definition fake_is_dir :: "fake_host \<Rightarrow> string \<Rightarrow> bool" where
  "fake_is_dir h path \<longleftrightarrow> path = ''.'' \<or> list_ex (\<lambda>file. starts_with file (path @ ''/'')) (bt_keys (fh_files h))"

definition fake_set_current_dir :: "string \<Rightarrow> fake_host \<Rightarrow> unit rc_result \<times> fake_host" where
  "fake_set_current_dir path h =
     (let p = fake_resolve h path in
      if fake_is_dir h p then (Inr (), h\<lparr>fh_cwd := p\<rparr>) else (Inl (rc_error_new ''not a directory''), h))"

definition fake_read_file :: "string \<Rightarrow> fake_host \<Rightarrow> bytes rc_result \<times> fake_host" where
  "fake_read_file path h =
     (case bt_get (fh_files h) (fake_resolve h path) of
        Some data \<Rightarrow> (Inr data, h)
      | None \<Rightarrow> (Inl (rc_error_new ''not found''), h))"

definition fake_write_file :: "string \<Rightarrow> bytes \<Rightarrow> fake_host \<Rightarrow> unit rc_result \<times> fake_host" where
  "fake_write_file path data h = (Inr (), h\<lparr>fh_files := bt_insert (fake_resolve h path) data (fh_files h)\<rparr>)"

definition fake_append_file :: "string \<Rightarrow> bytes \<Rightarrow> fake_host \<Rightarrow> unit rc_result \<times> fake_host" where
  "fake_append_file path data h =
     (let p = fake_resolve h path in
      (Inr (), h\<lparr>fh_files := bt_insert p
         ((case bt_get (fh_files h) p of Some old \<Rightarrow> old | None \<Rightarrow> []) @ data) (fh_files h)\<rparr>))"

definition fake_entry :: "string \<Rightarrow> string \<Rightarrow> string option" where
  "fake_entry prefix file =
     (case strip_prefix prefix file of
        None \<Rightarrow> None
      | Some rest \<Rightarrow> Some (case split_once (CHR ''/'') rest of Some (dir, _) \<Rightarrow> dir @ ''/'' | None \<Rightarrow> rest))"

definition fake_read_dir :: "string \<Rightarrow> fake_host \<Rightarrow> string list rc_result \<times> fake_host" where
  "fake_read_dir path h =
     (let p = fake_resolve h path; prefix = (if p = ''.'' then [] else p @ ''/'') in
      (Inr (bt_keys (fold (\<lambda>file entries. case fake_entry prefix file of Some e \<Rightarrow> bs_insert e entries | None \<Rightarrow> entries)
         (bt_keys (fh_files h)) [])), h))"

definition fake_stat :: "string \<Rightarrow> fake_host \<Rightarrow> rc_stat rc_result \<times> fake_host" where
  "fake_stat path h = (Inr \<lparr>rs_is_dir = fake_is_dir h (fake_resolve h path)\<rparr>, h)"

definition char_upper :: "char \<Rightarrow> char" where
  "char_upper c = (if 97 \<le> (of_char c :: nat) \<and> (of_char c :: nat) \<le> 122 then char_of ((of_char c :: nat) - 32) else c)"

definition fake_run_command :: "rc_command_invocation \<Rightarrow> fake_host \<Rightarrow> rc_command_result rc_result \<times> fake_host" where
  "fake_run_command cmd h =
     (if ci_name cmd = ''upper'' then
        (Inr \<lparr>cr_status = status_success, cr_stdout = map char_upper (ci_stdin cmd), cr_stderr = []\<rparr>, h)
      else if ci_name cmd = ''argv'' then
        (Inr \<lparr>cr_status = status_success, cr_stdout = join_str '','' (ci_args cmd) @ [nl], cr_stderr = []\<rparr>, h)
      else (Inl (rc_error_new ''command not found''), h))"

definition fake_rfork :: "rc_rfork_spec \<Rightarrow> fake_host \<Rightarrow> rc_rfork_outcome rc_result \<times> fake_host" where
  "fake_rfork spec h =
     (Inr \<lparr>ro_environment = rfork_environment_outcome (rf_environment spec)\<rparr>,
      if rf_namespace spec = RforkClean then \<lparr>fh_cwd = ''.'', fh_files = []\<rparr> else h)"

definition fake_ops :: "fake_host rc_host" where
  "fake_ops =
     (default_host fh_cwd fake_set_current_dir fake_read_file fake_write_file fake_append_file fake_read_dir fake_stat
        fake_run_command)\<lparr>h_rfork := fake_rfork\<rparr>"

definition fake_session :: "fake_host \<Rightarrow> fake_host rc_session" where
  "fake_session h = (case session_new fake_ops h of Some s \<Rightarrow> s | None \<Rightarrow> session_state h)"

end
