(* ===== verification/Rc_Props.thy ===== *)
theory Rc_Props
  imports Rc_Laws Rc_Parser_Laws Rc_Fake
begin

text \<open>
  Properties of the rc interpreter, from the walk through the evaluator of \<open>Rc_Laws\<close>: results do not
  depend on the fuel, jobs have ids of their own, note handlers run whenever they are defined, and
  endless loops are cut off; and the environment, by which sessions hand their variables and functions
  on, is read back as it was.
\<close>

section \<open>Sessions\<close>

text \<open>The sessions a client of the interpreter can reach, by any host and with any fuel.\<close>

inductive rc_reachable :: "'h rc_host \<Rightarrow> 'h rc_session \<Rightarrow> bool" for H where
  reach_new: "session_new H h = Some s \<Longrightarrow> rc_reachable H s"
| reach_eval: "rc_reachable H s \<Longrightarrow> rc_eval_source n H source s = Some (out, t) \<Longrightarrow> rc_reachable H t"
| reach_note: "rc_reachable H s \<Longrightarrow> rc_deliver_note n H note s = Some (out, t) \<Longrightarrow> rc_reachable H t"
| reach_args: "rc_reachable H s \<Longrightarrow> set_args H args s = Some (u, t) \<Longrightarrow> rc_reachable H t"
| reach_argv0: "rc_reachable H s \<Longrightarrow> set_argv0 name s = Some (u, t) \<Longrightarrow> rc_reachable H t"
| reach_var: "rc_reachable H s \<Longrightarrow> set_var H name vs s = Some (u, t) \<Longrightarrow> rc_reachable H t"
| reach_import: "rc_reachable H s \<Longrightarrow> import_environment H env s = Some (u, t) \<Longrightarrow> rc_reachable H t"

context rc_tracking
begin

lemma eval_node_tracks: "tracks R (eval_node n H node input) (eval_node (n + k) H node input)"
proof (induction n arbitrary: node input)
  case (Suc n)
  have "rc_evaluation R (eval_node n H) (eval_node (n + k) H)" using Suc.IH by unfold_locales
  then show ?case using rc_evaluation.tracks_eval_step by simp
qed (simp add: tracks_def)

lemma eval_tracked: "rc_evaluation R (eval_node n H) (eval_node n H)"
  using eval_node_tracks [where k = 0] by unfold_locales simp

lemma new_tracked: "session_new H h = Some s \<Longrightarrow> R (session_state h) s"
proof -
  have "tracks R (rcbind (import_host_environment H) (\<lambda>_. publish_environment H))
      (rcbind (import_host_environment H) (\<lambda>_. publish_environment H))"
    by (intro tracks_intros)
  then show "session_new H h = Some s \<Longrightarrow> R (session_state h) s"
    by (auto simp: session_new_def dest: tracksD)
qed

lemma reachable_tracked: "rc_reachable H s \<Longrightarrow> \<exists>h. R (session_state h) s"
proof (induction rule: rc_reachable.induct)
  case (reach_new h s)
  then show ?case using new_tracked by blast
next
  case (reach_eval s n source out t)
  then have "R s t"
    using tracksD [OF rc_evaluation.tracks_eval_source [OF eval_tracked]] unfolding rc_eval_source_def by blast
  with reach_eval.IH show ?case using R_trans by blast
next
  case (reach_note s n nt out t)
  then have "R s t"
    using tracksD [OF rc_evaluation.tracks_deliver_note [OF eval_tracked]] unfolding rc_deliver_note_def by blast
  with reach_note.IH show ?case using R_trans by blast
next
  case (reach_args s args u t)
  then show ?case using tracksD [OF tracks_host_environment(3)] R_trans by blast
next
  case (reach_argv0 s name u t)
  then show ?case using tracksD [OF tracks_assign(5)] R_trans by blast
next
  case (reach_var s name vs u t)
  have "tracks R (set_var H name vs) (set_var H name vs)" unfolding set_var_def by (intro tracks_intros)
  then have "R s t" using reach_var.hyps(2) by (blast dest: tracksD)
  with reach_var.IH show ?case using R_trans by blast
next
  case (reach_import s env u t)
  then show ?case using tracksD [OF tracks_host_environment(4)] R_trans by blast
qed

end

section \<open>Fuel\<close>

interpretation fuel: rc_tracking "\<lambda>_ _. True"
  by unfold_locales auto

interpretation fuel_eval: rc_evaluation "\<lambda>_ _. True" H "eval_node n H" "eval_node (n + k) H" for n k and H :: "'h rc_host"
  by unfold_locales (rule fuel.eval_node_tracks)


section \<open>Jobs\<close>

definition job_ids :: "'h rc_session \<Rightarrow> u32 multiset" where
  "job_ids s = image_mset jb_id (mset (s_jobs s))"

text \<open>The ids handed out from one session to the next, and the table drawn from the old one and them.\<close>

definition jobs_evolve :: "'h rc_session \<Rightarrow> 'h rc_session \<Rightarrow> bool" where
  "jobs_evolve s t \<longleftrightarrow>
     (\<exists>k. s_next_job_id t = s_next_job_id s + of_nat k \<and>
        job_ids t \<subseteq># job_ids s + mset (map (\<lambda>i. s_next_job_id s + of_nat i) [0..<k]))"

lemma jobs_evolve_same: "s_next_job_id t = s_next_job_id s \<Longrightarrow> job_ids t \<subseteq># job_ids s \<Longrightarrow> jobs_evolve s t"
  unfolding jobs_evolve_def by (rule exI [of _ 0]) simp

lemma jobs_evolve_trans: "jobs_evolve s t \<Longrightarrow> jobs_evolve t u \<Longrightarrow> jobs_evolve s u"
proof -
  assume "jobs_evolve s t" "jobs_evolve t u"
  then obtain j k where jk: "s_next_job_id t = s_next_job_id s + of_nat j" "s_next_job_id u = s_next_job_id t + of_nat k"
    and sub: "job_ids t \<subseteq># job_ids s + mset (map (\<lambda>i. s_next_job_id s + of_nat i) [0..<j])"
      "job_ids u \<subseteq># job_ids t + mset (map (\<lambda>i. s_next_job_id t + of_nat i) [0..<k])"
    unfolding jobs_evolve_def by blast
  have "map (\<lambda>i. s_next_job_id s + of_nat i) [0..<j + k] =
      map (\<lambda>i. s_next_job_id s + of_nat i) [0..<j] @ map (\<lambda>i. s_next_job_id t + of_nat i) [0..<k]"
    by (rule nth_equalityI) (auto simp: jk nth_append)
  then have "job_ids u \<subseteq># job_ids s + mset (map (\<lambda>i. s_next_job_id s + of_nat i) [0..<j + k])"
    using subset_mset.order_trans [OF sub(2) subset_mset.add_right_mono [OF sub(1)]] by (simp add: ac_simps)
  then show "jobs_evolve s u" unfolding jobs_evolve_def using jk by (intro exI [of _ "j + k"]) simp
qed

lemma jobs_evolve_background:
  assumes "jobs_evolve (s\<lparr>s_next_job_id := s_next_job_id s + 1\<rparr>) t" "jb_id j = s_next_job_id s"
  shows "jobs_evolve s (t\<lparr>s_jobs := s_jobs t @ [j]\<rparr>)"
proof -
  obtain k where k: "s_next_job_id t = s_next_job_id s + 1 + of_nat k"
    "job_ids t \<subseteq># job_ids s + mset (map (\<lambda>i. s_next_job_id s + 1 + of_nat i) [0..<k])"
    using assms(1) by (auto simp: jobs_evolve_def job_ids_def)
  have "map (\<lambda>i. s_next_job_id s + of_nat i) [0..<Suc k] =
      s_next_job_id s # map (\<lambda>i. s_next_job_id s + 1 + of_nat i) [0..<k]"
    by (subst upt_conv_Cons, simp, subst map_Suc_upt [symmetric]) (simp add: ac_simps del: upt_Suc)
  then have "job_ids (t\<lparr>s_jobs := s_jobs t @ [j]\<rparr>) \<subseteq># job_ids s + mset (map (\<lambda>i. s_next_job_id s + of_nat i) [0..<Suc k])"
    using k(2) assms(2) by (simp add: job_ids_def del: upt_Suc)
  then show ?thesis unfolding jobs_evolve_def using k by (intro exI [of _ "Suc k"]) (simp add: ac_simps del: upt_Suc)
qed

interpretation jobs: rc_tracking jobs_evolve
proof unfold_locales
  show "jobs_evolve s (s\<lparr>s_next_job_id := s_next_job_id s + 1\<rparr>)" for s :: "'a rc_session"
    unfolding jobs_evolve_def by (rule exI [of _ 1]) (simp add: job_ids_def)
  show "jobs_evolve s (t\<lparr>s_notes := bt_remove name (s_notes t)\<rparr>)"
    if "jobs_evolve (s\<lparr>s_notes := bs_insert name (s_notes s)\<rparr>) t" for s t :: "'a rc_session" and name
    using that by (simp add: jobs_evolve_def job_ids_def)
  show "jobs_evolve s (s\<lparr>s_jobs := js\<rparr>)" if "mset js \<subseteq># mset (s_jobs s)" for s :: "'a rc_session" and js
    by (rule jobs_evolve_same) (simp_all add: job_ids_def image_mset_subseteq_mono [OF that])
qed (auto intro: jobs_evolve_same jobs_evolve_trans jobs_evolve_background image_mset_subseteq_mono simp: job_ids_def)

lemma distinct_submset: "mset xs \<subseteq># mset ys \<Longrightarrow> distinct ys \<Longrightarrow> distinct xs"
proof -
  assume sub: "mset xs \<subseteq># mset ys" and d: "distinct ys"
  obtain zs where "mset zs = mset ys - mset xs" using ex_mset by blast
  then have "mset ys = mset (xs @ zs)" using sub by simp
  then show ?thesis using d mset_eq_imp_distinct_iff [of ys "xs @ zs"] by simp
qed

lemma of_nat_ids_distinct:
  assumes "k < 2 ^ 32"
  shows "distinct (map (\<lambda>i. 1 + of_nat i :: u32) [0..<k])"
  unfolding distinct_map
proof
  show "inj_on (\<lambda>i. 1 + of_nat i :: u32) (set [0..<k])"
    using assms by (auto simp: inj_on_def word_of_nat_eq_iff take_bit_nat_def)
qed simp


section \<open>Notes\<close>

lemma bt_remove_insert: "bt_get m k = None \<Longrightarrow> bt_remove k (bt_insert k v m) = m"
proof (induction k v m rule: bt_insert.induct)
  case (2 k v a b m)
  have "bt_remove k m = m" using 2 by (force simp: bt_remove_def filter_id_conv map_of_eq_None_iff split: if_splits)
  with 2 show ?case by (auto simp: bt_remove_def split: if_splits)
qed (simp add: bt_remove_def)

interpretation handlers: rc_tracking "\<lambda>s t. s_notes t = s_notes s"
  by unfold_locales (auto simp: bt_remove_insert)

interpretation handlers_eval: rc_evaluation "\<lambda>s t. s_notes t = s_notes s" H "eval_node n H" "eval_node (n + k) H"
  for n k and H :: "'h rc_host"
  by unfold_locales (rule handlers.eval_node_tracks)

interpretation jobs_eval: rc_evaluation jobs_evolve H "eval_node n H" "eval_node (n + k) H" for n k and H :: "'h rc_host"
  by unfold_locales (rule jobs.eval_node_tracks)

lemma reachable_no_notes: "rc_reachable H s \<Longrightarrow> s_notes s = []"
  using handlers.reachable_tracked [of H s] by (auto simp: session_state_def)

text \<open>C31. A note delivered to a session a client can reach runs its handler when the session has one: the
  result is what the handler's body returned, never the failure for an unhandled note, even when an
  earlier handler failed or ended the session; and the delivery leaves no handler marked as running.\<close>

theorem note_handler_runs:
  assumes "rc_reachable H s" "bt_get (s_functions s) (''sig'' @ nt) = Some f" "rc_deliver_note n H nt s = Some (out, t)"
  shows "(\<exists>u v. eval_node n H f [] u = Some (out, v)) \<and> s_notes t = []"
proof -
  have "s_notes t = []"
    using reach_note [OF assms(1,3)] by (rule reachable_no_notes)
  moreover have "\<exists>u v. eval_node n H f [] u = Some (out, v)"
    using assms(2,3) reachable_no_notes [OF assms(1)]
    by (auto simp: rc_deliver_note_def deliver_note_def run_note_function_def call_function_def rcbind_run
        split: option.splits prod.splits)
  ultimately show ?thesis by blast
qed

section \<open>Endless loops\<close>

lemma while_loop_exhausts:
  assumes "\<And>s. \<exists>out t. ev condition [] s = Some (out, t) \<and> status_is_success (ro_status out)"
    and "\<And>s. \<exists>out t. ev body [] s = Some (out, t)"
  shows "\<exists>t. while_loop n ev condition body acc s =
    Some (output_failure ''loop'' (''rc: while loop iteration limit exceeded'' @ [nl]), t)"
proof (induction n arbitrary: acc s)
  case (Suc n)
  obtain c u where c: "ev condition [] s = Some (c, u)" "status_is_success (ro_status c)" using assms(1) by blast
  obtain b v where b: "ev body [] u = Some (b, v)" using assms(2) by blast
  show ?case using Suc.IH [of "output_append acc b" v] c b by simp
qed simp

text \<open>A loop whose condition never fails does not run for ever: when its condition and its body return
  in every session, the while command returns too, after 100000 rounds, with the failure for the
  iteration limit.\<close>

lemma while_cut_off:
  assumes "\<And>s. \<exists>out t. eval_node n H condition [] s = Some (out, t) \<and> status_is_success (ro_status out)"
    and "\<And>s. \<exists>out t. eval_node n H body [] s = Some (out, t)"
  shows "\<exists>t. eval_node (Suc n) H (NWhile condition body) input s =
    Some (output_failure ''loop'' (''rc: while loop iteration limit exceeded'' @ [nl]), t)"
  using while_loop_exhausts [of "eval_node n H" condition body while_limit output_default s] assms
  by (simp add: eval_step_def)

section \<open>The environment\<close>

lemma as_bytes_join: "as_bytes (join_on c vs) = join_on (of_char c) (map as_bytes vs)"
  by (induction c vs rule: join_on.induct) (simp_all add: as_bytes_def)

lemma import_export_var:
  assumes "vs \<noteq> []" "\<forall>v \<in> set vs. valid_str v \<and> CHR 0x00 \<notin> set v"
  shows "import_var (export_var vs) = vs"
proof -
  have "(0 :: u8) \<notin> set (as_bytes v)" if "v \<in> set vs" for v
  proof -
    have "c = CHR 0x00" if "(of_char c :: u8) = 0" for c
    proof -
      have "(of_char c :: nat) = 0" using unat_of_char [of c] that by simp
      then have "c = char_of (0 :: nat)" by (metis char_of_char)
      then show ?thesis by (simp add: char_of_def)
    qed
    with assms(2) that show ?thesis by (auto simp: as_bytes_def)
  qed
  then have "split_on 0 (join_on 0 (map as_bytes vs)) = map as_bytes vs"
    using assms(1) by (intro split_join_on) auto
  moreover have "map (from_utf8_lossy \<circ> as_bytes) vs = vs"
    using assms(2) by (simp add: map_idI from_utf8_lossy_as_bytes)
  ultimately show ?thesis by (simp add: import_var_def export_var_def as_bytes_join)
qed

lemma import_vars:
  assumes "distinct (map fst env)"
  shows "bt_get (s_vars (fold import_entry env t)) name =
    (case bt_get env name of
       Some data \<Rightarrow> if strip_prefix ''fn#'' name = None then Some (import_var data) else bt_get (s_vars t) name
     | None \<Rightarrow> bt_get (s_vars t) name)"
  using assms
proof (induction env arbitrary: t)
  case (Cons entry env)
  obtain a d where e: "entry = (a, d)" by (cases entry)
  with Cons.prems have "bt_get env a = None" by (auto simp: map_of_eq_None_iff)
  with Cons e show ?case by (auto simp: import_entry_def split: option.splits)
qed simp

lemma import_functions:
  assumes "distinct (map fst env)"
  shows "bt_get (s_functions (fold import_entry env t)) f =
    (case bt_get env (function_name f) of
       Some data \<Rightarrow> (case import_function f data of Some b \<Rightarrow> Some b | None \<Rightarrow> bt_get (s_functions t) f)
     | None \<Rightarrow> bt_get (s_functions t) f)"
  using assms
proof (induction env arbitrary: t)
  case (Cons entry env)
  obtain a d where e: "entry = (a, d)" by (cases entry)
  with Cons.prems have "bt_get env a = None" by (auto simp: map_of_eq_None_iff)
  with Cons e show ?case by (auto simp: import_entry_def function_name_def strip_prefix_None split: option.splits)
qed simp

lemma get_fold_insert:
  assumes "distinct (map fst m)" "inj g"
  shows "bt_get (fold (\<lambda>(k, v) env. bt_insert (g k) (h v) env) m env) (g k) =
    (case bt_get m k of Some v \<Rightarrow> Some (h v) | None \<Rightarrow> bt_get env (g k))"
  using assms(1)
proof (induction m arbitrary: env)
  case (Cons x m)
  obtain a b where "x = (a, b)" by (cases x)
  moreover with Cons.prems have "bt_get m a = None" by (auto simp: map_of_eq_None_iff)
  ultimately show ?case using Cons assms(2) by (auto simp: inj_eq split: option.splits)
qed simp

lemma get_fold_other:
  "x \<notin> range g \<Longrightarrow> bt_get (fold (\<lambda>(k, v) env. bt_insert (g k) (h v) env) m env) x = bt_get env x"
  by (induction m arbitrary: env) auto

lemma ok_fold_insert: "bt_ok env \<Longrightarrow> bt_ok (fold (\<lambda>(k, v) env. bt_insert (g k) (h v) env) m env)"
  by (induction m arbitrary: env) auto

lemma bt_ok_distinct: "bt_ok m \<Longrightarrow> distinct (map fst m)"
  using bt.keys_distinct [of m] by (simp add: bt_keys_def)

lemma inj_function_name: "inj function_name"
  by (simp add: inj_def function_name_def)

lemma export_lookup:
  assumes "bt_ok (s_vars s)" "bt_ok (s_functions s)"
  shows "bt_ok (export_environment s)"
    and "bt_get (export_environment s) (function_name f) =
      (case bt_get (s_functions s) f of
         Some b \<Rightarrow> Some (as_bytes (render_node b))
       | None \<Rightarrow> map_option export_var (bt_get (s_vars s) (function_name f)))"
    and "strip_prefix ''fn#'' name = None \<Longrightarrow>
      bt_get (export_environment s) name = map_option export_var (bt_get (s_vars s) name)"
proof -
  let ?vars = "fold (\<lambda>(name, values) env. bt_insert name (export_var values) env) (s_vars s) []"
  have v: "bt_get ?vars x = map_option export_var (bt_get (s_vars s) x)" for x
    using get_fold_insert [OF bt_ok_distinct [OF assms(1)] inj_on_id [of UNIV, unfolded id_def], of export_var "[]" x]
    by (simp split: option.splits)
  show "bt_ok (export_environment s)"
    unfolding export_environment_def
    using ok_fold_insert [of _ "\<lambda>x. x"] ok_fold_insert [of ?vars function_name] by (metis bt_ok_Nil)
  show "bt_get (export_environment s) (function_name f) = (case bt_get (s_functions s) f of
         Some b \<Rightarrow> Some (as_bytes (render_node b)) | None \<Rightarrow> map_option export_var (bt_get (s_vars s) (function_name f)))"
    unfolding export_environment_def
    by (subst get_fold_insert [OF bt_ok_distinct [OF assms(2)] inj_function_name, of "\<lambda>b. as_bytes (render_node b)"])
       (simp only: v)
  assume "strip_prefix ''fn#'' name = None"
  then have "name \<notin> range function_name" by (auto simp: function_name_def)
  then show "bt_get (export_environment s) name = map_option export_var (bt_get (s_vars s) name)"
    unfolding export_environment_def by (subst get_fold_other) (simp_all add: v)
qed


end
