(* ===== verification/Rc_Types.thy ===== *)
theory Rc_Types
  imports Rc_Parser
begin

text \<open>
  The shape of the trees the rc parser builds, which the evaluator relies on: words are not empty,
  conditions are sequences, function bodies are blocks, simple commands are not empty, and each
  redirection has the target its operator needs. \<open>makes Q m\<close> says of a parser \<open>m\<close> that every result has
  \<open>Q\<close> when the tokens are those of the lexer.
\<close>

section \<open>Well-formed trees\<close>

definition word_ok :: "rc_word \<Rightarrow> bool" where
  "word_ok w \<longleftrightarrow> w_raw w \<noteq> []"

definition assignment_ok :: "assignment \<Rightarrow> bool" where
  "assignment_ok a \<longleftrightarrow> is_name (as_name a) \<and> list_all word_ok (as_values a)"

fun is_sequence :: "node \<Rightarrow> bool" where
  "is_sequence (NSequence _) = True"
| "is_sequence _ = False"

fun is_block :: "node \<Rightarrow> bool" where
  "is_block (NBlock _) = True"
| "is_block _ = False"

definition mode_target_ok :: "redirect_mode \<Rightarrow> redirect_target option \<Rightarrow> bool" where
  "mode_target_ok mode target =
     (case mode of
        ModeDup _ \<Rightarrow> target = None
      | ModeHere \<Rightarrow> (case target of Some (TargetWord _) \<Rightarrow> True | Some (TargetHereDoc _) \<Rightarrow> True | _ \<Rightarrow> False)
      | _ \<Rightarrow> (case target of Some (TargetWord _) \<Rightarrow> True | Some (TargetProcess n) \<Rightarrow> is_block n | _ \<Rightarrow> False))"

fun node_ok :: "node \<Rightarrow> bool"
  and simple_ok :: "simple_command \<Rightarrow> bool"
  and case_ok :: "switch_case \<Rightarrow> bool"
  and target_ok :: "redirect_target \<Rightarrow> bool"
  and redirect_ok :: "redirect \<Rightarrow> bool" where
  "node_ok NEmpty = True"
| "node_ok (NSimple simple) = simple_ok simple"
| "node_ok (NBlock nodes) = list_all node_ok nodes"
| "node_ok (NSequence nodes) = list_all node_ok nodes"
| "node_ok (NAnd left right) = (node_ok left \<and> node_ok right)"
| "node_ok (NOr left right) = (node_ok left \<and> node_ok right)"
| "node_ok (NPipe left right spec) = (node_ok left \<and> node_ok right)"
| "node_ok (NNot inner) = node_ok inner"
| "node_ok (NBackground inner) = node_ok inner"
| "node_ok (NIf condition then_branch else_branch) =
     (is_sequence condition \<and> node_ok condition \<and> node_ok then_branch \<and>
      (case else_branch of None \<Rightarrow> True | Some e \<Rightarrow> node_ok e))"
| "node_ok (NFor var ws body) = (var \<noteq> [] \<and> list_all word_ok ws \<and> node_ok body)"
| "node_ok (NWhile condition body) = (is_sequence condition \<and> node_ok condition \<and> node_ok body)"
| "node_ok (NSwitch value cases) = (word_ok value \<and> list_all case_ok cases)"
| "node_ok (NFunction name body) =
     (name \<noteq> [] \<and> (case body of None \<Rightarrow> True | Some b \<Rightarrow> is_block b \<and> node_ok b))"
| "simple_ok (SimpleCommand as ws rs) =
     (list_all assignment_ok as \<and> list_all word_ok ws \<and> list_all redirect_ok rs \<and> \<not> (as = [] \<and> ws = [] \<and> rs = []))"
| "case_ok (SwitchCase patterns body) = (list_all word_ok patterns \<and> list_all node_ok body)"
| "target_ok (TargetWord w) = word_ok w"
| "target_ok (TargetProcess node) = node_ok node"
| "target_ok (TargetHereDoc doc) = True"
| "redirect_ok (Redirect fd mode target) =
     (mode_target_ok mode target \<and> (case target of None \<Rightarrow> True | Some t \<Rightarrow> target_ok t))"

section \<open>Parsers that make them\<close>

definition kind_ok :: "token_kind option \<Rightarrow> bool" where
  "kind_ok k \<longleftrightarrow> k \<noteq> Some (KWord [])"

definition tokens_ok :: "token list \<Rightarrow> bool" where
  "tokens_ok ts \<longleftrightarrow> list_all (\<lambda>t. kind_ok (Some (tk_kind t))) ts"

definition makes :: "('a \<Rightarrow> bool) \<Rightarrow> 'a parse \<Rightarrow> bool" where
  "makes Q m \<longleftrightarrow>
     (\<forall>st x st'. tokens_ok (ps_tokens st) \<longrightarrow> m st = Inr (x, st') \<longrightarrow> Q x \<and> tokens_ok (ps_tokens st'))"

abbreviation whatever :: "'a \<Rightarrow> bool" where
  "whatever \<equiv> \<lambda>_. True"

named_theorems makes_intros

lemma makes_bind:
  assumes "makes P m" "\<And>x. P x \<Longrightarrow> makes Q (f x)"
  shows "makes Q (pbind m f)"
  unfolding makes_def
proof (intro allI impI)
  fix st x st' assume st: "tokens_ok (ps_tokens st)" and r: "pbind m f st = Inr (x, st')"
  then obtain y u where "m st = Inr (y, u)" "f y u = Inr (x, st')" by (auto simp: pbind_def split: sum.splits)
  with st assms show "Q x \<and> tokens_ok (ps_tokens st')" unfolding makes_def by blast
qed

lemma makes_peeking [makes_intros]: "(\<And>k. kind_ok k \<Longrightarrow> makes Q (f k)) \<Longrightarrow> makes Q (peeking f)"
proof -
  assume f: "\<And>k. kind_ok k \<Longrightarrow> makes Q (f k)"
  have "kind_ok (peek_kind st)" if "tokens_ok (ps_tokens st)" for st
    using that by (auto simp: peek_kind_def tokens_ok_def kind_ok_def split: list.splits)
  with f show ?thesis by (fastforce simp: makes_def peeking_def)
qed

lemma makes_pret: "Q x \<Longrightarrow> makes Q (pret x)"
  by (simp add: makes_def pret_def)

lemma makes_fail [makes_intros]: "makes Q (pfail e)" "makes Q (perr message)"
  by (simp_all add: makes_def pfail_def perr_def)

lemma makes_if [makes_intros]: "(b \<Longrightarrow> makes Q m) \<Longrightarrow> (\<not> b \<Longrightarrow> makes Q n) \<Longrightarrow> makes Q (if b then m else n)"
  by simp

lemma tokens_ok_tl: "tokens_ok ts \<Longrightarrow> tokens_ok (tl ts)"
  by (cases ts) (simp_all add: tokens_ok_def)

lemma tokens_ok_dropWhile: "tokens_ok ts \<Longrightarrow> tokens_ok (dropWhile P ts)"
  by (induction ts) (simp_all add: tokens_ok_def)

lemma makes_steps: "makes whatever advance" "makes whatever skip_separators" "makes whatever (expect_symbol k l)"
  by (auto simp: makes_def advance_def skip_separators_def expect_symbol_def tokens_ok_tl tokens_ok_dropWhile
      simp del: list.sel split: list.splits if_splits)

lemmas makes_after_step [makes_intros] = makes_steps [THEN makes_bind, simplified]

lemma makes_after_brace [makes_intros]:
  "(\<And>x. makes Q (f x)) \<Longrightarrow> makes Q (pbind expect_lbrace f)" "(\<And>x. makes Q (f x)) \<Longrightarrow> makes Q (pbind expect_rbrace f)"
  "(\<And>x. makes Q (f x)) \<Longrightarrow> makes Q (pbind expect_lparen f)" "(\<And>x. makes Q (f x)) \<Longrightarrow> makes Q (pbind expect_rparen f)"
  by (simp_all add: expect_lbrace_def expect_rbrace_def expect_lparen_def expect_rparen_def makes_after_step)

lemma makes_word_steps:
  "makes whatever (expect_word w)" "makes whatever (match_word w)" "makes whatever consume_separator"
  unfolding expect_word_def match_word_def consume_separator_def
  by (auto intro!: makes_intros makes_pret makes_steps)

lemmas makes_after_word [makes_intros] = makes_word_steps [THEN makes_bind, simplified]

lemma makes_any_word: "makes (\<lambda>w. w \<noteq> []) expect_any_word"
  unfolding expect_any_word_def
  by (rule makes_peeking) (auto simp: kind_ok_def intro!: makes_intros makes_pret split: option.splits token_kind.splits)

lemmas makes_after_any_word [makes_intros] = makes_any_word [THEN makes_bind]

lemma word_ok_new: "s \<noteq> [] \<Longrightarrow> word_ok (word_new s)"
  by (simp add: word_ok_def word_new_def)

lemma assignment_ok_new: "is_name name \<Longrightarrow> list_all word_ok vs \<Longrightarrow> assignment_ok \<lparr>as_name = name, as_values = vs\<rparr>"
  by (simp add: assignment_ok_def)

lemma makes_word_list: "list_all word_ok ws \<Longrightarrow> makes (list_all word_ok) (word_list n until ws)"
proof (induction n arbitrary: ws)
  case (Suc n)
  then show ?case by (auto intro!: makes_intros makes_pret simp: word_ok_new)
qed (simp add: makes_intros)

lemma makes_unary: "makes node_ok command \<Longrightarrow> makes node_ok (parse_unary n command)"
  by (induction n) (auto intro!: makes_intros makes_pret makes_bind [of node_ok "parse_unary _ command"])

lemma makes_pipe_loop: "makes node_ok unary \<Longrightarrow> node_ok left \<Longrightarrow> makes node_ok (pipe_loop n unary left)"
  by (induction n arbitrary: left)
     (auto intro!: makes_intros makes_pret makes_bind [of node_ok unary] split: option.splits token_kind.splits)

lemma makes_and_or_loop: "makes node_ok pipeline \<Longrightarrow> node_ok left \<Longrightarrow> makes node_ok (and_or_loop n pipeline left)"
  by (induction n arbitrary: left) (auto intro!: makes_intros makes_pret makes_bind [of node_ok pipeline])

lemma makes_and_or: "makes node_ok command \<Longrightarrow> makes node_ok (parse_and_or n command)"
  unfolding parse_and_or_def parse_pipeline_def
  by (intro makes_bind [of node_ok] makes_and_or_loop makes_pipe_loop makes_unary)

lemma makes_must_progress: "makes Q m \<Longrightarrow> makes Q (must_progress m)"
  unfolding makes_def must_progress_def by (fastforce split: sum.splits if_splits list.splits)

lemma makes_background: "node_ok x \<Longrightarrow> makes node_ok (background x)"
  unfolding background_def by (auto intro!: makes_intros makes_pret)

lemma makes_sequence_loop:
  "makes node_ok and_or \<Longrightarrow> list_all node_ok nodes \<Longrightarrow> makes (list_all node_ok) (sequence_loop n and_or stop nodes)"
proof (induction n arbitrary: nodes)
  case (Suc n)
  have step: "makes node_ok (pbind (must_progress and_or) background)"
    using Suc.prems(1) by (intro makes_bind [of node_ok] makes_must_progress makes_background)
  show ?case
    unfolding sequence_loop.simps
    by (rule makes_peeking)
       (auto intro!: makes_bind [OF step] makes_intros makes_pret Suc.IH Suc.prems split: option.splits)
qed (simp add: makes_intros)

lemma makes_sequence: "makes node_ok command \<Longrightarrow> makes (list_all node_ok) (parse_sequence_until n command stop)"
  unfolding parse_sequence_until_def by (auto intro!: makes_intros makes_sequence_loop makes_and_or)

section \<open>Commands\<close>

locale well_formed_command =
  fixes command :: "node parse"
  assumes command: "makes node_ok command"
begin

lemmas makes_body = makes_bind [OF makes_sequence [OF command]]
lemmas makes_inner = makes_intros makes_pret makes_body makes_bind [OF command] makes_bind [OF makes_word_list]

lemma makes_block: "makes (\<lambda>x. is_block x \<and> node_ok x) (parse_block m command)"
  unfolding parse_block_def by (auto intro!: makes_inner)

lemma makes_paren_group: "makes node_ok (parse_paren_group m command)"
  unfolding parse_paren_group_def by (auto intro!: makes_inner)

lemma makes_condition: "makes (\<lambda>x. is_sequence x \<and> node_ok x) (parse_condition m command w)"
  unfolding parse_condition_def by (auto intro!: makes_inner)

lemma makes_else: "makes (\<lambda>x. case x of None \<Rightarrow> True | Some e \<Rightarrow> node_ok e) (parse_else command)"
proof -
  have q: "makes (\<lambda>x. case x of None \<Rightarrow> True | Some e \<Rightarrow> node_ok e)
      (pbind skip_separators (\<lambda>_. pbind command (\<lambda>x. pret (Some x))))"
    by (auto intro!: makes_inner)
  define q where "q = pbind skip_separators (\<lambda>_. pbind command (\<lambda>x. pret (Some x)))"
  have q': "makes (\<lambda>x. case x of None \<Rightarrow> True | Some e \<Rightarrow> node_ok e) q" using q by (simp add: q_def)
  have "(case x of None \<Rightarrow> True | Some e \<Rightarrow> node_ok e) \<and> tokens_ok (ps_tokens st')"
    if st: "tokens_ok (ps_tokens st)" and r: "parse_else command st = Inr (x, st')" for st x st'
  proof -
    define ts where "ts = dropWhile (\<lambda>t. is_separator (Some (tk_kind t))) (ps_tokens st)"
    have "tokens_ok (tl (tl ts))" unfolding ts_def by (intro tokens_ok_tl tokens_ok_dropWhile st)
    then have "tokens_ok (ps_tokens (st\<lparr>ps_tokens := tl (tl ts)\<rparr>))" by simp
    with q' have "(case y of None \<Rightarrow> True | Some e \<Rightarrow> node_ok e) \<and> tokens_ok (ps_tokens u)"
      if "q (st\<lparr>ps_tokens := tl (tl ts)\<rparr>) = Inr (y, u)" for y u using that unfolding makes_def by blast
    with r st show ?thesis
      unfolding parse_else_def q_def [symmetric]
      by (auto simp: pbind_def match_word_def peeking_def skip_separators_def advance_def pret_def ts_def [symmetric]
          split: if_splits)
  qed
  then show ?thesis unfolding makes_def by blast
qed

lemma makes_if_command: "makes node_ok (parse_if m command)"
  unfolding parse_if_def by (auto intro!: makes_bind [OF makes_condition] makes_bind [OF makes_else] makes_inner)

lemma makes_while: "makes node_ok (parse_while m command)"
  unfolding parse_while_def by (auto intro!: makes_bind [OF makes_condition] makes_inner)

lemma makes_for: "makes node_ok (parse_for m command)"
  unfolding parse_for_def
  by (auto intro!: makes_inner makes_bind [of "list_all word_ok" "if _ then _ else _"] makes_word_list)

lemma makes_switch_loop: "list_all case_ok cases \<Longrightarrow> makes (list_all case_ok) (switch_loop j m command cases)"
  by (induction j arbitrary: cases) (auto intro!: makes_inner)

lemma makes_switch: "makes node_ok (parse_switch m command)"
  unfolding parse_switch_def by (auto intro!: makes_inner makes_bind [OF makes_switch_loop] simp: word_ok_new)

lemma makes_function: "makes node_ok (parse_function m command)"
  unfolding parse_function_def by (auto intro!: makes_inner makes_bind [OF makes_block])

lemma makes_redirect_target: "makes (\<lambda>t. redirect_ok (Redirect fd mode t)) (redirect_target m command mode)"
proof -
  have here: "makes (\<lambda>t. redirect_ok (Redirect fd ModeHere (Some t))) (take_here_doc raw)" if "raw \<noteq> []" for raw
    using that by (auto simp: makes_def take_here_doc_def mode_target_ok_def word_ok_new split: option.splits)
  show ?thesis
    unfolding redirect_target_def
    by (cases mode)
       (auto intro!: makes_inner makes_bind [OF makes_block] makes_bind [OF here] simp: mode_target_ok_def word_ok_new
         split: redirect_target.splits)
qed

lemma makes_assignment_values: "makes (list_all word_ok) (assignment_values m suffix)"
  unfolding assignment_values_def by (auto intro!: makes_inner simp: word_ok_new)

lemma makes_simple_loop:
  "list_all assignment_ok as \<Longrightarrow> list_all word_ok ws \<Longrightarrow> list_all redirect_ok rs \<Longrightarrow>
     makes node_ok (simple_loop j m command seen as ws rs)"
proof (induction j arbitrary: seen as ws rs)
  case (Suc j)
  show ?case
    unfolding simple_loop.simps
    by (rule makes_peeking)
       (auto intro!: makes_intros makes_pret makes_bind [OF makes_assignment_values] makes_bind [OF makes_redirect_target]
          Suc.IH Suc.prems simp: kind_ok_def word_ok_new assignment_ok_new parse_assignment_head_def
          split: option.splits token_kind.splits if_splits)
qed (simp add: makes_intros)

end

lemma makes_parse_command: "makes node_ok (parse_command n)"
proof (induction n)
  case (Suc n)
  then have wf: "well_formed_command (parse_command n)" by unfold_locales
  note rules = wf [THEN well_formed_command.makes_block] wf [THEN well_formed_command.makes_paren_group]
    wf [THEN well_formed_command.makes_if_command] wf [THEN well_formed_command.makes_while]
    wf [THEN well_formed_command.makes_for] wf [THEN well_formed_command.makes_switch]
    wf [THEN well_formed_command.makes_function] wf [THEN well_formed_command.makes_simple_loop]
  have "makes node_ok (parse_block m (parse_command n))" for m
    using rules(1) [of m] by (simp add: makes_def)
  then show ?case
    unfolding parse_command.simps parse_simple_def by (intro makes_intros rules(2-)) auto
qed (simp add: makes_intros)

interpretation rc_trees: well_formed_command "parse_command n" for n
  by unfold_locales (rule makes_parse_command)

section \<open>Scripts\<close>

lemma ebind_tokens: "tokens_ok ts \<Longrightarrow> kind_ok (Some k) \<Longrightarrow> tokens_ok (token_new k i j # ts)"
  by (simp add: tokens_ok_def token_new_def)

lemma symbol_not_word: "symbol_at s = Some (k, n) \<Longrightarrow> kind_ok (Some k)"
  by (auto simp: symbol_at_def kind_ok_def split: if_splits)

lemma word_kind_ok: "read_word pos s = Inr (w, r) \<Longrightarrow> kind_ok (Some (KWord w))"
  using read_word_rest by (simp add: kind_ok_def)

lemma lex_tokens_ok: "lex pos b s = Inr ts \<Longrightarrow> tokens_ok ts"
proof (induction pos b s arbitrary: ts rule: lex.induct)
  case (2 pos b c cs)
  consider (blank) "c = CHR '' '' \<or> c = tab \<or> c = cr"
    | (newline) "\<not> (c = CHR '' '' \<or> c = tab \<or> c = cr)" "c = nl"
    | (comment) "\<not> (c = CHR '' '' \<or> c = tab \<or> c = cr)" "c \<noteq> nl" "c = CHR ''#'' \<and> b"
    | (other) "\<not> (c = CHR '' '' \<or> c = tab \<or> c = cr)" "c \<noteq> nl" "\<not> (c = CHR ''#'' \<and> b)"
    by blast
  then show ?case
  proof cases
    case blank
    with "2.prems" have "lex (pos + 1) b cs = Inr ts" unfolding lex.simps(2) by simp
    with 2(1) [OF blank] show ?thesis .
  next
    case newline
    then obtain us where "lex (pos + 1) True cs = Inr us" "ts = token_new KNewline pos (pos + 1) # us"
      using "2.prems" unfolding lex.simps(2) by (auto simp: ebind_Inr)
    with 2(2) [OF newline] show ?thesis by (auto intro!: ebind_tokens simp: kind_ok_def)
  next
    case comment
    with "2.prems" 2(3) [OF comment] show ?thesis unfolding lex.simps(2) by simp
  next
    case other
    note defs = lex.simps(2) [of pos b c cs] if_not_P [OF other(1)] if_not_P [OF other(2)] if_not_P [OF other(3)]
    show ?thesis
    proof (cases "symbol_at (c # cs)")
      case (Some kn)
      then obtain k n us where "kn = (k, n)" "lex (pos + n) False (drop (n - 1) cs) = Inr us" "ts = token_new k pos (pos + n) # us"
        using "2.prems" unfolding defs by (auto simp: ebind_Inr split: prod.splits)
      with 2(7) [OF other Some] Some show ?thesis by (auto intro!: ebind_tokens symbol_not_word)
    next
      case None
      show ?thesis
      proof (cases "c = CHR ''|''")
        case True
        then obtain spec r us i where p: "parse_pipe_spec (pos + 1) cs = Inr (spec, r)" "i = pos + 1 + (length cs - length r)"
          "lex i False r = Inr us" "ts = token_new (KPipe spec) pos i # us"
          using "2.prems" None unfolding defs by (auto simp: ebind_Inr Let_def split: sum.splits)
        with 2(4) [OF other None True p(1) refl p(2,3)] show ?thesis
          by (auto intro!: ebind_tokens simp: kind_ok_def)
      next
        case pipe: False
        show ?thesis
        proof (cases "c = CHR ''<'' \<or> c = CHR ''>''")
          case True
          obtain op r where p: "parse_redirect pos (c # cs) = Inr (op, r)"
            using "2.prems" None pipe True unfolding defs by (cases "parse_redirect pos (c # cs)") auto
          obtain us where us: "lex (pos + (length (c # cs) - length r)) False r = Inr us"
            "ts = token_new (KRedirect op) pos (pos + (length (c # cs) - length r)) # us"
            using "2.prems" None pipe True p unfolding defs by (auto simp: ebind_Inr Let_def)
          with 2(5) [OF other None pipe True p refl refl us(1)] us show ?thesis
            by (auto intro!: ebind_tokens simp: kind_ok_def)
        next
          case False
          then obtain w r us i where w: "read_word pos (c # cs) = Inr (w, r)" "i = pos + length w"
            "lex i False r = Inr us" "ts = token_new (KWord w) pos i # us"
            using "2.prems" None pipe unfolding defs by (auto simp: ebind_Inr Let_def split: sum.splits)
          with 2(6) [OF other None pipe False w(1) refl w(2,3)] show ?thesis
            by (auto intro!: ebind_tokens word_kind_ok [OF w(1)])
        qed
      qed
    qed
  qed
qed (simp add: lex.simps tokens_ok_def)

text \<open>C27. Every tree the parser returns is well formed: words, names and simple commands are not empty,
  assigned names are identifiers, the conditions of \<open>if\<close> and \<open>while\<close> are sequences, function bodies and process
  substitutions are blocks, a duplicated descriptor has no target, a here document comes only after the
  here operator, and every other redirection has a word or a block.\<close>

theorem rc_parse_well_formed:
  assumes "rc_parse source = Inr nodes"
  shows "list_all node_ok nodes"
proof -
  obtain body docs ts st where p: "lex 0 True body = Inr ts"
    "parse_script (script_fuel ts) \<lparr>ps_tokens = ts, ps_docs = docs\<rparr> = Inr (nodes, st)"
    using assms by (auto simp: rc_parse_def parse_tokens_def split: sum.splits prod.splits)
  have "makes (list_all node_ok) (parse_script (script_fuel ts))"
    unfolding parse_script_def by (rule makes_sequence) (rule rc_trees.command)
  moreover have "tokens_ok (ps_tokens \<lparr>ps_tokens = ts, ps_docs = docs\<rparr>)" using lex_tokens_ok [OF p(1)] by simp
  ultimately show ?thesis using p(2) unfolding makes_def by blast
qed

end
