(* ===== verification/Rc_Examples.thy ===== *)
theory Rc_Examples
  imports Rc_Props Rc_Types
begin

text \<open>
  The laws of the rc interpreter at concrete scripts on the in-memory host, and the scripts that behave
  otherwise than a reader of the language expects: temporary assignments that survive, output that is
  lost, an exit that is ignored, and functions that change when they are exported.
\<close>

section \<open>Running a script\<close>

definition run_script :: "fake_host \<Rightarrow> string \<Rightarrow> (rc_output \<times> fake_host rc_session) option" where
  "run_script h source = rc_eval_source 6 fake_ops source (fake_session h)"

definition stdout_of :: "fake_host \<Rightarrow> string \<Rightarrow> string option" where
  "stdout_of h source = map_option (\<lambda>(out, s). ro_stdout out) (run_script h source)"

definition variable_after :: "fake_host \<Rightarrow> string \<Rightarrow> string \<Rightarrow> string list option" where
  "variable_after h source name = map_option (\<lambda>(out, s). lookup_var s name) (run_script h source)"

section \<open>Surprises\<close>

text \<open>The output of the left side of a conjunction is lost.\<close>

lemma and_loses_output: "stdout_of fake_default ''echo a && echo b'' = Some [CHR ''b'', nl]"
  by code_simp

text \<open>An exit on the left side, in a condition or in a loop does not end the script.\<close>

lemma exit_in_and_ignored:
  "map_option (\<lambda>(out, s). (ro_stdout out, ro_exited out)) (run_script fake_default ''exit && echo b'') = Some ([CHR ''b'', nl], False)"
  by code_simp

definition plain :: "string list \<Rightarrow> node" where
  "plain ws = NSimple (SimpleCommand [] (map word_new ws) [])"

lemma exit_in_loop_ignored:
  "map_option (\<lambda>(out, s). ro_stdout out)
     (eval_node 3 fake_ops (NFor ''i'' [word_new ''a'', word_new ''b''] (NBlock [plain [''echo'', ''$i''], plain [''exit'']])) []
       (session_state fake_default)) = Some [CHR ''a'', nl, CHR ''b'', nl]"
  by code_simp

text \<open>A temporary assignment is undone after the command, but not when a redirection fails, and not when
  the same variable is assigned twice.\<close>

lemma assignment_undone: "variable_after fake_default ''x=a echo hi'' ''x'' = Some []"
  by code_simp

lemma assignment_survives_redirect: "variable_after fake_default ''x=a echo hi <missing'' ''x'' = Some [''a'']"
  by code_simp

lemma assignment_survives_repetition: "variable_after fake_default ''x=a x=b echo hi'' ''x'' = Some [''a'']"
  by code_simp

text \<open>A script that calls exit ends its caller, and one that does not parse leaves its name behind.\<close>

lemma script_exit_ends_caller:
  "map_option (\<lambda>(out, s). (ro_stdout out, ro_exited out)) (run_script (fake_with_file ''bin/s'' ''exit'' fake_default) ''s; echo after'')
   = Some ([], True)"
  by code_simp

lemma script_error_keeps_argv0: "variable_after (fake_with_file ''bin/s'' ''{'' fake_default) ''s'' ''0'' = Some [''bin/s'']"
  by code_simp

text \<open>An absolute pattern expands to names without the leading slash.\<close>

lemma absolute_glob_relative: "stdout_of (fake_with_file ''tmp/a'' [] fake_default) ''echo /tmp/*'' = Some (''tmp/a'' @ [nl])"
  by code_simp

text \<open>Printing drops the descriptor of a redirection, and an \<open>if not\<close> after a simple command is read back
  as arguments of that command: such functions change when they are exported.\<close>

lemma render_drops_descriptor: "render_redirect (Redirect fd ModeWrite target) = render_redirect (Redirect 1 ModeWrite target)"
  by (simp add: render_mode_def Let_def)

lemma render_if_not_ambiguous:
  "render_node (NIf c (plain [v]) (Some (plain [w]))) = render_node (NIf c (plain [v, ''if'', ''not'', w]) None)"
  by (simp add: plain_def render_word_def word_new_def)

text \<open>An empty list is published as the list of the empty string.\<close>

lemma empty_list_exported: "import_var (export_var []) = [[]]"
  by code_simp

section \<open>The laws at concrete scripts\<close>


lemma fake_session_reachable: "rc_reachable fake_ops (fake_session h)"
proof -
  have "session_new fake_ops h \<noteq> None"
    by (simp add: session_new_def rcbind_run import_host_environment_def publish_environment_def fake_ops_def default_host_def)
  then obtain s where "session_new fake_ops h = Some s" by blast
  then show ?thesis using reach_new [of fake_ops h s] by (simp add: fake_session_def)
qed


theorem note_handler_runs_witness:
  "\<exists>s out t. rc_reachable fake_ops s \<and> rc_deliver_note 3 fake_ops ''hup'' s = Some (out, t) \<and>
     (\<exists>u v. eval_node 3 fake_ops (NBlock [plain [''true'']]) [] u = Some (out, v)) \<and> s_notes t = []"
proof -
  have "map_option (\<lambda>(out, s). bt_get (s_functions s) ''sighup'') (rc_eval_source 3 fake_ops ''fn sighup {true}'' (fake_session fake_default)) =
      Some (Some (NBlock [plain [''true'']]))"
    by code_simp
  then obtain out s where r: "rc_eval_source 3 fake_ops ''fn sighup {true}'' (fake_session fake_default) = Some (out, s)"
    "bt_get (s_functions s) (''sig'' @ ''hup'') = Some (NBlock [plain [''true'']])" by auto
  have s: "rc_reachable fake_ops s" using reach_eval [OF fake_session_reachable r(1)] .
  have "map_option (\<lambda>(out, s). rc_deliver_note 3 fake_ops ''hup'' s \<noteq> None)
      (rc_eval_source 3 fake_ops ''fn sighup {true}'' (fake_session fake_default)) = Some True"
    by code_simp
  then obtain out' t where d: "rc_deliver_note 3 fake_ops ''hup'' s = Some (out', t)" using r(1) by auto
  then show ?thesis using note_handler_runs [OF s r(2) d] s by blast
qed

theorem while_cut_off_witness:
  "\<exists>t. eval_node 2 fake_ops (NWhile (NSequence []) NEmpty) [] (fake_session fake_default) =
     Some (output_failure ''loop'' (''rc: while loop iteration limit exceeded'' @ [nl]), t)"
proof -
  have c: "eval_node 1 fake_ops (NSequence []) [] s = Some (output_default, s)"
    "eval_node 1 fake_ops NEmpty [] s = Some (output_default, s)" for s
    by (simp_all add: eval_step_def eval_nodes_def)
  have "status_is_success (ro_status output_default)" by code_simp
  then show ?thesis
    using while_cut_off [of 1 fake_ops "NSequence []" NEmpty "[]" "fake_session fake_default"] c
    by (simp add: numeral_2_eq_2)
qed

theorem rc_parse_well_formed_witness:
  "\<exists>nodes. rc_parse ''x=a echo b >c'' = Inr nodes \<and> nodes \<noteq> [] \<and> list_all node_ok nodes"
proof -
  have "rc_parse ''x=a echo b >c'' =
      Inr [NSimple (SimpleCommand [\<lparr>as_name = ''x'', as_values = [word_new ''a'']\<rparr>] [word_new ''echo'', word_new ''b'']
        [Redirect 1 ModeWrite (Some (TargetWord (word_new ''c'')))])]"
    by code_simp
  then show ?thesis using rc_parse_well_formed by blast
qed

definition exporting :: "fake_host rc_session" where
  "exporting = (session_state fake_default)\<lparr>s_vars := [(''x'', [''a'', ''b''])], s_functions := [(''f'', NBlock [plain [''true'']])]\<rparr>"


end
