(* ===== verification/Spec2Isabelle.thy ===== *)
theory Spec2Isabelle
  imports Message_Laws Xattr_Write Listing Memfs_Corners Server_Laws Async_Laws Client_Memfs Namespace_Memfs Object_Files Metacache_Props Task_Props Rc_Examples
begin

text \<open>
  A verification development for \<^emph>\<open>star9\<close>, a Plan 9 inspired runtime in Rust: value types and paths
  (\<^verbatim>\<open>crates/star9-core\<close>), file systems behind one trait (\<^verbatim>\<open>crates/star9-fs\<close>), namespaces
  that bind them together (\<^verbatim>\<open>crates/star9-vfs\<close>), the 9P2000.L protocol that exports a file
  system over frames and mounts one on the other side (\<^verbatim>\<open>crates/star9-protocol\<close>), tasks that own a
  namespace and descriptors (\<^verbatim>\<open>crates/star9-task\<close>), and an interpreter of the rc shell language
  (\<^verbatim>\<open>crates/star9-rc\<close>).

  \<^bold>\<open>How the parts meet.\<close> Everything speaks the two traits \<open>FileSystem\<close> and \<open>FileHandle\<close>. The
  in-memory file system implements them over shared nodes; maps, unions and namespaces implement
  them over references to other file systems; the 9P server calls them for each request it decodes,
  with a table of fids in between; the 9P client implements them again by encoding requests, sending
  them over a transport and decoding the answers. The stream framing carries frames over a byte
  stream, and the asynchronous server runs requests on workers that a flush can cancel. The rc
  interpreter is apart from these: it parses scripts and evaluates them against a host interface.

  \<^bold>\<open>How the code is modelled.\<close> An operation is a function from a state to a result and a new state
  (\<open>op\<close> of \<open>Prelude\<close>). A result is a value, an error value of the program, or one of two faults: a panic,
  and not returning. A trait is a record of operations over a world \<open>'s\<close> and handles \<open>'h\<close>
  (\<open>file_handle\<close>, \<open>filesystem\<close>), so the server, the client, the composites and the namespace are
  parametric in the file systems they use. Integers keep their width; sizes and indices of type
  \<open>usize\<close> are natural numbers with the checks of a 64-bit target. Strings are byte strings with the
  UTF-8 condition \<open>valid_str\<close> where a \<open>String\<close> guarantees it. \<open>BTreeMap\<close> is an ordered association list.

  \<^bold>\<open>The theories.\<close>
  \<^item> \<open>Prelude\<close>, \<open>Rust_Std\<close>, \<open>Rust_Num\<close>, \<open>Rust_Text\<close>, \<open>Btree_Map\<close>: the operations and their combinators, the string and byte
    functions of the standard library the sources use, ordered maps with their interface.
  \<^item> \<open>Core\<close> (\<^verbatim>\<open>star9-core/src/lib.rs\<close>): errors, modes, metadata, open flags, contexts and the path
    functions, with the canonical form of paths.
  \<^item> \<open>Wire\<close>, \<open>Messages\<close> (\<^verbatim>\<open>star9-protocol/src/p9.rs\<close>): the encoder and decoder, every request and
    response, directory entries. \<open>Message_Laws\<close>: both codecs are exact inverses on the frames they accept.
  \<^item> \<open>Xattr_Write\<close>: the buffer for an extended attribute written in pieces, refined to a partial
    function from offsets to bytes.
  \<^item> \<open>Filesystem\<close> (\<^verbatim>\<open>star9-fs/src/lib.rs\<close>): the traits, their default methods, the free functions,
    directory handles, and the contract \<open>fs_contract\<close>. \<open>Node\<close>, \<open>Memfs\<close>: nodes and the in-memory file
    system. \<open>Memfs_Laws\<close>, \<open>Memfs_Props\<close>, \<open>Listing\<close>: the invariant in every reachable state, renaming,
    hard links, reading back what was written, listings and paging. \<open>Memfs_Corners\<close>: runs that surprise.
  \<^item> \<open>Composite\<close>: \<open>MapFs\<close> and \<open>UnionFs\<close>. \<open>Composite_Laws\<close>: they keep what their parts keep.
  \<^item> \<open>Namespace\<close> (\<^verbatim>\<open>star9-vfs/src/lib.rs\<close>): bindings, resolution and routing. \<open>Namespace_Laws\<close>: the
    invariant of the table, which mount points a name resolves to and in which order, that a name stays
    below the target it is routed to, that unbinding undoes binding, and that a mounted file system
    behaves as itself. \<open>Namespace_Memfs\<close>: instances over in-memory file systems, and three surprises.
  \<^item> \<open>Pipes\<close> (\<^verbatim>\<open>star9-fs/src/lib.rs\<close>): fields, control files, pipes and signal files. \<open>Pipes_Laws\<close>: pipes
    and the buffers of a signal file are byte queues, so every interleaving of calls delivers each byte
    once and in order; a closed pipe drains; a field reads back what was written to it.
  \<^item> \<open>Http_Meta\<close>, \<open>Object_Store\<close> (\<^verbatim>\<open>star9-fs/src/lib.rs\<close>): metadata in headers, the trait \<open>ObjectStore\<close> with its
    in-memory store, and \<open>R2Fs\<close> with its handles, over the contract \<open>object_contract\<close>. \<open>Object_Laws\<close>: a
    listing is read back as it was written, and clients that change a directory at once lose no change.
    \<open>Object_Files\<close>: a file is read back as it was written; runs that lose data.
  \<^item> \<open>Metacache\<close> (\<^verbatim>\<open>star9-fs/src/metacache.rs\<close>): the metadata cache over any file system. \<open>Metacache_Laws\<close>: it keeps
    what the file system below keeps. \<open>Metacache_Props\<close>: how old an answer can be in any run, that a change
    made through the cache is seen at once, and the answers that have passed.
  \<^item> \<open>Tasks\<close>, \<open>Task_Fs\<close> (\<^verbatim>\<open>star9-task/src/lib.rs\<close>): tasks, descriptors, drivers, the table of tasks and the
    task file system. \<open>Task_Laws\<close>: one invariant that every operation and every file keeps. \<open>Task_Props\<close>: a
    server over the tasks, allocation and lookup, forked namespaces, descriptors, and two operations that
    do less than their names say.
  \<^item> \<open>Ninep_Util\<close>, \<open>Ninep_Server\<close>: error numbers, modes, attributes, name checks; the fid table and the
    handler of every request. \<open>Server_Laws\<close>: isolation of fids, walking, clunking, answers, and that any
    file system that satisfies \<open>fs_contract\<close> keeps its invariant whatever frames arrive.
  \<^item> \<open>Ninep_Stream\<close>: reading and writing frames and the serving loop, with a reader given by the events
    of its \<open>read\<close> calls. Frames survive every way of cutting them into reads.
  \<^item> \<open>Async_Server\<close>, \<open>Async_Laws\<close>: the asynchronous server as a step relation whose steps are the
    sections between locks; no request is answered twice or after its cancellation, and one that
    nobody cancels can be answered.
  \<^item> \<open>Ninep_Client\<close>, \<open>Client_Laws\<close>, \<open>Client_Readdir\<close>, \<open>Client_Memfs\<close>: the client, its open files and both
    transports; a call over the loopback is the server's handler, the client leaves no fid behind, and
    \<open>stat\<close> and directory reading return what the exported file system holds.
  \<^item> \<open>Rc_Syntax\<close>, \<open>Rc_Parser\<close> (\<^verbatim>\<open>star9-rc/src/lib.rs\<close>): statuses, outputs, the syntax tree, here
    documents, the lexer and the parser. \<open>Rc_Parser_Laws\<close>: parsing always ends. \<open>Rc_Types\<close>: the trees are
    well formed. \<open>Rc_Words\<close>: patterns, which match exactly what their declarative meaning says, and the
    printing of trees. \<open>Rc_Session\<close>, \<open>Rc_Expand\<close>, \<open>Rc_Eval\<close>, \<open>Rc_Interp\<close>: the session, the environment, the
    expansion of words, process graphs, redirections, builtin commands and the evaluation of nodes, over
    any host. \<open>Rc_Laws\<close>: one walk through the evaluator for an arbitrary relation between sessions.
    \<open>Rc_Props\<close>: what it gives for the fuel, the job table and note handlers, the limit of loops, and the round
    trip of the environment. \<open>Rc_Fake\<close>, \<open>Rc_Examples\<close>: the in-memory host of the crate's tests, the laws at
    concrete scripts, and scripts that behave otherwise than one expects.

  \<^bold>\<open>Fuel.\<close> Loops that a file system or a peer could keep going carry a bound, and running out of it is
  the fault \<open>Diverge\<close>, never a result: \<open>read_file\<close>, \<open>remove_all\<close> and \<open>copy_fs\<close> over an arbitrary file system,
  and the pages of a directory read by the client, for which one page more than entries is shown to
  be enough. Following symbolic links in the in-memory file system uses one link more than there are
  nodes, and is shown to be decided by that many: what has not ended by then never ends. The rc parser
  has two units of fuel more than there are tokens, which is shown to be enough. The evaluation of
  scripts has fuel for the depth of nested evaluations; a result does not depend on it, and a script that
  calls itself for ever has none. \<open>open\<close> and \<open>stat\<close> of \<open>R2Fs\<close> call themselves on the target of a link without
  a limit; their fuel is the number of links.

  \<^bold>\<open>What is simplified.\<close> A method call and a request handler are atomic; the asynchronous server
  interleaves whole handlers. Locks that panic when poisoned are not modelled, and a run stops at a
  panic. Dropping a handle does nothing except for the client's files, whose \<open>Drop\<close> is modelled where
  they go out of scope. Memory is unlimited apart from the capacity check of a vector. The clock is a
  field of the state. The \<open>watch\<close> method is left out of the trait. Scripts of the rc language are ASCII,
  so that the positions of characters and of bytes coincide.

  \<^bold>\<open>Not modelled\<close>: the other back ends (local files, the HTTP file system, the S3 adapter of the object store, tar
  archives), synchronisation, the shells, the WASI and worker runtimes, devices, the web bindings and
  the command line.
\<close>

section \<open>Serving file systems\<close>

text \<open>
  C14. Serving file systems over 9P: after any sequence of frames, well-formed or not, to a server
  that exports an in-memory file system, a union of in-memory file systems, a map of them or one behind a
  metadata cache, every file system behind it satisfies its invariant, every fid stands for a canonical path, and every
  fid that collects an extended attribute holds a consistent buffer. The rename onto the root that
  breaks the invariant of an in-memory file system cannot be asked for through the server.
\<close>
theorem served_memfs_inv:
  "server_inv memfs_inv
     (fold (\<lambda>frame sv. snd (handle_frame memfs_ops frame sv)) frames (server_new now (memfs_new now))) \<and>
   server_inv (\<lambda>w. \<forall>k :: nat. memfs_inv (snd w k))
     (fold (\<lambda>frame sv. snd (handle_frame (unionfs_ops (fs_at memfs_ops)) frame sv)) frames
       (server_new now (unionfs_new layers, \<lambda>k. memfs_new now))) \<and>
   server_inv (\<lambda>w. \<forall>k :: nat. memfs_inv (snd w k))
     (fold (\<lambda>frame sv. snd (handle_frame (mapfs_ops (fs_at memfs_ops)) frame sv)) frames
       (server_new now (entries, \<lambda>k. memfs_new now))) \<and>
   server_inv (cached_inv memfs_inv)
     (fold (\<lambda>frame sv. snd (handle_frame (metacache_ops memfs_ops) frame sv)) frames
       (server_new now (metacache_with_ttl (memfs_new now) instant ttl)))"
  by (intro conjI fs_contract.frames_keep [OF mem.fs_contract_axioms]
        fs_contract.frames_keep [OF mems.unionfs_contract] fs_contract.frames_keep [OF mems.mapfs_contract]
        fs_contract.frames_keep [OF cached.fs_contract_axioms])
     (simp_all add: memfs_new_inv cached_inv_def cache_ok_def metacache_with_ttl_def)

end
